(* ===== verification/Prelude.thy ===== *)
theory Prelude
  imports Main
begin

text \<open>
  Shared vocabulary of the development: the Python exceptions the modelled code raises, the
  two result types used throughout (\<open>'a result\<close> for pure functions that may raise,
  \<open>('s, 'a) exec\<close> for code that also changes state, where an exception leaves the changes
  made so far in place), the string operations of \<open>str\<close> the sources use, Python's
  \<open>round\<close> on exact values, and list lemmas several components need.
  Strings are lists of \<open>char\<close>; the models treat them as the ASCII strings the sources
  compare against.
\<close>

named_theorems exec_simps \<open>unfolding rules of the state-and-exception combinators\<close>
named_theorems model_defs \<open>definitions that component proofs unfold together\<close>

subsection \<open>Exceptions and results\<close>

datatype py_exn =
    ValueError string
  | TypeError string
  | KeyError string
  | AttributeError string
  | RuntimeError string
  | NotImplementedError string
  | PermissionError string
  | TimeoutError string
  | OSError string
  | NoRestorePointError string
  | HTTPException nat string
  | UnsafeUrlError string
  | ActivityError string
  | ExternalError string

type_synonym 'a result = "py_exn + 'a"

fun exn_text :: "py_exn \<Rightarrow> string" where
  "exn_text (ValueError s) = s"
| "exn_text (TypeError s) = s"
| "exn_text (KeyError s) = s"
| "exn_text (AttributeError s) = s"
| "exn_text (RuntimeError s) = s"
| "exn_text (NotImplementedError s) = s"
| "exn_text (PermissionError s) = s"
| "exn_text (TimeoutError s) = s"
| "exn_text (OSError s) = s"
| "exn_text (NoRestorePointError s) = s"
| "exn_text (HTTPException _ s) = s"
| "exn_text (UnsafeUrlError s) = s"
| "exn_text (ActivityError s) = s"
| "exn_text (ExternalError s) = s"

fun and_then :: "'a result \<Rightarrow> ('a \<Rightarrow> 'b result) \<Rightarrow> 'b result" where
  "and_then (Inl e) f = Inl e"
| "and_then (Inr x) f = f x"

lemma and_then_Inr: "and_then r f = Inr y \<longleftrightarrow> (\<exists>x. r = Inr x \<and> f x = Inr y)"
  by (cases r) auto

lemma and_then_Inl: "and_then r f = Inl e \<longleftrightarrow> r = Inl e \<or> (\<exists>x. r = Inr x \<and> f x = Inl e)"
  by (cases r) auto

fun map_result :: "('a \<Rightarrow> 'b result) \<Rightarrow> 'a list \<Rightarrow> 'b list result" where
  "map_result f [] = Inr []"
| "map_result f (x # xs) = and_then (f x) (\<lambda>y. and_then (map_result f xs) (\<lambda>ys. Inr (y # ys)))"

lemma map_result_total: "(\<And>x. x \<in> set xs \<Longrightarrow> f x = Inr (g x)) \<Longrightarrow> map_result f xs = Inr (map g xs)"
  by (induction xs) auto

subsection \<open>Stateful code with exceptions\<close>

type_synonym ('s, 'a) exec = "'s \<Rightarrow> 'a result \<times> 's"

definition ret :: "'a \<Rightarrow> ('s, 'a) exec" where
  "ret x s = (Inr x, s)"

definition raise :: "py_exn \<Rightarrow> ('s, 'a) exec" where
  "raise e s = (Inl e, s)"

definition seq :: "('s, 'a) exec \<Rightarrow> ('a \<Rightarrow> ('s, 'b) exec) \<Rightarrow> ('s, 'b) exec" where
  "seq m f s = (case m s of (Inl e, s') \<Rightarrow> (Inl e, s') | (Inr x, s') \<Rightarrow> f x s')"

text \<open>\<open>try m except Exception as e: h e\<close>\<close>

definition try_except :: "('s, 'a) exec \<Rightarrow> (py_exn \<Rightarrow> ('s, 'a) exec) \<Rightarrow> ('s, 'a) exec" where
  "try_except m h s = (case m s of (Inl e, s') \<Rightarrow> h e s' | (Inr x, s') \<Rightarrow> (Inr x, s'))"

definition update :: "('s \<Rightarrow> 's) \<Rightarrow> ('s, unit) exec" where
  "update f s = (Inr (), f s)"

definition gets :: "('s \<Rightarrow> 'a) \<Rightarrow> ('s, 'a) exec" where
  "gets f s = (Inr (f s), s)"

definition lift_result :: "'a result \<Rightarrow> ('s, 'a) exec" where
  "lift_result r s = (r, s)"

declare ret_def [exec_simps] raise_def [exec_simps] seq_def [exec_simps]
  try_except_def [exec_simps] update_def [exec_simps] gets_def [exec_simps]
  lift_result_def [exec_simps]

lemma seq_ret [simp]: "seq (ret x) f = f x"
  by (rule ext) (simp add: exec_simps)

lemma seq_raise [simp]: "seq (raise e) f = raise e"
  by (rule ext) (simp add: exec_simps)

lemma seq_assoc: "seq (seq m f) g = seq m (\<lambda>x. seq (f x) g)"
  by (rule ext) (simp add: seq_def split: prod.splits sum.splits)

text \<open>\<open>try: m finally: u\<close> where \<open>u\<close> only changes the state.\<close>

definition finally_do :: "('s, 'a) exec \<Rightarrow> ('s \<Rightarrow> 's) \<Rightarrow> ('s, 'a) exec" where
  "finally_do m u s = (case m s of (r, s') \<Rightarrow> (r, u s'))"

declare finally_do_def [exec_simps]

text \<open>
  \<open>try: m finally: f\<close> where \<open>f\<close> may raise: its exception replaces the one of \<open>m\<close>,
  and an exception of \<open>m\<close> is raised again once \<open>f\<close> has returned.
\<close>

definition finally_run :: "('s, 'a) exec \<Rightarrow> ('s, 'b) exec \<Rightarrow> ('s, 'b) exec" where
  "finally_run m f s =
     (case m s of
        (Inr x, s') \<Rightarrow> f s'
      | (Inl e, s') \<Rightarrow> (case f s' of (Inl e', s'') \<Rightarrow> (Inl e', s'') | (Inr y, s'') \<Rightarrow> (Inl e, s'')))"

declare finally_run_def [exec_simps]

subsection \<open>Weakest preconditions\<close>

text \<open>
  \<open>wp m Q E s\<close>: from \<open>s\<close>, \<open>m\<close> either returns with \<open>Q\<close> or raises
  with \<open>E\<close>. The equations of \<open>wp_simps\<close> compute it through the combinators, so a
  property of a handler reduces to facts about the external calls it makes.
\<close>

named_theorems wp_simps \<open>weakest preconditions of the combinators\<close>

definition wp :: "('s, 'a) exec \<Rightarrow> ('a \<Rightarrow> 's \<Rightarrow> bool) \<Rightarrow> (py_exn \<Rightarrow> 's \<Rightarrow> bool) \<Rightarrow> 's \<Rightarrow> bool" where
  "wp m Q E s = (case m s of (Inr x, s') \<Rightarrow> Q x s' | (Inl e, s') \<Rightarrow> E e s')"

lemma wp_ret [wp_simps]: "wp (ret x) Q E = Q x"
  by (rule ext) (simp add: wp_def ret_def)

lemma wp_raise [wp_simps]: "wp (raise e) Q E = E e"
  by (rule ext) (simp add: wp_def raise_def)

lemma wp_seq [wp_simps]: "wp (seq m f) Q E = wp m (\<lambda>x. wp (f x) Q E) E"
  by (rule ext) (auto simp: wp_def seq_def split: prod.splits sum.splits)

lemma wp_try [wp_simps]: "wp (try_except m h) Q E = wp m Q (\<lambda>e. wp (h e) Q E)"
  by (rule ext) (auto simp: wp_def try_except_def split: prod.splits sum.splits)

lemma wp_finally [wp_simps]: "wp (finally_do m u) Q E = wp m (\<lambda>x s. Q x (u s)) (\<lambda>e s. E e (u s))"
  by (rule ext) (auto simp: wp_def finally_do_def split: prod.splits sum.splits)

lemma wp_finally_run [wp_simps]:
  "wp (finally_run m f) Q E = wp m (\<lambda>_. wp f Q E) (\<lambda>e. wp f (\<lambda>_. E e) E)"
  by (rule ext) (auto simp: wp_def finally_run_def split: prod.splits sum.splits)

lemma wp_update [wp_simps]: "wp (update f) Q E = (\<lambda>s. Q () (f s))"
  by (rule ext) (simp add: wp_def update_def)

lemma wp_gets [wp_simps]: "wp (gets f) Q E = (\<lambda>s. Q (f s) s)"
  by (rule ext) (simp add: wp_def gets_def)

lemma wp_lift_result [wp_simps]:
  "wp (lift_result r) Q E = (case r of Inr x \<Rightarrow> Q x | Inl e \<Rightarrow> E e)"
  by (rule ext) (simp add: wp_def lift_result_def split: sum.splits)

lemma wp_if [wp_simps]: "wp (if b then m else m') Q E = (if b then wp m Q E else wp m' Q E)"
  by simp

lemma wp_mono:
  "wp m Q E s \<Longrightarrow> (\<And>x s'. Q x s' \<Longrightarrow> Q' x s') \<Longrightarrow> (\<And>e s'. E e s' \<Longrightarrow> E' e s') \<Longrightarrow> wp m Q' E' s"
  by (auto simp: wp_def split: prod.splits sum.splits)

lemma wp_any: "(\<And>x s'. Q x s') \<Longrightarrow> (\<And>e s'. E e s') \<Longrightarrow> wp m Q E s"
  by (auto simp: wp_def split: prod.splits sum.splits)

text \<open>With \<open>\<lambda>_ _. False\<close> as the second condition, \<open>wp\<close> says that the code returns.\<close>

lemma wp_returns: "wp m Q (\<lambda>_ _. False) s \<longleftrightarrow> (\<exists>x s'. m s = (Inr x, s') \<and> Q x s')"
  by (auto simp: wp_def split: prod.splits sum.splits)

lemma wp_raises: "wp m (\<lambda>_ _. False) E s \<longleftrightarrow> (\<exists>e s'. m s = (Inl e, s') \<and> E e s')"
  by (auto simp: wp_def split: prod.splits sum.splits)

lemma wp_conj: "wp m Q E s \<Longrightarrow> wp m Q' E' s \<Longrightarrow> wp m (\<lambda>x s. Q x s \<and> Q' x s) (\<lambda>e s. E e s \<and> E' e s) s"
  by (auto simp: wp_def split: prod.splits sum.splits)

lemma wp_Inr: "wp m Q E s \<Longrightarrow> m s = (Inr x, s') \<Longrightarrow> Q x s'"
  by (simp add: wp_def)

lemma wp_Inl: "wp m Q E s \<Longrightarrow> m s = (Inl e, s') \<Longrightarrow> E e s'"
  by (simp add: wp_def)

subsection \<open>Loops over lists\<close>

fun for_each :: "('a \<Rightarrow> ('s, unit) exec) \<Rightarrow> 'a list \<Rightarrow> ('s, unit) exec" where
  "for_each f [] = ret ()"
| "for_each f (x # xs) = seq (f x) (\<lambda>_. for_each f xs)"

text \<open>An invariant every iteration keeps is kept by the loop, also when it stops with an exception.\<close>

lemma for_each_invariant:
  assumes "\<And>x s. x \<in> set xs \<Longrightarrow> P s \<Longrightarrow> P (snd (f x s))" and "P s"
  shows "P (snd (for_each f xs s))"
  using assms
proof (induction xs arbitrary: s)
  case Nil
  then show ?case by (simp add: exec_simps)
next
  case (Cons x xs)
  then have step: "P (snd (f x s))" by simp
  then have "P (snd (for_each f xs (snd (f x s))))"
    using Cons.IH Cons.prems(1) by simp
  with step show ?case by (auto simp: seq_def split: prod.splits sum.splits)
qed

lemma for_each_total:
  assumes "\<And>x s. fst (f x s) = Inr ()"
  shows "for_each f xs s = (Inr (), fold (\<lambda>x s. snd (f x s)) xs s)"
proof (induction xs arbitrary: s)
  case Nil
  then show ?case by (simp add: exec_simps)
next
  case (Cons x xs)
  have "f x s = (Inr (), snd (f x s))"
    using assms [of x s] by (metis prod.collapse)
  then have "for_each f (x # xs) s = for_each f xs (snd (f x s))"
    by (metis (no_types, lifting) case_prod_conv for_each.simps(2) old.sum.simps(6) seq_def)
  with Cons.IH show ?case by simp
qed

subsection \<open>Strings\<close>

definition lower_char :: "char \<Rightarrow> char" where
  "lower_char c = (let n = (of_char c :: nat) in if 65 \<le> n \<and> n \<le> 90 then char_of (n + 32) else c)"

definition lower :: "string \<Rightarrow> string" where
  "lower s = map lower_char s"

definition upper_char :: "char \<Rightarrow> char" where
  "upper_char c = (let n = (of_char c :: nat) in if 97 \<le> n \<and> n \<le> 122 then char_of (n - 32) else c)"

definition upper :: "string \<Rightarrow> string" where
  "upper s = map upper_char s"

definition is_space :: "char \<Rightarrow> bool" where
  "is_space c = (let n = (of_char c :: nat) in (9 \<le> n \<and> n \<le> 13) \<or> (28 \<le> n \<and> n \<le> 32))"

definition lstrip :: "string \<Rightarrow> string" where
  "lstrip s = dropWhile is_space s"

definition strip :: "string \<Rightarrow> string" where
  "strip s = rev (dropWhile is_space (rev (dropWhile is_space s)))"

text \<open>\<open>s.rstrip("/")\<close>\<close>

definition rstrip_slash :: "string \<Rightarrow> string" where
  "rstrip_slash s = rev (dropWhile (\<lambda>c. c = CHR ''/'') (rev s))"

text \<open>\<open>s.split(c)\<close> for a one-character separator: never the empty list.\<close>

fun split_on :: "char \<Rightarrow> string \<Rightarrow> string list" where
  "split_on c [] = [[]]"
| "split_on c (x # xs) =
     (if x = c then [] # split_on c xs
      else (case split_on c xs of [] \<Rightarrow> [[x]] | w # ws \<Rightarrow> (x # w) # ws))"

lemma split_on_nonempty [simp]: "split_on c s \<noteq> []"
  by (induction s) (auto split: list.splits)

definition startswith :: "string \<Rightarrow> string \<Rightarrow> bool" where
  "startswith s p = (take (length p) s = p)"

lemma startswith_append [simp]: "startswith (p @ s) p"
  by (simp add: startswith_def)

lemma startswith_iff: "startswith s p \<longleftrightarrow> (\<exists>r. s = p @ r)"
  unfolding startswith_def by (metis append_eq_conv_conj append_take_drop_id)

text \<open>\<open>p in s\<close> on strings.\<close>

fun contains :: "string \<Rightarrow> string \<Rightarrow> bool" where
  "contains [] p = (p = [])"
| "contains (x # xs) p = (startswith (x # xs) p \<or> contains xs p)"

lemma contains_iff: "contains s p \<longleftrightarrow> (\<exists>a b. s = a @ p @ b)"
proof (induction s)
  case Nil
  then show ?case by auto
next
  case (Cons x xs)
  show ?case
  proof
    assume "contains (x # xs) p"
    then consider "startswith (x # xs) p" | "contains xs p" by auto
    then show "\<exists>a b. x # xs = a @ p @ b"
    proof cases
      case 1
      then obtain r where "x # xs = [] @ p @ r" by (auto simp: startswith_iff)
      then show ?thesis by blast
    next
      case 2
      with Cons.IH obtain a b where "xs = a @ p @ b" by auto
      then have "x # xs = (x # a) @ p @ b" by simp
      then show ?thesis by blast
    qed
  next
    assume "\<exists>a b. x # xs = a @ p @ b"
    then obtain a b where ab: "x # xs = a @ p @ b" by blast
    show "contains (x # xs) p"
    proof (cases a)
      case Nil
      with ab have "startswith (x # xs) p" by (auto simp: startswith_iff)
      then show ?thesis by simp
    next
      case (Cons y a')
      with ab have "xs = a' @ p @ b" by simp
      with Cons.IH show ?thesis by auto
    qed
  qed
qed

fun join :: "string \<Rightarrow> string list \<Rightarrow> string" where
  "join sep [] = []"
| "join sep [x] = x"
| "join sep (x # y # zs) = x @ sep @ join sep (y # zs)"

text \<open>Decimal printing, \<open>str(n)\<close>.\<close>

definition digit_char :: "int \<Rightarrow> char" where
  "digit_char d = char_of (48 + d)"

function show_digits :: "int \<Rightarrow> string" where
  "show_digits n = (if n < 10 then [digit_char n] else show_digits (n div 10) @ [digit_char (n mod 10)])"
  by pat_completeness auto
termination
  by (relation "measure nat") auto

declare show_digits.simps [simp del]

definition show_int :: "int \<Rightarrow> string" where
  "show_int i = (if i < 0 then CHR ''-'' # show_digits (- i) else show_digits i)"

definition show_nat :: "nat \<Rightarrow> string" where
  "show_nat n = show_digits (int n)"

text \<open>
  \<open>int(s)\<close> on a string: surrounding whitespace, an optional sign, then digits in which
  single underscores may separate digits; anything else is a \<open>ValueError\<close>.
\<close>

definition is_digit :: "char \<Rightarrow> bool" where
  "is_digit c = (let n = (of_char c :: nat) in 48 \<le> n \<and> n \<le> 57)"

definition digit_val :: "char \<Rightarrow> int" where
  "digit_val c = int (of_char c) - 48"

fun digits_value :: "bool \<Rightarrow> int \<Rightarrow> string \<Rightarrow> int option" where
  "digits_value after_digit acc [] = (if after_digit then Some acc else None)"
| "digits_value after_digit acc (c # cs) =
     (if is_digit c then digits_value True (10 * acc + digit_val c) cs
      else if c = CHR ''_'' \<and> after_digit then digits_value False acc cs
      else None)"

definition int_of_str :: "string \<Rightarrow> int option" where
  "int_of_str s =
     (case strip s of
        [] \<Rightarrow> None
      | c # cs \<Rightarrow>
          if c = CHR ''-'' then map_option uminus (digits_value False 0 cs)
          else if c = CHR ''+'' then digits_value False 0 cs
          else digits_value False 0 (c # cs))"

subsection \<open>Lists\<close>

text \<open>\<open>list.remove(x)\<close>: the first equal element, as \<open>remove1\<close>; \<open>xs[-n:]\<close>-style slices.\<close>

definition first_match :: "('a \<Rightarrow> bool) \<Rightarrow> 'a list \<Rightarrow> 'a option" where
  "first_match P xs = List.find P xs"

definition count_if :: "('a \<Rightarrow> bool) \<Rightarrow> 'a list \<Rightarrow> nat" where
  "count_if P xs = length (filter P xs)"

lemma count_if_le_length [simp]: "count_if P xs \<le> length xs"
  by (simp add: count_if_def)

lemma count_if_map: "count_if P (map f xs) = count_if (\<lambda>x. P (f x)) xs"
  by (simp add: count_if_def filter_map comp_def)

lemma count_if_Nil [simp]: "count_if P [] = 0"
  by (simp add: count_if_def)

lemma count_if_Cons [simp]: "count_if P (x # xs) = (if P x then Suc (count_if P xs) else count_if P xs)"
  by (simp add: count_if_def)

lemma count_if_append [simp]: "count_if P (xs @ ys) = count_if P xs + count_if P ys"
  by (simp add: count_if_def)

subsection \<open>Truth values\<close>

text \<open>\<open>x or d\<close> where \<open>x\<close> may be \<open>None\<close> and the empty string is falsy.\<close>

definition str_or :: "string option \<Rightarrow> string \<Rightarrow> string" where
  "str_or x d = (case x of None \<Rightarrow> d | Some s \<Rightarrow> if s = [] then d else s)"

definition int_or :: "int option \<Rightarrow> int \<Rightarrow> int" where
  "int_or x d = (case x of None \<Rightarrow> d | Some n \<Rightarrow> if n = 0 then d else n)"

end
