(* ===== verification/PyFloat.thy ===== *)
theory PyFloat
  imports Prelude "HOL-Library.Log_Nat"
begin

text \<open>
  Python's \<open>float\<close> arithmetic over exact rationals. A float is the rational it denotes;
  every operation computes the exact result and rounds it with \<open>fl\<close>, round to nearest
  with ties to even on a 53-bit significand (IEEE 754 binary64, as CPython uses). The exponent
  range is not bounded in the model: the quantities of this program (percentages, minutes,
  prices) stay far from overflow and from subnormal numbers. \<open>py_round\<close> is Python's
  one-argument \<open>round\<close> (half to even, exact on the float it is given) and
  \<open>round_dec\<close> the two-argument one.

  The interface \<open>rounding\<close> states what both roundings promise (they are monotone and fix
  the integers of a range); the bounds every score in the program needs are proved once from it.
\<close>

subsection \<open>The rounding interface\<close>

locale rounding =
  fixes r :: "rat \<Rightarrow> rat" and N :: int
  assumes mono: "x \<le> y \<Longrightarrow> r x \<le> r y"
    and fixes_int: "\<bar>n\<bar> \<le> N \<Longrightarrow> r (of_int n) = of_int n"
begin

lemma le_int: "x \<le> of_int b \<Longrightarrow> \<bar>b\<bar> \<le> N \<Longrightarrow> r x \<le> of_int b"
  using mono [of x "of_int b"] fixes_int [of b] by simp

lemma ge_int: "of_int a \<le> x \<Longrightarrow> \<bar>a\<bar> \<le> N \<Longrightarrow> of_int a \<le> r x"
  using mono [of "of_int a" x] fixes_int [of a] by simp

lemma within: "of_int a \<le> x \<Longrightarrow> x \<le> of_int b \<Longrightarrow> \<bar>a\<bar> \<le> N \<Longrightarrow> \<bar>b\<bar> \<le> N
    \<Longrightarrow> of_int a \<le> r x \<and> r x \<le> of_int b"
  by (simp add: le_int ge_int)

lemma nonneg: "0 \<le> N \<Longrightarrow> 0 \<le> x \<Longrightarrow> 0 \<le> r x"
  using ge_int [of 0 x] by simp

end

subsection \<open>Rounding to an integer, half to even\<close>

definition py_round :: "rat \<Rightarrow> int" where
  "py_round x =
     (let f = \<lfloor>x\<rfloor>; d = x - of_int f
      in if d < 1/2 then f else if 1/2 < d then f + 1 else if even f then f else f + 1)"

lemma py_round_of_int [simp]: "py_round (of_int n) = n"
  by (simp add: py_round_def Let_def)

lemma py_round_bounds: "x - 1/2 \<le> of_int (py_round x) \<and> of_int (py_round x) \<le> x + 1/2"
proof -
  define f where "f = \<lfloor>x\<rfloor>"
  have "of_int f \<le> x" "x < of_int f + 1"
    unfolding f_def by linarith+
  then show ?thesis
    by (auto simp: py_round_def Let_def f_def [symmetric])
qed

lemma py_round_mono: "x \<le> y \<Longrightarrow> py_round x \<le> py_round y"
proof -
  assume xy: "x \<le> y"
  define f g where "f = \<lfloor>x\<rfloor>" and "g = \<lfloor>y\<rfloor>"
  have f: "of_int f \<le> x" "x < of_int f + 1" and g: "of_int g \<le> y" "y < of_int g + 1"
    unfolding f_def g_def by linarith+
  have fg: "f \<le> g" using xy by (simp add: f_def g_def floor_mono)
  show ?thesis
  proof (cases "f = g")
    case True
    with xy f g show ?thesis
      by (simp add: py_round_def Let_def f_def [symmetric] g_def [symmetric])
  next
    case False
    with fg have "f + 1 \<le> g" by simp
    moreover have "py_round x \<le> f + 1" "g \<le> py_round y"
      by (simp_all add: py_round_def Let_def f_def [symmetric] g_def [symmetric])
    ultimately show ?thesis by linarith
  qed
qed

lemma py_round_le: "x \<le> of_int n \<Longrightarrow> py_round x \<le> n"
  using py_round_mono [of x "of_int n"] by simp

lemma py_round_ge: "of_int n \<le> x \<Longrightarrow> n \<le> py_round x"
  using py_round_mono [of "of_int n" x] by simp

lemma py_round_minus: "py_round (- x) = - py_round x"
proof -
  define f where "f = \<lfloor>x\<rfloor>"
  have f: "of_int f \<le> x" "x < of_int f + 1" unfolding f_def by linarith+
  show ?thesis
  proof (cases "x = of_int f")
    case True
    then have "py_round x = f" "py_round (- x) = - f"
      using py_round_of_int [of "- f"] by simp_all
    then show ?thesis by simp
  next
    case False
    with f have "\<lfloor>- x\<rfloor> = - f - 1" by (intro floor_unique) auto
    with False f show ?thesis
      by (auto simp: py_round_def Let_def f_def [symmetric])
  qed
qed

subsection \<open>The binary exponent\<close>

text \<open>\<open>bexp x\<close> is the \<open>e\<close> with \<open>2 powi e \<le> x < 2 powi (e + 1)\<close>, for positive \<open>x\<close>.\<close>

definition bexp :: "rat \<Rightarrow> int" where
  "bexp x = (let (a, b) = quotient_of x; k = bitlen a - bitlen b
             in if 2 powi k \<le> x then k else k - 1)"

lemma bitlen_rat: "0 < n \<Longrightarrow> 2 powi (bitlen n - 1) \<le> (of_int n :: rat) \<and> (of_int n :: rat) < 2 powi bitlen n"
proof -
  assume n: "0 < n"
  then have b: "bitlen n \<ge> 1"
    by (metis bitlen_eq_zero_iff bitlen_nonneg int_one_le_iff_zero_less order_le_less not_less)
  from n have "2 ^ nat (bitlen n - 1) \<le> n" "n < 2 ^ nat (bitlen n)"
    using bitlen_bounds by auto
  then have "(of_int (2 ^ nat (bitlen n - 1)) :: rat) \<le> of_int n" "(of_int n :: rat) < of_int (2 ^ nat (bitlen n))"
    by (simp_all only: of_int_le_iff of_int_less_iff)
  with b show ?thesis by (simp add: power_int_def)
qed

lemma bexp_bounds:
  assumes "0 < x"
  shows "2 powi bexp x \<le> x" and "x < 2 powi (bexp x + 1)"
proof -
  obtain a b where q: "quotient_of x = (a, b)" by (cases "quotient_of x")
  have b: "0 < b" and x: "x = of_int a / of_int b"
    using q quotient_of_denom_pos quotient_of_div by blast+
  from assms x b have a: "0 < a" by (simp add: zero_less_divide_iff)
  define k where "k = bitlen a - bitlen b"
  note A = bitlen_rat [OF a] and B = bitlen_rat [OF b]
  have "of_int a < (2 powi bitlen a :: rat)" and "2 powi (bitlen b - 1) \<le> (of_int b :: rat)"
    using A B by auto
  then have "x < 2 powi bitlen a / 2 powi (bitlen b - 1)"
    unfolding x by (intro frac_less) (use a b in \<open>auto\<close>)
  also have "\<dots> = 2 powi (k + 1)"
    by (simp add: power_int_diff [symmetric] k_def algebra_simps)
  finally have up: "x < 2 powi (k + 1)" .
  have "2 powi (bitlen a - 1) \<le> (of_int a :: rat)" and "of_int b < (2 powi bitlen b :: rat)"
    using A B by auto
  then have "2 powi (bitlen a - 1) / 2 powi bitlen b \<le> x"
    unfolding x by (intro frac_le) (use a b in \<open>auto\<close>)
  moreover have "2 powi (bitlen a - 1) / 2 powi bitlen b = (2 powi (k - 1) :: rat)"
    by (simp add: power_int_diff [symmetric] k_def algebra_simps)
  ultimately have lo: "2 powi (k - 1) \<le> x" by simp
  have e: "bexp x = (if 2 powi k \<le> x then k else k - 1)"
    by (simp add: bexp_def q k_def Let_def)
  show "2 powi bexp x \<le> x" using lo by (simp add: e)
  show "x < 2 powi (bexp x + 1)" using up by (simp add: e)
qed

lemma powi2_mono: "(2 powi a :: rat) \<le> 2 powi b \<longleftrightarrow> a \<le> b"
  using power_int_increasing [of a b "2::rat"] power_int_strict_increasing [of b a "2::rat"]
  by (auto simp: not_le [symmetric])

lemma powi2_strict: "(2 powi a :: rat) < 2 powi b \<longleftrightarrow> a < b"
  using powi2_mono [of b a] by (simp add: not_le [symmetric])

lemma bexp_mono: "0 < x \<Longrightarrow> x \<le> y \<Longrightarrow> bexp x \<le> bexp y"
proof -
  assume "0 < x" "x \<le> y"
  then have "2 powi bexp x < (2 powi (bexp y + 1) :: rat)"
    using bexp_bounds [of x] bexp_bounds [of y] by linarith
  then show ?thesis by (simp add: powi2_strict)
qed

lemma bexp_unique: "2 powi e \<le> x \<Longrightarrow> x < 2 powi (e + 1) \<Longrightarrow> bexp x = e"
proof -
  assume lo: "2 powi e \<le> x" and hi: "x < 2 powi (e + 1)"
  then have x: "0 < x" using zero_less_power_int [of "2::rat" e] by linarith
  have "2 powi e < (2 powi (bexp x + 1) :: rat)" "2 powi bexp x < (2 powi (e + 1) :: rat)"
    using lo hi bexp_bounds [OF x] by linarith+
  then show ?thesis by (simp add: powi2_strict)
qed

subsection \<open>Rounding to a double\<close>

definition fl_pos :: "rat \<Rightarrow> rat" where
  "fl_pos x = (let e = bexp x - 52 in of_int (py_round (x * 2 powi (- e))) * 2 powi e)"

definition fl :: "rat \<Rightarrow> rat" where
  "fl x = (if x = 0 then 0 else if 0 < x then fl_pos x else - fl_pos (- x))"

lemma fl_0 [simp]: "fl 0 = 0"
  by (simp add: fl_def)

lemma fl_minus: "fl (- x) = - fl x"
  by (simp add: fl_def)

lemma scaled_bounds:
  assumes "0 < x"
  shows "2 ^ 52 \<le> x * 2 powi (- (bexp x - 52))" and "x * 2 powi (- (bexp x - 52)) < 2 ^ 53"
proof -
  note b = bexp_bounds [OF assms]
  have "(2 powi bexp x :: rat) * 2 powi (- (bexp x - 52)) = 2 powi 52"
    by (simp add: power_int_add [symmetric])
  then show "2 ^ 52 \<le> x * 2 powi (- (bexp x - 52))"
    using mult_right_mono [OF b(1), of "2 powi (- (bexp x - 52))"] by simp
  have "(2 powi (bexp x + 1) :: rat) * 2 powi (- (bexp x - 52)) = 2 powi 53"
    by (simp add: power_int_add [symmetric])
  then show "x * 2 powi (- (bexp x - 52)) < 2 ^ 53"
    using mult_strict_right_mono [OF b(2), of "2 powi (- (bexp x - 52))"] by simp
qed

lemma fl_pos_bounds:
  assumes "0 < x"
  shows "2 powi bexp x \<le> fl_pos x" and "fl_pos x \<le> 2 powi (bexp x + 1)"
proof -
  let ?e = "bexp x - 52" and ?m = "py_round (x * 2 powi (- (bexp x - 52)))"
  have m: "2 ^ 52 \<le> ?m" "?m \<le> 2 ^ 53"
    using py_round_ge [of "2 ^ 52"] py_round_le [of _ "2 ^ 53"] scaled_bounds [OF assms]
    by simp_all
  then have m': "(2 ^ 52 :: rat) \<le> of_int ?m" "of_int ?m \<le> (2 ^ 53 :: rat)"
    using of_int_le_iff [of "2 ^ 52" ?m, where ?'a = rat] of_int_le_iff [of ?m "2 ^ 53", where ?'a = rat]
    by simp_all
  have p: "0 \<le> (2 powi ?e :: rat)" by simp
  have "(2 ^ 52 :: rat) * 2 powi ?e = 2 powi bexp x"
    using power_int_add [of "2::rat" 52 ?e] by simp
  then show "2 powi bexp x \<le> fl_pos x"
    using mult_right_mono [OF m'(1) p] by (simp add: fl_pos_def Let_def)
  have "(2 ^ 53 :: rat) * 2 powi ?e = 2 powi (bexp x + 1)"
    using power_int_add [of "2::rat" 53 ?e] by (simp add: add.commute)
  then show "fl_pos x \<le> 2 powi (bexp x + 1)"
    using mult_right_mono [OF m'(2) p] by (simp add: fl_pos_def Let_def)
qed

lemma fl_pos_mono: "0 < x \<Longrightarrow> x \<le> y \<Longrightarrow> fl_pos x \<le> fl_pos y"
proof -
  assume x: "0 < x" and xy: "x \<le> y"
  show ?thesis
  proof (cases "bexp x = bexp y")
    case True
    have "x * 2 powi (- (bexp y - 52)) \<le> y * 2 powi (- (bexp y - 52))"
      using xy by (simp add: mult_right_mono)
    then show ?thesis
      using True by (simp add: fl_pos_def Let_def py_round_mono mult_right_mono)
  next
    case False
    with bexp_mono [OF x xy] have "bexp x + 1 \<le> bexp y" by simp
    then have "(2 powi (bexp x + 1) :: rat) \<le> 2 powi bexp y" by (simp add: powi2_mono)
    with fl_pos_bounds [OF x] fl_pos_bounds [of y] x xy show ?thesis by linarith
  qed
qed

lemma fl_pos_positive: "0 < x \<Longrightarrow> 0 < fl_pos x"
  using fl_pos_bounds(1) [of x] zero_less_power_int [of "2::rat" "bexp x"] by linarith

lemma fl_mono: "x \<le> y \<Longrightarrow> fl x \<le> fl y"
  using fl_pos_mono [of x y] fl_pos_mono [of "- y" "- x"] fl_pos_positive [of y] fl_pos_positive [of "- x"]
  by (auto simp: fl_def)

lemma fl_nonneg: "0 \<le> x \<Longrightarrow> 0 \<le> fl x"
  using fl_mono [of 0 x] by simp

text \<open>A number with at most 53 significant bits is exact.\<close>

lemma fl_pos_exact:
  assumes "0 < m" and "m < 2 ^ 53"
  shows "fl_pos (of_int m * 2 powi k) = of_int m * 2 powi k"
proof -
  define b where "b = bitlen m - 1"
  have b0: "0 \<le> b"
    using assms(1) by (metis b_def bitlen_eq_zero_iff bitlen_nonneg diff_ge_0_iff_ge
        int_one_le_iff_zero_less not_less order_le_less)
  have bm: "2 powi b \<le> (of_int m :: rat)" "(of_int m :: rat) < 2 powi (b + 1)"
    using bitlen_rat [OF assms(1)] by (simp_all add: b_def)
  have "(of_int m :: rat) < of_int (2 ^ 53)"
    using assms(2) of_int_less_iff [of m "2 ^ 53", where ?'a = rat] by blast
  then have "2 powi b < (2 powi 53 :: rat)" using bm(1) by simp
  then have b52: "b \<le> 52" unfolding powi2_strict by simp
  have e: "bexp (of_int m * 2 powi k) = b + k"
  proof (rule bexp_unique)
    show "2 powi (b + k) \<le> (of_int m :: rat) * 2 powi k"
      using mult_right_mono [OF bm(1), of "2 powi k"] by (simp add: power_int_add)
    show "(of_int m :: rat) * 2 powi k < 2 powi (b + k + 1)"
      using mult_strict_right_mono [OF bm(2), of "2 powi k"]
      by (simp add: power_int_add [symmetric] algebra_simps)
  qed
  have "(2 powi k :: rat) * 2 powi (52 - (b + k)) = 2 powi (52 - b)"
    by (simp add: power_int_add [symmetric])
  also have "\<dots> = of_int (2 ^ nat (52 - b))"
    using b52 by (simp add: power_int_def)
  finally have s: "of_int m * 2 powi k * 2 powi (52 - (b + k)) = (of_int (m * 2 ^ nat (52 - b)) :: rat)"
    by (simp add: mult.assoc)
  have unscale: "(of_int (m * 2 ^ nat (52 - b)) :: rat) * 2 powi (b + k - 52) = of_int m * 2 powi k"
    unfolding s [symmetric] by (simp add: mult.assoc power_int_add [symmetric])
  have neg: "- (b + k - 52) = 52 - (b + k)" by simp
  show ?thesis
    unfolding fl_pos_def Let_def e neg s py_round_of_int by (rule unscale)
qed

lemma fl_exact: "\<bar>m\<bar> < 2 ^ 53 \<Longrightarrow> fl (of_int m * 2 powi k) = of_int m * 2 powi k"
proof -
  assume m: "\<bar>m\<bar> < 2 ^ 53"
  consider "m = 0" | "0 < m" | "m < 0" by linarith
  then show ?thesis
  proof cases
    case 1
    then show ?thesis by simp
  next
    case 2
    then show ?thesis using m fl_pos_exact [of m k] by (simp add: fl_def zero_less_mult_iff)
  next
    case 3
    then have "fl_pos (of_int (- m) * 2 powi k) = of_int (- m) * 2 powi k"
      using m by (intro fl_pos_exact) auto
    moreover have "(of_int m :: rat) * 2 powi k < 0"
      using 3 by (simp add: mult_less_0_iff)
    ultimately show ?thesis by (simp add: fl_def)
  qed
qed

lemma fl_of_int: "\<bar>m\<bar> < 2 ^ 53 \<Longrightarrow> fl (of_int m) = of_int m"
  using fl_exact [of m 0] by simp

lemma fl_half: "\<bar>m\<bar> < 2 ^ 53 \<Longrightarrow> fl (of_int m / 2) = of_int m / 2"
  using fl_exact [of m "-1"] by simp

text \<open>The relative error of one rounding.\<close>

lemma fl_error: "0 \<le> x \<Longrightarrow> \<bar>fl x - x\<bar> * 2 ^ 53 \<le> x"
proof (cases "x = 0")
  case False
  assume "0 \<le> x"
  with False have x: "0 < x" by simp
  let ?e = "bexp x - 52" and ?s = "x * 2 powi (- (bexp x - 52))"
  have p: "0 < (2 powi ?e :: rat)" by simp
  have x_eq: "x = ?s * 2 powi ?e" by (simp add: mult.assoc power_int_add [symmetric])
  have "fl x - x = (of_int (py_round ?s) - ?s) * 2 powi ?e"
    using x x_eq by (simp add: fl_def fl_pos_def Let_def left_diff_distrib)
  then have "\<bar>fl x - x\<bar> = \<bar>of_int (py_round ?s) - ?s\<bar> * 2 powi ?e"
    using p by (simp add: abs_mult)
  also have "\<dots> \<le> 1/2 * 2 powi ?e"
  proof (rule mult_right_mono)
    show "\<bar>of_int (py_round ?s) - ?s\<bar> \<le> 1/2"
      using py_round_bounds [of ?s] by (intro abs_leI) linarith+
  qed (use p in simp)
  finally have "\<bar>fl x - x\<bar> * 2 ^ 53 \<le> 1/2 * 2 powi ?e * 2 ^ 53" by (simp add: mult_right_mono)
  also have "\<dots> = 2 powi bexp x"
    using power_int_add [of "2::rat" 52 ?e] by simp
  also have "\<dots> \<le> x" using bexp_bounds [OF x] by simp
  finally show ?thesis .
qed simp

interpretation fl: rounding fl "2 ^ 52"
proof unfold_locales
  show "fl x \<le> fl y" if "x \<le> y" for x y
    using that by (rule fl_mono)
  show "fl (of_int n) = of_int n" if "\<bar>n\<bar> \<le> 2 ^ 52" for n
    using that by (intro fl_of_int) simp
qed

interpretation py_round: rounding "\<lambda>x. of_int (py_round x)" N for N
  by unfold_locales (simp_all add: py_round_mono)

subsection \<open>Float operations\<close>

text \<open>\<open>a / b\<close> on two ints is the correctly rounded quotient; on floats it rounds too.\<close>

definition fdiv :: "rat \<Rightarrow> rat \<Rightarrow> rat" where
  "fdiv x y = fl (x / y)"

definition fmul :: "rat \<Rightarrow> rat \<Rightarrow> rat" where
  "fmul x y = fl (x * y)"

definition fadd :: "rat \<Rightarrow> rat \<Rightarrow> rat" where
  "fadd x y = fl (x + y)"

definition fsub :: "rat \<Rightarrow> rat \<Rightarrow> rat" where
  "fsub x y = fl (x - y)"

text \<open>\<open>round(x, n)\<close>: the double nearest to the decimal rounding of the float \<open>x\<close>.\<close>

definition round_dec :: "nat \<Rightarrow> rat \<Rightarrow> rat" where
  "round_dec n x = fl (of_int (py_round (x * 10 ^ n)) / 10 ^ n)"

lemma round_dec_mono: "x \<le> y \<Longrightarrow> round_dec n x \<le> round_dec n y"
  by (simp add: round_dec_def fl_mono divide_right_mono py_round_mono mult_right_mono)

text \<open>\<open>int(x)\<close> of a float.\<close>

definition int_of_float :: "rat \<Rightarrow> int" where
  "int_of_float x = (if 0 \<le> x then \<lfloor>x\<rfloor> else \<lceil>x\<rceil>)"

text \<open>\<open>round(a / b * 100)\<close> on two ints, the percentage most of the services compute.\<close>

definition pct :: "int \<Rightarrow> int \<Rightarrow> int" where
  "pct a b = py_round (fmul (fdiv (of_int a) (of_int b)) 100)"

lemma fdiv_unit: "0 \<le> a \<Longrightarrow> a \<le> b \<Longrightarrow> 0 \<le> fdiv a b \<and> fdiv a b \<le> 1"
  using fl.within [of 0 "a / b" 1] by (cases "b = 0") (simp_all add: fdiv_def)

lemma pct_bounds: "0 \<le> a \<Longrightarrow> a \<le> b \<Longrightarrow> 0 \<le> pct a b \<and> pct a b \<le> 100"
proof -
  assume ab: "0 \<le> a" "a \<le> b"
  let ?q = "fdiv (of_int a) (of_int b)"
  have q: "0 \<le> ?q" "?q \<le> 1" using ab fdiv_unit [of "of_int a" "of_int b"] by simp_all
  have "of_int 0 \<le> fmul ?q 100 \<and> fmul ?q 100 \<le> of_int 100"
    unfolding fmul_def by (rule fl.within) (use q in simp_all)
  then show ?thesis unfolding pct_def using py_round_ge [of 0] py_round_le [of _ 100] by simp
qed

lemma pct_mono: "0 < b \<Longrightarrow> a \<le> a' \<Longrightarrow> pct a b \<le> pct a' b"
  unfolding pct_def fmul_def fdiv_def
  by (intro py_round_mono fl_mono mult_right_mono divide_right_mono) auto

lemma pct_full: "b \<noteq> 0 \<Longrightarrow> pct b b = 100"
proof -
  assume "b \<noteq> 0"
  then have "fdiv (of_int b) (of_int b) = 1"
    using fl_of_int [of 1] by (simp add: fdiv_def)
  then have "fmul (fdiv (of_int b) (of_int b)) 100 = of_int 100"
    using fl_of_int [of 100] by (simp add: fmul_def)
  then show ?thesis unfolding pct_def by (simp only: py_round_of_int)
qed

lemma pct_zero [simp]: "pct 0 b = 0"
  using py_round_of_int [of 0] by (simp add: pct_def fdiv_def fmul_def)

end
