(* ===== verification/Json.thy ===== *)
theory Json
  imports PyFloat "HOL-Library.Char_ord" "HOL-Library.List_Lexorder"
begin

text \<open>
  JSON values as the Python code holds them (\<open>None\<close>, booleans, ints, floats, strings,
  lists and string-keyed dictionaries in insertion order), dictionary access with \<open>get\<close>
  and subscripting, truth values, and \<open>json.dumps\<close> with its default separators and
  \<open>ensure_ascii\<close> escapes for ASCII text, with and without \<open>sort_keys\<close>. A dictionary
  is an association list whose keys are distinct (\<open>json_ok\<close>); \<open>repr\<close> of a float is
  the shortest decimal that rounds to it, as CPython prints it.
\<close>

datatype json =
    JNull
  | JBool bool
  | JInt int
  | JFloat rat
  | JStr string
  | JArr "json list"
  | JObj "(string \<times> json) list"

subsection \<open>Access\<close>

fun truthy :: "json \<Rightarrow> bool" where
  "truthy JNull = False"
| "truthy (JBool b) = b"
| "truthy (JInt n) = (n \<noteq> 0)"
| "truthy (JFloat x) = (x \<noteq> 0)"
| "truthy (JStr s) = (s \<noteq> [])"
| "truthy (JArr xs) = (xs \<noteq> [])"
| "truthy (JObj kvs) = (kvs \<noteq> [])"

type_synonym dict = "(string \<times> json) list"

text \<open>\<open>d.get(k)\<close>, \<open>d.get(k, v)\<close> and \<open>d[k]\<close>.\<close>

definition dget :: "dict \<Rightarrow> string \<Rightarrow> json" where
  "dget d k = (case map_of d k of None \<Rightarrow> JNull | Some v \<Rightarrow> v)"

definition dget_or :: "dict \<Rightarrow> string \<Rightarrow> json \<Rightarrow> json" where
  "dget_or d k v = (case map_of d k of None \<Rightarrow> v | Some w \<Rightarrow> w)"

definition dsub :: "dict \<Rightarrow> string \<Rightarrow> json result" where
  "dsub d k = (case map_of d k of None \<Rightarrow> Inl (KeyError k) | Some v \<Rightarrow> Inr v)"

text \<open>Iterating over a JSON value.\<close>

definition iterate :: "json \<Rightarrow> json list result" where
  "iterate v = (case v of
     JArr xs \<Rightarrow> Inr xs
   | JObj d \<Rightarrow> Inr (map (\<lambda>(k, _). JStr k) d)
   | JStr s \<Rightarrow> Inr (map (\<lambda>c. JStr [c]) s)
   | _ \<Rightarrow> Inl (TypeError ''object is not iterable''))"

definition as_dict :: "json \<Rightarrow> dict result" where
  "as_dict v = (case v of JObj d \<Rightarrow> Inr d | _ \<Rightarrow> Inl (TypeError ''object is not subscriptable by a string''))"

text \<open>A string method called on a JSON value.\<close>

definition as_str :: "json \<Rightarrow> string result" where
  "as_str v = (case v of JStr s \<Rightarrow> Inr s | _ \<Rightarrow> Inl (AttributeError ''object has no attribute lower''))"

text \<open>An unhashable value makes the membership test raise.\<close>

definition hashable :: "json \<Rightarrow> unit result" where
  "hashable v = (case v of
     JArr _ \<Rightarrow> Inl (TypeError ''unhashable type'') | JObj _ \<Rightarrow> Inl (TypeError ''unhashable type'') | _ \<Rightarrow> Inr ())"

text \<open>\<open>d[k] = v\<close>: overwrites in place, or appends a new key.\<close>

fun dset :: "dict \<Rightarrow> string \<Rightarrow> json \<Rightarrow> dict" where
  "dset [] k v = [(k, v)]"
| "dset ((k', w) # d) k v = (if k' = k then (k, v) # d else (k', w) # dset d k v)"

lemma map_of_dset [simp]: "map_of (dset d k v) = (map_of d)(k \<mapsto> v)"
  by (induction d k v rule: dset.induct) (auto simp: fun_eq_iff)

lemma keys_dset: "fst ` set (dset d k v) = insert k (fst ` set d)"
  by (induction d k v rule: dset.induct) auto

lemma distinct_dset: "distinct (map fst d) \<Longrightarrow> distinct (map fst (dset d k v))"
proof (induction d k v rule: dset.induct)
  case (2 k' w d k v)
  then show ?case using keys_dset [of d k v] by (auto simp: image_iff)
qed simp

text \<open>\<open>{**a, **b}\<close>: the keys of \<open>a\<close> first, values of \<open>b\<close> win.\<close>

definition dmerge :: "dict \<Rightarrow> dict \<Rightarrow> dict" where
  "dmerge a b = fold (\<lambda>(k, v) d. dset d k v) b a"

lemma map_of_dmerge: "distinct (map fst b) \<Longrightarrow> map_of (dmerge a b) = map_of a ++ map_of b"
proof (induction b arbitrary: a)
  case Nil
  then show ?case by (simp add: dmerge_def)
next
  case (Cons x b)
  obtain k v where x: "x = (k, v)" by (cases x)
  have "map_of (dmerge a (x # b)) = map_of (dmerge (dset a k v) b)"
    by (simp add: dmerge_def x)
  also have "\<dots> = (map_of a)(k \<mapsto> v) ++ map_of b" using Cons by (simp add: x)
  also have "\<dots> = map_of a ++ map_of (x # b)"
    using Cons.prems by (simp add: x map_add_upd_left dom_map_of_conv_image_fst)
  finally show ?case .
qed

lemma distinct_dmerge: "distinct (map fst a) \<Longrightarrow> distinct (map fst (dmerge a b))"
  unfolding dmerge_def by (induction b arbitrary: a) (auto simp: distinct_dset split: prod.splits)

subsection \<open>Printing floats\<close>

text \<open>
  The decimal exponent \<open>p\<close> of a positive \<open>x\<close>: \<open>10 powi p \<le> x < 10 powi (p + 1)\<close>. It is
  found by stepping from zero; 400 steps span more than the range of a double, so the bound is
  never reached on the values the code prints.
\<close>

fun dec_exp :: "nat \<Rightarrow> rat \<Rightarrow> int \<Rightarrow> int" where
  "dec_exp 0 x p = p"
| "dec_exp (Suc n) x p =
     (if x < 10 powi p then dec_exp n x (p - 1)
      else if 10 powi (p + 1) \<le> x then dec_exp n x (p + 1)
      else p)"

text \<open>
  The \<open>n\<close>-digit decimals next to \<open>x\<close> that round back to \<open>x\<close>, nearest first; the
  first length that has one gives \<open>repr\<close>'s digits.
\<close>

definition dec_candidates :: "rat \<Rightarrow> int \<Rightarrow> nat \<Rightarrow> int list" where
  "dec_candidates x p n =
     (let q = 10 powi (p + 1 - int n); d = \<lfloor>x / q\<rfloor>;
          near = (if x / q - of_int d \<le> 1/2 then [d, d + 1] else [d + 1, d])
      in filter (\<lambda>c. fl (of_int c * q) = x) near)"

fun shortest_digits :: "nat \<Rightarrow> rat \<Rightarrow> int \<Rightarrow> nat \<Rightarrow> int \<times> nat" where
  "shortest_digits 0 x p n = (\<lfloor>x / 10 powi (p + 1 - int n)\<rfloor>, n)"
| "shortest_digits (Suc k) x p n =
     (case dec_candidates x p n of
        c # _ \<Rightarrow> (c, n)
      | [] \<Rightarrow> shortest_digits k x p (Suc n))"

fun zeros :: "nat \<Rightarrow> string" where
  "zeros 0 = []"
| "zeros (Suc n) = CHR ''0'' # zeros n"

text \<open>Digits \<open>ds\<close> with the decimal point after position \<open>pt\<close>, in \<open>repr\<close>'s layout.\<close>

definition layout :: "string \<Rightarrow> int \<Rightarrow> string" where
  "layout ds pt =
     (if -4 < pt \<and> pt \<le> 16 then
        (if pt \<le> 0 then ''0.'' @ zeros (nat (- pt)) @ ds
         else if int (length ds) \<le> pt then ds @ zeros (nat pt - length ds) @ ''.0''
         else take (nat pt) ds @ ''.'' @ drop (nat pt) ds)
      else
        (let e = pt - 1;
             m = (case ds of [] \<Rightarrow> [] | [d] \<Rightarrow> [d] | d # r \<Rightarrow> d # CHR ''.'' # r);
             a = show_int \<bar>e\<bar>
         in m @ ''e'' @ (if e < 0 then ''-'' else ''+'') @ (if length a < 2 then ''0'' @ a else a)))"

definition repr_pos :: "rat \<Rightarrow> string" where
  "repr_pos x =
     (let p = dec_exp 400 x 0; (c, n) = shortest_digits 17 x p 1; s = show_int c
      in layout s (p + 1 + (int (length s) - int n)))"

definition repr_float :: "rat \<Rightarrow> string" where
  "repr_float x = (if x = 0 then ''0.0'' else if x < 0 then ''-'' @ repr_pos (- x) else repr_pos x)"

subsection \<open>json.dumps\<close>

definition hex_digit :: "nat \<Rightarrow> char" where
  "hex_digit d = (if d < 10 then char_of (48 + d) else char_of (87 + d))"

text \<open>\<open>ensure_ascii\<close>: a character is a code point below 256, and all but the printable ASCII ones are escaped.\<close>

definition escape_char :: "char \<Rightarrow> string" where
  "escape_char c = (let n = (of_char c :: nat) in
     if n = 34 then [char_of (92::nat), char_of (34::nat)]
     else if n = 92 then [char_of (92::nat), char_of (92::nat)]
     else if n = 8 then [char_of (92::nat), CHR ''b'']
     else if n = 9 then [char_of (92::nat), CHR ''t'']
     else if n = 10 then [char_of (92::nat), CHR ''n'']
     else if n = 12 then [char_of (92::nat), CHR ''f'']
     else if n = 13 then [char_of (92::nat), CHR ''r'']
     else if n < 32 \<or> 126 < n then char_of (92::nat) # ''u00'' @ [hex_digit (n div 16), hex_digit (n mod 16)]
     else [c])"

definition quote :: "string \<Rightarrow> string" where
  "quote s = CHR 0x22 # concat (map escape_char s) @ [CHR 0x22]"

fun dumps :: "json \<Rightarrow> string"
  and dumps_items :: "json list \<Rightarrow> string list"
  and dumps_members :: "dict \<Rightarrow> string list" where
  "dumps JNull = ''null''"
| "dumps (JBool b) = (if b then ''true'' else ''false'')"
| "dumps (JInt n) = show_int n"
| "dumps (JFloat x) = repr_float x"
| "dumps (JStr s) = quote s"
| "dumps (JArr xs) = ''['' @ join '', '' (dumps_items xs) @ '']''"
| "dumps (JObj d) = ''{'' @ join '', '' (dumps_members d) @ ''}''"
| "dumps_items [] = []"
| "dumps_items (x # xs) = dumps x # dumps_items xs"
| "dumps_members [] = []"
| "dumps_members ((k, v) # d) = (quote k @ '': '' @ dumps v) # dumps_members d"

text \<open>\<open>sort_keys=True\<close> sorts the members of every object, nested ones included.\<close>

fun sort_json :: "json \<Rightarrow> json"
  and sort_items :: "json list \<Rightarrow> json list"
  and sort_members :: "dict \<Rightarrow> dict" where
  "sort_json (JArr xs) = JArr (sort_items xs)"
| "sort_json (JObj d) = JObj (sort_key fst (sort_members d))"
| "sort_json j = j"
| "sort_items [] = []"
| "sort_items (x # xs) = sort_json x # sort_items xs"
| "sort_members [] = []"
| "sort_members ((k, v) # d) = (k, sort_json v) # sort_members d"

definition dumps_sorted :: "json \<Rightarrow> string" where
  "dumps_sorted j = dumps (sort_json j)"

text \<open>A value whose objects already list their keys in order, at every level.\<close>

fun keys_sorted :: "json \<Rightarrow> bool"
  and items_sorted :: "json list \<Rightarrow> bool"
  and members_sorted :: "dict \<Rightarrow> bool" where
  "keys_sorted (JArr xs) = items_sorted xs"
| "keys_sorted (JObj d) = (sorted (map fst d) \<and> members_sorted d)"
| "keys_sorted _ = True"
| "items_sorted [] = True"
| "items_sorted (x # xs) = (keys_sorted x \<and> items_sorted xs)"
| "members_sorted [] = True"
| "members_sorted ((k, v) # d) = (keys_sorted v \<and> members_sorted d)"

lemma sort_json_id:
  "keys_sorted j \<Longrightarrow> sort_json j = j"
  "items_sorted xs \<Longrightarrow> sort_items xs = xs"
  "members_sorted d \<Longrightarrow> sort_members d = d"
  by (induction j and xs and d rule: sort_json_sort_items_sort_members.induct)
    (auto simp: sort_key_id_if_sorted sorted_map)

lemma dumps_sorted_eq: "keys_sorted j \<Longrightarrow> dumps_sorted j = dumps j"
  by (simp add: dumps_sorted_def sort_json_id)

lemma fst_sort_members: "map fst (sort_members d) = map fst d"
  by (induction d) auto

lemma members_sorted_iff: "members_sorted d \<longleftrightarrow> (\<forall>v \<in> snd ` set d. keys_sorted v)"
  by (induction d) auto

lemma sorted_sort_json:
  "keys_sorted (sort_json j)"
  "items_sorted (sort_items xs)"
  "members_sorted (sort_members d)"
  by (induction j and xs and d rule: sort_json_sort_items_sort_members.induct)
    (auto simp: members_sorted_iff)

lemma sort_json_idem: "sort_json (sort_json j) = sort_json j"
  by (rule sort_json_id(1)) (rule sorted_sort_json(1))

subsection \<open>str() of a value\<close>

definition repr_char :: "char \<Rightarrow> char \<Rightarrow> string" where
  "repr_char q c = (let n = (of_char c :: nat) in
     if c = q \<or> n = 92 then [char_of (92::nat), c]
     else if n = 9 then [char_of (92::nat), CHR ''t'']
     else if n = 10 then [char_of (92::nat), CHR ''n'']
     else if n = 13 then [char_of (92::nat), CHR ''r'']
     else if n < 32 \<or> n = 127 then char_of (92::nat) # ''x'' @ [hex_digit (n div 16), hex_digit (n mod 16)]
     else [c])"

definition repr_str :: "string \<Rightarrow> string" where
  "repr_str s = (let q = (if CHR 0x27 \<in> set s \<and> CHR 0x22 \<notin> set s then CHR 0x22 else CHR 0x27)
                 in q # concat (map (repr_char q) s) @ [q])"

text \<open>\<open>type(v).__name__\<close>\<close>

fun type_name :: "json \<Rightarrow> string" where
  "type_name JNull = ''NoneType''"
| "type_name (JBool _) = ''bool''"
| "type_name (JInt _) = ''int''"
| "type_name (JFloat _) = ''float''"
| "type_name (JStr _) = ''str''"
| "type_name (JArr _) = ''list''"
| "type_name (JObj _) = ''dict''"

fun py_repr :: "json \<Rightarrow> string"
  and repr_items :: "json list \<Rightarrow> string list"
  and repr_members :: "dict \<Rightarrow> string list" where
  "py_repr JNull = ''None''"
| "py_repr (JBool b) = (if b then ''True'' else ''False'')"
| "py_repr (JInt n) = show_int n"
| "py_repr (JFloat x) = repr_float x"
| "py_repr (JStr s) = repr_str s"
| "py_repr (JArr xs) = ''['' @ join '', '' (repr_items xs) @ '']''"
| "py_repr (JObj d) = ''{'' @ join '', '' (repr_members d) @ ''}''"
| "repr_items [] = []"
| "repr_items (x # xs) = py_repr x # repr_items xs"
| "repr_members [] = []"
| "repr_members ((k, v) # d) = (repr_str k @ '': '' @ py_repr v) # repr_members d"

definition py_str :: "json \<Rightarrow> string" where
  "py_str j = (case j of JStr s \<Rightarrow> s | _ \<Rightarrow> py_repr j)"

lemma py_str_simps [simp]:
  "py_str (JStr s) = s" "py_str (JInt n) = show_int n" "py_str JNull = ''None''"
  by (simp_all add: py_str_def)

end
