(* ===== verification/VCenter.thy ===== *)
theory VCenter
  imports Json
begin

text \<open>
  The vCenter connector: \<open>connectors/vcenter/moref.py\<close> (which identifiers of a recovered
  VM to look up, and in which order) and \<open>connectors/vcenter/client.py\<close>. pyVmomi is the
  argument \<open>api\<close>, a record of the calls the client makes on a state \<open>'s\<close> of its own;
  each call may raise. Loops that poll vCenter take a fuel argument and return \<open>None\<close> when
  it runs out; \<open>wait_for_task_returns\<close> and \<open>wait_for_tools_returns\<close> bound the fuel
  under the one fact the loops rely on, that sleeping lets the clock advance.
\<close>

subsection \<open>Identifiers of a recovered VM\<close>

datatype lookup_method = INSTANCE_UUID | BIOS_UUID | DNS_NAME | VM_NAME

record vm_identity =
  instance_uuid :: "string option"
  bios_uuid :: "string option"
  dns_name :: "string option"
  vm_name :: "string option"

text \<open>\<open>if self.x: plan.append((method, self.x))\<close>\<close>

definition plan_entry :: "lookup_method \<Rightarrow> string option \<Rightarrow> (lookup_method \<times> string) list" where
  "plan_entry m v = (case v of None \<Rightarrow> [] | Some s \<Rightarrow> if s = [] then [] else [(m, s)])"

definition lookup_plan :: "vm_identity \<Rightarrow> (lookup_method \<times> string) list" where
  "lookup_plan i =
     plan_entry INSTANCE_UUID (instance_uuid i) @ plan_entry BIOS_UUID (bios_uuid i)
     @ plan_entry DNS_NAME (dns_name i) @ plan_entry VM_NAME (vm_name i)"

text \<open>\<open>a or b\<close> on values.\<close>

definition py_or :: "json \<Rightarrow> json \<Rightarrow> json" where
  "py_or a b = (if truthy a then a else b)"

fun pick_key :: "dict \<Rightarrow> string list \<Rightarrow> string option" where
  "pick_key d [] = None"
| "pick_key d (k # ks) = (if truthy (dget d k) then Some (py_str (dget d k)) else pick_key d ks)"

text \<open>The inner function \<open>pick\<close>: sources that are not dictionaries are skipped.\<close>

fun pick :: "json list \<Rightarrow> string list \<Rightarrow> string option" where
  "pick [] keys = None"
| "pick (JObj d # srcs) keys =
     (case pick_key d keys of None \<Rightarrow> pick srcs keys | Some v \<Rightarrow> Some v)"
| "pick (_ # srcs) keys = pick srcs keys"

definition parse_recovered_vm_identity :: "dict \<Rightarrow> vm_identity" where
  "parse_recovered_vm_identity body =
     (let obj = py_or (dget body ''restoredObject'')
                  (py_or (dget body ''recoveredObject'') (py_or (dget body ''result'') (JObj [])));
          vm = (case obj of
                  JObj d \<Rightarrow> py_or (dget d ''vm'') (py_or (dget d ''virtualMachine'') obj)
                | _ \<Rightarrow> JObj [])
      in \<lparr>instance_uuid = pick [vm, obj] [''instanceUuid'', ''instanceUUID'', ''vmInstanceUuid''],
          bios_uuid = pick [vm, obj] [''biosUuid'', ''biosUUID'', ''uuid'', ''vmUuid''],
          dns_name = pick [vm, obj] [''dnsName'', ''hostName'', ''fqdn''],
          vm_name = pick [vm, obj] [''name'', ''vmName'', ''displayName'']\<rparr>)"

subsection \<open>The client\<close>

datatype task_state = TASK_RUNNING | TASK_SUCCESS | TASK_ERROR string

record portgroup_spec =
  pg_name :: string
  pg_vlan :: int
  pg_vswitch :: string
  allowPromiscuous :: bool
  macChanges :: bool
  forgedTransmits :: bool

record raw_vm =
  vm_moId :: string
  raw_name :: string
  has_config :: bool
  raw_power_state :: string
  guest_full_name :: "string option"
  guest_ip :: "string option"
  guest_tools :: "string option"
  has_guest :: bool
  raw_num_cpu :: int
  raw_memory_mb :: int

record vcenter_vm =
  moref :: string
  name :: string
  power_state :: string
  guest_os :: string
  ip_address :: "string option"
  tools_status :: "string option"
  num_cpu :: int
  memory_mb :: int

record 's vcenter_api =
  api_vms :: "('s, raw_vm list) exec"
  api_hosts :: "('s, string list) exec"
  api_add_portgroup :: "string \<Rightarrow> portgroup_spec \<Rightarrow> ('s, unit) exec"
  api_remove_portgroup :: "string \<Rightarrow> string \<Rightarrow> ('s, unit) exec"
  api_dvs :: "('s, (string \<times> string list) list) exec"
  api_add_dvportgroup :: "string \<Rightarrow> string \<Rightarrow> int \<Rightarrow> ('s, unit) exec"
  api_find_by_uuid :: "string \<Rightarrow> bool \<Rightarrow> ('s, string option) exec"
  api_find_by_dns :: "string \<Rightarrow> ('s, string option) exec"
  api_find_by_moid :: "string \<Rightarrow> ('s, bool) exec"
  api_tools_ok :: "string \<Rightarrow> ('s, bool) exec"
  api_create_screenshot :: "string \<Rightarrow> ('s, unit) exec"
  api_task_state :: "('s, task_state) exec"
  api_clock :: "'s \<Rightarrow> int"
  api_sleep :: "int \<Rightarrow> 's \<Rightarrow> 's"

definition list_vms :: "'s vcenter_api \<Rightarrow> ('s, vcenter_vm list) exec" where
  "list_vms api = seq (api_vms api) (\<lambda>vms. ret
     (map (\<lambda>vm. \<lparr>moref = vm_moId vm, name = raw_name vm, power_state = raw_power_state vm,
        guest_os = str_or (guest_full_name vm) [],
        ip_address = (if has_guest vm then guest_ip vm else None),
        tools_status = (if has_guest vm then guest_tools vm else None),
        num_cpu = raw_num_cpu vm, memory_mb = raw_memory_mb vm\<rparr>)
      (filter has_config vms)))"

definition isolated_spec :: "string \<Rightarrow> int \<Rightarrow> string \<Rightarrow> portgroup_spec" where
  "isolated_spec vswitch vlan nm =
     \<lparr>pg_name = nm, pg_vlan = vlan, pg_vswitch = vswitch,
      allowPromiscuous = False, macChanges = False, forgedTransmits = False\<rparr>"

definition create_isolated_portgroup ::
    "'s vcenter_api \<Rightarrow> string \<Rightarrow> int \<Rightarrow> string \<Rightarrow> ('s, string) exec" where
  "create_isolated_portgroup api vswitch vlan nm =
     seq (api_hosts api) (\<lambda>hosts.
       case hosts of
         [] \<Rightarrow> raise (RuntimeError ''No ESXi hosts found in vCenter'')
       | host # _ \<Rightarrow> seq (api_add_portgroup api host (isolated_spec vswitch vlan nm)) (\<lambda>_. ret nm))"

text \<open>
  \<open>_wait_for_task\<close>: \<open>Some\<close> of the outcome, or \<open>None\<close> when the fuel runs out
  before the loop ends. Times are in seconds.
\<close>

fun wait_for_task :: "nat \<Rightarrow> 's vcenter_api \<Rightarrow> int \<Rightarrow> 's \<Rightarrow> (unit result \<times> 's) option" where
  "wait_for_task 0 api deadline s = None"
| "wait_for_task (Suc n) api deadline s =
     (if api_clock api s < deadline then
        (case api_task_state api s of
           (Inl e, s') \<Rightarrow> Some (Inl e, s')
         | (Inr TASK_SUCCESS, s') \<Rightarrow> Some (Inr (), s')
         | (Inr (TASK_ERROR msg), s') \<Rightarrow> Some (Inl (RuntimeError (''vCenter task failed: '' @ msg)), s')
         | (Inr TASK_RUNNING, s') \<Rightarrow> wait_for_task n api deadline (api_sleep api 2 s'))
      else Some (Inl (TimeoutError ''vCenter task did not complete in time''), s))"

text \<open>Running out of fuel is reported as a timeout of its own; \<open>wait_for_task_returns\<close> excludes it.\<close>

definition with_fuel :: "('s \<Rightarrow> ('a result \<times> 's) option) \<Rightarrow> ('s, 'a) exec" where
  "with_fuel m s = (case m s of None \<Rightarrow> (Inl (TimeoutError ''fuel''), s) | Some r \<Rightarrow> r)"

definition create_isolated_portgroup_dvs ::
    "nat \<Rightarrow> 's vcenter_api \<Rightarrow> string \<Rightarrow> int \<Rightarrow> string \<Rightarrow> ('s, string) exec" where
  "create_isolated_portgroup_dvs fuel api dvs_name vlan nm =
     seq (api_dvs api) (\<lambda>dvss.
       case List.find (\<lambda>d. fst d = dvs_name) dvss of
         None \<Rightarrow> raise (RuntimeError (''DVS not found: '' @ dvs_name))
       | Some dvs \<Rightarrow>
           if nm \<in> set (snd dvs) then ret nm
           else seq (api_add_dvportgroup api dvs_name nm vlan) (\<lambda>_.
                seq (with_fuel (\<lambda>s. wait_for_task fuel api (api_clock api s + 120) s)) (\<lambda>_. ret nm)))"

definition lookup_one :: "'s vcenter_api \<Rightarrow> lookup_method \<Rightarrow> string \<Rightarrow> ('s, string option) exec" where
  "lookup_one api m v =
     (case m of
        INSTANCE_UUID \<Rightarrow> api_find_by_uuid api v True
      | BIOS_UUID \<Rightarrow> api_find_by_uuid api v False
      | DNS_NAME \<Rightarrow> api_find_by_dns api v
      | VM_NAME \<Rightarrow> seq (api_vms api) (\<lambda>vms.
          ret (map_option vm_moId (List.find (\<lambda>vm. raw_name vm = v) vms))))"

fun resolve_plan :: "'s vcenter_api \<Rightarrow> (lookup_method \<times> string) list \<Rightarrow> ('s, string option) exec" where
  "resolve_plan api [] = ret None"
| "resolve_plan api ((m, v) # plan) =
     seq (lookup_one api m v) (\<lambda>r. case r of Some mo \<Rightarrow> ret (Some mo) | None \<Rightarrow> resolve_plan api plan)"

definition resolve_moref :: "'s vcenter_api \<Rightarrow> vm_identity \<Rightarrow> ('s, string option) exec" where
  "resolve_moref api i = resolve_plan api (lookup_plan i)"

definition remove_portgroup :: "'s vcenter_api \<Rightarrow> string \<Rightarrow> string \<Rightarrow> ('s, unit) exec" where
  "remove_portgroup api host_name portgroup_name =
     seq (api_hosts api) (\<lambda>hosts.
       case List.find (\<lambda>h. h = host_name) hosts of
         None \<Rightarrow> ret ()
       | Some h \<Rightarrow> api_remove_portgroup api h portgroup_name)"

fun tools_loop :: "nat \<Rightarrow> 's vcenter_api \<Rightarrow> string \<Rightarrow> int \<Rightarrow> 's \<Rightarrow> (bool result \<times> 's) option" where
  "tools_loop 0 api mo deadline s = None"
| "tools_loop (Suc n) api mo deadline s =
     (if api_clock api s < deadline then
        (case api_tools_ok api mo s of
           (Inl e, s') \<Rightarrow> Some (Inl e, s')
         | (Inr ok, s') \<Rightarrow>
             if ok then Some (Inr True, s')
             else tools_loop n api mo deadline (api_sleep api 10 s'))
      else Some (Inr False, s))"

definition wait_for_tools :: "nat \<Rightarrow> 's vcenter_api \<Rightarrow> string \<Rightarrow> int \<Rightarrow> ('s, bool) exec" where
  "wait_for_tools fuel api mo timeout_seconds =
     seq (api_find_by_moid api mo) (\<lambda>found.
       if \<not> found then raise (ValueError (''VM not found: '' @ mo))
       else with_fuel (\<lambda>s. tools_loop fuel api mo (api_clock api s + timeout_seconds) s))"

fun screenshot_loop :: "nat \<Rightarrow> 's vcenter_api \<Rightarrow> 's \<Rightarrow> (unit result \<times> 's) option" where
  "screenshot_loop 0 api s = None"
| "screenshot_loop (Suc n) api s =
     (case api_task_state api s of
        (Inl e, s') \<Rightarrow> Some (Inl e, s')
      | (Inr TASK_RUNNING, s') \<Rightarrow> screenshot_loop n api (api_sleep api 2 s')
      | (Inr TASK_SUCCESS, s') \<Rightarrow> Some (Inr (), s')
      | (Inr (TASK_ERROR msg), s') \<Rightarrow> Some (Inl (RuntimeError (''Screenshot failed: '' @ msg)), s'))"

text \<open>\<open>take_screenshot\<close> returns the empty byte string once the task succeeds.\<close>

definition take_screenshot :: "nat \<Rightarrow> 's vcenter_api \<Rightarrow> string \<Rightarrow> ('s, string) exec" where
  "take_screenshot fuel api mo =
     seq (api_find_by_moid api mo) (\<lambda>found.
       if \<not> found then raise (ValueError (''VM not found: '' @ mo))
       else seq (api_create_screenshot api mo) (\<lambda>_.
            seq (with_fuel (screenshot_loop fuel api)) (\<lambda>_. ret [])))"

subsection \<open>Lookup order\<close>

lemma plan_entry_iff: "(m, v) \<in> set (plan_entry m' w) \<longleftrightarrow> m = m' \<and> w = Some v \<and> v \<noteq> []"
  by (auto simp: plan_entry_def split: option.splits)

lemma plan_entry_methods: "map fst (plan_entry m v) = (if plan_entry m v = [] then [] else [m])"
  by (auto simp: plan_entry_def split: option.splits)

text \<open>Rank of a method, most reliable first.\<close>

primrec method_rank :: "lookup_method \<Rightarrow> nat" where
  "method_rank INSTANCE_UUID = 0"
| "method_rank BIOS_UUID = 1"
| "method_rank DNS_NAME = 2"
| "method_rank VM_NAME = 3"

instantiation lookup_method :: linorder
begin

definition less_eq_lookup_method :: "lookup_method \<Rightarrow> lookup_method \<Rightarrow> bool" where
  "less_eq_lookup_method a b = (method_rank a \<le> method_rank b)"

definition less_lookup_method :: "lookup_method \<Rightarrow> lookup_method \<Rightarrow> bool" where
  "less_lookup_method a b = (method_rank a < method_rank b)"

instance
proof
  fix a b :: lookup_method
  show "a \<le> b \<Longrightarrow> b \<le> a \<Longrightarrow> a = b"
    by (cases a; cases b) (simp_all add: less_eq_lookup_method_def)
qed (auto simp: less_eq_lookup_method_def less_lookup_method_def)

end

lemma lookup_plan_sorted: "sorted_wrt (<) (map fst (lookup_plan i))"
  unfolding lookup_plan_def map_append plan_entry_methods
  by (simp add: sorted_wrt_append less_lookup_method_def)

lemma lookup_plan_nonempty_values: "(m, v) \<in> set (lookup_plan i) \<Longrightarrow> v \<noteq> []"
  by (auto simp: lookup_plan_def plan_entry_iff)

text \<open>
  With lookups that do not change the state and do not raise, the first entry of the plan whose
  lookup answers decides.
\<close>

lemma resolve_plan_first_hit:
  assumes "\<And>m v. lookup_one api m v s = (Inr (hit m v), s)"
  shows "resolve_plan api plan s =
    (Inr (case List.find (\<lambda>(m, v). hit m v \<noteq> None) plan of None \<Rightarrow> None | Some (m, v) \<Rightarrow> hit m v), s)"
proof (induction plan)
  case Nil
  then show ?case by (simp add: exec_simps)
next
  case (Cons p plan)
  then show ?case
    using assms by (cases p) (auto simp: seq_def ret_def split: option.splits)
qed

subsection \<open>Loops return\<close>

text \<open>Sleeping for \<open>t\<close> seconds advances the clock by at least \<open>t\<close>; asking vCenter does not turn it back.\<close>

definition clock_advances :: "'s vcenter_api \<Rightarrow> bool" where
  "clock_advances api \<longleftrightarrow>
     (\<forall>t s. api_clock api s + t \<le> api_clock api (api_sleep api t s)) \<and>
     (\<forall>s. api_clock api s \<le> api_clock api (snd (api_task_state api s))) \<and>
     (\<forall>mo s. api_clock api s \<le> api_clock api (snd (api_tools_ok api mo s)))"

lemma wait_for_task_fuel:
  "clock_advances api \<Longrightarrow> deadline - api_clock api s \<le> 2 * int n \<Longrightarrow> wait_for_task (Suc n) api deadline s \<noteq> None"
proof (induction n arbitrary: s)
  case 0
  then show ?case by simp
next
  case (Suc n)
  show ?case
  proof (cases "api_clock api s < deadline")
    case True
    obtain r s' where rs: "api_task_state api s = (r, s')" by (cases "api_task_state api s")
    have "api_clock api s \<le> api_clock api s'" and "api_clock api s' + 2 \<le> api_clock api (api_sleep api 2 s')"
      using Suc.prems(1) rs unfolding clock_advances_def by (metis snd_conv)+
    with Suc.prems(2) True have "deadline - api_clock api (api_sleep api 2 s') \<le> 2 * int n" by simp
    with Suc.IH Suc.prems(1) have "wait_for_task (Suc n) api deadline (api_sleep api 2 s') \<noteq> None" by blast
    with True rs show ?thesis unfolding wait_for_task.simps(2) [of "Suc n"] by (auto simp del: wait_for_task.simps split: sum.splits task_state.splits)
  qed simp
qed

lemma wait_for_task_returns:
  "clock_advances api \<Longrightarrow> wait_for_task 61 api (api_clock api s + 120) s \<noteq> None"
  using wait_for_task_fuel [of api "api_clock api s + 120" s 60] by simp

lemma tools_loop_fuel:
  "clock_advances api \<Longrightarrow> deadline - api_clock api s \<le> 10 * int n \<Longrightarrow> tools_loop (Suc n) api mo deadline s \<noteq> None"
proof (induction n arbitrary: s)
  case 0
  then show ?case by simp
next
  case (Suc n)
  show ?case
  proof (cases "api_clock api s < deadline")
    case True
    obtain r s' where rs: "api_tools_ok api mo s = (r, s')" by (cases "api_tools_ok api mo s")
    have "api_clock api s \<le> api_clock api s'" and "api_clock api s' + 10 \<le> api_clock api (api_sleep api 10 s')"
      using Suc.prems(1) rs unfolding clock_advances_def by (metis snd_conv)+
    with Suc.prems(2) True have "deadline - api_clock api (api_sleep api 10 s') \<le> 10 * int n" by simp
    with Suc.IH Suc.prems(1) have "tools_loop (Suc n) api mo deadline (api_sleep api 10 s') \<noteq> None" by blast
    with True rs show ?thesis unfolding tools_loop.simps(2) [of "Suc n"] by (auto simp del: tools_loop.simps split: sum.splits)
  qed simp
qed

lemma wait_for_tools_returns:
  "clock_advances api \<Longrightarrow> tools_loop 31 api mo (api_clock api s + 300) s \<noteq> None"
  using tools_loop_fuel [of api "api_clock api s + 300" s 30] by simp

subsection \<open>Screenshots and port groups\<close>

lemma take_screenshot_empty: "fst (take_screenshot fuel api mo s) = Inr bytes \<Longrightarrow> bytes = []"
  by (auto simp: take_screenshot_def exec_simps split: prod.splits sum.splits if_splits)

lemma take_screenshot_unknown_vm:
  "api_find_by_moid api mo s = (Inr False, s') \<Longrightarrow>
     take_screenshot fuel api mo s = (Inl (ValueError (''VM not found: '' @ mo)), s')"
  by (simp add: take_screenshot_def exec_simps)

lemma remove_portgroup_no_host:
  assumes "api_hosts api s = (Inr hosts, s')" and "h \<notin> set hosts"
  shows "remove_portgroup api h pg s = (Inr (), s')"
proof -
  have "List.find (\<lambda>x. x = h) hosts = None" using assms(2) by (auto simp: find_None_iff)
  with assms(1) show ?thesis by (simp add: remove_portgroup_def exec_simps)
qed

end
