(* ===== verification/VeeamRest.thy ===== *)
theory VeeamRest
  imports Json "HOL-Library.Product_Lexorder"
begin

text \<open>
  The pure helpers of \<open>connectors/veeam/rest.py\<close> and \<open>session_states.py\<close>: version
  detection, request building, restore-point selection, session-state polling, RTO and RPO
  measurement, and the readiness score. An aware timestamp is its distance from an epoch in
  microseconds. The pydantic validation of one restore point is the argument \<open>validate\<close>.
\<close>

type_synonym timestamp = int

subsection \<open>Session states\<close>

datatype veeam_session_state =
  STARTING | WORKING | STOPPING | STOPPED | SUCCESS | FAILED_STATE | WARNING | UNKNOWN

primrec state_value :: "veeam_session_state \<Rightarrow> string" where
  "state_value STARTING = ''Starting''"
| "state_value WORKING = ''Working''"
| "state_value STOPPING = ''Stopping''"
| "state_value STOPPED = ''Stopped''"
| "state_value SUCCESS = ''Success''"
| "state_value FAILED_STATE = ''Failed''"
| "state_value WARNING = ''Warning''"
| "state_value UNKNOWN = ''unknown''"

definition PUBLISHED_STATES :: "string list" where
  "PUBLISHED_STATES = [state_value WORKING]"

definition FAILED_STATES :: "string list" where
  "FAILED_STATES = [state_value FAILED_STATE, state_value STOPPED]"

definition is_recovery_published :: "string \<Rightarrow> bool" where
  "is_recovery_published s = (s \<in> set PUBLISHED_STATES)"

definition is_terminal_failure :: "string \<Rightarrow> bool" where
  "is_terminal_failure s = (s \<in> set FAILED_STATES)"

subsection \<open>Version detection\<close>

definition DEFAULT_X_API_VERSION :: string where
  "DEFAULT_X_API_VERSION = ''1.1-rev1''"

definition version_part :: "string list \<Rightarrow> nat \<Rightarrow> int" where
  "version_part parts i =
     (if i < length parts
      then (case int_of_str (strip (parts ! i)) of None \<Rightarrow> 0 | Some n \<Rightarrow> n)
      else 0)"

definition build_version_tuple :: "string option \<Rightarrow> int \<times> int \<times> int \<times> int" where
  "build_version_tuple bv =
     (let parts = split_on CHR ''.'' (str_or bv [])
      in (version_part parts 0, version_part parts 1, version_part parts 2, version_part parts 3))"

definition api_version_for_build :: "string option \<Rightarrow> string" where
  "api_version_for_build bv =
     (let major = fst (build_version_tuple bv)
      in if 13 \<le> major then ''v1.2'' else if major = 12 then ''v1.1'' else ''v1.0'')"

definition x_api_version :: "string option \<Rightarrow> string" where
  "x_api_version bv =
     (if str_or bv [] = [] then DEFAULT_X_API_VERSION
      else
        (case build_version_tuple bv of (major, minor, patch, build) \<Rightarrow>
           if 13 \<le> major
           then (if (major, minor, patch, build) < (13, 0, 1, 0) then ''1.3-rev0'' else ''1.3-rev1'')
           else if major = 12
           then (if (3, 1) \<le> (minor, patch) then ''1.2-rev1''
                 else if 2 \<le> minor then ''1.2-rev0''
                 else if 1 \<le> minor then ''1.1-rev1''
                 else ''1.1-rev0'')
           else if major = 11 then ''1.0-rev1''
           else DEFAULT_X_API_VERSION))"

record server_info =
  si_build_version :: "string option"
  si_vbr_id :: json
  si_server_name :: json
  si_api_version :: string
  si_rest_api_version :: string

text \<open>
  A \<open>buildVersion\<close> that is neither a string nor falsy has no \<open>split\<close>: Python
  raises \<open>AttributeError\<close>.
\<close>

definition build_arg :: "json \<Rightarrow> string option result" where
  "build_arg j =
     (case j of JStr s \<Rightarrow> Inr (Some s)
      | _ \<Rightarrow> if truthy j then Inl (AttributeError ''split'') else Inr None)"

definition parse_server_info :: "dict \<Rightarrow> server_info result" where
  "parse_server_info body =
     and_then (build_arg (dget body ''buildVersion'')) (\<lambda>bv.
       Inr \<lparr>si_build_version = bv,
            si_vbr_id = dget body ''vbrId'',
            si_server_name = dget body ''name'',
            si_api_version = api_version_for_build bv,
            si_rest_api_version = x_api_version bv\<rparr>)"

subsection \<open>Auth\<close>

record token_info =
  access_token :: json
  expires_in :: int

definition build_token_request :: "string \<Rightarrow> string \<Rightarrow> dict" where
  "build_token_request username password =
     [(''grant_type'', JStr ''password''), (''username'', JStr username), (''password'', JStr password)]"

text \<open>\<open>int(x)\<close> on a JSON value.\<close>

definition py_int :: "json \<Rightarrow> int result" where
  "py_int j =
     (case j of
        JInt n \<Rightarrow> Inr n
      | JBool b \<Rightarrow> Inr (if b then 1 else 0)
      | JFloat x \<Rightarrow> Inr (if x < 0 then - \<lfloor>- x\<rfloor> else \<lfloor>x\<rfloor>)
      | JStr s \<Rightarrow> (case int_of_str s of None \<Rightarrow> Inl (ValueError ''invalid literal for int()'') | Some n \<Rightarrow> Inr n)
      | _ \<Rightarrow> Inl (TypeError ''int() argument''))"

definition parse_token_response :: "dict \<Rightarrow> token_info result" where
  "parse_token_response body =
     and_then (dsub body ''access_token'') (\<lambda>tok.
     and_then (py_int (dget_or body ''expires_in'' (JInt 900))) (\<lambda>n.
       Inr \<lparr>access_token = tok, expires_in = n\<rparr>))"

subsection \<open>Restore-point discovery\<close>

record restore_point =
  rp_id :: string
  rp_name :: string
  creationTime :: timestamp
  objectId :: string
  backupSize :: int
  is_consistent :: bool
  backup_size_bytes :: int

definition restore_points_path :: "string \<Rightarrow> string \<Rightarrow> string \<times> dict" where
  "restore_points_path api_version object_id =
     (if api_version \<in> {''v1.1'', ''v1.2''}
      then (''/backupObjects/'' @ object_id @ ''/restorePoints'', [])
      else (''/restorePoints'', [(''backupObjectId'', JStr object_id)]))"

text \<open>\<open>for r in x\<close>: lists, strings (by character) and dictionaries (by key) can be iterated.\<close>

definition py_iter :: "json \<Rightarrow> json list result" where
  "py_iter j =
     (case j of
        JArr xs \<Rightarrow> Inr xs
      | JStr s \<Rightarrow> Inr (map (\<lambda>c. JStr [c]) s)
      | JObj d \<Rightarrow> Inr (map (JStr \<circ> fst) d)
      | _ \<Rightarrow> Inl (TypeError ''object is not iterable''))"

definition parse_restore_points ::
    "(json \<Rightarrow> restore_point result) \<Rightarrow> dict \<Rightarrow> restore_point list result" where
  "parse_restore_points validate body =
     and_then (py_iter (dget_or body ''data'' (JArr []))) (map_result validate)"

subsection \<open>RTO / RPO measurement\<close>

definition total_seconds :: "int \<Rightarrow> rat" where
  "total_seconds us = fdiv (of_int us) 1000000"

definition compute_age_minutes :: "timestamp \<Rightarrow> timestamp \<Rightarrow> int" where
  "compute_age_minutes thn now = max 0 \<lfloor>total_seconds (now - thn) / 60\<rfloor>"

definition compute_rpo_minutes :: "timestamp \<Rightarrow> timestamp \<Rightarrow> int" where
  "compute_rpo_minutes creation now = compute_age_minutes creation now"

definition compute_rto_minutes :: "timestamp \<Rightarrow> timestamp \<Rightarrow> int" where
  "compute_rto_minutes recovery_start boot_ready = compute_age_minutes recovery_start boot_ready"

subsection \<open>Selecting a restore point\<close>

definition newest_first :: "restore_point list \<Rightarrow> restore_point list" where
  "newest_first ps = sort_key (\<lambda>p. - creationTime p) ps"

definition select_restore_point ::
    "restore_point list \<Rightarrow> timestamp \<Rightarrow> int option \<Rightarrow> restore_point result" where
  "select_restore_point points now rpo_target_mins =
     (if points = [] then Inl (NoRestorePointError ''no restore points returned by Veeam'')
      else
        (case newest_first (filter is_consistent points) of
           [] \<Rightarrow> Inl (NoRestorePointError ''no consistent restore points available'')
         | newest # rest \<Rightarrow>
             (case rpo_target_mins of
                None \<Rightarrow> Inr newest
              | Some target \<Rightarrow>
                  (case filter (\<lambda>p. compute_age_minutes (creationTime p) now \<le> target) (newest # rest) of
                     [] \<Rightarrow> Inr newest
                   | p # _ \<Rightarrow> Inr p))))"

subsection \<open>Instant recovery\<close>

definition instant_recovery_endpoint :: "string \<Rightarrow> string result" where
  "instant_recovery_endpoint api_version =
     (if api_version = ''v1.0''
      then Inl (NotImplementedError ''instant recovery REST API requires Veeam 11+ (v1.1)'')
      else if api_version = ''v1.2'' then Inr ''/restore/instantRecovery/vmware/vm''
      else Inr ''/instantRecovery/vmware/vm'')"

definition build_instant_recovery_request ::
    "string \<Rightarrow> string \<Rightarrow> string \<Rightarrow> string \<Rightarrow> string \<Rightarrow> (string \<times> dict) result" where
  "build_instant_recovery_request api_version restore_point_id isolated_network target_datastore reason =
     and_then (instant_recovery_endpoint api_version) (\<lambda>endpoint.
       let body =
         [(''restorePointId'', JStr restore_point_id),
          (''networkMapping'', JArr [JObj [(''sourceNetwork'', JStr ''*''), (''targetNetwork'', JStr isolated_network)]]),
          (''powerOn'', JBool True),
          (''reason'', JStr reason)]
       in Inr (endpoint,
               if target_datastore \<noteq> [] then dset body ''targetDatastoreId'' (JStr target_datastore) else body))"

definition parse_session_id :: "dict \<Rightarrow> string result" where
  "parse_session_id body =
     (let sid = (if truthy (dget body ''sessionId'') then dget body ''sessionId'' else dget body ''id'')
      in if truthy sid then Inr (py_str sid)
         else Inl (KeyError ''no sessionId/id in instant-recovery response''))"

definition stop_publishing_path :: "string \<Rightarrow> string \<Rightarrow> string" where
  "stop_publishing_path api_version session_id =
     (if api_version = ''v1.2''
      then ''/restore/instantRecovery/vmware/vm/'' @ session_id @ ''/stopPublishing''
      else ''/instantRecovery/vmware/vm/'' @ session_id @ ''/stopPublishing'')"

subsection \<open>Session-state polling\<close>

definition parse_session_state :: "dict \<Rightarrow> json" where
  "parse_session_state body = dget_or body ''state'' (JStr ''unknown'')"

datatype poll_decision = PUBLISHED | FAILED | WAIT

text \<open>
  A state that is not a string is in neither set of literals; a list or a dictionary cannot be
  looked up in a \<open>frozenset\<close> at all.
\<close>

definition classify_poll :: "json \<Rightarrow> poll_decision result" where
  "classify_poll state =
     (case state of
        JStr s \<Rightarrow>
          Inr (if is_recovery_published s then PUBLISHED
               else if is_terminal_failure s then FAILED
               else WAIT)
      | JArr _ \<Rightarrow> Inl (TypeError ''unhashable type: list'')
      | JObj _ \<Rightarrow> Inl (TypeError ''unhashable type: dict'')
      | _ \<Rightarrow> Inr WAIT)"

subsection \<open>Readiness score\<close>

definition objective_points :: "int \<Rightarrow> int \<Rightarrow> int \<Rightarrow> int" where
  "objective_points actual target max_points =
     (if target \<le> 0 then (if actual \<le> 0 then max_points else 0)
      else if actual \<le> target then max_points
      else
        (let overshoot = fdiv (of_int (actual - target)) (of_int target)
         in max 0 (py_round (fmul (of_int max_points) (fsub 1 overshoot)))))"

definition readiness_score :: "bool \<Rightarrow> int \<Rightarrow> int \<Rightarrow> int \<Rightarrow> int \<Rightarrow> int" where
  "readiness_score health_passed rto_actual rto_target rpo_actual rpo_target =
     (let score = (if health_passed then 60 else 0)
                  + objective_points rto_actual rto_target 20
                  + objective_points rpo_actual rpo_target 20
      in max 0 (min 100 score))"

subsection \<open>Facts about version detection\<close>

lemma x_api_version_parsed:
  assumes "bv \<noteq> []" and "build_version_tuple (Some bv) = (major, minor, patch, build)" and "11 \<le> major"
  shows "x_api_version (Some bv) =
    (if major = 11 then ''1.0-rev1''
     else if (major, minor) < (12, 1) then ''1.1-rev0''
     else if (major, minor) < (12, 2) then ''1.1-rev1''
     else if (major, minor, patch) < (12, 3, 1) then ''1.2-rev0''
     else if major < 13 then ''1.2-rev1''
     else if (major, minor, patch, build) < (13, 0, 1, 0) then ''1.3-rev0''
     else ''1.3-rev1'')"
  using assms by (auto simp: x_api_version_def str_or_def)

text \<open>The header values of the ladder, in order.\<close>

lemma ladder_order:
  "''1.0-rev1'' \<le> ''1.1-rev0''" "''1.0-rev1'' \<le> ''1.1-rev1''" "''1.0-rev1'' \<le> ''1.2-rev0''"
  "''1.0-rev1'' \<le> ''1.2-rev1''" "''1.0-rev1'' \<le> ''1.3-rev0''" "''1.0-rev1'' \<le> ''1.3-rev1''"
  "''1.1-rev0'' \<le> ''1.1-rev1''" "''1.1-rev0'' \<le> ''1.2-rev0''" "''1.1-rev0'' \<le> ''1.2-rev1''"
  "''1.1-rev0'' \<le> ''1.3-rev0''" "''1.1-rev0'' \<le> ''1.3-rev1''" "''1.1-rev1'' \<le> ''1.2-rev0''"
  "''1.1-rev1'' \<le> ''1.2-rev1''" "''1.1-rev1'' \<le> ''1.3-rev0''" "''1.1-rev1'' \<le> ''1.3-rev1''"
  "''1.2-rev0'' \<le> ''1.2-rev1''" "''1.2-rev0'' \<le> ''1.3-rev0''" "''1.2-rev0'' \<le> ''1.3-rev1''"
  "''1.2-rev1'' \<le> ''1.3-rev0''" "''1.2-rev1'' \<le> ''1.3-rev1''" "''1.3-rev0'' \<le> ''1.3-rev1''"
  by code_simp+

text \<open>The position of a build on the ladder: how many of its thresholds the build has reached.\<close>

definition ladder_rank :: "int \<times> int \<times> int \<times> int \<Rightarrow> nat" where
  "ladder_rank t = (case t of (a, b, c, d) \<Rightarrow>
     of_bool (12 \<le> a) + of_bool ((12, 1) \<le> (a, b)) + of_bool ((12, 2) \<le> (a, b))
     + of_bool ((12, 3, 1) \<le> (a, b, c)) + of_bool (13 \<le> a) + of_bool ((13, 0, 1, 0) \<le> (a, b, c, d)))"

lemma prefix_mono:
  "(a, b, c, d) \<le> (a', b', c', d') \<Longrightarrow> (a, b, c) \<le> (a', b', c')"
  "(a, b, c) \<le> (a', b', c') \<Longrightarrow> (a, b) \<le> (a', b')"
  "(a, b) \<le> (a', b') \<Longrightarrow> a \<le> a'"
  for a :: int and b :: int and c :: int and d :: int
  by (auto simp: less_eq_prod_simp)

lemma ladder_rank_mono: "t \<le> t' \<Longrightarrow> ladder_rank t \<le> ladder_rank t'"
proof -
  assume le: "t \<le> t'"
  obtain a b c d a' b' c' d' where t: "t = (a, b, c, d)" "t' = (a', b', c', d')"
    by (metis prod_cases4)
  note abcd = le [unfolded t]
  note abc = prefix_mono(1) [OF abcd]
  note ab = prefix_mono(2) [OF abc]
  note major = prefix_mono(3) [OF ab]
  have ind: "of_bool P \<le> (of_bool Q :: nat)" if "P \<Longrightarrow> Q" for P Q
    using that by auto
  show ?thesis
    unfolding ladder_rank_def t prod.case
    by (intro add_mono ind) (use major ab abc abcd order_trans in \<open>blast+\<close>)
qed

lemma ladder_rank_le: "ladder_rank t \<le> 6"
proof -
  have ind: "of_bool P \<le> (1 :: nat)" for P by simp
  have "ladder_rank t \<le> 1 + 1 + 1 + 1 + 1 + 1"
    unfolding ladder_rank_def by (cases t) (simp only: prod.case, intro add_mono ind)
  then show ?thesis by simp
qed

definition ladder :: "string list" where
  "ladder = [''1.0-rev1'', ''1.1-rev0'', ''1.1-rev1'', ''1.2-rev0'', ''1.2-rev1'', ''1.3-rev0'', ''1.3-rev1'']"

lemma sorted_ladder: "sorted ladder"
  by (simp add: ladder_def ladder_order)

lemma x_api_version_ladder:
  assumes "bv \<noteq> []" and "11 \<le> fst (build_version_tuple (Some bv))"
  shows "x_api_version (Some bv) = ladder ! ladder_rank (build_version_tuple (Some bv))"
proof -
  obtain a b c d where t: "build_version_tuple (Some bv) = (a, b, c, d)"
    by (metis prod_cases4)
  with assms show ?thesis
    unfolding x_api_version_parsed [OF assms(1) t assms(2) [unfolded t, simplified]]
    by (auto simp: ladder_rank_def ladder_def)
qed

text \<open>The wire version follows the product: of two builds from Veeam 11 on, the newer one is never given an older x-api-version.\<close>

theorem x_api_version_mono:
  assumes "bv \<noteq> []" and "bv' \<noteq> []"
    and "11 \<le> fst (build_version_tuple (Some bv))"
    and "build_version_tuple (Some bv) \<le> build_version_tuple (Some bv')"
  shows "x_api_version (Some bv) \<le> x_api_version (Some bv')"
proof -
  let ?t = "build_version_tuple (Some bv)" and ?t' = "build_version_tuple (Some bv')"
  have "fst ?t \<le> fst ?t'" using assms(4) by (cases ?t; cases ?t') auto
  with assms have major: "11 \<le> fst ?t'" by linarith
  have "ladder_rank ?t \<le> ladder_rank ?t'" using assms by (intro ladder_rank_mono)
  moreover have "ladder_rank ?t' < length ladder"
    by (rule le_less_trans [OF ladder_rank_le]) (simp add: ladder_def)
  ultimately show ?thesis
    using sorted_ladder assms major by (simp add: x_api_version_ladder sorted_nth_mono)
qed

lemma x_api_version_mono_witness:
  "x_api_version (Some ''12.1.2.172'') \<le> x_api_version (Some ''13.0.1.1071'')"
  by (rule x_api_version_mono) code_simp+

subsection \<open>Facts about restore-point selection\<close>

lemma total_seconds_mono: "a \<le> b \<Longrightarrow> total_seconds a \<le> total_seconds b"
  by (simp add: total_seconds_def fdiv_def fl_mono divide_right_mono)

lemma compute_age_mono: "a \<le> b \<Longrightarrow> compute_age_minutes b now \<le> compute_age_minutes a now"
proof -
  assume "a \<le> b"
  then have "\<lfloor>total_seconds (now - b) / 60\<rfloor> \<le> \<lfloor>total_seconds (now - a) / 60\<rfloor>"
    by (intro floor_mono divide_right_mono total_seconds_mono) auto
  then show ?thesis by (simp add: compute_age_minutes_def)
qed

lemma set_newest_first [simp]: "set (newest_first ps) = set ps"
  by (simp add: newest_first_def)

lemma newest_first_head: "newest_first ps = p # rest \<Longrightarrow> q \<in> set ps \<Longrightarrow> creationTime q \<le> creationTime p"
proof -
  assume ps: "newest_first ps = p # rest" and q: "q \<in> set ps"
  have "sorted (map (\<lambda>p. - creationTime p) (newest_first ps))"
    by (simp add: newest_first_def)
  with ps have "\<forall>q \<in> set (p # rest). creationTime q \<le> creationTime p" by auto
  moreover have "q \<in> set (p # rest)" using q ps by (metis set_newest_first)
  ultimately show ?thesis by blast
qed

text \<open>The window only ever keeps a prefix of the newest-first list, so its head is the overall newest.\<close>

lemma select_restore_point_newest:
  "select_restore_point points now t =
     (if points = [] then Inl (NoRestorePointError ''no restore points returned by Veeam'')
      else (case newest_first (filter is_consistent points) of
              [] \<Rightarrow> Inl (NoRestorePointError ''no consistent restore points available'')
            | newest # _ \<Rightarrow> Inr newest))"
proof (cases "newest_first (filter is_consistent points)")
  case Nil
  then show ?thesis by (simp add: select_restore_point_def)
next
  case (Cons newest rest)
  have age: "compute_age_minutes (creationTime newest) now \<le> compute_age_minutes (creationTime q) now"
    if "q \<in> set (newest # rest)" for q
    by (rule compute_age_mono) (use Cons that newest_first_head in \<open>metis set_newest_first\<close>)
  have "filter (\<lambda>p. compute_age_minutes (creationTime p) now \<le> target) (newest # rest) = []"
    if "\<not> compute_age_minutes (creationTime newest) now \<le> target" for target
    unfolding filter_empty_conv using age that by (meson order_trans)
  then have none: "filter (\<lambda>p. compute_age_minutes (creationTime p) now \<le> target) rest = []"
    if "\<not> compute_age_minutes (creationTime newest) now \<le> target" for target
    using that by simp
  show ?thesis
    using Cons none by (cases t) (simp_all add: select_restore_point_def)
qed

text \<open>The RPO window never changes the choice: with any target, the selection is the newest consistent point.\<close>

theorem rpo_window_irrelevant:
  "select_restore_point points now (Some target) = select_restore_point points now None"
  by (simp add: select_restore_point_newest)

text \<open>Selection succeeds exactly when a consistent point exists, and then returns a consistent point of the list that no other consistent point is newer than; otherwise it raises NoRestorePointError.\<close>

theorem select_restore_point_correct:
  "case select_restore_point points now target of
     Inr p \<Rightarrow> p \<in> set points \<and> is_consistent p \<and>
        list_all (\<lambda>q. is_consistent q \<longrightarrow> creationTime q \<le> creationTime p) points
   | Inl e \<Rightarrow> (\<exists>m. e = NoRestorePointError m) \<and> list_all (\<lambda>q. \<not> is_consistent q) points"
proof (cases "newest_first (filter is_consistent points)")
  case Nil
  then have "set (filter is_consistent points) = {}" by (metis set_newest_first set_empty)
  with Nil show ?thesis by (auto simp: select_restore_point_newest list_all_iff filter_empty_conv)
next
  case (Cons p rest)
  have "p \<in> set (filter is_consistent points)"
    using Cons by (metis list.set_intros(1) set_newest_first)
  moreover have "creationTime q \<le> creationTime p" if "q \<in> set points" "is_consistent q" for q
    using newest_first_head [OF Cons] that by simp
  ultimately show ?thesis using Cons by (auto simp: select_restore_point_newest list_all_iff)
qed

lemma select_restore_point_correct_witness:
  "select_restore_point
     [\<lparr>rp_id = ''a'', rp_name = [], creationTime = 5, objectId = [], backupSize = 0,
       is_consistent = True, backup_size_bytes = 0\<rparr>] 60000000 None
   = Inr \<lparr>rp_id = ''a'', rp_name = [], creationTime = 5, objectId = [], backupSize = 0,
       is_consistent = True, backup_size_bytes = 0\<rparr>"
  using select_restore_point_correct [of
     "[\<lparr>rp_id = ''a'', rp_name = [], creationTime = 5, objectId = [], backupSize = 0,
       is_consistent = True, backup_size_bytes = 0\<rparr>]" 60000000 None]
  by (auto split: sum.splits)

subsection \<open>Facts about measurement\<close>

text \<open>For two timestamps less than 2 to the 53 microseconds apart, the float computation of the age is exactly the whole minutes between them.\<close>

theorem compute_age_minutes_exact:
  assumes "0 \<le> now - thn" and "now - thn < 2 ^ 53"
  shows "compute_age_minutes thn now = (now - thn) div 60000000"
proof -
  define d where "d = now - thn"
  define q where "q = d div 60000000"
  let ?x = "of_int d / 1000000 :: rat"
  have d: "0 \<le> d" "d < 2 ^ 53" using assms by (simp_all add: d_def)
  have q: "60000000 * q \<le> d" "d + 1 \<le> 60000000 * (q + 1)" "0 \<le> q"
    using d by (auto simp: q_def)
  then have qr: "(60000000 * of_int q :: rat) \<le> of_int d" "(of_int d + 1 :: rat) \<le> 60000000 * (of_int q + 1)"
    using of_int_le_iff [of "60000000 * q" d, where ?'a = rat]
      of_int_le_iff [of "d + 1" "60000000 * (q + 1)", where ?'a = rat] by simp_all
  have "q < 2 ^ 28" using d q by simp
  then have "of_int (60 * q) \<le> fl ?x"
    using qr q by (intro fl.ge_int) auto
  moreover have "fl ?x < of_int (60 * (q + 1))"
  proof -
    have "(of_int d :: rat) < of_int (2 ^ 53)" using d by (simp only: of_int_less_iff)
    then have "?x < 2 ^ 53 / 1000000" by simp
    moreover have "\<bar>fl ?x - ?x\<bar> * 2 ^ 53 \<le> ?x" using d by (intro fl_error) simp
    ultimately have "fl ?x - ?x < 1 / 1000000" by (simp add: abs_if split: if_splits)
    with qr show ?thesis by simp
  qed
  ultimately have "\<lfloor>fl ?x / 60\<rfloor> = q" by (intro floor_unique) auto
  then show ?thesis
    using q by (simp add: compute_age_minutes_def total_seconds_def fdiv_def d_def [symmetric] q_def)
qed

lemma compute_age_minutes_exact_witness: "compute_age_minutes 0 119999999 = 1"
  using compute_age_minutes_exact [of 119999999 0] by simp

subsection \<open>Facts about the readiness score\<close>

lemma objective_points_bounds: "0 \<le> objective_points actual target 20 \<and> objective_points actual target 20 \<le> 20"
proof -
  have "py_round (fmul 20 (fsub 1 (fdiv (of_int (actual - target)) (of_int target)))) \<le> 20"
    if "0 < target" "target < actual"
  proof (rule py_round_le)
    have "0 \<le> fdiv (of_int (actual - target)) (of_int target)"
      using that by (simp add: fdiv_def fl_nonneg)
    then have "fsub 1 (fdiv (of_int (actual - target)) (of_int target)) \<le> 1"
      using fl.le_int [of _ 1] by (simp add: fsub_def)
    then have "20 * fsub 1 (fdiv (of_int (actual - target)) (of_int target)) \<le> 20" by simp
    then show "fmul 20 (fsub 1 (fdiv (of_int (actual - target)) (of_int target))) \<le> of_int 20"
      unfolding fmul_def by (intro fl.le_int) auto
  qed
  then show ?thesis by (auto simp: objective_points_def Let_def)
qed

lemma objective_points_met: "actual \<le> target \<Longrightarrow> 0 < target \<Longrightarrow> objective_points actual target 20 = 20"
  by (simp add: objective_points_def)

lemma objective_points_antimono:
  "actual \<le> actual' \<Longrightarrow> objective_points actual' target 20 \<le> objective_points actual target 20"
proof (cases "0 < target \<and> target < actual")
  case True
  assume le: "actual \<le> actual'"
  let ?o = "\<lambda>a. fdiv (of_int (a - target)) (of_int target) :: rat"
  have "?o actual \<le> ?o actual'"
    using True le by (simp add: fdiv_def fl_mono divide_right_mono)
  then have "fmul 20 (fsub 1 (?o actual')) \<le> fmul 20 (fsub 1 (?o actual))"
    by (simp add: fmul_def fsub_def fl_mono)
  then have "py_round (fmul 20 (fsub 1 (?o actual'))) \<le> py_round (fmul 20 (fsub 1 (?o actual)))"
    by (rule py_round_mono)
  with True le show ?thesis by (simp add: objective_points_def Let_def)
next
  case False
  assume "actual \<le> actual'"
  with False show ?thesis
    using objective_points_bounds [of actual' target]
    by (auto simp: objective_points_def split: if_splits)
qed

lemma objective_points_double: "0 < target \<Longrightarrow> 2 * target \<le> actual \<Longrightarrow> objective_points actual target 20 = 0"
proof -
  assume t: "0 < target" "2 * target \<le> actual"
  then have "1 \<le> (of_int (actual - target) :: rat) / of_int target"
    by (simp add: pos_le_divide_eq)
  then have "1 \<le> fdiv (of_int (actual - target)) (of_int target)"
    using fl.ge_int [of 1] by (simp add: fdiv_def)
  then have "fsub 1 (fdiv (of_int (actual - target)) (of_int target)) \<le> 0"
    using fl.le_int [of _ 0] by (simp add: fsub_def)
  then have "fmul 20 (fsub 1 (fdiv (of_int (actual - target)) (of_int target))) \<le> of_int 0"
    unfolding fmul_def by (intro fl.le_int) auto
  then have "py_round (fmul 20 (fsub 1 (fdiv (of_int (actual - target)) (of_int target)))) \<le> 0"
    by (rule py_round_le)
  with t show ?thesis by (simp add: objective_points_def Let_def)
qed

lemma readiness_score_sum:
  "readiness_score h a t b u =
     (if h then 60 else 0) + objective_points a t 20 + objective_points b u 20"
  using objective_points_bounds [of a t] objective_points_bounds [of b u]
  by (simp add: readiness_score_def Let_def)

text \<open>C10: the readiness score lies in 0..100, health decides whether it reaches 60, and a slower recovery or an older restore point never raises it.\<close>

theorem readiness_score_contract:
  "0 \<le> readiness_score h a t b u \<and> readiness_score h a t b u \<le> 100
   \<and> (60 \<le> readiness_score h a t b u \<longleftrightarrow> h)
   \<and> readiness_score h (max a a') t (max b b') u \<le> readiness_score h a t b u"
  using objective_points_bounds [of a t] objective_points_bounds [of b u]
    objective_points_antimono [of a "max a a'" t] objective_points_antimono [of b "max b b'" u]
  by (auto simp: readiness_score_sum)

subsection \<open>Facts about instant recovery\<close>

text \<open>An instant-recovery request can be built exactly for servers of major version 12 or later, and every request built maps every source network to the isolated network and to nothing else.\<close>

theorem instant_recovery_isolated:
  "case build_instant_recovery_request (api_version_for_build bv) rp net ds reason of
     Inl e \<Rightarrow> fst (build_version_tuple bv) < 12 \<and> e = NotImplementedError ''instant recovery REST API requires Veeam 11+ (v1.1)''
   | Inr (endpoint, body) \<Rightarrow> 12 \<le> fst (build_version_tuple bv)
       \<and> dget body ''networkMapping'' = JArr [JObj [(''sourceNetwork'', JStr ''*''), (''targetNetwork'', JStr net)]]
       \<and> dget body ''restorePointId'' = JStr rp"
  by (auto simp: build_instant_recovery_request_def instant_recovery_endpoint_def
      api_version_for_build_def Let_def dget_def)

text \<open>Veeam 11 is among the refused servers, although the message and the documentation name it as supported.\<close>

lemma veeam_11_refused:
  "build_instant_recovery_request (api_version_for_build (Some ''11.0.1.1261'')) rp net ds reason
   = Inl (NotImplementedError ''instant recovery REST API requires Veeam 11+ (v1.1)'')"
proof -
  have "api_version_for_build (Some ''11.0.1.1261'') = ''v1.0''" by code_simp
  then show ?thesis by (simp add: build_instant_recovery_request_def instant_recovery_endpoint_def)
qed

lemma veeam_10_wire_version: "x_api_version (Some ''10.0.1.4854'') = ''1.1-rev1''"
  by code_simp

end
