(* ===== verification/VeeamClient.thy ===== *)
theory VeeamClient
  imports VeeamRest
begin

text \<open>
  The stateful Veeam connector, \<open>connectors/veeam/client.py\<close>: token lifecycle, server
  detection, the \<open>x-api-version\<close> header, and the calls built on them. The client's fields
  are the record \<open>veeam_client\<close>; an operation runs on a client paired with the state
  \<open>'s\<close> of the world behind the HTTP library, which is the argument \<open>http\<close>.
  Tenacity's \<open>retry(stop_after_attempt(3))\<close> is \<open>retrying 3\<close>: it runs the body again
  after an exception and raises \<open>RetryError\<close> after the third.
\<close>

subsection \<open>State and parameters\<close>

record veeam_settings =
  veeam_username :: string
  veeam_password :: string
  veeam_api_version_override :: string

record veeam_client =
  c_token :: json
  c_token_expires :: timestamp
  c_build_version :: "string option"
  c_vbr_id :: json
  c_server_name :: json
  h_x_api_version :: string
  h_authorization :: "string option"

record http_response =
  r_status :: int
  r_body :: "json result"

record 's http =
  http_get :: "veeam_client \<Rightarrow> string \<Rightarrow> dict \<Rightarrow> ('s, http_response) exec"
  http_post_form :: "veeam_client \<Rightarrow> string \<Rightarrow> dict \<Rightarrow> ('s, http_response) exec"
  http_post_json :: "veeam_client \<Rightarrow> string \<Rightarrow> dict \<Rightarrow> ('s, http_response) exec"
  http_now :: "'s \<Rightarrow> timestamp"

type_synonym ('s, 'a) vexec = "(veeam_client \<times> 's, 'a) exec"

text \<open>Running a call of the HTTP library, which leaves the client's fields alone.\<close>

definition world :: "('s, 'a) exec \<Rightarrow> ('s, 'a) vexec" where
  "world m cs = (case cs of (c, s) \<Rightarrow> (case m s of (r, s') \<Rightarrow> (r, (c, s'))))"

definition with_client :: "(veeam_client \<Rightarrow> ('s, 'a) vexec) \<Rightarrow> ('s, 'a) vexec" where
  "with_client f cs = f (fst cs) cs"

definition set_client :: "(veeam_client \<Rightarrow> veeam_client) \<Rightarrow> ('s, unit) vexec" where
  "set_client f cs = (Inr (), (f (fst cs), snd cs))"

text \<open>\<open>resp.raise_for_status()\<close> of httpx: every answer but a 2xx raises.\<close>

definition raise_for_status :: "http_response \<Rightarrow> unit result" where
  "raise_for_status r =
     (if r_status r < 200 \<or> 300 \<le> r_status r then Inl (ExternalError ''HTTPStatusError'') else Inr ())"

definition json_body :: "http_response \<Rightarrow> ('s, json) exec" where
  "json_body resp = seq (lift_result (raise_for_status resp)) (\<lambda>_. lift_result (r_body resp))"

definition as_dict :: "json \<Rightarrow> dict result" where
  "as_dict j = (case j of JObj d \<Rightarrow> Inr d | _ \<Rightarrow> Inl (AttributeError ''get''))"

definition vs :: "'s http \<Rightarrow> veeam_client \<times> 's \<Rightarrow> timestamp" where
  "vs http cs = http_now http (snd cs)"

subsection \<open>Construction and versions\<close>

definition rest_api_version :: "veeam_settings \<Rightarrow> veeam_client \<Rightarrow> string" where
  "rest_api_version cfg c =
     (if veeam_api_version_override cfg \<noteq> [] then veeam_api_version_override cfg
      else x_api_version (c_build_version c))"

definition api_version :: "veeam_client \<Rightarrow> string" where
  "api_version c = api_version_for_build (c_build_version c)"

definition new_client :: "veeam_settings \<Rightarrow> timestamp \<Rightarrow> veeam_client" where
  "new_client cfg datetime_min =
     \<lparr>c_token = JNull, c_token_expires = datetime_min, c_build_version = None, c_vbr_id = JNull,
      c_server_name = JNull,
      h_x_api_version = (if veeam_api_version_override cfg \<noteq> [] then veeam_api_version_override cfg
                         else DEFAULT_X_API_VERSION),
      h_authorization = None\<rparr>"

subsection \<open>Token and server info\<close>

definition two_minutes :: int where
  "two_minutes = 120000000"

definition ensure_token :: "veeam_settings \<Rightarrow> 's http \<Rightarrow> ('s, unit) vexec" where
  "ensure_token cfg http = with_client (\<lambda>c. seq (gets (vs http)) (\<lambda>now.
     if truthy (c_token c) \<and> now < c_token_expires c - two_minutes then ret ()
     else
       seq (world (http_post_form http c ''/api/oauth2/token''
              (build_token_request (veeam_username cfg) (veeam_password cfg)))) (\<lambda>resp.
       seq (json_body resp) (\<lambda>j.
       seq (lift_result (and_then (as_dict j) parse_token_response)) (\<lambda>token.
       seq (set_client (\<lambda>c. c\<lparr>c_token := access_token token\<rparr>)) (\<lambda>_.
       seq (gets (vs http)) (\<lambda>now'.
       set_client (\<lambda>c. c\<lparr>c_token_expires := now' + 1000000 * expires_in token,
                         h_authorization := Some (''Bearer '' @ py_str (access_token token))\<rparr>))))))))"

text \<open>\<open>_fetch_server_info\<close> swallows every exception.\<close>

definition fetch_server_info :: "veeam_settings \<Rightarrow> 's http \<Rightarrow> ('s, unit) vexec" where
  "fetch_server_info cfg http =
     try_except
       (with_client (\<lambda>c.
          seq (world (http_get http c ''/api/v1/serverInfo'' [])) (\<lambda>resp.
          seq (json_body resp) (\<lambda>j.
          seq (lift_result (and_then (as_dict j) parse_server_info)) (\<lambda>info.
          seq (set_client (\<lambda>c. c\<lparr>c_build_version := si_build_version info,
                                c_vbr_id := si_vbr_id info,
                                c_server_name := si_server_name info\<rparr>)) (\<lambda>_.
          set_client (\<lambda>c. c\<lparr>h_x_api_version := rest_api_version cfg c\<rparr>)))))))
       (\<lambda>_. ret ())"

definition aenter :: "veeam_settings \<Rightarrow> 's http \<Rightarrow> ('s, unit) vexec" where
  "aenter cfg http = seq (ensure_token cfg http) (\<lambda>_. fetch_server_info cfg http)"

record version_info =
  vi_build_version :: "string option"
  vi_api_version :: string
  vi_rest_api_version :: string
  vi_server_name :: json

definition detect_version :: "veeam_settings \<Rightarrow> 's http \<Rightarrow> ('s, version_info) vexec" where
  "detect_version cfg http =
     seq (with_client (\<lambda>c. if str_or (c_build_version c) [] = [] then fetch_server_info cfg http else ret ()))
       (\<lambda>_. with_client (\<lambda>c. ret
          \<lparr>vi_build_version = c_build_version c, vi_api_version = api_version c,
           vi_rest_api_version = rest_api_version cfg c, vi_server_name = c_server_name c\<rparr>))"

subsection \<open>Requests with retries\<close>

fun retrying :: "nat \<Rightarrow> ('s, 'a) exec \<Rightarrow> ('s, 'a) exec" where
  "retrying 0 m = raise (ExternalError ''RetryError'')"
| "retrying (Suc n) m = try_except m (\<lambda>_. retrying n m)"

definition get_once :: "veeam_settings \<Rightarrow> 's http \<Rightarrow> string \<Rightarrow> dict \<Rightarrow> ('s, json) vexec" where
  "get_once cfg http path params =
     seq (ensure_token cfg http) (\<lambda>_. with_client (\<lambda>c.
       seq (world (http_get http c (''/api/v1'' @ path) params)) json_body))"

definition post_once :: "veeam_settings \<Rightarrow> 's http \<Rightarrow> string \<Rightarrow> dict \<Rightarrow> ('s, json) vexec" where
  "post_once cfg http path body =
     seq (ensure_token cfg http) (\<lambda>_. with_client (\<lambda>c.
       seq (world (http_post_json http c (''/api/v1'' @ path) body)) json_body))"

definition vget :: "veeam_settings \<Rightarrow> 's http \<Rightarrow> string \<Rightarrow> dict \<Rightarrow> ('s, json) vexec" where
  "vget cfg http path params = retrying 3 (get_once cfg http path params)"

definition vpost :: "veeam_settings \<Rightarrow> 's http \<Rightarrow> string \<Rightarrow> dict \<Rightarrow> ('s, json) vexec" where
  "vpost cfg http path body = retrying 3 (post_once cfg http path body)"

text \<open>\<open>data.get("data", [])\<close>\<close>

definition data_items :: "json \<Rightarrow> json list result" where
  "data_items j = and_then (as_dict j) (\<lambda>d. py_iter (dget_or d ''data'' (JArr [])))"

subsection \<open>Calls\<close>

definition list_jobs :: "veeam_settings \<Rightarrow> 's http \<Rightarrow> (json \<Rightarrow> 'j result) \<Rightarrow> ('s, 'j list) vexec" where
  "list_jobs cfg http validate = seq (vget cfg http ''/jobs'' []) (\<lambda>j.
     lift_result (and_then (data_items j) (map_result validate)))"

definition list_protected_vms :: "veeam_settings \<Rightarrow> 's http \<Rightarrow> (json \<Rightarrow> 'v result) \<Rightarrow> ('s, 'v list) vexec" where
  "list_protected_vms cfg http validate = seq (vget cfg http ''/protectedVMs'' []) (\<lambda>j.
     lift_result (and_then (data_items j) (map_result validate)))"

definition list_restore_points ::
    "veeam_settings \<Rightarrow> 's http \<Rightarrow> (json \<Rightarrow> restore_point result) \<Rightarrow> string \<Rightarrow> ('s, restore_point list) vexec" where
  "list_restore_points cfg http validate object_id = with_client (\<lambda>c.
     case restore_points_path (api_version c) object_id of (path, params) \<Rightarrow>
       seq (vget cfg http path params) (\<lambda>j.
         lift_result (and_then (as_dict j) (parse_restore_points validate))))"

definition start_instant_recovery ::
    "veeam_settings \<Rightarrow> 's http \<Rightarrow> string \<Rightarrow> string \<Rightarrow> string \<Rightarrow> ('s, string) vexec" where
  "start_instant_recovery cfg http restore_point_id target_datastore isolated_network =
     with_client (\<lambda>c.
       seq (lift_result (build_instant_recovery_request (api_version c) restore_point_id
              isolated_network target_datastore ''R3VP automated recovery validation'')) (\<lambda>(endpoint, body).
       seq (vpost cfg http endpoint body) (\<lambda>j.
         lift_result (and_then (as_dict j) parse_session_id))))"

definition get_session :: "veeam_settings \<Rightarrow> 's http \<Rightarrow> string \<Rightarrow> ('s, dict) vexec" where
  "get_session cfg http session_id =
     seq (vget cfg http (''/sessions/'' @ session_id) []) (\<lambda>j. lift_result (as_dict j))"

definition get_session_state :: "veeam_settings \<Rightarrow> 's http \<Rightarrow> string \<Rightarrow> ('s, json) vexec" where
  "get_session_state cfg http session_id =
     seq (get_session cfg http session_id) (\<lambda>d. ret (parse_session_state d))"

definition stop_instant_recovery :: "veeam_settings \<Rightarrow> 's http \<Rightarrow> string \<Rightarrow> ('s, unit) vexec" where
  "stop_instant_recovery cfg http session_id = with_client (\<lambda>c.
     seq (vpost cfg http (stop_publishing_path (api_version c) session_id) []) (\<lambda>_. ret ()))"

definition list_backup_repositories :: "veeam_settings \<Rightarrow> 's http \<Rightarrow> ('s, json) vexec" where
  "list_backup_repositories cfg http = with_client (\<lambda>c.
     if api_version c \<noteq> ''v1.2'' then ret (JArr [])
     else seq (vget cfg http ''/backupRepositories'' []) (\<lambda>j.
       lift_result (and_then (as_dict j) (\<lambda>d. Inr (dget_or d ''data'' (JArr []))))))"

definition list_malware_detection_events :: "veeam_settings \<Rightarrow> 's http \<Rightarrow> int \<Rightarrow> ('s, json) vexec" where
  "list_malware_detection_events cfg http limit = with_client (\<lambda>c.
     if api_version c \<noteq> ''v1.2'' then ret (JArr [])
     else seq (vget cfg http ''/malwareDetection/events'' [(''limit'', JInt limit)]) (\<lambda>j.
       lift_result (and_then (as_dict j) (\<lambda>d. Inr (dget_or d ''data'' (JArr []))))))"

definition trigger_backup_job :: "veeam_settings \<Rightarrow> 's http \<Rightarrow> string \<Rightarrow> ('s, json) vexec" where
  "trigger_backup_job cfg http job_id =
     seq (vpost cfg http (''/jobs/'' @ job_id @ ''/start'') []) (\<lambda>j.
       lift_result (and_then (as_dict j) (\<lambda>d. Inr (dget_or d ''sessionId'' (JStr [])))))"

definition get_backup_job_session :: "veeam_settings \<Rightarrow> 's http \<Rightarrow> string \<Rightarrow> ('s, json) vexec" where
  "get_backup_job_session cfg http session_id = vget cfg http (''/jobSessions/'' @ session_id) []"

definition list_backup_objects :: "veeam_settings \<Rightarrow> 's http \<Rightarrow> ('s, json) vexec" where
  "list_backup_objects cfg http =
     seq (vget cfg http ''/backupObjects'' []) (\<lambda>j.
       lift_result (and_then (as_dict j) (\<lambda>d. Inr (dget_or d ''data'' (JArr [])))))"

text \<open>\<open>async with VeeamClient() as veeam: body\<close>: a fresh client, entered, then discarded.\<close>

definition with_veeam ::
    "veeam_settings \<Rightarrow> 's http \<Rightarrow> timestamp \<Rightarrow> ('s, 'a) vexec \<Rightarrow> ('s, 'a) exec" where
  "with_veeam cfg http datetime_min body s =
     (case seq (aenter cfg http) (\<lambda>_. body) (new_client cfg datetime_min, s) of
        (r, (c, s')) \<Rightarrow> (r, s'))"

subsection \<open>The client's invariant\<close>

text \<open>
  The version header always matches the build detected so far (or the override), and the
  authorization header always carries the current token.
\<close>

definition client_ok :: "veeam_settings \<Rightarrow> veeam_client \<Rightarrow> bool" where
  "client_ok cfg c \<longleftrightarrow>
     h_x_api_version c = rest_api_version cfg c \<and>
     (truthy (c_token c) \<longrightarrow> h_authorization c = Some (''Bearer '' @ py_str (c_token c)))"

text \<open>
  An operation keeps the invariant when it does so in every outcome. The rules below follow the
  combinators, so a handler built from operations that keep it keeps it too.
\<close>

definition keeps :: "veeam_settings \<Rightarrow> ('s, 'a) vexec \<Rightarrow> bool" where
  "keeps cfg m \<longleftrightarrow> (\<forall>cs. client_ok cfg (fst cs) \<longrightarrow> client_ok cfg (fst (snd (m cs))))"

named_theorems keeps_intros \<open>operations that keep the client invariant\<close>

lemma keeps_ret [keeps_intros]: "keeps cfg (ret x)"
  by (simp add: keeps_def exec_simps)

lemma keeps_raise [keeps_intros]: "keeps cfg (raise e)"
  by (simp add: keeps_def exec_simps)

lemma keeps_lift [keeps_intros]: "keeps cfg (lift_result r)"
  by (simp add: keeps_def exec_simps)

lemma keeps_gets [keeps_intros]: "keeps cfg (gets f)"
  by (simp add: keeps_def exec_simps)

lemma keeps_world [keeps_intros]: "keeps cfg (world m)"
  by (auto simp: keeps_def world_def split: prod.splits)

lemma keeps_seq [keeps_intros]: "keeps cfg m \<Longrightarrow> (\<And>x. keeps cfg (f x)) \<Longrightarrow> keeps cfg (seq m f)"
  unfolding keeps_def seq_def by (auto split: prod.splits sum.splits) (metis fst_conv snd_conv)+

lemma keeps_try [keeps_intros]: "keeps cfg m \<Longrightarrow> (\<And>e. keeps cfg (h e)) \<Longrightarrow> keeps cfg (try_except m h)"
  unfolding keeps_def try_except_def by (auto split: prod.splits sum.splits) (metis fst_conv snd_conv)+

lemma keeps_with_client [keeps_intros]: "(\<And>c. keeps cfg (f c)) \<Longrightarrow> keeps cfg (with_client f)"
  by (simp add: keeps_def with_client_def)

lemma keeps_if [keeps_intros]: "keeps cfg a \<Longrightarrow> keeps cfg b \<Longrightarrow> keeps cfg (if P then a else b)"
  by simp

lemma keeps_retrying [keeps_intros]: "keeps cfg m \<Longrightarrow> keeps cfg (retrying n m)"
  by (induction n) (auto intro: keeps_intros)

lemma keeps_json_body [keeps_intros]: "keeps cfg (json_body resp)"
  unfolding json_body_def by (intro keeps_intros)

lemma new_client_ok: "client_ok cfg (new_client cfg t)"
  by (simp add: client_ok_def new_client_def rest_api_version_def x_api_version_def str_or_def)

text \<open>The token is replaced in two assignments with only a clock reading between them.\<close>

lemma keeps_store_token:
  "keeps cfg (seq (set_client (\<lambda>c. c\<lparr>c_token := tok\<rparr>)) (\<lambda>_. seq (gets f) (\<lambda>now.
     set_client (\<lambda>c. c\<lparr>c_token_expires := g now, h_authorization := Some (''Bearer '' @ py_str tok)\<rparr>))))"
  by (simp add: keeps_def exec_simps set_client_def client_ok_def rest_api_version_def)

lemma keeps_store_info:
  "keeps cfg (seq (set_client (\<lambda>c. c\<lparr>c_build_version := b, c_vbr_id := v, c_server_name := n\<rparr>)) (\<lambda>_.
     set_client (\<lambda>c. c\<lparr>h_x_api_version := rest_api_version cfg c\<rparr>)))"
  by (simp add: keeps_def exec_simps set_client_def client_ok_def rest_api_version_def)

lemma keeps_ensure_token [keeps_intros]: "keeps cfg (ensure_token cfg http)"
  unfolding ensure_token_def by (intro keeps_intros keeps_store_token)

lemma keeps_fetch_server_info [keeps_intros]: "keeps cfg (fetch_server_info cfg http)"
  unfolding fetch_server_info_def by (intro keeps_intros keeps_store_info)

lemma keeps_vget [keeps_intros]: "keeps cfg (vget cfg http path params)"
  unfolding vget_def get_once_def by (intro keeps_intros)

lemma keeps_vpost [keeps_intros]: "keeps cfg (vpost cfg http path body)"
  unfolding vpost_def post_once_def by (intro keeps_intros)

lemma keeps_start_instant_recovery [keeps_intros]:
  "keeps cfg (start_instant_recovery cfg http rp ds net)"
  unfolding start_instant_recovery_def split_def by (intro keeps_intros)

lemma keeps_list_restore_points [keeps_intros]:
  "keeps cfg (list_restore_points cfg http validate object_id)"
  unfolding list_restore_points_def split_def by (intro keeps_intros)

lemma keeps_get_session [keeps_intros]: "keeps cfg (get_session cfg http sid)"
  unfolding get_session_def by (intro keeps_intros)

lemma keeps_stop [keeps_intros]: "keeps cfg (stop_instant_recovery cfg http sid)"
  unfolding stop_instant_recovery_def by (intro keeps_intros)

text \<open>Whatever the server answers, a client that has been entered and has run a recovery start, a session query, a restore-point listing and a stop still sends the x-api-version header of the build it detected (or the configured override) and the bearer token it holds.\<close>

theorem client_headers_consistent:
  "client_ok cfg (fst (snd ((seq (aenter cfg http) (\<lambda>_.
     seq (list_restore_points cfg http validate obj) (\<lambda>_.
     seq (start_instant_recovery cfg http rp ds net) (\<lambda>sid.
     seq (get_session cfg http sid) (\<lambda>_.
     stop_instant_recovery cfg http sid))))) (new_client cfg t, s))))"
proof -
  have "keeps cfg (seq (aenter cfg http) (\<lambda>_.
     seq (list_restore_points cfg http validate obj) (\<lambda>_.
     seq (start_instant_recovery cfg http rp ds net) (\<lambda>sid.
     seq (get_session cfg http sid) (\<lambda>_.
     stop_instant_recovery cfg http sid)))))"
    unfolding aenter_def by (intro keeps_intros)
  with new_client_ok [of cfg t] show ?thesis by (simp add: keeps_def)
qed

subsection \<open>Retries and undetected servers\<close>

lemma retrying_all_fail:
  "(\<And>s. fst (m s) = Inl (e s)) \<Longrightarrow> retrying n m s = (Inl (ExternalError ''RetryError''), ((\<lambda>s. snd (m s)) ^^ n) s)"
proof (induction n arbitrary: s)
  case 0
  then show ?case by (simp add: exec_simps)
next
  case (Suc n)
  have "m s = (Inl (e s), snd (m s))" using Suc.prems [of s] by (metis prod.collapse)
  then have "retrying (Suc n) m s = retrying n m (snd (m s))"
    by (simp add: try_except_def) (metis (mono_tags, lifting) case_prod_conv old.sum.simps(5))
  with Suc show ?case using funpow_swap1 [of "\<lambda>s. snd (m s)" n s] by simp
qed

lemma retrying_first_success: "fst (m s) = Inr x \<Longrightarrow> retrying (Suc n) m s = m s"
  by (cases "m s") (auto simp: try_except_def)

text \<open>A client whose server information could not be read works at the lowest tier, \<open>v1.0\<close>.\<close>

lemma undetected_api_version: "api_version (new_client cfg t) = ''v1.0''"
proof -
  have "api_version_for_build None = ''v1.0''" by code_simp
  then show ?thesis by (simp add: api_version_def new_client_def)
qed

end
