(* ===== verification/Relay.thy ===== *)
theory Relay
  imports VeeamClient
begin

text \<open>
  The appliance's outbound channel, \<open>relay/client.py\<close>. The HTTPS library is the argument
  \<open>rl\<close>: \<open>rl_open\<close> builds the mTLS client (it raises when the certificate files cannot be
  loaded), \<open>rl_post\<close> and \<open>rl_get\<close> send one request. Every operation is a request
  followed by \<open>raise_for_status\<close>.
\<close>

record relay_settings =
  appliance_id :: string
  org_id :: string

record 's relay =
  rl_open :: "('s, unit) exec"
  rl_post :: "string \<Rightarrow> json \<Rightarrow> ('s, http_response) exec"
  rl_upload :: "string \<Rightarrow> string \<Rightarrow> string \<Rightarrow> ('s, http_response) exec"
  rl_get :: "string \<Rightarrow> ('s, http_response) exec"
  rl_close :: "('s, unit) exec"

definition checked :: "('s, http_response) exec \<Rightarrow> ('s, http_response) exec" where
  "checked m = seq m (\<lambda>resp. seq (lift_result (raise_for_status resp)) (\<lambda>_. ret resp))"

definition relay_register :: "relay_settings \<Rightarrow> 's relay \<Rightarrow> ('s, unit) exec" where
  "relay_register cfg rl =
     seq (checked (rl_post rl ''/v1/appliance/register''
       (JObj [(''appliance_id'', JStr (appliance_id cfg)), (''org_id'', JStr (org_id cfg))]))) (\<lambda>_. ret ())"

definition relay_heartbeat :: "relay_settings \<Rightarrow> 's relay \<Rightarrow> ('s, unit) exec" where
  "relay_heartbeat cfg rl =
     seq (checked (rl_post rl ''/v1/appliance/heartbeat''
       (JObj [(''appliance_id'', JStr (appliance_id cfg)), (''version'', JStr ''0.1.0'')]))) (\<lambda>_. ret ())"

definition relay_sync_inventory :: "'s relay \<Rightarrow> json \<Rightarrow> ('s, unit) exec" where
  "relay_sync_inventory rl payload =
     seq (checked (rl_post rl ''/v1/appliance/inventory/sync'' payload)) (\<lambda>_. ret ())"

definition relay_post_progress :: "'s relay \<Rightarrow> string \<Rightarrow> json \<Rightarrow> ('s, unit) exec" where
  "relay_post_progress rl run_id step =
     seq (checked (rl_post rl (''/v1/appliance/test-runs/'' @ run_id @ ''/progress'') step)) (\<lambda>_. ret ())"

definition relay_post_result :: "'s relay \<Rightarrow> string \<Rightarrow> json \<Rightarrow> ('s, unit) exec" where
  "relay_post_result rl run_id res =
     seq (checked (rl_post rl (''/v1/appliance/test-runs/'' @ run_id @ ''/result'') res)) (\<lambda>_. ret ())"

definition relay_upload_evidence :: "'s relay \<Rightarrow> string \<Rightarrow> string \<Rightarrow> string \<Rightarrow> ('s, unit) exec" where
  "relay_upload_evidence rl run_id filename data =
     seq (checked (rl_upload rl (''/v1/appliance/test-runs/'' @ run_id @ ''/evidence'') filename data)) (\<lambda>_. ret ())"

definition relay_get_pending_commands :: "'s relay \<Rightarrow> ('s, json) exec" where
  "relay_get_pending_commands rl =
     seq (checked (rl_get rl ''/v1/appliance/commands'')) (\<lambda>resp.
     seq (lift_result (r_body resp)) (\<lambda>j.
     lift_result (and_then (as_dict j) (\<lambda>d. Inr (dget_or d ''commands'' (JArr []))))))"

lemma wp_checked [wp_simps]:
  "wp (checked m) Q E =
     wp m (\<lambda>resp. if r_status resp < 200 \<or> 300 \<le> r_status resp then E (ExternalError ''HTTPStatusError'') else Q resp) E"
proof -
  have "(\<lambda>x. wp (seq (lift_result (raise_for_status x)) (\<lambda>_. ret x)) Q E)
     = (\<lambda>resp. if r_status resp < 200 \<or> 300 \<le> r_status resp then E (ExternalError ''HTTPStatusError'') else Q resp)"
    by (rule ext) (simp add: wp_simps raise_for_status_def)
  then show ?thesis by (simp add: checked_def wp_seq)
qed

end
