(* ===== verification/Activities.thy ===== *)
theory Activities
  imports VCenter Relay
begin

text \<open>
  The Temporal activities of \<open>workflows/activities.py\<close> and the OS health checks they run
  (\<open>health_checks/windows_os.py\<close>, \<open>linux_os.py\<close>). \<open>services\<close> gathers what an
  activity calls: the HTTP library behind the Veeam client, pyVmomi, the relay, processes, the
  clock and the provider SDKs, each on one world state \<open>'s\<close>.
\<close>

subsection \<open>Settings and services\<close>

record appliance_settings =
  as_veeam :: veeam_settings
  isolated_vlan_id :: int
  isolated_network_name :: string
  vcenter_network_backend :: string
  vcenter_vswitch_name :: string
  vcenter_dvs_name :: string
  recovery_poll_timeout_secs :: int
  recovery_poll_interval_secs :: int
  provider :: string

record veeam_vm =
  vv_object_id :: string
  vv_name :: string
  vv_platform :: string

text \<open>The two calls each provider connector offers; \<open>connect\<close> answers whether it worked.\<close>

record ('s, 'v) connector =
  connect :: "('s, bool) exec"
  list_items :: "('s, 'v list) exec"

record aws_point =
  resource_arn :: json
  creation_date :: json

record azure_item =
  item_id :: json
  friendly_name :: json
  last_backup_time :: json

record 's provider_sdks =
  sdk_hyperv :: "('s, json \<times> json) connector"
  sdk_aws_connect :: "('s, bool) exec"
  sdk_aws_vaults :: "('s, json list) exec"
  sdk_aws_points :: "json \<Rightarrow> ('s, aws_point list) exec"
  sdk_azure :: "('s, azure_item) connector"
  sdk_named :: "string \<Rightarrow> ('s, json \<times> json) connector"

record 's services =
  sv_http :: "'s http"
  sv_datetime_min :: timestamp
  sv_validate_vm :: "json \<Rightarrow> veeam_vm result"
  sv_validate_point :: "json \<Rightarrow> restore_point result"
  sv_vcenter :: "'s vcenter_api"
  sv_vc_connect :: "('s, unit) exec"
  sv_vc_disconnect :: "'s \<Rightarrow> 's"
  sv_fuel :: nat
  sv_relay :: "'s relay"
  sv_run_process :: "string list \<Rightarrow> ('s, int \<times> string) exec"
  sv_now :: "'s \<Rightarrow> timestamp"
  sv_sleep :: "int \<Rightarrow> 's \<Rightarrow> 's"
  sv_sdks :: "'s provider_sdks"

text \<open>\<open>with VCenterClient() as vc: body\<close>\<close>

definition with_vcenter :: "'s services \<Rightarrow> ('s, 'a) exec \<Rightarrow> ('s, 'a) exec" where
  "with_vcenter sv body = seq (sv_vc_connect sv) (\<lambda>_. finally_do body (sv_vc_disconnect sv))"

definition in_veeam :: "appliance_settings \<Rightarrow> 's services \<Rightarrow> ('s, 'a) vexec \<Rightarrow> ('s, 'a) exec" where
  "in_veeam cfg sv body = with_veeam (as_veeam cfg) (sv_http sv) (sv_datetime_min sv) body"

subsection \<open>Inventory and restore points\<close>

definition inventory_vm :: "veeam_vm \<Rightarrow> json" where
  "inventory_vm vm = JObj
     [(''object_id'', JStr (vv_object_id vm)), (''name'', JStr (vv_name vm)),
      (''platform'', JStr (vv_platform vm)), (''os_type'', JNull),
      (''is_protected'', JBool True), (''last_backup'', JNull), (''moref'', JNull)]"

definition sync_inventory :: "appliance_settings \<Rightarrow> 's services \<Rightarrow> string \<Rightarrow> ('s, unit) exec" where
  "sync_inventory cfg sv run_id =
     seq (in_veeam cfg sv (list_protected_vms (as_veeam cfg) (sv_http sv) (sv_validate_vm sv))) (\<lambda>vms.
     seq (rl_open (sv_relay sv)) (\<lambda>_.
     seq (relay_sync_inventory (sv_relay sv)
       (JObj [(''run_id'', JStr run_id), (''vms'', JArr (map inventory_vm vms))])) (\<lambda>_.
     rl_close (sv_relay sv))))"

record selection =
  sel_restore_point_id :: string
  sel_creation_time :: timestamp

definition select_restore_point_act ::
    "appliance_settings \<Rightarrow> 's services \<Rightarrow> string \<Rightarrow> int \<Rightarrow> ('s, selection) exec" where
  "select_restore_point_act cfg sv veeam_object_id rpo_target_mins =
     seq (in_veeam cfg sv (list_restore_points (as_veeam cfg) (sv_http sv) (sv_validate_point sv) veeam_object_id)) (\<lambda>points.
     seq (gets (sv_now sv)) (\<lambda>now.
     seq (lift_result (select_restore_point points now (Some rpo_target_mins))) (\<lambda>best.
     ret \<lparr>sel_restore_point_id = rp_id best, sel_creation_time = creationTime best\<rparr>)))"

subsection \<open>Isolated network and recovery\<close>

definition isolated_name :: "appliance_settings \<Rightarrow> string \<Rightarrow> string" where
  "isolated_name cfg run_id = isolated_network_name cfg @ ''-'' @ take 8 run_id"

definition provision_isolated_network :: "appliance_settings \<Rightarrow> 's services \<Rightarrow> string \<Rightarrow> ('s, string) exec" where
  "provision_isolated_network cfg sv run_id =
     (let network_name = isolated_name cfg run_id in
      seq (with_vcenter sv
        (if lower (vcenter_network_backend cfg) = ''dvs''
         then create_isolated_portgroup_dvs (sv_fuel sv) (sv_vcenter sv) (vcenter_dvs_name cfg) (isolated_vlan_id cfg) network_name
         else create_isolated_portgroup (sv_vcenter sv) (vcenter_vswitch_name cfg) (isolated_vlan_id cfg) network_name))
        (\<lambda>_. ret network_name))"

definition start_instant_recovery_act ::
    "appliance_settings \<Rightarrow> 's services \<Rightarrow> string \<Rightarrow> string \<Rightarrow> ('s, string) exec" where
  "start_instant_recovery_act cfg sv restore_point_id isolated_network =
     in_veeam cfg sv (start_instant_recovery (as_veeam cfg) (sv_http sv) restore_point_id [] isolated_network)"

definition max_polls :: "appliance_settings \<Rightarrow> nat" where
  "max_polls cfg = nat (max 1 (recovery_poll_timeout_secs cfg div max 1 (recovery_poll_interval_secs cfg)))"

text \<open>The \<open>for ... else\<close> loop: \<open>state\<close> is the last state seen.\<close>

fun poll_session ::
    "appliance_settings \<Rightarrow> 's services \<Rightarrow> string \<Rightarrow> nat \<Rightarrow> json \<Rightarrow> ('s, dict) vexec" where
  "poll_session cfg sv sid 0 state =
     raise (RuntimeError (''Veeam instant recovery session never became published (last state: '' @ py_str state @ '')''))"
| "poll_session cfg sv sid (Suc n) state =
     seq (get_session (as_veeam cfg) (sv_http sv) sid) (\<lambda>body.
     seq (lift_result (classify_poll (parse_session_state body))) (\<lambda>decision.
       case decision of
         PUBLISHED \<Rightarrow> ret body
       | FAILED \<Rightarrow> raise (RuntimeError (''Veeam instant recovery session failed (state: ''
                                       @ py_str (parse_session_state body) @ '')''))
       | WAIT \<Rightarrow> seq (world (update (sv_sleep sv (recovery_poll_interval_secs cfg)))) (\<lambda>_.
                 poll_session cfg sv sid n (parse_session_state body))))"

definition placeholder :: "string \<Rightarrow> string" where
  "placeholder sid = ''recovered-'' @ sid"

definition wait_for_vm_boot :: "appliance_settings \<Rightarrow> 's services \<Rightarrow> string \<Rightarrow> ('s, string) exec" where
  "wait_for_vm_boot cfg sv sid =
     seq (in_veeam cfg sv (poll_session cfg sv sid (max_polls cfg) (JStr (state_value UNKNOWN)))) (\<lambda>body.
     let identity = parse_recovered_vm_identity body in
     if lookup_plan identity \<noteq> []
     then seq (with_vcenter sv (resolve_moref (sv_vcenter sv) identity)) (\<lambda>m.
            ret (if str_or m [] \<noteq> [] then the m else placeholder sid))
     else ret (placeholder sid))"

subsection \<open>Health checks\<close>

record health_result =
  hr_passed :: bool
  hr_output :: string
  hr_check :: string

definition windows_os_check :: "'s services \<Rightarrow> ('s, health_result) exec" where
  "windows_os_check sv =
     try_except
       (seq (sv_run_process sv [''winrs'', ''-r:placeholder'', ''hostname'']) (\<lambda>(returncode, out).
          ret \<lparr>hr_passed = (returncode = 0), hr_output = strip out, hr_check = ''windows_os_boot''\<rparr>))
       (\<lambda>e. ret \<lparr>hr_passed = False, hr_output = exn_text e, hr_check = ''windows_os_boot''\<rparr>)"

definition linux_os_check :: "'s services \<Rightarrow> ('s, health_result) exec" where
  "linux_os_check sv =
     try_except
       (seq (sv_run_process sv [''ssh'', ''-o'', ''StrictHostKeyChecking=no'', ''-o'', ''ConnectTimeout=10'',
               ''root@placeholder'', ''systemctl is-system-running'']) (\<lambda>(returncode, out).
          ret \<lparr>hr_passed = (strip out \<in> {''running'', ''degraded''}), hr_output = strip out,
               hr_check = ''linux_os_boot''\<rparr>))
       (\<lambda>e. ret \<lparr>hr_passed = False, hr_output = exn_text e, hr_check = ''linux_os_boot''\<rparr>)"

definition health_progress :: "health_result \<Rightarrow> json" where
  "health_progress r = JObj
     [(''step'', JStr (hr_check r)), (''passed'', JBool (hr_passed r)),
      (''output'', JStr (hr_output r)), (''check'', JStr (hr_check r))]"

text \<open>\<open>for check in checks\<close>: run it, then post its result over a relay client of its own.\<close>

fun run_checks :: "'s services \<Rightarrow> string \<Rightarrow> ('s, health_result) exec list \<Rightarrow> ('s, health_result list) exec" where
  "run_checks sv run_id [] = ret []"
| "run_checks sv run_id (check # checks) =
     seq check (\<lambda>r.
     seq (rl_open (sv_relay sv)) (\<lambda>_.
     seq (relay_post_progress (sv_relay sv) run_id (health_progress r)) (\<lambda>_.
     seq (rl_close (sv_relay sv)) (\<lambda>_.
     seq (run_checks sv run_id checks) (\<lambda>rs. ret (r # rs))))))"

definition run_health_checks :: "'s services \<Rightarrow> string \<Rightarrow> string \<Rightarrow> ('s, health_result list) exec" where
  "run_health_checks sv run_id vm_moref = run_checks sv run_id [windows_os_check sv, linux_os_check sv]"

subsection \<open>Evidence, measurement, report, teardown\<close>

definition capture_evidence :: "'s services \<Rightarrow> string \<Rightarrow> string option \<Rightarrow> ('s, unit) exec" where
  "capture_evidence sv run_id vm_moref =
     (if str_or vm_moref [] = [] then ret ()
      else
        seq (rl_open (sv_relay sv)) (\<lambda>_.
        seq (with_vcenter sv
          (seq (take_screenshot (sv_fuel sv) (sv_vcenter sv) (the vm_moref)) (\<lambda>screenshot.
             if screenshot \<noteq> []
             then relay_upload_evidence (sv_relay sv) run_id ''screenshot.png'' screenshot
             else ret ()))) (\<lambda>_.
        rl_close (sv_relay sv))))"

record measurement =
  m_rto_actual_mins :: int
  m_rpo_actual_mins :: int
  m_readiness_score :: int

definition record_rto_rpo ::
    "'s services \<Rightarrow> timestamp option \<Rightarrow> timestamp option \<Rightarrow> timestamp option \<Rightarrow> int \<Rightarrow> int \<Rightarrow> bool
     \<Rightarrow> ('s, measurement) exec" where
  "record_rto_rpo sv rpo_creation recovery_start boot_ready rto_target rpo_target health_passed =
     seq (gets (sv_now sv)) (\<lambda>now.
       let rpo_actual = (case rpo_creation of Some t \<Rightarrow> compute_rpo_minutes t now | None \<Rightarrow> 0);
           rto_actual = (case (recovery_start, boot_ready) of
                           (Some a, Some b) \<Rightarrow> compute_rto_minutes a b
                         | _ \<Rightarrow> 0)
       in ret \<lparr>m_rto_actual_mins = rto_actual, m_rpo_actual_mins = rpo_actual,
               m_readiness_score = readiness_score health_passed rto_actual rto_target rpo_actual rpo_target\<rparr>)"

definition opt_str :: "string option \<Rightarrow> json" where
  "opt_str v = (case v of None \<Rightarrow> JNull | Some s \<Rightarrow> JStr s)"

definition result_payload :: "bool \<Rightarrow> measurement \<Rightarrow> string option \<Rightarrow> json" where
  "result_payload passed m failure_reason = JObj
     [(''passed'', JBool passed), (''rto_actual_mins'', JInt (m_rto_actual_mins m)),
      (''rpo_actual_mins'', JInt (m_rpo_actual_mins m)), (''readiness_score'', JInt (m_readiness_score m)),
      (''failure_reason'', opt_str failure_reason)]"

definition report_results ::
    "'s services \<Rightarrow> string \<Rightarrow> bool \<Rightarrow> measurement \<Rightarrow> string option \<Rightarrow> ('s, unit) exec" where
  "report_results sv run_id passed m failure_reason =
     seq (rl_open (sv_relay sv)) (\<lambda>_.
     seq (relay_post_result (sv_relay sv) run_id (result_payload passed m failure_reason)) (\<lambda>_.
     rl_close (sv_relay sv)))"

definition teardown_isolated_env ::
    "appliance_settings \<Rightarrow> 's services \<Rightarrow> string option \<Rightarrow> string option \<Rightarrow> ('s, unit) exec" where
  "teardown_isolated_env cfg sv recovery_session_id isolated_network =
     seq (if str_or recovery_session_id [] \<noteq> []
          then in_veeam cfg sv (stop_instant_recovery (as_veeam cfg) (sv_http sv) (the recovery_session_id))
          else ret ()) (\<lambda>_.
     if str_or isolated_network [] \<noteq> []
     then with_vcenter sv (remove_portgroup (sv_vcenter sv) [] (the isolated_network))
     else ret ())"

subsection \<open>Provider inventory\<close>

definition connected :: "('s, bool) exec \<Rightarrow> ('s, json list) exec \<Rightarrow> ('s, json list) exec" where
  "connected conn body = seq conn (\<lambda>ok. if ok then body else ret [])"

text \<open>\<open>t.isoformat() if t else None\<close>; a date is its ISO text here.\<close>

definition iso_or_none :: "json \<Rightarrow> json" where
  "iso_or_none t = (if truthy t then t else JNull)"

text \<open>\<open>rp.resource_arn.split("/")[-1]\<close>\<close>

definition resource_id :: "aws_point \<Rightarrow> string result" where
  "resource_id rp = (case resource_arn rp of
     JStr s \<Rightarrow> Inr (last (split_on CHR ''/'' s))
   | _ \<Rightarrow> Inl (AttributeError ''object has no attribute split''))"

text \<open>One vault's recovery points, each resource once: \<open>seen\<close> starts empty for every vault.\<close>

fun aws_items :: "string list \<Rightarrow> aws_point list \<Rightarrow> json list result" where
  "aws_items seen [] = Inr []"
| "aws_items seen (rp # rps) =
     and_then (resource_id rp) (\<lambda>rid.
      if rid \<in> set seen then aws_items seen rps
      else and_then (aws_items (rid # seen) rps) (\<lambda>rest.
        Inr (JObj [(''object_id'', resource_arn rp), (''name'', JStr rid), (''platform'', JStr ''aws''),
                   (''os_type'', JNull), (''is_protected'', JBool True), (''moref'', resource_arn rp),
                   (''last_backup'', iso_or_none (creation_date rp))] # rest)))"

fun aws_vaults :: "'s provider_sdks \<Rightarrow> json list \<Rightarrow> ('s, json list) exec" where
  "aws_vaults sdk [] = ret []"
| "aws_vaults sdk (vault # vaults) =
     seq (sdk_aws_points sdk vault) (\<lambda>rps.
     seq (lift_result (aws_items [] rps)) (\<lambda>items.
     seq (aws_vaults sdk vaults) (\<lambda>rest. ret (items @ rest))))"

definition hyperv_item :: "json \<times> json \<Rightarrow> json" where
  "hyperv_item vm = JObj
     [(''object_id'', fst vm), (''name'', snd vm), (''platform'', JStr ''hyperv''),
      (''os_type'', JStr ''windows''), (''is_protected'', JBool True), (''moref'', fst vm)]"

definition azure_item_json :: "azure_item \<Rightarrow> json" where
  "azure_item_json i = JObj
     [(''object_id'', item_id i), (''name'', friendly_name i), (''platform'', JStr ''azure''),
      (''os_type'', JNull), (''is_protected'', JBool True), (''moref'', item_id i),
      (''last_backup'', iso_or_none (last_backup_time i))]"

definition named_item :: "string \<Rightarrow> json \<times> json \<Rightarrow> json" where
  "named_item prov v = JObj [(''name'', fst v), (''provider'', JStr prov), (''status'', snd v)]"

definition detect_provider_vms :: "appliance_settings \<Rightarrow> 's services \<Rightarrow> ('s, json list) exec" where
  "detect_provider_vms cfg sv =
     (let prov = lower (provider cfg); sdk = sv_sdks sv in
      if prov = ''hyperv'' then
        connected (connect (sdk_hyperv sdk))
          (seq (list_items (sdk_hyperv sdk)) (\<lambda>vms. ret (map hyperv_item vms)))
      else if prov = ''aws'' then
        connected (sdk_aws_connect sdk) (seq (sdk_aws_vaults sdk) (aws_vaults sdk))
      else if prov = ''azure'' then
        connected (connect (sdk_azure sdk))
          (seq (list_items (sdk_azure sdk)) (\<lambda>items. ret (map azure_item_json items)))
      else if prov \<in> {''proxmox'', ''nutanix'', ''rhv'', ''xenserver'', ''sangfor'', ''gcp''} then
        connected (connect (sdk_named sdk prov))
          (seq (list_items (sdk_named sdk prov)) (\<lambda>vms. ret (map (named_item prov) vms)))
      else ret [])"

subsection \<open>Facts\<close>

lemma max_polls_positive: "0 < max_polls cfg"
  by (simp add: max_polls_def)

lemma health_check_never_raises:
  "wp (windows_os_check sv) (\<lambda>_ _. True) (\<lambda>_ _. False) s"
  "wp (linux_os_check sv) (\<lambda>_ _. True) (\<lambda>_ _. False) s"
  by (auto simp: windows_os_check_def linux_os_check_def wp_simps split_def intro: wp_any)

text \<open>The polls of one session never exceed the bound: each one sleeps before the next.\<close>

lemma wp_world [wp_simps]: "wp (world m) Q E = (\<lambda>cs. wp m (\<lambda>x s. Q x (fst cs, s)) (\<lambda>e s. E e (fst cs, s)) (snd cs))"
  by (rule ext) (auto simp: wp_def world_def split: prod.splits sum.splits)

text \<open>Each resource is listed once per vault.\<close>

definition item_name :: "json \<Rightarrow> json" where
  "item_name j = dget (case j of JObj d \<Rightarrow> d | _ \<Rightarrow> []) ''name''"

lemma item_name_second [simp]: "item_name (JObj ((''object_id'', a) # (''name'', b) # d)) = b"
  by (simp add: item_name_def dget_def)

lemma aws_items_distinct:
  "aws_items seen rps = Inr items \<Longrightarrow>
     distinct (map item_name items) \<and> JStr ` set seen \<inter> item_name ` set items = {}"
proof (induction seen rps arbitrary: items rule: aws_items.induct)
  case (2 seen rp rps)
  from 2(3) obtain rid where rid: "resource_id rp = Inr rid" by (auto simp: and_then_Inr)
  show ?case
  proof (cases "rid \<in> set seen")
    case True
    then show ?thesis using 2(1) [OF True] 2(3) rid by simp
  next
    case False
    with 2(3) rid obtain rest where rest: "aws_items (rid # seen) rps = Inr rest"
      and items: "map item_name items = JStr rid # map item_name rest" by (auto simp: and_then_Inr)
    have "item_name ` set items = insert (JStr rid) (item_name ` set rest)"
      using arg_cong [OF items, of set] by simp
    then show ?thesis using 2(2) [OF False rest] items False by auto
  qed
qed simp

end
