(* ===== verification/Rbac.thy ===== *)
theory Rbac
  imports Json
begin

text \<open>
  Who may do what on the API: the permission table and system roles of \<open>services/rbac.py\<close>,
  and the current user of \<open>auth.py\<close>, built from a decoded token. Verifying a token is PyJWT's
  (\<open>jwt_library\<close>); what the code does with the payload or the failure is modelled.
\<close>

subsection \<open>Permissions and roles\<close>

definition PERMISSIONS :: "string list" where
  "PERMISSIONS =
     [''workloads:read'', ''workloads:write'', ''workloads:delete'',
      ''test_runs:read'', ''test_runs:trigger'',
      ''reports:read'', ''reports:generate'', ''reports:schedule'',
      ''evidence:read'',
      ''threats:read'', ''incidents:read'', ''incidents:write'',
      ''audit:read'',
      ''team:read'', ''team:invite'', ''team:manage'',
      ''api_keys:read'', ''api_keys:write'',
      ''appliances:read'', ''appliances:manage'',
      ''settings:read'', ''settings:write'',
      ''sso:manage'',
      ''mssp:read'', ''mssp:manage'']"

definition SYSTEM_ROLES :: "(string \<times> string list) list" where
  "SYSTEM_ROLES =
     [(''owner'', PERMISSIONS),
      (''admin'', filter (\<lambda>p. p \<noteq> ''sso:manage'') PERMISSIONS),
      (''operator'',
        [''workloads:read'', ''workloads:write'', ''test_runs:read'', ''test_runs:trigger'',
         ''reports:read'', ''evidence:read'', ''threats:read'', ''incidents:read'', ''incidents:write'',
         ''audit:read'', ''appliances:read'', ''appliances:manage'', ''team:read'', ''settings:read'']),
      (''auditor'',
        [''workloads:read'', ''test_runs:read'', ''reports:read'', ''reports:generate'', ''evidence:read'',
         ''threats:read'', ''incidents:read'', ''audit:read'', ''team:read'']),
      (''viewer'',
        [''workloads:read'', ''test_runs:read'', ''reports:read'', ''threats:read'', ''incidents:read'',
         ''team:read''])]"

definition has_permission :: "string list \<Rightarrow> string \<Rightarrow> bool" where
  "has_permission user_permissions required \<longleftrightarrow> required \<in> set user_permissions"

definition require_permission :: "string list \<Rightarrow> string \<Rightarrow> unit result" where
  "require_permission user_permissions required =
     (if \<not> has_permission user_permissions required
      then Inl (HTTPException 403 (''Permission required: '' @ required))
      else Inr ())"

definition role_permissions :: "string \<Rightarrow> string list" where
  "role_permissions role = (case map_of SYSTEM_ROLES role of None \<Rightarrow> [] | Some ps \<Rightarrow> ps)"

subsection \<open>UUIDs\<close>

type_synonym uuid = nat

definition hex_val :: "char \<Rightarrow> int option" where
  "hex_val c = (let n = int (of_char c) in
     if 48 \<le> n \<and> n \<le> 57 then Some (n - 48)
     else if 97 \<le> n \<and> n \<le> 102 then Some (n - 87)
     else if 65 \<le> n \<and> n \<le> 70 then Some (n - 55)
     else None)"

text \<open>The digits of \<open>int(s, 16)\<close>; a single underscore may follow a digit.\<close>

fun hex_digits :: "bool \<Rightarrow> int \<Rightarrow> string \<Rightarrow> int option" where
  "hex_digits after_digit acc [] = (if after_digit then Some acc else None)"
| "hex_digits after_digit acc (c # cs) =
     (case hex_val c of
        Some d \<Rightarrow> hex_digits True (16 * acc + d) cs
      | None \<Rightarrow> if c = CHR ''_'' \<and> after_digit then hex_digits False acc cs else None)"

definition hex_body :: "string \<Rightarrow> int option" where
  "hex_body s =
     (case s of
        c # d # cs \<Rightarrow>
          if c = CHR ''0'' \<and> d \<in> {CHR ''x'', CHR ''X''}
          then (case cs of e # es \<Rightarrow> if e = CHR ''_'' then hex_digits False 0 es else hex_digits False 0 cs
                         | [] \<Rightarrow> None)
          else hex_digits False 0 s
      | _ \<Rightarrow> hex_digits False 0 s)"

definition int_of_hex :: "string \<Rightarrow> int option" where
  "int_of_hex s =
     (case strip s of
        [] \<Rightarrow> None
      | c # cs \<Rightarrow>
          if c = CHR ''-'' then map_option uminus (hex_body cs)
          else if c = CHR ''+'' then hex_body cs
          else hex_body (c # cs))"

fun replace_all :: "nat \<Rightarrow> string \<Rightarrow> string \<Rightarrow> string" where
  "replace_all 0 p s = s"
| "replace_all (Suc n) p s =
     (case s of
        [] \<Rightarrow> []
      | c # cs \<Rightarrow> if startswith s p then replace_all n p (drop (length p) s) else c # replace_all n p cs)"

definition remove_all :: "string \<Rightarrow> string \<Rightarrow> string" where
  "remove_all p s = replace_all (length s) p s"

definition strip_chars :: "char set \<Rightarrow> string \<Rightarrow> string" where
  "strip_chars cs s = rev (dropWhile (\<lambda>c. c \<in> cs) (rev (dropWhile (\<lambda>c. c \<in> cs) s)))"

text \<open>The constructor \<open>uuid.UUID(hex)\<close>; \<open>None\<close> is its \<open>ValueError\<close>.\<close>

definition uuid_of_str :: "string \<Rightarrow> uuid option" where
  "uuid_of_str s =
     (let h = filter (\<lambda>c. c \<noteq> CHR ''-'')
                (strip_chars {CHR 0x7B, CHR 0x7D} (remove_all ''uuid:'' (remove_all ''urn:'' s)))
      in if length h \<noteq> 32 then None
         else case int_of_hex h of
                Some n \<Rightarrow> if 0 \<le> n \<and> n < 2 ^ 128 then Some (nat n) else None
              | None \<Rightarrow> None)"

subsection \<open>The current user\<close>

record current_user =
  user_sub :: string
  user_org_id :: uuid
  user_email :: string
  user_role :: string

definition permissions :: "current_user \<Rightarrow> string list" where
  "permissions u = role_permissions (user_role u)"

text \<open>PyJWT: finding the signing key of a token, and decoding with it.\<close>

datatype jwt_error = InvalidTokenError string | PyJWKClientError string | OtherJwtError py_exn

record 'k jwt_library =
  get_signing_key :: "string \<Rightarrow> jwt_error + 'k"
  jwt_decode :: "string \<Rightarrow> 'k \<Rightarrow> jwt_error + dict"

definition unauthorized :: "'a result" where
  "unauthorized = Inl (HTTPException 401 ''Invalid authentication token'')"

definition decode_token :: "'k jwt_library \<Rightarrow> string \<Rightarrow> dict result" where
  "decode_token jwt token =
     (case get_signing_key jwt token of
        Inl (OtherJwtError e) \<Rightarrow> Inl e
      | Inl _ \<Rightarrow> unauthorized
      | Inr key \<Rightarrow>
          (case jwt_decode jwt token key of
             Inl (InvalidTokenError _) \<Rightarrow> unauthorized
           | Inl (PyJWKClientError m) \<Rightarrow> Inl (ExternalError m)
           | Inl (OtherJwtError e) \<Rightarrow> Inl e
           | Inr payload \<Rightarrow> Inr payload))"

text \<open>\<open>x or y\<close> on JSON values.\<close>

definition json_or :: "json \<Rightarrow> json \<Rightarrow> json" where
  "json_or x y = (if truthy x then x else y)"

text \<open>A string field of the pydantic model.\<close>

definition str_field :: "json \<Rightarrow> string result" where
  "str_field v = (case v of JStr s \<Rightarrow> Inr s | _ \<Rightarrow> Inl (ValueError ''Input should be a valid string''))"

definition get_current_user :: "'k jwt_library \<Rightarrow> string \<Rightarrow> current_user result" where
  "get_current_user jwt credentials =
     and_then (decode_token jwt credentials) (\<lambda>payload.
     let org_raw = json_or (dget payload ''https://r3vp.io/org_id'') (dget payload ''org_id'') in
     if \<not> truthy org_raw then Inl (HTTPException 403 ''Token missing org_id claim'')
     else case uuid_of_str (py_str org_raw) of
       None \<Rightarrow> Inl (HTTPException 403 ''Invalid org_id in token'')
     | Some oid \<Rightarrow>
         let r = json_or (json_or (dget payload ''https://r3vp.io/role'') (dget payload ''role'')) (JStr ''viewer'') in
         and_then (dsub payload ''sub'') (\<lambda>sub_json.
         and_then (str_field sub_json) (\<lambda>s.
         and_then (str_field (dget_or payload ''email'' (JStr []))) (\<lambda>em.
         Inr \<lparr>user_sub = s, user_org_id = oid, user_email = em, user_role = py_str r\<rparr>))))"

definition require_admin :: "current_user \<Rightarrow> current_user result" where
  "require_admin user = (if user_role user \<noteq> ''admin'' then Inl (HTTPException 403 ''Admin access required'') else Inr user)"

subsection \<open>Lemmas\<close>

lemma require_permission_iff: "require_permission ps p = Inr () \<longleftrightarrow> p \<in> set ps"
  by (simp add: require_permission_def has_permission_def)

lemma require_permission_cases:
  "require_permission ps p = (if p \<in> set ps then Inr () else Inl (HTTPException 403 (''Permission required: '' @ p)))"
  by (simp add: require_permission_def has_permission_def)

lemma role_names: "map fst SYSTEM_ROLES = [''owner'', ''admin'', ''operator'', ''auditor'', ''viewer'']"
  by (simp add: SYSTEM_ROLES_def)

lemma role_permissions_unknown: "r \<notin> fst ` set SYSTEM_ROLES \<Longrightarrow> role_permissions r = []"
  by (simp add: role_permissions_def map_of_eq_None_iff [THEN iffD2] split: option.splits)

lemma roles_declared: "list_all (\<lambda>(r, ps). list_all (\<lambda>p. p \<in> set PERMISSIONS) ps) SYSTEM_ROLES"
  by code_simp

lemma role_permissions_subset: "set (role_permissions r) \<subseteq> set PERMISSIONS"
proof
  fix p assume p: "p \<in> set (role_permissions r)"
  then obtain ps where "map_of SYSTEM_ROLES r = Some ps" "p \<in> set ps"
    by (cases "map_of SYSTEM_ROLES r") (auto simp: role_permissions_def)
  then have "(r, ps) \<in> set SYSTEM_ROLES" "p \<in> set ps" by (auto dest: map_of_SomeD)
  then show "p \<in> set PERMISSIONS" using roles_declared by (auto simp: list_all_iff)
qed

text \<open>The strength of the system roles: each of the chains grows.\<close>

lemma role_chain:
  "set (role_permissions ''viewer'') \<subseteq> set (role_permissions ''auditor'')"
  "set (role_permissions ''viewer'') \<subseteq> set (role_permissions ''operator'')"
  "set (role_permissions ''operator'') \<subseteq> set (role_permissions ''admin'')"
  "set (role_permissions ''auditor'') \<subseteq> set (role_permissions ''admin'')"
  "set (role_permissions ''admin'') \<subseteq> set (role_permissions ''owner'')"
  by (simp_all add: role_permissions_def SYSTEM_ROLES_def PERMISSIONS_def)

lemma write_permission_holders:
  "list_all (\<lambda>(r, ps). p \<in> set ps \<longrightarrow> r \<in> {''owner'', ''admin''}) SYSTEM_ROLES"
  if "p \<in> {''team:invite'', ''team:manage'', ''api_keys:read'', ''api_keys:write'', ''settings:write'',
        ''mssp:read'', ''mssp:manage'', ''workloads:delete'', ''reports:schedule''}"
  using that by (auto simp: SYSTEM_ROLES_def)

subsection \<open>Properties\<close>

definition claims_role :: "dict \<Rightarrow> bool" where
  "claims_role payload \<longleftrightarrow> truthy (dget payload ''https://r3vp.io/role'') \<or> truthy (dget payload ''role'')"

text \<open>A token whose payload carries no role claim gives a user that passes no permission check
  but the viewer's, and never the admin check; a role claim naming no system role grants nothing.\<close>

theorem no_role_claim_no_privilege:
  assumes "get_current_user jwt token = Inr u" and "decode_token jwt token = Inr payload"
    and "\<not> claims_role payload"
  shows "permissions u = role_permissions ''viewer'' \<and>
     require_admin u = Inl (HTTPException 403 ''Admin access required'') \<and>
     (\<forall>p. require_permission (permissions u) p = Inr () \<longleftrightarrow>
        p \<in> {''workloads:read'', ''test_runs:read'', ''reports:read'', ''threats:read'', ''incidents:read'', ''team:read''})"
proof -
  have "user_role u = ''viewer''"
    using assms
    by (auto simp: get_current_user_def Let_def json_or_def claims_role_def and_then_Inr
        split: if_splits option.splits)
  then show ?thesis
    by (simp add: permissions_def require_admin_def require_permission_iff role_permissions_def SYSTEM_ROLES_def)
qed

definition demo_jwt :: "unit jwt_library" where
  "demo_jwt = \<lparr>get_signing_key = \<lambda>_. Inr (),
     jwt_decode = \<lambda>_ _. Inr [(''sub'', JStr ''auth0|7''),
       (''org_id'', JStr ''00000000-0000-0000-0000-00000000002a''), (''role'', JStr [])]\<rparr>"

theorem no_role_claim_no_privilege_witness:
  "permissions \<lparr>user_sub = ''auth0|7'', user_org_id = 42, user_email = [], user_role = ''viewer''\<rparr> = role_permissions ''viewer'' \<and>
   require_admin \<lparr>user_sub = ''auth0|7'', user_org_id = 42, user_email = [], user_role = ''viewer''\<rparr>
     = Inl (HTTPException 403 ''Admin access required'')"
proof -
  have "get_current_user demo_jwt ''t'' = Inr \<lparr>user_sub = ''auth0|7'', user_org_id = 42, user_email = [], user_role = ''viewer''\<rparr>"
    by code_simp
  moreover have "decode_token demo_jwt ''t'' = Inr [(''sub'', JStr ''auth0|7''),
       (''org_id'', JStr ''00000000-0000-0000-0000-00000000002a''), (''role'', JStr [])]"
    by code_simp
  moreover have "\<not> claims_role [(''sub'', JStr ''auth0|7''),
       (''org_id'', JStr ''00000000-0000-0000-0000-00000000002a''), (''role'', JStr [])]"
    by (simp add: claims_role_def dget_def)
  ultimately show ?thesis using no_role_claim_no_privilege by blast
qed

end
