(* ===== verification/Tenancy.thy ===== *)
theory Tenancy
  imports Prelude
begin

text \<open>
  Tenant isolation of the API handlers as an interface. A handler acts for one organisation on a
  shared database; \<open>view org s\<close> is the part of the database that belongs to \<open>org\<close>. The
  laws say that a request reads and writes the part of its own organisation only; what follows
  is that in any interleaving of requests an organisation gets the answers it would get alone.
\<close>

text \<open>Requests of several organisations against one handler, each with its response.\<close>

fun serve_all :: "('org \<Rightarrow> 'req \<Rightarrow> 's \<Rightarrow> 'resp \<times> 's) \<Rightarrow> ('org \<times> 'req) list \<Rightarrow> 's \<Rightarrow> ('org \<times> 'resp) list \<times> 's" where
  "serve_all h [] s = ([], s)"
| "serve_all h ((org, r) # rs) s =
     (let (resp, s') = h org r s; (resps, s'') = serve_all h rs s' in ((org, resp) # resps, s''))"

definition responses_of :: "'org \<Rightarrow> ('org \<times> 'resp) list \<Rightarrow> 'resp list" where
  "responses_of org xs = map snd (filter (\<lambda>(o', _). o' = org) xs)"

locale tenant_handlers =
  fixes view :: "'org \<Rightarrow> 's \<Rightarrow> 'v"
    and handle :: "'org \<Rightarrow> 'req \<Rightarrow> 's \<Rightarrow> 'resp \<times> 's"
  assumes own_response: "view org s = view org s' \<Longrightarrow> fst (handle org r s) = fst (handle org r s')"
    and own_update: "view org s = view org s' \<Longrightarrow> view org (snd (handle org r s)) = view org (snd (handle org r s'))"
    and others_kept: "org' \<noteq> org \<Longrightarrow> view org' (snd (handle org r s)) = view org' s"
begin

lemma serve_view:
  "view org s = view org s' \<Longrightarrow>
     responses_of org (fst (serve_all handle rs s))
       = map snd (fst (serve_all handle (filter (\<lambda>(o', _). o' = org) rs) s')) \<and>
     view org (snd (serve_all handle rs s))
       = view org (snd (serve_all handle (filter (\<lambda>(o', _). o' = org) rs) s'))"
proof (induction rs arbitrary: s s')
  case Nil
  then show ?case by (simp add: responses_of_def)
next
  case (Cons a rs)
  obtain o' r where a: "a = (o', r)" by (cases a)
  show ?case
  proof (cases "o' = org")
    case True
    have "view org (snd (handle org r s)) = view org (snd (handle org r s'))"
      using own_update Cons.prems .
    from Cons.IH [OF this] show ?thesis
      using own_response [OF Cons.prems, of r] by (simp add: a True split_def Let_def responses_of_def)
  next
    case False
    then have "view org (snd (handle o' r s)) = view org s'"
      using others_kept [of org o'] Cons.prems by simp
    from Cons.IH [OF this] show ?thesis using False by (simp add: a split_def Let_def responses_of_def)
  qed
qed

lemma noninterference:
  "responses_of org (fst (serve_all handle rs s))
     = map snd (fst (serve_all handle (filter (\<lambda>(o', _). o' = org) rs) s))"
  using serve_view [of org s s rs] by blast

lemma view_kept:
  "(\<And>o' r. (o', r) \<in> set rs \<Longrightarrow> o' \<noteq> org) \<Longrightarrow> view org (snd (serve_all handle rs s)) = view org s"
proof -
  assume "\<And>o' r. (o', r) \<in> set rs \<Longrightarrow> o' \<noteq> org"
  then have "filter (\<lambda>(o', _). o' = org) rs = []" by (auto simp: filter_empty_conv)
  then show ?thesis using serve_view [of org s s rs] by simp
qed

end

text \<open>Updating the rows that match, and the rows of an organisation among them.\<close>

definition update_where :: "('r \<Rightarrow> bool) \<Rightarrow> ('r \<Rightarrow> 'r) \<Rightarrow> 'r list \<Rightarrow> 'r list" where
  "update_where P f rows = map (\<lambda>r. if P r then f r else r) rows"

lemma filter_update_where_own:
  assumes "\<And>r. P r \<Longrightarrow> Q (f r) = Q r"
  shows "filter Q (update_where P f rows) = update_where P f (filter Q rows)"
  by (induction rows) (auto simp: update_where_def assms)

lemma filter_update_where_other:
  assumes "\<And>r. P r \<Longrightarrow> \<not> Q r" and "\<And>r. P r \<Longrightarrow> \<not> Q (f r)"
  shows "filter Q (update_where P f rows) = filter Q rows"
  by (induction rows) (auto simp: update_where_def assms)

lemma update_where_other_rows:
  assumes "\<And>r. r \<in> set rows \<Longrightarrow> P r \<Longrightarrow> f r = r"
  shows "update_where P f rows = rows"
  using assms by (induction rows) (auto simp: update_where_def)

lemma find_filter: "(\<And>r. P r \<Longrightarrow> Q r) \<Longrightarrow> List.find P (filter Q rows) = List.find P rows"
  by (induction rows) auto

lemma find_Some_iff': "List.find P rows = Some r \<Longrightarrow> P r \<and> r \<in> set rows"
  by (auto simp: find_Some_iff)

lemma find_None_iff': "List.find P rows = None \<longleftrightarrow> (\<forall>r \<in> set rows. \<not> P r)"
  by (auto simp: find_None_iff)

lemma filter_update_row:
  assumes "f x = org" and "\<And>y. f (g y) = f y"
  shows "filter (\<lambda>m. f m = org) (update_where (\<lambda>m. m = x) g xs)
      = update_where (\<lambda>m. m = x) g (filter (\<lambda>m. f m = org) xs)"
  by (rule filter_update_where_own) (simp add: assms)

lemma filter_update_row_other:
  assumes "f x \<noteq> org" and "\<And>y. f (g y) = f y"
  shows "filter (\<lambda>m. f m = org) (update_where (\<lambda>m. m = x) g xs) = filter (\<lambda>m. f m = org) xs"
  by (rule filter_update_where_other) (use assms in auto)

subsection \<open>Handlers local to an organisation\<close>

text \<open>
  \<open>local_to view org m\<close>: the handler \<open>m\<close> obeys the laws of \<open>tenant_handlers\<close> for
  \<open>org\<close>. It is closed under sequencing, so a handler is checked call by call.
\<close>

definition local_to :: "('org \<Rightarrow> 's \<Rightarrow> 'v) \<Rightarrow> 'org \<Rightarrow> ('s, 'a) exec \<Rightarrow> bool" where
  "local_to view org m \<longleftrightarrow>
     (\<forall>s s'. view org s = view org s' \<longrightarrow>
        fst (m s) = fst (m s') \<and> view org (snd (m s)) = view org (snd (m s'))) \<and>
     (\<forall>org' s. org' \<noteq> org \<longrightarrow> view org' (snd (m s)) = view org' s)"

lemma local_toI:
  assumes "\<And>s s'. view org s = view org s' \<Longrightarrow>
        fst (m s) = fst (m s') \<and> view org (snd (m s)) = view org (snd (m s'))"
    and "\<And>org' s. org' \<noteq> org \<Longrightarrow> view org' (snd (m s)) = view org' s"
  shows "local_to view org m"
  unfolding local_to_def using assms by blast

lemma local_toD:
  assumes "local_to view org m"
  shows "view org s = view org s' \<Longrightarrow> fst (m s) = fst (m s')"
    and "view org s = view org s' \<Longrightarrow> view org (snd (m s)) = view org (snd (m s'))"
    and "org' \<noteq> org \<Longrightarrow> view org' (snd (m s)) = view org' s"
  using assms unfolding local_to_def by blast+

named_theorems local_intros \<open>closure of \<open>local_to\<close> under the combinators\<close>

lemma local_ret [local_intros]: "local_to view org (ret x)"
  by (rule local_toI) (simp_all add: ret_def)

lemma local_raise [local_intros]: "local_to view org (raise e)"
  by (rule local_toI) (simp_all add: raise_def)

lemma local_lift [local_intros]: "local_to view org (lift_result r)"
  by (rule local_toI) (simp_all add: lift_result_def)

lemma local_gets:
  assumes reads: "\<And>s s'. view org s = view org s' \<Longrightarrow> f s = f s'"
  shows "local_to view org (gets f)"
proof (rule local_toI)
  fix s s' assume "view org s = view org s'"
  with reads [OF this] show "fst (gets f s) = fst (gets f s') \<and> view org (snd (gets f s)) = view org (snd (gets f s'))"
    by (simp add: gets_def)
qed (simp add: gets_def)

lemma local_update:
  assumes own: "\<And>s s'. view org s = view org s' \<Longrightarrow> view org (f s) = view org (f s')"
    and other: "\<And>org' s. org' \<noteq> org \<Longrightarrow> view org' (f s) = view org' s"
  shows "local_to view org (update f)"
proof (rule local_toI)
  fix s s' assume "view org s = view org s'"
  from own [OF this] show "fst (update f s) = fst (update f s') \<and> view org (snd (update f s)) = view org (snd (update f s'))"
    by (simp add: update_def)
next
  fix org' s assume "org' \<noteq> org"
  from other [OF this] show "view org' (snd (update f s)) = view org' s" by (simp add: update_def)
qed

lemma local_seq:
  assumes m: "local_to view org m" and f: "\<And>x s. fst (m s) = Inr x \<Longrightarrow> local_to view org (f x)"
  shows "local_to view org (seq m f)"
proof (rule local_toI)
  fix s s' assume eq: "view org s = view org s'"
  obtain r t where r: "m s = (r, t)" by (cases "m s")
  obtain r' t' where r': "m s' = (r', t')" by (cases "m s'")
  have same: "r = r'" and vt: "view org t = view org t'"
    using local_toD(1,2) [OF m eq] by (simp_all add: r r')
  show "fst (seq m f s) = fst (seq m f s') \<and> view org (snd (seq m f s)) = view org (snd (seq m f s'))"
  proof (cases r)
    case (Inl e)
    then show ?thesis using same vt by (simp add: seq_def r r')
  next
    case (Inr x)
    then have "local_to view org (f x)" using f [of s x] r by simp
    from local_toD(1,2) [OF this vt] show ?thesis using same [symmetric] Inr by (simp add: seq_def r r')
  qed
next
  fix org' s assume ne: "org' \<noteq> org"
  obtain r t where r: "m s = (r, t)" by (cases "m s")
  have kept: "view org' t = view org' s" using local_toD(3) [OF m ne, of s] by (simp add: r)
  show "view org' (snd (seq m f s)) = view org' s"
  proof (cases r)
    case (Inl e)
    then show ?thesis using kept by (simp add: seq_def r)
  next
    case (Inr x)
    then have "local_to view org (f x)" using f [of s x] r by simp
    from local_toD(3) [OF this ne, of t] show ?thesis using kept Inr by (simp add: seq_def r)
  qed
qed

lemma local_seq_any [local_intros]:
  "local_to view org m \<Longrightarrow> (\<And>x. local_to view org (f x)) \<Longrightarrow> local_to view org (seq m f)"
  by (rule local_seq)

lemma local_if [local_intros]:
  "(b \<Longrightarrow> local_to view org m) \<Longrightarrow> (\<not> b \<Longrightarrow> local_to view org m') \<Longrightarrow> local_to view org (if b then m else m')"
  by simp

text \<open>Looking a row of the organisation up and acting on it.\<close>

lemma local_find:
  assumes "\<And>s s'. view org s = view org s' \<Longrightarrow> f s = f s'"
    and "\<And>s x. f s = Some x \<Longrightarrow> local_to view org (g x)" and "local_to view org h"
  shows "local_to view org (seq (gets f) (\<lambda>found. case found of None \<Rightarrow> h | Some x \<Rightarrow> g x))"
proof (rule local_seq)
  show "local_to view org (gets f)" by (rule local_gets) (rule assms(1))
  fix x s assume "fst (gets f s) = Inr x"
  then have "f s = x" by (simp add: gets_def)
  then show "local_to view org (case x of None \<Rightarrow> h | Some y \<Rightarrow> g y)"
    using assms(2,3) by (cases x) auto
qed

lemma local_handlers:
  assumes "\<And>org r. local_to view org (handle org r)"
  shows "tenant_handlers view handle"
  by unfold_locales (use assms in \<open>blast dest: local_toD\<close>)+

end
