(* ===== verification/Api.thy ===== *)
theory Api
  imports Rbac Tenancy
begin

text \<open>
  What the API's handlers share: the transaction of a database session, columns declared not
  null, rows ordered by a column, and the facts about permission checks and rows of one
  organisation that the proofs about handlers rest on. A time in a table is a number of
  microseconds.
\<close>

type_synonym micros = int

text \<open>\<open>getattr(user, "user_id", None)\<close>: \<open>CurrentUser\<close> declares no such field.\<close>

definition user_id_attr :: "current_user \<Rightarrow> uuid option" where
  "user_id_attr user = None"

definition not_null :: "string \<Rightarrow> 'a option \<Rightarrow> ('s, unit) exec" where
  "not_null column v = (case v of
     None \<Rightarrow> raise (ExternalError (''IntegrityError: NOT NULL constraint failed: '' @ column))
   | Some _ \<Rightarrow> ret ())"

text \<open>Statements of a session that a raised exception rolls back.\<close>

definition txn :: "('s, 'a) exec \<Rightarrow> ('s, 'a) exec" where
  "txn m s = (case m s of (Inr x, s') \<Rightarrow> (Inr x, s') | (Inl e, _) \<Rightarrow> (Inl e, s))"

text \<open>\<open>ORDER BY column DESC\<close>; rows with equal values keep their order.\<close>

definition newest_rows :: "('r \<Rightarrow> int) \<Rightarrow> 'r list \<Rightarrow> 'r list" where
  "newest_rows column rows = sort_key (\<lambda>r. - column r) rows"

lemma set_newest_rows [simp]: "set (newest_rows c rows) = set rows"
  by (simp add: newest_rows_def)

lemma length_newest_rows [simp]: "length (newest_rows c rows) = length rows"
  by (simp add: newest_rows_def)

definition respond :: "('a \<Rightarrow> 'b) \<Rightarrow> ('s, 'a) exec \<Rightarrow> ('s, 'b) exec" where
  "respond f m = seq m (\<lambda>x. ret (f x))"

lemma filter_own: "filter (\<lambda>m. f m = org \<and> P m) xs = filter P (filter (\<lambda>m. f m = org) xs)"
  by (induction xs) auto

lemma find_own: "List.find (\<lambda>m. P m \<and> f m = org) xs = List.find P (filter (\<lambda>m. f m = org) xs)"
  by (induction xs) auto

lemma find_own_org: "List.find (\<lambda>m. P m \<and> f m = org) xs = Some m \<Longrightarrow> f m = org"
  by (auto dest: find_Some_iff')

lemma lift_permission:
  "lift_result (require_permission ps p) =
     (if p \<in> set ps then ret () else raise (HTTPException 403 (''Permission required: '' @ p)))"
  by (rule ext) (simp add: exec_simps require_permission_cases)

lemma not_null_user: "not_null c (user_id_attr u) = raise (ExternalError (''IntegrityError: NOT NULL constraint failed: '' @ c))"
  by (simp add: not_null_def user_id_attr_def)

lemmas handler_simps = respond_def lift_permission exec_simps not_null_user Let_def

lemma local_permission [local_intros]: "local_to view org (lift_result (require_permission ps p))"
  by (rule local_lift)

lemma txn_raises: "m s = (Inl e, s') \<Longrightarrow> txn m s = (Inl e, s)"
  by (simp add: txn_def)

lemma txn_returns: "m s = (Inr x, s') \<Longrightarrow> txn m s = (Inr x, s')"
  by (simp add: txn_def)

lemma wp_txn [wp_simps]: "wp (txn m) Q E = (\<lambda>s. wp m Q (\<lambda>e _. E e s) s)"
  by (rule ext) (auto simp: wp_def txn_def split: prod.splits sum.splits)

end
