(* ===== verification/Tables.thy ===== *)
theory Tables
  imports Tenancy
begin

text \<open>
  \<open>INSERT ... ON CONFLICT DO UPDATE\<close> as an interface. \<open>conflict n r\<close> says that storing
  \<open>n\<close> meets the row \<open>r\<close> on the unique index, \<open>assign n r\<close> is \<open>r\<close> with the columns the
  statement sets, and \<open>stored n\<close> holds of the rows the code inserts. From the laws follow that a
  batch of upserts can be repeated without effect, that it keeps what the statement does not set
  and the rows outside the index, and that it only appends rows.
\<close>

locale upsert_table =
  fixes conflict :: "'r \<Rightarrow> 'r \<Rightarrow> bool"
    and assign :: "'r \<Rightarrow> 'r \<Rightarrow> 'r"
    and upsert :: "'r \<Rightarrow> 'r list \<Rightarrow> 'r list"
    and stored :: "'r \<Rightarrow> bool"
  assumes upsert_eq: "upsert n rows =
       (if list_ex (conflict n) rows then update_where (conflict n) (assign n) rows else rows @ [n])"
    and conflict_assign [simp]: "conflict m (assign n r) \<longleftrightarrow> conflict m r"
    and assign_twice: "conflict n r \<Longrightarrow> conflict m r \<Longrightarrow> assign n (assign m r) = assign n r"
    and conflict_self: "stored n \<Longrightarrow> conflict n n"
    and assign_self: "stored n \<Longrightarrow> assign n n = n"
begin

definition apply_row :: "'r \<Rightarrow> 'r \<Rightarrow> 'r" where
  "apply_row n r = (if conflict n r then assign n r else r)"

lemma conflict_apply [simp]: "conflict m (apply_row n r) \<longleftrightarrow> conflict m r"
  by (simp add: apply_row_def)

lemma upsert_alt: "upsert n rows = (if list_ex (conflict n) rows then map (apply_row n) rows else rows @ [n])"
  by (simp add: upsert_eq update_where_def apply_row_def)

lemma apply_last: "conflict n r \<Longrightarrow> apply_row n (fold apply_row ns r) = apply_row n r"
  by (induction ns arbitrary: r) (simp_all add: apply_row_def assign_twice)

lemma conflict_fold [simp]: "conflict m (fold apply_row ns r) \<longleftrightarrow> conflict m r"
  by (induction ns arbitrary: r) simp_all

text \<open>After a batch, applying it again changes no row.\<close>

lemma upsert_settled:
  assumes "stored n" and "\<forall>r \<in> set rows. fold apply_row ns r = r"
    and "r \<in> set (upsert n rows)"
  shows "fold apply_row (ns @ [n]) r = r"
proof -
  have "r = n \<or> (\<exists>x \<in> set rows. r = apply_row n x)"
    using assms(3) by (auto simp: upsert_alt list_ex_iff apply_row_def split: if_splits)
  then show ?thesis
  proof
    assume "r = n"
    then show ?thesis
      using apply_last [OF conflict_self [OF assms(1)], of ns] assms(1) by (simp add: apply_row_def assign_self conflict_self)
  next
    assume "\<exists>x \<in> set rows. r = apply_row n x"
    then obtain x where x: "x \<in> set rows" "r = apply_row n x" by blast
    show ?thesis
    proof (cases "conflict n x")
      case True
      then have "apply_row n (fold apply_row ns r) = apply_row n (apply_row n x)"
        using x(2) apply_last [of n r ns] by simp
      then show ?thesis using True x(2) by (simp add: apply_row_def assign_twice)
    next
      case False
      then have "r = x" using x(2) by (simp add: apply_row_def)
      with False assms(2) x(1) show ?thesis by (simp add: apply_row_def)
    qed
  qed
qed

lemma batch_settled:
  "list_all stored ns \<Longrightarrow> r \<in> set (fold upsert ns rows) \<Longrightarrow> fold apply_row ns r = r"
proof (induction ns arbitrary: r rule: rev_induct)
  case (snoc n ns)
  then show ?case using upsert_settled [of n "fold upsert ns rows" ns r] by simp
qed simp

text \<open>Every row of a batch is present afterwards, and later upserts keep it.\<close>

lemma present_kept: "list_ex (conflict m) rows \<Longrightarrow> list_ex (conflict m) (fold upsert ns rows)"
  by (induction ns arbitrary: rows) (auto simp: upsert_alt list_ex_iff)

lemma present_upsert: "stored n \<Longrightarrow> list_ex (conflict n) (upsert n rows)"
  by (auto simp: upsert_alt list_ex_iff conflict_self)

lemma present_after: "list_all stored ns \<Longrightarrow> n \<in> set ns \<Longrightarrow> list_ex (conflict n) (fold upsert ns rows)"
proof (induction ns arbitrary: rows)
  case (Cons m ns)
  then show ?case using present_kept [OF present_upsert [of m rows], of ns] by (cases "n = m") simp_all
qed simp

lemma fold_present:
  "list_all (\<lambda>n. list_ex (conflict n) rows) ns \<Longrightarrow> fold upsert ns rows = map (fold apply_row ns) rows"
proof (induction ns arbitrary: rows)
  case (Cons n ns)
  then have "list_all (\<lambda>m. list_ex (conflict m) (map (apply_row n) rows)) ns"
    by (auto simp: list_all_iff list_ex_iff)
  from Cons.IH [OF this] show ?case using Cons.prems by (simp add: upsert_alt comp_def)
qed simp

text \<open>Two rows an upsert cannot tell apart.\<close>

definition same_upsert :: "'r \<Rightarrow> 'r \<Rightarrow> bool" where
  "same_upsert m n \<longleftrightarrow> conflict m = conflict n \<and> (\<forall>r. conflict n r \<longrightarrow> assign m r = assign n r)"

lemma same_upsert_apply: "same_upsert m n \<Longrightarrow> apply_row m = apply_row n"
  by (auto simp: fun_eq_iff apply_row_def same_upsert_def)

lemma batch_idempotent:
  assumes stored: "list_all stored ns" and same: "list_all2 same_upsert ms ns"
  shows "fold upsert ms (fold upsert ns rows) = fold upsert ns rows"
proof -
  have eq: "fold apply_row ms = fold apply_row ns"
    using same by (induction rule: list_all2_induct) (simp_all add: same_upsert_apply)
  have "list_ex (conflict m) (fold upsert ns rows)" if m: "m \<in> set ms" for m
  proof -
    obtain i where "i < length ms" "m = ms ! i" using m by (auto simp: in_set_conv_nth)
    then have "same_upsert m (ns ! i)" "ns ! i \<in> set ns"
      using list_all2_nthD [OF same] list_all2_lengthD [OF same] by simp_all
    then have "conflict m = conflict (ns ! i)" unfolding same_upsert_def by (elim conjE)
    then show ?thesis using present_after [OF stored \<open>ns ! i \<in> set ns\<close>, of rows] by (simp only:)
  qed
  then have "fold upsert ms (fold upsert ns rows) = map (fold apply_row ms) (fold upsert ns rows)"
    by (intro fold_present) (simp add: list_all_iff)
  also have "\<dots> = fold upsert ns rows"
    unfolding eq by (rule map_idI) (rule batch_settled [OF stored])
  finally show ?thesis .
qed

text \<open>What a batch leaves alone.\<close>

lemma batch_appends:
  assumes "\<And>n r. conflict n r \<Longrightarrow> f (assign n r) = f r"
  shows "\<exists>more. map f (fold upsert ns rows) = map f rows @ more"
proof (induction ns arbitrary: rows)
  case (Cons n ns)
  have "map f (map (apply_row n) rows) = map f rows" using assms by (simp add: apply_row_def)
  then have "\<exists>more. map f (upsert n rows) = map f rows @ more"
    unfolding upsert_alt by (cases "list_ex (conflict n) rows") (simp_all del: map_map)
  moreover obtain more where "map f (fold upsert ns (upsert n rows)) = map f (upsert n rows) @ more"
    using Cons.IH by blast
  ultimately show ?case by auto
qed simp

lemma batch_other_rows:
  assumes "\<And>n r. n \<in> set ns \<Longrightarrow> conflict n r \<Longrightarrow> \<not> P r \<and> \<not> P (assign n r)"
    and "\<And>n. n \<in> set ns \<Longrightarrow> \<not> P n"
  shows "filter P (fold upsert ns rows) = filter P rows"
  using assms
proof (induction ns arbitrary: rows)
  case (Cons n ns)
  have "filter P (map (apply_row n) rows) = filter P rows"
    using Cons.prems(1) [of n] by (induction rows) (auto simp: apply_row_def)
  then have "filter P (upsert n rows) = filter P rows"
    using Cons.prems(2) [of n] by (simp add: upsert_alt)
  moreover have "filter P (fold upsert ns (upsert n rows)) = filter P (upsert n rows)"
    by (rule Cons.IH) (use Cons.prems in auto)
  ultimately show ?case by simp
qed simp

lemma find_assigned:
  assumes "list_ex (conflict n) rows"
  shows "List.find (conflict n) (upsert n rows) = map_option (assign n) (List.find (conflict n) rows)"
proof -
  have "List.find (conflict n) (map (apply_row n) rows) = map_option (assign n) (List.find (conflict n) rows)"
    by (induction rows) (auto simp: apply_row_def)
  then show ?thesis using assms by (simp add: upsert_alt)
qed

end

end
