(* ===== verification/ApplianceService.thy ===== *)
theory ApplianceService
  imports Api Tables
begin

text \<open>
  The appliance relay channel of the API: \<open>services/appliance.py\<close> and its routes in
  \<open>routers/appliances.py\<close>, over the tables they touch. Statements run in a transaction that a
  raised exception rolls back (\<open>txn\<close>), as \<open>get_db\<close> closes its session without committing.
  The clock and fresh identifiers are arguments; how the database driver binds a JSON value to a
  timestamp column is the parameter \<open>bind_time\<close>. Breach notifications are best effort: the
  call is recorded in \<open>a_notified\<close> and its outcome ignored, as the code ignores it.
\<close>

subsection \<open>Tables\<close>

record org_row =
  og_id :: uuid
  og_name :: string

record appliance_row =
  ap_id :: uuid
  ap_org_id :: uuid
  ap_name :: string
  ap_version :: "string option"
  ap_last_heartbeat :: "int option"
  ap_mtls_thumbprint :: string
  ap_status :: string

record workload_row =
  wl_id :: uuid
  wl_appliance_id :: uuid
  wl_name :: string
  wl_platform :: string
  wl_os_type :: "string option"
  wl_veeam_object_id :: "string option"
  wl_vcenter_moref :: "string option"
  wl_is_protected :: bool
  wl_last_backup_at :: "int option"
  wl_rto_target_mins :: "int option"
  wl_rpo_target_mins :: "int option"
  wl_schedule_cron :: "string option"

record run_row =
  tr_id :: uuid
  tr_workload_id :: uuid
  tr_status :: string
  tr_started_at :: "int option"
  tr_completed_at :: "int option"
  tr_rto_actual_mins :: "int option"
  tr_rpo_actual_mins :: "int option"
  tr_readiness_score :: "int option"
  tr_failure_reason :: "string option"
  tr_workflow_run_id :: "string option"

record run_step_row =
  ts_run_id :: uuid
  ts_step_name :: string
  ts_status :: string
  ts_started_at :: "int option"
  ts_ended_at :: "int option"
  ts_detail :: dict

record audit_row =
  au_org_id :: uuid
  au_actor_id :: uuid
  au_actor_type :: string
  au_event_type :: string
  au_resource_id :: "uuid option"
  au_detail :: dict

record breach_call =
  br_org_id :: uuid
  br_workload_name :: string
  br_run_id :: uuid
  br_rto_target :: "int option"
  br_rto_actual :: int
  br_rpo_target :: "int option"
  br_rpo_actual :: int
  br_passed :: bool

record appliance_db =
  a_orgs :: "org_row list"
  a_appliances :: "appliance_row list"
  a_workloads :: "workload_row list"
  a_runs :: "run_row list"
  a_steps :: "run_step_row list"
  a_audit :: "audit_row list"
  a_notified :: "breach_call list"

subsection \<open>Registration and heartbeat\<close>

definition audit_event ::
    "uuid \<Rightarrow> uuid \<Rightarrow> string \<Rightarrow> string \<Rightarrow> uuid option \<Rightarrow> dict \<Rightarrow> (appliance_db, unit) exec" where
  "audit_event org_id actor_id actor_type event_type resource_id detail =
     update (\<lambda>db. db\<lparr>a_audit := a_audit db @
       [\<lparr>au_org_id = org_id, au_actor_id = actor_id, au_actor_type = actor_type, au_event_type = event_type,
         au_resource_id = resource_id, au_detail = detail\<rparr>]\<rparr>)"

definition ensure_org :: "(uuid \<Rightarrow> string) \<Rightarrow> uuid \<Rightarrow> (appliance_db, unit) exec" where
  "ensure_org uuid_str org_id =
     update (\<lambda>db. if list_ex (\<lambda>r. og_id r = org_id) (a_orgs db) then db
                  else db\<lparr>a_orgs := a_orgs db @ [\<lparr>og_id = org_id, og_name = ''org-'' @ uuid_str org_id\<rparr>]\<rparr>)"

definition upsert_appliance :: "appliance_row \<Rightarrow> appliance_row list \<Rightarrow> appliance_row list" where
  "upsert_appliance new rows =
     (if list_ex (\<lambda>r. ap_id r = ap_id new) rows
      then update_where (\<lambda>r. ap_id r = ap_id new)
             (\<lambda>r. r\<lparr>ap_mtls_thumbprint := ap_mtls_thumbprint new, ap_version := ap_version new,
                    ap_status := ''active'', ap_last_heartbeat := ap_last_heartbeat new\<rparr>) rows
      else rows @ [new])"

definition find_appliance :: "uuid \<Rightarrow> appliance_db \<Rightarrow> appliance_row option" where
  "find_appliance i db = List.find (\<lambda>r. ap_id r = i) (a_appliances db)"

definition register_appliance ::
    "(uuid \<Rightarrow> string) \<Rightarrow> uuid \<Rightarrow> uuid \<Rightarrow> string \<Rightarrow> string \<Rightarrow> string option \<Rightarrow> int
       \<Rightarrow> (appliance_db, appliance_row) exec" where
  "register_appliance uuid_str org_id appliance_id name mtls_thumbprint version now =
     txn (seq (ensure_org uuid_str org_id) (\<lambda>_.
          let new = \<lparr>ap_id = appliance_id, ap_org_id = org_id, ap_name = name, ap_version = version,
                ap_last_heartbeat = Some now, ap_mtls_thumbprint = mtls_thumbprint, ap_status = ''active''\<rparr>
          in
          seq (update (\<lambda>db. db\<lparr>a_appliances := upsert_appliance new (a_appliances db)\<rparr>)) (\<lambda>_.
          seq (gets (find_appliance appliance_id)) (\<lambda>row.
          seq (audit_event org_id appliance_id ''appliance'' ''appliance.registered'' (Some appliance_id)
                 [(''version'', case version of None \<Rightarrow> JNull | Some v \<Rightarrow> JStr v)]) (\<lambda>_.
          ret (the row))))))"

definition record_heartbeat :: "uuid \<Rightarrow> string \<Rightarrow> int \<Rightarrow> (appliance_db, int) exec" where
  "record_heartbeat appliance_id version now =
     seq (update (\<lambda>db. db\<lparr>a_appliances := update_where (\<lambda>r. ap_id r = appliance_id)
            (\<lambda>r. r\<lparr>ap_last_heartbeat := Some now, ap_version := Some version\<rparr>) (a_appliances db)\<rparr>)) (\<lambda>_.
     ret now)"

subsection \<open>Commands\<close>

text \<open>The runs of an appliance's workloads, as the joins of the service select them.\<close>

definition owns_workload :: "appliance_db \<Rightarrow> uuid \<Rightarrow> uuid \<Rightarrow> bool" where
  "owns_workload db appliance_id workload_id \<longleftrightarrow>
     list_ex (\<lambda>w. wl_id w = workload_id \<and> wl_appliance_id w = appliance_id) (a_workloads db)"

definition get_pending_commands :: "uuid \<Rightarrow> (appliance_db, (uuid \<times> uuid) list) exec" where
  "get_pending_commands appliance_id =
     gets (\<lambda>db. map (\<lambda>r. (tr_id r, tr_workload_id r))
       (filter (\<lambda>r. owns_workload db appliance_id (tr_workload_id r) \<and> tr_status r = ''pending'') (a_runs db)))"

subsection \<open>Inventory\<close>

text \<open>Binding a JSON value to a string column, nullable or not.\<close>

definition text_column :: "json \<Rightarrow> string option result" where
  "text_column v = (case v of
     JNull \<Rightarrow> Inr None | JStr s \<Rightarrow> Inr (Some s) | _ \<Rightarrow> Inl (ExternalError ''DataError: expected str''))"

definition text_not_null :: "json \<Rightarrow> string result" where
  "text_not_null v = and_then (text_column v) (\<lambda>c. case c of
     None \<Rightarrow> Inl (ExternalError ''IntegrityError: NOT NULL constraint failed'') | Some s \<Rightarrow> Inr s)"

definition workload_of_vm :: "(json \<Rightarrow> int option result) \<Rightarrow> uuid \<Rightarrow> uuid \<Rightarrow> dict \<Rightarrow> workload_row result" where
  "workload_of_vm bind_time appliance_id new_id vm =
     and_then (text_not_null (dget_or vm ''name'' (JStr ''unknown''))) (\<lambda>name.
     and_then (text_not_null (dget_or vm ''platform'' (JStr ''vmware''))) (\<lambda>platform.
     and_then (text_column (dget vm ''os_type'')) (\<lambda>os_type.
     and_then (text_column (dget vm ''object_id'')) (\<lambda>object_id.
     and_then (text_column (dget vm ''moref'')) (\<lambda>moref.
     and_then (bind_time (dget vm ''last_backup'')) (\<lambda>last_backup.
     Inr \<lparr>wl_id = new_id, wl_appliance_id = appliance_id, wl_name = name, wl_platform = platform,
          wl_os_type = os_type, wl_veeam_object_id = object_id, wl_vcenter_moref = moref,
          wl_is_protected = truthy (dget_or vm ''is_protected'' (JBool False)),
          wl_last_backup_at = last_backup, wl_rto_target_mins = None, wl_rpo_target_mins = None,
          wl_schedule_cron = None\<rparr>))))))"

text \<open>The partial unique index: equal appliance and equal, non-null, Veeam object.\<close>

definition conflicts :: "workload_row \<Rightarrow> workload_row \<Rightarrow> bool" where
  "conflicts new w \<longleftrightarrow> wl_veeam_object_id new \<noteq> None \<and>
     wl_appliance_id w = wl_appliance_id new \<and> wl_veeam_object_id w = wl_veeam_object_id new"

definition upsert_workload :: "workload_row \<Rightarrow> workload_row list \<Rightarrow> workload_row list" where
  "upsert_workload new rows =
     (if list_ex (conflicts new) rows
      then update_where (conflicts new)
             (\<lambda>w. w\<lparr>wl_name := wl_name new, wl_is_protected := wl_is_protected new,
                    wl_last_backup_at := wl_last_backup_at new\<rparr>) rows
      else rows @ [new])"

fun sync_vms ::
    "(json \<Rightarrow> int option result) \<Rightarrow> uuid \<Rightarrow> (nat \<Rightarrow> uuid) \<Rightarrow> nat \<Rightarrow> dict list \<Rightarrow> (appliance_db, nat) exec" where
  "sync_vms bind_time appliance_id new_ids upserted [] = ret upserted"
| "sync_vms bind_time appliance_id new_ids upserted (vm # vms) =
     seq (lift_result (workload_of_vm bind_time appliance_id (new_ids upserted) vm)) (\<lambda>new.
     seq (update (\<lambda>db. db\<lparr>a_workloads := upsert_workload new (a_workloads db)\<rparr>)) (\<lambda>_.
     sync_vms bind_time appliance_id new_ids (upserted + 1) vms))"

definition accept_inventory_sync ::
    "(json \<Rightarrow> int option result) \<Rightarrow> uuid \<Rightarrow> uuid \<Rightarrow> (nat \<Rightarrow> uuid) \<Rightarrow> dict list \<Rightarrow> (appliance_db, nat) exec" where
  "accept_inventory_sync bind_time appliance_id org_id new_ids vms =
     txn (seq (sync_vms bind_time appliance_id new_ids 0 vms) (\<lambda>upserted.
          seq (audit_event org_id appliance_id ''appliance'' ''inventory.synced'' None
                 [(''vm_count'', JInt (int upserted))]) (\<lambda>_.
          ret upserted)))"

subsection \<open>Runs\<close>

text \<open>The appliance of the first row of the join of workloads with the run.\<close>

definition run_owner :: "appliance_db \<Rightarrow> uuid \<Rightarrow> uuid option" where
  "run_owner db run_id =
     (case concat (map (\<lambda>w. map (\<lambda>_. wl_appliance_id w)
              (filter (\<lambda>r. tr_id r = run_id \<and> tr_workload_id r = wl_id w) (a_runs db))) (a_workloads db)) of
        [] \<Rightarrow> None | o1 # _ \<Rightarrow> Some o1)"

definition run_belongs_to_appliance :: "uuid \<Rightarrow> uuid \<Rightarrow> appliance_db \<Rightarrow> bool" where
  "run_belongs_to_appliance run_id appliance_id db \<longleftrightarrow> run_owner db run_id = Some appliance_id"

definition not_yours :: "(uuid \<Rightarrow> string) \<Rightarrow> uuid \<Rightarrow> uuid \<Rightarrow> py_exn" where
  "not_yours uuid_str run_id appliance_id =
     PermissionError (''run '' @ uuid_str run_id @ '' does not belong to appliance '' @ uuid_str appliance_id)"

definition update_run_progress ::
    "(uuid \<Rightarrow> string) \<Rightarrow> uuid \<Rightarrow> uuid \<Rightarrow> string \<Rightarrow> string \<Rightarrow> dict \<Rightarrow> int \<Rightarrow> (appliance_db, unit) exec" where
  "update_run_progress uuid_str run_id appliance_id step status detail now =
     seq (gets (run_belongs_to_appliance run_id appliance_id)) (\<lambda>mine.
     if \<not> mine then raise (not_yours uuid_str run_id appliance_id)
     else
       seq (update (\<lambda>db. db\<lparr>a_steps := a_steps db @
              [\<lparr>ts_run_id = run_id, ts_step_name = step, ts_status = status,
                ts_started_at = (if status = ''running'' then Some now else None),
                ts_ended_at = (if status = ''passed'' \<or> status = ''failed'' then Some now else None),
                ts_detail = detail\<rparr>]\<rparr>)) (\<lambda>_.
       if status = ''running'' then
         update (\<lambda>db. db\<lparr>a_runs := update_where (\<lambda>r. tr_id r = run_id \<and> tr_status r = ''pending'')
            (\<lambda>r. r\<lparr>tr_status := ''running'', tr_started_at := Some now\<rparr>) (a_runs db)\<rparr>)
       else ret ()))"

definition notify_breach :: "uuid \<Rightarrow> bool \<Rightarrow> int \<Rightarrow> int \<Rightarrow> appliance_db \<Rightarrow> appliance_db" where
  "notify_breach run_id passed rto_actual_mins rpo_actual_mins db =
     (case List.find (\<lambda>r. tr_id r = run_id) (a_runs db) of
        None \<Rightarrow> db
      | Some run_row \<Rightarrow>
          (case List.find (\<lambda>w. wl_id w = tr_workload_id run_row) (a_workloads db) of
             None \<Rightarrow> db
           | Some wl \<Rightarrow>
               (case List.find (\<lambda>a. ap_id a = wl_appliance_id wl) (a_appliances db) of
                  None \<Rightarrow> db
                | Some app_row \<Rightarrow>
                    db\<lparr>a_notified := a_notified db @
                      [\<lparr>br_org_id = ap_org_id app_row, br_workload_name = wl_name wl, br_run_id = run_id,
                        br_rto_target = wl_rto_target_mins wl, br_rto_actual = rto_actual_mins,
                        br_rpo_target = wl_rpo_target_mins wl, br_rpo_actual = rpo_actual_mins,
                        br_passed = passed\<rparr>]\<rparr>)))"

definition finalise_run ::
    "(uuid \<Rightarrow> string) \<Rightarrow> uuid \<Rightarrow> uuid \<Rightarrow> bool \<Rightarrow> int \<Rightarrow> int \<Rightarrow> int \<Rightarrow> string option \<Rightarrow> int \<Rightarrow> (appliance_db, unit) exec" where
  "finalise_run uuid_str run_id appliance_id passed rto_actual_mins rpo_actual_mins readiness_score failure_reason now =
     seq (gets (run_belongs_to_appliance run_id appliance_id)) (\<lambda>mine.
     if \<not> mine then raise (not_yours uuid_str run_id appliance_id)
     else
       seq (update (\<lambda>db. db\<lparr>a_runs := update_where (\<lambda>r. tr_id r = run_id)
              (\<lambda>r. r\<lparr>tr_status := (if passed then ''passed'' else ''failed''), tr_completed_at := Some now,
                     tr_rto_actual_mins := Some rto_actual_mins, tr_rpo_actual_mins := Some rpo_actual_mins,
                     tr_readiness_score := Some readiness_score, tr_failure_reason := failure_reason\<rparr>)
              (a_runs db)\<rparr>)) (\<lambda>_.
       update (notify_breach run_id passed rto_actual_mins rpo_actual_mins)))"

subsection \<open>The routes\<close>

type_synonym headers = "string \<Rightarrow> string option"

definition appliance_id_header :: "headers \<Rightarrow> uuid result" where
  "appliance_id_header request =
     (let raw = str_or (request ''X-Appliance-ID'') [] in
      if raw = [] then Inl (HTTPException 401 ''Missing X-Appliance-ID header'')
      else case uuid_of_str raw of None \<Rightarrow> Inl (HTTPException 400 ''Invalid X-Appliance-ID'') | Some i \<Rightarrow> Inr i)"

definition verified_appliance :: "headers \<Rightarrow> (appliance_db, appliance_row) exec" where
  "verified_appliance request =
     seq (lift_result (appliance_id_header request)) (\<lambda>appliance_id.
     let thumbprint = (case request ''X-Client-Cert-Thumbprint'' of None \<Rightarrow> [] | Some t \<Rightarrow> t) in
     seq (gets (find_appliance appliance_id)) (\<lambda>found.
     case found of
       None \<Rightarrow> raise (HTTPException 404 ''Appliance not registered'')
     | Some row \<Rightarrow>
         if thumbprint \<noteq> [] \<and> ap_mtls_thumbprint row \<noteq> thumbprint
         then raise (HTTPException 403 ''Certificate thumbprint mismatch'')
         else ret row))"

record register_request =
  rg_appliance_id :: uuid
  rg_org_id :: uuid
  rg_name :: string
  rg_version :: "string option"
  rg_mtls_thumbprint :: string

definition register :: "(uuid \<Rightarrow> string) \<Rightarrow> register_request \<Rightarrow> headers \<Rightarrow> int \<Rightarrow> (appliance_db, uuid) exec" where
  "register uuid_str req request now =
     (let thumbprint = str_or (request ''X-Client-Cert-Thumbprint'') (rg_mtls_thumbprint req) in
      seq (register_appliance uuid_str (rg_org_id req) (rg_appliance_id req) (rg_name req) thumbprint
             (rg_version req) now) (\<lambda>_.
      ret (rg_appliance_id req)))"

definition heartbeat :: "string \<Rightarrow> headers \<Rightarrow> int \<Rightarrow> (appliance_db, int) exec" where
  "heartbeat version request now =
     seq (verified_appliance request) (\<lambda>appliance. record_heartbeat (ap_id appliance) version now)"

definition inventory_sync ::
    "(json \<Rightarrow> int option result) \<Rightarrow> dict list \<Rightarrow> headers \<Rightarrow> (nat \<Rightarrow> uuid) \<Rightarrow> (appliance_db, nat) exec" where
  "inventory_sync bind_time vms request new_ids =
     seq (verified_appliance request) (\<lambda>appliance.
     accept_inventory_sync bind_time (ap_id appliance) (ap_org_id appliance) new_ids vms)"

text \<open>\<open>except PermissionError\<close> turned into a 404.\<close>

definition hide_permission :: "(appliance_db, 'a) exec \<Rightarrow> (appliance_db, 'a) exec" where
  "hide_permission m = try_except m (\<lambda>e. case e of
     PermissionError _ \<Rightarrow> raise (HTTPException 404 ''Test run not found'') | _ \<Rightarrow> raise e)"

definition post_progress ::
    "(uuid \<Rightarrow> string) \<Rightarrow> uuid \<Rightarrow> string \<Rightarrow> string \<Rightarrow> dict \<Rightarrow> headers \<Rightarrow> int \<Rightarrow> (appliance_db, unit) exec" where
  "post_progress uuid_str run_id step status detail request now =
     seq (verified_appliance request) (\<lambda>appliance.
     hide_permission (update_run_progress uuid_str run_id (ap_id appliance) step status detail now))"

record result_request =
  rr_passed :: bool
  rr_rto_actual_mins :: int
  rr_rpo_actual_mins :: int
  rr_readiness_score :: int
  rr_failure_reason :: "string option"

definition post_result ::
    "(uuid \<Rightarrow> string) \<Rightarrow> uuid \<Rightarrow> result_request \<Rightarrow> headers \<Rightarrow> int \<Rightarrow> (appliance_db, unit) exec" where
  "post_result uuid_str run_id req request now =
     seq (verified_appliance request) (\<lambda>appliance.
     hide_permission (finalise_run uuid_str run_id (ap_id appliance) (rr_passed req) (rr_rto_actual_mins req)
       (rr_rpo_actual_mins req) (rr_readiness_score req) (rr_failure_reason req) now))"

definition get_commands :: "headers \<Rightarrow> (appliance_db, (uuid \<times> uuid) list) exec" where
  "get_commands request =
     seq (verified_appliance request) (\<lambda>appliance. get_pending_commands (ap_id appliance))"

subsection \<open>The life of a run\<close>

inductive run_transition :: "run_row \<Rightarrow> run_row \<Rightarrow> bool" where
  start: "tr_status r = ''pending'' \<Longrightarrow> run_transition r (r\<lparr>tr_status := ''running'', tr_started_at := Some now\<rparr>)"
| finish: "st \<in> {''passed'', ''failed''} \<Longrightarrow>
    run_transition r (r\<lparr>tr_status := st, tr_completed_at := Some now, tr_rto_actual_mins := Some a,
       tr_rpo_actual_mins := Some b, tr_readiness_score := Some c, tr_failure_reason := f\<rparr>)"

inductive_cases run_transitionE: "run_transition r r'"

text \<open>A run before and after a request of an appliance: the same, or moved on by its owner.\<close>

definition run_step_by :: "appliance_db \<Rightarrow> uuid \<Rightarrow> run_row \<Rightarrow> run_row \<Rightarrow> bool" where
  "run_step_by db appliance_id r r' \<longleftrightarrow>
     r' = r \<or> run_transition r r' \<and> run_owner db (tr_id r) = Some appliance_id"

lemma list_all2_update_where:
  "list_all2 R rows (update_where P f rows) \<longleftrightarrow> (\<forall>r \<in> set rows. if P r then R r (f r) else R r r)"
  by (induction rows) (auto simp: update_where_def)

lemma list_all2_same: "(\<And>r. R r r) \<Longrightarrow> list_all2 R rows rows"
  by (simp add: list_all2_conv_all_nth)

lemma run_step_by_refl [simp]: "run_step_by db a r r"
  by (simp add: run_step_by_def)

lemma notify_breach_runs [simp]: "a_runs (notify_breach i p a b db) = a_runs db"
  by (simp add: notify_breach_def split: option.splits)

lemma update_run_progress_runs:
  "list_all2 (run_step_by db a) (a_runs db) (a_runs (snd (update_run_progress us i a step st d now db)))"
  by (auto simp: update_run_progress_def exec_simps run_belongs_to_appliance_def list_all2_update_where
      run_step_by_def intro!: list_all2_same run_transition.start)

lemma finalise_run_runs:
  "list_all2 (run_step_by db a) (a_runs db) (a_runs (snd (finalise_run us i a p x y z f now db)))"
  by (auto simp: finalise_run_def exec_simps run_belongs_to_appliance_def list_all2_update_where
      run_step_by_def intro!: list_all2_same run_transition.finish)

lemma refused_run:
  assumes "run_owner db i \<noteq> Some a"
  shows "update_run_progress us i a step st d now db = (Inl (not_yours us i a), db)"
    and "finalise_run us i a p x y z f now db = (Inl (not_yours us i a), db)"
  using assms
  by (simp_all add: update_run_progress_def finalise_run_def exec_simps run_belongs_to_appliance_def)

subsection \<open>Inventory\<close>

text \<open>Both tables the channel upserts into obey the laws of \<open>upsert_table\<close>.\<close>

definition assign_workload :: "workload_row \<Rightarrow> workload_row \<Rightarrow> workload_row" where
  "assign_workload new w =
     w\<lparr>wl_name := wl_name new, wl_is_protected := wl_is_protected new, wl_last_backup_at := wl_last_backup_at new\<rparr>"

definition has_key :: "workload_row \<Rightarrow> bool" where
  "has_key n \<longleftrightarrow> wl_veeam_object_id n \<noteq> None"

lemma assign_workload_keys [simp]:
  "wl_appliance_id (assign_workload n w) = wl_appliance_id w"
  "wl_veeam_object_id (assign_workload n w) = wl_veeam_object_id w"
  by (simp_all add: assign_workload_def)

interpretation workloads: upsert_table conflicts assign_workload upsert_workload has_key
  by unfold_locales (simp_all add: upsert_workload_def conflicts_def [abs_def] assign_workload_def [abs_def] has_key_def)

definition same_appliance :: "appliance_row \<Rightarrow> appliance_row \<Rightarrow> bool" where
  "same_appliance new r \<longleftrightarrow> ap_id r = ap_id new"

definition assign_appliance :: "appliance_row \<Rightarrow> appliance_row \<Rightarrow> appliance_row" where
  "assign_appliance new r = r\<lparr>ap_mtls_thumbprint := ap_mtls_thumbprint new, ap_version := ap_version new,
     ap_status := ''active'', ap_last_heartbeat := ap_last_heartbeat new\<rparr>"

definition is_active_row :: "appliance_row \<Rightarrow> bool" where
  "is_active_row r \<longleftrightarrow> ap_status r = ''active''"

interpretation appliances: upsert_table same_appliance assign_appliance upsert_appliance is_active_row
  by unfold_locales
    (simp_all add: upsert_appliance_def same_appliance_def [abs_def] assign_appliance_def [abs_def] is_active_row_def)

text \<open>New rows that differ in their fresh identifiers only are interchangeable for an upsert.\<close>

definition same_vm :: "workload_row \<Rightarrow> workload_row \<Rightarrow> bool" where
  "same_vm m n \<longleftrightarrow> wl_appliance_id m = wl_appliance_id n \<and> wl_veeam_object_id m = wl_veeam_object_id n \<and>
     wl_name m = wl_name n \<and> wl_is_protected m = wl_is_protected n \<and> wl_last_backup_at m = wl_last_backup_at n"

lemma same_vm_upsert: "same_vm m n \<Longrightarrow> workloads.same_upsert m n"
  by (simp add: workloads.same_upsert_def same_vm_def assign_workload_def conflicts_def fun_eq_iff)

text \<open>What the loop of \<open>accept_inventory_sync\<close> does to the workloads.\<close>

lemma sync_vms_spec:
  assumes "sync_vms bind_time a ids k vms db = (Inr n, db')"
  shows "\<exists>news. list_all2 (\<lambda>(i, vm) new. workload_of_vm bind_time a (ids i) vm = Inr new) (enumerate k vms) news \<and>
     db' = db\<lparr>a_workloads := fold upsert_workload news (a_workloads db)\<rparr> \<and> n = k + length vms"
  using assms
proof (induction vms arbitrary: k db)
  case Nil
  then show ?case by (simp add: ret_def)
next
  case (Cons vm vms)
  then obtain new where new: "workload_of_vm bind_time a (ids k) vm = Inr new"
    and rec: "sync_vms bind_time a ids (k + 1) vms (db\<lparr>a_workloads := upsert_workload new (a_workloads db)\<rparr>) = (Inr n, db')"
    by (auto simp: exec_simps split: sum.splits)
  from Cons.IH [OF rec] obtain news where
    "list_all2 (\<lambda>(i, vm) new. workload_of_vm bind_time a (ids i) vm = Inr new) (enumerate (k + 1) vms) news"
    "db' = db\<lparr>a_workloads := fold upsert_workload news (upsert_workload new (a_workloads db))\<rparr>" "n = k + 1 + length vms"
    by auto
  then show ?case by (intro exI [of _ "new # news"]) (simp add: new)
qed

lemma workload_of_vm_same:
  "workload_of_vm bt a i vm = Inr m \<Longrightarrow> workload_of_vm bt a j vm = Inr n \<Longrightarrow> same_vm m n"
  by (auto simp: workload_of_vm_def and_then_Inr same_vm_def)

lemma workload_of_vm_key:
  "workload_of_vm bt a i vm = Inr n \<Longrightarrow> dget vm ''object_id'' = JStr s \<Longrightarrow> wl_veeam_object_id n \<noteq> None"
  by (auto simp: workload_of_vm_def and_then_Inr text_column_def)

lemma workload_of_vm_appliance: "workload_of_vm bt a i vm = Inr n \<Longrightarrow> wl_appliance_id n = a"
  by (auto simp: workload_of_vm_def and_then_Inr)

lemma sync_news_same:
  assumes "list_all2 (\<lambda>(i, vm) new. workload_of_vm bt a (ids i) vm = Inr new) (enumerate k vms) ms"
    and "list_all2 (\<lambda>(i, vm) new. workload_of_vm bt a (ids' i) vm = Inr new) (enumerate k vms) ns"
  shows "list_all2 workloads.same_upsert ns ms"
  using assms
  by (auto simp: list_all2_conv_all_nth nth_enumerate_eq) (metis workload_of_vm_same same_vm_upsert)

lemma sync_news_keys:
  assumes "list_all2 (\<lambda>(i, vm) new. workload_of_vm bt a (ids i) vm = Inr new) (enumerate k vms) ns"
    and "\<forall>vm \<in> set vms. \<exists>s. dget vm ''object_id'' = JStr s"
  shows "list_all has_key ns"
  using assms
proof (induction vms arbitrary: k ns)
  case (Cons vm vms)
  then show ?case by (auto simp: has_key_def list_all2_Cons1 dest: workload_of_vm_key)
qed simp

lemma accept_inventory_sync_spec:
  assumes "accept_inventory_sync bt a org ids vms db = (Inr n, db')"
  shows "\<exists>news. list_all2 (\<lambda>(i, vm) new. workload_of_vm bt a (ids i) vm = Inr new) (enumerate 0 vms) news \<and>
     a_workloads db' = fold upsert_workload news (a_workloads db) \<and> n = length vms"
proof -
  obtain db1 where sync: "sync_vms bt a ids 0 vms db = (Inr n, db1)" and w: "a_workloads db' = a_workloads db1"
    using assms by (auto simp: accept_inventory_sync_def txn_def exec_simps audit_event_def split: prod.splits sum.splits)
  from sync_vms_spec [OF sync] show ?thesis using w by auto
qed

subsection \<open>Rows an appliance does not own, and the unique index\<close>

lemma sync_other_rows:
  "\<forall>n \<in> set ns. wl_appliance_id n = a \<Longrightarrow>
     filter (\<lambda>w. wl_appliance_id w \<noteq> a) (fold upsert_workload ns rows) = filter (\<lambda>w. wl_appliance_id w \<noteq> a) rows"
  by (rule workloads.batch_other_rows) (auto simp: conflicts_def)

definition index_keys :: "workload_row list \<Rightarrow> (uuid \<times> string option) list" where
  "index_keys rows = map (\<lambda>w. (wl_appliance_id w, wl_veeam_object_id w))
     (filter (\<lambda>w. wl_veeam_object_id w \<noteq> None) rows)"

definition index_unique :: "workload_row list \<Rightarrow> bool" where
  "index_unique rows \<longleftrightarrow> distinct (index_keys rows)"

lemma index_keys_apply: "index_keys (map (workloads.apply_row n) rows) = index_keys rows"
  by (induction rows) (auto simp: index_keys_def workloads.apply_row_def)

lemma upsert_index:
  "index_unique rows \<Longrightarrow> index_unique (upsert_workload n rows)"
  by (auto simp: workloads.upsert_alt index_unique_def index_keys_apply)
    (auto simp: index_keys_def list_ex_iff conflicts_def)

lemma sync_index: "index_unique rows \<Longrightarrow> index_unique (fold upsert_workload ns rows)"
  by (induction ns arbitrary: rows) (simp_all add: upsert_index)

lemma find_upsert:
  assumes "find_appliance (ap_id new) db = Some old"
  shows "List.find (\<lambda>r. ap_id r = ap_id new) (upsert_appliance new (a_appliances db))
     = Some (old\<lparr>ap_mtls_thumbprint := ap_mtls_thumbprint new, ap_version := ap_version new,
                 ap_status := ''active'', ap_last_heartbeat := ap_last_heartbeat new\<rparr>)"
proof -
  have "list_ex (same_appliance new) (a_appliances db)"
    using assms by (auto simp: find_appliance_def same_appliance_def list_ex_iff dest: find_Some_iff')
  from appliances.find_assigned [OF this] assms show ?thesis
    by (simp add: find_appliance_def same_appliance_def [abs_def] assign_appliance_def)
qed

subsection \<open>Properties\<close>

text \<open>C4: an appliance moves only its own runs: whatever run id it sends, every run is either as it
  was or has made a transition of the run's life cycle and belongs to a workload of that
  appliance; and for a run of another appliance both services refuse and change nothing.\<close>

theorem appliance_moves_only_own_runs:
  "list_all2 (run_step_by db a) (a_runs db) (a_runs (snd (update_run_progress us i a step st d now db))) \<and>
   list_all2 (run_step_by db a) (a_runs db) (a_runs (snd (finalise_run us i a p x y z f now db))) \<and>
   (if run_owner db i = Some a then True
    else update_run_progress us i a step st d now db = (Inl (not_yours us i a), db) \<and>
         finalise_run us i a p x y z f now db = (Inl (not_yours us i a), db))"
  using update_run_progress_runs finalise_run_runs refused_run by simp

text \<open>Inventory sync is idempotent: sending the same VMs, each with an object id, a second time
  leaves the workloads as the first sync left them, whatever fresh identifiers are drawn.\<close>

theorem inventory_sync_idempotent:
  assumes "accept_inventory_sync bt a org ids vms db = (Inr n, db1)"
    and "accept_inventory_sync bt a org ids' vms db1 = (Inr n', db2)"
    and "\<forall>vm \<in> set vms. \<exists>s. dget vm ''object_id'' = JStr s"
  shows "a_workloads db2 = a_workloads db1 \<and> n = length vms \<and> n' = n"
proof -
  obtain ns where ns: "list_all2 (\<lambda>(i, vm) new. workload_of_vm bt a (ids i) vm = Inr new) (enumerate 0 vms) ns"
    "a_workloads db1 = fold upsert_workload ns (a_workloads db)" "n = length vms"
    using accept_inventory_sync_spec [OF assms(1)] by blast
  obtain ms where ms: "list_all2 (\<lambda>(i, vm) new. workload_of_vm bt a (ids' i) vm = Inr new) (enumerate 0 vms) ms"
    "a_workloads db2 = fold upsert_workload ms (a_workloads db1)" "n' = length vms"
    using accept_inventory_sync_spec [OF assms(2)] by blast
  show ?thesis
    using workloads.batch_idempotent [OF sync_news_keys [OF ns(1) assms(3)] sync_news_same [OF ns(1) ms(1)]] ns(2,3) ms(2,3)
    by simp
qed

definition empty_db :: appliance_db where
  "empty_db = \<lparr>a_orgs = [], a_appliances = [], a_workloads = [], a_runs = [], a_steps = [], a_audit = [], a_notified = []\<rparr>"

definition demo_vms :: "dict list" where
  "demo_vms = [[(''object_id'', JStr ''o1''), (''name'', JStr ''web'')],
               [(''object_id'', JStr ''o2''), (''name'', JStr ''db''), (''is_protected'', JBool True)],
               [(''object_id'', JStr ''o1''), (''name'', JStr ''web2'')]]"

definition no_time :: "json \<Rightarrow> int option result" where
  "no_time v = Inr None"

definition synced_db :: appliance_db where
  "synced_db = snd (accept_inventory_sync no_time 3 1 (\<lambda>n. 10 + n) demo_vms empty_db)"

lemma demo_sync:
  "accept_inventory_sync no_time 3 1 (\<lambda>n. 10 + n) demo_vms empty_db = (Inr 3, synced_db)"
  "fst (accept_inventory_sync no_time 3 1 (\<lambda>n. 50 + n) demo_vms synced_db) = Inr 3"
  by code_simp+

theorem inventory_sync_idempotent_witness:
  "a_workloads (snd (accept_inventory_sync no_time 3 1 (\<lambda>n. 50 + n) demo_vms synced_db)) = a_workloads synced_db"
proof -
  have "accept_inventory_sync no_time 3 1 (\<lambda>n. 50 + n) demo_vms synced_db
      = (Inr 3, snd (accept_inventory_sync no_time 3 1 (\<lambda>n. 50 + n) demo_vms synced_db))"
    using demo_sync(2) by (metis prod.collapse)
  moreover have "\<forall>vm \<in> set demo_vms. \<exists>s. dget vm ''object_id'' = JStr s"
    by (simp add: demo_vms_def dget_def)
  ultimately show ?thesis using inventory_sync_idempotent [OF demo_sync(1)] by blast
qed

text \<open>Inventory sync keeps the partial unique index and leaves the workloads of every other
  appliance as they are; when any VM cannot be stored the whole sync changes nothing.\<close>

theorem inventory_sync_scope:
  assumes "index_unique (a_workloads db)"
  shows "index_unique (a_workloads (snd (accept_inventory_sync bt a org ids vms db))) \<and>
     filter (\<lambda>w. wl_appliance_id w \<noteq> a) (a_workloads (snd (accept_inventory_sync bt a org ids vms db)))
       = filter (\<lambda>w. wl_appliance_id w \<noteq> a) (a_workloads db) \<and>
     (case fst (accept_inventory_sync bt a org ids vms db) of
        Inl e \<Rightarrow> snd (accept_inventory_sync bt a org ids vms db) = db
      | Inr n \<Rightarrow> n = length vms)"
proof (cases "fst (accept_inventory_sync bt a org ids vms db)")
  case (Inl e)
  then have "snd (accept_inventory_sync bt a org ids vms db) = db"
    by (auto simp: accept_inventory_sync_def txn_def split: prod.splits sum.splits)
  with Inl assms show ?thesis by simp
next
  case (Inr n)
  then obtain db' where run: "accept_inventory_sync bt a org ids vms db = (Inr n, db')" by (metis prod.collapse)
  obtain ns where ns: "list_all2 (\<lambda>(i, vm) new. workload_of_vm bt a (ids i) vm = Inr new) (enumerate 0 vms) ns"
    "a_workloads db' = fold upsert_workload ns (a_workloads db)" "n = length vms"
    using accept_inventory_sync_spec [OF run] by blast
  have "\<forall>m \<in> set ns. wl_appliance_id m = a"
    using ns(1) by (auto simp: list_all2_conv_all_nth in_set_conv_nth split_def dest!: workload_of_vm_appliance)
  from sync_other_rows [OF this] sync_index [OF assms] show ?thesis by (simp add: run ns(2,3))
qed

theorem inventory_sync_scope_witness:
  "index_unique (a_workloads (snd (accept_inventory_sync no_time 3 1 (\<lambda>n. 10 + n) demo_vms empty_db)))"
  by (rule conjunct1 [OF inventory_sync_scope]) (simp add: empty_db_def index_unique_def index_keys_def)

text \<open>The certificate check is skipped for a request without the thumbprint header, or with an
  empty one: such a request is accepted as the appliance it names, whatever the registered
  certificate, although every endpoint is documented to verify it.\<close>

theorem missing_thumbprint_accepted:
  assumes "appliance_id_header request = Inr i" and "find_appliance i db = Some row"
  shows "verified_appliance request db =
     (if request ''X-Client-Cert-Thumbprint'' \<in> {None, Some [], Some (ap_mtls_thumbprint row)} then (Inr row, db)
      else (Inl (HTTPException 403 ''Certificate thumbprint mismatch''), db))"
  using assms by (auto simp: verified_appliance_def exec_simps Let_def split: option.splits)

definition registered_db :: appliance_db where
  "registered_db = empty_db\<lparr>a_appliances := [\<lparr>ap_id = 42, ap_org_id = 1, ap_name = ''site'', ap_version = None,
     ap_last_heartbeat = None, ap_mtls_thumbprint = ''AA:BB'', ap_status = ''active''\<rparr>]\<rparr>"

definition id_only :: headers where
  "id_only h = (if h = ''X-Appliance-ID'' then Some ''00000000-0000-0000-0000-00000000002a'' else None)"

lemma demo_header: "appliance_id_header id_only = Inr 42"
  by code_simp

theorem missing_thumbprint_accepted_witness:
  "\<exists>row. verified_appliance id_only registered_db = (Inr row, registered_db) \<and> ap_mtls_thumbprint row = ''AA:BB''"
proof -
  have "find_appliance 42 registered_db = Some \<lparr>ap_id = 42, ap_org_id = 1, ap_name = ''site'', ap_version = None,
     ap_last_heartbeat = None, ap_mtls_thumbprint = ''AA:BB'', ap_status = ''active''\<rparr>"
    by (simp add: find_appliance_def registered_db_def)
  from missing_thumbprint_accepted [OF demo_header this] show ?thesis by (simp add: id_only_def)
qed

text \<open>Registration needs no credentials and rebinds the certificate of an appliance already
  registered: after it, a request with the new thumbprint is accepted as that appliance, in the
  organisation that owns it, and one with the old thumbprint is refused.\<close>

theorem registration_rebinds_certificate:
  assumes "find_appliance (rg_appliance_id req) db = Some old"
    and "str_or (hdrs ''X-Client-Cert-Thumbprint'') (rg_mtls_thumbprint req) = t"
    and "appliance_id_header request = Inr (rg_appliance_id req)"
    and "request ''X-Client-Cert-Thumbprint'' = Some c" and "c \<noteq> []"
  shows "fst (register us req hdrs now db) = Inr (rg_appliance_id req) \<and>
     (\<exists>row. ap_org_id row = ap_org_id old \<and>
        verified_appliance request (snd (register us req hdrs now db)) =
          ((if c = t then Inr row else Inl (HTTPException 403 ''Certificate thumbprint mismatch'')),
           snd (register us req hdrs now db)))"
proof -
  let ?row = "old\<lparr>ap_mtls_thumbprint := t, ap_version := rg_version req, ap_status := ''active'',
      ap_last_heartbeat := Some now\<rparr>"
  have found: "find_appliance (rg_appliance_id req) (snd (register us req hdrs now db)) = Some ?row"
    and ok: "fst (register us req hdrs now db) = Inr (rg_appliance_id req)"
    using find_upsert [of "\<lparr>ap_id = rg_appliance_id req, ap_org_id = rg_org_id req, ap_name = rg_name req,
        ap_version = rg_version req, ap_last_heartbeat = Some now, ap_mtls_thumbprint = t, ap_status = ''active''\<rparr>" db old]
      assms(1,2)
    by (simp_all add: register_def register_appliance_def txn_def exec_simps ensure_org_def audit_event_def
        find_appliance_def)
  have "verified_appliance request (snd (register us req hdrs now db)) =
     ((if c = t then Inr ?row else Inl (HTTPException 403 ''Certificate thumbprint mismatch'')),
      snd (register us req hdrs now db))"
    using found assms(3-5) by (simp add: verified_appliance_def exec_simps Let_def)
  then show ?thesis using ok by (intro conjI exI [of _ ?row]) simp_all
qed

definition attacker_headers :: headers where
  "attacker_headers h = (if h = ''X-Client-Cert-Thumbprint'' then Some ''EE:EE'' else id_only h)"

definition attacker_request :: register_request where
  "attacker_request = \<lparr>rg_appliance_id = 42, rg_org_id = 99, rg_name = ''x'', rg_version = None, rg_mtls_thumbprint = []\<rparr>"

theorem registration_rebinds_certificate_witness:
  "\<exists>row. ap_org_id row = 1 \<and>
     fst (verified_appliance attacker_headers (snd (register (\<lambda>_. []) attacker_request attacker_headers 0 registered_db))) = Inr row"
proof -
  have "find_appliance (rg_appliance_id attacker_request) registered_db = Some \<lparr>ap_id = 42, ap_org_id = 1,
     ap_name = ''site'', ap_version = None, ap_last_heartbeat = None, ap_mtls_thumbprint = ''AA:BB'', ap_status = ''active''\<rparr>"
    by (simp add: find_appliance_def registered_db_def attacker_request_def)
  moreover have "str_or (attacker_headers ''X-Client-Cert-Thumbprint'') (rg_mtls_thumbprint attacker_request) = ''EE:EE''"
    by (simp add: attacker_headers_def str_or_def)
  moreover have "appliance_id_header attacker_headers = Inr (rg_appliance_id attacker_request)" by code_simp
  moreover have "attacker_headers ''X-Client-Cert-Thumbprint'' = Some ''EE:EE''" by (simp add: attacker_headers_def)
  ultimately show ?thesis
    using registration_rebinds_certificate [of attacker_request registered_db _ attacker_headers "''EE:EE''"
        attacker_headers "''EE:EE''" "\<lambda>_. []" 0]
    by fastforce
qed

end
