(* ===== verification/AuditChain.thy ===== *)
theory AuditChain
  imports Json
begin

text \<open>
  The appliance's hash-chained audit log, \<open>audit/chain.py\<close>: the SQLite table \<open>chain\<close> as a
  list of rows in \<open>seq\<close> order with its autoincrement counter, \<open>append\<close> and
  \<open>verify_chain\<close>. SHA-256 is the parameter \<open>sha\<close>; nothing is assumed of it but, where
  stated, the length of its hexadecimal digests, and tamper evidence is proved up to an explicit
  collision. The time is an argument (\<open>time.time()\<close>).
\<close>

subsection \<open>The table\<close>

record chain_row =
  seq_nr :: int
  row_timestamp :: rat
  row_event_type :: string
  row_payload :: string
  row_prev_hash :: string
  row_entry_hash :: string

record chain_db =
  chain_rows :: "chain_row list"
  next_seq :: int

record chain_entry =
  ce_seq :: int
  ce_timestamp :: rat
  ce_event_type :: string
  ce_payload :: dict
  ce_prev_hash :: string
  ce_entry_hash :: string

definition init_db :: chain_db where
  "init_db = \<lparr>chain_rows = [], next_seq = 1\<rparr>"

definition genesis :: string where
  "genesis = replicate 64 CHR ''0''"

definition last_hash :: "chain_db \<Rightarrow> string" where
  "last_hash db = (if chain_rows db = [] then genesis else row_entry_hash (last (chain_rows db)))"

definition append_entry ::
    "(string \<Rightarrow> string) \<Rightarrow> rat \<Rightarrow> string \<Rightarrow> dict \<Rightarrow> (chain_db, chain_entry) exec" where
  "append_entry sha ts event_type payload db =
     (let prev = last_hash db;
          raw = prev @ repr_float ts @ event_type @ dumps_sorted (JObj payload);
          digest = sha raw;
          row = \<lparr>seq_nr = next_seq db, row_timestamp = ts, row_event_type = event_type,
                 row_payload = dumps (JObj payload), row_prev_hash = prev, row_entry_hash = digest\<rparr>
      in if list_ex (\<lambda>r. row_entry_hash r = digest) (chain_rows db)
         then (Inl (ExternalError ''IntegrityError: UNIQUE constraint failed: chain.entry_hash''), db)
         else (Inr \<lparr>ce_seq = next_seq db, ce_timestamp = ts, ce_event_type = event_type, ce_payload = payload,
                    ce_prev_hash = prev, ce_entry_hash = digest\<rparr>,
               \<lparr>chain_rows = chain_rows db @ [row], next_seq = next_seq db + 1\<rparr>))"

definition row_body :: "chain_row \<Rightarrow> string" where
  "row_body r = repr_float (row_timestamp r) @ row_event_type r @ row_payload r"

fun verify_rows :: "(string \<Rightarrow> string) \<Rightarrow> string \<Rightarrow> chain_row list \<Rightarrow> bool \<times> int" where
  "verify_rows sha prev [] = (True, -1)"
| "verify_rows sha prev (r # rows) =
     (if row_prev_hash r \<noteq> prev then (False, seq_nr r)
      else if sha (prev @ row_body r) \<noteq> row_entry_hash r then (False, seq_nr r)
      else verify_rows sha (row_entry_hash r) rows)"

definition verify_chain :: "(string \<Rightarrow> string) \<Rightarrow> chain_db \<Rightarrow> bool \<times> int" where
  "verify_chain sha db = verify_rows sha genesis (chain_rows db)"

subsection \<open>Verification\<close>

definition end_hash :: "string \<Rightarrow> chain_row list \<Rightarrow> string" where
  "end_hash prev rows = (if rows = [] then prev else row_entry_hash (last rows))"

lemma verify_rows_append:
  "verify_rows sha prev (xs @ ys) =
     (if fst (verify_rows sha prev xs) then verify_rows sha (end_hash prev xs) ys else verify_rows sha prev xs)"
  by (induction sha prev xs rule: verify_rows.induct) (auto simp: end_hash_def)

lemma verify_rows_ok: "fst (verify_rows sha prev rows) \<Longrightarrow> verify_rows sha prev rows = (True, -1)"
  by (induction sha prev rows rule: verify_rows.induct) (auto split: if_splits)

lemma last_hash_end: "last_hash db = end_hash genesis (chain_rows db)"
  by (simp add: last_hash_def end_hash_def)

lemma append_entry_Inr:
  assumes "append_entry sha ts et payload db = (Inr e, db')"
  shows "db' = \<lparr>chain_rows = chain_rows db @ [\<lparr>seq_nr = next_seq db, row_timestamp = ts, row_event_type = et,
      row_payload = dumps (JObj payload), row_prev_hash = last_hash db,
      row_entry_hash = sha (last_hash db @ repr_float ts @ et @ dumps_sorted (JObj payload))\<rparr>],
      next_seq = next_seq db + 1\<rparr>"
  using assms by (auto simp: append_entry_def Let_def split: if_splits)

text \<open>A sequence of appends that all succeed, starting from a given table.\<close>

inductive appended :: "(string \<Rightarrow> string) \<Rightarrow> chain_db \<Rightarrow> dict list \<Rightarrow> bool" for sha where
  start: "appended sha init_db []"
| add: "appended sha db ps \<Longrightarrow> append_entry sha ts et payload db = (Inr e, db') \<Longrightarrow> appended sha db' (ps @ [payload])"

lemma appended_verifies:
  "appended sha db ps \<Longrightarrow> list_all (\<lambda>p. keys_sorted (JObj p)) ps \<Longrightarrow> verify_chain sha db = (True, -1)"
proof (induction rule: appended.induct)
  case start
  then show ?case by (simp add: verify_chain_def init_db_def)
next
  case (add db ps ts et payload e db')
  then have ok: "verify_rows sha genesis (chain_rows db) = (True, -1)"
    and sorted: "dumps_sorted (JObj payload) = dumps (JObj payload)"
    by (simp_all add: verify_chain_def dumps_sorted_eq del: keys_sorted.simps)
  show ?case
    using append_entry_Inr [OF add.hyps(2)] ok
    by (simp add: verify_chain_def verify_rows_append last_hash_end row_body_def sorted)
qed

lemma appended_seqs: "appended sha db ps \<Longrightarrow>
    map seq_nr (chain_rows db) = map int [1..<length ps + 1] \<and> next_seq db = int (length ps) + 1"
proof (induction rule: appended.induct)
  case start
  then show ?case by (simp add: init_db_def)
next
  case (add db ps ts et payload e db')
  then show ?case using append_entry_Inr [OF add.hyps(2)] by simp
qed

subsection \<open>Tampering\<close>

text \<open>The texts whose digests a log holds, and a collision between the texts of two logs.\<close>

fun digested :: "string \<Rightarrow> chain_row list \<Rightarrow> string list" where
  "digested prev [] = []"
| "digested prev (r # rows) = (prev @ row_body r) # digested (row_entry_hash r) rows"

definition collide :: "(string \<Rightarrow> string) \<Rightarrow> string list \<Rightarrow> string list \<Rightarrow> bool" where
  "collide sha xs ys \<longleftrightarrow> list_ex (\<lambda>x. list_ex (\<lambda>y. x \<noteq> y \<and> sha x = sha y) ys) xs"

lemma digested_snoc: "digested prev (rows @ [r]) = digested prev rows @ [end_hash prev rows @ row_body r]"
  by (induction prev rows rule: digested.induct) (auto simp: end_hash_def)

lemma collide_snoc:
  "\<not> collide sha (xs @ [x]) (ys @ [y]) \<Longrightarrow> sha x = sha y \<Longrightarrow> x = y"
  "\<not> collide sha (xs @ [x]) (ys @ [y]) \<Longrightarrow> \<not> collide sha xs ys"
  by (auto simp: collide_def list_ex_iff)

lemma genesis_length: "length genesis = 64"
  by (simp add: genesis_def)

lemma end_hash_length:
  assumes "\<And>x. length (sha x) = 64" and "fst (verify_rows sha prev rows)" and "length prev = 64"
  shows "length (end_hash prev rows) = 64"
  using assms(2,3)
proof (induction rows arbitrary: prev)
  case Nil
  then show ?case by (simp add: end_hash_def)
next
  case (Cons r rows)
  then have "fst (verify_rows sha (row_entry_hash r) rows)" "row_entry_hash r = sha (prev @ row_body r)"
    by (auto split: if_splits)
  with Cons.IH [of "row_entry_hash r"] assms(1) show ?case by (auto simp: end_hash_def)
qed

lemma same_end_same_bodies:
  assumes len: "\<And>x. length (sha x) = 64"
  shows "\<not> collide sha (digested genesis xs) (digested genesis ys) \<Longrightarrow> fst (verify_rows sha genesis xs) \<Longrightarrow> fst (verify_rows sha genesis ys) \<Longrightarrow> length xs = length ys \<Longrightarrow>
     end_hash genesis xs = end_hash genesis ys \<Longrightarrow>
     map row_body xs = map row_body ys \<and> map row_entry_hash xs = map row_entry_hash ys \<and>
     map row_prev_hash xs = map row_prev_hash ys"
proof (induction xs arbitrary: ys rule: rev_induct)
  case (snoc x xs)
  obtain y ys' where ys: "ys = ys' @ [y]" using snoc.prems(4) by (cases ys rule: rev_cases) auto
  have vx: "fst (verify_rows sha genesis xs)" and vy: "fst (verify_rows sha genesis ys')"
    using snoc.prems(2,3) by (auto simp: ys verify_rows_append split: if_splits)
  have hx: "row_prev_hash x = end_hash genesis xs" "row_entry_hash x = sha (end_hash genesis xs @ row_body x)"
    and hy: "row_prev_hash y = end_hash genesis ys'" "row_entry_hash y = sha (end_hash genesis ys' @ row_body y)"
    using snoc.prems(2,3) vx vy by (auto simp: ys verify_rows_append split: if_splits)
  have "row_entry_hash x = row_entry_hash y" using snoc.prems(5) by (simp add: ys end_hash_def)
  then have "end_hash genesis xs @ row_body x = end_hash genesis ys' @ row_body y"
    using collide_snoc(1) [OF snoc.prems(1) [unfolded ys digested_snoc]] hx(2) hy(2) by metis
  moreover have "length (end_hash genesis xs) = length (end_hash genesis ys')"
    using end_hash_length [OF len vx genesis_length] end_hash_length [OF len vy genesis_length] by simp
  ultimately have "end_hash genesis xs = end_hash genesis ys'" "row_body x = row_body y" by simp_all
  with snoc.IH [OF collide_snoc(2) [OF snoc.prems(1) [unfolded ys digested_snoc]] vx vy] snoc.prems(4) hx hy show ?case by (simp add: ys)
qed simp

subsection \<open>Properties\<close>

text \<open>A log written by \<open>append\<close> verifies, and its rows are numbered from 1 without gaps,
  provided every payload lists its keys in sorted order at every level.\<close>

theorem sorted_log_verifies:
  assumes "appended sha db ps" and "list_all (\<lambda>p. keys_sorted (JObj p)) ps"
  shows "verify_chain sha db = (True, -1) \<and> map seq_nr (chain_rows db) = map int [1..<length ps + 1]"
  using appended_verifies [OF assms] appended_seqs [OF assms(1)] by simp

definition demo_sha :: "string \<Rightarrow> string" where
  "demo_sha s = take 64 (rev s @ replicate 64 CHR ''0'')"

definition demo_log :: "dict \<Rightarrow> chain_db" where
  "demo_log payload = snd (append_entry demo_sha (3/2) ''run'' payload init_db)"

lemma demo_appended: "appended demo_sha (demo_log payload) [payload]"
proof -
  have "append_entry demo_sha (3/2) ''run'' payload init_db
      = (Inr \<lparr>ce_seq = 1, ce_timestamp = 3/2, ce_event_type = ''run'', ce_payload = payload, ce_prev_hash = genesis,
              ce_entry_hash = demo_sha (genesis @ repr_float (3/2) @ ''run'' @ dumps_sorted (JObj payload))\<rparr>,
         demo_log payload)"
    by (simp add: demo_log_def append_entry_def init_db_def last_hash_def Let_def)
  from appended.add [OF appended.start this] show ?thesis by simp
qed

theorem sorted_log_verifies_witness:
  "verify_chain demo_sha (demo_log [(''passed'', JBool True), (''run'', JInt 7)]) = (True, -1)"
proof -
  have "list_all (\<lambda>p. keys_sorted (JObj p)) [[(''passed'', JBool True), (''run'', JInt 7)]]" by code_simp
  from sorted_log_verifies [OF demo_appended this] show ?thesis by simp
qed

text \<open>C9: appending an entry whose payload is not in sorted key order breaks an intact log: the digest
  is taken over the sorted text but the row keeps the unsorted one, so verification blames the
  fresh entry, unless SHA-256 maps these two texts to the same digest.\<close>

theorem unsorted_append_fails_verification:
  assumes "fst (verify_chain sha db)" and "append_entry sha ts et payload db = (Inr e, db')"
    and "sha (last_hash db @ repr_float ts @ et @ dumps (JObj payload)) \<noteq> ce_entry_hash e"
  shows "dumps (JObj payload) \<noteq> dumps_sorted (JObj payload) \<and> verify_chain sha db' = (False, ce_seq e)"
proof -
  have e: "ce_entry_hash e = sha (last_hash db @ repr_float ts @ et @ dumps_sorted (JObj payload))"
    "ce_seq e = next_seq db"
    using assms(2) by (auto simp: append_entry_def Let_def split: if_splits)
  have "verify_chain sha db' = (False, next_seq db)"
    using append_entry_Inr [OF assms(2)] assms(1,3) e
    by (simp add: verify_chain_def verify_rows_append last_hash_end row_body_def)
  with e assms(3) show ?thesis by auto
qed

definition unsorted_payload :: dict where
  "unsorted_payload = [(''run'', JInt 7), (''passed'', JBool True)]"

theorem unsorted_append_fails_verification_witness:
  "verify_chain demo_sha (demo_log unsorted_payload) = (False, 1)"
proof -
  let ?e = "\<lparr>ce_seq = 1, ce_timestamp = 3/2, ce_event_type = ''run'', ce_payload = unsorted_payload,
     ce_prev_hash = genesis,
     ce_entry_hash = demo_sha (genesis @ repr_float (3/2) @ ''run'' @ dumps_sorted (JObj unsorted_payload))\<rparr>"
  have "fst (verify_chain demo_sha init_db)" by (simp add: verify_chain_def init_db_def)
  moreover have "append_entry demo_sha (3/2) ''run'' unsorted_payload init_db = (Inr ?e, demo_log unsorted_payload)"
    by (simp add: demo_log_def append_entry_def init_db_def last_hash_def Let_def)
  moreover have "demo_sha (last_hash init_db @ repr_float (3/2) @ ''run'' @ dumps (JObj unsorted_payload)) \<noteq> ce_entry_hash ?e"
    by code_simp
  ultimately have "verify_chain demo_sha (demo_log unsorted_payload) = (False, ce_seq ?e)"
    by (blast dest: unsorted_append_fails_verification)
  then show ?thesis by simp
qed

text \<open>C8: tamper evidence. Two logs that both verify, have as many rows and end in the same digest
  agree in every digest and in the text each digest covers, or else two different texts digested in
  them, one in each, have the same SHA-256 digest: a collision that can be read off the logs.\<close>

theorem tamper_evident:
  assumes "\<And>x. length (sha x) = 64"
    and "fst (verify_chain sha db)" and "fst (verify_chain sha db')"
    and "length (chain_rows db) = length (chain_rows db')" and "last_hash db = last_hash db'"
  shows "(map row_body (chain_rows db) = map row_body (chain_rows db') \<and>
      map row_entry_hash (chain_rows db) = map row_entry_hash (chain_rows db') \<and>
      map row_prev_hash (chain_rows db) = map row_prev_hash (chain_rows db')) \<or>
     collide sha (digested genesis (chain_rows db)) (digested genesis (chain_rows db'))"
proof (cases "collide sha (digested genesis (chain_rows db)) (digested genesis (chain_rows db'))")
  case False
  show ?thesis
    by (rule disjI1, rule same_end_same_bodies [OF assms(1) False])
      (use assms(2-5) in \<open>simp_all only: verify_chain_def last_hash_end\<close>)
qed simp

lemma demo_sha_length: "length (demo_sha x) = 64"
  by (simp add: demo_sha_def)

lemma demo_intact: "fst (verify_chain demo_sha (demo_log []))"
  by code_simp

theorem tamper_evident_witness:
  "map row_body (chain_rows (demo_log [])) = map row_body (chain_rows (demo_log [])) \<or>
   collide demo_sha (digested genesis (chain_rows (demo_log []))) (digested genesis (chain_rows (demo_log [])))"
  using tamper_evident [OF demo_sha_length demo_intact demo_intact refl refl] by blast

text \<open>What verification does not see. Removing rows from the end of an intact log leaves a log
  that verifies, and so does moving characters across the boundary of timestamp, event type and
  payload, because the digest covers their concatenation.\<close>

theorem verification_gaps:
  assumes "fst (verify_chain sha db)"
  shows "verify_chain sha (db\<lparr>chain_rows := take n (chain_rows db)\<rparr>) = (True, -1) \<and>
     (\<forall>rows r r' rows'. chain_rows db = rows @ r # rows' \<and> row_body r' = row_body r \<and>
        row_prev_hash r' = row_prev_hash r \<and> row_entry_hash r' = row_entry_hash r \<longrightarrow>
        verify_chain sha (db\<lparr>chain_rows := rows @ r' # rows'\<rparr>) = (True, -1))"
proof (intro conjI allI impI)
  have "fst (verify_rows sha genesis (take n (chain_rows db) @ drop n (chain_rows db)))"
    using assms by (simp add: verify_chain_def)
  then have "fst (verify_rows sha genesis (take n (chain_rows db)))"
    by (simp only: verify_rows_append split: if_splits) (cases "fst (verify_rows sha genesis (take n (chain_rows db)))"; simp)
  then show "verify_chain sha (db\<lparr>chain_rows := take n (chain_rows db)\<rparr>) = (True, -1)"
    by (simp add: verify_chain_def verify_rows_ok)
next
  fix rows r r' rows'
  assume a: "chain_rows db = rows @ r # rows' \<and> row_body r' = row_body r \<and>
        row_prev_hash r' = row_prev_hash r \<and> row_entry_hash r' = row_entry_hash r"
  then have "fst (verify_rows sha genesis (rows @ r # rows'))" using assms by (simp add: verify_chain_def)
  then have "fst (verify_rows sha genesis (rows @ r' # rows'))"
    using a by (auto simp: verify_rows_append split: if_splits)
  then show "verify_chain sha (db\<lparr>chain_rows := rows @ r' # rows'\<rparr>) = (True, -1)"
    by (simp add: verify_chain_def verify_rows_ok)
qed

text \<open>The event \<open>625run\<close> at time 1.0 rewritten as the event \<open>run\<close> at time 1.0625.\<close>

definition original_row :: chain_row where
  "original_row = \<lparr>seq_nr = 1, row_timestamp = 1, row_event_type = ''625run'', row_payload = dumps (JObj []),
     row_prev_hash = genesis, row_entry_hash = demo_sha (genesis @ repr_float 1 @ ''625run'' @ dumps (JObj []))\<rparr>"

definition rewritten_row :: chain_row where
  "rewritten_row = original_row\<lparr>row_timestamp := 17/16, row_event_type := ''run''\<rparr>"

definition gap_db :: chain_db where
  "gap_db = \<lparr>chain_rows = [original_row], next_seq = 2\<rparr>"

lemma gap_bodies: "row_body rewritten_row = row_body original_row"
  by code_simp

lemma gap_verified: "fst (verify_chain demo_sha gap_db)"
  by (simp add: verify_chain_def gap_db_def original_row_def row_body_def)

theorem verification_gaps_witness:
  "rewritten_row \<noteq> original_row \<and> verify_chain demo_sha (gap_db\<lparr>chain_rows := [rewritten_row]\<rparr>) = (True, -1)"
proof
  have "row_event_type rewritten_row \<noteq> row_event_type original_row"
    by (simp add: rewritten_row_def original_row_def)
  then show "rewritten_row \<noteq> original_row" by metis
  have "chain_rows gap_db = [] @ original_row # [] \<and> row_body rewritten_row = row_body original_row \<and>
      row_prev_hash rewritten_row = row_prev_hash original_row \<and>
      row_entry_hash rewritten_row = row_entry_hash original_row"
    using gap_bodies by (simp add: gap_db_def rewritten_row_def)
  with verification_gaps [OF gap_verified]
  have "verify_chain demo_sha (gap_db\<lparr>chain_rows := [] @ rewritten_row # []\<rparr>) = (True, -1)" by blast
  then show "verify_chain demo_sha (gap_db\<lparr>chain_rows := [rewritten_row]\<rparr>) = (True, -1)" by simp
qed

end
