(* ===== verification/Joins.thy ===== *)
theory Joins
  imports ApplianceService
begin

text \<open>
  The joins most routes of the portal share: a workload belongs to the organisation of its
  appliance and a run to that of its workload. Identifiers are primary keys, so a join finds at
  most one row; \<open>keys_distinct\<close> states it of a database.
\<close>

definition appliance_org :: "uuid \<Rightarrow> 'z appliance_db_scheme \<Rightarrow> uuid option" where
  "appliance_org appliance_id db =
     map_option ap_org_id (List.find (\<lambda>a. ap_id a = appliance_id) (a_appliances db))"

definition workload_org :: "workload_row \<Rightarrow> 'z appliance_db_scheme \<Rightarrow> uuid option" where
  "workload_org w db = appliance_org (wl_appliance_id w) db"

definition run_workload :: "run_row \<Rightarrow> 'z appliance_db_scheme \<Rightarrow> workload_row option" where
  "run_workload r db = List.find (\<lambda>w. wl_id w = tr_workload_id r) (a_workloads db)"

definition run_org :: "run_row \<Rightarrow> 'z appliance_db_scheme \<Rightarrow> uuid option" where
  "run_org r db = (case run_workload r db of None \<Rightarrow> None | Some w \<Rightarrow> workload_org w db)"

definition own_workloads :: "uuid \<Rightarrow> 'z appliance_db_scheme \<Rightarrow> workload_row list" where
  "own_workloads org db = filter (\<lambda>w. workload_org w db = Some org) (a_workloads db)"

definition run_pair :: "uuid \<Rightarrow> 'z appliance_db_scheme \<Rightarrow> run_row \<Rightarrow> (run_row \<times> workload_row) option" where
  "run_pair org db r =
     (case run_workload r db of
        None \<Rightarrow> None
      | Some w \<Rightarrow> if workload_org w db = Some org then Some (r, w) else None)"

definition own_runs :: "uuid \<Rightarrow> 'z appliance_db_scheme \<Rightarrow> (run_row \<times> workload_row) list" where
  "own_runs org db = List.map_filter (run_pair org db) (a_runs db)"

definition keys_distinct :: "'z appliance_db_scheme \<Rightarrow> bool" where
  "keys_distinct db \<longleftrightarrow>
     distinct (map ap_id (a_appliances db)) \<and> distinct (map wl_id (a_workloads db)) \<and> distinct (map tr_id (a_runs db))"

lemma set_map_filter: "set (List.map_filter f xs) = {y. \<exists>x \<in> set xs. f x = Some y}"
  by (induction xs) (auto simp: map_filter_simps split: option.splits)

lemma run_workloadD: "run_workload r db = Some w \<Longrightarrow> w \<in> set (a_workloads db) \<and> wl_id w = tr_workload_id r"
  by (auto simp: run_workload_def dest: find_Some_iff')

lemma run_pair_iff: "run_pair org db x = Some (r, w) \<longleftrightarrow> x = r \<and> run_workload r db = Some w \<and> workload_org w db = Some org"
  by (cases "run_workload x db") (auto simp: run_pair_def)

lemma own_runs_iff:
  "(r, w) \<in> set (own_runs org db) \<longleftrightarrow> r \<in> set (a_runs db) \<and> run_workload r db = Some w \<and> workload_org w db = Some org"
  by (auto simp: own_runs_def set_map_filter run_pair_iff)

lemma own_runsD:
  assumes "(r, w) \<in> set (own_runs org db)"
  shows "r \<in> set (a_runs db)" "w \<in> set (a_workloads db)" "wl_id w = tr_workload_id r" "workload_org w db = Some org"
    "run_org r db = Some org"
  using assms by (auto simp: own_runs_iff run_org_def dest: run_workloadD)

lemma own_runsI: "r \<in> set (a_runs db) \<Longrightarrow> run_org r db = Some org \<Longrightarrow> \<exists>w. (r, w) \<in> set (own_runs org db)"
  by (cases "run_workload r db") (auto simp: own_runs_iff run_org_def)

lemma own_run_listed:
  "(r, w) \<in> set (own_runs org db) \<Longrightarrow> w \<in> set (own_workloads org db)"
  by (auto simp: own_workloads_def dest: own_runsD)

text \<open>The join sees only the three tables.\<close>

lemma join_cong:
  assumes "a_appliances db' = a_appliances db" "a_workloads db' = a_workloads db"
  shows "appliance_org a db' = appliance_org a db" "workload_org w db' = workload_org w db"
    "run_workload r db' = run_workload r db" "run_org r db' = run_org r db" "own_workloads org db' = own_workloads org db"
proof -
  show org: "appliance_org a db' = appliance_org a db" for a using assms by (simp add: appliance_org_def)
  show wl: "workload_org w db' = workload_org w db" for w by (simp add: workload_org_def org)
  show rw: "run_workload r db' = run_workload r db" for r using assms by (simp add: run_workload_def)
  show "run_org r db' = run_org r db" by (simp add: run_org_def rw wl split: option.split)
  show "own_workloads org db' = own_workloads org db" using assms by (simp add: own_workloads_def wl)
qed

end
