(* ===== verification/Portal.thy ===== *)
theory Portal
  imports Joins
begin

text \<open>
  The portal's routes over workloads (\<open>routers/workloads.py\<close>), test runs
  (\<open>routers/test_runs.py\<close>), appliances (\<open>routers/portal_appliances.py\<close>) and users
  (\<open>routers/users.py\<close>). A row is returned as the record of the fields the route lists; the
  creation time of a row is the time of its insertion, so newest first is the reverse of the table.
  Temporal's client, \<open>datetime.fromisoformat\<close>, the template engine and the conversion of a
  datetime to a text field of a response model are arguments.
\<close>

subsection \<open>Tables\<close>

record health_row =
  hc_run_id :: uuid
  hc_check_name :: string
  hc_passed :: bool
  hc_output :: "string option"

record user_row =
  ur_id :: uuid
  ur_org_id :: uuid
  ur_auth0_sub :: string
  ur_email :: string
  ur_role :: string

record portal_db = appliance_db +
  po_restore_points :: "(uuid \<times> micros) list"
  po_health :: "health_row list"
  po_users :: "user_row list"

subsection \<open>Workloads\<close>

record workload_response =
  wr_id :: uuid
  wr_name :: string
  wr_platform :: string
  wr_os_type :: "string option"
  wr_is_protected :: bool
  wr_rto_target_mins :: "int option"
  wr_rpo_target_mins :: "int option"
  wr_last_backup_at :: "string option"
  wr_last_test_run_status :: "string option"
  wr_last_test_run_at :: "string option"

definition workload_json :: "(micros \<Rightarrow> string result) \<Rightarrow> workload_row \<Rightarrow> workload_response result" where
  "workload_json dt_str w =
     and_then (case wl_last_backup_at w of
                 None \<Rightarrow> Inr None
               | Some t \<Rightarrow> and_then (dt_str t) (\<lambda>s. Inr (Some s))) (\<lambda>backup.
     Inr \<lparr>wr_id = wl_id w, wr_name = wl_name w, wr_platform = wl_platform w, wr_os_type = wl_os_type w,
          wr_is_protected = wl_is_protected w, wr_rto_target_mins = wl_rto_target_mins w,
          wr_rpo_target_mins = wl_rpo_target_mins w, wr_last_backup_at = backup,
          wr_last_test_run_status = None, wr_last_test_run_at = None\<rparr>)"

definition list_workloads ::
    "(micros \<Rightarrow> string result) \<Rightarrow> int \<Rightarrow> int \<Rightarrow> current_user \<Rightarrow> (portal_db, workload_response list) exec" where
  "list_workloads dt_str page page_size user =
     (if \<not> (1 \<le> page \<and> 1 \<le> page_size \<and> page_size \<le> 200) then raise (HTTPException 422 ''validation error'')
      else
        let offset = (page - 1) * page_size in
        seq (gets (\<lambda>db. take (nat page_size) (drop (nat offset) (own_workloads (user_org_id user) db)))) (\<lambda>rows.
        lift_result (map_result (workload_json dt_str) rows)))"

definition owned_workload :: "uuid \<Rightarrow> current_user \<Rightarrow> (portal_db, workload_row) exec" where
  "owned_workload workload_id user =
     seq (gets (\<lambda>db. List.find (\<lambda>w. wl_id w = workload_id) (own_workloads (user_org_id user) db))) (\<lambda>found.
     case found of
       None \<Rightarrow> raise (HTTPException 404 ''Workload not found'')
     | Some w \<Rightarrow> ret w)"

definition get_workload :: "(micros \<Rightarrow> string result) \<Rightarrow> uuid \<Rightarrow> current_user \<Rightarrow> (portal_db, workload_response) exec" where
  "get_workload dt_str workload_id user =
     seq (owned_workload workload_id user) (\<lambda>w. lift_result (workload_json dt_str w))"

definition update_workload :: "uuid \<Rightarrow> (workload_row \<Rightarrow> workload_row) \<Rightarrow> (portal_db, unit) exec" where
  "update_workload workload_id f =
     update (\<lambda>db. db\<lparr>a_workloads := update_where (\<lambda>w. wl_id w = workload_id) f (a_workloads db)\<rparr>)"

definition set_targets :: "uuid \<Rightarrow> int \<Rightarrow> int \<Rightarrow> current_user \<Rightarrow> (portal_db, unit) exec" where
  "set_targets workload_id rto_target_mins rpo_target_mins user =
     seq (lift_result (require_admin user)) (\<lambda>_.
     seq (owned_workload workload_id user) (\<lambda>_.
     update_workload workload_id (\<lambda>w. w\<lparr>wl_rto_target_mins := Some rto_target_mins, wl_rpo_target_mins := Some rpo_target_mins\<rparr>)))"

definition set_schedule :: "uuid \<Rightarrow> string option \<Rightarrow> current_user \<Rightarrow> (portal_db, string option) exec" where
  "set_schedule workload_id schedule_cron user =
     seq (lift_result (require_admin user)) (\<lambda>_.
     seq (owned_workload workload_id user) (\<lambda>_.
     seq (update_workload workload_id (\<lambda>w. w\<lparr>wl_schedule_cron := schedule_cron\<rparr>)) (\<lambda>_.
     ret schedule_cron)))"

record history_entry =
  he_id :: uuid
  he_status :: string
  he_started_at :: "micros option"
  he_completed_at :: "micros option"
  he_rto_actual_mins :: "int option"
  he_rpo_actual_mins :: "int option"
  he_readiness_score :: "int option"

definition history_json :: "run_row \<Rightarrow> history_entry" where
  "history_json r =
     \<lparr>he_id = tr_id r, he_status = tr_status r, he_started_at = tr_started_at r, he_completed_at = tr_completed_at r,
      he_rto_actual_mins = tr_rto_actual_mins r, he_rpo_actual_mins = tr_rpo_actual_mins r,
      he_readiness_score = tr_readiness_score r\<rparr>"

definition get_history :: "uuid \<Rightarrow> current_user \<Rightarrow> (portal_db, history_entry list) exec" where
  "get_history workload_id user =
     seq (owned_workload workload_id user) (\<lambda>_.
     gets (\<lambda>db. map history_json (take 50 (rev (filter (\<lambda>r. tr_workload_id r = workload_id) (a_runs db))))))"

subsection \<open>Test runs\<close>

record trigger_request =
  tq_workload_id :: uuid
  tq_restore_point :: "string option"

definition restore_time :: "(string \<Rightarrow> micros result) \<Rightarrow> string option \<Rightarrow> micros option result" where
  "restore_time fromisoformat restore_point =
     (if str_or restore_point [] = [] then Inr None
      else and_then (fromisoformat (the restore_point)) (\<lambda>t. Inr (Some t)))"

definition pending_run :: "uuid \<Rightarrow> workload_row \<Rightarrow> run_row" where
  "pending_run new_id workload =
     \<lparr>tr_id = new_id, tr_workload_id = wl_id workload, tr_status = ''pending'', tr_started_at = None, tr_completed_at = None,
      tr_rto_actual_mins = None, tr_rpo_actual_mins = None, tr_readiness_score = None, tr_failure_reason = None,
      tr_workflow_run_id = None\<rparr>"

definition mark_started :: "uuid \<Rightarrow> string \<Rightarrow> micros \<Rightarrow> (portal_db, unit) exec" where
  "mark_started run_id workflow_run_id now =
     update (\<lambda>db. db\<lparr>a_runs := update_where (\<lambda>r. tr_id r = run_id)
       (\<lambda>r. r\<lparr>tr_workflow_run_id := Some workflow_run_id, tr_status := ''running'', tr_started_at := Some now\<rparr>) (a_runs db)\<rparr>)"

record run_response =
  rr_id :: uuid
  rr_workload_id :: uuid
  rr_status :: string
  rr_started_at :: "micros option"
  rr_completed_at :: "micros option"
  rr_rto_actual_mins :: "int option"
  rr_rpo_actual_mins :: "int option"
  rr_readiness_score :: "int option"
  rr_steps :: "run_step_row list"

text \<open>\<open>start_workflow\<close>: the name, the arguments and the id of a workflow; its result is the id of the first execution.\<close>

definition trigger_test_run ::
    "(string \<Rightarrow> string list \<Rightarrow> string \<Rightarrow> string result) \<Rightarrow> (string \<Rightarrow> micros result) \<Rightarrow> (uuid \<Rightarrow> string) \<Rightarrow> trigger_request \<Rightarrow>
     current_user \<Rightarrow> uuid \<Rightarrow> micros \<Rightarrow> (portal_db, run_response) exec" where
  "trigger_test_run start_workflow fromisoformat uuid_str req user new_id now =
     seq (lift_result (require_admin user)) (\<lambda>_.
     seq (owned_workload (tq_workload_id req) user) (\<lambda>workload.
     seq (lift_result (restore_time fromisoformat (tq_restore_point req))) (\<lambda>restore_dt.
     seq (update (\<lambda>db. db\<lparr>a_runs := a_runs db @ [pending_run new_id workload],
            po_restore_points := (case restore_dt of None \<Rightarrow> po_restore_points db
                                  | Some t \<Rightarrow> po_restore_points db @ [(new_id, t)])\<rparr>)) (\<lambda>_.
     seq (try_except
            (seq (lift_result (start_workflow ''RecoveryTestWorkflow''
                    [uuid_str new_id, uuid_str (wl_id workload), uuid_str (wl_appliance_id workload)] (uuid_str new_id))) (\<lambda>rid.
             seq (mark_started new_id rid now) (\<lambda>_. ret ''running'')))
            (\<lambda>_. ret ''pending'')) (\<lambda>status.
     ret \<lparr>rr_id = new_id, rr_workload_id = wl_id workload, rr_status = status, rr_started_at = None, rr_completed_at = None,
          rr_rto_actual_mins = None, rr_rpo_actual_mins = None, rr_readiness_score = None, rr_steps = []\<rparr>)))))"

definition get_test_run :: "uuid \<Rightarrow> current_user \<Rightarrow> (portal_db, run_response) exec" where
  "get_test_run run_id user =
     seq (gets (\<lambda>db. List.find (\<lambda>(r, _). tr_id r = run_id) (own_runs (user_org_id user) db))) (\<lambda>found.
     case found of
       None \<Rightarrow> raise (HTTPException 404 ''Test run not found'')
     | Some (r, _) \<Rightarrow>
         seq (gets (\<lambda>db. filter (\<lambda>s. ts_run_id s = run_id) (a_steps db))) (\<lambda>steps.
         ret \<lparr>rr_id = tr_id r, rr_workload_id = tr_workload_id r, rr_status = tr_status r, rr_started_at = tr_started_at r,
              rr_completed_at = tr_completed_at r, rr_rto_actual_mins = tr_rto_actual_mins r,
              rr_rpo_actual_mins = tr_rpo_actual_mins r, rr_readiness_score = tr_readiness_score r, rr_steps = steps\<rparr>))"

record report_step =
  rs_step :: run_step_row
  rs_duration :: string
  rs_detail_summary :: string

text \<open>\<open>int(delta.total_seconds())\<close>\<close>

definition step_duration :: "run_step_row \<Rightarrow> string" where
  "step_duration s =
     (case (ts_started_at s, ts_ended_at s) of
        (Some sa, Some ea) \<Rightarrow>
show_int (int_of_float (fdiv (of_int (ea - sa)) 1000000)) @ '' sec''
      | _ \<Rightarrow> [])"

definition report_step_of :: "run_step_row \<Rightarrow> report_step" where
  "report_step_of s =
     \<lparr>rs_step = s, rs_duration = step_duration s,
      rs_detail_summary = take 80 (if ts_detail s = [] then [] else py_str (JObj (ts_detail s)))\<rparr>"

record report_context =
  rc_org_name :: string
  rc_workload_name :: string
  rc_test_date :: "micros option"
  rc_passed :: bool
  rc_rto_target :: int
  rc_rto_actual :: int
  rc_rto_ok :: bool
  rc_rpo_target :: int
  rc_rpo_actual :: int
  rc_rpo_ok :: bool
  rc_readiness_score :: "int option"
  rc_steps :: "report_step list"
  rc_health_checks :: "health_row list"

definition report_context_of :: "string \<Rightarrow> run_response \<Rightarrow> workload_row option \<Rightarrow> health_row list \<Rightarrow> report_context" where
  "report_context_of org_name run workload health_checks =
     (let rto_actual = int_or (rr_rto_actual_mins run) 0;
          rpo_actual = int_or (rr_rpo_actual_mins run) 0;
          rto_target = (case workload of None \<Rightarrow> 0 | Some w \<Rightarrow> int_or (wl_rto_target_mins w) 0);
          rpo_target = (case workload of None \<Rightarrow> 0 | Some w \<Rightarrow> int_or (wl_rpo_target_mins w) 0)
      in \<lparr>rc_org_name = org_name, rc_workload_name = (case workload of None \<Rightarrow> ''Unknown'' | Some w \<Rightarrow> wl_name w),
          rc_test_date = rr_started_at run, rc_passed = (rr_status run = ''passed''),
          rc_rto_target = rto_target, rc_rto_actual = rto_actual,
          rc_rto_ok = (if rto_target \<noteq> 0 then rto_actual \<le> rto_target else True),
          rc_rpo_target = rpo_target, rc_rpo_actual = rpo_actual,
          rc_rpo_ok = (if rpo_target \<noteq> 0 then rpo_actual \<le> rpo_target else True),
          rc_readiness_score = rr_readiness_score run, rc_steps = map report_step_of (rr_steps run),
          rc_health_checks = health_checks\<rparr>)"

definition download_report ::
    "(report_context \<Rightarrow> 'pdf result) \<Rightarrow> (uuid \<Rightarrow> string) \<Rightarrow> uuid \<Rightarrow> current_user \<Rightarrow> (portal_db, 'pdf) exec" where
  "download_report render uuid_str run_id user =
     seq (get_test_run run_id user) (\<lambda>run_data.
     seq (gets (\<lambda>db. filter (\<lambda>h. hc_run_id h = run_id) (po_health db))) (\<lambda>health_checks.
     seq (gets (\<lambda>db. List.find (\<lambda>w. wl_id w = rr_workload_id run_data) (a_workloads db))) (\<lambda>workload.
     lift_result (render (report_context_of (uuid_str (user_org_id user)) run_data workload health_checks)))))"

subsection \<open>Appliances\<close>

record appliance_response =
  ar_id :: uuid
  ar_name :: string
  ar_version :: "string option"
  ar_status :: string
  ar_last_heartbeat :: "micros option"
  ar_mtls_thumbprint :: string
  ar_workload_count :: nat

definition appliance_json :: "portal_db \<Rightarrow> appliance_row \<Rightarrow> appliance_response" where
  "appliance_json db a =
     \<lparr>ar_id = ap_id a, ar_name = ap_name a, ar_version = ap_version a, ar_status = ap_status a,
      ar_last_heartbeat = ap_last_heartbeat a, ar_mtls_thumbprint = ap_mtls_thumbprint a,
      ar_workload_count = count_if (\<lambda>w. wl_appliance_id w = ap_id a) (a_workloads db)\<rparr>"

definition own_appliances :: "uuid \<Rightarrow> portal_db \<Rightarrow> appliance_row list" where
  "own_appliances org db = filter (\<lambda>a. ap_org_id a = org) (a_appliances db)"

definition list_portal_appliances :: "current_user \<Rightarrow> (portal_db, appliance_response list) exec" where
  "list_portal_appliances user = gets (\<lambda>db. map (appliance_json db) (rev (own_appliances (user_org_id user) db)))"

definition own_appliance :: "uuid \<Rightarrow> current_user \<Rightarrow> (portal_db, appliance_row) exec" where
  "own_appliance appliance_id user =
     seq (gets (\<lambda>db. List.find (\<lambda>a. ap_id a = appliance_id) (own_appliances (user_org_id user) db))) (\<lambda>found.
     case found of
       None \<Rightarrow> raise (HTTPException 404 ''Appliance not found'')
     | Some a \<Rightarrow> ret a)"

definition get_portal_appliance :: "uuid \<Rightarrow> current_user \<Rightarrow> (portal_db, appliance_response) exec" where
  "get_portal_appliance appliance_id user = seq (own_appliance appliance_id user) (\<lambda>a. gets (\<lambda>db. appliance_json db a))"

definition deregister_appliance :: "uuid \<Rightarrow> current_user \<Rightarrow> (portal_db, unit) exec" where
  "deregister_appliance appliance_id user =
     seq (own_appliance appliance_id user) (\<lambda>_.
     update (\<lambda>db. db\<lparr>a_appliances := update_where (\<lambda>a. ap_id a = appliance_id)
       (\<lambda>a. a\<lparr>ap_status := ''deregistered''\<rparr>) (a_appliances db)\<rparr>))"

subsection \<open>Users\<close>

record provision_request =
  pv_auth0_sub :: string
  pv_email :: string
  pv_role :: string

definition upsert_user :: "user_row \<Rightarrow> user_row list \<Rightarrow> user_row list" where
  "upsert_user new rows =
     (if list_ex (\<lambda>u. ur_auth0_sub u = ur_auth0_sub new) rows
      then update_where (\<lambda>u. ur_auth0_sub u = ur_auth0_sub new) (\<lambda>u. u\<lparr>ur_email := ur_email new, ur_role := ur_role new\<rparr>) rows
      else rows @ [new])"

definition provision_user :: "provision_request \<Rightarrow> current_user \<Rightarrow> uuid \<Rightarrow> (portal_db, user_row) exec" where
  "provision_user req user new_id =
     seq (lift_result (require_admin user)) (\<lambda>_.
     if pv_role req \<notin> {''admin'', ''viewer''} then raise (HTTPException 400 ''role must be admin or viewer'')
     else
       seq (gets (\<lambda>db. map_option ur_org_id (List.find (\<lambda>u. ur_auth0_sub u = pv_auth0_sub req) (po_users db)))) (\<lambda>existing_org.
       if existing_org \<noteq> None \<and> existing_org \<noteq> Some (user_org_id user)
       then raise (HTTPException 409 ''User already provisioned in another organization'')
       else
         let new = \<lparr>ur_id = new_id, ur_org_id = user_org_id user, ur_auth0_sub = pv_auth0_sub req, ur_email = pv_email req,
               ur_role = pv_role req\<rparr>
         in seq (update (\<lambda>db. db\<lparr>po_users := upsert_user new (po_users db)\<rparr>)) (\<lambda>_.
            gets (\<lambda>db. the (List.find (\<lambda>u. ur_auth0_sub u = pv_auth0_sub req) (po_users db))))))"

text \<open>The id of the answer is a new one every time.\<close>

definition get_me :: "current_user \<Rightarrow> uuid \<Rightarrow> (portal_db, user_row) exec" where
  "get_me user new_id =
     ret \<lparr>ur_id = new_id, ur_org_id = user_org_id user, ur_auth0_sub = user_sub user, ur_email = user_email user,
          ur_role = user_role user\<rparr>"

subsection \<open>Every route by id looks for an own row\<close>

datatype portal_op =
    GetWorkload uuid | SetTargets uuid int int | SetSchedule uuid "string option" | History uuid
  | Trigger trigger_request | GetRun uuid | Report uuid
  | GetAppliance uuid | Deregister uuid | Provision provision_request

record portal_libs =
  lb_dt_str :: "micros \<Rightarrow> string result"
  lb_start_workflow :: "string \<Rightarrow> string list \<Rightarrow> string \<Rightarrow> string result"
  lb_fromisoformat :: "string \<Rightarrow> micros result"
  lb_uuid_str :: "uuid \<Rightarrow> string"
  lb_render :: "report_context \<Rightarrow> string result"

definition no_answer :: "('s, 'a) exec \<Rightarrow> ('s, unit) exec" where
  "no_answer m = respond (\<lambda>_. ()) m"

fun portal_step :: "portal_libs \<Rightarrow> current_user \<Rightarrow> uuid \<Rightarrow> micros \<Rightarrow> portal_op \<Rightarrow> (portal_db, unit) exec" where
  "portal_step L user new_id now (GetWorkload i) = no_answer (get_workload (lb_dt_str L) i user)"
| "portal_step L user new_id now (SetTargets i rto rpo) = set_targets i rto rpo user"
| "portal_step L user new_id now (SetSchedule i cron) = no_answer (set_schedule i cron user)"
| "portal_step L user new_id now (History i) = no_answer (get_history i user)"
| "portal_step L user new_id now (Trigger req) =
     no_answer (trigger_test_run (lb_start_workflow L) (lb_fromisoformat L) (lb_uuid_str L) req user new_id now)"
| "portal_step L user new_id now (GetRun i) = no_answer (get_test_run i user)"
| "portal_step L user new_id now (Report i) = no_answer (download_report (lb_render L) (lb_uuid_str L) i user)"
| "portal_step L user new_id now (GetAppliance i) = no_answer (get_portal_appliance i user)"
| "portal_step L user new_id now (Deregister i) = deregister_appliance i user"
| "portal_step L user new_id now (Provision req) = no_answer (provision_user req user new_id)"

fun addresses_own :: "uuid \<Rightarrow> portal_db \<Rightarrow> portal_op \<Rightarrow> bool" where
  "addresses_own org db (GetWorkload i) = (\<exists>w \<in> set (own_workloads org db). wl_id w = i)"
| "addresses_own org db (SetTargets i _ _) = (\<exists>w \<in> set (own_workloads org db). wl_id w = i)"
| "addresses_own org db (SetSchedule i _) = (\<exists>w \<in> set (own_workloads org db). wl_id w = i)"
| "addresses_own org db (History i) = (\<exists>w \<in> set (own_workloads org db). wl_id w = i)"
| "addresses_own org db (Trigger req) = (\<exists>w \<in> set (own_workloads org db). wl_id w = tq_workload_id req)"
| "addresses_own org db (GetRun i) = (\<exists>r \<in> set (own_runs org db). tr_id (fst r) = i)"
| "addresses_own org db (Report i) = (\<exists>r \<in> set (own_runs org db). tr_id (fst r) = i)"
| "addresses_own org db (GetAppliance i) = (\<exists>a \<in> set (own_appliances org db). ap_id a = i)"
| "addresses_own org db (Deregister i) = (\<exists>a \<in> set (own_appliances org db). ap_id a = i)"
| "addresses_own org db (Provision req) = True"

lemma owned_workload_cases:
  "owned_workload i user db =
     (case List.find (\<lambda>w. wl_id w = i) (own_workloads (user_org_id user) db) of
        None \<Rightarrow> (Inl (HTTPException 404 ''Workload not found''), db) | Some w \<Rightarrow> (Inr w, db))"
  by (simp add: owned_workload_def exec_simps split: option.split)

lemma own_appliance_cases:
  "own_appliance i user db =
     (case List.find (\<lambda>a. ap_id a = i) (own_appliances (user_org_id user) db) of
        None \<Rightarrow> (Inl (HTTPException 404 ''Appliance not found''), db) | Some a \<Rightarrow> (Inr a, db))"
  by (simp add: own_appliance_def exec_simps split: option.split)

lemma lift_admin:
  "lift_result (require_admin user) db =
     (if user_role user = ''admin'' then (Inr user, db) else (Inl (HTTPException 403 ''Admin access required''), db))"
  by (simp add: require_admin_def lift_result_def)

definition refused :: "py_exn \<Rightarrow> bool" where
  "refused e \<longleftrightarrow> (\<exists>code msg. e = HTTPException code msg \<and> code \<in> {403, 404})"

lemma request_refused:
  assumes "\<not> addresses_own (user_org_id user) db op"
  shows "\<exists>e. portal_step L user new_id now op db = (Inl e, db) \<and> refused e"
proof -
  have w: "owned_workload i user db = (Inl (HTTPException 404 ''Workload not found''), db)"
    if "\<not> (\<exists>w \<in> set (own_workloads (user_org_id user) db). wl_id w = i)" for i
  proof -
    have "List.find (\<lambda>w. wl_id w = i) (own_workloads (user_org_id user) db) = None" using that by (auto simp: find_None_iff)
    then show ?thesis by (simp add: owned_workload_cases)
  qed
  have r: "get_test_run i user db = (Inl (HTTPException 404 ''Test run not found''), db)"
    if "\<not> (\<exists>r \<in> set (own_runs (user_org_id user) db). tr_id (fst r) = i)" for i
  proof -
    have "List.find (\<lambda>(r, _). tr_id r = i) (own_runs (user_org_id user) db) = None" using that by (auto simp: find_None_iff)
    then show ?thesis by (simp add: get_test_run_def exec_simps)
  qed
  have a: "own_appliance i user db = (Inl (HTTPException 404 ''Appliance not found''), db)"
    if "\<not> (\<exists>a \<in> set (own_appliances (user_org_id user) db). ap_id a = i)" for i
  proof -
    have "List.find (\<lambda>a. ap_id a = i) (own_appliances (user_org_id user) db) = None" using that by (auto simp: find_None_iff)
    then show ?thesis by (simp add: own_appliance_cases)
  qed
  note defs = no_answer_def respond_def seq_def lift_admin refused_def
  show ?thesis
  proof (cases op)
    case (GetWorkload i)
    then show ?thesis using assms w [of i] by (simp add: defs get_workload_def)
  next
    case (SetTargets i rto rpo)
    then show ?thesis using assms w [of i] by (simp add: defs set_targets_def)
  next
    case (SetSchedule i cron)
    then show ?thesis using assms w [of i] by (simp add: defs set_schedule_def)
  next
    case (History i)
    then show ?thesis using assms w [of i] by (simp add: defs get_history_def)
  next
    case (Trigger req)
    then show ?thesis using assms w [of "tq_workload_id req"] by (simp add: defs trigger_test_run_def)
  next
    case (GetRun i)
    then show ?thesis using assms r [of i] by (simp add: defs)
  next
    case (Report i)
    then show ?thesis using assms r [of i] by (simp add: defs download_report_def)
  next
    case (GetAppliance i)
    then show ?thesis using assms a [of i] by (simp add: defs get_portal_appliance_def)
  next
    case (Deregister i)
    then show ?thesis using assms a [of i] by (simp add: defs deregister_appliance_def)
  next
    case (Provision req)
    then show ?thesis using assms by simp
  qed
qed

text \<open>C33: to the ten routes of these four routers that name a workload, run or appliance by its id
  (\<open>portal_op\<close>), a row of another organisation does not exist: a request that names one is refused
  with 404 (or 403, where an admin is asked for) and changes nothing. Routers that store the ids of
  workloads or appliances without looking them up are not among them: see
  \<open>create_runbook_stores_any_workload\<close>, \<open>create_policy_stores_any_workload\<close> and the bulk
  configuration of the fleet.\<close>

theorem foreign_ids_refused:
  assumes "\<not> addresses_own (user_org_id user) db op"
  shows "\<exists>e. portal_step L user new_id now op db = (Inl e, db) \<and> refused e"
  using assms by (rule request_refused)

lemma reads_only:
  "snd (get_workload dt_str i user db) = db" "snd (get_history i user db) = db" "snd (get_test_run i user db) = db"
  "snd (get_portal_appliance i user db) = db"
  by (simp_all add: get_workload_def get_history_def get_test_run_def get_portal_appliance_def exec_simps owned_workload_cases
      own_appliance_cases split: option.split)

lemma report_reads_only: "snd (download_report render uuid_str i user db) = db"
proof (cases "get_test_run i user db")
  case (Pair r db')
  then have "db' = db" using reads_only(3) [of i user db] by simp
  then show ?thesis using Pair by (cases r) (simp_all add: download_report_def exec_simps)
qed

subsection \<open>What a request leaves alone\<close>

definition foreign_rows :: "uuid \<Rightarrow> portal_db \<Rightarrow> workload_row list \<times> run_row list \<times> appliance_row list \<times> user_row list" where
  "foreign_rows org db =
     (filter (\<lambda>w. workload_org w db \<noteq> Some org) (a_workloads db),
      filter (\<lambda>r. run_org r db \<noteq> Some org) (a_runs db),
      filter (\<lambda>a. ap_org_id a \<noteq> org) (a_appliances db),
      filter (\<lambda>u. ur_org_id u \<noteq> org) (po_users db))"

definition portal_ok :: "portal_db \<Rightarrow> bool" where
  "portal_ok db \<longleftrightarrow> keys_distinct db \<and> distinct (map ur_auth0_sub (po_users db))"

definition kept :: "uuid \<Rightarrow> portal_db \<Rightarrow> portal_db \<Rightarrow> bool" where
  "kept org db db' \<longleftrightarrow> portal_ok db' \<and> foreign_rows org db' = foreign_rows org db"

lemma find_update_where:
  assumes "\<And>x. Q (if P x then f x else x) = Q x"
  shows "List.find Q (update_where P f xs) = map_option (\<lambda>x. if P x then f x else x) (List.find Q xs)"
  using assms by (induction xs) (auto simp: update_where_def)

lemma keys_update_where: "(\<And>x. k (f x) = k x) \<Longrightarrow> map k (update_where P f xs) = map k xs"
  by (auto simp: update_where_def)

lemma distinct_key: "distinct (map k xs) \<Longrightarrow> x \<in> set xs \<Longrightarrow> y \<in> set xs \<Longrightarrow> k x = k y \<Longrightarrow> x = y"
  by (auto simp: distinct_map inj_on_def)

lemma filter_key_update_other:
  assumes "distinct (map k xs)" and "x \<in> set xs" and "\<not> Q x" and "\<And>y. Q (f y) = Q y"
  shows "filter Q (update_where (\<lambda>y. k y = k x) f xs) = filter Q xs"
proof -
  have "\<forall>y \<in> set xs. k y = k x \<longrightarrow> \<not> Q y" using assms(1-3) distinct_key by metis
  then show ?thesis using assms(4) by (induction xs) (auto simp: update_where_def)
qed

lemma update_workload_kept:
  assumes db: "portal_ok db" and w: "w \<in> set (own_workloads org db)"
    and f: "\<And>x. wl_id (f x) = wl_id x" "\<And>x. wl_appliance_id (f x) = wl_appliance_id x"
  shows "kept org db (db\<lparr>a_workloads := update_where (\<lambda>x. wl_id x = wl_id w) f (a_workloads db)\<rparr>)"
proof -
  let ?db = "db\<lparr>a_workloads := update_where (\<lambda>x. wl_id x = wl_id w) f (a_workloads db)\<rparr>"
  have "appliance_org a ?db = appliance_org a db" for a by (simp add: appliance_org_def)
  then have org: "workload_org x ?db = workload_org x db" for x by (simp add: workload_org_def)
  have orgf: "workload_org (f x) db = workload_org x db" for x by (simp add: workload_org_def f)
  have "run_workload r ?db = map_option (\<lambda>x. if wl_id x = wl_id w then f x else x) (run_workload r db)" for r
    unfolding run_workload_def using f by (simp add: find_update_where)
  then have run: "run_org r ?db = run_org r db" for r
    by (cases "run_workload r db") (simp_all add: run_org_def org orgf)
  have in_w: "w \<in> set (a_workloads db)" and own: "\<not> (workload_org w db \<noteq> Some org)" using w by (simp_all add: own_workloads_def)
  have "filter (\<lambda>x. workload_org x db \<noteq> Some org) (update_where (\<lambda>x. wl_id x = wl_id w) f (a_workloads db))
      = filter (\<lambda>x. workload_org x db \<noteq> Some org) (a_workloads db)"
    by (rule filter_key_update_other [of wl_id "a_workloads db" w]) (use db in_w own in \<open>simp_all add: portal_ok_def keys_distinct_def orgf\<close>)
  then show ?thesis using db by (simp add: kept_def foreign_rows_def org run portal_ok_def keys_distinct_def keys_update_where f)
qed

lemma kept_refl: "portal_ok db \<Longrightarrow> kept org db db"
  by (simp add: kept_def)

lemma own_found: "List.find P (own_workloads org db) = Some w \<Longrightarrow> w \<in> set (own_workloads org db) \<and> P w"
  by (auto dest: find_Some_iff')

lemma new_run_org:
  assumes "portal_ok db" and "w \<in> set (own_workloads org db)" and "tr_workload_id r = wl_id w"
  shows "run_org r db = Some org"
proof -
  have in_w: "w \<in> set (a_workloads db)" and own: "workload_org w db = Some org" using assms(2) by (simp_all add: own_workloads_def)
  obtain w' where w': "run_workload r db = Some w'"
    using in_w assms(3) by (cases "run_workload r db") (auto simp: run_workload_def find_None_iff)
  have "w' = w" using distinct_key [of wl_id "a_workloads db" w' w] run_workloadD [OF w'] in_w assms(1,3) by (simp add: portal_ok_def keys_distinct_def)
  then show ?thesis using w' own by (simp add: run_org_def)
qed

lemma new_run_kept:
  assumes "portal_ok db" and "w \<in> set (own_workloads org db)" and "tr_workload_id r = wl_id w" and "tr_id r \<notin> tr_id ` set (a_runs db)"
  shows "kept org db (db\<lparr>a_runs := a_runs db @ [r], po_restore_points := ps\<rparr>)"
proof -
  have same: "a_appliances (db\<lparr>a_runs := a_runs db @ [r], po_restore_points := ps\<rparr>) = a_appliances db"
    "a_workloads (db\<lparr>a_runs := a_runs db @ [r], po_restore_points := ps\<rparr>) = a_workloads db" by simp_all
  then show ?thesis
    using assms(1,4) new_run_org [OF assms(1-3)] by (simp add: kept_def foreign_rows_def join_cong [OF same] portal_ok_def keys_distinct_def)
qed

lemma mark_started_kept:
  assumes "portal_ok db" and "\<forall>r \<in> set (a_runs db). tr_id r = i \<longrightarrow> run_org r db = Some org"
    and "\<And>r. tr_id (f r) = tr_id r" "\<And>r. tr_workload_id (f r) = tr_workload_id r"
  shows "kept org db (db\<lparr>a_runs := update_where (\<lambda>r. tr_id r = i) f (a_runs db)\<rparr>)"
proof -
  let ?db = "db\<lparr>a_runs := update_where (\<lambda>r. tr_id r = i) f (a_runs db)\<rparr>"
  have same: "a_appliances ?db = a_appliances db" "a_workloads ?db = a_workloads db" by simp_all
  have orgf: "run_org (f r) db = run_org r db" for r by (simp add: run_org_def run_workload_def assms(4))
  have "filter (\<lambda>r. run_org r db \<noteq> Some org) (update_where (\<lambda>r. tr_id r = i) f (a_runs db))
      = filter (\<lambda>r. run_org r db \<noteq> Some org) (a_runs db)"
  proof -
    have "filter Q (update_where P f xs) = filter Q xs" if "\<forall>x \<in> set xs. P x \<longrightarrow> \<not> Q x" "\<And>x. Q (f x) = Q x" for P Q xs
      using that by (induction xs) (auto simp: update_where_def)
    from this [of "a_runs db" "\<lambda>r. tr_id r = i" "\<lambda>r. run_org r db \<noteq> Some org"] show ?thesis using assms(2) orgf by simp
  qed
  then show ?thesis
    using assms(1,3) by (simp add: kept_def foreign_rows_def join_cong [OF same] portal_ok_def keys_distinct_def keys_update_where)
qed

lemma deregister_kept:
  assumes "portal_ok db" and "a \<in> set (own_appliances org db)"
    and "\<And>x. ap_id (f x) = ap_id x" "\<And>x. ap_org_id (f x) = ap_org_id x"
  shows "kept org db (db\<lparr>a_appliances := update_where (\<lambda>x. ap_id x = ap_id a) f (a_appliances db)\<rparr>)"
proof -
  let ?db = "db\<lparr>a_appliances := update_where (\<lambda>x. ap_id x = ap_id a) f (a_appliances db)\<rparr>"
  have "List.find (\<lambda>x. ap_id x = i) (update_where (\<lambda>x. ap_id x = ap_id a) f (a_appliances db))
      = map_option (\<lambda>x. if ap_id x = ap_id a then f x else x) (List.find (\<lambda>x. ap_id x = i) (a_appliances db))" for i
    by (rule find_update_where) (simp add: assms(3))
  then have "appliance_org i ?db = appliance_org i db" for i
    by (cases "List.find (\<lambda>x. ap_id x = i) (a_appliances db)") (simp_all add: appliance_org_def assms(4))
  then have org: "workload_org w ?db = workload_org w db" for w by (simp add: workload_org_def)
  moreover have "run_workload r ?db = run_workload r db" for r by (simp add: run_workload_def)
  ultimately have "run_org r ?db = run_org r db" for r by (simp add: run_org_def split: option.split)
  moreover have "filter (\<lambda>x. ap_org_id x \<noteq> org) (update_where (\<lambda>x. ap_id x = ap_id a) f (a_appliances db))
      = filter (\<lambda>x. ap_org_id x \<noteq> org) (a_appliances db)"
    by (rule filter_key_update_other) (use assms in \<open>auto simp: portal_ok_def keys_distinct_def own_appliances_def\<close>)
  ultimately show ?thesis
    using assms(1,3) by (simp add: kept_def foreign_rows_def org portal_ok_def keys_distinct_def keys_update_where)
qed

lemma kept_trans: "kept org db db' \<Longrightarrow> kept org db' db'' \<Longrightarrow> kept org db db''"
  by (simp add: kept_def)

lemma trigger_kept:
  assumes db: "portal_ok db" and fresh: "new_id \<notin> tr_id ` set (a_runs db)"
  shows "kept (user_org_id user) db (snd (trigger_test_run start_workflow fromisoformat uuid_str req user new_id now db))"
proof (cases "user_role user = ''admin''")
  case admin: True
  show ?thesis
  proof (cases "List.find (\<lambda>w. wl_id w = tq_workload_id req) (own_workloads (user_org_id user) db)")
    case None
    then show ?thesis using admin db by (simp add: trigger_test_run_def seq_def lift_admin owned_workload_cases kept_refl)
  next
    case (Some w)
    then have w: "w \<in> set (own_workloads (user_org_id user) db)" by (auto dest: own_found)
    show ?thesis
    proof (cases "restore_time fromisoformat (tq_restore_point req)")
      case (Inl e)
      then show ?thesis
        using admin Some db by (simp add: trigger_test_run_def seq_def require_admin_def owned_workload_cases lift_result_def kept_refl)
    next
      case (Inr dt)
      define ps where "ps = (case dt of None \<Rightarrow> po_restore_points db | Some t \<Rightarrow> po_restore_points db @ [(new_id, t)])"
      define db1 where "db1 = db\<lparr>a_runs := a_runs db @ [pending_run new_id w], po_restore_points := ps\<rparr>"
      have kept1: "kept (user_org_id user) db db1"
        unfolding db1_def by (rule new_run_kept [OF db w]) (use fresh in \<open>simp_all add: pending_run_def\<close>)
      have tables: "a_appliances db1 = a_appliances db" "a_workloads db1 = a_workloads db" by (simp_all add: db1_def)
      have own: "run_org r db1 = Some (user_org_id user)" if "r \<in> set (a_runs db1)" "tr_id r = new_id" for r
      proof -
        have "r = pending_run new_id w" using that fresh by (auto simp: db1_def)
        then show ?thesis using new_run_org [OF db w, of r] by (simp add: join_cong [OF tables] pending_run_def)
      qed
      have kept2: "kept (user_org_id user) db1 (snd (mark_started new_id rid now db1))" for rid
        unfolding mark_started_def update_def snd_conv
        by (rule mark_started_kept) (use kept1 own in \<open>simp_all add: kept_def\<close>)
      have run: "trigger_test_run start_workflow fromisoformat uuid_str req user new_id now db =
          (let start = start_workflow ''RecoveryTestWorkflow'' [uuid_str new_id, uuid_str (wl_id w), uuid_str (wl_appliance_id w)] (uuid_str new_id)
           in case start of
                Inl e \<Rightarrow> (Inr \<lparr>rr_id = new_id, rr_workload_id = wl_id w, rr_status = ''pending'', rr_started_at = None, rr_completed_at = None,
                  rr_rto_actual_mins = None, rr_rpo_actual_mins = None, rr_readiness_score = None, rr_steps = []\<rparr>, db1)
              | Inr rid \<Rightarrow> (Inr \<lparr>rr_id = new_id, rr_workload_id = wl_id w, rr_status = ''running'', rr_started_at = None, rr_completed_at = None,
                  rr_rto_actual_mins = None, rr_rpo_actual_mins = None, rr_readiness_score = None, rr_steps = []\<rparr>, snd (mark_started new_id rid now db1)))"
        using admin Some Inr
        by (auto simp: trigger_test_run_def seq_def require_admin_def owned_workload_cases lift_result_def update_def ret_def try_except_def
            Let_def db1_def ps_def mark_started_def split: sum.split)
      show ?thesis unfolding run Let_def using kept1 kept_trans [OF kept1 kept2] by (simp split: sum.split)
    qed
  qed
qed (use db in \<open>simp add: trigger_test_run_def seq_def lift_admin kept_refl\<close>)

lemma provision_kept:
  assumes "portal_ok db"
  shows "kept (user_org_id user) db (snd (provision_user req user new_id db))"
proof -
  have users: "kept (user_org_id user) db (db\<lparr>po_users := us\<rparr>)"
    if "filter (\<lambda>u. ur_org_id u \<noteq> user_org_id user) us = filter (\<lambda>u. ur_org_id u \<noteq> user_org_id user) (po_users db)"
      and "distinct (map ur_auth0_sub us)" for us
  proof -
    have same: "a_appliances (db\<lparr>po_users := us\<rparr>) = a_appliances db" "a_workloads (db\<lparr>po_users := us\<rparr>) = a_workloads db" by simp_all
    show ?thesis using that assms by (simp add: kept_def foreign_rows_def join_cong [OF same] portal_ok_def keys_distinct_def)
  qed
  show ?thesis
  proof (cases "user_role user = ''admin'' \<and> pv_role req \<in> {''admin'', ''viewer''}")
    case False
    then show ?thesis using kept_refl [OF assms]
      by (auto simp: provision_user_def seq_def lift_admin raise_def)
  next
    case allowed: True
    let ?new = "\<lparr>ur_id = new_id, ur_org_id = user_org_id user, ur_auth0_sub = pv_auth0_sub req, ur_email = pv_email req,
      ur_role = pv_role req\<rparr>"
    show ?thesis
    proof (cases "List.find (\<lambda>u. ur_auth0_sub u = pv_auth0_sub req) (po_users db)")
      case None
      then have new: "\<forall>u \<in> set (po_users db). ur_auth0_sub u \<noteq> pv_auth0_sub req" by (simp add: find_None_iff)
      then have "upsert_user ?new (po_users db) = po_users db @ [?new]" by (auto simp: upsert_user_def list_ex_iff)
      moreover have "kept (user_org_id user) db (db\<lparr>po_users := po_users db @ [?new]\<rparr>)"
        by (rule users) (use assms new in \<open>auto simp: portal_ok_def\<close>)
      ultimately show ?thesis
        using allowed None by (simp add: provision_user_def seq_def lift_admin gets_def update_def Let_def)
    next
      case (Some u)
      then have u: "u \<in> set (po_users db)" "ur_auth0_sub u = pv_auth0_sub req" by (auto dest: find_Some_iff')
      show ?thesis
      proof (cases "ur_org_id u = user_org_id user")
        case False
        then show ?thesis using allowed Some kept_refl [OF assms]
          by (simp add: provision_user_def seq_def lift_admin gets_def raise_def)
      next
        case own: True
        let ?us = "update_where (\<lambda>x. ur_auth0_sub x = ur_auth0_sub u) (\<lambda>x. x\<lparr>ur_email := pv_email req, ur_role := pv_role req\<rparr>) (po_users db)"
        have "upsert_user ?new (po_users db) = ?us" using u by (auto simp: upsert_user_def list_ex_iff)
        moreover have "filter (\<lambda>x. ur_org_id x \<noteq> user_org_id user) ?us = filter (\<lambda>x. ur_org_id x \<noteq> user_org_id user) (po_users db)"
          by (rule filter_key_update_other) (use assms u own in \<open>simp_all add: portal_ok_def\<close>)
        then have "kept (user_org_id user) db (db\<lparr>po_users := ?us\<rparr>)"
          by (rule users) (use assms in \<open>simp add: portal_ok_def keys_update_where\<close>)
        ultimately show ?thesis
          using allowed Some own by (simp add: provision_user_def seq_def lift_admin gets_def update_def Let_def)
      qed
    qed
  qed
qed

lemma no_answer_state: "snd (no_answer m db) = snd (m db)"
  by (simp add: no_answer_def respond_def seq_def ret_def split: prod.splits sum.splits)

lemma set_targets_kept:
  assumes "portal_ok db"
  shows "kept (user_org_id user) db (snd (set_targets i rto rpo user db))"
proof (cases "List.find (\<lambda>w. wl_id w = i) (own_workloads (user_org_id user) db)")
  case None
  then show ?thesis using kept_refl [OF assms] by (simp add: set_targets_def seq_def lift_admin owned_workload_cases)
next
  case (Some w)
  then have w: "w \<in> set (own_workloads (user_org_id user) db)" "wl_id w = i" by (auto dest: own_found)
  have "kept (user_org_id user) db (db\<lparr>a_workloads := update_where (\<lambda>x. wl_id x = wl_id w)
      (\<lambda>w. w\<lparr>wl_rto_target_mins := Some rto, wl_rpo_target_mins := Some rpo\<rparr>) (a_workloads db)\<rparr>)"
    by (rule update_workload_kept [OF assms w(1)]) simp_all
  then show ?thesis using Some w(2) kept_refl [OF assms]
    by (simp add: set_targets_def update_workload_def seq_def lift_admin owned_workload_cases update_def)
qed

lemma set_schedule_kept:
  assumes "portal_ok db"
  shows "kept (user_org_id user) db (snd (set_schedule i cron user db))"
proof (cases "List.find (\<lambda>w. wl_id w = i) (own_workloads (user_org_id user) db)")
  case None
  then show ?thesis using kept_refl [OF assms] by (simp add: set_schedule_def seq_def lift_admin owned_workload_cases)
next
  case (Some w)
  then have w: "w \<in> set (own_workloads (user_org_id user) db)" "wl_id w = i" by (auto dest: own_found)
  have "kept (user_org_id user) db (db\<lparr>a_workloads := update_where (\<lambda>x. wl_id x = wl_id w)
      (\<lambda>w. w\<lparr>wl_schedule_cron := cron\<rparr>) (a_workloads db)\<rparr>)"
    by (rule update_workload_kept [OF assms w(1)]) simp_all
  then show ?thesis using Some w(2) kept_refl [OF assms]
    by (simp add: set_schedule_def update_workload_def seq_def lift_admin owned_workload_cases update_def ret_def)
qed

lemma deregister_op_kept:
  assumes "portal_ok db"
  shows "kept (user_org_id user) db (snd (deregister_appliance i user db))"
proof (cases "List.find (\<lambda>a. ap_id a = i) (own_appliances (user_org_id user) db)")
  case None
  then show ?thesis using kept_refl [OF assms] by (simp add: deregister_appliance_def seq_def own_appliance_cases)
next
  case (Some a)
  then have a: "a \<in> set (own_appliances (user_org_id user) db)" "ap_id a = i" by (auto dest: find_Some_iff')
  have "kept (user_org_id user) db (db\<lparr>a_appliances := update_where (\<lambda>x. ap_id x = ap_id a)
      (\<lambda>a. a\<lparr>ap_status := ''deregistered''\<rparr>) (a_appliances db)\<rparr>)"
    by (rule deregister_kept [OF assms a(1)]) simp_all
  then show ?thesis using Some a(2) by (simp add: deregister_appliance_def seq_def own_appliance_cases update_def)
qed

text \<open>Requests leave other organisations alone: in a database with unique keys, whatever request a user sends and
  however it ends, the keys stay unique and every workload, run, appliance and user of the other
  organisations stays as it is; a triggered run belongs to the caller's own workload.\<close>

theorem portal_keeps_foreign_rows:
  assumes "portal_ok db" and "new_id \<notin> tr_id ` set (a_runs db)"
  shows "portal_ok (snd (portal_step L user new_id now op db)) \<and>
     foreign_rows (user_org_id user) (snd (portal_step L user new_id now op db)) = foreign_rows (user_org_id user) db"
proof -
  have "kept (user_org_id user) db (snd (portal_step L user new_id now op db))"
    by (cases op) (simp_all add: no_answer_state reads_only report_reads_only kept_refl [OF assms(1)] trigger_kept [OF assms]
        provision_kept [OF assms(1)] set_targets_kept [OF assms(1)] set_schedule_kept [OF assms(1)] deregister_op_kept [OF assms(1)])
  then show ?thesis by (simp add: kept_def)
qed

subsection \<open>Who may do what, and what is shown\<close>

text \<open>The roles are upside down: any user of the organisation, a viewer too, can deregister its appliances, while its
  owner is refused where an admin is asked for: it can neither set targets or schedules nor
  trigger a test.\<close>

theorem viewer_deregisters_owner_refused:
  assumes "a \<in> set (own_appliances org db)" and "user_org_id user = org" and "user_org_id owner = org" "user_role owner = ''owner''"
  shows "\<exists>db'. deregister_appliance (ap_id a) user db = (Inr (), db') \<and>
       (\<exists>b \<in> set (a_appliances db'). ap_id b = ap_id a \<and> ap_status b = ''deregistered'') \<and>
     (\<forall>op. (\<exists>i rto rpo cron req. op \<in> {SetTargets i rto rpo, SetSchedule i cron, Trigger req}) \<longrightarrow>
        portal_step L owner new_id now op db = (Inl (HTTPException 403 ''Admin access required''), db))"
proof -
  obtain x where x: "List.find (\<lambda>b. ap_id b = ap_id a) (own_appliances org db) = Some x"
    using assms(1) by (cases "List.find (\<lambda>b. ap_id b = ap_id a) (own_appliances org db)") (auto simp: find_None_iff)
  let ?db = "db\<lparr>a_appliances := update_where (\<lambda>b. ap_id b = ap_id a) (\<lambda>b. b\<lparr>ap_status := ''deregistered''\<rparr>) (a_appliances db)\<rparr>"
  have "deregister_appliance (ap_id a) user db = (Inr (), ?db)"
    using x assms(2) by (simp add: deregister_appliance_def seq_def own_appliance_cases update_def)
  moreover have "a\<lparr>ap_status := ''deregistered''\<rparr> \<in> set (a_appliances ?db)"
    using assms(1) by (auto simp: update_where_def own_appliances_def image_iff intro!: bexI [of _ a])
  then have "\<exists>b \<in> set (a_appliances ?db). ap_id b = ap_id a \<and> ap_status b = ''deregistered''" by (rule bexI [rotated]) simp
  moreover have "portal_step L owner new_id now op db = (Inl (HTTPException 403 ''Admin access required''), db)"
    if "\<exists>i rto rpo cron req. op \<in> {SetTargets i rto rpo, SetSchedule i cron, Trigger req}" for op
    using that assms(4)
    by (auto simp: no_answer_def respond_def set_targets_def set_schedule_def trigger_test_run_def seq_def lift_admin)
  ultimately show ?thesis by blast
qed

text \<open>Workloads cannot be listed once one was backed up: a response model keeps the time of the last backup as a text
  and refuses a datetime for it, so any page that shows such a workload, and the workload itself,
  ends in an error.\<close>

theorem workloads_unlistable_after_backup:
  assumes "\<forall>t. \<exists>e. dt_str t = Inl e" and "w \<in> set (own_workloads (user_org_id user) db)" "wl_last_backup_at w = Some t"
    and "length (own_workloads (user_org_id user) db) \<le> 200"
  shows "(\<exists>e. list_workloads dt_str 1 200 user db = (Inl e, db)) \<and>
     (distinct (map wl_id (a_workloads db)) \<longrightarrow> (\<exists>e. get_workload dt_str (wl_id w) user db = (Inl e, db)))"
proof -
  have bad: "\<exists>e. workload_json dt_str w = Inl e" using assms(1,3) by (auto simp: workload_json_def) (metis and_then_Inl)
  have "\<exists>e. map_result (workload_json dt_str) ws = Inl e" if "w \<in> set ws" for ws
    using that bad
  proof (induction ws)
    case (Cons v ws)
    then show ?case by (cases "workload_json dt_str v") auto
  qed simp
  from this [OF assms(2)] have "\<exists>e. list_workloads dt_str 1 200 user db = (Inl e, db)"
    using assms(4) by (auto simp: list_workloads_def exec_simps Let_def)
  moreover have "distinct (map wl_id (a_workloads db)) \<longrightarrow> (\<exists>e. get_workload dt_str (wl_id w) user db = (Inl e, db))"
  proof
    assume "distinct (map wl_id (a_workloads db))"
    then have unique: "v = w" if "v \<in> set (own_workloads (user_org_id user) db)" "wl_id v = wl_id w" for v
      using distinct_key [of wl_id "a_workloads db" v w] that assms(2) by (simp add: own_workloads_def)
    have "List.find (\<lambda>v. wl_id v = wl_id w) (own_workloads (user_org_id user) db) = Some w"
    proof (cases "List.find (\<lambda>v. wl_id v = wl_id w) (own_workloads (user_org_id user) db)")
      case None
      then show ?thesis using assms(2) by (auto simp: find_None_iff)
    next
      case (Some v)
      then show ?thesis using unique own_found [OF Some] by simp
    qed
    then show "\<exists>e. get_workload dt_str (wl_id w) user db = (Inl e, db)"
      using bad by (auto simp: get_workload_def exec_simps owned_workload_cases)
  qed
  ultimately show ?thesis by blast
qed

subsection \<open>An organisation with one backed-up workload\<close>

definition demo_portal :: portal_db where
  "demo_portal = \<lparr>a_orgs = [], a_appliances = [\<lparr>ap_id = 1, ap_org_id = 7, ap_name = [], ap_version = None, ap_last_heartbeat = None,
       ap_mtls_thumbprint = [], ap_status = ''active''\<rparr>],
     a_workloads = [\<lparr>wl_id = 11, wl_appliance_id = 1, wl_name = [], wl_platform = [], wl_os_type = None,
       wl_veeam_object_id = None, wl_vcenter_moref = None, wl_is_protected = True, wl_last_backup_at = Some 0,
       wl_rto_target_mins = None, wl_rpo_target_mins = None, wl_schedule_cron = None\<rparr>],
     a_runs = [], a_steps = [], a_audit = [], a_notified = [], po_restore_points = [], po_health = [], po_users = []\<rparr>"

definition portal_user :: "uuid \<Rightarrow> string \<Rightarrow> current_user" where
  "portal_user org role = \<lparr>user_sub = [], user_org_id = org, user_email = [], user_role = role\<rparr>"

definition demo_libs :: portal_libs where
  "demo_libs = \<lparr>lb_dt_str = \<lambda>_. Inl (ExternalError ''string_type''), lb_start_workflow = \<lambda>_ _ _. Inr ''first'',
     lb_fromisoformat = \<lambda>_. Inl (ValueError []), lb_uuid_str = \<lambda>_. [], lb_render = \<lambda>_. Inr []\<rparr>"

theorem foreign_ids_refused_witness:
  "\<exists>e. portal_step demo_libs (portal_user 8 ''admin'') 5 0 (SetTargets 11 1 1) demo_portal = (Inl e, demo_portal) \<and> refused e"
  by (rule foreign_ids_refused) (simp add: portal_user_def demo_portal_def own_workloads_def workload_org_def appliance_org_def)

theorem portal_keeps_foreign_rows_witness:
  "portal_ok (snd (portal_step demo_libs (portal_user 7 ''admin'') 5 0 (Trigger \<lparr>tq_workload_id = 11, tq_restore_point = None\<rparr>) demo_portal))"
  using portal_keeps_foreign_rows [of demo_portal 5 demo_libs "portal_user 7 ''admin''" 0 "Trigger \<lparr>tq_workload_id = 11, tq_restore_point = None\<rparr>"]
  by (simp add: portal_ok_def keys_distinct_def demo_portal_def)

lemma demo_own_appliance: "hd (a_appliances demo_portal) \<in> set (own_appliances 7 demo_portal)"
  by (simp add: demo_portal_def own_appliances_def)

theorem viewer_deregisters_owner_refused_witness:
  "\<exists>db'. deregister_appliance 1 (portal_user 7 ''viewer'') demo_portal = (Inr (), db')"
proof -
  have ids: "user_org_id (portal_user 7 ''viewer'') = 7" "user_org_id (portal_user 7 ''owner'') = 7"
    "user_role (portal_user 7 ''owner'') = ''owner''" "ap_id (hd (a_appliances demo_portal)) = 1"
    by (simp_all add: portal_user_def demo_portal_def)
  from viewer_deregisters_owner_refused [OF demo_own_appliance ids(1-3), of demo_libs 5 0]
  show ?thesis unfolding ids(4) by blast
qed

theorem workloads_unlistable_after_backup_witness:
  "\<exists>e. list_workloads (\<lambda>_. Inl (ExternalError ''string_type'')) 1 200 (portal_user 7 ''viewer'') demo_portal = (Inl e, demo_portal)"
proof -
  have "own_workloads 7 demo_portal = a_workloads demo_portal"
    by (simp add: demo_portal_def own_workloads_def workload_org_def appliance_org_def)
  then show ?thesis
    using workloads_unlistable_after_backup [of "\<lambda>_. Inl (ExternalError ''string_type'')" "hd (a_workloads demo_portal)"
        "portal_user 7 ''viewer''" demo_portal 0]
    by (simp add: portal_user_def) (simp add: demo_portal_def)
qed

end
