(* ===== verification/ThreatAnalysis.thy ===== *)
theory ThreatAnalysis
  imports Json
begin

text \<open>
  Ransomware indicators over restore-point metadata, \<open>services/threat_analysis.py\<close>, and the
  scores of \<open>services/executive_report.py\<close> and \<open>services/readiness_scoring.py\<close>. A restore
  point is the dictionary the request carries; \<open>float_of\<close> parses the text of a float, with
  \<open>None\<close> its \<open>ValueError\<close>. Times are microseconds, floats are rounded as the code's.
\<close>

subsection \<open>Numbers from JSON\<close>

text \<open>\<open>float(v)\<close> and \<open>int(v)\<close>\<close>

definition to_float :: "(string \<Rightarrow> rat option) \<Rightarrow> json \<Rightarrow> rat result" where
  "to_float float_of v = (case v of
     JInt n \<Rightarrow> Inr (fl (of_int n))
   | JFloat x \<Rightarrow> Inr x
   | JBool b \<Rightarrow> Inr (if b then 1 else 0)
   | JStr s \<Rightarrow> (case float_of s of None \<Rightarrow> Inl (ValueError ''could not convert string to float'') | Some x \<Rightarrow> Inr x)
   | _ \<Rightarrow> Inl (TypeError ''float() argument must be a string or a real number''))"

definition to_int :: "json \<Rightarrow> int result" where
  "to_int v = (case v of
     JInt n \<Rightarrow> Inr n
   | JFloat x \<Rightarrow> Inr (if 0 \<le> x then \<lfloor>x\<rfloor> else \<lceil>x\<rceil>)
   | JBool b \<Rightarrow> Inr (if b then 1 else 0)
   | JStr s \<Rightarrow> (case int_of_str s of None \<Rightarrow> Inl (ValueError ''invalid literal for int()'') | Some n \<Rightarrow> Inr n)
   | _ \<Rightarrow> Inl (TypeError ''int() argument must be a string or a real number''))"

text \<open>\<open>d.get(k, 0) or 0\<close>\<close>

definition get_or_zero :: "dict \<Rightarrow> string \<Rightarrow> json" where
  "get_or_zero d k = (let v = dget_or d k (JInt 0) in if truthy v then v else JInt 0)"

text \<open>The format \<open>.2f\<close>: the exact value, half to even.\<close>

definition fixed2_pos :: "rat \<Rightarrow> string" where
  "fixed2_pos x = (let n = py_round (x * 100); c = show_int (n mod 100)
     in show_int (n div 100) @ ''.'' @ (if n mod 100 < 10 then ''0'' @ c else c))"

definition fixed2 :: "rat \<Rightarrow> string" where
  "fixed2 x = (if x < 0 then ''-'' @ fixed2_pos (- x) else fixed2_pos x)"

subsection \<open>Indicators\<close>

definition KNOWN_RANSOMWARE_EXTENSIONS :: "string list" where
  "KNOWN_RANSOMWARE_EXTENSIONS =
     [''locky'', ''wcry'', ''wncry'', ''wncryt'', ''crypto'', ''crypt'', ''encrypted'', ''enc'',
      ''cerber'', ''zepto'', ''odin'', ''aesir'', ''locked'', ''ryuk'', ''conti'', ''lockbit'',
      ''ryk'', ''makop'', ''phobos'', ''djvu'', ''stop'', ''revil'', ''sodinokibi'', ''maze'',
      ''egregor'', ''clop'', ''darkside'', ''blackcat'', ''royal'', ''akira'', ''cactus'']"

definition ENTROPY_CEILING :: rat where
  "ENTROPY_CEILING = 8"

definition ENTROPY_ENCRYPTED_THRESHOLD :: rat where
  "ENTROPY_ENCRYPTED_THRESHOLD = fl (79 / 10)"

definition ENTROPY_SPIKE_DELTA :: rat where
  "ENTROPY_SPIKE_DELTA = 3 / 2"

definition MASS_RENAME_RATIO :: rat where
  "MASS_RENAME_RATIO = 1 / 4"

definition severity_order :: "string \<Rightarrow> nat" where
  "severity_order s =
     (case map_of [(''none'', 0), (''low'', 1), (''medium'', 2), (''high'', 3), (''critical'', 4)] s of
        Some n \<Rightarrow> n | None \<Rightarrow> 0)"

definition extension_hit :: "json \<Rightarrow> string list result" where
  "extension_hit v =
     and_then (as_str v) (\<lambda>ext.
     let norm = dropWhile (\<lambda>c. c = CHR ''.'') (lower ext)
     in Inr (if norm \<in> set KNOWN_RANSOMWARE_EXTENSIONS then [norm] else []))"

definition match_ransomware_extensions :: "json list \<Rightarrow> string list result" where
  "match_ransomware_extensions extensions =
     and_then (map_result extension_hit extensions) (\<lambda>hits. Inr (sort (remdups (concat hits))))"

record indicator =
  in_type :: string
  in_severity :: string
  in_mitre_technique :: string
  in_detail :: string

definition indicator_of :: "string \<Rightarrow> string \<Rightarrow> string \<Rightarrow> indicator" where
  "indicator_of t sev detail =
     \<lparr>in_type = t, in_severity = sev, in_mitre_technique = ''T1486'', in_detail = detail\<rparr>"

definition entropy_indicators :: "rat \<Rightarrow> rat option \<Rightarrow> indicator list" where
  "entropy_indicators entropy baseline =
     (if ENTROPY_ENCRYPTED_THRESHOLD \<le> entropy
      then [indicator_of ''entropy_anomaly'' ''high''
              (''Average file entropy '' @ fixed2 entropy @ '' of '' @ repr_float ENTROPY_CEILING @ '' suggests mass encryption'')]
      else case baseline of
             None \<Rightarrow> []
           | Some b \<Rightarrow>
               if ENTROPY_SPIKE_DELTA \<le> fsub entropy b
               then [indicator_of ''entropy_spike'' ''medium''
                       (''Entropy jumped '' @ fixed2 (fsub entropy b) @ '' vs prior restore points'')]
               else [])"

definition rename_indicators :: "int \<Rightarrow> int \<Rightarrow> indicator list" where
  "rename_indicators total_n renamed =
     (if total_n \<noteq> 0 \<and> MASS_RENAME_RATIO \<le> fdiv (of_int renamed) (of_int total_n)
      then [indicator_of ''mass_file_rename'' ''high''
              (show_int renamed @ '' of '' @ show_int total_n @ '' files renamed ('' @ show_int (pct renamed total_n) @ ''%)'')]
      else [])"

definition indicators_for :: "(string \<Rightarrow> rat option) \<Rightarrow> dict \<Rightarrow> rat option \<Rightarrow> indicator list result" where
  "indicators_for float_of rp entropy_baseline =
     and_then (to_float float_of (get_or_zero rp ''avg_entropy'')) (\<lambda>entropy.
     and_then (to_int (get_or_zero rp ''total_files'')) (\<lambda>total_files.
     and_then (to_int (get_or_zero rp ''renamed_files'')) (\<lambda>renamed.
     and_then (iterate (let v = dget_or rp ''new_extensions'' (JArr []) in if truthy v then v else JArr [])) (\<lambda>exts.
     and_then (match_ransomware_extensions exts) (\<lambda>ext_hits.
     Inr (entropy_indicators entropy entropy_baseline @ rename_indicators total_files renamed @
          (if ext_hits \<noteq> []
           then [indicator_of ''ransomware_extension'' ''critical''
                   (''Known ransomware extensions present: '' @ join '', '' ext_hits)]
           else [])))))))"

subsection \<open>Restore points\<close>

record analysis =
  an_restore_point_id :: json
  an_created_at :: json
  an_indicators :: "indicator list"
  an_max_severity :: string
  an_is_clean :: bool

definition max_severity :: "indicator list \<Rightarrow> string" where
  "max_severity inds =
     fold (\<lambda>ind m. if severity_order m < severity_order (in_severity ind) then in_severity ind else m) inds ''none''"

definition baseline_of :: "rat list \<Rightarrow> rat option" where
  "baseline_of seen = (if seen = [] then None else Some (sort seen ! (length seen div 2)))"

fun analyze_from :: "(string \<Rightarrow> rat option) \<Rightarrow> rat list \<Rightarrow> dict list \<Rightarrow> analysis list result" where
  "analyze_from float_of seen [] = Inr []"
| "analyze_from float_of seen (rp # rps) =
     and_then (indicators_for float_of rp (baseline_of seen)) (\<lambda>inds.
     and_then (to_float float_of (get_or_zero rp ''avg_entropy'')) (\<lambda>entropy.
     and_then (analyze_from float_of (seen @ [entropy]) rps) (\<lambda>rest.
     Inr (\<lparr>an_restore_point_id = dget rp ''id'', an_created_at = dget rp ''created_at'', an_indicators = inds,
           an_max_severity = max_severity inds,
           an_is_clean = (severity_order (max_severity inds) < severity_order ''high'')\<rparr> # rest))))"

definition analyze_restore_points :: "(string \<Rightarrow> rat option) \<Rightarrow> dict list \<Rightarrow> analysis list result" where
  "analyze_restore_points float_of restore_points = analyze_from float_of [] restore_points"

text \<open>Python's \<open>>\<close> on the values a \<open>created_at\<close> may hold.\<close>

definition py_gt :: "json \<Rightarrow> json \<Rightarrow> bool result" where
  "py_gt a b = (case (a, b) of
     (JStr s, JStr t) \<Rightarrow> Inr (t < s)
   | (JInt m, JInt n) \<Rightarrow> Inr (n < m)
   | (JInt m, JFloat y) \<Rightarrow> Inr (y < of_int m)
   | (JFloat x, JInt n) \<Rightarrow> Inr (of_int n < x)
   | (JFloat x, JFloat y) \<Rightarrow> Inr (y < x)
   | _ \<Rightarrow> Inl (TypeError ''not supported between these instances''))"

text \<open>The key \<open>(created_at is not None, created_at or "")\<close>, compared as a tuple.\<close>

definition recency_key :: "analysis \<Rightarrow> bool \<times> json" where
  "recency_key a = (an_created_at a \<noteq> JNull, if truthy (an_created_at a) then an_created_at a else JStr [])"

definition key_gt :: "bool \<times> json \<Rightarrow> bool \<times> json \<Rightarrow> bool result" where
  "key_gt k k' =
     (if fst k \<noteq> fst k' then Inr (fst k) else if snd k = snd k' then Inr False else py_gt (snd k) (snd k'))"

text \<open>\<open>max(xs, key=...)\<close> keeps the first of equal maxima.\<close>

fun max_from :: "analysis \<Rightarrow> analysis list \<Rightarrow> analysis result" where
  "max_from best [] = Inr best"
| "max_from best (a # as) =
     and_then (key_gt (recency_key a) (recency_key best)) (\<lambda>later. max_from (if later then a else best) as)"

definition select_clean_restore_point :: "(string \<Rightarrow> rat option) \<Rightarrow> dict list \<Rightarrow> analysis option result" where
  "select_clean_restore_point float_of restore_points =
     and_then (analyze_restore_points float_of restore_points) (\<lambda>analyzed.
     case filter an_is_clean analyzed of
       [] \<Rightarrow> Inr None
     | a # as \<Rightarrow> and_then (max_from a as) (\<lambda>r. Inr (Some r)))"

subsection \<open>The scorecard\<close>

definition compute_scorecard :: "int \<Rightarrow> int \<Rightarrow> int \<Rightarrow> int \<Rightarrow> int \<Rightarrow> int \<Rightarrow> int" where
  "compute_scorecard workloads_total workloads_tested workloads_passing rto_compliance_pct active_threats open_incidents =
     (let coverage = (if workloads_total \<noteq> 0
            then fmul (fdiv (of_int workloads_tested) (of_int workloads_total)) 100 else 0);
          pass_rate = (if workloads_tested \<noteq> 0
            then fmul (fdiv (of_int workloads_passing) (of_int workloads_tested)) 100 else 0);
          threat_penalty = min (active_threats + open_incidents) 10;
          score = fsub (fadd (fadd (fmul coverage (fl (2 / 5))) (fmul pass_rate (fl (7 / 20))))
                             (fmul (fl (of_int rto_compliance_pct)) (fl (3 / 20))))
                       (fl (of_int threat_penalty))
      in max 0 (min 100 (py_round score)))"

definition compute_composite_score :: "int \<Rightarrow> int \<Rightarrow> int \<Rightarrow> int \<Rightarrow> int \<Rightarrow> int \<Rightarrow> int" where
  "compute_composite_score workloads_total workloads_tested workloads_passing rto_compliance_pct active_threats open_incidents =
     compute_scorecard workloads_total workloads_tested workloads_passing rto_compliance_pct active_threats open_incidents"

subsection \<open>Trends\<close>

definition week_micros :: int where
  "week_micros = 604800000000"

record week_bucket =
  wb_week_ending :: string
  wb_runs :: nat
  wb_pass_rate :: "int option"

definition week_window :: "int \<Rightarrow> int \<Rightarrow> (int \<times> bool) list \<Rightarrow> bool list" where
  "week_window now w runs =
     (let week_end = now - w * week_micros; start = week_end - week_micros
      in map snd (filter (\<lambda>(ts, passed). start < ts \<and> ts \<le> week_end) runs))"

definition week_bucket_of :: "(int \<Rightarrow> string) \<Rightarrow> int \<Rightarrow> (int \<times> bool) list \<Rightarrow> int \<Rightarrow> week_bucket" where
  "week_bucket_of iso_date now runs w =
     (let window = week_window now w runs; n_runs = length window; passed_n = count_if (\<lambda>p. p) window
      in \<lparr>wb_week_ending = iso_date (now - w * week_micros), wb_runs = n_runs,
          wb_pass_rate = (if n_runs \<noteq> 0 then Some (pct (int passed_n) (int n_runs)) else None)\<rparr>)"

definition bucket_weekly_pass_rate :: "(int \<Rightarrow> string) \<Rightarrow> (int \<times> bool) list \<Rightarrow> nat \<Rightarrow> int \<Rightarrow> week_bucket list" where
  "bucket_weekly_pass_rate iso_date runs weeks now =
     map (\<lambda>w. week_bucket_of iso_date now runs (int w)) (rev [0..<weeks])"

definition days_since :: "int option \<Rightarrow> int \<Rightarrow> int option" where
  "days_since ts now = (case ts of None \<Rightarrow> None | Some t \<Rightarrow> Some (max 0 ((now - t) div 86400000000)))"

definition fail_rate_pct :: "int \<Rightarrow> int \<Rightarrow> int" where
  "fail_rate_pct total_runs failed_runs = (if total_runs = 0 then 0 else pct failed_runs total_runs)"

subsection \<open>Lemmas\<close>

lemma count_if_split:
  "count_if P xs = count_if (\<lambda>x. P x \<and> Q x) xs + count_if (\<lambda>x. P x \<and> \<not> Q x) xs"
  by (induction xs) auto

lemma count_if_cong: "(\<And>x. x \<in> set xs \<Longrightarrow> P x \<longleftrightarrow> Q x) \<Longrightarrow> count_if P xs = count_if Q xs"
  by (induction xs) auto

lemma week_window_length:
  "length (week_window now w runs)
     = count_if (\<lambda>r. now - (w + 1) * week_micros < fst r \<and> fst r \<le> now - w * week_micros) runs"
  unfolding week_window_def count_if_def Let_def length_map
  by (intro arg_cong [of _ _ length] filter_cong refl) (auto simp: algebra_simps)

lemma max_from_strings:
  assumes "\<forall>c \<in> set (a # as). \<exists>t. an_created_at c = JStr t \<and> t \<noteq> []"
  shows "\<exists>r. max_from a as = Inr r \<and> r \<in> set (a # as) \<and>
     (\<forall>c \<in> set (a # as). \<forall>s t. an_created_at c = JStr s \<longrightarrow> an_created_at r = JStr t \<longrightarrow> s \<le> t)"
  using assms
proof (induction as arbitrary: a)
  case (Cons b as)
  obtain s t where st: "an_created_at a = JStr s" "an_created_at b = JStr t" "s \<noteq> []" "t \<noteq> []"
    using Cons.prems by auto
  then have gt: "key_gt (recency_key b) (recency_key a) = Inr (s < t)"
    by (auto simp: key_gt_def recency_key_def py_gt_def)
  let ?c = "if s < t then b else a"
  have "\<forall>c \<in> set (?c # as). \<exists>t. an_created_at c = JStr t \<and> t \<noteq> []" using Cons.prems by auto
  from Cons.IH [OF this] obtain r where r: "max_from ?c as = Inr r" "r \<in> set (?c # as)"
    "\<And>c u v. c \<in> set (?c # as) \<Longrightarrow> an_created_at c = JStr u \<Longrightarrow> an_created_at r = JStr v \<Longrightarrow> u \<le> v" by blast
  have "\<exists>v. an_created_at r = JStr v" using r(2) Cons.prems by (auto split: if_splits)
  then obtain v where v: "an_created_at r = JStr v" by blast
  have "s \<le> v \<and> t \<le> v"
    using r(3) [of ?c "if s < t then t else s" v] st v by (cases "s < t") auto
  then have "\<forall>c \<in> set (a # b # as). \<forall>u w. an_created_at c = JStr u \<longrightarrow> an_created_at r = JStr w \<longrightarrow> u \<le> w"
    using r(3) st v by auto
  moreover have "r \<in> set (a # b # as)" using r(2) by (auto split: if_splits)
  moreover have "max_from a (b # as) = Inr r" using r(1) by (simp add: gt)
  ultimately show ?case by blast
qed simp

lemma max_from_missing:
  "an_created_at a = JNull \<Longrightarrow> \<forall>c \<in> set as. an_created_at c = JNull \<Longrightarrow> max_from a as = Inr a"
  by (induction as) (simp_all add: key_gt_def recency_key_def)

lemma percent_bounds: "0 \<le> a \<Longrightarrow> a \<le> b \<Longrightarrow> 0 \<le> fmul (fdiv (of_int a) (of_int b)) 100 \<and> fmul (fdiv (of_int a) (of_int b)) 100 \<le> 100"
proof -
  assume ab: "0 \<le> a" "a \<le> b"
  have "of_int 0 \<le> fmul (fdiv (of_int a) (of_int b)) 100 \<and> fmul (fdiv (of_int a) (of_int b)) 100 \<le> of_int 100"
    unfolding fmul_def by (rule fl.within) (use ab fdiv_unit [of "of_int a" "of_int b"] in simp_all)
  then show ?thesis by simp
qed

lemma fmul_mono: "x \<le> y \<Longrightarrow> 0 \<le> c \<Longrightarrow> fmul x c \<le> fmul y c"
  by (simp add: fmul_def fl_mono mult_right_mono)

lemma fadd_mono: "x \<le> x' \<Longrightarrow> y \<le> y' \<Longrightarrow> fadd x y \<le> fadd x' y'"
  by (simp add: fadd_def fl_mono add_mono)

lemma fsub_mono: "x \<le> x' \<Longrightarrow> y' \<le> y \<Longrightarrow> fsub x y \<le> fsub x' y'"
  by (simp add: fsub_def fl_mono diff_mono)

lemma weights: "fmul 100 (fl (2 / 5)) = 40" "fmul 100 (fl (7 / 20)) = 35" "fmul (fl 100) (fl (3 / 20)) = 15"
    "fsub (fadd (fadd 40 35) 15) 0 = 90" "0 \<le> fl (2 / 5)" "0 \<le> fl (7 / 20)" "0 \<le> fl (3 / 20)"
  by code_simp+

lemma scorecard_le:
  assumes "0 \<le> tested" "tested \<le> whole" "0 \<le> passing" "passing \<le> tested" "rto \<le> 100" "0 \<le> threats" "0 \<le> incidents"
  shows "compute_scorecard whole tested passing rto threats incidents \<le> 90"
proof -
  define coverage where "coverage = (if whole \<noteq> 0 then fmul (fdiv (of_int tested) (of_int whole)) 100 else 0)"
  define rate where "rate = (if tested \<noteq> 0 then fmul (fdiv (of_int passing) (of_int tested)) 100 else 0)"
  have "coverage \<le> 100" "rate \<le> 100"
    using percent_bounds [of tested whole] percent_bounds [of passing tested] assms
    by (simp_all add: coverage_def rate_def)
  then have "fmul coverage (fl (2 / 5)) \<le> 40" "fmul rate (fl (7 / 20)) \<le> 35"
    using fmul_mono [of coverage 100 "fl (2 / 5)"] fmul_mono [of rate 100 "fl (7 / 20)"] by (simp_all only: weights)
  moreover have "fmul (fl (of_int rto)) (fl (3 / 20)) \<le> 15"
    using fmul_mono [of "fl (of_int rto)" "fl 100" "fl (3 / 20)"] fl_mono [of "of_int rto" 100] assms(5)
    by (simp add: weights)
  ultimately have sum: "fadd (fadd (fmul coverage (fl (2 / 5))) (fmul rate (fl (7 / 20)))) (fmul (fl (of_int rto)) (fl (3 / 20)))
      \<le> fadd (fadd 40 35) 15"
    by (intro fadd_mono)
  have "0 \<le> fl (of_int (min (threats + incidents) 10))" using assms(6,7) by (intro fl_nonneg) simp
  with sum have "fsub (fadd (fadd (fmul coverage (fl (2 / 5))) (fmul rate (fl (7 / 20)))) (fmul (fl (of_int rto)) (fl (3 / 20))))
      (fl (of_int (min (threats + incidents) 10))) \<le> fsub (fadd (fadd 40 35) 15) 0"
    by (rule fsub_mono)
  then have "py_round (fsub (fadd (fadd (fmul coverage (fl (2 / 5))) (fmul rate (fl (7 / 20)))) (fmul (fl (of_int rto)) (fl (3 / 20))))
      (fl (of_int (min (threats + incidents) 10)))) \<le> 90"
    using py_round_le [of _ 90] by (simp add: weights)
  then show ?thesis
    unfolding compute_scorecard_def Let_def coverage_def [symmetric] rate_def [symmetric] by simp
qed

lemma scorecard_perfect: "0 < n \<Longrightarrow> compute_scorecard n n n 100 0 0 = 90"
proof -
  assume n: "0 < n"
  then have full: "fmul (fdiv (of_int n) (of_int n)) 100 = (100 :: rat)"
    using fl_of_int [of 1] fl_of_int [of 100] by (simp add: fdiv_def fmul_def)
  have "fl (of_int 100) = (100 :: rat)" using fl_of_int [of 100] by simp
  then show ?thesis
    using n weights unfolding compute_scorecard_def Let_def full by (simp add: py_round_of_int [of 90, simplified])
qed

subsection \<open>Properties\<close>

text \<open>The scorecard, documented as 0 to 100, never exceeds 90: for any counts that fit together and
  any compliance percentage it lies between 0 and 90, and an organisation with everything tested,
  passing and compliant and no threat gets exactly 90. \<close>

theorem scorecard_caps_at_90:
  assumes "0 \<le> tested" "tested \<le> whole" "0 \<le> passing" "passing \<le> tested" "rto \<le> 100" "0 \<le> threats" "0 \<le> incidents"
    and "0 < n"
  shows "0 \<le> compute_composite_score whole tested passing rto threats incidents \<and>
     compute_composite_score whole tested passing rto threats incidents \<le> 90 \<and>
     compute_composite_score n n n 100 0 0 = 90"
  using scorecard_le [OF assms(1-7)] scorecard_perfect [OF assms(8)]
  by (simp add: compute_composite_score_def) (simp add: compute_scorecard_def Let_def)

theorem scorecard_caps_at_90_witness: "compute_composite_score 20 10 5 80 1 0 \<le> 90"
  using scorecard_caps_at_90 [of 10 20 5 80 1 0 1] by simp

text \<open>The weekly trend counts every run of the period once: over any number of weeks the runs of the
  buckets add up to the runs that completed after the first window's start and not after now, so a run
  on a boundary belongs to one week only. \<close>

theorem weekly_buckets_partition:
  "sum_list (map wb_runs (bucket_weekly_pass_rate iso_date runs weeks now))
     = count_if (\<lambda>r. now - int weeks * week_micros < fst r \<and> fst r \<le> now) runs"
proof (induction weeks)
  case 0
  have "count_if (\<lambda>r. now < fst r \<and> fst r \<le> now) runs = 0"
    by (induction runs) auto
  then show ?case by (simp add: bucket_weekly_pass_rate_def)
next
  case (Suc n)
  define d where "d = int n * week_micros"
  have d: "0 \<le> d" "(int n + 1) * week_micros = d + week_micros" "int (Suc n) * week_micros = d + week_micros"
      "0 < week_micros"
    by (simp_all add: d_def week_micros_def)
  let ?all = "\<lambda>r. now - (d + week_micros) < fst r \<and> fst r \<le> now"
  have "count_if ?all runs = count_if (\<lambda>r. ?all r \<and> fst r \<le> now - d) runs
      + count_if (\<lambda>r. ?all r \<and> \<not> fst r \<le> now - d) runs"
    by (rule count_if_split)
  also have "count_if (\<lambda>r. ?all r \<and> fst r \<le> now - d) runs
      = count_if (\<lambda>r. now - (d + week_micros) < fst r \<and> fst r \<le> now - d) runs"
    by (rule count_if_cong) (use d(1) in auto)
  also have "count_if (\<lambda>r. ?all r \<and> \<not> fst r \<le> now - d) runs = count_if (\<lambda>r. now - d < fst r \<and> fst r \<le> now) runs"
    by (rule count_if_cong) (use d(4) in auto)
  finally show ?case
    using Suc unfolding d(3) d_def [symmetric]
    by (simp add: bucket_weekly_pass_rate_def week_bucket_of_def Let_def week_window_length d(2) d_def [symmetric])
qed

text \<open>The recommended restore point is a clean one, and none exactly when all are flagged. When every
  clean point carries a time it is a newest one; when none does, it is the first in the input, which
  lists the oldest first, so the oldest clean point is recommended as the newest. \<close>

theorem clean_point_selection:
  assumes "analyze_restore_points float_of rps = Inr as"
    and "filter an_is_clean as = a # rest"
  shows "((\<forall>c \<in> set (a # rest). \<exists>t. an_created_at c = JStr t \<and> t \<noteq> []) \<longrightarrow>
       (\<exists>r. select_clean_restore_point float_of rps = Inr (Some r) \<and> r \<in> set as \<and> an_is_clean r \<and>
          (\<forall>c \<in> set as. an_is_clean c \<longrightarrow> (\<forall>s t. an_created_at c = JStr s \<longrightarrow> an_created_at r = JStr t \<longrightarrow> s \<le> t)))) \<and>
     ((\<forall>c \<in> set (a # rest). an_created_at c = JNull) \<longrightarrow> select_clean_restore_point float_of rps = Inr (Some a))"
proof (intro conjI impI)
  have clean: "set (a # rest) = {c \<in> set as. an_is_clean c}" using assms(2) by (metis set_filter)
  assume "\<forall>c \<in> set (a # rest). \<exists>t. an_created_at c = JStr t \<and> t \<noteq> []"
  from max_from_strings [OF this] obtain r where "max_from a rest = Inr r" "r \<in> set (a # rest)"
    "\<forall>c \<in> set (a # rest). \<forall>s t. an_created_at c = JStr s \<longrightarrow> an_created_at r = JStr t \<longrightarrow> s \<le> t" by blast
  then show "\<exists>r. select_clean_restore_point float_of rps = Inr (Some r) \<and> r \<in> set as \<and> an_is_clean r \<and>
      (\<forall>c \<in> set as. an_is_clean c \<longrightarrow> (\<forall>s t. an_created_at c = JStr s \<longrightarrow> an_created_at r = JStr t \<longrightarrow> s \<le> t))"
    unfolding clean by (intro exI [of _ r]) (simp add: select_clean_restore_point_def assms, blast)
next
  assume "\<forall>c \<in> set (a # rest). an_created_at c = JNull"
  then have "max_from a rest = Inr a" by (intro max_from_missing) simp_all
  then show "select_clean_restore_point float_of rps = Inr (Some a)"
    by (simp add: select_clean_restore_point_def assms)
qed

definition undated :: "dict list" where
  "undated = [[(''id'', JStr ''monday'')], [(''id'', JStr ''tuesday'')],
     [(''id'', JStr ''friday''), (''new_extensions'', JArr [JStr ''.LOCKY''])]]"

theorem clean_point_selection_witness:
  "\<exists>a. select_clean_restore_point (\<lambda>_. None) undated = Inr (Some a) \<and> an_restore_point_id a = JStr ''monday''"
proof -
  let ?point = "\<lambda>i. \<lparr>an_restore_point_id = JStr i, an_created_at = JNull, an_indicators = [], an_max_severity = ''none'', an_is_clean = True\<rparr>"
  let ?bad = "\<lparr>an_restore_point_id = JStr ''friday'', an_created_at = JNull,
      an_indicators = [indicator_of ''ransomware_extension'' ''critical'' ''Known ransomware extensions present: locky''],
      an_max_severity = ''critical'', an_is_clean = False\<rparr>"
  have "analyze_restore_points (\<lambda>_. None) undated = Inr [?point ''monday'', ?point ''tuesday'', ?bad]"
    by code_simp
  from clean_point_selection [OF this, of "?point ''monday''" "[?point ''tuesday'']"] show ?thesis by simp
qed

end
