(* ===== verification/Notifications.thy ===== *)
theory Notifications
  imports Api "HOL-Library.Word"
begin

text \<open>
  Outbound notifications: the SSRF guard \<open>services/url_guard.py\<close> and the dispatcher
  \<open>services/notifications.py\<close> with its routes \<open>routers/notifications.py\<close>. What the code
  calls (URL and address parsing, DNS, HTTP, SES) is the record \<open>outbound\<close>; the state of the
  code is the list of requests it has sent. An address of IPv4 is a 32-bit word and classified as
  the standard library's \<open>ipaddress\<close> does; the classification of IPv6 is a field.
\<close>

subsection \<open>Addresses\<close>

datatype ip = V4 "32 word" | V6 "128 word"

definition v4 :: "nat \<Rightarrow> nat \<Rightarrow> nat \<Rightarrow> nat \<Rightarrow> 32 word" where
  "v4 a b c d = of_nat (((a * 256 + b) * 256 + c) * 256 + d)"

definition in_network :: "32 word \<Rightarrow> 32 word \<times> nat \<Rightarrow> bool" where
  "in_network a net = (drop_bit (32 - snd net) a = drop_bit (32 - snd net) (fst net))"

text \<open>\<open>ipaddress._IPv4Constants\<close>\<close>

definition private_networks :: "(32 word \<times> nat) list" where
  "private_networks =
     [(v4 0 0 0 0, 8), (v4 10 0 0 0, 8), (v4 127 0 0 0, 8), (v4 169 254 0 0, 16), (v4 172 16 0 0, 12),
      (v4 192 0 0 0, 24), (v4 192 0 0 170, 31), (v4 192 0 2 0, 24), (v4 192 168 0 0, 16),
      (v4 198 18 0 0, 15), (v4 198 51 100 0, 24), (v4 203 0 113 0, 24), (v4 240 0 0 0, 4),
      (v4 255 255 255 255, 32)]"

definition private_exceptions :: "(32 word \<times> nat) list" where
  "private_exceptions = [(v4 192 0 0 9, 32), (v4 192 0 0 10, 32)]"

definition is_global4 :: "32 word \<Rightarrow> bool" where
  "is_global4 a \<longleftrightarrow> \<not> in_network a (v4 100 64 0 0, 10) \<and>
     \<not> (list_ex (in_network a) private_networks \<and> \<not> list_ex (in_network a) private_exceptions)"

subsection \<open>The outside world\<close>

record parsed_url =
  u_scheme :: string
  u_hostname :: "string option"
  u_port :: "int option result"

datatype sent = Posted string json | Mailed string string string

record outbound =
  urlparse :: "string \<Rightarrow> parsed_url result"
  ip_address :: "string \<Rightarrow> ip option"
  is_global6 :: "128 word \<Rightarrow> bool"
  getaddrinfo :: "string \<Rightarrow> int \<Rightarrow> string list result"
  http_post :: "string \<Rightarrow> json \<Rightarrow> nat result"
  ses_send :: "string \<Rightarrow> string \<Rightarrow> string \<Rightarrow> unit result"

definition is_global :: "outbound \<Rightarrow> ip \<Rightarrow> bool" where
  "is_global out a = (case a of V4 w \<Rightarrow> is_global4 w | V6 w \<Rightarrow> is_global6 out w)"

subsection \<open>The guard\<close>

definition ALLOWED_SCHEMES :: "string list" where
  "ALLOWED_SCHEMES = [''http'', ''https'']"

definition default_port :: "string \<Rightarrow> int" where
  "default_port scheme = (if lower scheme = ''https'' then 443 else 80)"

definition reject_non_global :: "outbound \<Rightarrow> ip \<Rightarrow> string \<Rightarrow> string \<Rightarrow> unit result" where
  "reject_non_global out a host addr =
     (if \<not> is_global out a
      then Inl (UnsafeUrlError (''URL host '' @ repr_str host @ '' resolves to non-public address '' @ addr))
      else Inr ())"

definition check_scheme_and_literal :: "outbound \<Rightarrow> string \<Rightarrow> unit result" where
  "check_scheme_and_literal out url =
     and_then (urlparse out url) (\<lambda>parsed.
     if lower (u_scheme parsed) \<notin> set ALLOWED_SCHEMES
     then Inl (UnsafeUrlError (''URL scheme must be http or https, got '' @ repr_str (u_scheme parsed)))
     else let host = str_or (u_hostname parsed) [] in
       if host = [] then Inl (UnsafeUrlError ''URL has no host'')
       else case ip_address out host of
         None \<Rightarrow> Inr ()
       | Some a \<Rightarrow> reject_non_global out a host host)"

fun check_addresses :: "outbound \<Rightarrow> string \<Rightarrow> string list \<Rightarrow> unit result" where
  "check_addresses out host [] = Inr ()"
| "check_addresses out host (addr # addrs) =
     (case ip_address out addr of
        None \<Rightarrow> Inl (UnsafeUrlError (''unparseable address '' @ repr_str addr @ '' for host '' @ repr_str host))
      | Some a \<Rightarrow> and_then (reject_non_global out a host addr) (\<lambda>_. check_addresses out host addrs))"

definition assert_safe_url :: "outbound \<Rightarrow> string \<Rightarrow> unit result" where
  "assert_safe_url out url =
     and_then (check_scheme_and_literal out url) (\<lambda>_.
     and_then (urlparse out url) (\<lambda>parsed.
     let host = the (u_hostname parsed) in
     and_then (u_port parsed) (\<lambda>p.
     let port = int_or p (default_port (u_scheme parsed)) in
     case getaddrinfo out host port of
       Inl (OSError e) \<Rightarrow> Inl (UnsafeUrlError (''could not resolve host '' @ repr_str host @ '': '' @ e))
     | Inl e \<Rightarrow> Inl e
     | Inr infos \<Rightarrow>
         let addresses = remdups infos in
         if addresses = []
         then Inl (UnsafeUrlError (''host '' @ repr_str host @ '' did not resolve to any address''))
         else check_addresses out host addresses)))"

definition is_safe_url :: "outbound \<Rightarrow> string \<Rightarrow> bool result" where
  "is_safe_url out url =
     (case assert_safe_url out url of
        Inr _ \<Rightarrow> Inr True
      | Inl (UnsafeUrlError _) \<Rightarrow> Inr False
      | Inl e \<Rightarrow> Inl e)"

subsection \<open>Sending\<close>

text \<open>\<open>client.post(url, json=payload)\<close> and \<open>raise_for_status\<close>.\<close>

definition post_json :: "outbound \<Rightarrow> string \<Rightarrow> json \<Rightarrow> (sent list, unit) exec" where
  "post_json out url payload =
     seq (update (\<lambda>tr. tr @ [Posted url payload])) (\<lambda>_.
     seq (lift_result (http_post out url payload)) (\<lambda>status.
     if 200 \<le> status \<and> status < 300 then ret () else raise (ExternalError ''HTTPStatusError'')))"

definition post_guarded :: "outbound \<Rightarrow> string \<Rightarrow> json \<Rightarrow> (sent list, unit) exec" where
  "post_guarded out url payload =
     seq (lift_result (assert_safe_url out url)) (\<lambda>_. post_json out url payload)"

definition slack_payload :: "string \<Rightarrow> string \<Rightarrow> string \<Rightarrow> json" where
  "slack_payload workload_name run_id summary =
     JObj [(''text'', JStr ('':rotating_light: *R3VP Alert - '' @ workload_name @ ''*'')),
       (''attachments'', JArr [JObj [(''color'', JStr ''danger''), (''text'', JStr summary),
          (''footer'', JStr (''Run ID: '' @ run_id @ '' | R3VP Recovery Validation''))]])]"

definition send_slack :: "outbound \<Rightarrow> string \<Rightarrow> string \<Rightarrow> string \<Rightarrow> string \<Rightarrow> (sent list, unit) exec" where
  "send_slack out webhook_url workload_name run_id summary =
     post_guarded out webhook_url (slack_payload workload_name run_id summary)"

definition teams_payload :: "string \<Rightarrow> string \<Rightarrow> string \<Rightarrow> json" where
  "teams_payload workload_name run_id summary =
     JObj [(''@type'', JStr ''MessageCard''), (''@context'', JStr ''http://schema.org/extensions''),
       (''themeColor'', JStr ''FF0000''), (''summary'', JStr (''R3VP Alert - '' @ workload_name)),
       (''sections'', JArr [JObj [(''activityTitle'', JStr ''R3VP Recovery Validation Alert''),
          (''activitySubtitle'', JStr workload_name),
          (''facts'', JArr [JObj [(''name'', JStr ''Issue''), (''value'', JStr summary)],
                            JObj [(''name'', JStr ''Run ID''), (''value'', JStr run_id)]]),
          (''markdown'', JBool True)]])]"

definition send_teams :: "outbound \<Rightarrow> string \<Rightarrow> string \<Rightarrow> string \<Rightarrow> string \<Rightarrow> (sent list, unit) exec" where
  "send_teams out webhook_url workload_name run_id summary =
     post_guarded out webhook_url (teams_payload workload_name run_id summary)"

definition PAGERDUTY_URL :: string where
  "PAGERDUTY_URL = ''https://events.pagerduty.com/v2/enqueue''"

definition send_pagerduty :: "outbound \<Rightarrow> string \<Rightarrow> string \<Rightarrow> string \<Rightarrow> string \<Rightarrow> (sent list, unit) exec" where
  "send_pagerduty out routing_key workload_name run_id summary =
     post_json out PAGERDUTY_URL
       (JObj [(''routing_key'', JStr routing_key), (''event_action'', JStr ''trigger''),
          (''dedup_key'', JStr (''r3vp-'' @ run_id)),
          (''payload'', JObj [(''summary'', JStr (''R3VP Alert - '' @ workload_name @ '': '' @ summary)),
             (''source'', JStr ''r3vp''), (''severity'', JStr ''critical''),
             (''custom_details'', JObj [(''workload'', JStr workload_name), (''run_id'', JStr run_id),
                (''detail'', JStr summary)])])])"

definition send_webhook ::
    "outbound \<Rightarrow> string \<Rightarrow> string \<Rightarrow> string \<Rightarrow> string \<Rightarrow> string list \<Rightarrow> (sent list, unit) exec" where
  "send_webhook out url workload_name run_id summary events =
     post_guarded out url
       (JObj [(''source'', JStr ''r3vp''), (''event'', JStr ''recovery_validation_alert''),
          (''workload'', JStr workload_name), (''run_id'', JStr run_id),
          (''triggers'', JArr (map JStr events)), (''summary'', JStr summary)])"

definition send_email_ses :: "outbound \<Rightarrow> string \<Rightarrow> string \<Rightarrow> string \<Rightarrow> string \<Rightarrow> (sent list, unit) exec" where
  "send_email_ses out to_address workload_name run_id summary =
     (let subject = ''R3VP Alert: '' @ workload_name;
          body = ''R3VP Recovery Validation Alert\<newline>\<newline>Workload: '' @ workload_name @ ''\<newline>'' @ summary @ ''\<newline>\<newline>Run ID: '' @ run_id
      in seq (update (\<lambda>tr. tr @ [Mailed to_address subject body])) (\<lambda>_.
         lift_result (ses_send out to_address subject body)))"

subsection \<open>Breach notifications\<close>

record channel_row =
  ch_id :: uuid
  ch_org_id :: uuid
  ch_name :: string
  ch_channel_type :: string
  ch_destination :: string
  ch_events :: "string list"
  ch_enabled :: bool

definition exceeds :: "int option \<Rightarrow> int option \<Rightarrow> bool" where
  "exceeds actual target = (case (actual, target) of (Some a, Some t) \<Rightarrow> t < a | _ \<Rightarrow> False)"

text \<open>The set \<open>events\<close>, in the order of \<open>sorted(events)\<close>.\<close>

definition breach_events :: "int option \<Rightarrow> int option \<Rightarrow> int option \<Rightarrow> int option \<Rightarrow> bool \<Rightarrow> string list" where
  "breach_events rto_target rto_actual rpo_target rpo_actual passed =
     (if exceeds rpo_actual rpo_target then [''rpo_breach''] else []) @
     (if exceeds rto_actual rto_target then [''rto_breach''] else []) @
     (if \<not> passed then [''test_failed''] else [])"

definition show_opt :: "int option \<Rightarrow> string" where
  "show_opt v = (case v of None \<Rightarrow> ''None'' | Some i \<Rightarrow> show_int i)"

definition summary_lines :: "string list \<Rightarrow> int option \<Rightarrow> int option \<Rightarrow> int option \<Rightarrow> int option \<Rightarrow> string list" where
  "summary_lines events rto_target rto_actual rpo_target rpo_actual =
     (if ''test_failed'' \<in> set events then [''Recovery test FAILED''] else []) @
     (if ''rto_breach'' \<in> set events
      then [''RTO breach: actual '' @ show_opt rto_actual @ '' min, target '' @ show_opt rto_target @ '' min''] else []) @
     (if ''rpo_breach'' \<in> set events
      then [''RPO breach: actual '' @ show_opt rpo_actual @ '' min, target '' @ show_opt rpo_target @ '' min''] else [])"

definition dispatch_channel ::
    "outbound \<Rightarrow> channel_row \<Rightarrow> string \<Rightarrow> string \<Rightarrow> string list
       \<Rightarrow> int option \<Rightarrow> int option \<Rightarrow> int option \<Rightarrow> int option \<Rightarrow> (sent list, unit) exec" where
  "dispatch_channel out ch workload_name run_id events rto_target rto_actual rpo_target rpo_actual =
     (let summary = join '' | '' (summary_lines events rto_target rto_actual rpo_target rpo_actual);
          t = ch_channel_type ch; d = ch_destination ch
      in if t = ''slack'' then send_slack out d workload_name run_id summary
         else if t = ''teams'' then send_teams out d workload_name run_id summary
         else if t = ''email'' then send_email_ses out d workload_name run_id summary
         else if t = ''pagerduty'' then send_pagerduty out d workload_name run_id summary
         else if t = ''webhook'' then send_webhook out d workload_name run_id summary events
         else ret ())"

text \<open>\<open>try: m except Exception: log\<close>\<close>

definition best_effort :: "('s, unit) exec \<Rightarrow> ('s, unit) exec" where
  "best_effort m = try_except m (\<lambda>_. ret ())"

definition send_breach_notifications ::
    "outbound \<Rightarrow> channel_row list \<Rightarrow> uuid \<Rightarrow> string \<Rightarrow> string
       \<Rightarrow> int option \<Rightarrow> int option \<Rightarrow> int option \<Rightarrow> int option \<Rightarrow> bool \<Rightarrow> (sent list, unit) exec" where
  "send_breach_notifications out table org_id workload_name run_id rto_target rto_actual rpo_target rpo_actual passed =
     (let events = breach_events rto_target rto_actual rpo_target rpo_actual passed in
      if events = [] then ret ()
      else for_each (\<lambda>ch.
             if list_ex (\<lambda>e. e \<in> set (ch_events ch)) events
             then best_effort (dispatch_channel out ch workload_name run_id events
                                 rto_target rto_actual rpo_target rpo_actual)
             else ret ())
           (filter (\<lambda>ch. ch_org_id ch = org_id \<and> ch_enabled ch) table))"

subsection \<open>Report delivery\<close>

text \<open>
  A value passed where the code expects a string; URL parsing raises on another type, and SES
  validates its arguments.
\<close>

definition str_arg :: "json \<Rightarrow> (string \<Rightarrow> ('s, unit) exec) \<Rightarrow> ('s, unit) exec" where
  "str_arg v f = (case v of JStr s \<Rightarrow> f s | _ \<Rightarrow> raise (TypeError ''expected str''))"

definition deliver_to :: "outbound \<Rightarrow> dict \<Rightarrow> string \<Rightarrow> string \<Rightarrow> string \<Rightarrow> (sent list, unit) exec" where
  "deliver_to out r label period summary =
     (let rtype = dget r ''type''; dest = dget r ''destination'' in
      if \<not> truthy rtype \<or> \<not> truthy dest then ret ()
      else best_effort
        (if rtype = JStr ''slack'' then str_arg dest (\<lambda>d. send_slack out d label period summary)
         else if rtype = JStr ''teams'' then str_arg dest (\<lambda>d. send_teams out d label period summary)
         else if rtype = JStr ''email'' then str_arg dest (\<lambda>d. send_email_ses out d label period summary)
         else if rtype = JStr ''webhook''
         then str_arg dest (\<lambda>d. send_webhook out d label period summary [''report_generated''])
         else ret ()))"

definition send_report_delivery :: "outbound \<Rightarrow> dict list \<Rightarrow> string \<Rightarrow> string \<Rightarrow> (sent list, unit) exec" where
  "send_report_delivery out recipients report_type period =
     (let summary = ''Scheduled '' @ report_type @ '' compliance report generated for period '' @ period;
          label = report_type @ '' report''
      in for_each (\<lambda>r. deliver_to out r label period summary) recipients)"

subsection \<open>The routes\<close>

record channel_request =
  cr_name :: string
  cr_channel_type :: string
  cr_destination :: string
  cr_events :: "string list"

definition list_channels :: "current_user \<Rightarrow> (channel_row list, channel_row list) exec" where
  "list_channels user = gets (filter (\<lambda>c. ch_org_id c = user_org_id user))"

definition create_channel :: "channel_request \<Rightarrow> current_user \<Rightarrow> uuid \<Rightarrow> (channel_row list, channel_row) exec" where
  "create_channel req user new_id =
     seq (lift_result (require_admin user)) (\<lambda>user.
     if cr_channel_type req \<notin> {''email'', ''slack'', ''teams''}
     then raise (HTTPException 400 ''channel_type must be email, slack, or teams'')
     else
       let ch = \<lparr>ch_id = new_id, ch_org_id = user_org_id user, ch_name = cr_name req,
             ch_channel_type = cr_channel_type req, ch_destination = cr_destination req,
             ch_events = cr_events req, ch_enabled = True\<rparr>
       in seq (update (\<lambda>rows. rows @ [ch])) (\<lambda>_. ret ch))"

definition delete_channel :: "uuid \<Rightarrow> current_user \<Rightarrow> (channel_row list, unit) exec" where
  "delete_channel channel_id user =
     seq (lift_result (require_admin user)) (\<lambda>user.
     seq (gets (list_ex (\<lambda>c. ch_id c = channel_id \<and> ch_org_id c = user_org_id user))) (\<lambda>found.
     if \<not> found then raise (HTTPException 404 ''Notification channel not found'')
     else update (filter (\<lambda>c. \<not> (ch_id c = channel_id \<and> ch_org_id c = user_org_id user)))))"

subsection \<open>What the guard decides\<close>

definition public_address :: "outbound \<Rightarrow> string \<Rightarrow> bool" where
  "public_address out addr \<longleftrightarrow> (case ip_address out addr of None \<Rightarrow> False | Some a \<Rightarrow> is_global out a)"

definition safe_target :: "outbound \<Rightarrow> string \<Rightarrow> bool" where
  "safe_target out url \<longleftrightarrow>
     (case urlparse out url of
        Inl _ \<Rightarrow> False
      | Inr p \<Rightarrow>
          lower (u_scheme p) \<in> {''http'', ''https''} \<and>
          (case u_hostname p of
             None \<Rightarrow> False
           | Some h \<Rightarrow> h \<noteq> [] \<and> (ip_address out h = None \<or> public_address out h) \<and>
               (case u_port p of
                  Inl _ \<Rightarrow> False
                | Inr port \<Rightarrow>
                    (case getaddrinfo out h (int_or port (default_port (u_scheme p))) of
                       Inl _ \<Rightarrow> False
                     | Inr infos \<Rightarrow> infos \<noteq> [] \<and> (\<forall>addr \<in> set infos. public_address out addr)))))"

lemma check_addresses_iff: "check_addresses out host addrs = Inr () \<longleftrightarrow> (\<forall>a \<in> set addrs. public_address out a)"
  by (induction addrs) (auto simp: public_address_def reject_non_global_def split: option.splits)

lemma remdups_Nil_iff: "(remdups xs = []) = (xs = [])"
  by (cases xs) (auto simp: remdups_eq_nil_iff)

lemma check_literal_iff:
  "check_scheme_and_literal out url = Inr () \<longleftrightarrow>
     (\<exists>p. urlparse out url = Inr p \<and> lower (u_scheme p) \<in> {''http'', ''https''} \<and>
        (\<exists>h. u_hostname p = Some h \<and> h \<noteq> [] \<and> (ip_address out h = None \<or> public_address out h)))"
  by (cases "urlparse out url")
    (auto simp: check_scheme_and_literal_def ALLOWED_SCHEMES_def str_or_def public_address_def
      reject_non_global_def Let_def split: option.splits if_splits)

lemma safe_target_literal: "safe_target out url \<Longrightarrow> check_scheme_and_literal out url = Inr ()"
proof -
  assume safe: "safe_target out url"
  then obtain p where p: "urlparse out url = Inr p"
    by (cases "urlparse out url") (simp_all add: safe_target_def)
  moreover obtain h where "u_hostname p = Some h"
    using safe p by (cases "u_hostname p") (simp_all add: safe_target_def)
  ultimately show ?thesis using safe by (simp add: check_literal_iff safe_target_def)
qed

lemma resolve_iff:
  "(case r of
      Inl (OSError e) \<Rightarrow> Inl (UnsafeUrlError (f e))
    | Inl e \<Rightarrow> Inl e
    | Inr infos \<Rightarrow> let addresses = remdups infos in
        if addresses = [] then Inl g else check_addresses out h addresses) = Inr ()
   \<longleftrightarrow> (case r of Inl _ \<Rightarrow> False | Inr infos \<Rightarrow> infos \<noteq> [] \<and> (\<forall>addr \<in> set infos. public_address out addr))"
  by (cases r) (auto simp: Let_def check_addresses_iff split: py_exn.splits)

lemma assert_safe_url_iff: "assert_safe_url out url = Inr () \<longleftrightarrow> safe_target out url"
proof (cases "check_scheme_and_literal out url")
  case (Inl e)
  then have "\<not> safe_target out url" using safe_target_literal [of out url] by auto
  then show ?thesis by (simp add: assert_safe_url_def Inl)
next
  case (Inr u)
  then obtain p h where p: "urlparse out url = Inr p" "lower (u_scheme p) \<in> {''http'', ''https''}"
      "u_hostname p = Some h" "h \<noteq> []" "ip_address out h = None \<or> public_address out h"
    using check_literal_iff [of out url] by auto
  show ?thesis
  proof (cases "u_port p")
    case (Inl e)
    then show ?thesis using p Inr by (simp add: assert_safe_url_def safe_target_def)
  next
    case port: (Inr port)
    show ?thesis
      unfolding assert_safe_url_def safe_target_def
      using p Inr port by (simp only: and_then.simps sum.case option.case option.sel Let_def resolve_iff [unfolded Let_def]) simp
  qed
qed

text \<open>Multicast addresses are global to \<open>ipaddress\<close>.\<close>

lemma in_network_nibble:
  assumes "in_network w (b, n)" and "4 \<le> n" and "n \<le> 32"
  shows "drop_bit 28 w = drop_bit 28 b"
proof -
  have "drop_bit (n - 4) (drop_bit (32 - n) w) = drop_bit (n - 4) (drop_bit (32 - n) b)"
    using assms(1) by (simp add: in_network_def)
  moreover have "n - 4 + (32 - n) = 28" using assms(2,3) by simp
  ultimately show ?thesis by (simp add: drop_bit_drop_bit add.commute)
qed

lemma private_nibbles:
  "list_all (\<lambda>(b, n). 4 \<le> n \<and> n \<le> 32 \<and> drop_bit 28 b \<noteq> 14) ((v4 100 64 0 0, 10) # private_networks)"
proof -
  have "drop_bit 28 b \<noteq> 14" if "unat b div 2 ^ 28 \<noteq> 14" for b :: "32 word"
  proof
    assume "drop_bit 28 b = (14 :: 32 word)"
    then have "unat (drop_bit 28 b) = unat (14 :: 32 word)" by (rule arg_cong)
    with that show False by (simp add: unat_drop_bit_eq drop_bit_eq_div [of _ "unat b"])
  qed
  then show ?thesis by (simp add: private_networks_def v4_def unat_of_nat)
qed

lemma multicast_is_global: "drop_bit 28 w = 14 \<Longrightarrow> is_global4 w"
proof -
  assume w: "drop_bit 28 w = (14 :: 32 word)"
  have "\<not> in_network w net" if "net \<in> set ((v4 100 64 0 0, 10) # private_networks)" for net
    using private_nibbles that w in_network_nibble [of w "fst net" "snd net"]
    by (auto simp: list_all_iff case_prod_beta)
  then show ?thesis by (auto simp: is_global4_def list_ex_iff)
qed

subsection \<open>Traces\<close>

text \<open>Code that sends requests without reading those already sent.\<close>

definition appends :: "(sent list, 'a) exec \<Rightarrow> bool" where
  "appends m \<longleftrightarrow> (\<forall>tr. m tr = (fst (m []), tr @ snd (m [])))"

named_theorems appends_intros \<open>closure of \<open>appends\<close> under the combinators\<close>

lemma appendsD: "appends m \<Longrightarrow> m tr = (fst (m []), tr @ snd (m []))"
  unfolding appends_def by (erule spec)

lemma appends_basic [appends_intros]: "appends (ret x)" "appends (raise e)" "appends (lift_result r)"
    "appends (update (\<lambda>tr. tr @ ys))"
  by (simp_all add: appends_def exec_simps)

lemma appends_seq [appends_intros]:
  assumes m: "appends m" and f: "\<And>x. appends (f x)"
  shows "appends (seq m f)"
  unfolding appends_def
proof
  fix tr
  obtain r ys where ys: "m [] = (r, ys)" by (cases "m []")
  have "m tr = (r, tr @ ys)" using appendsD [OF m, of tr] ys by simp
  then show "seq m f tr = (fst (seq m f []), tr @ snd (seq m f []))"
    using ys appendsD [OF f, of _ "tr @ ys"] appendsD [OF f, of _ ys]
    by (cases r) (simp_all add: seq_def)
qed

lemma appends_try [appends_intros]:
  assumes m: "appends m" and h: "\<And>e. appends (h e)"
  shows "appends (try_except m h)"
  unfolding appends_def
proof
  fix tr
  obtain r ys where ys: "m [] = (r, ys)" by (cases "m []")
  have "m tr = (r, tr @ ys)" using appendsD [OF m, of tr] ys by simp
  then show "try_except m h tr = (fst (try_except m h []), tr @ snd (try_except m h []))"
    using ys appendsD [OF h, of _ "tr @ ys"] appendsD [OF h, of _ ys]
    by (cases r) (simp_all add: try_except_def)
qed

lemma appends_if [appends_intros]:
  "(b \<Longrightarrow> appends m) \<Longrightarrow> (\<not> b \<Longrightarrow> appends m') \<Longrightarrow> appends (if b then m else m')"
  by simp

lemmas sender_defs = post_json_def post_guarded_def send_slack_def send_teams_def send_pagerduty_def
  send_webhook_def send_email_ses_def best_effort_def

lemma appends_dispatch [appends_intros]:
  "appends (dispatch_channel out ch w r evs a b c d)"
  unfolding dispatch_channel_def sender_defs Let_def by (intro appends_intros)

lemma appends_best_effort [appends_intros]: "appends m \<Longrightarrow> appends (best_effort m)"
  unfolding best_effort_def by (intro appends_intros)

lemma best_effort_returns: "fst (best_effort m s) = Inr ()"
  by (cases "m s"; cases "fst (m s)") (auto simp: best_effort_def try_except_def ret_def)

lemma for_each_appends:
  assumes "\<And>x. appends (f x)" and "\<And>x s. fst (f x s) = Inr ()"
  shows "for_each f xs tr = (Inr (), tr @ concat (map (\<lambda>x. snd (f x [])) xs))"
proof (induction xs arbitrary: tr)
  case (Cons x xs)
  have "f x tr = (Inr (), tr @ snd (f x []))"
    using appendsD [OF assms(1), of x tr] assms(2) [of x "[]"] by simp
  then show ?case by (simp add: seq_def Cons.IH)
qed (simp add: exec_simps)

subsection \<open>Only safe requests\<close>

definition guarded :: "outbound \<Rightarrow> sent list \<Rightarrow> bool" where
  "guarded out tr \<longleftrightarrow>
     list_all (\<lambda>s. case s of Posted url _ \<Rightarrow> url = PAGERDUTY_URL \<or> safe_target out url | Mailed _ _ _ \<Rightarrow> True) tr"

lemma guarded_append [simp]: "guarded out (xs @ ys) \<longleftrightarrow> guarded out xs \<and> guarded out ys"
  by (simp add: guarded_def)

definition stays_guarded :: "outbound \<Rightarrow> (sent list, 'a) exec \<Rightarrow> bool" where
  "stays_guarded out m \<longleftrightarrow> (\<forall>tr. guarded out tr \<longrightarrow> guarded out (snd (m tr)))"

lemma stays_guardedD: "stays_guarded out m \<Longrightarrow> guarded out tr \<Longrightarrow> guarded out (snd (m tr))"
  by (simp add: stays_guarded_def)

lemma stays_guarded_post_json: "url = PAGERDUTY_URL \<or> safe_target out url \<Longrightarrow> stays_guarded out (post_json out url payload)"
  by (cases "http_post out url payload") (auto simp: stays_guarded_def post_json_def exec_simps guarded_def)

lemma stays_guarded_post_guarded: "stays_guarded out (post_guarded out url payload)"
proof (cases "assert_safe_url out url")
  case (Inl e)
  then show ?thesis by (simp add: stays_guarded_def post_guarded_def exec_simps)
next
  case (Inr u)
  then have "safe_target out url" using assert_safe_url_iff [of out url] by simp
  then show ?thesis using stays_guarded_post_json [of url out payload] Inr
    by (simp add: stays_guarded_def post_guarded_def seq_def lift_result_def)
qed

lemma stays_guarded_email: "stays_guarded out (send_email_ses out a w r s)"
  by (cases "ses_send out a (''R3VP Alert: '' @ w)
      (''R3VP Recovery Validation Alert\<newline>\<newline>Workload: '' @ w @ ''\<newline>'' @ s @ ''\<newline>\<newline>Run ID: '' @ r)")
    (simp_all add: stays_guarded_def send_email_ses_def exec_simps Let_def guarded_def)

lemma stays_guarded_ret: "stays_guarded out (ret x)"
  by (simp add: stays_guarded_def ret_def)

lemma stays_guarded_raise: "stays_guarded out (raise x)"
  by (simp add: stays_guarded_def raise_def)

lemma stays_guarded_best_effort: "stays_guarded out m \<Longrightarrow> stays_guarded out (best_effort m)"
  unfolding stays_guarded_def best_effort_def try_except_def ret_def
  by (auto split: prod.splits sum.splits)

lemma stays_guarded_seq:
  assumes "stays_guarded out m" and "\<And>x. stays_guarded out (f x)"
  shows "stays_guarded out (seq m f)"
  unfolding stays_guarded_def
proof (intro allI impI)
  fix tr
  assume tr: "guarded out tr"
  obtain r tr' where m: "m tr = (r, tr')" by fastforce
  have "guarded out tr'" using stays_guardedD [OF assms(1) tr] m by simp
  then show "guarded out (snd (seq m f tr))"
    using stays_guardedD [OF assms(2)] m by (cases r) (simp_all add: seq_def)
qed

lemma stays_guarded_lift: "stays_guarded out (lift_result r)"
  by (simp add: stays_guarded_def lift_result_def)

lemma stays_guarded_str_arg: "(\<And>d. stays_guarded out (f d)) \<Longrightarrow> stays_guarded out (str_arg v f)"
  by (cases v) (simp_all add: str_arg_def stays_guarded_raise)

lemmas stays_guarded_intros = stays_guarded_seq stays_guarded_lift stays_guarded_str_arg stays_guarded_ret
  stays_guarded_best_effort stays_guarded_post_guarded stays_guarded_email

lemma stays_guarded_dispatch: "stays_guarded out (dispatch_channel out ch w r evs a b c d)"
  unfolding dispatch_channel_def send_slack_def send_teams_def send_pagerduty_def send_webhook_def Let_def
  by (simp add: stays_guarded_post_guarded stays_guarded_email stays_guarded_ret stays_guarded_post_json)

lemma stays_guarded_deliver: "stays_guarded out (deliver_to out r label period summary)"
  unfolding deliver_to_def send_slack_def send_teams_def send_webhook_def Let_def
  by (simp add: stays_guarded_intros)

subsection \<open>Senders as an interface\<close>

text \<open>
  What a sender promises its caller: it only appends to what was sent, and never posts outside the
  guard. A quiet sender does not raise either, so a loop over its targets serves each of them as
  if it were alone.
\<close>

locale sender =
  fixes out :: outbound
    and send :: "'a \<Rightarrow> (sent list, unit) exec"
  assumes send_appends: "appends (send x)"
    and send_guarded: "stays_guarded out (send x)"
begin

lemma all_appends: "appends (for_each send xs)"
proof (induction xs)
  case Nil
  then show ?case by (simp add: appends_basic)
next
  case (Cons x xs)
  then show ?case by (simp add: appends_seq send_appends)
qed

lemma all_guarded: "guarded out (snd (for_each send xs []))"
  by (rule for_each_invariant) (simp_all add: stays_guardedD [OF send_guarded] guarded_def [of _ "[]"])

end

locale quiet_sender = sender +
  assumes send_returns: "fst (send x tr) = Inr ()"
begin

lemma all_served: "for_each send xs tr = (Inr (), tr @ concat (map (\<lambda>x. snd (send x [])) xs))"
  by (rule for_each_appends) (rule send_appends, rule send_returns)

lemma one_by_one:
  "snd (for_each send (filter P xs) []) = concat (map (\<lambda>x. snd (for_each send (filter P [x]) [])) xs)"
proof -
  have "concat (map (\<lambda>x. snd (send x [])) (filter P xs)) = concat (map (\<lambda>x. if P x then snd (send x []) else []) xs)"
    by (induction xs) auto
  also have "\<dots> = concat (map (\<lambda>x. snd (for_each send (filter P [x]) [])) xs)"
    by (intro arg_cong [of _ _ concat] map_cong refl) (simp add: all_served)
  finally show ?thesis by (simp add: all_served)
qed

end

lemma appends_str_arg [appends_intros]: "(\<And>d. appends (f d)) \<Longrightarrow> appends (str_arg v f)"
  by (cases v) (simp_all add: str_arg_def appends_basic)

interpretation breach: quiet_sender out
    "\<lambda>ch. if list_ex (\<lambda>e. e \<in> set (ch_events ch)) evs then best_effort (dispatch_channel out ch w r evs a b c d) else ret ()"
  for out evs w r a b c d
  by unfold_locales
    (simp_all add: appends_intros stays_guarded_best_effort stays_guarded_dispatch stays_guarded_ret best_effort_returns ret_def)

lemma appends_deliver: "appends (deliver_to out r label period summary)"
  unfolding deliver_to_def sender_defs Let_def by (intro appends_intros)

interpretation delivery: quiet_sender out "\<lambda>r. deliver_to out r label period summary"
  for out label period summary
proof unfold_locales
  show "appends (deliver_to out r label period summary)" for r by (rule appends_deliver)
  show "stays_guarded out (deliver_to out r label period summary)" for r by (rule stays_guarded_deliver)
  show "fst (deliver_to out r label period summary tr) = Inr ()" for r tr
    by (simp add: deliver_to_def Let_def best_effort_returns ret_def)
qed

subsection \<open>Properties\<close>

text \<open>C15: whatever the environment answers, neither breach notifications nor report delivery raises
  or reaches an address the guard refuses: every request posted goes to PagerDuty's fixed URL or
  to a URL with scheme http or https whose host is no private literal and resolves to public
  addresses only. \<close>

theorem notifications_guarded:
  "fst (send_breach_notifications out table org w r rto rta rpo rpa passed []) = Inr () \<and>
   guarded out (snd (send_breach_notifications out table org w r rto rta rpo rpa passed [])) \<and>
   fst (send_report_delivery out recipients kind period []) = Inr () \<and>
   guarded out (snd (send_report_delivery out recipients kind period []))"
  using breach.all_served breach.all_guarded delivery.all_served delivery.all_guarded
  by (simp add: send_breach_notifications_def send_report_delivery_def Let_def ret_def guarded_def [of _ "[]"])

text \<open>The channels of an organisation are served independently: what a breach sends is, channel by
  channel in table order, what would be sent if that channel were the only one, so a channel whose
  delivery fails neither stops nor changes the others. \<close>

theorem channels_independent:
  "send_breach_notifications out table org w r rto rta rpo rpa passed tr =
     (Inr (), tr @ concat (map (\<lambda>ch.
        snd (send_breach_notifications out [ch] org w r rto rta rpo rpa passed [])) table))"
proof (cases "breach_events rto rta rpo rpa passed = []")
  case True
  then show ?thesis by (simp add: send_breach_notifications_def ret_def)
next
  case False
  then show ?thesis
    using breach.one_by_one [where out = out and evs = "breach_events rto rta rpo rpa passed" and w = w and r = r
        and a = rto and b = rta and c = rpo and d = rpa and P = "\<lambda>ch. ch_org_id ch = org \<and> ch_enabled ch" and xs = table]
    by (simp add: send_breach_notifications_def Let_def breach.all_served del: filter.simps)
qed

text \<open>The guard accepts multicast addresses, which \<open>ipaddress\<close> counts as global: a URL whose
  host resolves to addresses of 224.0.0.0/4 passes. \<close>

theorem multicast_accepted:
  assumes "urlparse out url = Inr p" and "lower (u_scheme p) = ''http''" and "u_hostname p = Some h" and "h \<noteq> []"
    and "ip_address out h = None" and "u_port p = Inr port"
    and "getaddrinfo out h (int_or port (default_port (u_scheme p))) = Inr [addr]"
    and "ip_address out addr = Some (V4 w)" and "drop_bit 28 w = 14"
  shows "assert_safe_url out url = Inr ()"
  unfolding assert_safe_url_iff
  using assms by (simp add: safe_target_def public_address_def is_global_def multicast_is_global)

definition multicast_world :: outbound where
  "multicast_world = \<lparr>urlparse = \<lambda>_. Inr \<lparr>u_scheme = ''http'', u_hostname = Some ''hook'', u_port = Inr None\<rparr>,
     ip_address = \<lambda>s. if s = ''239.1.2.3'' then Some (V4 (v4 239 1 2 3)) else None, is_global6 = \<lambda>_. False,
     getaddrinfo = \<lambda>_ _. Inr [''239.1.2.3''], http_post = \<lambda>_ _. Inr 200, ses_send = \<lambda>_ _ _. Inr ()\<rparr>"

theorem multicast_accepted_witness: "assert_safe_url multicast_world ''http://hook'' = Inr ()"
proof (rule multicast_accepted [where h = "''hook''" and port = None and addr = "''239.1.2.3''"])
  show "urlparse multicast_world ''http://hook'' = Inr \<lparr>u_scheme = ''http'', u_hostname = Some ''hook'', u_port = Inr None\<rparr>"
    by (simp add: multicast_world_def)
  show "drop_bit 28 (v4 239 1 2 3) = 14" by (simp add: v4_def)
qed (simp_all add: multicast_world_def default_port_def int_or_def lower_def lower_char_def)

end
