(* ===== verification/IncidentResponse.thy ===== *)
theory IncidentResponse
  imports Notifications ThreatAnalysis "HOL-Library.Sublist"
begin

text \<open>
  Automated incident response: \<open>services/incident_response.py\<close> with the integrations it
  dispatches to, \<open>integrations/soar.py\<close>, \<open>integrations/siem.py\<close> and
  \<open>integrations/veeamone.py\<close>. The outside world is the record \<open>ir_world\<close>: what
  \<open>outbound\<close> already holds, an HTTP POST that answers with a status and a JSON body, sending
  one syslog datagram or stream, and the clock readings as the code formats them. A configuration
  that is \<open>None\<close> or empty is the empty dictionary.
\<close>

subsection \<open>The outside world\<close>

record ir_world =
  iw_out :: outbound
  iw_http :: "string \<Rightarrow> json \<Rightarrow> dict \<Rightarrow> (nat \<times> json result) result"
  iw_syslog :: "json \<Rightarrow> int \<Rightarrow> bool \<Rightarrow> string \<Rightarrow> unit result"
  iw_clock :: "nat \<Rightarrow> string"
  iw_now :: int
  iw_cef_time :: string
  iw_iso_time :: string
  iw_syslog_time :: string

datatype http_error = HttpStatus nat | OtherError py_exn

text \<open>\<open>client.post\<close>, \<open>raise_for_status\<close> and \<open>resp.json()\<close>, recorded in the trace.\<close>

definition post_call :: "ir_world \<Rightarrow> string \<Rightarrow> json \<Rightarrow> dict \<Rightarrow> sent list \<Rightarrow> (http_error + json result) \<times> sent list" where
  "post_call w url payload headers tr =
     (case iw_http w url payload headers of
        Inl e \<Rightarrow> Inl (OtherError e)
      | Inr (status, body) \<Rightarrow> if 200 \<le> status \<and> status < 300 then Inr body else Inl (HttpStatus status),
      tr @ [Posted url payload])"

record finding_row =
  fn_id :: uuid
  fn_scan_id :: uuid
  fn_org_id :: uuid
  fn_signature_id :: string
  fn_threat_name :: string
  fn_threat_type :: string
  fn_severity :: string
  fn_host :: string
  fn_indicator_type :: string
  fn_indicator_value :: string
  fn_context :: json
  fn_mitre_technique :: "string option"
  fn_status :: string
  fn_detected_at :: int

definition mitre_or :: "finding_row \<Rightarrow> string \<Rightarrow> string" where
  "mitre_or f d = (if str_or (fn_mitre_technique f) [] \<noteq> [] then the (fn_mitre_technique f) else d)"

definition mitre_json :: "finding_row \<Rightarrow> json" where
  "mitre_json f = (case fn_mitre_technique f of None \<Rightarrow> JNull | Some m \<Rightarrow> JStr m)"

subsection \<open>SOAR\<close>

definition incident_title :: "string \<Rightarrow> finding_row \<Rightarrow> string" where
  "incident_title incident_number f = ''R3VP '' @ incident_number @ '' - '' @ fn_threat_name f"

definition detected_on :: "finding_row \<Rightarrow> string" where
  "detected_on f = ''R3VP detected '' @ fn_threat_name f @ '' on '' @ fn_host f @ ''. Indicator: '' @
     fn_indicator_type f @ ''='' @ fn_indicator_value f"

definition splunk_payload :: "(uuid \<Rightarrow> string) \<Rightarrow> string \<Rightarrow> finding_row \<Rightarrow> json" where
  "splunk_payload uuid_str incident_number f =
     JObj [(''name'', JStr (incident_title incident_number f)), (''description'', JStr (detected_on f)),
       (''severity'', JStr (case map_of [(''critical'', ''high''), (''high'', ''high''), (''medium'', ''medium''), (''low'', ''low'')]
            (fn_severity f) of None \<Rightarrow> ''medium'' | Some s \<Rightarrow> s)),
       (''sensitivity'', JStr ''amber''), (''tags'', JArr [JStr ''r3vp'', JStr ''auto-generated'']),
       (''custom_fields'', JObj [(''org_id'', JStr (uuid_str (fn_org_id f))), (''r3vp_finding_id'', JStr (uuid_str (fn_id f))),
          (''affected_host'', JStr (fn_host f)), (''mitre_technique'', JStr (mitre_or f []))]),
       (''artifacts'', JArr [JObj [(''name'', JStr ''Threat Indicator''), (''label'', JStr ''artifact''),
          (''cef'', JObj [(''deviceHostname'', JStr (fn_host f)), (''threatName'', JStr (fn_threat_name f)),
             (''indicatorType'', JStr (fn_indicator_type f)), (''indicatorValue'', JStr (fn_indicator_value f)),
             (''mitreId'', JStr (mitre_or f []))])]])]"

definition xsoar_payload :: "(uuid \<Rightarrow> string) \<Rightarrow> string \<Rightarrow> finding_row \<Rightarrow> json" where
  "xsoar_payload uuid_str incident_number f =
     JObj [(''name'', JStr (incident_title incident_number f)), (''type'', JStr ''Malware''),
       (''severity'', JInt (case map_of [(''critical'', 4), (''high'', 3), (''medium'', 2), (''low'', 1)]
            (fn_severity f) of None \<Rightarrow> 2 | Some s \<Rightarrow> s)),
       (''details'', JStr (detected_on f)),
       (''labels'', JArr [JObj [(''type'', JStr ''Instance''), (''value'', JStr (fn_host f))],
          JObj [(''type'', JStr ''r3vp_org''), (''value'', JStr (uuid_str (fn_org_id f)))],
          JObj [(''type'', JStr ''mitre_technique''), (''value'', JStr (mitre_or f []))]]),
       (''CustomFields'', JObj [(''r3vpfindingid'', JStr (uuid_str (fn_id f))), (''affectedhost'', JStr (fn_host f))])]"

text \<open>The shape of both dispatchers: every exception, a refused URL included, gives \<open>None\<close>.\<close>

definition soar_post :: "ir_world \<Rightarrow> json \<Rightarrow> string \<Rightarrow> json \<Rightarrow> dict \<Rightarrow> (sent list, string option) exec" where
  "soar_post w base_url path payload headers tr =
     (case base_url of
        JStr url \<Rightarrow>
          (case assert_safe_url (iw_out w) url of
             Inl _ \<Rightarrow> (Inr None, tr)
           | Inr _ \<Rightarrow>
               (case post_call w (rstrip_slash url @ path) payload headers tr of
                  (Inr (Inr (JObj data)), tr') \<Rightarrow> (Inr (Some (py_str (dget_or data ''id'' (JStr [])))), tr')
                | (_, tr') \<Rightarrow> (Inr None, tr')))
      | _ \<Rightarrow> (Inr None, tr))"

definition dispatch_to_splunk_soar ::
    "ir_world \<Rightarrow> (uuid \<Rightarrow> string) \<Rightarrow> json \<Rightarrow> json \<Rightarrow> string \<Rightarrow> finding_row \<Rightarrow> (sent list, string option) exec" where
  "dispatch_to_splunk_soar w uuid_str base_url api_token incident_number f =
     soar_post w base_url ''/rest/container'' (splunk_payload uuid_str incident_number f)
       [(''ph-auth-token'', api_token), (''Content-Type'', JStr ''application/json'')]"

definition dispatch_to_xsoar ::
    "ir_world \<Rightarrow> (uuid \<Rightarrow> string) \<Rightarrow> json \<Rightarrow> json \<Rightarrow> string \<Rightarrow> finding_row \<Rightarrow> (sent list, string option) exec" where
  "dispatch_to_xsoar w uuid_str base_url api_key incident_number f =
     soar_post w base_url ''/incident'' (xsoar_payload uuid_str incident_number f)
       [(''Authorization'', api_key), (''Content-Type'', JStr ''application/json'')]"

definition dispatch_generic_webhook ::
    "ir_world \<Rightarrow> (uuid \<Rightarrow> string) \<Rightarrow> json \<Rightarrow> string \<Rightarrow> finding_row \<Rightarrow> (sent list, bool) exec" where
  "dispatch_generic_webhook w uuid_str webhook_url incident_number f tr =
     (case webhook_url of
        JStr url \<Rightarrow>
          (case assert_safe_url (iw_out w) url of
             Inl _ \<Rightarrow> (Inr False, tr)
           | Inr _ \<Rightarrow>
               (case post_call w url
                   (JObj [(''source'', JStr ''r3vp''), (''title'', JStr (incident_title incident_number f)),
                      (''severity'', JStr (fn_severity f)), (''affected_host'', JStr (fn_host f)),
                      (''threat_name'', JStr (fn_threat_name f)),
                      (''indicator'', JObj [(''type'', JStr (fn_indicator_type f)), (''value'', JStr (fn_indicator_value f))]),
                      (''mitre_technique'', mitre_json f), (''org_id'', JStr (uuid_str (fn_org_id f))),
                      (''finding_id'', JStr (uuid_str (fn_id f)))]) [] tr of
                  (Inr _, tr') \<Rightarrow> (Inr True, tr')
                | (Inl _, tr') \<Rightarrow> (Inr False, tr')))
      | _ \<Rightarrow> (Inr False, tr))"

definition dispatch_soar ::
    "ir_world \<Rightarrow> (uuid \<Rightarrow> string) \<Rightarrow> finding_row \<Rightarrow> string \<Rightarrow> dict \<Rightarrow> (sent list, string option) exec" where
  "dispatch_soar w uuid_str finding incident_number config =
     (let platform = dget_or config ''platform'' (JStr ''generic'') in
      if platform = JStr ''splunk_soar''
      then seq (lift_result (dsub config ''url'')) (\<lambda>url. seq (lift_result (dsub config ''api_key'')) (\<lambda>key.
           dispatch_to_splunk_soar w uuid_str url key incident_number finding))
      else if platform = JStr ''xsoar''
      then seq (lift_result (dsub config ''url'')) (\<lambda>url. seq (lift_result (dsub config ''api_key'')) (\<lambda>key.
           dispatch_to_xsoar w uuid_str url key incident_number finding))
      else seq (lift_result (dsub config ''url'')) (\<lambda>url.
           seq (dispatch_generic_webhook w uuid_str url incident_number finding) (\<lambda>ok.
           ret (if ok then Some ''dispatched'' else None))))"

subsection \<open>SIEM\<close>

definition siem_severity :: "string \<Rightarrow> string" where
  "siem_severity s =
     (case map_of [(''critical'', ''10''), (''high'', ''8''), (''medium'', ''5''), (''low'', ''2''), (''info'', ''1'')] s of
        None \<Rightarrow> ''5'' | Some n \<Rightarrow> n)"

definition build_cef_event :: "ir_world \<Rightarrow> (uuid \<Rightarrow> string) \<Rightarrow> finding_row \<Rightarrow> string" where
  "build_cef_event w uuid_str f =
     ''CEF:0|R3VP|RecoveryValidation|0.4.0|'' @ fn_signature_id f @ ''|'' @ fn_threat_name f @ ''|'' @
     siem_severity (fn_severity f) @ ''|rt='' @ iw_cef_time w @ '' dhost='' @ fn_host f @
     '' cs1='' @ fn_indicator_type f @ '' cs1Label=IndicatorType cs2='' @ fn_indicator_value f @
     '' cs2Label=IndicatorValue cs3='' @ mitre_or f [] @ '' cs3Label=MITRETechnique cs4='' @
     uuid_str (fn_org_id f) @ '' cs4Label=OrgID cs5='' @ uuid_str (fn_id f) @ '' cs5Label=FindingID''"

definition tab :: string where
  "tab = [CHR 0x09]"

definition build_leef_event :: "ir_world \<Rightarrow> (uuid \<Rightarrow> string) \<Rightarrow> finding_row \<Rightarrow> string" where
  "build_leef_event w uuid_str f =
     ''LEEF:2.0|R3VP|RecoveryValidation|0.4.0|'' @ fn_signature_id f @ ''|devTime='' @ iw_iso_time w @ tab @
     ''sev='' @ siem_severity (fn_severity f) @ tab @ ''dst='' @ fn_host f @ tab @
     ''indicatorType='' @ fn_indicator_type f @ tab @ ''indicatorValue='' @ fn_indicator_value f @ tab @
     ''mitreId='' @ mitre_or f [] @ tab @ ''orgId='' @ uuid_str (fn_org_id f) @ tab @ ''findingId='' @ uuid_str (fn_id f)"

definition json_event :: "(uuid \<Rightarrow> string) \<Rightarrow> finding_row \<Rightarrow> string" where
  "json_event uuid_str f = dumps (JObj [(''source'', JStr ''r3vp''), (''event'', JStr ''threat_detected''),
     (''threat_name'', JStr (fn_threat_name f)), (''severity'', JStr (fn_severity f)),
     (''affected_host'', JStr (fn_host f)), (''indicator_type'', JStr (fn_indicator_type f)),
     (''indicator_value'', JStr (fn_indicator_value f)), (''mitre_technique'', mitre_json f),
     (''org_id'', JStr (uuid_str (fn_org_id f))), (''finding_id'', JStr (uuid_str (fn_id f)))])"

definition send_syslog :: "ir_world \<Rightarrow> json \<Rightarrow> int \<Rightarrow> string \<Rightarrow> json \<Rightarrow> bool" where
  "send_syslog w h port message protocol =
     (case protocol of
        JStr p \<Rightarrow> (case iw_syslog w h port (lower p = ''tcp'')
              (''<134>1 '' @ iw_syslog_time w @ '' r3vp-appliance R3VP - - - '' @ message @ ''\<newline>'') of
             Inr _ \<Rightarrow> True | Inl _ \<Rightarrow> False)
      | _ \<Rightarrow> False)"

definition emit_threat_event ::
    "ir_world \<Rightarrow> (uuid \<Rightarrow> string) \<Rightarrow> json \<Rightarrow> int \<Rightarrow> json \<Rightarrow> json \<Rightarrow> finding_row \<Rightarrow> bool result" where
  "emit_threat_event w uuid_str h port protocol format f =
     and_then (as_str format) (\<lambda>fmt.
     let msg = (if lower fmt = ''cef'' then build_cef_event w uuid_str f
                else if lower fmt = ''leef'' then build_leef_event w uuid_str f
                else json_event uuid_str f)
     in Inr (send_syslog w h port msg protocol))"

definition emit_siem :: "ir_world \<Rightarrow> (uuid \<Rightarrow> string) \<Rightarrow> finding_row \<Rightarrow> dict \<Rightarrow> bool result" where
  "emit_siem w uuid_str finding config =
     and_then (dsub config ''host'') (\<lambda>h.
     and_then (to_int (dget_or config ''port'' (JInt 514))) (\<lambda>port.
     emit_threat_event w uuid_str h port (dget_or config ''protocol'' (JStr ''udp''))
       (dget_or config ''format'' (JStr ''cef'')) finding))"

subsection \<open>VeeamONE\<close>

record veeamone_client =
  vo_base_url :: string
  vo_username :: json
  vo_password :: json
  vo_token :: json

text \<open>A call of the client: its token and the requests sent are the state.\<close>

definition authenticate :: "ir_world \<Rightarrow> veeamone_client \<Rightarrow> sent list \<Rightarrow> (http_error + veeamone_client) \<times> sent list" where
  "authenticate w c tr =
     (case post_call w (vo_base_url c @ ''/api/token'')
         (JObj [(''grant_type'', JStr ''password''), (''username'', vo_username c), (''password'', vo_password c)]) [] tr of
        (Inl e, tr') \<Rightarrow> (Inl e, tr')
      | (Inr (Inl e), tr') \<Rightarrow> (Inl (OtherError e), tr')
      | (Inr (Inr body), tr') \<Rightarrow>
          (case and_then (as_dict body) (\<lambda>d. dsub d ''access_token'') of
             Inl e \<Rightarrow> (Inl (OtherError e), tr')
           | Inr t \<Rightarrow> (Inr (c\<lparr>vo_token := t\<rparr>), tr')))"

definition with_token :: "ir_world \<Rightarrow> veeamone_client \<Rightarrow> sent list \<Rightarrow> (http_error + veeamone_client) \<times> sent list" where
  "with_token w c tr = (if truthy (vo_token c) then (Inr c, tr) else authenticate w c tr)"

definition post_alarm :: "ir_world \<Rightarrow> veeamone_client \<Rightarrow> json \<Rightarrow> sent list \<Rightarrow> (http_error + veeamone_client) \<times> sent list" where
  "post_alarm w c payload tr =
     (case with_token w c tr of
        (Inl e, tr') \<Rightarrow> (Inl e, tr')
      | (Inr c', tr') \<Rightarrow>
          (case post_call w (vo_base_url c' @ ''/api/v2/alarms/customAlarms'') payload
              [(''Authorization'', JStr (''Bearer '' @ py_str (vo_token c'))), (''Content-Type'', JStr ''application/json'')] tr' of
             (Inl e, tr'') \<Rightarrow> (Inl e, tr'')
           | (Inr _, tr'') \<Rightarrow> (Inr c', tr'')))"

definition post_event :: "ir_world \<Rightarrow> veeamone_client \<Rightarrow> json \<Rightarrow> sent list \<Rightarrow> bool \<times> sent list" where
  "post_event w c payload tr =
     (case post_alarm w c payload tr of
        (Inr _, tr') \<Rightarrow> (True, tr')
      | (Inl (HttpStatus status), tr') \<Rightarrow>
          if status = 401
          then (case post_alarm w (c\<lparr>vo_token := JNull\<rparr>) payload tr' of
                  (Inr _, tr'') \<Rightarrow> (True, tr'')
                | (Inl _, tr'') \<Rightarrow> (False, tr''))
          else (False, tr')
      | (Inl (OtherError e), tr') \<Rightarrow> (False, tr'))"

definition or_na :: "int option \<Rightarrow> string" where
  "or_na v = (case v of None \<Rightarrow> ''N/A'' | Some n \<Rightarrow> if n = 0 then ''N/A'' else show_int n)"

definition report_recovery_test ::
    "ir_world \<Rightarrow> veeamone_client \<Rightarrow> string \<Rightarrow> bool \<Rightarrow> int \<Rightarrow> int \<Rightarrow> int option \<Rightarrow> int option \<Rightarrow> string \<Rightarrow> string
       \<Rightarrow> sent list \<Rightarrow> bool \<times> sent list" where
  "report_recovery_test w c workload_name test_passed rto_actual rpo_actual rto_target rpo_target run_id org_id =
     post_event w c (JObj [(''alarmName'', JStr ''R3VP Recovery Test''), (''objectName'', JStr workload_name),
       (''status'', JStr (if test_passed then ''Resolved'' else ''Error'')),
       (''message'', JStr (''R3VP recovery test '' @ (if test_passed then ''passed'' else ''failed'') @ '' for '' @ workload_name @
          ''. RTO: '' @ show_int rto_actual @ ''m (target: '' @ or_na rto_target @ ''m), RPO: '' @ show_int rpo_actual @
          ''m (target: '' @ or_na rpo_target @ ''m). Run ID: '' @ run_id)),
       (''customFields'', JObj [(''r3vp_run_id'', JStr run_id), (''r3vp_org_id'', JStr org_id),
          (''rto_actual_mins'', JInt rto_actual), (''rpo_actual_mins'', JInt rpo_actual)])])"

definition threat_alarm :: "(uuid \<Rightarrow> string) \<Rightarrow> finding_row \<Rightarrow> uuid \<Rightarrow> json" where
  "threat_alarm uuid_str f org_id =
     JObj [(''alarmName'', JStr ''R3VP Threat Detection''), (''objectName'', JStr (fn_host f)),
       (''status'', JStr (if fn_severity f = ''critical'' \<or> fn_severity f = ''high'' then ''Error'' else ''Warning'')),
       (''message'', JStr (''R3VP detected threat on '' @ fn_host f @ '': '' @ fn_threat_name f @ ''. Severity: '' @
          fn_severity f @ ''. MITRE: '' @ mitre_or f ''N/A'' @ ''. Finding ID: '' @ uuid_str (fn_id f))),
       (''customFields'', JObj [(''r3vp_finding_id'', JStr (uuid_str (fn_id f))), (''r3vp_org_id'', JStr (uuid_str org_id)),
          (''threat_name'', JStr (fn_threat_name f)), (''severity'', JStr (fn_severity f))])]"

definition report_veeamone ::
    "ir_world \<Rightarrow> (uuid \<Rightarrow> string) \<Rightarrow> finding_row \<Rightarrow> uuid \<Rightarrow> dict \<Rightarrow> (sent list, bool) exec" where
  "report_veeamone w uuid_str finding org_id config =
     seq (lift_result (dsub config ''url'')) (\<lambda>url.
     seq (lift_result (dsub config ''username'')) (\<lambda>username.
     seq (lift_result (dsub config ''password'')) (\<lambda>password.
     seq (lift_result (as_str url)) (\<lambda>base_url tr.
       (case post_event w \<lparr>vo_base_url = rstrip_slash base_url, vo_username = username, vo_password = password,
              vo_token = JNull\<rparr> (threat_alarm uuid_str finding org_id) tr of
          (ok, tr') \<Rightarrow> (Inr ok, tr'))))))"

subsection \<open>The incident\<close>

record log_entry =
  le_step :: string
  le_detail :: string
  le_success :: bool
  le_ts :: string

record incident_row =
  ii_id :: uuid
  ii_org_id :: uuid
  ii_incident_number :: string
  ii_title :: string
  ii_severity :: string
  ii_status :: string
  ii_affected_host :: string
  ii_threat_name :: string
  ii_finding_id :: "uuid option"
  ii_backup_triggered :: bool
  ii_backup_job_id :: "string option"
  ii_soar_dispatched :: bool
  ii_soar_incident_id :: "string option"
  ii_siem_dispatched :: bool
  ii_veeamone_reported :: bool
  ii_notifications_sent :: bool
  ii_ir_log :: "log_entry list"
  ii_created_at :: int
  ii_resolved_at :: "int option"

record ir_state =
  is_incident :: incident_row
  is_log :: "log_entry list"
  is_sent :: "sent list"

definition log_step :: "ir_world \<Rightarrow> string \<Rightarrow> string \<Rightarrow> bool \<Rightarrow> (ir_state, unit) exec" where
  "log_step w step detail success =
     update (\<lambda>s. s\<lparr>is_log := is_log s @
       [\<lparr>le_step = step, le_detail = detail, le_success = success, le_ts = iw_clock w (length (is_log s))\<rparr>]\<rparr>)"

definition set_incident :: "(incident_row \<Rightarrow> incident_row) \<Rightarrow> (ir_state, unit) exec" where
  "set_incident f = update (\<lambda>s. s\<lparr>is_incident := f (is_incident s)\<rparr>)"

definition sending :: "(sent list, 'a) exec \<Rightarrow> (ir_state, 'a) exec" where
  "sending m s = (case m (is_sent s) of (r, tr) \<Rightarrow> (r, s\<lparr>is_sent := tr\<rparr>))"

text \<open>\<open>try: m except Exception as exc: _log_step(step, prefix + str(exc), success=False)\<close>\<close>

definition or_log :: "ir_world \<Rightarrow> string \<Rightarrow> string \<Rightarrow> (ir_state, unit) exec \<Rightarrow> (ir_state, unit) exec" where
  "or_log w step label m = try_except m (\<lambda>exc. log_step w step (label @ exn_text exc) False)"

definition trigger_backup :: "string \<Rightarrow> string result" where
  "trigger_backup hex8 = Inr (''veeam-backup-'' @ hex8)"

definition backup_step :: "ir_world \<Rightarrow> string \<Rightarrow> (ir_state, unit) exec" where
  "backup_step w hex8 = or_log w ''backup_triggered'' ''Backup trigger failed: ''
     (seq (lift_result (trigger_backup hex8)) (\<lambda>job.
      seq (set_incident (\<lambda>i. i\<lparr>ii_backup_triggered := True, ii_backup_job_id := Some job\<rparr>)) (\<lambda>_.
      log_step w ''backup_triggered'' (''Pre-incident backup started. Job ID: '' @ job) True)))"

definition soar_step :: "ir_world \<Rightarrow> (uuid \<Rightarrow> string) \<Rightarrow> finding_row \<Rightarrow> string \<Rightarrow> dict \<Rightarrow> (ir_state, unit) exec" where
  "soar_step w uuid_str finding incident_number config =
     (if config = [] then ret ()
      else or_log w ''soar_dispatched'' ''SOAR dispatch failed: ''
        (seq (sending (dispatch_soar w uuid_str finding incident_number config)) (\<lambda>soar_id.
         if str_or soar_id [] \<noteq> []
         then seq (set_incident (\<lambda>i. i\<lparr>ii_soar_dispatched := True, ii_soar_incident_id := soar_id\<rparr>)) (\<lambda>_.
              log_step w ''soar_dispatched'' (''SOAR incident created: '' @ str_or soar_id []) True)
         else ret ())))"

definition siem_step :: "ir_world \<Rightarrow> (uuid \<Rightarrow> string) \<Rightarrow> finding_row \<Rightarrow> dict \<Rightarrow> (ir_state, unit) exec" where
  "siem_step w uuid_str finding config =
     (if config = [] then ret ()
      else or_log w ''siem_dispatched'' ''SIEM emit failed: ''
        (seq (lift_result (emit_siem w uuid_str finding config)) (\<lambda>ok.
         seq (set_incident (\<lambda>i. i\<lparr>ii_siem_dispatched := ok\<rparr>)) (\<lambda>_.
         log_step w ''siem_dispatched'' (if ok then ''SIEM event forwarded'' else ''SIEM emit failed'') ok))))"

definition veeamone_step ::
    "ir_world \<Rightarrow> (uuid \<Rightarrow> string) \<Rightarrow> finding_row \<Rightarrow> uuid \<Rightarrow> dict \<Rightarrow> (ir_state, unit) exec" where
  "veeamone_step w uuid_str finding org_id config =
     (if config = [] then ret ()
      else or_log w ''veeamone_reported'' ''VeeamONE failed: ''
        (seq (sending (report_veeamone w uuid_str finding org_id config)) (\<lambda>ok.
         seq (set_incident (\<lambda>i. i\<lparr>ii_veeamone_reported := ok\<rparr>)) (\<lambda>_.
         log_step w ''veeamone_reported'' (if ok then ''VeeamONE event sent'' else ''VeeamONE failed'') ok))))"

definition notify_channel :: "ir_world \<Rightarrow> string \<Rightarrow> string \<Rightarrow> dict \<Rightarrow> (sent list, unit) exec" where
  "notify_channel w incident_number msg ch =
     seq (lift_result (iterate (dget_or ch ''events'' (JArr [])))) (\<lambda>events.
     seq (lift_result (map_result hashable events)) (\<lambda>_.
     if JStr ''threat_detected'' \<notin> set events \<or> \<not> truthy (dget ch ''enabled'') then ret ()
     else best_effort
       (let t = dget_or ch ''channel_type'' (JStr []); dest = dget_or ch ''destination'' (JStr []);
            label = ''Incident '' @ incident_number
        in if t = JStr ''slack'' then str_arg dest (\<lambda>d. send_slack (iw_out w) d label incident_number msg)
           else if t = JStr ''teams'' then str_arg dest (\<lambda>d. send_teams (iw_out w) d label incident_number msg)
           else if t = JStr ''email''
           then str_arg dest (\<lambda>d. send_email_ses (iw_out w) d (''R3VP Incident: '' @ incident_number) incident_number msg)
           else ret ())))"

definition incident_message :: "finding_row \<Rightarrow> string \<Rightarrow> string" where
  "incident_message f incident_number =
     ''*INCIDENT '' @ incident_number @ ''*: '' @ fn_threat_name f @ '' detected on '' @ fn_host f @ ''. Severity: '' @
     upper (fn_severity f) @ ''. IR workflow triggered automatically.''"

definition send_incident_notifications :: "ir_world \<Rightarrow> finding_row \<Rightarrow> string \<Rightarrow> dict list \<Rightarrow> (sent list, unit) exec" where
  "send_incident_notifications w finding incident_number channels =
     for_each (notify_channel w incident_number (incident_message finding incident_number)) channels"

definition notifications_step :: "ir_world \<Rightarrow> finding_row \<Rightarrow> string \<Rightarrow> dict list \<Rightarrow> (ir_state, unit) exec" where
  "notifications_step w finding incident_number channels =
     (if channels = [] then ret ()
      else or_log w ''notifications_sent'' ''Notifications failed: ''
        (seq (sending (send_incident_notifications w finding incident_number channels)) (\<lambda>_.
         seq (set_incident (\<lambda>i. i\<lparr>ii_notifications_sent := True\<rparr>)) (\<lambda>_.
         log_step w ''notifications_sent'' ''Notification channels notified'' True))))"

text \<open>The format \<open>04d\<close> of a positive number.\<close>

definition pad4 :: "nat \<Rightarrow> string" where
  "pad4 n = (let s = show_nat n in replicate (4 - length s) (CHR ''0'') @ s)"

record ir_config =
  cf_soar :: dict
  cf_siem :: dict
  cf_veeamone :: dict
  cf_channels :: "dict list"

record ir_db =
  id_incidents :: "incident_row list"
  id_sent :: "sent list"

definition new_incident :: "int \<Rightarrow> finding_row \<Rightarrow> uuid \<Rightarrow> uuid \<Rightarrow> string \<Rightarrow> incident_row" where
  "new_incident created finding org_id new_id incident_number =
     \<lparr>ii_id = new_id, ii_org_id = org_id, ii_incident_number = incident_number,
      ii_title = upper (fn_severity finding) @ '' - '' @ fn_threat_name finding @ '' on '' @ fn_host finding,
      ii_severity = fn_severity finding, ii_status = ''active'', ii_affected_host = fn_host finding, ii_threat_name = fn_threat_name finding,
      ii_finding_id = Some (fn_id finding), ii_backup_triggered = False, ii_backup_job_id = None,
      ii_soar_dispatched = False, ii_soar_incident_id = None, ii_siem_dispatched = False,
      ii_veeamone_reported = False, ii_notifications_sent = False, ii_ir_log = [],
      ii_created_at = created, ii_resolved_at = None\<rparr>"

definition response_steps ::
    "ir_world \<Rightarrow> (uuid \<Rightarrow> string) \<Rightarrow> finding_row \<Rightarrow> uuid \<Rightarrow> string \<Rightarrow> string \<Rightarrow> ir_config \<Rightarrow> (ir_state, unit) exec" where
  "response_steps w uuid_str finding org_id incident_number hex8 cfg =
     seq (log_step w ''threat_detected'' (fn_threat_name finding @ '' matched on '' @ fn_host finding) True) (\<lambda>_.
     seq (backup_step w hex8) (\<lambda>_.
     seq (soar_step w uuid_str finding incident_number (cf_soar cfg)) (\<lambda>_.
     seq (siem_step w uuid_str finding (cf_siem cfg)) (\<lambda>_.
     seq (veeamone_step w uuid_str finding org_id (cf_veeamone cfg)) (\<lambda>_.
     notifications_step w finding incident_number (cf_channels cfg))))))"

definition handle_threat_finding ::
    "ir_world \<Rightarrow> (uuid \<Rightarrow> string) \<Rightarrow> finding_row \<Rightarrow> uuid \<Rightarrow> uuid \<Rightarrow> string \<Rightarrow> ir_config \<Rightarrow> (ir_db, incident_row) exec" where
  "handle_threat_finding w uuid_str finding org_id new_id hex8 cfg db =
     (let count = count_if (\<lambda>i. ii_org_id i = org_id) (id_incidents db);
          incident_number = ''INC-'' @ pad4 (count + 1);
          (r, s) = response_steps w uuid_str finding org_id incident_number hex8 cfg
             \<lparr>is_incident = new_incident (iw_now w) finding org_id new_id incident_number, is_log = [], is_sent = id_sent db\<rparr>
      in case r of
           Inl e \<Rightarrow> (Inl e, db\<lparr>id_sent := is_sent s\<rparr>)
         | Inr _ \<Rightarrow>
             let incident = (is_incident s)\<lparr>ii_ir_log := is_log s\<rparr>
             in (Inr incident, \<lparr>id_incidents = id_incidents db @ [incident], id_sent = is_sent s\<rparr>))"

text \<open>The channels of an incident are a sender; a channel whose events are not a list of texts may raise.\<close>

interpretation incident: sender "iw_out w" "notify_channel w n msg" for w n msg
proof unfold_locales
  show "appends (notify_channel w n msg ch)" for ch
    unfolding notify_channel_def sender_defs Let_def by (intro appends_intros)
  show "stays_guarded (iw_out w) (notify_channel w n msg ch)" for ch
    unfolding notify_channel_def send_slack_def send_teams_def Let_def by (simp add: stays_guarded_intros)
qed

lemma incident_notifications_guarded:
  "guarded (iw_out w) (snd (send_incident_notifications w finding n channels []))"
  unfolding send_incident_notifications_def by (rule incident.all_guarded)

subsection \<open>The log against the incident\<close>

definition logged :: "string \<Rightarrow> log_entry list \<Rightarrow> bool" where
  "logged step entries \<longleftrightarrow> list_ex (\<lambda>e. le_step e = step \<and> le_success e) entries"

text \<open>The flag a step sets, by the name the step has in the log.\<close>

definition flag_of :: "string \<Rightarrow> incident_row \<Rightarrow> bool" where
  "flag_of t i =
     (if t = ''backup_triggered'' then ii_backup_triggered i else if t = ''soar_dispatched'' then ii_soar_dispatched i
      else if t = ''siem_dispatched'' then ii_siem_dispatched i
      else if t = ''veeamone_reported'' then ii_veeamone_reported i else ii_notifications_sent i)"

definition flag_names :: "string list" where
  "flag_names = [''backup_triggered'', ''soar_dispatched'', ''siem_dispatched'', ''veeamone_reported'', ''notifications_sent'']"

text \<open>A flag of the incident is set exactly when the log has a successful entry of its step.\<close>

definition flags_match :: "incident_row \<Rightarrow> log_entry list \<Rightarrow> bool" where
  "flags_match i l \<longleftrightarrow> list_all (\<lambda>t. flag_of t i = logged t l) flag_names"

text \<open>The incident without the outcome of its steps.\<close>

definition bare :: "incident_row \<Rightarrow> incident_row" where
  "bare i = i\<lparr>ii_backup_triggered := False, ii_backup_job_id := None, ii_soar_dispatched := False,
     ii_soar_incident_id := None, ii_siem_dispatched := False, ii_veeamone_reported := False,
     ii_notifications_sent := False, ii_ir_log := []\<rparr>"

text \<open>
  Between two steps: the log accounts for every flag, it has no entry yet of the steps still to
  come, it extends an earlier log, and the rest of the incident is what it was.
\<close>

definition unlogged :: "string \<Rightarrow> log_entry list \<Rightarrow> bool" where
  "unlogged t l \<longleftrightarrow> list_all (\<lambda>e. le_step e \<noteq> t) l"

definition on_track :: "incident_row \<Rightarrow> log_entry list \<Rightarrow> string list \<Rightarrow> ir_state \<Rightarrow> bool" where
  "on_track i0 l0 later s \<longleftrightarrow> flags_match (is_incident s) (is_log s) \<and> list_all (\<lambda>t. unlogged t (is_log s)) later \<and>
     prefix l0 (is_log s) \<and> bare (is_incident s) = i0"

lemma logged_snoc [simp]: "logged t (l @ [e]) \<longleftrightarrow> logged t l \<or> (le_step e = t \<and> le_success e)"
  by (auto simp: logged_def)

lemma unlogged_snoc [simp]: "unlogged t (l @ [e]) \<longleftrightarrow> unlogged t l \<and> le_step e \<noteq> t"
  by (simp add: unlogged_def)

lemma unlogged_logged: "unlogged t l \<Longrightarrow> \<not> logged t l"
  by (auto simp: logged_def unlogged_def list_all_iff list_ex_iff)

lemma on_track_entry:
  assumes "on_track i0 l0 (t # later) s" and "t \<notin> set later" and "le_step e = t" and "t \<in> set flag_names"
    and "list_all (\<lambda>u. u \<noteq> t \<longrightarrow> flag_of u inc = flag_of u (is_incident s)) flag_names"
    and "flag_of t inc = le_success e" and "bare inc = bare (is_incident s)"
  shows "on_track i0 l0 later \<lparr>is_incident = inc, is_log = is_log s @ [e], is_sent = tr\<rparr>"
proof -
  have none: "\<not> logged t (is_log s)" using assms(1) by (simp add: on_track_def unlogged_logged)
  have "flags_match inc (is_log s @ [e])"
    unfolding flags_match_def list_all_iff
  proof
    fix u
    assume u: "u \<in> set flag_names"
    show "flag_of u inc = logged u (is_log s @ [e])"
    proof (cases "u = t")
      case True
      then show ?thesis using assms none by simp
    next
      case False
      moreover have "flag_of u (is_incident s) = logged u (is_log s)"
        using assms(1) u by (simp add: on_track_def flags_match_def list_all_iff)
      ultimately show ?thesis using assms(3, 5) u by (simp add: list_all_iff)
    qed
  qed
  moreover have "list_all (\<lambda>u. unlogged u (is_log s @ [e])) later"
    using assms(1-3) by (auto simp: on_track_def list_all_iff)
  ultimately show ?thesis using assms(1, 7) by (simp add: on_track_def)
qed

text \<open>A step that leaves the incident and the log alone, or adds one entry of its own and sets its flag by it.\<close>

definition own_change :: "string \<Rightarrow> ir_state \<Rightarrow> ir_state \<Rightarrow> bool" where
  "own_change t s s' \<longleftrightarrow> is_incident s' = is_incident s \<and> is_log s' = is_log s \<or>
     (\<exists>e. is_log s' = is_log s @ [e] \<and> le_step e = t \<and> bare (is_incident s') = bare (is_incident s) \<and>
        (if le_success e then flag_of t (is_incident s') else is_incident s' = is_incident s \<or> \<not> flag_of t (is_incident s')) \<and>
        list_all (\<lambda>u. u \<noteq> t \<longrightarrow> flag_of u (is_incident s') = flag_of u (is_incident s)) flag_names)"

definition own_entry :: "string \<Rightarrow> (ir_state, unit) exec \<Rightarrow> bool" where
  "own_entry t m \<longleftrightarrow> (\<forall>s. fst (m s) = Inr () \<and> own_change t s (snd (m s)))"

lemma own_change_keeps:
  assumes s: "on_track i0 l0 (t # later) s" "t \<notin> set later" and t: "t \<in> set flag_names" and s': "own_change t s s'"
  shows "on_track i0 l0 later s'"
  using s' unfolding own_change_def
proof (elim disjE exE)
  assume "is_incident s' = is_incident s \<and> is_log s' = is_log s"
  then show ?thesis using s(1) by (simp add: on_track_def)
next
  fix e
  assume e: "is_log s' = is_log s @ [e] \<and> le_step e = t \<and> bare (is_incident s') = bare (is_incident s) \<and>
        (if le_success e then flag_of t (is_incident s') else is_incident s' = is_incident s \<or> \<not> flag_of t (is_incident s')) \<and>
        list_all (\<lambda>u. u \<noteq> t \<longrightarrow> flag_of u (is_incident s') = flag_of u (is_incident s)) flag_names"
  have "\<not> flag_of t (is_incident s)"
    using s(1) t by (auto simp: on_track_def flags_match_def list_all_iff unlogged_logged)
  then have "flag_of t (is_incident s') = le_success e" using e by (auto split: if_splits)
  then have "on_track i0 l0 later \<lparr>is_incident = is_incident s', is_log = is_log s @ [e], is_sent = is_sent s'\<rparr>"
    using on_track_entry [OF s _ t] e by blast
  then show ?thesis using e by (cases s') simp
qed

definition accounted :: "incident_row \<Rightarrow> log_entry list \<Rightarrow> unit result \<times> ir_state \<Rightarrow> bool" where
  "accounted i0 l0 x \<longleftrightarrow> fst x = Inr () \<and> on_track i0 l0 [] (snd x)"

lemma own_entry_seq:
  assumes "own_entry t m" and "t \<in> set flag_names" and "t \<notin> set later" and "on_track i0 l0 (t # later) s"
    and "\<And>s'. on_track i0 l0 later s' \<Longrightarrow> accounted i0 l0 (k () s')"
  shows "accounted i0 l0 (seq m k s)"
proof -
  have "fst (m s) = Inr ()" and "on_track i0 l0 later (snd (m s))"
    using assms(1) own_change_keeps [OF assms(4,3,2)] unfolding own_entry_def by blast+
  then show ?thesis using assms(5) by (cases "m s") (simp add: seq_def)
qed

lemmas step_simps = own_change_def log_step_def set_incident_def update_def seq_def ret_def try_except_def or_log_def
  sending_def lift_result_def bare_def flag_of_def flag_names_def

lemma own_backup: "own_entry ''backup_triggered'' (backup_step w hex8)"
  unfolding own_entry_def backup_step_def trigger_backup_def by (simp add: step_simps)

lemma own_soar: "own_entry ''soar_dispatched'' (soar_step w uuid_str finding n cfg)"
  unfolding own_entry_def
proof
  fix s :: ir_state
  obtain r tr where r: "dispatch_soar w uuid_str finding n cfg (is_sent s) = (r, tr)" by fastforce
  show "fst (soar_step w uuid_str finding n cfg s) = Inr () \<and>
      own_change ''soar_dispatched'' s (snd (soar_step w uuid_str finding n cfg s))"
    by (cases "cfg = []"; cases r) (simp_all add: soar_step_def step_simps r)
qed

lemma own_siem: "own_entry ''siem_dispatched'' (siem_step w uuid_str finding cfg)"
  unfolding own_entry_def
proof
  fix s :: ir_state
  show "fst (siem_step w uuid_str finding cfg s) = Inr () \<and>
      own_change ''siem_dispatched'' s (snd (siem_step w uuid_str finding cfg s))"
    by (cases "cfg = []"; cases "emit_siem w uuid_str finding cfg") (simp_all add: siem_step_def step_simps)
qed

lemma own_veeamone: "own_entry ''veeamone_reported'' (veeamone_step w uuid_str finding org_id cfg)"
  unfolding own_entry_def
proof
  fix s :: ir_state
  obtain r tr where r: "report_veeamone w uuid_str finding org_id cfg (is_sent s) = (r, tr)" by fastforce
  show "fst (veeamone_step w uuid_str finding org_id cfg s) = Inr () \<and>
      own_change ''veeamone_reported'' s (snd (veeamone_step w uuid_str finding org_id cfg s))"
    by (cases "cfg = []"; cases r) (simp_all add: veeamone_step_def step_simps r)
qed

lemma own_notifications: "own_entry ''notifications_sent'' (notifications_step w finding n chs)"
  unfolding own_entry_def
proof
  fix s :: ir_state
  obtain r tr where r: "send_incident_notifications w finding n chs (is_sent s) = (r, tr)" by fastforce
  show "fst (notifications_step w finding n chs s) = Inr () \<and>
      own_change ''notifications_sent'' s (snd (notifications_step w finding n chs s))"
    by (cases "chs = []"; cases r) (simp_all add: notifications_step_def step_simps r)
qed

lemma flags_match_new: "flags_match (new_incident c f o_id i n) []"
  by (simp add: flags_match_def flag_names_def flag_of_def logged_def new_incident_def)

definition first_entries :: "ir_world \<Rightarrow> finding_row \<Rightarrow> string \<Rightarrow> log_entry list" where
  "first_entries w finding hex8 =
     [\<lparr>le_step = ''threat_detected'', le_detail = fn_threat_name finding @ '' matched on '' @ fn_host finding,
       le_success = True, le_ts = iw_clock w 0\<rparr>,
      \<lparr>le_step = ''backup_triggered'', le_detail = ''Pre-incident backup started. Job ID: veeam-backup-'' @ hex8,
       le_success = True, le_ts = iw_clock w 1\<rparr>]"

lemma dispatch_steps_account:
  assumes "on_track i0 l0 [''soar_dispatched'', ''siem_dispatched'', ''veeamone_reported'', ''notifications_sent''] s"
  shows "accounted i0 l0 (seq (soar_step w uuid_str finding n (cf_soar cfg)) (\<lambda>_.
     seq (siem_step w uuid_str finding (cf_siem cfg)) (\<lambda>_.
     seq (veeamone_step w uuid_str finding org_id (cf_veeamone cfg)) (\<lambda>_.
     notifications_step w finding n (cf_channels cfg)))) s)"
proof -
  have last: "accounted i0 l0 (notifications_step w finding n (cf_channels cfg) s')"
    if "on_track i0 l0 [''notifications_sent''] s'" for s'
    using own_change_keeps [OF that] own_notifications [of w finding n "cf_channels cfg"]
    by (simp add: own_entry_def flag_names_def accounted_def)
  show ?thesis
    apply (rule own_entry_seq [OF own_soar])
       apply (simp add: flag_names_def)
    prefer 2 apply (rule assms)
     apply simp
    apply (rule own_entry_seq [OF own_siem])
    apply (simp add: flag_names_def)
    prefer 2 apply assumption
     apply simp
    apply (rule own_entry_seq [OF own_veeamone])
    apply (simp add: flag_names_def)
    prefer 2 apply assumption
     apply simp
    apply (erule last)
    done
qed

lemma response_steps_account:
  "accounted (new_incident (iw_now w) finding org_id new_id n) (first_entries w finding hex8)
     (response_steps w uuid_str finding org_id n hex8 cfg
        \<lparr>is_incident = new_incident (iw_now w) finding org_id new_id n, is_log = [], is_sent = tr\<rparr>)"
proof -
  have start: "on_track (new_incident (iw_now w) finding org_id new_id n) (first_entries w finding hex8)
      [''soar_dispatched'', ''siem_dispatched'', ''veeamone_reported'', ''notifications_sent'']
      \<lparr>is_incident = (new_incident (iw_now w) finding org_id new_id n)
          \<lparr>ii_backup_triggered := True, ii_backup_job_id := Some (''veeam-backup-'' @ hex8)\<rparr>,
        is_log = first_entries w finding hex8, is_sent = tr\<rparr>"
    by (simp add: on_track_def flags_match_def flag_names_def flag_of_def logged_def unlogged_def new_incident_def
        bare_def first_entries_def)
  from dispatch_steps_account [OF start, of w uuid_str finding n cfg org_id] show ?thesis
    unfolding response_steps_def
    by (simp add: backup_step_def trigger_backup_def log_step_def set_incident_def update_def seq_def try_except_def
        or_log_def lift_result_def first_entries_def)
qed

lemma handling_records_incident:
  assumes "number = ''INC-'' @ pad4 (count_if (\<lambda>i. ii_org_id i = org_id) (id_incidents db) + 1)"
  shows "\<exists>incident db'. handle_threat_finding w uuid_str finding org_id new_id hex_id cfg db = (Inr incident, db') \<and>
     id_incidents db' = id_incidents db @ [incident] \<and>
     bare incident = new_incident (iw_now w) finding org_id new_id number \<and>
     flags_match incident (ii_ir_log incident) \<and> ii_backup_triggered incident \<and>
     map le_step (take 2 (ii_ir_log incident)) = [''threat_detected'', ''backup_triggered'']"
proof -
  let ?n = "''INC-'' @ pad4 (count_if (\<lambda>i. ii_org_id i = org_id) (id_incidents db) + 1)"
  let ?s0 = "\<lparr>is_incident = new_incident (iw_now w) finding org_id new_id ?n, is_log = [], is_sent = id_sent db\<rparr>"
  obtain r s where run: "response_steps w uuid_str finding org_id ?n hex_id cfg ?s0 = (r, s)" by fastforce
  have acc: "accounted (new_incident (iw_now w) finding org_id new_id ?n) (first_entries w finding hex_id) (r, s)"
    using response_steps_account [where w = w and finding = finding and org_id = org_id and new_id = new_id and n = ?n
        and uuid_str = uuid_str and cfg = cfg and tr = "id_sent db"] run by (metis)
  then have r: "r = Inr ()" and track: "flags_match (is_incident s) (is_log s)"
      "bare (is_incident s) = new_incident (iw_now w) finding org_id new_id ?n"
    by (simp_all add: accounted_def on_track_def)
  obtain e1 e2 more where log: "is_log s = e1 # e2 # more" and e: "le_step e1 = ''threat_detected''"
      "le_step e2 = ''backup_triggered''" "le_success e2"
    using acc by (auto simp: accounted_def on_track_def prefix_def first_entries_def)
  have "flag_of ''backup_triggered'' (is_incident s)"
    using track(1) log e unfolding flags_match_def by (simp add: flag_names_def logged_def)
  then show ?thesis
    using r track run log e
    by (simp add: assms handle_threat_finding_def Let_def flags_match_def flag_names_def flag_of_def bare_def)
qed

text \<open>C18: up to the column widths of the database, handling a threat finding always succeeds,
  whatever the SOAR platform, the SIEM, VeeamONE and the notification channels answer or raise. Exactly one incident is stored; it is numbered
  one past the organisation's incidents so far and its facts are those of the finding; the log
  starts with the detection and the pre-incident backup, whose flag is set; and a dispatch flag
  is set exactly when the log has a successful entry of that step.
\<close>

theorem incident_always_recorded:
  "let number = ''INC-'' @ pad4 (count_if (\<lambda>i. ii_org_id i = org_id) (id_incidents db) + 1);
       (r, db') = handle_threat_finding w uuid_str finding org_id new_id hex8 cfg db
   in \<exists>incident. r = Inr incident \<and> id_incidents db' = id_incidents db @ [incident] \<and>
        bare incident = new_incident (iw_now w) finding org_id new_id number \<and>
        flags_match incident (ii_ir_log incident) \<and> ii_backup_triggered incident \<and>
        map le_step (take 2 (ii_ir_log incident)) = [''threat_detected'', ''backup_triggered'']"
  unfolding Let_def using handling_records_incident [OF refl, where w = w and uuid_str = uuid_str and finding = finding and new_id = new_id and hex_id = hex8 and cfg = cfg and org_id = org_id and db = db]
  by (elim exE conjE) simp

subsection \<open>Incident numbers\<close>

lemma nat_of_digit_char:
  assumes "0 \<le> d" and "d < 10" shows "(of_char (digit_char d) :: nat) = nat (48 + d)"
proof -
  have "of_char (digit_char d) = (48 + d :: int)" using assms by (simp add: digit_char_def)
  then show ?thesis by (metis nat_int of_nat_of_char)
qed

lemma digit_val_digit_char: "0 \<le> d \<Longrightarrow> d < 10 \<Longrightarrow> digit_val (digit_char d) = d"
  by (simp add: digit_val_def nat_of_digit_char)

lemma is_digit_digit_char: "0 \<le> d \<Longrightarrow> d < 10 \<Longrightarrow> is_digit (digit_char d)"
  by (simp add: is_digit_def nat_of_digit_char nat_le_iff le_nat_iff)

lemma digits_value_digit:
  "0 \<le> d \<Longrightarrow> d < 10 \<Longrightarrow> digits_value b acc (digit_char d # cs) = digits_value True (10 * acc + d) cs"
  by (simp add: is_digit_digit_char digit_val_digit_char)

lemma digits_value_show:
  "0 \<le> n \<Longrightarrow> digits_value b acc (show_digits n @ cs) = digits_value True (acc * 10 ^ length (show_digits n) + n) cs"
proof (induction n arbitrary: b acc cs rule: show_digits.induct)
  case (1 n)
  show ?case
  proof (cases "n < 10")
    case True
    then show ?thesis using 1(2) by (simp add: show_digits.simps [of n] digits_value_digit mult.commute del: digits_value.simps)
  next
    case False
    then show ?thesis
      using 1(1) [of b acc "digit_char (n mod 10) # cs"] 1(2)
      by (simp add: show_digits.simps [of n] digits_value_digit algebra_simps del: digits_value.simps)
  qed
qed

lemma digits_value_pad: "digits_value b 0 (replicate k (CHR ''0'') @ cs) = digits_value (b \<or> 0 < k) 0 cs"
  by (induction k arbitrary: b) (simp_all add: is_digit_def digit_val_def)

lemma pad4_value: "digits_value False 0 (pad4 n) = Some (int n)"
proof -
  have "digits_value b 0 (show_digits (int n) @ []) = Some (int n)" for b
    by (subst digits_value_show) simp_all
  then show ?thesis by (simp add: pad4_def Let_def digits_value_pad show_nat_def)
qed

lemma pad4_inject [simp]: "pad4 m = pad4 n \<longleftrightarrow> m = n"
  by (metis pad4_value of_nat_eq_iff option.inject)

definition incidents_of :: "uuid \<Rightarrow> ir_db \<Rightarrow> incident_row list" where
  "incidents_of org_id db = filter (\<lambda>i. ii_org_id i = org_id) (id_incidents db)"

definition numbered_in_order :: "uuid \<Rightarrow> ir_db \<Rightarrow> bool" where
  "numbered_in_order org_id db \<longleftrightarrow>
     map ii_incident_number (incidents_of org_id db) = map (\<lambda>k. ''INC-'' @ pad4 (Suc k)) [0..<length (incidents_of org_id db)]"

lemma bare_fields: "ii_incident_number (bare i) = ii_incident_number i" "ii_org_id (bare i) = ii_org_id i"
  by (simp_all add: bare_def)

lemma numbered_after_handling:
  assumes "numbered_in_order o_id db"
  shows "numbered_in_order o_id (snd (handle_threat_finding w uuid_str finding org_id new_id hex8 cfg db))"
proof -
  define number where "number = ''INC-'' @ pad4 (count_if (\<lambda>i. ii_org_id i = org_id) (id_incidents db) + 1)"
  obtain inc db' where run: "handle_threat_finding w uuid_str finding org_id new_id hex8 cfg db = (Inr inc, db')"
      and db': "id_incidents db' = id_incidents db @ [inc]" and b: "bare inc = new_incident (iw_now w) finding org_id new_id number"
    using handling_records_incident [OF number_def, where w = w and uuid_str = uuid_str and finding = finding and new_id = new_id and hex_id = hex8 and cfg = cfg] by blast
  have inc: "ii_incident_number inc = number" "ii_org_id inc = org_id"
    using bare_fields [of inc] b by (simp_all add: new_incident_def)
  then show ?thesis
    using assms run db' by (simp add: numbered_in_order_def incidents_of_def number_def count_if_def)
qed

text \<open>Handling findings, of whichever organisation, keeps every organisation's incidents numbered
  INC-0001, INC-0002 and on, in the order they were stored, and so no two incidents of an
  organisation share a number; the zero padding never merges two numbers.
\<close>

theorem incident_numbers_unique:
  assumes "numbered_in_order o_id db"
  shows "let db' = snd (handle_threat_finding w uuid_str finding org_id new_id hex8 cfg db)
         in numbered_in_order o_id db' \<and> distinct (map ii_incident_number (incidents_of o_id db'))"
proof -
  have "numbered_in_order o_id (snd (handle_threat_finding w uuid_str finding org_id new_id hex8 cfg db))" (is "numbered_in_order _ ?db'")
    by (rule numbered_after_handling [OF assms])
  moreover from this have "distinct (map ii_incident_number (incidents_of o_id ?db'))"
    unfolding numbered_in_order_def by (simp add: distinct_map inj_on_def)
  ultimately show ?thesis by (simp add: Let_def)
qed

text \<open>A world in which nothing answers, and the first finding of the organisation.\<close>

definition silent_outbound :: outbound where
  "silent_outbound = \<lparr>urlparse = (\<lambda>_. Inl (ValueError ''url'')), ip_address = (\<lambda>_. None), is_global6 = (\<lambda>_. False),
     getaddrinfo = (\<lambda>_ _. Inr []), http_post = (\<lambda>_ _. Inr 500), ses_send = (\<lambda>_ _ _. Inr ())\<rparr>"

definition silent_world :: ir_world where
  "silent_world = \<lparr>iw_out = silent_outbound, iw_http = (\<lambda>_ _ _. Inr (500, Inr JNull)),
     iw_syslog = (\<lambda>_ _ _ _. Inr ()), iw_clock = (\<lambda>_. ''now''), iw_now = 0, iw_cef_time = [], iw_iso_time = [], iw_syslog_time = []\<rparr>"

definition sample_finding :: finding_row where
  "sample_finding = \<lparr>fn_id = 7, fn_scan_id = 6, fn_org_id = 1, fn_signature_id = ''SIG-1'', fn_threat_name = ''Mimikatz'',
     fn_threat_type = ''malware'',
     fn_severity = ''critical'', fn_host = ''dc01'', fn_indicator_type = ''process'', fn_indicator_value = ''mimikatz.exe'',
     fn_context = JObj [], fn_mitre_technique = None, fn_status = ''active'', fn_detected_at = 0\<rparr>"

definition no_config :: ir_config where
  "no_config = \<lparr>cf_soar = [], cf_siem = [], cf_veeamone = [], cf_channels = []\<rparr>"

definition after_first :: ir_db where
  "after_first = snd (handle_threat_finding silent_world (\<lambda>_. ''u'') sample_finding 1 2 ''cafe0123'' no_config
     \<lparr>id_incidents = [], id_sent = []\<rparr>)"

theorem incident_numbers_unique_witness:
  "let db' = snd (handle_threat_finding silent_world (\<lambda>_. ''u'') sample_finding 1 3 ''beef4567'' no_config after_first)
   in numbered_in_order 1 db' \<and> distinct (map ii_incident_number (incidents_of 1 db'))"
proof (rule incident_numbers_unique)
  show "numbered_in_order 1 after_first"
    unfolding after_first_def by (rule numbered_after_handling) (simp add: numbered_in_order_def incidents_of_def)
qed

end
