(* ===== verification/Dashboard.thy ===== *)
theory Dashboard
  imports Portal ThreatAnalysis IncidentResponse
begin

text \<open>
  The numbers of the portal: \<open>routers/readiness.py\<close>, the live scorecard of
  \<open>services/executive_snapshot.py\<close>, the executive routes (\<open>routers/executive.py\<close>) and the
  provider summary (\<open>routers/multicloud.py\<close>). The aggregates are the SQL queries over the joined
  rows of an organisation; a comparison with NULL is not true. Printing a date, the database's
  average and the PDF renderer are arguments; the provider column is \<open>da_provider\<close>, rows without
  ORDER BY come in table order.
\<close>

subsection \<open>Tables\<close>

record snapshot_row =
  sn_org_id :: uuid
  sn_created_at :: micros
  sn_body :: dict

record digest_row =
  dg_id :: uuid
  dg_org_id :: uuid
  dg_cadence :: string
  dg_recipients :: "string list"
  dg_include_scorecard :: bool
  dg_include_trend_chart :: bool
  dg_include_provider_breakdown :: bool
  dg_include_top_risks :: bool
  dg_enabled :: bool
  dg_last_sent_at :: "micros option"
  dg_created_at :: micros
  dg_created_by :: "uuid option"

record dash_db = portal_db +
  da_provider :: "uuid \<Rightarrow> string"
  da_findings :: "finding_row list"
  da_incidents :: "incident_row list"
  da_snapshots :: "snapshot_row list"
  da_digests :: "digest_row list"

subsection \<open>Aggregates\<close>

definition distinct_count :: "'a list \<Rightarrow> nat" where
  "distinct_count xs = length (remdups xs)"

definition le_null :: "int option \<Rightarrow> int option \<Rightarrow> bool" where
  "le_null a b = (case (a, b) of (Some x, Some y) \<Rightarrow> x \<le> y | _ \<Rightarrow> False)"

definition is_tested :: "run_row \<times> workload_row \<Rightarrow> bool" where
  "is_tested rw \<longleftrightarrow> tr_status (fst rw) \<in> {''passed'', ''failed''}"

definition is_passed :: "run_row \<times> workload_row \<Rightarrow> bool" where
  "is_passed rw \<longleftrightarrow> tr_status (fst rw) = ''passed''"

definition rto_ok :: "run_row \<times> workload_row \<Rightarrow> bool" where
  "rto_ok rw \<longleftrightarrow> is_passed rw \<and> le_null (tr_rto_actual_mins (fst rw)) (wl_rto_target_mins (snd rw))"

definition rpo_ok :: "run_row \<times> workload_row \<Rightarrow> bool" where
  "rpo_ok rw \<longleftrightarrow> is_passed rw \<and> le_null (tr_rpo_actual_mins (fst rw)) (wl_rpo_target_mins (snd rw))"

definition run_workload_ids :: "(run_row \<times> workload_row) list \<Rightarrow> uuid list" where
  "run_workload_ids rws = map (\<lambda>rw. tr_workload_id (fst rw)) rws"

definition total_workloads :: "uuid \<Rightarrow> 'z appliance_db_scheme \<Rightarrow> nat" where
  "total_workloads org db = distinct_count (map wl_id (own_workloads org db))"

definition tested_workloads :: "uuid \<Rightarrow> 'z appliance_db_scheme \<Rightarrow> nat" where
  "tested_workloads org db = distinct_count (run_workload_ids (filter is_tested (own_runs org db)))"

definition passing_workloads :: "uuid \<Rightarrow> 'z appliance_db_scheme \<Rightarrow> nat" where
  "passing_workloads org db = distinct_count (run_workload_ids (filter is_passed (own_runs org db)))"

text \<open>\<open>int(a / b * 100) if b else 0\<close>\<close>

definition int_pct :: "nat \<Rightarrow> nat \<Rightarrow> int" where
  "int_pct a b = (if b \<noteq> 0 then int_of_float (fmul (fdiv (of_nat a) (of_nat b)) 100) else 0)"

definition compliance_pct :: "(run_row \<times> workload_row \<Rightarrow> bool) \<Rightarrow> uuid \<Rightarrow> 'z appliance_db_scheme \<Rightarrow> int" where
  "compliance_pct ok org db = int_pct (count_if ok (own_runs org db)) (count_if is_passed (own_runs org db))"

definition completed_since :: "micros \<Rightarrow> run_row \<Rightarrow> bool" where
  "completed_since since r = (case tr_completed_at r of None \<Rightarrow> False | Some t \<Rightarrow> since \<le> t)"

definition trend_runs :: "micros \<Rightarrow> uuid \<Rightarrow> 'z appliance_db_scheme \<Rightarrow> (int \<times> bool) list" where
  "trend_runs since org db =
     map (\<lambda>rw. (the (tr_completed_at (fst rw)), is_passed rw)) (filter (\<lambda>rw. completed_since since (fst rw)) (own_runs org db))"

definition live_trend :: "(int \<Rightarrow> string) \<Rightarrow> micros \<Rightarrow> uuid \<Rightarrow> 'z appliance_db_scheme \<Rightarrow> week_bucket list" where
  "live_trend iso_date now org db = bucket_weekly_pass_rate iso_date (trend_runs (now - 12 * week_micros) org db) 12 now"

subsection \<open>The readiness routes\<close>

record readiness =
  re_overall_score :: int
  re_workloads_tested :: nat
  re_workloads_total :: nat
  re_workloads_passing :: nat
  re_rto_compliance_pct :: int
  re_rpo_compliance_pct :: int
  re_trend :: "week_bucket list"

definition org_readiness :: "(int \<Rightarrow> string) \<Rightarrow> current_user \<Rightarrow> micros \<Rightarrow> (dash_db, readiness) exec" where
  "org_readiness iso_date user now =
     gets (\<lambda>db.
       let org = user_org_id user;
           workloads = total_workloads org db; tested = tested_workloads org db; passing = passing_workloads org db;
           rto_pct = compliance_pct rto_ok org db; rpo_pct = compliance_pct rpo_ok org db
       in \<lparr>re_overall_score = compute_composite_score (int workloads) (int tested) (int passing) rto_pct 0 0,
           re_workloads_tested = tested, re_workloads_total = workloads, re_workloads_passing = passing,
           re_rto_compliance_pct = rto_pct, re_rpo_compliance_pct = rpo_pct,
           re_trend = live_trend iso_date now org db\<rparr>)"

record coverage_view =
  cv_tested_pct :: int
  cv_untested_workloads :: "(uuid \<times> string) list"

definition coverage :: "int \<Rightarrow> current_user \<Rightarrow> micros \<Rightarrow> (dash_db, coverage_view) exec" where
  "coverage days user now =
     (if \<not> (1 \<le> days \<and> days \<le> 365) then raise (HTTPException 422 ''validation error'')
      else
        let since = now - days * 86400000000 in
        gets (\<lambda>db.
          let own = own_workloads (user_org_id user) db;
              recent = filter (\<lambda>rw. completed_since since (fst rw)) (own_runs (user_org_id user) db);
              recent_ids = map tr_workload_id (filter (completed_since since) (a_runs db))
          in \<lparr>cv_tested_pct = int_pct (distinct_count (run_workload_ids recent)) (length own),
              cv_untested_workloads = take 20 (map (\<lambda>w. (wl_id w, wl_name w)) (filter (\<lambda>w. wl_id w \<notin> set recent_ids) own))\<rparr>))"

subsection \<open>The live scorecard\<close>

definition STALE_TEST_DAYS :: int where
  "STALE_TEST_DAYS = 30"

definition RESOLVED_INCIDENT_STATES :: "string list" where
  "RESOLVED_INCIDENT_STATES = [''resolved'', ''closed'']"

record risk =
  ri_workload :: string
  ri_severity :: string
  ri_reason :: string

text \<open>\<open>max(completed_at)\<close> over the runs of a workload; NULL without a completed run.\<close>

definition last_run :: "uuid \<Rightarrow> 'z appliance_db_scheme \<Rightarrow> micros option" where
  "last_run workload_id db =
     (case List.map_filter tr_completed_at (filter (\<lambda>r. tr_workload_id r = workload_id) (a_runs db)) of
        [] \<Rightarrow> None
      | t # ts \<Rightarrow> Some (fold max ts t))"

definition risk_of :: "micros \<Rightarrow> 'z appliance_db_scheme \<Rightarrow> workload_row \<Rightarrow> risk option" where
  "risk_of now db w =
     (if \<not> wl_is_protected w then None
      else case last_run (wl_id w) db of
        None \<Rightarrow> Some \<lparr>ri_workload = wl_name w, ri_severity = ''high'', ri_reason = ''Protected but never validated''\<rparr>
      | Some t \<Rightarrow>
          let days = (now - t) div 86400000000 in
          if STALE_TEST_DAYS < days
          then Some \<lparr>ri_workload = wl_name w, ri_severity = ''medium'', ri_reason = ''Not validated in '' @ show_int days @ '' days''\<rparr>
          else None)"

definition top_risks :: "micros \<Rightarrow> uuid \<Rightarrow> 'z appliance_db_scheme \<Rightarrow> risk list" where
  "top_risks now org db =
     take 5 (sort_key (\<lambda>r. if ri_severity r = ''high'' then 0 else 1 :: nat)
       (List.map_filter (risk_of now db) (own_workloads org db)))"

record provider_row =
  pr_total :: nat
  pr_tested :: nat
  pr_pass_rate :: int

definition provider_stats :: "uuid \<Rightarrow> dash_db \<Rightarrow> string \<Rightarrow> provider_row" where
  "provider_stats org db provider =
     (let runs = filter (\<lambda>rw. da_provider db (wl_id (snd rw)) = provider) (own_runs org db);
          tested = distinct_count (run_workload_ids (filter is_tested runs));
          passing = distinct_count (run_workload_ids (filter is_passed runs))
      in \<lparr>pr_total = distinct_count (map wl_id (filter (\<lambda>w. da_provider db (wl_id w) = provider) (own_workloads org db))),
          pr_tested = tested, pr_pass_rate = int_pct passing tested\<rparr>)"

definition providers_of :: "uuid \<Rightarrow> dash_db \<Rightarrow> string list" where
  "providers_of org db = remdups (map (\<lambda>w. da_provider db (wl_id w)) (own_workloads org db))"

record scorecard =
  sc_overall_score :: int
  sc_workloads_total :: nat
  sc_workloads_tested :: nat
  sc_workloads_passing :: nat
  sc_rto_compliance_pct :: int
  sc_active_threats :: nat
  sc_open_incidents :: nat
  sc_provider_breakdown :: "(string \<times> provider_row) list"
  sc_top_risks :: "risk list"

record trend_point =
  tp_date :: string
  tp_score :: int
  tp_passing :: int
  tp_total :: nat
  tp_rto_pct :: int

definition trend_point_of :: "int \<Rightarrow> week_bucket \<Rightarrow> trend_point" where
  "trend_point_of rto_pct w =
     (let rate = int_or (wb_pass_rate w) 0
      in \<lparr>tp_date = wb_week_ending w, tp_score = rate,
          tp_passing = py_round (fmul (fdiv (of_int rate) 100) (of_nat (wb_runs w))), tp_total = wb_runs w,
          tp_rto_pct = rto_pct\<rparr>)"

definition org_name :: "uuid \<Rightarrow> 'z appliance_db_scheme \<Rightarrow> string" where
  "org_name org_id db =
     str_or (map_option og_name (List.find (\<lambda>r. og_id r = org_id) (a_orgs db))) ''Your Organization''"

definition build_live_scorecard ::
    "(int \<Rightarrow> string) \<Rightarrow> uuid \<Rightarrow> micros \<Rightarrow> (dash_db, scorecard \<times> trend_point list \<times> string) exec" where
  "build_live_scorecard iso_date org_id now =
     gets (\<lambda>db.
       let workloads = total_workloads org_id db; tested = tested_workloads org_id db; passing = passing_workloads org_id db;
           rto_pct = compliance_pct rto_ok org_id db;
           active_threats = count_if (\<lambda>f. fn_org_id f = org_id \<and> fn_status f = ''active'') (da_findings db);
           open_incidents = count_if (\<lambda>i. ii_org_id i = org_id \<and> ii_status i \<notin> set RESOLVED_INCIDENT_STATES) (da_incidents db)
       in (\<lparr>sc_overall_score = compute_composite_score (int workloads) (int tested) (int passing) rto_pct 0 0,
            sc_workloads_total = workloads, sc_workloads_tested = tested, sc_workloads_passing = passing,
            sc_rto_compliance_pct = rto_pct, sc_active_threats = active_threats, sc_open_incidents = open_incidents,
            sc_provider_breakdown = map (\<lambda>p. (p, provider_stats org_id db p)) (providers_of org_id db),
            sc_top_risks = top_risks now org_id db\<rparr>,
           map (trend_point_of rto_pct) (live_trend iso_date now org_id db), org_name org_id db))"

subsection \<open>The executive routes\<close>

datatype scorecard_answer = Stored dict | Live scorecard

definition own_snapshots :: "current_user \<Rightarrow> dash_db \<Rightarrow> snapshot_row list" where
  "own_snapshots user db = newest_rows sn_created_at (filter (\<lambda>s. sn_org_id s = user_org_id user) (da_snapshots db))"

definition get_scorecard :: "(int \<Rightarrow> string) \<Rightarrow> current_user \<Rightarrow> micros \<Rightarrow> (dash_db, scorecard_answer) exec" where
  "get_scorecard iso_date user now =
     seq (lift_result (require_permission (permissions user) ''reports:read'')) (\<lambda>_.
     seq (gets (own_snapshots user)) (\<lambda>snapshots.
     case snapshots of
       s # _ \<Rightarrow> ret (Stored (sn_body s))
     | [] \<Rightarrow> seq (build_live_scorecard iso_date (user_org_id user) now) (\<lambda>(live, _). ret (Live live))))"

datatype trend_answer = StoredTrend "dict list" | LiveTrend "trend_point list"

definition snapshot_trend :: "snapshot_row \<Rightarrow> dict" where
  "snapshot_trend s =
     [(''date'', dget (sn_body s) ''snapshot_date''), (''score'', dget (sn_body s) ''overall_score''),
      (''passing'', dget (sn_body s) ''workloads_passing''), (''total'', dget (sn_body s) ''workloads_total''),
      (''rto_pct'', dget (sn_body s) ''rto_compliance_pct'')]"

definition get_trend :: "(int \<Rightarrow> string) \<Rightarrow> int \<Rightarrow> current_user \<Rightarrow> micros \<Rightarrow> (dash_db, trend_answer) exec" where
  "get_trend iso_date months user now =
     (if \<not> (1 \<le> months \<and> months \<le> 24) then raise (HTTPException 422 ''validation error'')
      else
        seq (lift_result (require_permission (permissions user) ''reports:read'')) (\<lambda>_.
        seq (gets (\<lambda>db. take (nat months) (own_snapshots user db))) (\<lambda>snapshots.
        if snapshots \<noteq> [] then ret (StoredTrend (map snapshot_trend (rev snapshots)))
        else seq (build_live_scorecard iso_date (user_org_id user) now) (\<lambda>(_, trend, _).
             ret (LiveTrend (drop (length trend - nat months) trend))))))"

definition download_scorecard_pdf ::
    "(string \<Rightarrow> string \<Rightarrow> scorecard \<Rightarrow> trend_point list \<Rightarrow> string result) \<Rightarrow> (string \<Rightarrow> string) \<Rightarrow> (int \<Rightarrow> string) \<Rightarrow> string \<Rightarrow> string \<Rightarrow>
     current_user \<Rightarrow> micros \<Rightarrow> (dash_db, string \<times> string) exec" where
  "download_scorecard_pdf render_scorecard_pdf sha256 iso_date this_month period user now =
     seq (lift_result (require_permission (permissions user) ''reports:generate'')) (\<lambda>_.
     let period_label = (if period \<noteq> ''current'' then period else this_month) in
     seq (build_live_scorecard iso_date (user_org_id user) now) (\<lambda>(snapshot, trend, name).
     seq (lift_result (render_scorecard_pdf name period_label snapshot trend)) (\<lambda>pdf_bytes.
     ret (pdf_bytes, sha256 pdf_bytes))))"

definition list_digest_schedules :: "current_user \<Rightarrow> (dash_db, digest_row list) exec" where
  "list_digest_schedules user =
     seq (lift_result (require_permission (permissions user) ''reports:read'')) (\<lambda>_.
     gets (\<lambda>db. newest_rows dg_created_at (filter (\<lambda>s. dg_org_id s = user_org_id user) (da_digests db))))"

record digest_request =
  dq_cadence :: string
  dq_recipients :: "string list"
  dq_include_scorecard :: bool
  dq_include_trend_chart :: bool
  dq_include_provider_breakdown :: bool
  dq_include_top_risks :: bool

definition local_user_id :: "current_user \<Rightarrow> portal_db \<Rightarrow> uuid option" where
  "local_user_id user db =
     map_option ur_id (List.find (\<lambda>u. ur_org_id u = user_org_id user \<and> ur_auth0_sub u = user_sub user) (po_users db))"

definition create_digest_schedule :: "digest_request \<Rightarrow> current_user \<Rightarrow> uuid \<Rightarrow> micros \<Rightarrow> (dash_db, digest_row) exec" where
  "create_digest_schedule body user new_id now =
     seq (lift_result (require_permission (permissions user) ''reports:schedule'')) (\<lambda>_.
     if dq_cadence body \<notin> {''weekly'', ''monthly'', ''quarterly''}
     then raise (HTTPException 400 ''cadence must be weekly, monthly, or quarterly'')
     else
       seq (gets (\<lambda>db. local_user_id user (portal_db.truncate db))) (\<lambda>created_by.
       let schedule = \<lparr>dg_id = new_id, dg_org_id = user_org_id user, dg_cadence = dq_cadence body,
             dg_recipients = dq_recipients body, dg_include_scorecard = dq_include_scorecard body,
             dg_include_trend_chart = dq_include_trend_chart body,
             dg_include_provider_breakdown = dq_include_provider_breakdown body,
             dg_include_top_risks = dq_include_top_risks body, dg_enabled = True, dg_last_sent_at = None,
             dg_created_at = now, dg_created_by = created_by\<rparr>
       in seq (update (\<lambda>db. db\<lparr>da_digests := da_digests db @ [schedule]\<rparr>)) (\<lambda>_. ret schedule)))"

definition delete_digest_schedule :: "uuid \<Rightarrow> current_user \<Rightarrow> (dash_db, unit) exec" where
  "delete_digest_schedule schedule_id user =
     seq (lift_result (require_permission (permissions user) ''reports:schedule'')) (\<lambda>_.
     seq (gets (\<lambda>db. List.find (\<lambda>s. dg_id s = schedule_id \<and> dg_org_id s = user_org_id user) (da_digests db))) (\<lambda>found.
     case found of
       None \<Rightarrow> raise (HTTPException 404 ''Digest schedule not found'')
     | Some s \<Rightarrow> update (\<lambda>db. db\<lparr>da_digests := filter (\<lambda>x. dg_id x \<noteq> dg_id s) (da_digests db)\<rparr>)))"

subsection \<open>Providers\<close>

definition PROVIDERS :: "string list" where
  "PROVIDERS = [''vmware'', ''hyperv'', ''azure'', ''aws'', ''proxmox'', ''nutanix'', ''rhv'', ''xenserver'', ''sangfor'', ''gcp'']"

record provider_summary_row =
  ps_provider :: string
  ps_total_workloads :: nat
  ps_total_runs :: nat
  ps_pass_rate :: "int option"
  ps_avg_rto_mins :: "rat option"

definition provider_summary_of :: "(int list \<Rightarrow> rat option) \<Rightarrow> uuid \<Rightarrow> dash_db \<Rightarrow> string \<Rightarrow> provider_summary_row" where
  "provider_summary_of db_avg org db column =
     (let provider = (if column = [] then ''vmware'' else column);
          runs = filter (\<lambda>rw. da_provider db (wl_id (snd rw)) = provider \<and> is_tested rw) (own_runs org db);
          passed_runs = count_if is_passed runs;
          avg = db_avg (List.map_filter (\<lambda>rw. tr_rto_actual_mins (fst rw)) runs)
      in \<lparr>ps_provider = provider,
          ps_total_workloads = distinct_count (map wl_id (filter (\<lambda>w. da_provider db (wl_id w) = column) (own_workloads org db))),
          ps_total_runs = length runs,
          ps_pass_rate = (if 0 < length runs then Some (pct (int passed_runs) (int (length runs))) else None),
          ps_avg_rto_mins = (case avg of None \<Rightarrow> None | Some x \<Rightarrow> if fl x = 0 then None else Some (round_dec 1 (fl x)))\<rparr>)"

definition provider_summary :: "(int list \<Rightarrow> rat option) \<Rightarrow> current_user \<Rightarrow> (dash_db, provider_summary_row list) exec" where
  "provider_summary db_avg user =
     gets (\<lambda>db.
       let result = map (provider_summary_of db_avg (user_org_id user) db) (providers_of (user_org_id user) db);
           missing = filter (\<lambda>p. p \<notin> ps_provider ` set result) PROVIDERS
       in sort_key (\<lambda>r. - int (ps_total_workloads r))
            (result @ map (\<lambda>p. \<lparr>ps_provider = p, ps_total_workloads = 0, ps_total_runs = 0, ps_pass_rate = None, ps_avg_rto_mins = None\<rparr>) missing))"

definition list_workloads_by_provider :: "string option \<Rightarrow> current_user \<Rightarrow> (dash_db, (workload_row \<times> string) list) exec" where
  "list_workloads_by_provider provider user =
     gets (\<lambda>db.
       let own = own_workloads (user_org_id user) db;
           chosen = (if str_or provider [] = [] then own else filter (\<lambda>w. da_provider db (wl_id w) = the provider) own)
       in map (\<lambda>w. (w, if da_provider db (wl_id w) = [] then ''vmware'' else da_provider db (wl_id w))) (sort_key wl_name chosen))"

subsection \<open>Counting\<close>

lemma distinct_count_card: "distinct_count xs = card (set xs)"
  by (simp add: distinct_count_def length_remdups_card_conv)

lemma distinct_count_mono: "set xs \<subseteq> set ys \<Longrightarrow> distinct_count xs \<le> distinct_count ys"
  by (simp add: distinct_count_card card_mono)

lemma tested_le_total: "tested_workloads org db \<le> total_workloads org db"
  unfolding tested_workloads_def total_workloads_def
proof (rule distinct_count_mono, rule subsetI)
  fix i assume "i \<in> set (run_workload_ids (filter is_tested (own_runs org db)))"
  then obtain r w where "(r, w) \<in> set (own_runs org db)" "i = tr_workload_id r"
    by (auto simp: run_workload_ids_def)
  then have "w \<in> set (own_workloads org db)" "wl_id w = i" by (auto dest: own_run_listed own_runsD)
  then show "i \<in> set (map wl_id (own_workloads org db))" by auto
qed

lemma passing_le_tested: "passing_workloads org db \<le> tested_workloads org db"
  unfolding passing_workloads_def tested_workloads_def
  by (rule distinct_count_mono) (auto simp: run_workload_ids_def is_passed_def is_tested_def)

lemma count_if_mono: "(\<And>x. P x \<Longrightarrow> Q x) \<Longrightarrow> count_if P xs \<le> count_if Q xs"
  by (induction xs) auto

lemma int_pct_bounds: "a \<le> b \<Longrightarrow> 0 \<le> int_pct a b \<and> int_pct a b \<le> 100"
  using percent_bounds [of "int a" "int b"]
  by (auto simp: int_pct_def int_of_float_def le_floor_iff floor_le_iff)

lemma compliance_bounds: "(\<And>rw. ok rw \<Longrightarrow> is_passed rw) \<Longrightarrow> 0 \<le> compliance_pct ok org db \<and> compliance_pct ok org db \<le> 100"
  unfolding compliance_pct_def by (rule int_pct_bounds, rule count_if_mono)

lemma rto_bounds: "0 \<le> compliance_pct rto_ok org db" "compliance_pct rto_ok org db \<le> 100"
    "0 \<le> compliance_pct rpo_ok org db" "compliance_pct rpo_ok org db \<le> 100"
  using compliance_bounds [of rto_ok org db] compliance_bounds [of rpo_ok org db] by (simp_all add: rto_ok_def rpo_ok_def)

lemma live_score_bounds:
  "0 \<le> compute_composite_score (int (total_workloads org db)) (int (tested_workloads org db)) (int (passing_workloads org db))
     (compliance_pct rto_ok org db) 0 0"
  "compute_composite_score (int (total_workloads org db)) (int (tested_workloads org db)) (int (passing_workloads org db))
     (compliance_pct rto_ok org db) 0 0 \<le> 90"
proof -
  show "compute_composite_score (int (total_workloads org db)) (int (tested_workloads org db)) (int (passing_workloads org db))
     (compliance_pct rto_ok org db) 0 0 \<le> 90"
    unfolding compute_composite_score_def
    by (rule scorecard_le) (simp_all add: tested_le_total passing_le_tested rto_bounds)
qed (simp add: compute_composite_score_def compute_scorecard_def Let_def)

text \<open>Counts of a partition: the values of a key split the counted identifiers.\<close>

lemma card_by_key: "finite A \<Longrightarrow> (\<Sum>k \<in> f ` A. card {x \<in> A. f x = k}) = card A"
  by (subst card_eq_sum, subst sum.image_gen [of A "\<lambda>_. 1" f]) simp_all

lemma sum_list_remdups_set: "sum_list (map g (remdups xs)) = (\<Sum>k \<in> set xs. g k)" for g :: "'a \<Rightarrow> nat"
  by (simp add: sum_list_distinct_conv_sum_set)

lemma sum_by_provider:
  fixes p :: "uuid \<Rightarrow> string"
  assumes "A \<subseteq> set xs" "finite A"
  shows "sum_list (map (\<lambda>k. card {i \<in> A. p i = k}) (remdups (map p xs))) = card A"
proof -
  have "sum_list (map (\<lambda>k. card {i \<in> A. p i = k}) (remdups (map p xs))) = (\<Sum>k \<in> p ` set xs. card {i \<in> A. p i = k})"
    by (simp add: sum_list_remdups_set)
  also have "\<dots> = (\<Sum>k \<in> p ` A. card {i \<in> A. p i = k})"
  proof (rule sum.mono_neutral_right)
    show "\<forall>k \<in> p ` set xs - p ` A. card {i \<in> A. p i = k} = 0"
    proof
      fix k assume "k \<in> p ` set xs - p ` A"
      then have "{i \<in> A. p i = k} = {}" by blast
      then show "card {i \<in> A. p i = k} = 0" by (simp only: card.empty)
    qed
  qed (use assms in auto)
  also have "\<dots> = card A" using card_by_key [OF assms(2)] .
  finally show ?thesis .
qed

lemma run_ids_subset: "set (run_workload_ids (filter P (own_runs org db))) \<subseteq> set (map wl_id (own_workloads org db))"
proof
  fix i assume "i \<in> set (run_workload_ids (filter P (own_runs org db)))"
  then obtain r w where "(r, w) \<in> set (own_runs org db)" "i = tr_workload_id r" by (auto simp: run_workload_ids_def)
  then have "w \<in> set (own_workloads org db)" "wl_id w = i" by (auto dest: own_run_listed own_runsD)
  then show "i \<in> set (map wl_id (own_workloads org db))" by auto
qed

lemma run_ids_of_provider:
  "set (run_workload_ids (filter P (filter (\<lambda>rw. da_provider db (wl_id (snd rw)) = k) (own_runs org db))))
     = {i \<in> set (run_workload_ids (filter P (own_runs org db))). da_provider db i = k}"
proof -
  have "filter (\<lambda>rw. da_provider db (wl_id (snd rw)) = k) (own_runs org db)
      = filter (\<lambda>rw. da_provider db (tr_workload_id (fst rw)) = k) (own_runs org db)"
    by (rule filter_cong [OF refl]) (auto dest: own_runsD(3))
  then show ?thesis by (simp only: run_workload_ids_def set_map set_filter) blast
qed

lemma providers_alt: "providers_of org db = remdups (map (da_provider db) (map wl_id (own_workloads org db)))"
  by (simp add: providers_of_def comp_def)

lemma provider_stats_cards:
  "pr_total (provider_stats org db k) = card {i \<in> set (map wl_id (own_workloads org db)). da_provider db i = k}"
  "pr_tested (provider_stats org db k) = card {i \<in> set (run_workload_ids (filter is_tested (own_runs org db))). da_provider db i = k}"
proof -
  have "set (map wl_id (filter (\<lambda>w. da_provider db (wl_id w) = k) (own_workloads org db)))
      = {i \<in> set (map wl_id (own_workloads org db)). da_provider db i = k}" by auto
  then show "pr_total (provider_stats org db k) = card {i \<in> set (map wl_id (own_workloads org db)). da_provider db i = k}"
    by (simp add: provider_stats_def Let_def distinct_count_card)
  show "pr_tested (provider_stats org db k) = card {i \<in> set (run_workload_ids (filter is_tested (own_runs org db))). da_provider db i = k}"
    using run_ids_of_provider [of is_tested db k org] by (simp add: provider_stats_def Let_def distinct_count_card)
qed

lemma provider_rate_bounds: "0 \<le> pr_pass_rate (provider_stats org db k) \<and> pr_pass_rate (provider_stats org db k) \<le> 100"
proof -
  have "distinct_count (run_workload_ids (filter is_passed rs)) \<le> distinct_count (run_workload_ids (filter is_tested rs))" for rs
    by (rule distinct_count_mono) (auto simp: run_workload_ids_def is_passed_def is_tested_def)
  then show ?thesis unfolding provider_stats_def Let_def by (simp add: int_pct_bounds del: filter_filter)
qed

lemma breakdown_partitions:
  "sum_list (map (\<lambda>p. pr_total (provider_stats org db p)) (providers_of org db)) = total_workloads org db"
  "sum_list (map (\<lambda>p. pr_tested (provider_stats org db p)) (providers_of org db)) = tested_workloads org db"
proof -
  have "sum_list (map (\<lambda>p. pr_total (provider_stats org db p)) (providers_of org db)) = card (set (map wl_id (own_workloads org db)))"
    unfolding provider_stats_cards providers_alt by (rule sum_by_provider) (rule subset_refl, rule finite_set)
  then show "sum_list (map (\<lambda>p. pr_total (provider_stats org db p)) (providers_of org db)) = total_workloads org db"
    by (simp only: total_workloads_def distinct_count_card)
  have "sum_list (map (\<lambda>p. pr_tested (provider_stats org db p)) (providers_of org db))
      = card (set (run_workload_ids (filter is_tested (own_runs org db))))"
    unfolding provider_stats_cards providers_alt by (rule sum_by_provider) (rule run_ids_subset, rule finite_set)
  then show "sum_list (map (\<lambda>p. pr_tested (provider_stats org db p)) (providers_of org db)) = tested_workloads org db"
    by (simp only: tested_workloads_def distinct_count_card)
qed

lemma providers_distinct: "distinct (providers_of org db)"
  by (simp add: providers_of_def)

subsection \<open>Risks\<close>

lemma insort_last: "(\<forall>a \<in> set as. f a < f x) \<Longrightarrow> (\<forall>b \<in> set bs. f x \<le> f b) \<Longrightarrow> insort_key f x (as @ bs) = as @ x # bs"
  for f :: "'a \<Rightarrow> nat"
  by (induction as) (auto intro: insort_is_Cons)

lemma sort_key_two:
  fixes f :: "'a \<Rightarrow> nat"
  shows "(\<And>x. x \<in> set xs \<Longrightarrow> f x = 0 \<or> f x = 1) \<Longrightarrow> sort_key f xs = filter (\<lambda>x. f x = 0) xs @ filter (\<lambda>x. f x = 1) xs"
proof (induction xs)
  case (Cons x xs)
  then have ih: "sort_key f xs = filter (\<lambda>x. f x = 0) xs @ filter (\<lambda>x. f x = 1) xs" by simp
  have "f x = 0 \<or> f x = 1" using Cons.prems by simp
  then show ?case
  proof
    assume "f x = 0"
    then show ?thesis using ih by (simp add: insort_is_Cons)
  next
    assume "f x = 1"
    then show ?thesis using ih by (simp add: insort_last)
  qed
qed simp

definition is_high :: "risk \<Rightarrow> bool" where
  "is_high r \<longleftrightarrow> ri_severity r = ''high''"

lemma top_risks_cases:
  "top_risks now org db =
     take 5 (let rs = List.map_filter (risk_of now db) (own_workloads org db)
             in filter is_high rs @ filter (\<lambda>r. \<not> is_high r) rs)"
proof -
  have "sort_key (\<lambda>r. if ri_severity r = ''high'' then 0 else 1 :: nat) rs
      = filter is_high rs @ filter (\<lambda>r. \<not> is_high r) rs" for rs
    by (subst sort_key_two) (auto simp: is_high_def intro!: arg_cong2 [where f = append] filter_cong)
  then show ?thesis by (simp add: top_risks_def Let_def)
qed

lemma last_run_recent:
  assumes "r \<in> set (a_runs db)" "tr_workload_id r = i" "tr_completed_at r = Some t"
  shows "\<exists>t'. last_run i db = Some t' \<and> t \<le> t'"
proof -
  let ?ts = "List.map_filter tr_completed_at (filter (\<lambda>r. tr_workload_id r = i) (a_runs db))"
  have t: "t \<in> set ?ts" using assms by (auto simp: set_map_filter)
  then obtain u us where ts: "?ts = u # us" by (cases ?ts) auto
  have "u \<le> fold max us u \<and> (\<forall>x \<in> set us. x \<le> fold max us u)" for u :: micros and us
  proof (induction us arbitrary: u)
    case (Cons v vs)
    from Cons.IH [of "max v u"] show ?case by auto
  qed simp
  then show ?thesis using t ts by (auto simp: last_run_def)
qed

lemma no_risk_if_recent:
  assumes "r \<in> set (a_runs db)" "tr_workload_id r = wl_id w" "tr_completed_at r = Some t" "now < t + 31 * 86400000000"
  shows "risk_of now db w = None"
proof -
  obtain t' where t': "last_run (wl_id w) db = Some t'" "t \<le> t'" using last_run_recent [OF assms(1-3)] by blast
  have "now - t' = 86400000000 * ((now - t') div 86400000000) + (now - t') mod 86400000000" "0 \<le> (now - t') mod 86400000000"
    by simp_all
  then have "(now - t') div 86400000000 \<le> 30" using assms(4) t'(2) by linarith
  then show ?thesis by (simp add: risk_of_def t' STALE_TEST_DAYS_def Let_def)
qed

lemma live_scorecard:
  "build_live_scorecard iso_date org now db =
     (Inr (\<lparr>sc_overall_score = compute_composite_score (int (total_workloads org db)) (int (tested_workloads org db))
               (int (passing_workloads org db)) (compliance_pct rto_ok org db) 0 0,
            sc_workloads_total = total_workloads org db, sc_workloads_tested = tested_workloads org db,
            sc_workloads_passing = passing_workloads org db, sc_rto_compliance_pct = compliance_pct rto_ok org db,
            sc_active_threats = count_if (\<lambda>f. fn_org_id f = org \<and> fn_status f = ''active'') (da_findings db),
            sc_open_incidents = count_if (\<lambda>i. ii_org_id i = org \<and> ii_status i \<notin> set RESOLVED_INCIDENT_STATES) (da_incidents db),
            sc_provider_breakdown = map (\<lambda>p. (p, provider_stats org db p)) (providers_of org db),
            sc_top_risks = top_risks now org db\<rparr>,
           map (trend_point_of (compliance_pct rto_ok org db)) (live_trend iso_date now org db), org_name org db), db)"
  by (simp add: build_live_scorecard_def Let_def exec_simps)

text \<open>Findings and incidents are no part of what the aggregates read.\<close>

lemma reads_no_threats:
  fixes db :: dash_db and fs :: "finding_row list" and "is" :: "incident_row list"
  defines "db' \<equiv> db\<lparr>da_findings := fs, da_incidents := is\<rparr>"
  shows "total_workloads org db' = total_workloads org db" "tested_workloads org db' = tested_workloads org db"
    "passing_workloads org db' = passing_workloads org db" "compliance_pct ok org db' = compliance_pct ok org db"
    "own_runs org db' = own_runs org db"
proof -
  have tables: "a_appliances db' = a_appliances db" "a_workloads db' = a_workloads db" "a_runs db' = a_runs db"
    by (simp_all add: db'_def)
  note same = join_cong [OF tables(1,2)]
  have pair: "run_pair org db' = run_pair org db" by (rule ext) (simp add: run_pair_def same split: option.split)
  show runs: "own_runs org db' = own_runs org db" by (simp add: own_runs_def pair tables)
  show "total_workloads org db' = total_workloads org db" by (simp add: total_workloads_def same)
  show "tested_workloads org db' = tested_workloads org db" by (simp add: tested_workloads_def runs)
  show "passing_workloads org db' = passing_workloads org db" by (simp add: passing_workloads_def runs)
  show "compliance_pct ok org db' = compliance_pct ok org db" by (simp add: compliance_pct_def runs)
qed

text \<open>What ten threats would cost a perfect organisation.\<close>

lemma penalty_applies: "compute_composite_score 1 1 1 100 10 0 < compute_composite_score 1 1 1 100 0 0"
proof -
  have full: "fmul (fdiv 1 1) 100 = (100 :: rat)" and hundred: "fl 100 = 100" and ten: "fl 10 = 10"
    using fl_of_int [of 1] fl_of_int [of 100] fl_of_int [of 10] by (simp_all add: fdiv_def fmul_def)
  have "fsub (fadd (fadd 40 35) 15) 10 = 80" by code_simp
  then have "compute_scorecard 1 1 1 100 10 0 = 80"
    using weights py_round_of_int [of 80, simplified] unfolding compute_scorecard_def Let_def
    by (simp add: full hundred ten)
  then show ?thesis using scorecard_perfect [of 1] by (simp add: compute_composite_score_def)
qed

subsection \<open>Properties\<close>

text \<open>The numbers of the readiness page fit together: for any database and any organisation the route
  answers, changes nothing, counts no more passing than tested and no more tested than all workloads,
  both compliance percentages lie between 0 and 100, the score between 0 and 90, and the trend has
  its twelve weeks.\<close>

theorem readiness_bounds:
  "\<exists>r. org_readiness iso_date user now db = (Inr r, db) \<and>
     re_workloads_passing r \<le> re_workloads_tested r \<and> re_workloads_tested r \<le> re_workloads_total r \<and>
     0 \<le> re_rto_compliance_pct r \<and> re_rto_compliance_pct r \<le> 100 \<and>
     0 \<le> re_rpo_compliance_pct r \<and> re_rpo_compliance_pct r \<le> 100 \<and>
     0 \<le> re_overall_score r \<and> re_overall_score r \<le> 90 \<and> length (re_trend r) = 12"
  by (simp add: org_readiness_def Let_def exec_simps tested_le_total passing_le_tested rto_bounds live_score_bounds
      live_trend_def bucket_weekly_pass_rate_def)

text \<open>C34: The live scorecard agrees with the readiness page and with itself: for the same user and time
  both report the same score, totals and compliance; its provider breakdown names each provider once,
  the breakdown's workloads and tested workloads add up to the totals, and every pass rate of it is a
  percentage.\<close>

theorem live_scorecard_consistent:
  "\<exists>live trend name r.
     build_live_scorecard iso_date (user_org_id user) now db = (Inr (live, trend, name), db) \<and>
     org_readiness iso_date user now db = (Inr r, db) \<and>
     sc_overall_score live = re_overall_score r \<and> sc_workloads_total live = re_workloads_total r \<and>
     sc_workloads_tested live = re_workloads_tested r \<and> sc_workloads_passing live = re_workloads_passing r \<and>
     sc_rto_compliance_pct live = re_rto_compliance_pct r \<and> length trend = length (re_trend r) \<and>
     distinct (map fst (sc_provider_breakdown live)) \<and>
     sum_list (map (\<lambda>(_, p). pr_total p) (sc_provider_breakdown live)) = sc_workloads_total live \<and>
     sum_list (map (\<lambda>(_, p). pr_tested p) (sc_provider_breakdown live)) = sc_workloads_tested live \<and>
     list_all (\<lambda>(_, p). 0 \<le> pr_pass_rate p \<and> pr_pass_rate p \<le> 100) (sc_provider_breakdown live)"
  by (simp add: live_scorecard org_readiness_def Let_def exec_simps comp_def providers_distinct breakdown_partitions
      list_all_iff provider_rate_bounds)

text \<open>Active threats and open incidents do not lower the live score: whatever findings and incidents
  the tables hold, the scorecard shows their numbers but its score, totals, compliance and breakdown
  are those of the database without any, though the composite score takes up to ten points off for
  them.\<close>

theorem threats_never_lower_live_score:
  fixes db :: dash_db
  shows "\<exists>calm trend attacked trend' name name'.
     fst (build_live_scorecard iso_date org now (db\<lparr>da_findings := [], da_incidents := []\<rparr>)) = Inr (calm, trend, name) \<and>
     fst (build_live_scorecard iso_date org now (db\<lparr>da_findings := fs, da_incidents := is\<rparr>)) = Inr (attacked, trend', name') \<and>
     sc_active_threats attacked = count_if (\<lambda>f. fn_org_id f = org \<and> fn_status f = ''active'') fs \<and>
     sc_overall_score attacked = sc_overall_score calm \<and> sc_workloads_total attacked = sc_workloads_total calm \<and>
     sc_rto_compliance_pct attacked = sc_rto_compliance_pct calm \<and>
     compute_composite_score 1 1 1 100 10 0 < compute_composite_score 1 1 1 100 0 0"
proof -
  have "compute_composite_score 1 1 1 100 10 0 < compute_composite_score 1 1 1 100 0 0" by (rule penalty_applies)
  then show ?thesis
    unfolding live_scorecard fst_conv reads_no_threats by simp
qed

text \<open>A failing recovery is no risk: an organisation whose every workload has a run of the last thirty
  days that failed has an empty list of top risks, though a risk is documented as a protected workload
  whose most recent run failed; only the age of the last completed run counts.\<close>

theorem top_risks_miss_failures:
  assumes "\<forall>w \<in> set (own_workloads org db). \<exists>r \<in> set (a_runs db). \<exists>t.
     tr_workload_id r = wl_id w \<and> tr_status r = ''failed'' \<and> tr_completed_at r = Some t \<and> now < t + 31 * 86400000000"
  shows "top_risks now org db = []"
proof -
  have "risk_of now db w = None" if "w \<in> set (own_workloads org db)" for w
    using assms that by (blast intro: no_risk_if_recent)
  then have "List.map_filter (risk_of now db) (own_workloads org db) = []"
    by (simp add: map_filter_def filter_empty_conv)
  then show ?thesis by (simp add: top_risks_def)
qed

subsection \<open>Witnesses\<close>

definition demo_dash :: dash_db where
  "demo_dash = portal_db.extend
     (demo_portal\<lparr>a_runs := [\<lparr>tr_id = 21, tr_workload_id = 11, tr_status = ''failed'', tr_started_at = Some 0,
        tr_completed_at = Some 10, tr_rto_actual_mins = None, tr_rpo_actual_mins = None, tr_readiness_score = None,
        tr_failure_reason = None, tr_workflow_run_id = None\<rparr>]\<rparr>)
     (dash_db.fields (\<lambda>_. ''vmware'') [] [] [] [])"

theorem top_risks_miss_failures_witness: "own_workloads 7 demo_dash \<noteq> [] \<and> top_risks 20 7 demo_dash = []"
proof
  have own: "own_workloads 7 demo_dash = a_workloads demo_portal"
    by (simp add: demo_dash_def demo_portal_def own_workloads_def workload_org_def appliance_org_def
        portal_db.defs dash_db.defs)
  show "own_workloads 7 demo_dash \<noteq> []" unfolding own by (simp add: demo_portal_def)
  show "top_risks 20 7 demo_dash = []"
    by (rule top_risks_miss_failures, unfold own) (simp add: demo_dash_def demo_portal_def portal_db.defs dash_db.defs)
qed
end
