(* ===== verification/EvidenceFiles.thy ===== *)
theory EvidenceFiles
  imports Json
begin

text \<open>
  Files the API writes: report paths and redaction (\<open>services/report.py\<close>), the false-positive
  lists (\<open>services/false_positives.py\<close>) and the evidence bundle
  (\<open>services/evidence_vault.py\<close>). A path is the list of its components; no component below the
  base directories is a symbolic link, and the base directories are resolved. File contents are
  texts; SHA-256, the ZIP encoding and the JSON parser are arguments.
\<close>

subsection \<open>Paths\<close>

text \<open>\<open>Path(s)\<close>: a root (two leading slashes are a root of their own) and the parts, without empty and dot parts.\<close>

definition path_root :: "string \<Rightarrow> string" where
  "path_root s =
     (if \<not> startswith s ''/'' then []
      else if startswith s ''//'' \<and> \<not> startswith s ''///'' then ''//'' else ''/'')"

definition path_parts :: "string \<Rightarrow> string list" where
  "path_parts s = filter (\<lambda>c. c \<noteq> [] \<and> c \<noteq> ''.'') (split_on (CHR ''/'') s)"

definition path_name :: "string \<Rightarrow> string" where
  "path_name s = (case path_parts s of [] \<Rightarrow> [] | ps \<Rightarrow> last ps)"

text \<open>\<open>resolve\<close>: a \<open>..\<close> removes the component before it, and nothing at the root.\<close>

definition resolve_parts :: "string list \<Rightarrow> string list" where
  "resolve_parts ps = rev (fold (\<lambda>c acc. if c = ''..'' then tl acc else c # acc) ps [])"

definition abs_text :: "string \<Rightarrow> string list \<Rightarrow> string" where
  "abs_text anchor ps = anchor @ join ''/'' ps"

text \<open>\<open>(base / relative).resolve()\<close>, and the prefix test of its text; a null byte makes the system call raise.\<close>

definition resolve_below :: "string \<Rightarrow> string list \<Rightarrow> string \<Rightarrow> string list result" where
  "resolve_below message base relative =
     (let anchor = (if path_root relative = [] then ''/'' else path_root relative);
          resolved = resolve_parts (if path_root relative = [] then base @ path_parts relative else path_parts relative)
      in if CHR 0x00 \<in> set relative then Inl (ValueError ''embedded null byte'')
         else if \<not> startswith (abs_text anchor resolved) (abs_text ''/'' base)
         then Inl (ValueError (''Path traversal detected: '' @ repr_str relative @ message))
         else Inr resolved)"

subsection \<open>Reports\<close>

definition sanitize_storage_path :: "string list \<Rightarrow> string \<Rightarrow> string list result" where
  "sanitize_storage_path base relative_path = resolve_below '' resolves outside reports directory'' base relative_path"

text \<open>\<open>str(Path(a) / b)\<close> on two names: empty ones vanish, and the empty path is a dot.\<close>

definition join_names :: "string \<Rightarrow> string \<Rightarrow> string" where
  "join_names a b = (case filter (\<lambda>c. c \<noteq> []) [a, b] of [] \<Rightarrow> ''.'' | cs \<Rightarrow> join ''/'' cs)"

definition resolve_report_path :: "string list \<Rightarrow> string \<Rightarrow> string \<Rightarrow> string list result" where
  "resolve_report_path base org_id filename =
     sanitize_storage_path base (join_names (path_name org_id) (path_name filename))"

type_synonym files = "string list \<Rightarrow> string option"

definition write_report_file :: "string list \<Rightarrow> string \<Rightarrow> string \<Rightarrow> string \<Rightarrow> (files, string list) exec" where
  "write_report_file base org_id filename content =
     seq (lift_result (resolve_report_path base org_id filename)) (\<lambda>dest.
     seq (update (\<lambda>fs. fs(dest \<mapsto> content))) (\<lambda>_. ret dest))"

definition SENSITIVE :: "string list" where
  "SENSITIVE = [''password'', ''passwd'', ''secret'', ''token'', ''api_key'', ''apikey'', ''credential'', ''auth'', ''bearer'']"

definition sensitive_key :: "string \<Rightarrow> bool" where
  "sensitive_key key = list_ex (contains (lower key)) SENSITIVE"

fun redact_value :: "json \<Rightarrow> json"
  and redact_sensitive_fields :: "dict \<Rightarrow> dict" where
  "redact_value (JObj d) = JObj (redact_sensitive_fields d)"
| "redact_value v = v"
| "redact_sensitive_fields [] = []"
| "redact_sensitive_fields ((key, v) # d) =
     (key, if sensitive_key key then JStr ''**REDACTED**'' else redact_value v) # redact_sensitive_fields d"

definition build_report_summary :: "dict \<Rightarrow> dict" where
  "build_report_summary raw_data = redact_sensitive_fields raw_data"

definition compute_report_checksum :: "(string \<Rightarrow> string) \<Rightarrow> string \<Rightarrow> string" where
  "compute_report_checksum sha256 pdf_bytes = sha256 pdf_bytes"

subsection \<open>False positives\<close>

definition safe_fp_path :: "string list \<Rightarrow> string \<Rightarrow> string list result" where
  "safe_fp_path base relative_path = resolve_below '' resolves outside false-positives directory'' base relative_path"

definition fp_path :: "string list \<Rightarrow> string \<Rightarrow> string list result" where
  "fp_path base list_name = safe_fp_path base (path_name list_name @ ''.json'')"

definition load_false_positive_list ::
    "(string \<Rightarrow> json result) \<Rightarrow> string list \<Rightarrow> string \<Rightarrow> (files, json list) exec" where
  "load_false_positive_list parse base list_name =
     seq (lift_result (fp_path base list_name)) (\<lambda>path.
     seq (gets (\<lambda>fs. fs path)) (\<lambda>content.
     case content of
       None \<Rightarrow> ret []
     | Some t \<Rightarrow>
         seq (lift_result (parse t)) (\<lambda>data.
         case data of
           JArr entries \<Rightarrow> ret entries
         | _ \<Rightarrow> raise (ValueError ''Expected a JSON array''))))"

text \<open>\<open>json.dumps(v, indent=2)\<close>\<close>

definition newline_at :: "nat \<Rightarrow> string" where
  "newline_at n = CHR 0x0A # replicate (2 * n) (CHR '' '')"

fun dumps_at :: "nat \<Rightarrow> json \<Rightarrow> string"
  and dumps_items_at :: "nat \<Rightarrow> json list \<Rightarrow> string list"
  and dumps_members_at :: "nat \<Rightarrow> dict \<Rightarrow> string list" where
  "dumps_at n (JArr xs) =
     (if xs = [] then ''[]''
      else ''['' @ newline_at (n + 1) @ join ('','' @ newline_at (n + 1)) (dumps_items_at (n + 1) xs) @ newline_at n @ '']'')"
| "dumps_at n (JObj d) =
     (if d = [] then [CHR 0x7B, CHR 0x7D]
      else CHR 0x7B # newline_at (n + 1) @ join ('','' @ newline_at (n + 1)) (dumps_members_at (n + 1) d) @ newline_at n @ [CHR 0x7D])"
| "dumps_at n j = dumps j"
| "dumps_items_at n [] = []"
| "dumps_items_at n (x # xs) = dumps_at n x # dumps_items_at n xs"
| "dumps_members_at n [] = []"
| "dumps_members_at n ((k, v) # d) = (quote k @ '': '' @ dumps_at n v) # dumps_members_at n d"

definition dumps_indent :: "json \<Rightarrow> string" where
  "dumps_indent j = dumps_at 0 j"

definition save_false_positive_list :: "string list \<Rightarrow> string \<Rightarrow> json list \<Rightarrow> (files, unit) exec" where
  "save_false_positive_list base list_name entries =
     seq (lift_result (fp_path base list_name)) (\<lambda>path.
     update (\<lambda>fs. fs(path \<mapsto> dumps_indent (JArr entries))))"

text \<open>\<open>a == b\<close> on JSON values: numbers and booleans compare by value,
  also inside lists and dictionaries, and the order of a dictionary does not matter.\<close>

fun num_value :: "json \<Rightarrow> rat option" where
  "num_value (JBool b) = Some (if b then 1 else 0)"
| "num_value (JInt n) = Some (of_int n)"
| "num_value (JFloat x) = Some x"
| "num_value _ = None"

fun py_eq :: "json \<Rightarrow> json \<Rightarrow> bool"
  and py_eq_items :: "json list \<Rightarrow> json list \<Rightarrow> bool"
  and py_eq_members :: "dict \<Rightarrow> dict \<Rightarrow> bool" where
  "py_eq (JArr xs) b = (case b of JArr ys \<Rightarrow> py_eq_items xs ys | _ \<Rightarrow> False)"
| "py_eq (JObj d) b = (case b of JObj e \<Rightarrow> set (map fst d) = set (map fst e) \<and> py_eq_members d e | _ \<Rightarrow> False)"
| "py_eq (JStr s) b = (b = JStr s)"
| "py_eq JNull b = (b = JNull)"
| "py_eq a b = (num_value b = num_value a)"
| "py_eq_items [] ys = (ys = [])"
| "py_eq_items (x # xs) ys = (case ys of [] \<Rightarrow> False | y # ys' \<Rightarrow> py_eq x y \<and> py_eq_items xs ys')"
| "py_eq_members [] e = True"
| "py_eq_members ((k, v) # d) e = ((case map_of e k of None \<Rightarrow> False | Some w \<Rightarrow> py_eq v w) \<and> py_eq_members d e)"

text \<open>An entry that is not an object has no \<open>get\<close>.\<close>

definition entry_matches :: "json \<Rightarrow> json \<Rightarrow> json \<Rightarrow> bool result" where
  "entry_matches cve_id package entry =
     (case entry of
        JObj e \<Rightarrow> Inr (truthy (dget e ''cve_id'') \<and> py_eq (dget e ''cve_id'') cve_id \<and>
          (\<not> truthy (dget e ''package'') \<or> py_eq (dget e ''package'') package))
      | _ \<Rightarrow> Inl (AttributeError ''object has no attribute get''))"

fun any_entry :: "json \<Rightarrow> json \<Rightarrow> json list \<Rightarrow> bool result" where
  "any_entry cve_id package [] = Inr False"
| "any_entry cve_id package (e # es) =
     and_then (entry_matches cve_id package e) (\<lambda>m. if m then Inr True else any_entry cve_id package es)"

definition is_false_positive :: "dict \<Rightarrow> json list \<Rightarrow> bool result" where
  "is_false_positive finding fp_list =
     any_entry (dget_or finding ''cve_id'' (JStr [])) (dget_or finding ''package'' (JStr [])) fp_list"

fun drop_false_positives :: "json list \<Rightarrow> dict list \<Rightarrow> dict list result" where
  "drop_false_positives fp_list [] = Inr []"
| "drop_false_positives fp_list (f # fs) =
     and_then (is_false_positive f fp_list) (\<lambda>hit.
     and_then (drop_false_positives fp_list fs) (\<lambda>kept. Inr (if hit then kept else f # kept)))"

definition filter_false_positives ::
    "(string \<Rightarrow> json result) \<Rightarrow> string list \<Rightarrow> dict list \<Rightarrow> string \<Rightarrow> (files, dict list) exec" where
  "filter_false_positives parse base findings list_name =
     seq (load_false_positive_list parse base list_name) (\<lambda>fp_list.
     lift_result (drop_false_positives fp_list findings))"

subsection \<open>The evidence bundle\<close>

text \<open>The archive written so far and the digests of its files.\<close>

record archive =
  bu_entries :: "(string \<times> string) list"
  bu_digests :: dict

definition add_file :: "(string \<Rightarrow> string) \<Rightarrow> string \<Rightarrow> string \<Rightarrow> (archive, unit) exec" where
  "add_file sha256 arcname data =
     update (\<lambda>b. b\<lparr>bu_entries := bu_entries b @ [(arcname, data)],
                    bu_digests := dset (bu_digests b) arcname (JStr (sha256 data))\<rparr>)"

definition replace_slash :: "string \<Rightarrow> string" where
  "replace_slash s = map (\<lambda>c. if c = CHR ''/'' then CHR ''_'' else c) s"

definition workload_dir :: "dict \<Rightarrow> string result" where
  "workload_dir run =
     (case dget_or run ''workload_name'' (JStr ''unknown'') of
        JStr s \<Rightarrow> Inr (''workloads/'' @ replace_slash s @ ''/'')
      | _ \<Rightarrow> Inl (AttributeError ''object has no attribute replace''))"

definition run_summary :: "dict \<Rightarrow> json" where
  "run_summary run = JObj
     [(''workload'', dget run ''workload_name''), (''provider'', dget run ''provider''),
      (''test_date'', dget run ''test_date''), (''status'', dget run ''status''),
      (''rto_target_mins'', dget run ''rto_target''), (''rto_actual_mins'', dget run ''rto_actual''),
      (''rto_compliant'', dget run ''rto_ok''), (''readiness_score'', dget run ''readiness_score'')]"

definition add_if_present :: "(string \<Rightarrow> string) \<Rightarrow> string \<Rightarrow> json \<Rightarrow> (archive, unit) exec" where
  "add_if_present sha256 arcname v = (if truthy v then add_file sha256 arcname (dumps_indent v) else ret ())"

definition add_run :: "(string \<Rightarrow> string) \<Rightarrow> dict \<Rightarrow> (archive, unit) exec" where
  "add_run sha256 run =
     seq (lift_result (workload_dir run)) (\<lambda>prefix.
     seq (add_file sha256 (prefix @ ''summary.json'') (dumps_indent (run_summary run))) (\<lambda>_.
     seq (add_if_present sha256 (prefix @ ''health_checks.json'') (dget run ''health_checks'')) (\<lambda>_.
     add_if_present sha256 (prefix @ ''steps.json'') (dget run ''steps''))))"

definition manifest_of :: "string \<Rightarrow> string \<Rightarrow> string \<Rightarrow> dict \<Rightarrow> json" where
  "manifest_of now org_name framework digests = JObj
     [(''generated_at'', JStr now), (''org'', JStr org_name), (''framework'', JStr framework),
      (''r3vp_version'', JStr ''0.7.0''), (''files'', JObj digests)]"

definition build_evidence_bundle ::
    "(string \<Rightarrow> string) \<Rightarrow> ((string \<times> string) list \<Rightarrow> string) \<Rightarrow> string \<Rightarrow> string \<Rightarrow> string \<Rightarrow> string \<Rightarrow> dict list \<Rightarrow> json list \<Rightarrow>
     string \<Rightarrow> (archive, string \<times> string) exec" where
  "build_evidence_bundle sha256 pack now org_name report_pdf report_filename test_runs audit_chain_entries framework =
     seq (if report_pdf \<noteq> [] then add_file sha256 report_filename report_pdf else ret ()) (\<lambda>_.
     seq (add_file sha256 ''audit_chain.json'' (dumps_indent (JArr audit_chain_entries))) (\<lambda>_.
     seq (for_each (add_run sha256) test_runs) (\<lambda>_.
     seq (update (\<lambda>b. b\<lparr>bu_entries := bu_entries b @
            [(''manifest.json'', dumps_indent (manifest_of now org_name framework (bu_digests b)))]\<rparr>)) (\<lambda>_.
     seq (gets bu_entries) (\<lambda>entries.
     ret (pack entries, sha256 (pack entries)))))))"

definition empty_bundle :: archive where
  "empty_bundle = \<lparr>bu_entries = [], bu_digests = []\<rparr>"

text \<open>Reading a file of an archive by its name finds the last entry of that name.\<close>

definition read_archive :: "(string \<times> string) list \<Rightarrow> string \<Rightarrow> string option" where
  "read_archive entries arcname = map_of (rev entries) arcname"

subsection \<open>Where paths lead\<close>

text \<open>A resolved base directory.\<close>

definition component_ok :: "string \<Rightarrow> bool" where
  "component_ok c \<longleftrightarrow> c \<noteq> [] \<and> c \<noteq> ''.'' \<and> CHR ''/'' \<notin> set c"

definition base_ok :: "string list \<Rightarrow> bool" where
  "base_ok base \<longleftrightarrow> base \<noteq> [] \<and> (\<forall>c \<in> set base. component_ok c \<and> c \<noteq> ''..'' \<and> CHR 0x00 \<notin> set c)"

lemma split_on_none: "c \<notin> set s \<Longrightarrow> split_on c s = [s]"
  by (induction s) auto

lemma split_on_sep: "c \<notin> set s \<Longrightarrow> split_on c (s @ c # t) = s # split_on c t"
  by (induction s) auto

lemma split_on_parts: "w \<in> set (split_on c s) \<Longrightarrow> c \<notin> set w"
  by (induction s arbitrary: w) (auto split: list.splits if_splits)

lemma path_parts_ok: "c \<in> set (path_parts s) \<Longrightarrow> component_ok c"
  by (auto simp: path_parts_def component_ok_def dest: split_on_parts)

lemma path_name_ok: "path_name s = [] \<or> component_ok (path_name s)"
proof (cases "path_parts s")
  case (Cons c cs)
  then have "last (c # cs) \<in> set (path_parts s)" by (simp only: last_in_set list.distinct simp_thms)
  then have "component_ok (last (c # cs))" by (rule path_parts_ok)
  then show ?thesis by (simp only: path_name_def Cons list.case simp_thms)
qed (simp add: path_name_def)

lemma path_name_of: "component_ok c \<Longrightarrow> path_name c = c"
  by (simp add: path_name_def path_parts_def component_ok_def split_on_none)

lemma path_root_of: "component_ok c \<Longrightarrow> path_root (c @ s) = []"
  by (cases c) (auto simp: path_root_def component_ok_def startswith_def)

lemma join_names_parts:
  assumes "a = [] \<or> component_ok a" and "b = [] \<or> component_ok b"
  shows "path_parts (join_names a b) = filter (\<lambda>c. c \<noteq> []) [a, b] \<and> path_root (join_names a b) = []"
proof -
  have dot: "path_parts ''.'' = []" "path_root ''.'' = []" by (simp_all add: path_parts_def path_root_def startswith_def)
  show ?thesis
    using assms path_root_of [of a "CHR ''/'' # b"] path_root_of [of a "[]"] path_root_of [of b "[]"] dot
    by (auto simp: join_names_def path_parts_def split_on_sep split_on_none component_ok_def)
qed

lemma resolve_append:
  "''..'' \<notin> set base \<Longrightarrow>
     resolve_parts (base @ ps) = rev (fold (\<lambda>c acc. if c = ''..'' then tl acc else c # acc) ps (rev base))"
proof -
  assume base: "''..'' \<notin> set base"
  have "fold (\<lambda>c acc. if c = ''..'' then tl acc else c # acc) xs acc = rev xs @ acc" if "''..'' \<notin> set xs" for xs acc
    using that by (induction xs arbitrary: acc) auto
  then show ?thesis using base by (simp add: resolve_parts_def)
qed

lemma base_no_dots: "base_ok base \<Longrightarrow> ''..'' \<notin> set base"
  by (auto simp: base_ok_def)

lemma join_append:
  "xs \<noteq> [] \<Longrightarrow> join sep (xs @ ys) = join sep xs @ (if ys = [] then [] else sep @ join sep ys)"
proof (induction xs)
  case (Cons x xs)
  then show ?case by (cases xs; cases ys) auto
qed simp

lemma below_text: "base_ok base \<Longrightarrow> startswith (abs_text ''/'' (base @ ps)) (abs_text ''/'' base)"
  by (simp add: abs_text_def startswith_iff join_append base_ok_def)

lemma above_text:
  assumes "base_ok base" "n < length base"
  shows "\<not> startswith (abs_text ''/'' (take n base)) (abs_text ''/'' base)"
proof
  assume "startswith (abs_text ''/'' (take n base)) (abs_text ''/'' base)"
  then have "length (join ''/'' base) \<le> length (join ''/'' (take n base))"
    by (auto simp: startswith_iff abs_text_def dest: arg_cong [where f = length])
  moreover have "length (join ''/'' (take n base)) < length (join ''/'' base)"
  proof (cases "take n base = []")
    case True
    have "hd base \<noteq> []" using assms by (cases base) (auto simp: base_ok_def component_ok_def)
    then have "join ''/'' base \<noteq> []" using assms(2) by (cases base rule: list.exhaust; cases "tl base") auto
    then show ?thesis by (cases "join ''/'' base") (simp_all only: True join.simps list.size simp_thms zero_less_Suc add_0_right Suc_eq_plus1 [symmetric])
  next
    case False
    then show ?thesis using join_append [OF False, of "''/''" "drop n base"] assms(2) by simp
  qed
  ultimately show False by simp
qed

lemma sibling_text:
  assumes "base_ok base"
  shows "startswith (abs_text ''/'' (butlast base @ [c])) (abs_text ''/'' base) \<longleftrightarrow> startswith c (last base)"
proof -
  have "\<exists>pre. \<forall>d. join ''/'' (xs @ [d]) = pre @ d" for xs :: "string list"
    by (cases "xs = []") (auto simp: join_append)
  then obtain pre where pre: "\<And>d. join ''/'' (butlast base @ [d]) = pre @ d" by blast
  have "join ''/'' base = pre @ last base" using pre [of "last base"] assms by (simp add: base_ok_def)
  then show ?thesis by (simp add: abs_text_def pre startswith_iff)
qed

text \<open>What the check decides about the components that were joined to the base.\<close>

lemma resolve_below_parts:
  assumes "base_ok base" and "path_root rel = []" and "CHR 0x00 \<notin> set rel"
  shows "resolve_below msg base rel =
     (let p = rev (fold (\<lambda>c acc. if c = ''..'' then tl acc else c # acc) (path_parts rel) (rev base)) in
      if startswith (abs_text ''/'' p) (abs_text ''/'' base) then Inr p
      else Inl (ValueError (''Path traversal detected: '' @ repr_str rel @ msg)))"
  using assms by (simp add: resolve_below_def Let_def resolve_append [OF base_no_dots])

lemma fold_dots:
  "fold (\<lambda>c acc. if c = ''..'' then tl acc else c # acc) [] acc = acc"
  "fold (\<lambda>c acc. if c = ''..'' then tl acc else c # acc) (c # cs) acc
     = fold (\<lambda>c acc. if c = ''..'' then tl acc else c # acc) cs (if c = ''..'' then tl acc else c # acc)"
  by simp_all

lemma rev_tl_rev: "rev (tl (rev xs)) = take (length xs - 1) xs"
  by (simp add: rev_swap [symmetric] butlast_conv_take flip: butlast_rev)

lemma no_parent_text:
  "base_ok base \<Longrightarrow> \<not> startswith (abs_text ''/'' (rev (tl (rev base)))) (abs_text ''/'' base)"
  "base_ok base \<Longrightarrow> \<not> startswith (abs_text ''/'' (rev (tl (tl (rev base))))) (abs_text ''/'' base)"
proof -
  assume base: "base_ok base"
  then have "length base - 1 < length base" "length base - 1 - 1 < length base" by (cases base; simp add: base_ok_def)+
  moreover have "rev (tl (tl (rev base))) = take (length base - 1 - 1) base"
    by (metis rev_tl_rev rev_rev_ident length_take min.absorb2 diff_le_self take_take min.absorb_iff1 min.commute)
  ultimately show "\<not> startswith (abs_text ''/'' (rev (tl (rev base)))) (abs_text ''/'' base)"
    "\<not> startswith (abs_text ''/'' (rev (tl (tl (rev base))))) (abs_text ''/'' base)"
    using above_text [OF base] by (simp_all add: rev_tl_rev)
qed

lemma report_path_cases:
  assumes base: "base_ok base" and ok: "a = [] \<or> component_ok a" "b = [] \<or> component_ok b"
    and run: "sanitize_storage_path base (join_names a b) = Inr p"
  shows "(\<exists>ext. p = base @ ext \<and> length ext \<le> 2) \<or> (a = ''..'' \<and> (\<exists>s. s \<noteq> [] \<and> p = butlast base @ [last base @ s]))"
proof -
  note parts = join_names_parts [OF ok]
  have nul: "CHR 0x00 \<notin> set (join_names a b)"
    using run by (auto simp: sanitize_storage_path_def resolve_below_def Let_def split: if_splits)
  define q where "q = rev (fold (\<lambda>c acc. if c = ''..'' then tl acc else c # acc) (filter (\<lambda>c. c \<noteq> []) [a, b]) (rev base))"
  have q: "p = q" "startswith (abs_text ''/'' q) (abs_text ''/'' base)"
    using run parts unfolding sanitize_storage_path_def resolve_below_parts [OF base conjunct2 [OF parts] nul]
    by (auto simp: q_def Let_def split: if_splits)
  note up = no_parent_text [OF base]
  have sibling: ?thesis if "a = ''..''" "q = rev (tl (rev base)) @ [b]"
  proof -
    have qb: "q = butlast base @ [b]" using that(2) by (simp add: butlast_rev [symmetric])
    then have "startswith b (last base)" using q(2) sibling_text [OF base] by simp
    then obtain s where s: "b = last base @ s" by (auto simp: startswith_iff)
    have "base = butlast base @ [last base]" using base by (simp add: base_ok_def)
    then show ?thesis using q(1) qb s that(1) by (cases "s = []") (metis append_Nil2 le0 list.size(3), blast)
  qed
  show ?thesis
  proof (cases "a = ''..''")
    case True
    then consider "b = []" | "b = ''..''" | "b \<noteq> []" "b \<noteq> ''..''" by blast
    then show ?thesis
    proof cases
      case 3
      then show ?thesis using sibling True by (simp add: q_def)
    qed (use q(2) up True in \<open>simp_all add: q_def\<close>)
  next
    case False
    have "q \<in> {base, rev (tl (rev base)), base @ [a], base @ [b], base @ [a, b]}"
      using False by (auto simp: q_def)
    then show ?thesis using q up(1) by auto
  qed
qed

text \<open>Report paths are confined but for one case: a path that is accepted lies at most two components below the
  reports directory, unless the organisation's name ends in the component \<open>..\<close>; then it is a
  neighbour of that directory whose name continues the directory's own.\<close>

theorem report_paths_confined:
  assumes "base_ok base" and "resolve_report_path base org_id filename = Inr p"
  shows "(\<exists>ext. p = base @ ext \<and> length ext \<le> 2) \<or>
     (path_name org_id = ''..'' \<and> (\<exists>s. s \<noteq> [] \<and> p = butlast base @ [last base @ s]))"
  using report_path_cases [OF assms(1) path_name_ok path_name_ok] assms(2) by (simp add: resolve_report_path_def)

text \<open>C31: the traversal check can be passed: with the organisation \<open>..\<close> and a file name that continues the name of
  the reports directory, the report is written outside that directory, over whatever is there.\<close>

theorem report_written_outside:
  assumes "base_ok base" and "s \<noteq> []" "CHR ''/'' \<notin> set s" "CHR 0x00 \<notin> set s"
  shows "write_report_file base ''..'' (last base @ s) content fs
     = (Inr (butlast base @ [last base @ s]), fs(butlast base @ [last base @ s] \<mapsto> content)) \<and>
     \<not> (\<exists>ext. butlast base @ [last base @ s] = base @ ext)"
proof -
  define b where "b = last base @ s"
  have last: "component_ok (last base)" "CHR 0x00 \<notin> set (last base)" "last base \<noteq> ''..''"
    using assms(1) by (auto simp: base_ok_def)
  have okb: "component_ok b" using last(1) assms(2,3) by (auto simp: b_def component_ok_def append_eq_Cons_conv)
  have oka: "component_ok ''..''" by (simp add: component_ok_def)
  have bne: "b \<noteq> ''..''"
  proof
    assume "b = ''..''"
    then have "last base = ''.''" using last(1,3) assms(2) by (auto simp: b_def component_ok_def append_eq_Cons_conv)
    then show False using last(1) by (simp add: component_ok_def)
  qed
  have nul: "CHR 0x00 \<notin> set (join_names ''..'' b)" using last(2) assms(4) okb by (simp add: join_names_def b_def component_ok_def)
  have parts: "path_parts (join_names ''..'' b) = [''..'', b]" "path_root (join_names ''..'' b) = []"
    using join_names_parts [of "''..''" b] oka okb by (auto simp: component_ok_def)
  have "rev (tl (rev base)) @ [b] = butlast base @ [b]" by (simp add: butlast_rev [symmetric])
  moreover have "startswith (abs_text ''/'' (butlast base @ [b])) (abs_text ''/'' base)"
    using sibling_text [OF assms(1)] by (simp add: b_def)
  ultimately have "resolve_report_path base ''..'' b = Inr (butlast base @ [b])"
    unfolding resolve_report_path_def sanitize_storage_path_def path_name_of [OF oka] path_name_of [OF okb]
      resolve_below_parts [OF assms(1) parts(2) nul] parts(1)
    using bne by (simp add: Let_def)
  moreover have "\<not> (\<exists>ext. butlast base @ [b] = base @ ext)"
  proof
    assume "\<exists>ext. butlast base @ [b] = base @ ext"
    then obtain ext where ext: "butlast base @ [b] = base @ ext" by blast
    have "base = butlast base @ [last base]" using assms(1) by (simp add: base_ok_def)
    then have "butlast base @ [b] = butlast base @ last base # ext" using ext by (metis append.assoc append_Cons append_Nil)
    then show False using assms(2) by (simp add: b_def)
  qed
  ultimately show ?thesis by (simp add: write_report_file_def b_def exec_simps)
qed

definition demo_base :: "string list" where
  "demo_base = [''var'', ''r3vp'', ''reports'']"

lemma demo_base_ok: "base_ok demo_base"
  by (simp add: base_ok_def component_ok_def demo_base_def)

theorem report_paths_confined_witness:
  "\<exists>p. resolve_report_path demo_base ''x/../acme'' ''q1.pdf'' = Inr p \<and> (\<exists>ext. p = demo_base @ ext \<and> length ext \<le> 2)"
proof -
  have "resolve_report_path demo_base ''x/../acme'' ''q1.pdf'' = Inr [''var'', ''r3vp'', ''reports'', ''acme'', ''q1.pdf'']"
    by code_simp
  moreover have "path_name ''x/../acme'' \<noteq> ''..''" by code_simp
  ultimately show ?thesis using report_paths_confined [OF demo_base_ok] by blast
qed

theorem report_written_outside_witness:
  "write_report_file demo_base ''..'' ''reports.pdf'' ''x'' (\<lambda>_. None)
     = (Inr [''var'', ''r3vp'', ''reports.pdf''], [[''var'', ''r3vp'', ''reports.pdf''] \<mapsto> ''x''])"
  using report_written_outside [OF demo_base_ok, of "''.pdf''" "''x''" "\<lambda>_. None"] by (simp add: demo_base_def)

subsection \<open>False positives\<close>

lemma fp_path_eq:
  assumes "base_ok base" and "CHR 0x00 \<notin> set (path_name list_name)"
  shows "fp_path base list_name = Inr (base @ [path_name list_name @ ''.json''])"
proof -
  let ?f = "path_name list_name @ ''.json''"
  have f: "component_ok ?f" "?f \<noteq> ''..''"
    using path_name_ok [of list_name] by (auto simp: component_ok_def append_eq_Cons_conv)
  have nul: "CHR 0x00 \<notin> set ?f" using assms(2) by simp
  have "path_parts ?f = [?f]" using f(1) by (simp add: path_parts_def component_ok_def split_on_none)
  moreover have "path_root ?f = []" using path_root_of [OF f(1), of "[]"] by simp
  ultimately show ?thesis
    using f(2) below_text [OF assms(1), of "[?f]"]
    unfolding fp_path_def safe_fp_path_def by (subst resolve_below_parts [OF assms(1) _ nul]) (simp_all add: Let_def)
qed

definition suppressed :: "json list \<Rightarrow> dict \<Rightarrow> bool" where
  "suppressed fp_list finding \<longleftrightarrow>
     (\<exists>e. JObj e \<in> set fp_list \<and> truthy (dget e ''cve_id'') \<and>
        py_eq (dget e ''cve_id'') (dget_or finding ''cve_id'' (JStr [])) \<and>
        (truthy (dget e ''package'') \<longrightarrow> py_eq (dget e ''package'') (dget_or finding ''package'' (JStr []))))"

lemma is_false_positive_eq:
  "list_all (\<lambda>e. \<exists>d. e = JObj d) fp_list \<Longrightarrow> is_false_positive finding fp_list = Inr (suppressed fp_list finding)"
  unfolding is_false_positive_def by (induction fp_list) (auto simp: suppressed_def entry_matches_def)

lemma drop_false_positives_eq:
  "list_all (\<lambda>e. \<exists>d. e = JObj d) fp_list \<Longrightarrow>
     drop_false_positives fp_list findings = Inr (filter (\<lambda>f. \<not> suppressed fp_list f) findings)"
  by (induction findings) (simp_all add: is_false_positive_eq)

text \<open>C32: suppression lists come back as they were saved: whatever path a list is named by, saving it and filtering by
  any path with the same last component keeps exactly the findings no entry of it matches, and
  the lists of other names are untouched (the JSON parser reads back what \<open>json.dump\<close> wrote).\<close>

theorem suppression_list_roundtrip:
  assumes "base_ok base" and "CHR 0x00 \<notin> set (path_name list_name)" and "path_name same = path_name list_name"
    and "list_all (\<lambda>e. \<exists>d. e = JObj d) entries"
    and "parse (dumps_indent (JArr entries)) = Inr (JArr entries)"
  shows "\<exists>fs'. save_false_positive_list base list_name entries fs = (Inr (), fs') \<and>
     filter_false_positives parse base findings same fs' = (Inr (filter (\<lambda>f. \<not> suppressed entries f) findings), fs') \<and>
     (\<forall>other. path_name other \<noteq> path_name list_name \<and> CHR 0x00 \<notin> set (path_name other) \<longrightarrow>
        fst (load_false_positive_list parse base other fs') = fst (load_false_positive_list parse base other fs))"
proof -
  note paths = fp_path_eq [OF assms(1)]
  let ?fs = "fs(base @ [path_name list_name @ ''.json''] \<mapsto> dumps_indent (JArr entries))"
  have "save_false_positive_list base list_name entries fs = (Inr (), ?fs)"
    by (simp add: save_false_positive_list_def paths [OF assms(2)] exec_simps)
  moreover have "filter_false_positives parse base findings same ?fs = (Inr (filter (\<lambda>f. \<not> suppressed entries f) findings), ?fs)"
    using paths [of same] assms(2,3,5)
    by (simp add: filter_false_positives_def load_false_positive_list_def exec_simps drop_false_positives_eq [OF assms(4)])
  moreover have "fst (load_false_positive_list parse base other ?fs) = fst (load_false_positive_list parse base other fs)"
    if "path_name other \<noteq> path_name list_name" "CHR 0x00 \<notin> set (path_name other)" for other
    using that by (auto simp: load_false_positive_list_def paths exec_simps split: option.splits json.splits sum.splits)
  ultimately show ?thesis by blast
qed

theorem suppression_list_roundtrip_witness:
  "\<exists>fs'. filter_false_positives (\<lambda>_. Inr (JArr [JObj [(''cve_id'', JStr ''CVE-1'')]])) demo_base
     [[(''cve_id'', JStr ''CVE-1'')], [(''cve_id'', JStr ''CVE-2'')]] ''a/known'' fs' = (Inr [[(''cve_id'', JStr ''CVE-2'')]], fs')"
proof -
  have names: "CHR 0x00 \<notin> set (path_name ''known'')" "path_name ''a/known'' = path_name ''known''" by code_simp+
  have "suppressed [JObj [(''cve_id'', JStr ''CVE-1'')]] [(''cve_id'', JStr ''CVE-1'')]"
    "\<not> suppressed [JObj [(''cve_id'', JStr ''CVE-1'')]] [(''cve_id'', JStr ''CVE-2'')]"
    by (simp_all add: suppressed_def dget_def dget_or_def)
  then show ?thesis
    using suppression_list_roundtrip [OF demo_base_ok names, of "[JObj [(''cve_id'', JStr ''CVE-1'')]]"
        "\<lambda>_. Inr (JArr [JObj [(''cve_id'', JStr ''CVE-1'')]])" "\<lambda>_. None"
        "[[(''cve_id'', JStr ''CVE-1'')], [(''cve_id'', JStr ''CVE-2'')]]"]
    by auto
qed

subsection \<open>Redaction\<close>

text \<open>No sensitive key that is reached through objects alone keeps its value.\<close>

fun redacted_value :: "json \<Rightarrow> bool"
  and redacted :: "dict \<Rightarrow> bool" where
  "redacted_value (JObj d) = redacted d"
| "redacted_value v = True"
| "redacted [] = True"
| "redacted ((key, v) # d) = ((if sensitive_key key then v = JStr ''**REDACTED**'' else redacted_value v) \<and> redacted d)"

lemma redact_redacted: "redacted_value (redact_value v)" "redacted (redact_sensitive_fields d)"
  by (induction v and d rule: redact_value_redact_sensitive_fields.induct) auto

lemma redacted_fixed: "redacted_value v \<Longrightarrow> redact_value v = v" "redacted d \<Longrightarrow> redact_sensitive_fields d = d"
  by (induction v and d rule: redact_value_redact_sensitive_fields.induct) (auto split: if_splits)

lemma redact_keys: "map fst (redact_sensitive_fields d) = map fst d"
  by (induction d) auto

text \<open>Report summaries: building one masks every credential-like key at any depth of nested objects, keeps all keys,
  and changes nothing the second time; but an object inside a list keeps its password.\<close>

theorem summary_redacts_objects_not_lists:
  "redacted (build_report_summary d) \<and> map fst (build_report_summary d) = map fst d \<and>
   build_report_summary (build_report_summary d) = build_report_summary d \<and>
   (\<not> sensitive_key k \<longrightarrow> build_report_summary [(k, JArr [JObj [(''password'', secret)]])] = [(k, JArr [JObj [(''password'', secret)]])])"
  by (simp add: build_report_summary_def redact_redacted redact_keys redacted_fixed)

theorem summary_redacts_objects_not_lists_witness:
  "build_report_summary [(''targets'', JArr [JObj [(''password'', JStr ''hunter2'')]])]
     = [(''targets'', JArr [JObj [(''password'', JStr ''hunter2'')]])]"
proof -
  have "\<not> sensitive_key ''targets''" by code_simp
  then show ?thesis using summary_redacts_objects_not_lists [of "[]" "''targets''" "JStr ''hunter2''"] by simp
qed

subsection \<open>What the manifest vouches for\<close>

definition put_files :: "(string \<Rightarrow> string) \<Rightarrow> (string \<times> string) list \<Rightarrow> archive \<Rightarrow> archive" where
  "put_files sha fs b = b\<lparr>bu_entries := bu_entries b @ fs,
     bu_digests := fold (\<lambda>(n, d) ds. dset ds n (JStr (sha d))) fs (bu_digests b)\<rparr>"

lemma put_files_append: "put_files sha ys (put_files sha xs b) = put_files sha (xs @ ys) b"
  by (simp add: put_files_def)

lemma put_files_Nil: "put_files sha [] b = b"
  by (simp add: put_files_def)

lemma add_file_put: "add_file sha n d = update (put_files sha [(n, d)])"
  by (rule ext) (simp add: add_file_def put_files_def update_def)

definition part_files :: "string \<Rightarrow> json \<Rightarrow> (string \<times> string) list" where
  "part_files arcname v = (if truthy v then [(arcname, dumps_indent v)] else [])"

definition run_files :: "string \<Rightarrow> dict \<Rightarrow> (string \<times> string) list" where
  "run_files prefix run = (prefix @ ''summary.json'', dumps_indent (run_summary run)) #
     part_files (prefix @ ''health_checks.json'') (dget run ''health_checks'') @ part_files (prefix @ ''steps.json'') (dget run ''steps'')"

lemma add_run_put: "workload_dir run = Inr prefix \<Longrightarrow> add_run sha run b = (Inr (), put_files sha (run_files prefix run) b)"
  by (simp add: add_run_def add_if_present_def add_file_put exec_simps put_files_append put_files_Nil run_files_def part_files_def)

definition files_of :: "dict \<Rightarrow> (string \<times> string) list" where
  "files_of run = (case workload_dir run of Inr prefix \<Rightarrow> run_files prefix run | Inl _ \<Rightarrow> [])"

definition named :: "dict \<Rightarrow> bool" where
  "named run \<longleftrightarrow> (\<exists>prefix. workload_dir run = Inr prefix)"

lemma add_runs_put:
  "list_all named runs \<Longrightarrow> for_each (add_run sha) runs b = (Inr (), put_files sha (concat (map files_of runs)) b)"
  by (induction runs arbitrary: b) (auto simp: exec_simps named_def add_run_put files_of_def put_files_append put_files_Nil)

definition bundle_files :: "string \<Rightarrow> string \<Rightarrow> dict list \<Rightarrow> json list \<Rightarrow> (string \<times> string) list" where
  "bundle_files pdf filename runs chain =
     (if pdf \<noteq> [] then [(filename, pdf)] else []) @ (''audit_chain.json'', dumps_indent (JArr chain)) # concat (map files_of runs)"

lemma build_eq:
  assumes "list_all named runs"
  shows "build_evidence_bundle sha pack now org pdf filename runs chain framework empty_bundle =
     (let files = bundle_files pdf filename runs chain;
          b = put_files sha files empty_bundle;
          entries = files @ [(''manifest.json'', dumps_indent (manifest_of now org framework (bu_digests b)))]
      in (Inr (pack entries, sha (pack entries)), b\<lparr>bu_entries := entries\<rparr>))"
  using assms
  by (auto simp: build_evidence_bundle_def add_file_put exec_simps add_runs_put put_files_append bundle_files_def Let_def)
    (simp_all add: put_files_def empty_bundle_def)

lemma digests_of_files:
  "map_of (fold (\<lambda>(n, d) ds. dset ds n (JStr (sha d))) fs ds) n =
     (case map_of (rev fs) n of Some d \<Rightarrow> Some (JStr (sha d)) | None \<Rightarrow> map_of ds n)"
  by (induction fs arbitrary: ds) (auto simp: map_add_def split: option.splits prod.splits)

lemma digest_of_entry:
  "map_of (bu_digests (put_files sha fs empty_bundle)) n = map_option (\<lambda>d. JStr (sha d)) (map_of (rev fs) n)"
  by (simp add: put_files_def digests_of_files empty_bundle_def split: option.splits)

text \<open>The manifest vouches for what a reader of the bundle finds: whatever the runs are called, the manifest read from
  the archive lists the digests, and each other name reads back as a file exactly when it has a
  digest there, that of its contents; the returned digest is that of the archive.\<close>

theorem manifest_vouches_for_reads:
  assumes "list_all named runs"
  shows "\<exists>entries digests. build_evidence_bundle sha pack now org pdf filename runs chain framework empty_bundle
       = (Inr (pack entries, sha (pack entries)), \<lparr>bu_entries = entries, bu_digests = digests\<rparr>) \<and>
     read_archive entries ''manifest.json'' = Some (dumps_indent (manifest_of now org framework digests)) \<and>
     (\<forall>name. name \<noteq> ''manifest.json'' \<longrightarrow>
        map_of digests name = map_option (\<lambda>data. JStr (sha data)) (read_archive entries name))"
proof -
  define files where "files = bundle_files pdf filename runs chain"
  define digests where "digests = bu_digests (put_files sha files empty_bundle)"
  define entries where "entries = files @ [(''manifest.json'', dumps_indent (manifest_of now org framework digests))]"
  have "build_evidence_bundle sha pack now org pdf filename runs chain framework empty_bundle
       = (Inr (pack entries, sha (pack entries)), \<lparr>bu_entries = entries, bu_digests = digests\<rparr>)"
    unfolding build_eq [OF assms] Let_def files_def [symmetric] digests_def [symmetric] entries_def [symmetric]
    by (simp add: digests_def put_files_def)
  then show ?thesis
    using digest_of_entry [of sha files]
    by (intro exI [of _ entries] exI [of _ digests]) (simp add: digests_def [symmetric] entries_def read_archive_def)
qed

subsection \<open>Two runs of one workload\<close>

lemma summary_names:
  assumes "f \<in> set (files_of run)" and "fst f = p @ ''summary.json''" and "workload_dir run \<noteq> Inr p"
  shows False
proof -
  obtain p' where p': "workload_dir run = Inr p'" and f: "f \<in> set (run_files p' run)"
    using assms(1) by (cases "workload_dir run") (auto simp: files_of_def)
  have "p' @ ''health_checks.json'' \<noteq> p @ ''summary.json''" "p' @ ''steps.json'' \<noteq> p @ ''summary.json''"
    by (auto dest: arg_cong [where f = rev])
  then show False using f assms(2,3) p' by (auto simp: run_files_def part_files_def split: if_splits)
qed

lemma summary_read:
  assumes "workload_dir r = Inr p" and "\<And>y. y \<in> set ys \<Longrightarrow> workload_dir y \<noteq> Inr p"
  shows "read_archive (pre @ files_of r @ concat (map files_of ys) @ [(''manifest.json'', m)]) (p @ ''summary.json'')
     = Some (dumps_indent (run_summary r))"
proof -
  have "p @ ''summary.json'' \<notin> fst ` set (concat (map files_of ys))"
  proof
    assume "p @ ''summary.json'' \<in> fst ` set (concat (map files_of ys))"
    then obtain y f where "y \<in> set ys" "f \<in> set (files_of y)" "fst f = p @ ''summary.json''" by auto
    then show False using summary_names [of f y p] assms(2) by auto
  qed
  then have later: "map_of (rev (concat (map files_of ys))) (p @ ''summary.json'') = None"
    by (simp add: map_of_eq_None_iff)
  have parts: "p @ ''health_checks.json'' \<noteq> p @ ''summary.json''" "p @ ''steps.json'' \<noteq> p @ ''summary.json''" by simp_all
  have "p @ ''summary.json'' \<noteq> ''manifest.json''" by (auto dest: arg_cong [where f = rev])
  then show ?thesis
    using later parts assms(1)
    by (auto simp: read_archive_def files_of_def run_files_def part_files_def map_add_def)
qed

text \<open>A bundle keeps one run per workload: all runs of workloads whose names agree up to slashes are written under the
  same names, so only the summary of the last of them can be read and is vouched for; the summary
  of an earlier, perhaps failed run is an entry with no digest of its own.\<close>

theorem bundle_keeps_last_run:
  assumes "list_all named (xs @ r # ys)" and "workload_dir r = Inr p" and "\<forall>y \<in> set ys. workload_dir y \<noteq> Inr p"
    and "earlier \<in> set xs" "workload_dir earlier = Inr p"
  shows "\<exists>entries digests. build_evidence_bundle sha pack now org pdf filename (xs @ r # ys) chain framework empty_bundle
       = (Inr (pack entries, sha (pack entries)), \<lparr>bu_entries = entries, bu_digests = digests\<rparr>) \<and>
     (p @ ''summary.json'', dumps_indent (run_summary earlier)) \<in> set entries \<and>
     read_archive entries (p @ ''summary.json'') = Some (dumps_indent (run_summary r)) \<and>
     map_of digests (p @ ''summary.json'') = Some (JStr (sha (dumps_indent (run_summary r))))"
proof -
  let ?files = "bundle_files pdf filename (xs @ r # ys) chain"
  define b where "b = put_files sha ?files empty_bundle"
  define m where "m = dumps_indent (manifest_of now org framework (bu_digests b))"
  define pre where "pre = (if pdf \<noteq> [] then [(filename, pdf)] else []) @ (''audit_chain.json'', dumps_indent (JArr chain)) # concat (map files_of xs)"
  have files: "?files = pre @ files_of r @ concat (map files_of ys)" by (simp add: bundle_files_def pre_def)
  let ?entries = "pre @ files_of r @ concat (map files_of ys) @ [(''manifest.json'', m)]"
  have built: "build_evidence_bundle sha pack now org pdf filename (xs @ r # ys) chain framework empty_bundle
       = (Inr (pack ?entries, sha (pack ?entries)), \<lparr>bu_entries = ?entries, bu_digests = bu_digests b\<rparr>)"
    unfolding build_eq [OF assms(1)] Let_def b_def [symmetric] m_def [symmetric] by (simp add: files b_def put_files_def)
  have "(p @ ''summary.json'', dumps_indent (run_summary earlier)) \<in> set (files_of earlier)"
    using assms(5) by (simp add: files_of_def run_files_def)
  then have kept: "(p @ ''summary.json'', dumps_indent (run_summary earlier)) \<in> set ?entries" using assms(4) by (auto simp: pre_def)
  have read: "read_archive ?entries (p @ ''summary.json'') = Some (dumps_indent (run_summary r))"
    using summary_read assms(2,3) by blast
  have "p @ ''summary.json'' \<noteq> ''manifest.json''" by (auto dest: arg_cong [where f = rev])
  then have "map_of (rev ?files) (p @ ''summary.json'') = Some (dumps_indent (run_summary r))"
    using read by (simp add: read_archive_def files)
  then have "map_of (bu_digests b) (p @ ''summary.json'') = Some (JStr (sha (dumps_indent (run_summary r))))"
    by (simp add: b_def digest_of_entry)
  with built kept read show ?thesis by blast
qed

definition demo_evidence_run :: "string \<Rightarrow> dict" where
  "demo_evidence_run status = [(''workload_name'', JStr ''db/prod''), (''status'', JStr status)]"

lemma demo_evidence_dir: "workload_dir (demo_evidence_run status) = Inr ''workloads/db_prod/''"
  by (simp add: workload_dir_def demo_evidence_run_def dget_or_def replace_slash_def)

theorem manifest_vouches_for_reads_witness:
  "\<exists>z b. build_evidence_bundle (\<lambda>s. s) (\<lambda>_. ''zip'') ''now'' ''org'' [] ''r.pdf'' [demo_evidence_run ''failed''] [] ''general'' empty_bundle
     = (Inr (''zip'', z), b)"
  using manifest_vouches_for_reads [of "[demo_evidence_run ''failed'']" "\<lambda>s. s" "\<lambda>_. ''zip''" "''now''" "''org''" "[]" "''r.pdf''" "[]" "''general''"]
  by (auto simp: named_def demo_evidence_dir)

theorem bundle_keeps_last_run_witness:
  "\<exists>z b. build_evidence_bundle (\<lambda>s. s) (\<lambda>_. ''zip'') ''now'' ''org'' [] ''r.pdf''
       [demo_evidence_run ''failed'', demo_evidence_run ''passed''] [] ''general'' empty_bundle = (Inr z, b) \<and>
     read_archive (bu_entries b) ''workloads/db_prod/summary.json'' = Some (dumps_indent (run_summary (demo_evidence_run ''passed'')))"
proof -
  have "list_all named ([demo_evidence_run ''failed''] @ demo_evidence_run ''passed'' # [])"
    by (simp add: named_def demo_evidence_dir)
  from bundle_keeps_last_run [OF this demo_evidence_dir, of "demo_evidence_run ''failed''" "\<lambda>s. s" "\<lambda>_. ''zip''" "''now''" "''org''"
      "[]" "''r.pdf''" "[]" "''general''"]
  show ?thesis by (auto simp: demo_evidence_dir)
qed

end
