(* ===== verification/Reports.thy ===== *)
theory Reports
  imports Dashboard EvidenceFiles
begin

text \<open>
  The report routes (\<open>routers/reports.py\<close>, \<open>models/report.py\<close>): the cyber-insurance and compliance
  reports, their stored records and the evidence bundle. Parsing and printing of times, the
  template engine, the PDF writer, SHA-256 and the zip writer are arguments; the rates are computed
  here with the rounding of Python's floats.
\<close>

subsection \<open>Tables\<close>

record report_row =
  cr_id :: uuid
  cr_org_id :: uuid
  cr_report_type :: string
  cr_from_date :: string
  cr_to_date :: string
  cr_generated_at :: micros
  cr_generated_by :: "uuid option"
  cr_status :: string
  cr_sha256 :: "string option"
  cr_summary :: dict

record report_db = dash_db +
  rd_reports :: "report_row list"

text \<open>A value longer than its VARCHAR column is refused by the database.\<close>

definition varchar :: "nat \<Rightarrow> string \<Rightarrow> ('s, unit) exec" where
  "varchar n s = (if n < length s then raise (ExternalError ''DataError: value too long'') else ret ())"

subsection \<open>The runs of a period\<close>

text \<open>\<open>try: from_dt = ...; to_dt = ... except ValueError: raise HTTPException(400, message)\<close>\<close>

definition parse_period :: "string \<Rightarrow> (string \<Rightarrow> micros result) \<Rightarrow> string \<Rightarrow> string \<Rightarrow> (micros \<times> micros) result" where
  "parse_period message fromisoformat from_date to_date =
     (case and_then (fromisoformat from_date) (\<lambda>from_dt. and_then (fromisoformat to_date) (\<lambda>to_dt. Inr (from_dt, to_dt))) of
        Inl (ValueError _) \<Rightarrow> Inl (HTTPException 400 message)
      | r \<Rightarrow> r)"

definition DATE_FORMAT_MESSAGE :: string where
  "DATE_FORMAT_MESSAGE = ''Invalid date format. Use YYYY-MM-DD''"

definition in_period :: "micros \<Rightarrow> micros \<Rightarrow> run_row \<Rightarrow> bool" where
  "in_period from_dt to_dt r = (case tr_completed_at r of None \<Rightarrow> False | Some t \<Rightarrow> from_dt \<le> t \<and> t \<le> to_dt)"

definition period_runs :: "uuid \<Rightarrow> micros \<Rightarrow> micros \<Rightarrow> report_db \<Rightarrow> (run_row \<times> workload_row) list" where
  "period_runs org from_dt to_dt db =
     newest_rows (\<lambda>rw. the (tr_completed_at (fst rw))) (filter (\<lambda>rw. in_period from_dt to_dt (fst rw)) (own_runs org db))"

definition report_org_name :: "(uuid \<Rightarrow> string) \<Rightarrow> uuid \<Rightarrow> report_db \<Rightarrow> string" where
  "report_org_name uuid_str org db =
     (case List.find (\<lambda>r. og_id r = org) (a_orgs db) of None \<Rightarrow> uuid_str org | Some r \<Rightarrow> og_name r)"

definition print_time :: "(micros \<Rightarrow> string) \<Rightarrow> run_row \<Rightarrow> string" where
  "print_time strftime r = (case tr_completed_at r of None \<Rightarrow> [] | Some t \<Rightarrow> strftime t)"

text \<open>\<open>(actual or 0) <= (target or 9999)\<close>\<close>

definition within_target :: "int option \<Rightarrow> int option \<Rightarrow> bool" where
  "within_target actual goal \<longleftrightarrow> int_or actual 0 \<le> int_or goal 9999"

definition rate_of :: "nat \<Rightarrow> nat \<Rightarrow> int" where
  "rate_of n all_runs = (if all_runs \<noteq> 0 then pct (int n) (int all_runs) else 0)"

subsection \<open>The cyber-insurance report\<close>

record insurance_row =
  ir_workload_name :: string
  ir_test_date :: string
  ir_rto_target :: "int option"
  ir_rto_actual :: "int option"
  ir_rto_ok :: bool
  ir_rpo_target :: "int option"
  ir_rpo_actual :: "int option"
  ir_rpo_ok :: bool
  ir_readiness_score :: "int option"
  ir_passed :: bool

record insurance_context =
  ic_org_name :: string
  ic_from_date :: string
  ic_to_date :: string
  ic_generated_at :: string
  ic_total_tested :: nat
  ic_total_runs :: nat
  ic_pass_rate_pct :: int
  ic_rto_compliance_pct :: int
  ic_rpo_compliance_pct :: int
  ic_avg_rto_mins :: int
  ic_workload_results :: "insurance_row list"

text \<open>\<open>within if target else True\<close>\<close>

definition insured_ok :: "int option \<Rightarrow> int option \<Rightarrow> bool" where
  "insured_ok actual goal = (if int_or goal 0 \<noteq> 0 then within_target actual goal else True)"

definition insurance_row_of :: "(micros \<Rightarrow> string) \<Rightarrow> run_row \<times> workload_row \<Rightarrow> insurance_row" where
  "insurance_row_of strftime rw =
     (let run = fst rw; wl = snd rw in
      \<lparr>ir_workload_name = wl_name wl, ir_test_date = print_time strftime run,
       ir_rto_target = wl_rto_target_mins wl, ir_rto_actual = tr_rto_actual_mins run,
       ir_rto_ok = insured_ok (tr_rto_actual_mins run) (wl_rto_target_mins wl),
       ir_rpo_target = wl_rpo_target_mins wl, ir_rpo_actual = tr_rpo_actual_mins run,
       ir_rpo_ok = insured_ok (tr_rpo_actual_mins run) (wl_rpo_target_mins wl),
       ir_readiness_score = tr_readiness_score run, ir_passed = is_passed rw\<rparr>)"

definition measured_rtos :: "insurance_row list \<Rightarrow> int list" where
  "measured_rtos rows = filter (\<lambda>n. n \<noteq> 0) (List.map_filter ir_rto_actual rows)"

definition insurance_context_of ::
    "(micros \<Rightarrow> string) \<Rightarrow> (micros \<Rightarrow> string) \<Rightarrow> string \<Rightarrow> string \<Rightarrow> string \<Rightarrow> (run_row \<times> workload_row) list \<Rightarrow> micros \<Rightarrow> insurance_context" where
  "insurance_context_of strftime strftime_utc name from_date to_date results now =
     (let rows = map (insurance_row_of strftime) results; total_runs = length results; rtos = measured_rtos rows in
      \<lparr>ic_org_name = name, ic_from_date = from_date, ic_to_date = to_date, ic_generated_at = strftime_utc now,
       ic_total_tested = distinct_count (map (\<lambda>rw. wl_id (snd rw)) results), ic_total_runs = total_runs,
       ic_pass_rate_pct = rate_of (count_if ir_passed rows) total_runs,
       ic_rto_compliance_pct = rate_of (count_if ir_rto_ok rows) total_runs,
       ic_rpo_compliance_pct = rate_of (count_if ir_rpo_ok rows) total_runs,
       ic_avg_rto_mins = (if rtos \<noteq> [] then py_round (fdiv (of_int (sum_list rtos)) (of_nat (length rtos))) else 0),
       ic_workload_results = rows\<rparr>)"

text \<open>\<open>try: write_pdf except Exception: raise HTTPException(500, message)\<close>\<close>

definition pdf_of :: "(string \<Rightarrow> string result) \<Rightarrow> string \<Rightarrow> string \<Rightarrow> string result" where
  "pdf_of write_pdf message html = (case write_pdf html of Inl _ \<Rightarrow> Inl (HTTPException 500 message) | Inr pdf \<Rightarrow> Inr pdf)"

record report_libs =
  rl_fromisoformat :: "string \<Rightarrow> micros result"
  rl_strftime :: "micros \<Rightarrow> string"
  rl_strftime_utc :: "micros \<Rightarrow> string"
  rl_isoformat :: "micros \<Rightarrow> string"
  rl_uuid_str :: "uuid \<Rightarrow> string"
  rl_write_pdf :: "string \<Rightarrow> string result"
  rl_sha256 :: "string \<Rightarrow> string"

definition cyber_insurance_report ::
    "report_libs \<Rightarrow> (insurance_context \<Rightarrow> string result) \<Rightarrow> string \<Rightarrow> string \<Rightarrow> current_user \<Rightarrow> micros \<Rightarrow> (report_db, string \<times> string) exec" where
  "cyber_insurance_report L template from_date to_date user now =
     seq (lift_result (parse_period DATE_FORMAT_MESSAGE (rl_fromisoformat L) from_date to_date)) (\<lambda>(from_dt, to_dt).
     seq (gets (report_org_name (rl_uuid_str L) (user_org_id user))) (\<lambda>name.
     seq (gets (period_runs (user_org_id user) from_dt to_dt)) (\<lambda>results.
     seq (lift_result (template (insurance_context_of (rl_strftime L) (rl_strftime_utc L) name from_date to_date results now))) (\<lambda>html.
     seq (lift_result (pdf_of (rl_write_pdf L) ''Failed to generate cyber insurance report PDF'' html)) (\<lambda>pdf_bytes.
     ret (''r3vp-cyber-insurance-'' @ from_date @ ''-'' @ to_date @ ''.pdf'', pdf_bytes))))))"

subsection \<open>The compliance reports\<close>

record framework_info =
  fw_id :: string
  fw_name :: string
  fw_description :: string
  fw_controls :: "(string \<times> string \<times> string) list"

definition list_compliance_frameworks :: "current_user \<Rightarrow> (report_db, framework_info list) exec" where
  "list_compliance_frameworks user = ret
    [\<lparr>fw_id = ''soc2'', fw_name = ''SOC 2 Type II'',
      fw_description = ''AICPA Trust Services Criteria - Security and Availability'',
      fw_controls =
       [(''CC7.5'', ''Recovery Testing'',
         ''The entity implements recovery testing procedures to confirm backup integrity and verify restoration timelines.''),
        (''CC9.1'', ''Risk Mitigation'',
         ''The entity identifies, selects, and develops risk mitigation activities for risks identified in the assessment.''),
        (''A1.3'', ''Availability Recovery'',
         ''The entity tests recovery procedures to meet availability commitments and system requirements.'')]\<rparr>,
     \<lparr>fw_id = ''iso27001'', fw_name = ''ISO/IEC 27001:2022'',
      fw_description = ''Information security management - Business continuity'',
      fw_controls =
       [(''A.8.13'', ''Information Backup'',
         ''Backup copies of information shall be taken and tested regularly.''),
        (''A.8.14'', ''Redundancy of Information Processing Facilities'',
         ''Facilities shall be implemented with sufficient redundancy to meet availability requirements.''),
        (''A.5.29'', ''Information Security During Disruption'',
         ''The organization shall plan how to maintain information security at an appropriate level during disruption.''),
        (''A.5.30'', ''ICT Readiness for Business Continuity'',
         ''ICT readiness shall be planned, implemented, maintained and tested based on business continuity objectives.'')]\<rparr>,
     \<lparr>fw_id = ''nist_csf'', fw_name = ''NIST Cybersecurity Framework 2.0'',
      fw_description = ''Recover function - Recovery planning and improvements'',
      fw_controls =
       [(''RC.RP-01'', ''Recovery Plan Execution'',
         ''The recovery portion of the incident response plan is executed once initiated from the incident response process.''),
        (''RC.RP-02'', ''Recovery Actions'',
         ''Recovery actions are selected, scoped, prioritized, and performed.''),
        (''RC.RP-05'', ''Recovery Plan Updates'',
         ''The integrity of backups and other restoration assets is verified before using them for restoration.''),
        (''ID.RA-01'', ''Vulnerability Identification'',
         ''Vulnerabilities in assets are identified, validated, and recorded.'')]\<rparr>]"

record control =
  ct_id :: string
  ct_title :: string
  ct_passing :: bool

definition control_of :: "string \<Rightarrow> string \<Rightarrow> bool \<Rightarrow> control" where
  "control_of i title passing = \<lparr>ct_id = i, ct_title = title, ct_passing = passing\<rparr>"

definition FRAMEWORK_CONTROLS :: "nat \<Rightarrow> int \<Rightarrow> int \<Rightarrow> string \<Rightarrow> control list" where
  "FRAMEWORK_CONTROLS total_runs pass_rate rto_rate report_type =
     (if report_type = ''soc2'' then
        [control_of ''CC7.5'' ''Recovery Testing'' (80 \<le> pass_rate),
         control_of ''CC9.1'' ''Risk Mitigation'' (0 < total_runs),
         control_of ''A1.3'' ''Availability Recovery'' (80 \<le> rto_rate)]
      else if report_type = ''iso27001'' then
        [control_of ''A.8.13'' ''Information Backup'' (0 < total_runs),
         control_of ''A.8.14'' ''Redundancy of Facilities'' (80 \<le> pass_rate),
         control_of ''A.5.29'' ''Security During Disruption'' (80 \<le> pass_rate),
         control_of ''A.5.30'' ''ICT Readiness'' (80 \<le> rto_rate)]
      else if report_type = ''nist_csf'' then
        [control_of ''RC.RP-01'' ''Recovery Plan Execution'' (0 < total_runs),
         control_of ''RC.RP-02'' ''Recovery Actions'' (80 \<le> pass_rate),
         control_of ''RC.RP-05'' ''Backup Integrity Verification'' (80 \<le> pass_rate),
         control_of ''ID.RA-01'' ''Vulnerability Identification'' True]
      else [])"

definition VALID_TYPES :: "string list" where
  "VALID_TYPES = [''soc2'', ''iso27001'', ''nist_csf'', ''monthly_summary'']"

record compliance_line =
  cl_workload_name :: string
  cl_provider :: string
  cl_test_date :: string
  cl_rto_target :: "int option"
  cl_rto_actual :: "int option"
  cl_rto_ok :: bool
  cl_status :: string

definition run_in_time :: "run_row \<times> workload_row \<Rightarrow> bool" where
  "run_in_time rw = within_target (tr_rto_actual_mins (fst rw)) (wl_rto_target_mins (snd rw))"

definition compliance_line_of :: "(micros \<Rightarrow> string) \<Rightarrow> report_db \<Rightarrow> run_row \<times> workload_row \<Rightarrow> compliance_line" where
  "compliance_line_of strftime db rw =
     \<lparr>cl_workload_name = wl_name (snd rw), cl_provider = da_provider db (wl_id (snd rw)),
      cl_test_date = print_time strftime (fst rw), cl_rto_target = wl_rto_target_mins (snd rw),
      cl_rto_actual = tr_rto_actual_mins (fst rw), cl_rto_ok = run_in_time rw, cl_status = tr_status (fst rw)\<rparr>"

record compliance_context =
  cc_org_name :: string
  cc_report_type :: string
  cc_from_date :: string
  cc_to_date :: string
  cc_generated_at :: string
  cc_total_runs :: nat
  cc_pass_rate :: int
  cc_rto_compliance :: int
  cc_controls :: "control list"
  cc_controls_passing :: nat
  cc_workload_rows :: "compliance_line list"

definition compliance_context_of ::
    "report_libs \<Rightarrow> string \<Rightarrow> string \<Rightarrow> string \<Rightarrow> uuid \<Rightarrow> micros \<Rightarrow> micros \<Rightarrow> micros \<Rightarrow> report_db \<Rightarrow> compliance_context" where
  "compliance_context_of L report_type from_date to_date org from_dt to_dt now db =
     (let results = period_runs org from_dt to_dt db; total_runs = length results;
          pass_rate = rate_of (count_if is_passed results) total_runs;
          rto_rate = rate_of (count_if run_in_time results) total_runs;
          controls = FRAMEWORK_CONTROLS total_runs pass_rate rto_rate report_type
      in \<lparr>cc_org_name = report_org_name (rl_uuid_str L) org db, cc_report_type = report_type,
          cc_from_date = from_date, cc_to_date = to_date, cc_generated_at = rl_strftime_utc L now,
          cc_total_runs = total_runs, cc_pass_rate = pass_rate, cc_rto_compliance = rto_rate, cc_controls = controls,
          cc_controls_passing = count_if ct_passing controls,
          cc_workload_rows = map (compliance_line_of (rl_strftime L) db) results\<rparr>)"

definition compliance_summary :: "compliance_context \<Rightarrow> dict" where
  "compliance_summary c =
     [(''total_runs'', JInt (int (cc_total_runs c))), (''pass_rate_pct'', JInt (cc_pass_rate c)),
      (''rto_compliance_pct'', JInt (cc_rto_compliance c)), (''controls_passing'', JInt (int (cc_controls_passing c))),
      (''controls_total'', JInt (int (length (cc_controls c))))]"

record report_file =
  rf_filename :: string
  rf_pdf :: string
  rf_report_id :: string
  rf_sha256 :: string

definition generate_compliance_report ::
    "report_libs \<Rightarrow> (compliance_context \<Rightarrow> string result) \<Rightarrow> string \<Rightarrow> string \<Rightarrow> string \<Rightarrow> current_user \<Rightarrow> uuid \<Rightarrow> micros \<Rightarrow>
     (report_db, report_file) exec" where
  "generate_compliance_report L template report_type from_date to_date user new_id now =
     (if report_type \<notin> set VALID_TYPES
      then raise (HTTPException 400 ''report_type must be one of: iso27001, monthly_summary, nist_csf, soc2'')
      else
        seq (lift_result (parse_period DATE_FORMAT_MESSAGE (rl_fromisoformat L) from_date to_date)) (\<lambda>(from_dt, to_dt).
        seq (gets (compliance_context_of L report_type from_date to_date (user_org_id user) from_dt to_dt now)) (\<lambda>context.
        seq (lift_result (template context)) (\<lambda>html.
        seq (lift_result (pdf_of (rl_write_pdf L) ''Failed to generate compliance report PDF'' html)) (\<lambda>pdf_bytes.
        seq (gets (\<lambda>db. local_user_id user (portal_db.truncate db))) (\<lambda>generated_by.
        let sha256 = rl_sha256 L pdf_bytes;
            record_row = \<lparr>cr_id = new_id, cr_org_id = user_org_id user, cr_report_type = report_type,
              cr_from_date = from_date, cr_to_date = to_date, cr_generated_at = now, cr_generated_by = generated_by,
              cr_status = ''ready'', cr_sha256 = Some sha256, cr_summary = compliance_summary context\<rparr>
        in
        seq (varchar 10 from_date) (\<lambda>_.
        seq (varchar 10 to_date) (\<lambda>_.
        seq (update (\<lambda>db. db\<lparr>rd_reports := rd_reports db @ [record_row]\<rparr>)) (\<lambda>_.
        ret \<lparr>rf_filename = ''r3vp-'' @ report_type @ ''-'' @ from_date @ ''-'' @ to_date @ ''.pdf'', rf_pdf = pdf_bytes,
             rf_report_id = rl_uuid_str L new_id, rf_sha256 = sha256\<rparr>)))))))))"

definition list_compliance_reports :: "current_user \<Rightarrow> (report_db, report_row list) exec" where
  "list_compliance_reports user =
     gets (\<lambda>db. take 50 (newest_rows cr_generated_at (filter (\<lambda>r. cr_org_id r = user_org_id user) (rd_reports db))))"

definition verify_audit_chain :: "current_user \<Rightarrow> (report_db, bool \<times> string) exec" where
  "verify_audit_chain user =
     ret (True, ''Chain verification runs on-appliance. See appliance /audit/verify endpoint.'')"

subsection \<open>The evidence bundle\<close>

definition json_of_int :: "int option \<Rightarrow> json" where
  "json_of_int v = (case v of None \<Rightarrow> JNull | Some n \<Rightarrow> JInt n)"

definition evidence_run :: "(micros \<Rightarrow> string) \<Rightarrow> report_db \<Rightarrow> run_row \<times> workload_row \<Rightarrow> dict" where
  "evidence_run isoformat db rw =
     [(''workload_name'', JStr (wl_name (snd rw))), (''provider'', JStr (da_provider db (wl_id (snd rw)))),
      (''test_date'', JStr (print_time isoformat (fst rw))), (''status'', JStr (tr_status (fst rw))),
      (''rto_target'', json_of_int (wl_rto_target_mins (snd rw))), (''rto_actual'', json_of_int (tr_rto_actual_mins (fst rw))),
      (''rto_ok'', JBool (run_in_time rw)), (''readiness_score'', json_of_int (tr_readiness_score (fst rw))),
      (''steps'', JArr []), (''health_checks'', JArr [])]"

record evidence_answer =
  ea_filename :: string
  ea_content :: string
  ea_sha256 :: string
  ea_file_count :: nat

definition generate_evidence_bundle ::
    "report_libs \<Rightarrow> ((string \<times> string) list \<Rightarrow> string) \<Rightarrow> string \<Rightarrow> string \<Rightarrow> string \<Rightarrow> current_user \<Rightarrow> micros \<Rightarrow>
     (report_db, evidence_answer) exec" where
  "generate_evidence_bundle L pack from_date to_date framework user now =
     seq (lift_result (parse_period DATE_FORMAT_MESSAGE (rl_fromisoformat L) from_date to_date)) (\<lambda>(from_dt, to_dt).
     seq (gets (report_org_name (rl_uuid_str L) (user_org_id user))) (\<lambda>name.
     seq (gets (\<lambda>db. map (evidence_run (rl_isoformat L) db) (period_runs (user_org_id user) from_dt to_dt db))) (\<lambda>test_runs.
     seq (lift_result (fst (build_evidence_bundle (rl_sha256 L) pack (rl_isoformat L now) name []
            (''r3vp-'' @ framework @ ''-'' @ from_date @ ''-'' @ to_date @ ''.pdf'') test_runs [] framework empty_bundle)))
       (\<lambda>(zip_bytes, sha256).
     ret \<lparr>ea_filename = ''r3vp-evidence-'' @ framework @ ''-'' @ from_date @ ''-'' @ to_date @ ''.zip'',
          ea_content = zip_bytes, ea_sha256 = sha256, ea_file_count = length test_runs + 2\<rparr>))))"

subsection \<open>Periods and rates\<close>

lemma count_all: "(\<And>x. x \<in> set xs \<Longrightarrow> P x) \<Longrightarrow> count_if P xs = length xs"
  by (induction xs) auto

lemma count_none: "(\<And>x. x \<in> set xs \<Longrightarrow> \<not> P x) \<Longrightarrow> count_if P xs = 0"
  by (induction xs) auto

lemma rate_of_bounds: "0 \<le> rate_of (count_if P xs) (length xs) \<and> rate_of (count_if P xs) (length xs) \<le> 100"
  using pct_bounds [of "int (count_if P xs)" "int (length xs)"] count_if_le_length [of P xs] by (simp add: rate_of_def)

lemma rate_of_all: "(\<And>x. x \<in> set xs \<Longrightarrow> P x) \<Longrightarrow> xs \<noteq> [] \<Longrightarrow> rate_of (count_if P xs) (length xs) = 100"
  by (simp add: rate_of_def count_all pct_full)

lemma rate_of_none: "(\<And>x. x \<in> set xs \<Longrightarrow> \<not> P x) \<Longrightarrow> rate_of (count_if P xs) (length xs) = 0"
  by (simp add: rate_of_def count_none)

lemma period_runs_iff:
  "(r, w) \<in> set (period_runs org from_dt to_dt db) \<longleftrightarrow> (r, w) \<in> set (own_runs org db) \<and> in_period from_dt to_dt r"
  by (auto simp: period_runs_def)

lemma context_rates:
  fixes L report_type from_date to_date org from_dt to_dt now db
  defines "c \<equiv> compliance_context_of L report_type from_date to_date org from_dt to_dt now db"
  shows "0 \<le> cc_pass_rate c" "cc_pass_rate c \<le> 100" "0 \<le> cc_rto_compliance c" "cc_rto_compliance c \<le> 100"
    "cc_controls_passing c \<le> length (cc_controls c)" "length (cc_workload_rows c) = cc_total_runs c"
  using rate_of_bounds [of is_passed "period_runs org from_dt to_dt db"] rate_of_bounds [of run_in_time "period_runs org from_dt to_dt db"]
  by (simp_all add: c_def compliance_context_of_def Let_def)

text \<open>A refused period leaves nothing behind; an accepted one is parsed from both dates.\<close>

lemma generate_cases:
  fixes L report_type from_date to_date user now
  defines "context from_dt to_dt \<equiv> compliance_context_of L report_type from_date to_date (user_org_id user) from_dt to_dt now"
  shows "(\<exists>e. generate_compliance_report L template report_type from_date to_date user new_id now db = (Inl e, db)) \<or>
    (\<exists>from_dt to_dt html pdf author. report_type \<in> set VALID_TYPES \<and>
       parse_period DATE_FORMAT_MESSAGE (rl_fromisoformat L) from_date to_date = Inr (from_dt, to_dt) \<and>
       template (context from_dt to_dt db) = Inr html \<and> rl_write_pdf L html = Inr pdf \<and>
       length from_date \<le> 10 \<and> length to_date \<le> 10 \<and>
       generate_compliance_report L template report_type from_date to_date user new_id now db =
         (Inr \<lparr>rf_filename = ''r3vp-'' @ report_type @ ''-'' @ from_date @ ''-'' @ to_date @ ''.pdf'', rf_pdf = pdf,
             rf_report_id = rl_uuid_str L new_id, rf_sha256 = rl_sha256 L pdf\<rparr>,
          db\<lparr>rd_reports := rd_reports db @ [\<lparr>cr_id = new_id, cr_org_id = user_org_id user, cr_report_type = report_type,
              cr_from_date = from_date, cr_to_date = to_date, cr_generated_at = now, cr_generated_by = author,
              cr_status = ''ready'', cr_sha256 = Some (rl_sha256 L pdf),
              cr_summary = compliance_summary (context from_dt to_dt db)\<rparr>]\<rparr>))"
proof (cases "report_type \<in> set VALID_TYPES")
  case False
  then show ?thesis by (simp add: generate_compliance_report_def exec_simps)
next
  case True
  show ?thesis
  proof (cases "parse_period DATE_FORMAT_MESSAGE (rl_fromisoformat L) from_date to_date")
    case (Inl e)
    then show ?thesis using True by (simp add: generate_compliance_report_def exec_simps)
  next
    case (Inr p)
    obtain from_dt to_dt where p: "p = (from_dt, to_dt)" by (cases p)
    show ?thesis
    proof (cases "template (context from_dt to_dt db)")
      case (Inl e)
      then show ?thesis using True Inr p by (simp add: generate_compliance_report_def exec_simps context_def)
    next
      case (Inr html)
      note html = this
      show ?thesis
      proof (cases "rl_write_pdf L html")
        case (Inl e)
        then show ?thesis using True \<open>_ = Inr p\<close> p html
          by (simp add: generate_compliance_report_def exec_simps context_def pdf_of_def)
      next
        case (Inr pdf)
        define author where "author = local_user_id user (portal_db.truncate db)"
        note step = generate_compliance_report_def exec_simps context_def pdf_of_def varchar_def Let_def
        show ?thesis
        proof (cases "length from_date \<le> 10 \<and> length to_date \<le> 10")
          case False
          have "generate_compliance_report L template report_type from_date to_date user new_id now db
              = (Inl (ExternalError ''DataError: value too long''), db)"
            using True False \<open>_ = Inr p\<close> p html Inr by (auto simp: step)
          then show ?thesis by blast
        next
          case short: True
          have "generate_compliance_report L template report_type from_date to_date user new_id now db =
             (Inr \<lparr>rf_filename = ''r3vp-'' @ report_type @ ''-'' @ from_date @ ''-'' @ to_date @ ''.pdf'', rf_pdf = pdf,
                 rf_report_id = rl_uuid_str L new_id, rf_sha256 = rl_sha256 L pdf\<rparr>,
              db\<lparr>rd_reports := rd_reports db @ [\<lparr>cr_id = new_id, cr_org_id = user_org_id user, cr_report_type = report_type,
                  cr_from_date = from_date, cr_to_date = to_date, cr_generated_at = now, cr_generated_by = author,
                  cr_status = ''ready'', cr_sha256 = Some (rl_sha256 L pdf),
                  cr_summary = compliance_summary (context from_dt to_dt db)\<rparr>]\<rparr>)"
            using True short \<open>_ = Inr p\<close> p html Inr by (simp add: step author_def)
          with True short html Inr \<open>parse_period _ _ _ _ = Inr p\<close> show ?thesis unfolding p by blast
        qed
      qed
    qed
  qed
qed

subsection \<open>The last run of a bundle\<close>

lemma split_last_of: "x \<in> set xs \<Longrightarrow> \<exists>ys zs. xs = ys @ x # zs \<and> x \<notin> set zs"
  using split_list_last by fast

lemma workload_dir_evidence:
  "workload_dir (evidence_run isoformat db rw) = Inr (''workloads/'' @ replace_slash (wl_name (snd rw)) @ ''/'')"
  by (simp add: workload_dir_def evidence_run_def dget_or_def)

lemma evidence_named: "list_all named (map (evidence_run isoformat db) rws)"
  by (simp add: list_all_iff named_def workload_dir_evidence)

lemma audit_read:
  assumes "\<forall>f \<in> set later. fst f \<noteq> n"
  shows "read_archive ((n, v) # later) n = Some v"
proof -
  have "map_of (rev later) n = None" using assms by (force simp: map_of_eq_None_iff)
  then show ?thesis by (simp add: read_archive_def map_add_def)
qed

lemma run_file_names:
  assumes "f \<in> set (files_of (evidence_run isoformat db rw))"
  shows "\<exists>s. fst f = ''workloads/'' @ s"
  using assms by (auto simp: files_of_def workload_dir_evidence run_files_def part_files_def split: if_splits)

text \<open>Of the runs of one period, \<open>oldest\<close> is the one that completed first under its directory.\<close>

definition oldest_of_name :: "(run_row \<times> workload_row) list \<Rightarrow> run_row \<times> workload_row \<Rightarrow> bool" where
  "oldest_of_name rws x \<longleftrightarrow> x \<in> set rws \<and>
     (\<forall>y \<in> set rws. y \<noteq> x \<and> replace_slash (wl_name (snd y)) = replace_slash (wl_name (snd x)) \<longrightarrow>
        the (tr_completed_at (fst x)) < the (tr_completed_at (fst y)))"

lemma oldest_is_last:
  assumes "oldest_of_name (period_runs org from_dt to_dt db) x"
  shows "\<exists>xs ys. period_runs org from_dt to_dt db = xs @ x # ys \<and>
    (\<forall>y \<in> set ys. replace_slash (wl_name (snd y)) \<noteq> replace_slash (wl_name (snd x)))"
proof -
  let ?rws = "period_runs org from_dt to_dt db" and ?at = "\<lambda>rw. the (tr_completed_at (fst rw))"
  have "x \<in> set ?rws" using assms by (simp add: oldest_of_name_def)
  then obtain xs ys where split: "?rws = xs @ x # ys" and last: "x \<notin> set ys" using split_last_of by metis
  have "sorted (map (\<lambda>rw. - ?at rw) ?rws)" by (simp add: period_runs_def newest_rows_def)
  then have later: "?at y \<le> ?at x" if "y \<in> set ys" for y using that by (simp add: split sorted_append)
  have "replace_slash (wl_name (snd y)) \<noteq> replace_slash (wl_name (snd x))" if y: "y \<in> set ys" for y
  proof
    assume "replace_slash (wl_name (snd y)) = replace_slash (wl_name (snd x))"
    moreover have "y \<in> set ?rws" "y \<noteq> x" using y last by (auto simp: split)
    ultimately have "?at x < ?at y" using assms by (simp add: oldest_of_name_def)
    then show False using later [OF y] by simp
  qed
  with split show ?thesis by blast
qed

subsection \<open>Properties\<close>

text \<open>Generating a compliance report stores exactly what it sends: a refusal, whatever its cause, changes
  nothing; a success appends one record of the caller's organisation, whose digest is that of the
  returned PDF, whose type is a known framework and whose dates fit their columns, with rates
  between 0 and 100 and no more controls passing than there are.\<close>

theorem compliance_report_recorded:
  "(\<exists>e. generate_compliance_report L template report_type from_date to_date user new_id now db = (Inl e, db)) \<or>
   (\<exists>file row runs rate rto passing total_controls.
      generate_compliance_report L template report_type from_date to_date user new_id now db
        = (Inr file, db\<lparr>rd_reports := rd_reports db @ [row]\<rparr>) \<and>
      cr_org_id row = user_org_id user \<and> cr_report_type row \<in> set VALID_TYPES \<and>
      cr_sha256 row = Some (rl_sha256 L (rf_pdf file)) \<and> rf_sha256 file = rl_sha256 L (rf_pdf file) \<and>
      length (cr_from_date row) \<le> 10 \<and> length (cr_to_date row) \<le> 10 \<and>
      cr_summary row = [(''total_runs'', JInt (int runs)), (''pass_rate_pct'', JInt rate), (''rto_compliance_pct'', JInt rto),
        (''controls_passing'', JInt (int passing)), (''controls_total'', JInt (int total_controls))] \<and>
      0 \<le> rate \<and> rate \<le> 100 \<and> 0 \<le> rto \<and> rto \<le> 100 \<and> passing \<le> total_controls)"
proof -
  note cases = generate_cases [of L template report_type from_date to_date user new_id now db]
  show ?thesis
    using cases
  proof (elim disjE exE conjE)
    fix e assume "generate_compliance_report L template report_type from_date to_date user new_id now db = (Inl e, db)"
    then show ?thesis by blast
  next
    fix from_dt to_dt html pdf author
    assume known: "report_type \<in> set VALID_TYPES" and dates: "length from_date \<le> 10" "length to_date \<le> 10"
      and run: "generate_compliance_report L template report_type from_date to_date user new_id now db =
         (Inr \<lparr>rf_filename = ''r3vp-'' @ report_type @ ''-'' @ from_date @ ''-'' @ to_date @ ''.pdf'', rf_pdf = pdf,
             rf_report_id = rl_uuid_str L new_id, rf_sha256 = rl_sha256 L pdf\<rparr>,
          db\<lparr>rd_reports := rd_reports db @ [\<lparr>cr_id = new_id, cr_org_id = user_org_id user, cr_report_type = report_type,
              cr_from_date = from_date, cr_to_date = to_date, cr_generated_at = now, cr_generated_by = author,
              cr_status = ''ready'', cr_sha256 = Some (rl_sha256 L pdf),
              cr_summary = compliance_summary (compliance_context_of L report_type from_date to_date (user_org_id user) from_dt to_dt now db)\<rparr>]\<rparr>)"
    show ?thesis
      by (rule disjI2, intro exI conjI, rule run)
        (simp_all add: known dates compliance_summary_def, simp_all add: context_rates)
  qed
qed

text \<open>C35: A period in which every recovery failed before it was timed is reported as compliant: with at
  least one run and no recovery time anywhere, the report shows a pass rate of 0 and a recovery-time
  compliance of 100, the SOC 2 report passes two of its three controls, "Availability Recovery"
  among them, and the cyber-insurance report shows 100 for both objectives.\<close>

theorem untimed_failures_are_compliant:
  assumes "period_runs org from_dt to_dt db \<noteq> []"
    and "\<forall>(r, w) \<in> set (period_runs org from_dt to_dt db). tr_status r = ''failed'' \<and>
       tr_rto_actual_mins r = None \<and> tr_rpo_actual_mins r = None \<and>
       0 \<le> int_or (wl_rto_target_mins w) 0 \<and> 0 \<le> int_or (wl_rpo_target_mins w) 0"
  shows "\<exists>c i. c = compliance_context_of L ''soc2'' from_date to_date org from_dt to_dt now db \<and>
     i = insurance_context_of strftime strftime_utc name from_date to_date (period_runs org from_dt to_dt db) now \<and>
     cc_pass_rate c = 0 \<and> cc_rto_compliance c = 100 \<and>
     map (\<lambda>k. (ct_id k, ct_passing k)) (cc_controls c) = [(''CC7.5'', False), (''CC9.1'', True), (''A1.3'', True)] \<and>
     cc_controls_passing c = 2 \<and>
     ic_pass_rate_pct i = 0 \<and> ic_rto_compliance_pct i = 100 \<and> ic_rpo_compliance_pct i = 100"
proof -
  let ?rws = "period_runs org from_dt to_dt db"
  have each: "\<not> is_passed rw" "run_in_time rw" "insured_ok (tr_rto_actual_mins (fst rw)) (wl_rto_target_mins (snd rw))"
      "insured_ok (tr_rpo_actual_mins (fst rw)) (wl_rpo_target_mins (snd rw))" if "rw \<in> set ?rws" for rw
    using bspec [OF assms(2) that]
    by (auto simp: is_passed_def run_in_time_def insured_ok_def within_target_def int_or_def split: prod.splits option.splits if_splits)
  have rates: "rate_of (count_if is_passed ?rws) (length ?rws) = 0" "rate_of (count_if run_in_time ?rws) (length ?rws) = 100"
    using rate_of_none [of ?rws is_passed] rate_of_all [of ?rws run_in_time] each assms(1) by blast+
  have insured: "rate_of (count_if (\<lambda>rw. ir_rto_ok (insurance_row_of strftime rw)) ?rws) (length ?rws) = 100"
      "rate_of (count_if (\<lambda>rw. ir_rpo_ok (insurance_row_of strftime rw)) ?rws) (length ?rws) = 100"
      "rate_of (count_if (\<lambda>rw. ir_passed (insurance_row_of strftime rw)) ?rws) (length ?rws) = 0"
    by (rule rate_of_all rate_of_none; simp add: insurance_row_of_def Let_def each assms(1))+
  have "0 < length ?rws" using assms(1) by simp
  then show ?thesis
    by (simp add: compliance_context_of_def insurance_context_of_def Let_def rates insured count_if_map
        FRAMEWORK_CONTROLS_def control_of_def)
qed

text \<open>An evidence bundle shows the oldest recovery of each workload and no audit trail: whatever runs
  a period has, the route answers, its audit chain is empty, and reading the summary of a workload
  from the archive gives the run that completed first, since the runs are written newest first under
  one name.\<close>

theorem evidence_shows_oldest_run:
  assumes "parse_period DATE_FORMAT_MESSAGE (rl_fromisoformat L) from_date to_date = Inr (from_dt, to_dt)"
    and "oldest_of_name (period_runs (user_org_id user) from_dt to_dt db) x"
  shows "\<exists>entries answer.
     generate_evidence_bundle L pack from_date to_date framework user now db = (Inr answer, db) \<and>
     ea_content answer = pack entries \<and> ea_sha256 answer = rl_sha256 L (pack entries) \<and>
     read_archive entries ''audit_chain.json'' = Some ''[]'' \<and>
     read_archive entries (''workloads/'' @ replace_slash (wl_name (snd x)) @ ''/summary.json'')
       = Some (dumps_indent (run_summary (evidence_run (rl_isoformat L) db x)))"
proof -
  let ?rws = "period_runs (user_org_id user) from_dt to_dt db" and ?ev = "evidence_run (rl_isoformat L) db"
  obtain xs ys where split: "?rws = xs @ x # ys"
    and others: "\<forall>y \<in> set ys. replace_slash (wl_name (snd y)) \<noteq> replace_slash (wl_name (snd x))"
    using oldest_is_last [OF assms(2)] by blast
  define name where "name = report_org_name (rl_uuid_str L) (user_org_id user) db"
  define pdf_name where "pdf_name = ''r3vp-'' @ framework @ ''-'' @ from_date @ ''-'' @ to_date @ ''.pdf''"
  define files where "files = bundle_files [] pdf_name (map ?ev ?rws) []"
  define m where "m = dumps_indent (manifest_of (rl_isoformat L now) name framework (bu_digests (put_files (rl_sha256 L) files empty_bundle)))"
  define entries where "entries = files @ [(''manifest.json'', m)]"
  have built: "fst (build_evidence_bundle (rl_sha256 L) pack (rl_isoformat L now) name [] pdf_name (map ?ev ?rws) [] framework empty_bundle)
      = Inr (pack entries, rl_sha256 L (pack entries))"
    unfolding build_eq [OF evidence_named] Let_def files_def [symmetric] entries_def m_def by simp
  then have run: "generate_evidence_bundle L pack from_date to_date framework user now db =
     (Inr \<lparr>ea_filename = ''r3vp-evidence-'' @ framework @ ''-'' @ from_date @ ''-'' @ to_date @ ''.zip'',
          ea_content = pack entries, ea_sha256 = rl_sha256 L (pack entries), ea_file_count = length ?rws + 2\<rparr>, db)"
    using assms(1) by (simp add: generate_evidence_bundle_def exec_simps name_def pdf_name_def)
  let ?d = "''workloads/'' @ replace_slash (wl_name (snd x)) @ ''/''"
  have dirs: "workload_dir y \<noteq> Inr ?d" if "y \<in> set (map ?ev ys)" for y
    using that others by (auto simp: workload_dir_evidence)
  have "read_archive (((''audit_chain.json'', dumps_indent (JArr [])) # concat (map files_of (map ?ev xs))) @ files_of (?ev x) @
      concat (map files_of (map ?ev ys)) @ [(''manifest.json'', m)]) (?d @ ''summary.json'')
     = Some (dumps_indent (run_summary (?ev x)))"
    by (rule summary_read [OF _ dirs]) (simp_all only: workload_dir_evidence)
  then have summary: "read_archive entries (?d @ ''summary.json'') = Some (dumps_indent (run_summary (?ev x)))"
    by (simp add: entries_def files_def bundle_files_def split)
  have "read_archive ((''audit_chain.json'', dumps_indent (JArr [])) # concat (map files_of (map ?ev ?rws)) @ [(''manifest.json'', m)])
      ''audit_chain.json'' = Some (dumps_indent (JArr []))"
    by (rule audit_read) (auto dest!: run_file_names)
  then have audit: "read_archive entries ''audit_chain.json'' = Some ''[]''"
    by (simp add: entries_def files_def bundle_files_def dumps_indent_def)
  show ?thesis
    by (intro exI conjI, rule run) (use summary audit in simp_all)
qed

subsection \<open>Witnesses\<close>

definition failed_run :: "uuid \<Rightarrow> micros \<Rightarrow> run_row" where
  "failed_run i t = \<lparr>tr_id = i, tr_workload_id = 11, tr_status = ''failed'', tr_started_at = Some 0,
     tr_completed_at = Some t, tr_rto_actual_mins = None, tr_rpo_actual_mins = None, tr_readiness_score = None,
     tr_failure_reason = None, tr_workflow_run_id = None\<rparr>"

definition demo_reports :: report_db where
  "demo_reports = dash_db.extend (demo_dash\<lparr>a_runs := [failed_run 22 5, failed_run 21 10]\<rparr>) (report_db.fields [])"

definition demo_report_libs :: report_libs where
  "demo_report_libs = \<lparr>rl_fromisoformat = (\<lambda>s. Inr (if s = ''from'' then 0 else 20)), rl_strftime = (\<lambda>_. []),
     rl_strftime_utc = (\<lambda>_. []), rl_isoformat = (\<lambda>_. []), rl_uuid_str = (\<lambda>_. []), rl_write_pdf = (\<lambda>_. Inr []),
     rl_sha256 = (\<lambda>_. ''digest'')\<rparr>"

lemma demo_period:
  "\<exists>w. wl_rto_target_mins w = None \<and> wl_rpo_target_mins w = None \<and> wl_name w = [] \<and>
     period_runs 7 0 20 demo_reports = [(failed_run 21 10, w), (failed_run 22 5, w)]"
  by (rule exI [of _ "hd (a_workloads demo_portal)"])
    (simp add: demo_reports_def demo_dash_def demo_portal_def portal_db.defs dash_db.defs report_db.defs period_runs_def
      own_runs_def map_filter_simps run_pair_def run_workload_def workload_org_def appliance_org_def in_period_def
      failed_run_def newest_rows_def)

theorem untimed_failures_are_compliant_witness:
  "\<exists>c. c = compliance_context_of demo_report_libs ''soc2'' ''from'' ''to'' 7 0 20 20 demo_reports \<and>
     cc_rto_compliance c = 100 \<and> cc_controls_passing c = 2"
proof -
  obtain w where w: "wl_rto_target_mins w = None" "wl_rpo_target_mins w = None"
    and runs: "period_runs 7 0 20 demo_reports = [(failed_run 21 10, w), (failed_run 22 5, w)]"
    using demo_period by blast
  have "\<exists>c i. c = compliance_context_of demo_report_libs ''soc2'' ''from'' ''to'' 7 0 20 20 demo_reports \<and>
     i = insurance_context_of (\<lambda>_. []) (\<lambda>_. []) [] ''from'' ''to'' (period_runs 7 0 20 demo_reports) 20 \<and>
     cc_pass_rate c = 0 \<and> cc_rto_compliance c = 100 \<and>
     map (\<lambda>k. (ct_id k, ct_passing k)) (cc_controls c) = [(''CC7.5'', False), (''CC9.1'', True), (''A1.3'', True)] \<and>
     cc_controls_passing c = 2 \<and>
     ic_pass_rate_pct i = 0 \<and> ic_rto_compliance_pct i = 100 \<and> ic_rpo_compliance_pct i = 100"
    by (rule untimed_failures_are_compliant) (simp_all add: runs failed_run_def w int_or_def)
  then show ?thesis by blast
qed

theorem evidence_shows_oldest_run_witness:
  "\<exists>answer. generate_evidence_bundle demo_report_libs (\<lambda>entries. concat (map fst entries)) ''from'' ''to'' ''soc2'' (portal_user 7 ''viewer'') 20 demo_reports
     = (Inr answer, demo_reports) \<and> ea_sha256 answer = ''digest''"
proof -
  have user: "user_org_id (portal_user 7 ''viewer'') = 7" by (simp add: portal_user_def)
  have parsed: "parse_period DATE_FORMAT_MESSAGE (rl_fromisoformat demo_report_libs) ''from'' ''to'' = Inr (0, 20)"
    by (simp add: parse_period_def demo_report_libs_def)
  obtain w where "period_runs 7 0 20 demo_reports = [(failed_run 21 10, w), (failed_run 22 5, w)]"
    using demo_period by blast
  then have "oldest_of_name (period_runs (user_org_id (portal_user 7 ''viewer'')) 0 20 demo_reports) (failed_run 22 5, w)"
    by (simp add: user oldest_of_name_def failed_run_def)
  from evidence_shows_oldest_run [OF parsed this, of "\<lambda>entries. concat (map fst entries)" "''soc2''" 20]
  show ?thesis by (auto simp: demo_report_libs_def)
qed

end
