(* ===== verification/AuditExport.thy ===== *)
theory AuditExport
  imports Reports "HOL-Library.Multiset"
begin

text \<open>
  The audit routes (\<open>routers/audit.py\<close>): a page of an organisation's events and their export as CSV.
  \<open>csv_field\<close> and \<open>csv_row\<close> are Python's \<open>csv.writer\<close> with its default dialect; the reader
  \<open>csv_read\<close> is the specification the export is checked against. Parsing and printing of times
  are arguments.
\<close>

subsection \<open>Events\<close>

record audit_event =
  ae_id :: int
  ae_org_id :: uuid
  ae_actor_type :: string
  ae_actor_id :: "uuid option"
  ae_event_type :: string
  ae_resource_id :: "uuid option"
  ae_detail :: json
  ae_occurred_at :: micros

definition own_events :: "uuid \<Rightarrow> audit_event list \<Rightarrow> audit_event list" where
  "own_events org db = filter (\<lambda>e. ae_org_id e = org) db"

definition list_audit_events :: "int \<Rightarrow> int \<Rightarrow> current_user \<Rightarrow> (audit_event list, nat \<times> audit_event list) exec" where
  "list_audit_events page page_size user =
     (if \<not> (1 \<le> page \<and> 1 \<le> page_size \<and> page_size \<le> 500) then raise (HTTPException 422 ''validation error'')
      else
        let offset = (page - 1) * page_size in
        gets (\<lambda>db. (length (own_events (user_org_id user) db),
          take (nat page_size) (drop (nat offset) (newest_rows ae_occurred_at (own_events (user_org_id user) db))))))"

subsection \<open>CSV\<close>

definition csv_special :: "char \<Rightarrow> bool" where
  "csv_special c \<longleftrightarrow> c = CHR '','' \<or> c = CHR 0x22 \<or> c = CHR 0x0D \<or> c = CHR 0x0A"

definition csv_quoted :: "string \<Rightarrow> string" where
  "csv_quoted s = concat (map (\<lambda>c. if c = CHR 0x22 then [c, c] else [c]) s)"

definition csv_field :: "string \<Rightarrow> string" where
  "csv_field s = (if list_ex csv_special s then CHR 0x22 # csv_quoted s @ [CHR 0x22] else s)"

fun csv_fields :: "string list \<Rightarrow> string" where
  "csv_fields [] = []"
| "csv_fields [s] = csv_field s"
| "csv_fields (s # ss) = csv_field s @ CHR '','' # csv_fields ss"

text \<open>A row of one empty field is written with quotes, so that it is not an empty line.\<close>

definition csv_row :: "string list \<Rightarrow> string" where
  "csv_row vs = (if vs = [[]] then [CHR 0x22, CHR 0x22] else csv_fields vs) @ [CHR 0x0D, CHR 0x0A]"

subsection \<open>The export\<close>

definition csv_header :: "string list" where
  "csv_header = [''occurred_at'', ''event_type'', ''actor_type'', ''actor_id'', ''resource_id'', ''detail'']"

definition event_fields :: "(micros \<Rightarrow> string) \<Rightarrow> (uuid \<Rightarrow> string) \<Rightarrow> audit_event \<Rightarrow> string list" where
  "event_fields isoformat uuid_str e =
     [isoformat (ae_occurred_at e), ae_event_type e, ae_actor_type e,
      (case ae_actor_id e of None \<Rightarrow> [] | Some i \<Rightarrow> uuid_str i), (case ae_resource_id e of None \<Rightarrow> [] | Some i \<Rightarrow> uuid_str i),
      if truthy (ae_detail e) then py_str (ae_detail e) else []]"

definition events_between :: "uuid \<Rightarrow> micros \<Rightarrow> micros \<Rightarrow> audit_event list \<Rightarrow> audit_event list" where
  "events_between org from_dt to_dt db =
     sort_key ae_occurred_at (filter (\<lambda>e. from_dt \<le> ae_occurred_at e \<and> ae_occurred_at e \<le> to_dt) (own_events org db))"

definition export_audit_csv ::
    "(string \<Rightarrow> micros result) \<Rightarrow> (micros \<Rightarrow> string) \<Rightarrow> (uuid \<Rightarrow> string) \<Rightarrow> string \<Rightarrow> string \<Rightarrow> current_user \<Rightarrow>
     (audit_event list, string \<times> string) exec" where
  "export_audit_csv fromisoformat isoformat uuid_str from_date to_date user =
     seq (lift_result (parse_period ''Invalid date format. Use ISO 8601 e.g. 2026-01-01'' fromisoformat from_date to_date)) (\<lambda>(from_dt, to_dt).
     if 90 < (to_dt - from_dt) div 86400000000 then raise (HTTPException 400 ''Date range cannot exceed 90 days'')
     else
       seq (gets (events_between (user_org_id user) from_dt to_dt)) (\<lambda>rows.
       ret (''r3vp-audit-'' @ from_date @ ''-'' @ to_date @ ''.csv'',
            csv_row csv_header @ concat (map (\<lambda>e. csv_row (event_fields isoformat uuid_str e)) rows))))"

subsection \<open>Reading CSV\<close>

datatype csv_mode = Start | Plain | Quoted | Closed

text \<open>\<open>f\<close> is the field and \<open>r\<close> the row read so far, both backwards; a row ends with CR LF.\<close>

fun csv_go :: "csv_mode \<Rightarrow> string \<Rightarrow> string list \<Rightarrow> string \<Rightarrow> string list list option" where
  "csv_go m f r [] = (if m = Start \<and> r = [] then Some [] else None)"
| "csv_go Quoted f r (c # cs) = (if c = CHR 0x22 then csv_go Closed f r cs else csv_go Quoted (c # f) r cs)"
| "csv_go m f r [c] = None"
| "csv_go m f r (c # d # cs) =
     (if c = CHR '','' then csv_go Start [] (rev f # r) (d # cs)
      else if c = CHR 0x0D \<and> d = CHR 0x0A then map_option ((#) (rev (rev f # r))) (csv_go Start [] [] cs)
      else if m = Start then (if c = CHR 0x22 then csv_go Quoted [] r (d # cs) else csv_go Plain [c] r (d # cs))
      else if m = Plain then csv_go Plain (c # f) r (d # cs)
      else if c = CHR 0x22 then csv_go Quoted (c # f) r (d # cs) else None)"

definition csv_read :: "string \<Rightarrow> string list list option" where
  "csv_read s = csv_go Start [] [] s"

lemma go_plain:
  "\<not> list_ex csv_special s \<Longrightarrow> csv_go Plain f r (s @ d # cs) = csv_go Plain (rev s @ f) r (d # cs)"
proof (induction s arbitrary: f)
  case (Cons c s)
  then have c: "c \<noteq> CHR '',''" "c \<noteq> CHR 0x0D" by (auto simp: csv_special_def)
  obtain e es where es: "s @ d # cs = e # es" by (cases s) auto
  have "csv_go Plain f r ((c # s) @ d # cs) = csv_go Plain (c # f) r (s @ d # cs)" using c es by simp
  then show ?case using Cons by simp
qed simp

lemma go_quoted:
  "csv_go Quoted f r (csv_quoted s @ CHR 0x22 # d # cs) =
     (if d = CHR 0x22 then csv_go Quoted f r (csv_quoted s @ CHR 0x22 # d # cs) else csv_go Closed (rev s @ f) r (d # cs))"
proof (cases "d = CHR 0x22")
  case False
  have "csv_go Quoted f r (csv_quoted s @ CHR 0x22 # d # cs) = csv_go Closed (rev s @ f) r (d # cs)"
  proof (induction s arbitrary: f)
    case (Cons c s)
    obtain e es where es: "csv_quoted s @ CHR 0x22 # d # cs = e # es" by (cases "csv_quoted s") auto
    have "csv_go Quoted f r (csv_quoted (c # s) @ CHR 0x22 # d # cs) = csv_go Quoted (c # f) r (csv_quoted s @ CHR 0x22 # d # cs)"
      using es by (simp add: csv_quoted_def)
    then show ?case using Cons by simp
  qed (simp add: csv_quoted_def)
  with False show ?thesis by simp
qed simp

text \<open>A written field followed by a separator reads as that field.\<close>

lemma go_field:
  assumes "d = CHR '','' \<or> d = CHR 0x0D \<and> e = CHR 0x0A"
  shows "csv_go Start [] r (csv_field s @ d # e # cs) = csv_go Plain (rev s) r (d # e # cs)"
proof (cases "list_ex csv_special s")
  case True
  have "csv_go Start [] r (csv_field s @ d # e # cs) = csv_go Quoted [] r (csv_quoted s @ CHR 0x22 # d # e # cs)"
    using True by (cases "csv_quoted s") (simp_all add: csv_field_def)
  also have "\<dots> = csv_go Closed (rev s) r (d # e # cs)" using assms go_quoted [of "[]" r s d "e # cs"] by auto
  also have "\<dots> = csv_go Plain (rev s) r (d # e # cs)" using assms by auto
  finally show ?thesis .
next
  case False
  show ?thesis
  proof (cases s)
    case Nil
    then show ?thesis using assms by (auto simp: csv_field_def)
  next
    case (Cons c s')
    then have c: "c \<noteq> CHR '',''" "c \<noteq> CHR 0x0D" "c \<noteq> CHR 0x22" and s': "\<not> list_ex csv_special s'"
      using False by (auto simp: csv_special_def)
    obtain e' es where es: "s' @ d # e # cs = e' # es" by (cases s') auto
    have "csv_go Start [] r (csv_field s @ d # e # cs) = csv_go Plain [c] r (s' @ d # e # cs)"
      using c es False Cons by (simp add: csv_field_def)
    then show ?thesis using go_plain [OF s', of "[c]" r d "e # cs"] Cons by simp
  qed
qed

lemma go_fields:
  "vs \<noteq> [] \<Longrightarrow> csv_go Start [] r (csv_fields vs @ CHR 0x0D # CHR 0x0A # rest) = map_option ((#) (rev r @ vs)) (csv_go Start [] [] rest)"
proof (induction vs arbitrary: r rule: csv_fields.induct)
  case (2 s)
  show ?case using go_field [of "CHR 0x0D" "CHR 0x0A" r s rest] by simp
next
  case (3 s t ss)
  obtain e cs where e: "csv_fields (t # ss) @ CHR 0x0D # CHR 0x0A # rest = e # cs" by (cases "csv_fields (t # ss)") auto
  have "csv_go Start [] r (csv_fields (s # t # ss) @ CHR 0x0D # CHR 0x0A # rest)
      = csv_go Start [] r (csv_field s @ CHR '','' # e # cs)" using e by simp
  also have "\<dots> = csv_go Start [] (s # r) (e # cs)" using go_field [of "CHR '',''" e r s cs] by simp
  also have "\<dots> = map_option ((#) (rev (s # r) @ t # ss)) (csv_go Start [] [] rest)"
    using "3.IH" [of "s # r"] e by (simp only: list.distinct not_False_eq_True simp_thms)
  finally show ?case by simp
qed simp

lemma go_row: "vs \<noteq> [] \<Longrightarrow> csv_go Start [] [] (csv_row vs @ rest) = map_option ((#) vs) (csv_go Start [] [] rest)"
  using go_fields [of vs "[]" rest] by (simp add: csv_row_def)

lemma read_rows: "[] \<notin> set rows \<Longrightarrow> csv_read (concat (map csv_row rows)) = Some rows"
  unfolding csv_read_def by (induction rows) (auto simp: go_row)

subsection \<open>Properties\<close>

text \<open>C39: The audit export can be read back and shows one organisation: for any two dates at most 90 days
  apart the route answers a file which, read as CSV, is the header followed by one row per event of the
  caller's organisation in the period, oldest first, whatever commas, quotes and line breaks their
  details contain; the table is unchanged.\<close>

theorem audit_export_readable:
  assumes "fromisoformat from_date = Inr from_dt" "fromisoformat to_date = Inr to_dt"
    and "(to_dt - from_dt) div 86400000000 \<le> 90"
  shows "\<exists>filename csv_text events.
     export_audit_csv fromisoformat isoformat uuid_str from_date to_date user db = (Inr (filename, csv_text), db) \<and>
     csv_read csv_text = Some (csv_header # map (event_fields isoformat uuid_str) events) \<and>
     mset events = filter_mset (\<lambda>e. ae_org_id e = user_org_id user \<and> from_dt \<le> ae_occurred_at e \<and> ae_occurred_at e \<le> to_dt) (mset db) \<and>
     sorted (map ae_occurred_at events)"
proof -
  define events where "events = events_between (user_org_id user) from_dt to_dt db"
  define csv_text where "csv_text = concat (map csv_row (csv_header # map (event_fields isoformat uuid_str) events))"
  have run: "export_audit_csv fromisoformat isoformat uuid_str from_date to_date user db
      = (Inr (''r3vp-audit-'' @ from_date @ ''-'' @ to_date @ ''.csv'', csv_text), db)"
    using assms by (simp add: export_audit_csv_def parse_period_def exec_simps csv_text_def events_def comp_def)
  have "csv_read csv_text = Some (csv_header # map (event_fields isoformat uuid_str) events)"
    unfolding csv_text_def by (rule read_rows) (auto simp: csv_header_def event_fields_def)
  moreover have "mset events = filter_mset (\<lambda>e. ae_org_id e = user_org_id user \<and> from_dt \<le> ae_occurred_at e \<and> ae_occurred_at e \<le> to_dt) (mset db)"
    by (simp add: events_def events_between_def own_events_def conj_ac flip: mset_filter)
  moreover have "sorted (map ae_occurred_at events)" by (simp add: events_def events_between_def)
  ultimately show ?thesis using run by blast
qed

definition demo_event :: audit_event where
  "demo_event = \<lparr>ae_id = 1, ae_org_id = 7, ae_actor_type = ''user'', ae_actor_id = None, ae_event_type = ''login'',
     ae_resource_id = None, ae_detail = JStr ''a,b'', ae_occurred_at = 5\<rparr>"

theorem audit_export_readable_witness:
  "\<exists>filename csv_text. export_audit_csv (\<lambda>s. Inr (if s = ''from'' then 0 else 10)) (\<lambda>_. ''now'') (\<lambda>_. ''id'') ''from'' ''to''
     (portal_user 7 ''viewer'') [demo_event] = (Inr (filename, csv_text), [demo_event])"
  using audit_export_readable [of "\<lambda>s. Inr (if s = ''from'' then 0 else 10)" "''from''" 0 "''to''" 10 "\<lambda>_. ''now''" "\<lambda>_. ''id''"
      "portal_user 7 ''viewer''" "[demo_event]"] by auto

end
