(* ===== verification/Connectors.thy ===== *)
theory Connectors
  imports Activities ThreatAnalysis
begin

text \<open>
  What the appliance's provider connectors share, and the connectors for Proxmox, XenServer, Sangfor
  and Nutanix (\<open>connectors/*/client.py\<close>). A client holds handles, attributes that are \<open>None\<close> until
  \<open>connect\<close> sets them; an operation asks for its handle and runs inside \<open>try ... except\<close>, so it
  answers a value of its own without the handle and after any exception. The locale
  \<open>connector_op\<close> states this contract; \<open>attempt\<close>, through which every operation of every
  connector is written, provides it. A vendor's library is a record of functions on the state \<open>'s\<close> of
  the platform; the objects it answers are the dictionaries of their attributes, dates and
  enumerations being the texts \<open>str\<close> gives for them.
\<close>

subsection \<open>Clients\<close>

text \<open>The handles a client holds, by the name of the attribute, and the platform.\<close>

record 's client =
  cl_handles :: "string list"
  cl_world :: 's

definition fresh_client :: "'s \<Rightarrow> 's client" where
  "fresh_client platform = \<lparr>cl_handles = [], cl_world = platform\<rparr>"

definition holds :: "string \<Rightarrow> 's client \<Rightarrow> bool" where
  "holds h c \<longleftrightarrow> h \<in> set (cl_handles c)"

definition set_handle :: "string \<Rightarrow> ('s client, unit) exec" where
  "set_handle h = update (\<lambda>c. c\<lparr>cl_handles := List.insert h (cl_handles c)\<rparr>)"

definition clear_handle :: "string \<Rightarrow> ('s client, unit) exec" where
  "clear_handle h = update (\<lambda>c. c\<lparr>cl_handles := removeAll h (cl_handles c)\<rparr>)"

text \<open>A call of the library, which leaves the client's handles alone.\<close>

definition on_world :: "('s, 'a) exec \<Rightarrow> ('s client, 'a) exec" where
  "on_world m c = (case m (cl_world c) of (r, w) \<Rightarrow> (r, c\<lparr>cl_world := w\<rparr>))"

text \<open>
  \<open>if self.h is None: return x\<close>, then \<open>try: m except Exception as exc: return f(exc)\<close>. Some
  connectors write the first part as \<open>raise AttributeError("not connected")\<close> inside the
  \<open>try\<close>, which is \<open>attempt_or\<close>.
\<close>

definition attempt :: "string \<Rightarrow> 'a \<Rightarrow> (py_exn \<Rightarrow> 'a) \<Rightarrow> ('s, 'a) exec \<Rightarrow> ('s client, 'a) exec" where
  "attempt h x f m = seq (gets (holds h)) (\<lambda>up. if up then try_except (on_world m) (\<lambda>exc. ret (f exc)) else ret x)"

definition attempt_or :: "string \<Rightarrow> (py_exn \<Rightarrow> 'a) \<Rightarrow> ('s, 'a) exec \<Rightarrow> ('s client, 'a) exec" where
  "attempt_or h f m = attempt h (f (AttributeError ''not connected'')) f m"

text \<open>\<open>connect\<close> where the library may be missing: the handles are set in turn as it answers.\<close>

definition open_handles :: "bool \<Rightarrow> ('s client, unit) exec \<Rightarrow> ('s client, bool) exec" where
  "open_handles installed m = (if \<not> installed then ret False else try_except (seq m (\<lambda>_. ret True)) (\<lambda>_. ret False))"

subsection \<open>Values of a library\<close>

text \<open>\<open>x.get(k, v)\<close> on what should be a dictionary, \<open>d.get(k, {})\<close> used as one, and \<open>x.k\<close>\<close>

definition get_dict :: "json \<Rightarrow> dict result" where
  "get_dict v = (case v of JObj d \<Rightarrow> Inr d | _ \<Rightarrow> Inl (AttributeError (repr_str (type_name v) @ '' object has no attribute '' @ repr_str ''get'')))"

definition sub_dict :: "dict \<Rightarrow> string \<Rightarrow> dict result" where
  "sub_dict d k = get_dict (dget_or d k (JObj []))"

definition attr :: "json \<Rightarrow> string \<Rightarrow> json result" where
  "attr v k = (case v of
     JObj d \<Rightarrow> (case map_of d k of Some x \<Rightarrow> Inr x | None \<Rightarrow> Inl (AttributeError (''object has no attribute '' @ repr_str k)))
   | _ \<Rightarrow> Inl (AttributeError (repr_str (type_name v) @ '' object has no attribute '' @ repr_str k)))"

text \<open>\<open>[f(x) for x in raw]\<close>\<close>

definition parse_items :: "(json \<Rightarrow> 'a result) \<Rightarrow> json \<Rightarrow> 'a list result" where
  "parse_items f raw = and_then (iterate raw) (map_result f)"

text \<open>\<open>int(d.get(k, n))\<close> and \<open>d.get(k, "")\<close>\<close>

definition int_of :: "dict \<Rightarrow> string \<Rightarrow> int \<Rightarrow> int result" where
  "int_of d k n = to_int (dget_or d k (JInt n))"

definition text_of :: "dict \<Rightarrow> string \<Rightarrow> json" where
  "text_of d k = dget_or d k (JStr [])"

text \<open>\<open>x.k or ""\<close> and \<open>str(x.k) if x.k else ""\<close>\<close>

definition attr_text :: "json \<Rightarrow> string \<Rightarrow> json result" where
  "attr_text v k = and_then (attr v k) (\<lambda>x. Inr (if truthy x then x else JStr []))"

definition attr_str :: "json \<Rightarrow> string \<Rightarrow> string result" where
  "attr_str v k = and_then (attr v k) (\<lambda>x. Inr (if truthy x then py_str x else []))"

text \<open>\<open>int(x.k) if x.k else 0\<close>\<close>

definition attr_int :: "json \<Rightarrow> string \<Rightarrow> int result" where
  "attr_int v k = and_then (attr v k) (\<lambda>x. if truthy x then to_int x else Inr 0)"

definition isdigit :: "string \<Rightarrow> bool" where
  "isdigit s \<longleftrightarrow> s \<noteq> [] \<and> list_all is_digit s"

subsection \<open>The contract\<close>

locale connector_op =
  fixes ready :: "'s client \<Rightarrow> bool" and op :: "('s client, 'a) exec" and offline_answer :: 'a
  assumes returns: "\<exists>x c'. op c = (Inr x, c') \<and> cl_handles c' = cl_handles c"
    and offline: "\<not> ready c \<Longrightarrow> op c = (Inr offline_answer, c)"
    and ready_handles: "cl_handles c' = cl_handles c \<Longrightarrow> ready c' = ready c"
begin

text \<open>
  Repeated, an operation never raises and the client stays as ready as it was; without the handle the
  platform does not change.
\<close>

lemma repeated_returns:
  "\<exists>c'. for_each (\<lambda>_. seq op (\<lambda>_. ret ())) xs c = (Inr (), c') \<and> cl_handles c' = cl_handles c"
proof (induction xs arbitrary: c)
  case (Cons a xs)
  obtain x c' where "op c = (Inr x, c')" "cl_handles c' = cl_handles c" using returns by blast
  then show ?case using Cons.IH [of c'] by (simp add: exec_simps)
qed (simp add: exec_simps)

lemma repeated_offline: "\<not> ready c \<Longrightarrow> for_each (\<lambda>_. seq op (\<lambda>_. ret ())) xs c = (Inr (), c)"
  by (induction xs) (simp_all add: exec_simps offline)

lemma stays_ready: "ready (snd (op c)) = ready c"
proof -
  obtain x c' where "op c = (Inr x, c')" "cl_handles c' = cl_handles c" using returns by blast
  then show ?thesis using ready_handles [of c' c] by simp
qed

end

lemma attempt_run:
  "attempt h x f m c =
     (if holds h c
      then (case m (cl_world c) of (r, w) \<Rightarrow> (Inr (case r of Inr y \<Rightarrow> y | Inl e \<Rightarrow> f e), c\<lparr>cl_world := w\<rparr>))
      else (Inr x, c))"
  by (simp add: attempt_def exec_simps on_world_def split: prod.split sum.split)

interpretation attempted: connector_op "holds h" "attempt h x f m" x for h x f m
proof
  show "\<exists>y c'. attempt h x f m c = (Inr y, c') \<and> cl_handles c' = cl_handles c" for c :: "'a client"
    by (simp add: attempt_run split: prod.split sum.split)
  show "attempt h x f m c = (Inr x, c)" if "\<not> holds h c" for c :: "'a client"
    using that by (simp add: attempt_run)
  show "holds h c' = holds h c" if "cl_handles c' = cl_handles c" for c c' :: "'a client"
    using that by (simp add: holds_def)
qed

subsection \<open>Proxmox\<close>

record 's proxmox_api =
  px_installed :: bool
  px_open :: "('s, unit) exec"
  px_get :: "string \<Rightarrow> (string \<times> string) list \<Rightarrow> ('s, json) exec"
  px_post :: "string \<Rightarrow> dict \<Rightarrow> ('s, json) exec"
  px_delete :: "string \<Rightarrow> ('s, json) exec"
  px_node :: string

record proxmox_vm =
  pv_vmid :: int
  pv_name :: json
  pv_node :: string
  pv_status :: json
  pv_maxmem :: int
  pv_maxcpu :: int
  pv_uptime :: int

record proxmox_snapshot =
  pp_vmid :: int
  pp_name :: json
  pp_description :: json
  pp_snaptime :: int
  pp_parent :: json

record proxmox_backup_job =
  pj_id :: json
  pj_node :: string
  pj_storage :: string
  pj_vmid :: int
  pj_starttime :: int
  pj_endtime :: int
  pj_status :: json

definition px_connect :: "'s proxmox_api \<Rightarrow> ('s client, bool) exec" where
  "px_connect A = open_handles (px_installed A) (seq (on_world (px_open A)) (\<lambda>_. set_handle ''_proxmox''))"

text \<open>\<open>nodes(node).qemu(vmid)\<close>\<close>

definition qemu_path :: "'s proxmox_api \<Rightarrow> int \<Rightarrow> string" where
  "qemu_path A vmid = ''nodes/'' @ px_node A @ ''/qemu/'' @ show_int vmid"

definition parse_proxmox_vm :: "string \<Rightarrow> json \<Rightarrow> proxmox_vm result" where
  "parse_proxmox_vm node v =
     and_then (get_dict v) (\<lambda>vm.
     and_then (int_of vm ''vmid'' 0) (\<lambda>vmid.
     and_then (int_of vm ''maxmem'' 0) (\<lambda>maxmem.
     and_then (int_of vm ''maxcpu'' 0) (\<lambda>maxcpu.
     and_then (int_of vm ''uptime'' 0) (\<lambda>uptime.
     Inr \<lparr>pv_vmid = vmid, pv_name = text_of vm ''name'', pv_node = node, pv_status = text_of vm ''status'',
          pv_maxmem = maxmem, pv_maxcpu = maxcpu, pv_uptime = uptime\<rparr>)))))"

definition px_list_vms :: "'s proxmox_api \<Rightarrow> ('s client, proxmox_vm list) exec" where
  "px_list_vms A = attempt_or ''_proxmox'' (\<lambda>_. [])
     (seq (px_get A (''nodes/'' @ px_node A @ ''/qemu'') []) (\<lambda>raw. lift_result (parse_items (parse_proxmox_vm (px_node A)) raw)))"

definition parse_proxmox_snapshot :: "int \<Rightarrow> json \<Rightarrow> proxmox_snapshot result" where
  "parse_proxmox_snapshot vmid v =
     and_then (get_dict v) (\<lambda>s.
     and_then (int_of s ''snaptime'' 0) (\<lambda>snaptime.
     Inr \<lparr>pp_vmid = vmid, pp_name = text_of s ''name'', pp_description = text_of s ''description'', pp_snaptime = snaptime,
          pp_parent = dget s ''parent''\<rparr>))"

definition px_get_vm_snapshots :: "'s proxmox_api \<Rightarrow> int \<Rightarrow> ('s client, proxmox_snapshot list) exec" where
  "px_get_vm_snapshots A vmid = attempt_or ''_proxmox'' (\<lambda>_. [])
     (seq (px_get A (qemu_path A vmid @ ''/snapshot'') []) (\<lambda>raw. lift_result (parse_items (parse_proxmox_snapshot vmid) raw)))"

definition px_create_snapshot :: "'s proxmox_api \<Rightarrow> int \<Rightarrow> string \<Rightarrow> string \<Rightarrow> ('s client, json) exec" where
  "px_create_snapshot A vmid snap_name description = attempt_or ''_proxmox'' (\<lambda>_. (JStr []))
     (px_post A (qemu_path A vmid @ ''/snapshot'') [(''snapname'', JStr snap_name), (''description'', JStr description)])"

definition px_restore_vm_from_snapshot :: "'s proxmox_api \<Rightarrow> int \<Rightarrow> string \<Rightarrow> ('s client, bool) exec" where
  "px_restore_vm_from_snapshot A vmid snapshot_name = attempt_or ''_proxmox'' (\<lambda>_. False)
     (seq (px_post A (qemu_path A vmid @ ''/snapshot/'' @ snapshot_name @ ''/rollback'') []) (\<lambda>_. ret True))"

definition parse_backup_job :: "string \<Rightarrow> json \<Rightarrow> proxmox_backup_job result" where
  "parse_backup_job node v =
     and_then (get_dict v) (\<lambda>t.
     and_then (if isdigit (py_str (text_of t ''id'')) then int_of t ''id'' 0 else Inr 0) (\<lambda>vmid.
     and_then (int_of t ''starttime'' 0) (\<lambda>starttime.
     and_then (int_of t ''endtime'' 0) (\<lambda>endtime.
     Inr \<lparr>pj_id = text_of t ''upid'', pj_node = node, pj_storage = [], pj_vmid = vmid, pj_starttime = starttime,
          pj_endtime = endtime, pj_status = text_of t ''status''\<rparr>))))"

definition px_list_backup_jobs :: "'s proxmox_api \<Rightarrow> ('s client, proxmox_backup_job list) exec" where
  "px_list_backup_jobs A = attempt_or ''_proxmox'' (\<lambda>_. [])
     (seq (px_get A (''nodes/'' @ px_node A @ ''/tasks'') [(''typefilter'', ''vzdump'')])
       (\<lambda>raw. lift_result (parse_items (parse_backup_job (px_node A)) raw)))"

definition px_get_vm_health :: "'s proxmox_api \<Rightarrow> int \<Rightarrow> ('s client, dict) exec" where
  "px_get_vm_health A vmid = attempt_or ''_proxmox'' (\<lambda>_. [])
     (seq (px_get A (qemu_path A vmid @ ''/status/current'') []) (\<lambda>raw.
      lift_result (and_then (get_dict raw) (\<lambda>d.
        Inr [(''status'', text_of d ''status''), (''uptime'', dget_or d ''uptime'' (JInt 0)), (''cpu'', dget_or d ''cpu'' (JFloat 0)),
             (''mem'', dget_or d ''mem'' (JInt 0))]))))"

definition px_delete_snapshot :: "'s proxmox_api \<Rightarrow> int \<Rightarrow> string \<Rightarrow> ('s client, bool) exec" where
  "px_delete_snapshot A vmid snapshot_name = attempt_or ''_proxmox'' (\<lambda>_. False)
     (seq (px_delete A (qemu_path A vmid @ ''/snapshot/'' @ snapshot_name)) (\<lambda>_. ret True))"

subsection \<open>XenServer\<close>

text \<open>\<open>xe_call\<close> is one call of the XML-RPC interface: its name and its arguments.\<close>

record 's xen_api =
  xe_installed :: bool
  xe_login :: "('s, unit) exec"
  xe_call :: "string \<Rightarrow> json list \<Rightarrow> ('s, json) exec"

record xen_vm =
  xv_uuid :: json
  xv_name_label :: json
  xv_power_state :: json
  xv_memory_static_max :: int
  xv_vcpus_max :: int
  xv_resident_on :: json

record xen_snapshot =
  xs_uuid :: json
  xs_name_label :: json
  xs_name_description :: json
  xs_snapshot_time :: string
  xs_snapshot_of :: json

record xen_task =
  xt_uuid :: string
  xt_status :: json
  xt_progress :: rat
  xt_result :: json

definition xe_connect :: "'s xen_api \<Rightarrow> ('s client, bool) exec" where
  "xe_connect A = open_handles (xe_installed A) (seq (on_world (xe_login A)) (\<lambda>_. set_handle ''_session''))"

definition parse_xen_vm :: "dict \<Rightarrow> xen_vm result" where
  "parse_xen_vm rec =
     and_then (int_of rec ''memory_static_max'' 0) (\<lambda>memory.
     and_then (int_of rec ''VCPUs_max'' 0) (\<lambda>vcpus.
     Inr \<lparr>xv_uuid = text_of rec ''uuid'', xv_name_label = text_of rec ''name_label'', xv_power_state = text_of rec ''power_state'',
          xv_memory_static_max = memory, xv_vcpus_max = vcpus, xv_resident_on = text_of rec ''resident_on''\<rparr>))"

fun xen_vms :: "(string \<times> json) list \<Rightarrow> xen_vm list result" where
  "xen_vms [] = Inr []"
| "xen_vms ((ref, v) # records) =
     and_then (get_dict v) (\<lambda>rec.
     if truthy (dget rec ''is_a_template'') \<or> truthy (dget rec ''is_control_domain'') then xen_vms records
     else and_then (parse_xen_vm rec) (\<lambda>vm. and_then (xen_vms records) (\<lambda>vms. Inr (vm # vms))))"

definition xe_list_vms :: "'s xen_api \<Rightarrow> ('s client, xen_vm list) exec" where
  "xe_list_vms A = attempt_or ''_session'' (\<lambda>_. [])
     (seq (xe_call A ''VM.get_all_records'' []) (\<lambda>all_records. lift_result (and_then (get_dict all_records) xen_vms)))"

definition xen_snapshot_of :: "json \<Rightarrow> xen_snapshot result" where
  "xen_snapshot_of v =
     and_then (get_dict v) (\<lambda>rec.
     Inr \<lparr>xs_uuid = text_of rec ''uuid'', xs_name_label = text_of rec ''name_label'',
          xs_name_description = text_of rec ''name_description'', xs_snapshot_time = py_str (text_of rec ''snapshot_time''),
          xs_snapshot_of = text_of rec ''snapshot_of''\<rparr>)"

fun xen_snapshots :: "'s xen_api \<Rightarrow> json list \<Rightarrow> ('s, xen_snapshot list) exec" where
  "xen_snapshots A [] = ret []"
| "xen_snapshots A (snap_ref # refs) =
     seq (xe_call A ''VM.get_record'' [snap_ref]) (\<lambda>v.
     seq (lift_result (xen_snapshot_of v)) (\<lambda>s.
     seq (xen_snapshots A refs) (\<lambda>ss. ret (s # ss))))"

definition xe_get_vm_snapshots :: "'s xen_api \<Rightarrow> string \<Rightarrow> ('s client, xen_snapshot list) exec" where
  "xe_get_vm_snapshots A vm_uuid = attempt_or ''_session'' (\<lambda>_. [])
     (seq (xe_call A ''VM.get_by_uuid'' [JStr vm_uuid]) (\<lambda>vm_ref.
      seq (xe_call A ''VM.get_snapshots'' [vm_ref]) (\<lambda>snap_refs.
      seq (lift_result (iterate snap_refs)) (xen_snapshots A))))"

definition xe_create_snapshot :: "'s xen_api \<Rightarrow> string \<Rightarrow> string \<Rightarrow> ('s client, json) exec" where
  "xe_create_snapshot A vm_uuid snap_name = attempt_or ''_session'' (\<lambda>_. (JStr []))
     (seq (xe_call A ''VM.get_by_uuid'' [JStr vm_uuid]) (\<lambda>vm_ref.
      seq (xe_call A ''VM.snapshot'' [vm_ref, JStr snap_name]) (\<lambda>snap_ref.
      xe_call A ''VM.get_uuid'' [snap_ref])))"

definition xe_restore_vm_from_snapshot :: "'s xen_api \<Rightarrow> string \<Rightarrow> string \<Rightarrow> ('s client, json) exec" where
  "xe_restore_vm_from_snapshot A snapshot_uuid new_vm_name = attempt_or ''_session'' (\<lambda>_. (JStr []))
     (seq (xe_call A ''VM.get_by_uuid'' [JStr snapshot_uuid]) (\<lambda>snap_ref.
      seq (xe_call A ''VM.clone'' [snap_ref, JStr new_vm_name]) (\<lambda>new_vm_ref.
      xe_call A ''VM.get_uuid'' [new_vm_ref])))"

definition xe_get_task_status :: "(string \<Rightarrow> rat option) \<Rightarrow> 's xen_api \<Rightarrow> string \<Rightarrow> ('s client, xen_task) exec" where
  "xe_get_task_status float_of A task_uuid =
     attempt_or ''_session'' (\<lambda>_. \<lparr>xt_uuid = task_uuid, xt_status = JStr ''error'', xt_progress = 0, xt_result = JStr []\<rparr>)
     (seq (xe_call A ''task.get_by_uuid'' [JStr task_uuid]) (\<lambda>task_ref.
      seq (xe_call A ''task.get_record'' [task_ref]) (\<lambda>v.
      lift_result (and_then (get_dict v) (\<lambda>rec.
        and_then (to_float float_of (dget_or rec ''progress'' (JFloat 0))) (\<lambda>progress.
        Inr \<lparr>xt_uuid = task_uuid, xt_status = text_of rec ''status'', xt_progress = progress, xt_result = text_of rec ''result''\<rparr>))))))"

definition xe_get_vm_health :: "'s xen_api \<Rightarrow> string \<Rightarrow> ('s client, dict) exec" where
  "xe_get_vm_health A vm_uuid = attempt_or ''_session'' (\<lambda>_. [])
     (seq (xe_call A ''VM.get_by_uuid'' [JStr vm_uuid]) (\<lambda>vm_ref.
      seq (xe_call A ''VM.get_record'' [vm_ref]) (\<lambda>v.
      lift_result (and_then (get_dict v) (\<lambda>rec.
        Inr [(''power_state'', text_of rec ''power_state''), (''name_label'', text_of rec ''name_label'')])))))"

definition xe_delete_snapshot :: "'s xen_api \<Rightarrow> string \<Rightarrow> ('s client, bool) exec" where
  "xe_delete_snapshot A snapshot_uuid = attempt_or ''_session'' (\<lambda>_. False)
     (seq (xe_call A ''VM.get_by_uuid'' [JStr snapshot_uuid]) (\<lambda>snap_ref.
      seq (xe_call A ''VM.destroy'' [snap_ref]) (\<lambda>_. ret True)))"

subsection \<open>Connectors over HTTP\<close>

text \<open>
  Sangfor and Nutanix keep an HTTP client, which \<open>connect\<close> closes again when it fails. A path is
  appended to \<open>_base_url\<close>.
\<close>

record 's rest_api =
  ra_base_url :: string
  ra_open :: "('s, unit) exec"
  ra_aclose :: "('s, unit) exec"
  ra_get :: "string \<Rightarrow> ('s, http_response) exec"
  ra_post :: "string \<Rightarrow> json \<Rightarrow> ('s, http_response) exec"
  ra_set_token :: "json \<Rightarrow> ('s, unit) exec"

definition rest_get :: "'s rest_api \<Rightarrow> string \<Rightarrow> ('s, json) exec" where
  "rest_get A path = seq (ra_get A (ra_base_url A @ path)) json_body"

definition rest_post :: "'s rest_api \<Rightarrow> string \<Rightarrow> json \<Rightarrow> ('s, json) exec" where
  "rest_post A path body = seq (ra_post A (ra_base_url A @ path) body) json_body"

text \<open>\<open>if self._client: await self._client.aclose(); self._client = None\<close>, then \<open>return False\<close>\<close>

definition close_client :: "'s rest_api \<Rightarrow> ('s client, bool) exec" where
  "close_client A = seq (gets (holds ''_client'')) (\<lambda>up.
     if up then seq (on_world (ra_aclose A)) (\<lambda>_. seq (clear_handle ''_client'') (\<lambda>_. ret False)) else ret False)"

definition rest_connect :: "'s rest_api \<Rightarrow> ('s, bool) exec \<Rightarrow> ('s client, bool) exec" where
  "rest_connect A login =
     try_except (seq (on_world (ra_open A)) (\<lambda>_. seq (set_handle ''_client'') (\<lambda>_. on_world login))) (\<lambda>_. close_client A)"

subsection \<open>Sangfor\<close>

record sangfor_vm =
  sf_id :: json
  sf_name :: json
  sf_status :: json
  sf_cpu_num :: int
  sf_memory :: int
  sf_node_id :: json
  sf_ip_list :: json

record sangfor_snapshot =
  sn_id :: json
  sn_name :: json
  sn_vm_id :: string
  sn_create_time :: json
  sn_description :: json
  sn_size :: int

record sangfor_task =
  st_task_id :: json
  st_status :: json
  st_progress :: int
  st_message :: json

definition sf_connect :: "string \<Rightarrow> string \<Rightarrow> 's rest_api \<Rightarrow> ('s client, bool) exec" where
  "sf_connect username password A = rest_connect A
     (seq (rest_post A ''/auth/login'' (JObj [(''username'', JStr username), (''password'', JStr password)])) (\<lambda>v.
      seq (lift_result (get_dict v)) (\<lambda>d.
      seq (ra_set_token A (text_of d ''token'')) (\<lambda>_. ret (truthy (text_of d ''token''))))))"

definition parse_sangfor_vm :: "json \<Rightarrow> sangfor_vm result" where
  "parse_sangfor_vm v =
     and_then (get_dict v) (\<lambda>vm.
     and_then (int_of vm ''cpu_num'' 0) (\<lambda>cpu_num.
     and_then (int_of vm ''memory'' 0) (\<lambda>memory.
     Inr \<lparr>sf_id = text_of vm ''id'', sf_name = text_of vm ''name'', sf_status = text_of vm ''status'', sf_cpu_num = cpu_num,
          sf_memory = memory, sf_node_id = text_of vm ''node_id'', sf_ip_list = dget_or vm ''ip_list'' (JArr [])\<rparr>)))"

text \<open>\<open>[f(x) for x in data.get(k, [])]\<close>\<close>

definition items_under :: "string \<Rightarrow> (json \<Rightarrow> 'a result) \<Rightarrow> json \<Rightarrow> 'a list result" where
  "items_under k f v = and_then (get_dict v) (\<lambda>d. parse_items f (dget_or d k (JArr [])))"

definition sf_list_vms :: "'s rest_api \<Rightarrow> ('s client, sangfor_vm list) exec" where
  "sf_list_vms A = attempt_or ''_client'' (\<lambda>_. [])
     (seq (rest_get A ''/vms'') (\<lambda>v. lift_result (items_under ''data'' parse_sangfor_vm v)))"

definition parse_sangfor_snapshot :: "string \<Rightarrow> json \<Rightarrow> sangfor_snapshot result" where
  "parse_sangfor_snapshot vm_id v =
     and_then (get_dict v) (\<lambda>s.
     and_then (int_of s ''size'' 0) (\<lambda>n.
     Inr \<lparr>sn_id = text_of s ''id'', sn_name = text_of s ''name'', sn_vm_id = vm_id, sn_create_time = text_of s ''create_time'',
          sn_description = text_of s ''description'', sn_size = n\<rparr>))"

definition sf_get_vm_snapshots :: "'s rest_api \<Rightarrow> string \<Rightarrow> ('s client, sangfor_snapshot list) exec" where
  "sf_get_vm_snapshots A vm_id = attempt_or ''_client'' (\<lambda>_. [])
     (seq (rest_get A (''/vms/'' @ vm_id @ ''/snapshots'')) (\<lambda>v. lift_result (items_under ''data'' (parse_sangfor_snapshot vm_id) v)))"

definition sf_create_snapshot :: "'s rest_api \<Rightarrow> string \<Rightarrow> string \<Rightarrow> string \<Rightarrow> ('s client, json) exec" where
  "sf_create_snapshot A vm_id snap_name description = attempt_or ''_client'' (\<lambda>_. JStr [])
     (seq (rest_post A (''/vms/'' @ vm_id @ ''/snapshots'') (JObj [(''name'', JStr snap_name), (''description'', JStr description)])) (\<lambda>v.
      lift_result (and_then (get_dict v) (\<lambda>d. and_then (sub_dict d ''data'') (\<lambda>s. Inr (text_of s ''id''))))))"

definition sangfor_task_of :: "(dict \<Rightarrow> json) \<Rightarrow> json \<Rightarrow> sangfor_task result" where
  "sangfor_task_of task_id v =
     and_then (get_dict v) (\<lambda>d.
     and_then (sub_dict d ''data'') (\<lambda>task.
     and_then (int_of task ''progress'' 0) (\<lambda>progress.
     Inr \<lparr>st_task_id = task_id task, st_status = text_of task ''status'', st_progress = progress, st_message = text_of task ''message''\<rparr>)))"

definition sangfor_error :: "string \<Rightarrow> py_exn \<Rightarrow> sangfor_task" where
  "sangfor_error task_id exc = \<lparr>st_task_id = JStr task_id, st_status = JStr ''error'', st_progress = 0, st_message = JStr (exn_text exc)\<rparr>"

definition sf_restore_vm_from_snapshot :: "'s rest_api \<Rightarrow> string \<Rightarrow> string \<Rightarrow> ('s client, sangfor_task) exec" where
  "sf_restore_vm_from_snapshot A vm_id snapshot_id = attempt_or ''_client'' (sangfor_error [])
     (seq (rest_post A (''/vms/'' @ vm_id @ ''/snapshots/'' @ snapshot_id @ ''/restore'') (JObj []))
       (\<lambda>v. lift_result (sangfor_task_of (\<lambda>task. text_of task ''task_id'') v)))"

definition sf_get_task_status :: "'s rest_api \<Rightarrow> string \<Rightarrow> ('s client, sangfor_task) exec" where
  "sf_get_task_status A task_id = attempt_or ''_client'' (sangfor_error task_id)
     (seq (rest_get A (''/tasks/'' @ task_id)) (\<lambda>v. lift_result (sangfor_task_of (\<lambda>_. JStr task_id) v)))"

definition sf_get_vm_health :: "'s rest_api \<Rightarrow> string \<Rightarrow> ('s client, dict) exec" where
  "sf_get_vm_health A vm_id = attempt_or ''_client'' (\<lambda>_. [])
     (seq (rest_get A (''/vms/'' @ vm_id)) (\<lambda>v.
      lift_result (and_then (get_dict v) (\<lambda>d. and_then (sub_dict d ''data'') (\<lambda>vm.
        Inr [(''status'', text_of vm ''status''), (''name'', text_of vm ''name''), (''ip_list'', dget_or vm ''ip_list'' (JArr []))])))))"

subsection \<open>Nutanix\<close>

record nutanix_vm =
  nx_uuid :: json
  nx_name :: json
  nx_power_state :: json
  nx_num_vcpus :: int
  nx_memory_size_mib :: int
  nx_cluster_uuid :: json
  nx_hypervisor_type :: string

record nutanix_point =
  np_uuid :: json
  np_name :: json
  np_creation_time :: json
  np_vm_uuid :: string
  np_type :: json

record nutanix_job =
  nj_task_uuid :: json
  nj_status :: string
  nj_vm_uuid :: string
  nj_started_at :: json

definition nx_connect :: "'s rest_api \<Rightarrow> ('s client, bool) exec" where
  "nx_connect A = rest_connect A
     (seq (ra_post A (ra_base_url A @ ''/users/me'') (JObj [])) (\<lambda>resp. seq (lift_result (raise_for_status resp)) (\<lambda>_. ret True)))"

definition parse_nutanix_vm :: "json \<Rightarrow> nutanix_vm result" where
  "parse_nutanix_vm v =
     and_then (get_dict v) (\<lambda>e.
     and_then (sub_dict e ''spec'') (\<lambda>spec.
     and_then (sub_dict e ''metadata'') (\<lambda>metadata.
     and_then (sub_dict spec ''resources'') (\<lambda>resources.
     and_then (int_of resources ''num_vcpus_per_socket'' 1) (\<lambda>per_socket.
     and_then (int_of resources ''num_sockets'' 1) (\<lambda>sockets.
     and_then (int_of resources ''memory_size_mib'' 0) (\<lambda>memory.
     and_then (sub_dict spec ''cluster_reference'') (\<lambda>cluster_ref.
     Inr \<lparr>nx_uuid = text_of metadata ''uuid'', nx_name = text_of spec ''name'', nx_power_state = text_of resources ''power_state'',
          nx_num_vcpus = per_socket * sockets, nx_memory_size_mib = memory, nx_cluster_uuid = text_of cluster_ref ''uuid'',
          nx_hypervisor_type = ''AHV''\<rparr>))))))))"

definition nx_list_vms :: "'s rest_api \<Rightarrow> int \<Rightarrow> ('s client, nutanix_vm list) exec" where
  "nx_list_vms A limit = attempt_or ''_client'' (\<lambda>_. [])
     (seq (rest_post A ''/vms/list'' (JObj [(''kind'', JStr ''vm''), (''length'', JInt limit)]))
       (\<lambda>v. lift_result (items_under ''entities'' parse_nutanix_vm v)))"

definition parse_nutanix_point :: "string \<Rightarrow> json \<Rightarrow> nutanix_point result" where
  "parse_nutanix_point vm_uuid v =
     and_then (get_dict v) (\<lambda>e.
     and_then (sub_dict e ''spec'') (\<lambda>spec.
     and_then (sub_dict e ''metadata'') (\<lambda>meta.
     and_then (sub_dict spec ''resources'') (\<lambda>resources.
     Inr \<lparr>np_uuid = text_of meta ''uuid'', np_name = text_of spec ''name'', np_creation_time = text_of meta ''creation_time'',
          np_vm_uuid = vm_uuid, np_type = text_of resources ''recovery_point_type''\<rparr>))))"

definition nx_list_recovery_points :: "'s rest_api \<Rightarrow> string \<Rightarrow> ('s client, nutanix_point list) exec" where
  "nx_list_recovery_points A vm_uuid = attempt_or ''_client'' (\<lambda>_. [])
     (seq (rest_post A ''/recovery_points/list'' (JObj [(''kind'', JStr ''recovery_point''), (''filter'', JStr (''vm_uuid=='' @ vm_uuid))]))
       (\<lambda>v. lift_result (items_under ''entities'' (parse_nutanix_point vm_uuid) v)))"

definition nx_create_recovery_point :: "'s rest_api \<Rightarrow> string \<Rightarrow> string \<Rightarrow> ('s client, json) exec" where
  "nx_create_recovery_point A vm_uuid snap_name = attempt_or ''_client'' (\<lambda>_. JStr [])
     (seq (rest_post A ''/recovery_points'' (JObj
        [(''spec'', JObj [(''name'', JStr snap_name),
           (''resources'', JObj [(''recovery_point_type'', JStr ''CRASH_CONSISTENT''),
              (''vm_recovery_point_list'', JArr [JObj [(''vm_uuid'', JStr vm_uuid)]])])]),
         (''metadata'', JObj [(''kind'', JStr ''recovery_point'')])])) (\<lambda>v.
      lift_result (and_then (get_dict v) (\<lambda>d. and_then (sub_dict d ''metadata'') (\<lambda>meta. Inr (text_of meta ''uuid''))))))"

definition nx_restore_vm :: "'s rest_api \<Rightarrow> string \<Rightarrow> string \<Rightarrow> ('s client, nutanix_job) exec" where
  "nx_restore_vm A recovery_point_uuid target_cluster_uuid =
     attempt_or ''_client'' (\<lambda>_. \<lparr>nj_task_uuid = JStr [], nj_status = ''ERROR'', nj_vm_uuid = [], nj_started_at = JStr []\<rparr>)
     (seq (rest_post A (''/recovery_points/'' @ recovery_point_uuid @ ''/restore'')
        (JObj [(''cluster_reference'', JObj [(''kind'', JStr ''cluster''), (''uuid'', JStr target_cluster_uuid)])])) (\<lambda>v.
      lift_result (and_then (get_dict v) (\<lambda>d.
        Inr \<lparr>nj_task_uuid = text_of d ''task_uuid'', nj_status = ''RUNNING'', nj_vm_uuid = [], nj_started_at = text_of d ''start_time''\<rparr>))))"

definition nx_get_task_status :: "'s rest_api \<Rightarrow> string \<Rightarrow> ('s client, json) exec" where
  "nx_get_task_status A task_uuid = attempt_or ''_client'' (\<lambda>_. JStr [])
     (seq (rest_get A (''/tasks/'' @ task_uuid)) (\<lambda>v. lift_result (and_then (get_dict v) (\<lambda>d. Inr (text_of d ''status'')))))"

definition nx_get_vm_health :: "'s rest_api \<Rightarrow> string \<Rightarrow> ('s client, dict) exec" where
  "nx_get_vm_health A vm_uuid = attempt_or ''_client'' (\<lambda>_. [])
     (seq (rest_get A (''/vms/'' @ vm_uuid)) (\<lambda>v.
      lift_result (and_then (get_dict v) (\<lambda>d. and_then (sub_dict d ''spec'') (\<lambda>spec. and_then (sub_dict spec ''resources'') (\<lambda>resources.
        Inr [(''power_state'', text_of resources ''power_state''), (''name'', text_of spec ''name'')]))))))"

end
