(* ===== verification/HostConnectors.thy ===== *)
theory HostConnectors
  imports Connectors
begin

text \<open>
  The connectors for Red Hat Virtualization (\<open>connectors/rhv/client.py\<close>, the oVirt SDK) and for
  Hyper-V (\<open>connectors/hyperv/client.py\<close>, WMI): every operation of each, over a library given as a
  record of its calls. Counts the SDK documents as integers are read as such.
\<close>

subsection \<open>Red Hat Virtualization\<close>

text \<open>
  \<open>rh_call\<close> is a method of a service: the path of the service below \<open>system_service()\<close>, the method
  and its keyword arguments. An absent object is \<open>None\<close>.
\<close>

record 's rhv_api =
  rh_installed :: bool
  rh_ca_file :: string
  rh_connection :: "dict \<Rightarrow> ('s, unit) exec"
  rh_call :: "string list \<Rightarrow> string \<Rightarrow> dict \<Rightarrow> ('s, json) exec"

record rhv_vm =
  rv_id :: json
  rv_name :: json
  rv_status :: string
  rv_memory :: int
  rv_cpu_cores :: int
  rv_cluster_id :: json
  rv_template_id :: json

record rhv_snapshot =
  rs_id :: json
  rs_description :: json
  rs_vm_id :: string
  rs_date :: string
  rs_snapshot_type :: string
  rs_persist_memorystate :: bool

record rhv_disk =
  rd_id :: json
  rd_alias :: json
  rd_actual_size :: int
  rd_status :: string

definition rh_connect :: "string \<Rightarrow> string \<Rightarrow> string \<Rightarrow> 's rhv_api \<Rightarrow> ('s client, bool) exec" where
  "rh_connect url username password A = open_handles (rh_installed A)
     (seq (on_world (rh_connection A
        ([(''url'', JStr url), (''username'', JStr username), (''password'', JStr password), (''insecure'', JBool (rh_ca_file A = []))]
         @ (if rh_ca_file A \<noteq> [] then [(''ca_file'', JStr (rh_ca_file A))] else []))))
      (\<lambda>_. set_handle ''_conn''))"

text \<open>\<open>x.k or 1\<close> on an integer, and \<open>x.o.id if x.o else d\<close>\<close>

definition attr_count :: "json \<Rightarrow> string \<Rightarrow> int result" where
  "attr_count v k = and_then (attr v k) (\<lambda>x. if truthy x then to_int x else Inr 1)"

definition attr_id :: "json \<Rightarrow> string \<Rightarrow> json \<Rightarrow> json result" where
  "attr_id v k d = and_then (attr v k) (\<lambda>x. if x = JNull then Inr d else attr x ''id'')"

definition rhv_cores :: "json \<Rightarrow> int result" where
  "rhv_cores vm =
     and_then (attr vm ''cpu'') (\<lambda>cpu.
     if cpu = JNull then Inr 0
     else and_then (attr cpu ''topology'') (\<lambda>topology.
     if topology = JNull then Inr 0
     else and_then (attr_count topology ''cores'') (\<lambda>cores.
          and_then (attr_count topology ''sockets'') (\<lambda>sockets.
          and_then (attr_count topology ''threads'') (\<lambda>threads. Inr (cores * sockets * threads))))))"

definition parse_rhv_vm :: "json \<Rightarrow> rhv_vm result" where
  "parse_rhv_vm vm =
     and_then (attr_id vm ''cluster'' (JStr [])) (\<lambda>cluster_id.
     and_then (attr_id vm ''template'' JNull) (\<lambda>template_id.
     and_then (rhv_cores vm) (\<lambda>cpu_cores.
     and_then (attr_text vm ''id'') (\<lambda>ident.
     and_then (attr_text vm ''name'') (\<lambda>name.
     and_then (attr_str vm ''status'') (\<lambda>status.
     and_then (attr_int vm ''memory'') (\<lambda>memory.
     Inr \<lparr>rv_id = ident, rv_name = name, rv_status = status, rv_memory = memory, rv_cpu_cores = cpu_cores,
          rv_cluster_id = cluster_id, rv_template_id = template_id\<rparr>)))))))"

definition rh_list_vms :: "'s rhv_api \<Rightarrow> ('s client, rhv_vm list) exec" where
  "rh_list_vms A = attempt_or ''_conn'' (\<lambda>_. [])
     (seq (rh_call A [''vms''] ''list'' []) (\<lambda>vms. lift_result (parse_items parse_rhv_vm vms)))"

definition parse_rhv_snapshot :: "string \<Rightarrow> json \<Rightarrow> rhv_snapshot result" where
  "parse_rhv_snapshot vm_id snap =
     and_then (attr_text snap ''id'') (\<lambda>ident.
     and_then (attr_text snap ''description'') (\<lambda>description.
     and_then (attr_str snap ''date'') (\<lambda>date.
     and_then (attr_str snap ''snapshot_type'') (\<lambda>snapshot_type.
     and_then (attr snap ''persist_memorystate'') (\<lambda>persist.
     Inr \<lparr>rs_id = ident, rs_description = description, rs_vm_id = vm_id, rs_date = date, rs_snapshot_type = snapshot_type,
          rs_persist_memorystate = truthy persist\<rparr>)))))"

definition rh_get_vm_snapshots :: "'s rhv_api \<Rightarrow> string \<Rightarrow> ('s client, rhv_snapshot list) exec" where
  "rh_get_vm_snapshots A vm_id = attempt_or ''_conn'' (\<lambda>_. [])
     (seq (rh_call A [''vms'', vm_id, ''snapshots''] ''list'' []) (\<lambda>snaps. lift_result (parse_items (parse_rhv_snapshot vm_id) snaps)))"

definition rh_create_snapshot :: "'s rhv_api \<Rightarrow> string \<Rightarrow> string \<Rightarrow> ('s client, json) exec" where
  "rh_create_snapshot A vm_id description = attempt_or ''_conn'' (\<lambda>_. JStr [])
     (seq (rh_call A [''vms'', vm_id, ''snapshots''] ''add'' [(''description'', JStr description)]) (\<lambda>snap. lift_result (attr_text snap ''id'')))"

definition rh_restore_vm_from_snapshot :: "'s rhv_api \<Rightarrow> string \<Rightarrow> string \<Rightarrow> ('s client, bool) exec" where
  "rh_restore_vm_from_snapshot A vm_id snapshot_id = attempt_or ''_conn'' (\<lambda>_. False)
     (seq (rh_call A [''vms'', vm_id, ''snapshots'', snapshot_id] ''restore'' [(''restore_memory'', JBool False)]) (\<lambda>_.
      seq (rh_call A [''vms'', vm_id] ''commit_snapshot'' []) (\<lambda>_. ret True)))"

definition rh_get_vm_health :: "'s rhv_api \<Rightarrow> string \<Rightarrow> ('s client, dict) exec" where
  "rh_get_vm_health A vm_id = attempt_or ''_conn'' (\<lambda>_. [])
     (seq (rh_call A [''vms'', vm_id] ''get'' []) (\<lambda>vm.
      lift_result (and_then (attr_str vm ''status'') (\<lambda>status. and_then (attr_text vm ''name'') (\<lambda>name.
        Inr [(''status'', JStr status), (''name'', name)])))))"

definition parse_rhv_disk :: "json \<Rightarrow> rhv_disk result" where
  "parse_rhv_disk da =
     and_then (attr da ''disk'') (\<lambda>disk.
     if disk = JNull then Inr \<lparr>rd_id = JStr [], rd_alias = JStr [], rd_actual_size = 0, rd_status = []\<rparr>
     else and_then (attr_text disk ''id'') (\<lambda>ident.
     and_then (attr_text disk ''alias'') (\<lambda>alias.
     and_then (attr_int disk ''actual_size'') (\<lambda>actual_size.
     and_then (attr_str disk ''status'') (\<lambda>status.
     Inr \<lparr>rd_id = ident, rd_alias = alias, rd_actual_size = actual_size, rd_status = status\<rparr>)))))"

definition rh_list_vm_disks :: "'s rhv_api \<Rightarrow> string \<Rightarrow> ('s client, rhv_disk list) exec" where
  "rh_list_vm_disks A vm_id = attempt_or ''_conn'' (\<lambda>_. [])
     (seq (rh_call A [''vms'', vm_id, ''disk_attachments''] ''list'' []) (\<lambda>das. lift_result (parse_items parse_rhv_disk das)))"

definition rh_start_vm :: "'s rhv_api \<Rightarrow> string \<Rightarrow> ('s client, bool) exec" where
  "rh_start_vm A vm_id = attempt_or ''_conn'' (\<lambda>_. False) (seq (rh_call A [''vms'', vm_id] ''start'' []) (\<lambda>_. ret True))"

definition rh_stop_vm :: "'s rhv_api \<Rightarrow> string \<Rightarrow> ('s client, bool) exec" where
  "rh_stop_vm A vm_id = attempt_or ''_conn'' (\<lambda>_. False) (seq (rh_call A [''vms'', vm_id] ''stop'' []) (\<lambda>_. ret True))"

subsection \<open>Hyper-V\<close>

text \<open>
  \<open>hv_query\<close> is \<open>ExecQuery\<close>; \<open>hv_path\<close> the method \<open>path_()\<close> of an object; the services' methods
  answer a return value with their output objects. \<open>hv_strptime\<close> is \<open>datetime.strptime\<close> with the
  format \<open>%Y%m%d%H%M%S\<close>, in UTC, with \<open>None\<close> its \<open>ValueError\<close>.
\<close>

record 's hyperv_api =
  hv_available :: bool
  hv_get_object :: "string \<Rightarrow> ('s, unit) exec"
  hv_query :: "string \<Rightarrow> ('s, json) exec"
  hv_get :: "string \<Rightarrow> ('s, json) exec"
  hv_spawn :: "json \<Rightarrow> ('s, json) exec"
  hv_set_element_name :: "json \<Rightarrow> string \<Rightarrow> ('s, unit) exec"
  hv_get_text :: "json \<Rightarrow> int \<Rightarrow> ('s, json) exec"
  hv_path :: "json \<Rightarrow> ('s, json) exec"
  hv_create_snapshot :: "json \<Rightarrow> dict \<Rightarrow> ('s, json \<times> json) exec"
  hv_apply_snapshot :: "json \<Rightarrow> dict \<Rightarrow> ('s, json) exec"
  hv_define_system :: "json \<Rightarrow> dict \<Rightarrow> ('s, json) exec"
  hv_destroy_system :: "json \<Rightarrow> dict \<Rightarrow> ('s, json) exec"
  hv_strptime :: "string \<Rightarrow> int option"
  hv_now :: "'s \<Rightarrow> int"
  hv_uuid :: "('s, string) exec"

record hyperv_vm =
  hm_vm_id :: json
  hm_name :: json
  hm_state :: string
  hm_cpu_count :: int
  hm_memory_mb :: int
  hm_generation :: int
  hm_checkpoint_count :: int
  hm_notes :: json

record hyperv_checkpoint =
  hc_checkpoint_id :: json
  hc_vm_id :: string
  hc_name :: json
  hc_creation_time :: int
  hc_snapshot_type :: json

record hyperv_switch =
  hs_switch_id :: string
  hs_name :: string
  hs_switch_type :: string
  hs_notes :: string

definition hv_connect :: "string \<Rightarrow> 's hyperv_api \<Rightarrow> ('s client, bool) exec" where
  "hv_connect host A = open_handles (hv_available A)
     (seq (on_world (hv_get_object A (''winmgmts:'' @ [CHR 0x5C, CHR 0x5C] @ host @ [CHR 0x5C] @ ''root'' @ [CHR 0x5C] @ ''virtualization'' @ [CHR 0x5C] @ ''v2'')))
      (\<lambda>_. set_handle ''_wmi''))"

text \<open>\<open>state_map.get(vm.EnabledState, "Unknown")\<close>\<close>

definition state_map :: "(rat \<times> string) list" where
  "state_map = [(0, ''Unknown''), (2, ''Running''), (3, ''Off''), (6, ''Paused''), (9, ''Saved''), (10, ''Starting''),
                (11, ''Snapshotting''), (32768, ''Pausing''), (32769, ''Resuming'')]"

definition state_name :: "json \<Rightarrow> string result" where
  "state_name v = and_then (hashable v) (\<lambda>_.
     Inr (case (case v of JInt n \<Rightarrow> map_of state_map (of_int n) | JFloat x \<Rightarrow> map_of state_map x | _ \<Rightarrow> None) of
            Some s \<Rightarrow> s | None \<Rightarrow> ''Unknown''))"

definition parse_hyperv_vm :: "json \<Rightarrow> hyperv_vm result" where
  "parse_hyperv_vm vm =
     and_then (attr vm ''EnabledState'') (\<lambda>enabled.
     and_then (state_name enabled) (\<lambda>state.
     and_then (attr vm ''Name'') (\<lambda>vm_id.
     and_then (attr vm ''ElementName'') (\<lambda>name.
     and_then (attr_text vm ''Description'') (\<lambda>notes.
     Inr \<lparr>hm_vm_id = vm_id, hm_name = name, hm_state = state, hm_cpu_count = 0, hm_memory_mb = 0, hm_generation = 1,
          hm_checkpoint_count = 0, hm_notes = notes\<rparr>)))))"

definition hv_list_vms :: "'s hyperv_api \<Rightarrow> ('s client, hyperv_vm list) exec" where
  "hv_list_vms A = attempt ''_wmi'' [] (\<lambda>_. [])
     (seq (hv_query A (''SELECT * FROM Msvm_ComputerSystem WHERE Caption = '' @ [CHR 0x27] @ ''Virtual Machine'' @ [CHR 0x27]))
       (\<lambda>vms. lift_result (parse_items parse_hyperv_vm vms)))"

text \<open>\<open>attribute = 'value'\<close> in a query\<close>

definition equals_text :: "string \<Rightarrow> string \<Rightarrow> string" where
  "equals_text attribute v = attribute @ '' = '' @ [CHR 0x27] @ v @ [CHR 0x27]"

definition settings_query :: "string \<Rightarrow> string" where
  "settings_query condition = ''SELECT * FROM Msvm_VirtualSystemSettingData WHERE '' @ condition"

text \<open>The creation time, or now where it does not parse.\<close>

definition checkpoint_time :: "(string \<Rightarrow> int option) \<Rightarrow> int \<Rightarrow> json \<Rightarrow> int result" where
  "checkpoint_time strptime now creation = (case creation of
     JStr s \<Rightarrow> Inr (case strptime (take 14 s) of Some t \<Rightarrow> t | None \<Rightarrow> now)
   | _ \<Rightarrow> Inl (TypeError ''object is not subscriptable''))"

definition parse_checkpoint :: "(string \<Rightarrow> int option) \<Rightarrow> int \<Rightarrow> string \<Rightarrow> json \<Rightarrow> hyperv_checkpoint result" where
  "parse_checkpoint strptime now vm_id snap =
     and_then (attr_text snap ''CreationTime'') (\<lambda>creation.
     and_then (checkpoint_time strptime now creation) (\<lambda>creation_dt.
     and_then (attr snap ''InstanceID'') (\<lambda>checkpoint_id.
     and_then (attr snap ''ElementName'') (\<lambda>name.
     and_then (attr snap ''VirtualSystemType'') (\<lambda>kind.
     Inr \<lparr>hc_checkpoint_id = checkpoint_id, hc_vm_id = vm_id, hc_name = (if truthy name then name else JStr ''Checkpoint''),
          hc_creation_time = creation_dt, hc_snapshot_type = (if truthy kind then kind else JStr ''Standard'')\<rparr>)))))"

definition hv_get_vm_checkpoints :: "'s hyperv_api \<Rightarrow> string \<Rightarrow> ('s client, hyperv_checkpoint list) exec" where
  "hv_get_vm_checkpoints A vm_id = attempt ''_wmi'' [] (\<lambda>_. [])
     (seq (hv_query A (settings_query (equals_text ''VirtualSystemType'' ''Microsoft:Hyper-V:Snapshot:Realized'' @ '' AND ''
                                       @ equals_text ''SystemName'' vm_id))) (\<lambda>snaps.
      seq (gets (hv_now A)) (\<lambda>now. lift_result (parse_items (parse_checkpoint (hv_strptime A) now vm_id) snaps))))"

text \<open>\<open>ExecQuery(q)[0]\<close>\<close>

definition index0 :: "json \<Rightarrow> json result" where
  "index0 v = (case v of
     JArr (x # _) \<Rightarrow> Inr x
   | JStr (c # _) \<Rightarrow> Inr (JStr [c])
   | JArr [] \<Rightarrow> Inl (ExternalError ''list index out of range'')
   | JStr [] \<Rightarrow> Inl (ExternalError ''string index out of range'')
   | JObj _ \<Rightarrow> Inl (KeyError ''0'')
   | _ \<Rightarrow> Inl (TypeError ''object is not subscriptable''))"

definition hv_first :: "'s hyperv_api \<Rightarrow> string \<Rightarrow> ('s, json) exec" where
  "hv_first A q = seq (hv_query A q) (\<lambda>v. lift_result (index0 v))"

definition snapshot_service :: string where
  "snapshot_service = ''SELECT * FROM Msvm_VirtualSystemSnapshotService''"

definition switch_service :: string where
  "switch_service = ''SELECT * FROM Msvm_VirtualEthernetSwitchManagementService''"

text \<open>\<open>result == 0\<close>\<close>

definition is_zero :: "json \<Rightarrow> bool" where
  "is_zero v \<longleftrightarrow> v = JInt 0 \<or> v = JFloat 0 \<or> v = JBool False"

text \<open>The name of the checkpoint, an argument or a time stamp, is only logged.\<close>

definition hv_create_checkpoint :: "'s hyperv_api \<Rightarrow> string \<Rightarrow> string option \<Rightarrow> ('s client, json) exec" where
  "hv_create_checkpoint A vm_id checkpoint_name = attempt ''_wmi'' JNull (\<lambda>_. JNull)
     (seq (hv_first A snapshot_service) (\<lambda>svc.
      seq (hv_first A (settings_query (equals_text ''VirtualSystemType'' ''Microsoft:Hyper-V:System:Realized'' @ '' AND ''
                                       @ equals_text ''SystemName'' vm_id))) (\<lambda>vm_setting.
      seq (hv_path A vm_setting) (\<lambda>path.
      seq (hv_create_snapshot A svc [(''AffectedSystem'', path), (''SnapshotSettings'', JStr []), (''SnapshotType'', JInt 2)])
        (\<lambda>(result, snap_path). ret (if is_zero result then snap_path else JNull))))))"

definition hv_restore_vm_from_checkpoint :: "'s hyperv_api \<Rightarrow> string \<Rightarrow> string \<Rightarrow> ('s client, bool) exec" where
  "hv_restore_vm_from_checkpoint A vm_id checkpoint_id = attempt ''_wmi'' False (\<lambda>_. False)
     (seq (hv_first A snapshot_service) (\<lambda>svc.
      seq (hv_first A (settings_query (equals_text ''InstanceID'' checkpoint_id))) (\<lambda>snap.
      seq (hv_path A snap) (\<lambda>path.
      seq (hv_apply_snapshot A svc [(''SnapshotSettings'', path)]) (\<lambda>result. ret (is_zero result))))))"

definition hv_create_internal_switch :: "'s hyperv_api \<Rightarrow> string \<Rightarrow> ('s client, hyperv_switch option) exec" where
  "hv_create_internal_switch A switch_name = attempt ''_wmi'' None (\<lambda>_. None)
     (seq (hv_first A switch_service) (\<lambda>svc.
      seq (hv_get A ''Msvm_VirtualEthernetSwitchSettingData'') (\<lambda>settings_class.
      seq (hv_spawn A settings_class) (\<lambda>switch_settings.
      seq (hv_set_element_name A switch_settings switch_name) (\<lambda>_.
      seq (hv_uuid A) (\<lambda>switch_id.
      seq (hv_get_text A switch_settings 1) (\<lambda>text.
      seq (hv_define_system A svc [(''SystemSettings'', text), (''ResourceSettings'', JArr []), (''ReferenceConfiguration'', JNull)])
        (\<lambda>result. ret (if is_zero result
           then Some \<lparr>hs_switch_id = switch_id, hs_name = switch_name, hs_switch_type = ''Internal'',
                      hs_notes = ''Created by R3VP for isolation testing''\<rparr>
           else None)))))))))"

fun destroy_first :: "'s hyperv_api \<Rightarrow> json \<Rightarrow> json list \<Rightarrow> ('s, bool) exec" where
  "destroy_first A svc [] = ret False"
| "destroy_first A svc (sw # switches) =
     seq (hv_path A sw) (\<lambda>path.
     seq (hv_destroy_system A svc [(''AffectedSystem'', path)]) (\<lambda>result.
     if is_zero result then ret True else destroy_first A svc switches))"

definition hv_delete_switch :: "'s hyperv_api \<Rightarrow> string \<Rightarrow> ('s client, bool) exec" where
  "hv_delete_switch A switch_name = attempt ''_wmi'' False (\<lambda>_. False)
     (seq (hv_first A switch_service) (\<lambda>svc.
      seq (hv_query A (''SELECT * FROM Msvm_VirtualEthernetSwitch WHERE '' @ equals_text ''ElementName'' switch_name)) (\<lambda>switches.
      seq (lift_result (iterate switches)) (destroy_first A svc))))"

text \<open>\<open>list(x or [])\<close>\<close>

definition list_or_empty :: "json \<Rightarrow> json result" where
  "list_or_empty v = and_then (iterate (if truthy v then v else JArr [])) (\<lambda>xs. Inr (JArr xs))"

definition hyperv_health :: "json \<Rightarrow> dict result" where
  "hyperv_health vm =
     and_then (attr vm ''ElementName'') (\<lambda>name.
     and_then (attr vm ''EnabledState'') (\<lambda>state.
     and_then (attr vm ''HealthState'') (\<lambda>health_state.
     and_then (attr vm ''OperationalStatus'') (\<lambda>operational.
     and_then (list_or_empty operational) (\<lambda>operational_status.
     Inr [(''available'', JBool True), (''name'', name), (''state'', state), (''health_state'', health_state),
          (''operational_status'', operational_status)])))))"

definition hv_get_vm_health :: "'s hyperv_api \<Rightarrow> string \<Rightarrow> ('s client, dict) exec" where
  "hv_get_vm_health A vm_id = attempt ''_wmi'' [(''available'', JBool False)]
     (\<lambda>exc. [(''available'', JBool False), (''reason'', JStr (exn_text exc))])
     (seq (hv_query A (''SELECT * FROM Msvm_ComputerSystem WHERE '' @ equals_text ''Name'' vm_id)) (\<lambda>v.
      lift_result (and_then (iterate v) (\<lambda>vms. case vms of
        [] \<Rightarrow> Inr [(''available'', JBool False), (''reason'', JStr ''VM not found'')]
      | vm # _ \<Rightarrow> hyperv_health vm))))"

end
