(* ===== verification/CloudConnectors.thy ===== *)
theory CloudConnectors
  imports HostConnectors
begin

text \<open>
  The connectors for AWS Backup (\<open>connectors/aws_backup/client.py\<close>), Azure Backup
  (\<open>connectors/azure_backup/client.py\<close>) and Google Compute Engine
  (\<open>connectors/gcp_backup/client.py\<close>): every operation of each, over a library given as a record of
  its calls with the arguments the code passes.
\<close>

subsection \<open>AWS Backup\<close>

text \<open>
  \<open>aw_backup\<close> and \<open>aw_ec2\<close> are the methods of the two clients with their keyword arguments;
  \<open>aw_pages\<close> is \<open>get_paginator(...).paginate()\<close>, \<open>aw_client\<close> opens one client of the session.
\<close>

record 's aws_api =
  aw_installed :: bool
  aw_session :: "string \<Rightarrow> ('s, unit) exec"
  aw_client :: "string \<Rightarrow> ('s, unit) exec"
  aw_backup :: "string \<Rightarrow> dict \<Rightarrow> ('s, json) exec"
  aw_ec2 :: "string \<Rightarrow> dict \<Rightarrow> ('s, json) exec"
  aw_pages :: "string \<Rightarrow> ('s, json) exec"
  aw_now :: "'s \<Rightarrow> int"

record aws_vault =
  av_vault_name :: json
  av_vault_arn :: json
  av_number_of_recovery_points :: json
  av_creation_date :: json

record aws_recovery_point =
  ap_recovery_point_arn :: json
  ap_backup_vault_name :: json
  ap_resource_arn :: json
  ap_resource_type :: json
  ap_creation_date :: json
  ap_status :: json
  ap_backup_size_bytes :: json

record aws_restore_job =
  aj_restore_job_id :: json
  aj_recovery_point_arn :: json
  aj_status :: json
  aj_created_resource_arn :: json
  aj_created_at :: int

definition open_client :: "'s aws_api \<Rightarrow> string \<Rightarrow> string \<Rightarrow> ('s client, unit) exec" where
  "open_client A service h = seq (on_world (aw_client A service)) (\<lambda>_. set_handle h)"

definition aw_connect :: "string \<Rightarrow> 's aws_api \<Rightarrow> ('s client, bool) exec" where
  "aw_connect region A = open_handles (aw_installed A)
     (seq (on_world (aw_session A region)) (\<lambda>_.
      seq (open_client A ''backup'' ''_backup_client'') (\<lambda>_.
      seq (open_client A ''ec2'' ''_ec2_client'') (\<lambda>_.
      seq (open_client A ''ssm'' ''_ssm_client'') (\<lambda>_.
      seq (on_world (aw_backup A ''list_backup_vaults'' [(''MaxResults'', JInt 1)])) (\<lambda>_. ret ()))))))"

definition parse_vault :: "json \<Rightarrow> aws_vault result" where
  "parse_vault v =
     and_then (Json.as_dict v) (\<lambda>d.
     and_then (dsub d ''BackupVaultName'') (\<lambda>name.
     and_then (dsub d ''BackupVaultArn'') (\<lambda>arn.
     Inr \<lparr>av_vault_name = name, av_vault_arn = arn, av_number_of_recovery_points = dget_or d ''NumberOfRecoveryPoints'' (JInt 0),
          av_creation_date = dget d ''CreationDate''\<rparr>)))"

definition parse_pages :: "json \<Rightarrow> aws_vault list result" where
  "parse_pages pages = and_then (parse_items (items_under ''BackupVaultList'' parse_vault) pages) (\<lambda>vss. Inr (concat vss))"

definition aw_list_vaults :: "'s aws_api \<Rightarrow> ('s client, aws_vault list) exec" where
  "aw_list_vaults A = attempt ''_backup_client'' [] (\<lambda>_. [])
     (seq (aw_pages A ''list_backup_vaults'') (\<lambda>pages. lift_result (parse_pages pages)))"

definition parse_recovery_point :: "json \<Rightarrow> json \<Rightarrow> aws_recovery_point result" where
  "parse_recovery_point vault_name v =
     and_then (Json.as_dict v) (\<lambda>rp.
     and_then (dsub rp ''RecoveryPointArn'') (\<lambda>arn.
     Inr \<lparr>ap_recovery_point_arn = arn, ap_backup_vault_name = vault_name, ap_resource_arn = text_of rp ''ResourceArn'',
          ap_resource_type = dget_or rp ''ResourceType'' (JStr ''EC2''), ap_creation_date = dget rp ''CreationDate'',
          ap_status = dget_or rp ''Status'' (JStr ''COMPLETED''), ap_backup_size_bytes = dget_or rp ''BackupSizeInBytes'' (JInt 0)\<rparr>))"

definition aw_list_recovery_points :: "'s aws_api \<Rightarrow> json \<Rightarrow> string \<Rightarrow> ('s client, aws_recovery_point list) exec" where
  "aw_list_recovery_points A vault_name resource_type = attempt ''_backup_client'' [] (\<lambda>_. [])
     (seq (aw_backup A ''list_recovery_points_by_backup_vault''
        ([(''BackupVaultName'', vault_name), (''MaxResults'', JInt 100)]
         @ (if resource_type \<noteq> [] then [(''ByResourceType'', JStr resource_type)] else [])))
       (\<lambda>resp. lift_result (items_under ''RecoveryPoints'' (parse_recovery_point vault_name) resp)))"

text \<open>\<open>s[-8:]\<close>\<close>

definition last8 :: "string \<Rightarrow> string" where
  "last8 s = drop (length s - 8) s"

definition restore_request :: "string \<Rightarrow> string \<Rightarrow> string \<Rightarrow> string \<Rightarrow> dict" where
  "restore_request recovery_point_arn target_subnet_id target_security_group_id iam_role_arn =
     [(''RecoveryPointArn'', JStr recovery_point_arn),
      (''Metadata'', JObj [(''SubnetId'', JStr target_subnet_id),
                           (''SecurityGroupIds'', JStr (dumps (JArr [JStr target_security_group_id]))),
                           (''InstanceType'', JStr ''t3.medium'')]),
      (''IamRoleArn'', JStr iam_role_arn),
      (''IdempotencyToken'', JStr (''r3vp-'' @ last8 recovery_point_arn)),
      (''ResourceType'', JStr ''EC2'')]"

definition aw_start_restore_job ::
  "'s aws_api \<Rightarrow> string \<Rightarrow> string \<Rightarrow> string \<Rightarrow> string \<Rightarrow> ('s client, aws_restore_job option) exec" where
  "aw_start_restore_job A recovery_point_arn target_subnet_id target_security_group_id iam_role_arn =
     attempt ''_backup_client'' None (\<lambda>_. None)
     (seq (aw_backup A ''start_restore_job''
        (restore_request recovery_point_arn target_subnet_id target_security_group_id iam_role_arn)) (\<lambda>v.
      seq (lift_result (and_then (Json.as_dict v) (\<lambda>resp. dsub resp ''RestoreJobId''))) (\<lambda>job_id.
      seq (gets (aw_now A)) (\<lambda>now.
      ret (Some \<lparr>aj_restore_job_id = job_id, aj_recovery_point_arn = JStr recovery_point_arn, aj_status = JStr ''PENDING'',
                 aj_created_resource_arn = JStr [], aj_created_at = now\<rparr>)))))"

definition aw_get_restore_job_status :: "'s aws_api \<Rightarrow> string \<Rightarrow> ('s client, aws_restore_job option) exec" where
  "aw_get_restore_job_status A restore_job_id = attempt ''_backup_client'' None (\<lambda>_. None)
     (seq (aw_backup A ''describe_restore_job'' [(''RestoreJobId'', JStr restore_job_id)]) (\<lambda>v.
      seq (lift_result (get_dict v)) (\<lambda>resp.
      seq (gets (aw_now A)) (\<lambda>now.
      ret (Some \<lparr>aj_restore_job_id = JStr restore_job_id, aj_recovery_point_arn = text_of resp ''RecoveryPointArn'',
                 aj_status = dget_or resp ''Status'' (JStr ''PENDING''), aj_created_resource_arn = text_of resp ''CreatedResourceArn'',
                 aj_created_at = now\<rparr>)))))"

text \<open>\<open>x[a][b]\<close>\<close>

definition dsub2 :: "dict \<Rightarrow> string \<Rightarrow> string \<Rightarrow> json result" where
  "dsub2 d a b = and_then (dsub d a) (\<lambda>v. and_then (Json.as_dict v) (\<lambda>e. dsub e b))"

definition unavailable :: "string \<Rightarrow> dict" where
  "unavailable reason = [(''available'', JBool False), (''reason'', JStr reason)]"

definition ec2_health :: "string \<Rightarrow> json \<Rightarrow> dict result" where
  "ec2_health instance_id v =
     and_then (get_dict v) (\<lambda>resp.
     if \<not> truthy (dget_or resp ''InstanceStatuses'' (JArr [])) then Inr (unavailable ''Instance not found or not running'')
     else and_then (index0 (dget_or resp ''InstanceStatuses'' (JArr []))) (\<lambda>x.
     and_then (Json.as_dict x) (\<lambda>status.
     and_then (dsub2 status ''InstanceStatus'' ''Status'') (\<lambda>instance_status.
     and_then (dsub2 status ''SystemStatus'' ''Status'') (\<lambda>system_status.
     and_then (dsub2 status ''InstanceState'' ''Name'') (\<lambda>state.
     let instance_ok = (instance_status = JStr ''ok''); system_ok = (system_status = JStr ''ok'') in
     Inr [(''available'', JBool True), (''instance_id'', JStr instance_id), (''state'', state),
          (''instance_checks_passed'', JBool instance_ok), (''system_checks_passed'', JBool system_ok),
          (''overall_health'', JStr (if instance_ok \<and> system_ok then ''healthy'' else ''degraded''))]))))))"

definition aw_check_ec2_health :: "'s aws_api \<Rightarrow> string \<Rightarrow> ('s client, dict) exec" where
  "aw_check_ec2_health A instance_id = attempt ''_ec2_client'' (unavailable ''Not connected'') (\<lambda>exc. unavailable (exn_text exc))
     (seq (aw_ec2 A ''describe_instance_status'' [(''InstanceIds'', JArr [JStr instance_id])])
       (\<lambda>v. lift_result (ec2_health instance_id v)))"

definition aw_terminate_instance :: "'s aws_api \<Rightarrow> string \<Rightarrow> ('s client, bool) exec" where
  "aw_terminate_instance A instance_id = attempt ''_ec2_client'' False (\<lambda>_. False)
     (seq (aw_ec2 A ''terminate_instances'' [(''InstanceIds'', JArr [JStr instance_id])]) (\<lambda>_. ret True))"

subsection \<open>Azure Backup\<close>

record 's azure_api =
  az_available :: bool
  az_credential :: "('s, unit) exec"
  az_client :: "string \<Rightarrow> ('s, unit) exec"
  az_items :: "dict \<Rightarrow> ('s, json) exec"
  az_points :: "dict \<Rightarrow> ('s, json) exec"
  az_restore_request :: "dict \<Rightarrow> ('s, json) exec"
  az_begin_trigger :: "dict \<Rightarrow> ('s, json) exec"
  az_job :: "dict \<Rightarrow> ('s, json) exec"
  az_now :: "'s \<Rightarrow> int"
  az_time :: "int \<Rightarrow> json"

record azure_protected_item =
  ai_item_id :: json
  ai_friendly_name :: json
  ai_vault_name :: string
  ai_resource_group :: string
  ai_workload_type :: string
  ai_protection_status :: json
  ai_last_backup_time :: json

record azure_recovery_point =
  ar_recovery_point_id :: json
  ar_recovery_point_time :: json
  ar_recovery_point_type :: json
  ar_item_name :: string
  ar_vault_name :: string
  ar_resource_group :: string

record azure_restore_job =
  aq_job_id :: string
  aq_operation :: string
  aq_status :: string
  aq_start_time :: int
  aq_end_time :: "int option"
  aq_restored_vm_name :: string

definition az_connect :: "string \<Rightarrow> 's azure_api \<Rightarrow> ('s client, bool) exec" where
  "az_connect subscription_id A = open_handles (az_available A)
     (seq (on_world (az_credential A)) (\<lambda>_.
      seq (set_handle ''_credential'') (\<lambda>_.
      seq (on_world (az_client A subscription_id)) (\<lambda>_. set_handle ''_backup_client''))))"

text \<open>\<open>getattr(x, k, v)\<close>\<close>

definition attr_or :: "json \<Rightarrow> string \<Rightarrow> json \<Rightarrow> json" where
  "attr_or x k v = (case attr x k of Inr y \<Rightarrow> y | Inl _ \<Rightarrow> v)"

definition parse_protected :: "string \<Rightarrow> string \<Rightarrow> json \<Rightarrow> azure_protected_item result" where
  "parse_protected vault_name resource_group i =
     and_then (attr i ''properties'') (\<lambda>props.
     and_then (attr_text i ''id'') (\<lambda>ident.
     and_then (attr_text i ''name'') (\<lambda>name.
     Inr \<lparr>ai_item_id = ident, ai_friendly_name = attr_or props ''friendly_name'' name, ai_vault_name = vault_name,
          ai_resource_group = resource_group, ai_workload_type = ''VM'',
          ai_protection_status = attr_or props ''health_status'' (JStr ''Healthy''),
          ai_last_backup_time = attr_or props ''last_backup_time'' JNull\<rparr>)))"

definition az_list_protected_vms :: "'s azure_api \<Rightarrow> string \<Rightarrow> string \<Rightarrow> ('s client, azure_protected_item list) exec" where
  "az_list_protected_vms A vault_name resource_group = attempt ''_backup_client'' [] (\<lambda>_. [])
     (seq (az_items A [(''vault_name'', JStr vault_name), (''resource_group_name'', JStr resource_group),
                       (''filter'', JStr (''backupManagementType eq '' @ [CHR 0x27] @ ''AzureIaasVM'' @ [CHR 0x27]))])
       (\<lambda>items. lift_result (parse_items (parse_protected vault_name resource_group) items)))"

definition parse_azure_point :: "json \<Rightarrow> string \<Rightarrow> string \<Rightarrow> string \<Rightarrow> json \<Rightarrow> azure_recovery_point result" where
  "parse_azure_point now vault_name resource_group protected_item_name rp =
     and_then (attr rp ''properties'') (\<lambda>props.
     and_then (attr_text rp ''name'') (\<lambda>name.
     Inr \<lparr>ar_recovery_point_id = name, ar_recovery_point_time = attr_or props ''recovery_point_time'' now,
          ar_recovery_point_type = attr_or props ''recovery_point_type'' (JStr ''Full''), ar_item_name = protected_item_name,
          ar_vault_name = vault_name, ar_resource_group = resource_group\<rparr>))"

definition az_list_recovery_points ::
  "'s azure_api \<Rightarrow> string \<Rightarrow> string \<Rightarrow> string \<Rightarrow> string \<Rightarrow> ('s client, azure_recovery_point list) exec" where
  "az_list_recovery_points A vault_name resource_group container_name protected_item_name = attempt ''_backup_client'' [] (\<lambda>_. [])
     (seq (az_points A [(''vault_name'', JStr vault_name), (''resource_group_name'', JStr resource_group), (''fabric_name'', JStr ''Azure''),
                        (''container_name'', JStr container_name), (''protected_item_name'', JStr protected_item_name)]) (\<lambda>rps.
      seq (gets (az_now A)) (\<lambda>now.
      lift_result (parse_items (parse_azure_point (az_time A now) vault_name resource_group protected_item_name) rps))))"

text \<open>The arguments of \<open>restore_vm\<close> that say where the copy goes.\<close>

record azure_target =
  at_resource_group :: string
  at_vm_name :: string
  at_vnet_id :: string
  at_subnet_name :: string

definition az_restore_vm ::
  "'s azure_api \<Rightarrow> string \<Rightarrow> string \<Rightarrow> string \<Rightarrow> string \<Rightarrow> string \<Rightarrow> string \<Rightarrow> azure_target
     \<Rightarrow> ('s client, azure_restore_job option) exec" where
  "az_restore_vm A subscription_id vault_name resource_group container_name protected_item_name recovery_point_id target =
     attempt ''_backup_client'' None (\<lambda>_. None)
     (seq (az_restore_request A
        [(''recovery_point_id'', JStr recovery_point_id), (''recovery_type'', JStr ''AlternateLocation''),
         (''target_resource_group_id'', JStr (''/subscriptions/'' @ subscription_id @ ''/resourceGroups/'' @ at_resource_group target)),
         (''storage_account_id'', JNull), (''target_virtual_machine_id'', JNull),
         (''target_virtual_network_id'', JStr (at_vnet_id target)),
         (''subnet_id'', JStr (at_vnet_id target @ ''/subnets/'' @ at_subnet_name target)),
         (''target_domain_name_id'', JNull), (''region'', JNull), (''create_new_cloud_service'', JBool True),
         (''original_storage_account_option'', JBool False), (''restore_disk_lun_list'', JNull)]) (\<lambda>request.
      seq (az_begin_trigger A
        [(''vault_name'', JStr vault_name), (''resource_group_name'', JStr resource_group), (''fabric_name'', JStr ''Azure''),
         (''container_name'', JStr container_name), (''protected_item_name'', JStr protected_item_name),
         (''recovery_point_id'', JStr recovery_point_id), (''parameters'', request)]) (\<lambda>poller.
      seq (gets (az_now A)) (\<lambda>now.
      ret (Some \<lparr>aq_job_id = py_str poller, aq_operation = ''Restore'', aq_status = ''InProgress'', aq_start_time = now,
                 aq_end_time = None, aq_restored_vm_name = at_vm_name target\<rparr>)))))"

definition az_get_job_status :: "'s azure_api \<Rightarrow> string \<Rightarrow> string \<Rightarrow> string \<Rightarrow> ('s client, dict) exec" where
  "az_get_job_status A vault_name resource_group job_id = attempt ''_backup_client'' [(''status'', JStr ''Unknown'')]
     (\<lambda>exc. [(''status'', JStr ''Unknown''), (''error'', JStr (exn_text exc))])
     (seq (az_job A [(''vault_name'', JStr vault_name), (''resource_group_name'', JStr resource_group), (''job_name'', JStr job_id)]) (\<lambda>job.
      lift_result (and_then (attr job ''properties'') (\<lambda>props.
        Inr [(''status'', attr_or props ''status'' (JStr ''Unknown'')), (''operation'', attr_or props ''operation'' (JStr [])),
             (''start_time'', attr_or props ''start_time'' JNull), (''end_time'', attr_or props ''end_time'' JNull),
             (''error_details'', attr_or props ''error_details'' JNull)]))))"

subsection \<open>Google Compute Engine\<close>

text \<open>
  \<open>gc_call\<close> is a method of one of the service clients with its keyword arguments. \<open>connect\<close> keeps
  the credentials and two of the clients; the others are made where they are used. The objects given
  to a call are the dictionaries of the fields the code sets.
\<close>

record gcp_settings =
  gcp_project_id :: string
  gcp_zone :: string
  gcp_service_account_json :: string
  gcp_target_network :: string
  gcp_target_subnetwork :: string

record 's gcp_api =
  gc_installed :: bool
  gc_credentials :: "string \<Rightarrow> ('s, unit) exec"
  gc_client :: "string \<Rightarrow> ('s, unit) exec"
  gc_call :: "string \<Rightarrow> string \<Rightarrow> dict \<Rightarrow> ('s, json) exec"

record gcp_instance =
  gi_id :: string
  gi_name :: json
  gi_zone :: string
  gi_status :: json
  gi_machine_type :: json
  gi_network_interfaces :: "json list"
  gi_labels :: dict

record gcp_snapshot =
  gs_id :: string
  gs_name :: json
  gs_source_disk :: json
  gs_zone :: string
  gs_status :: json
  gs_creation_timestamp :: json
  gs_disk_size_gb :: int

record gcp_restore_job =
  gj_operation_id :: json
  gj_status :: json
  gj_zone :: string
  gj_target_instance :: string
  gj_started_at :: string

text \<open>\<open>gc_credentials\<close> reads the service account file, or the default credentials for an empty name.\<close>

definition gc_connect :: "gcp_settings \<Rightarrow> 's gcp_api \<Rightarrow> ('s client, bool) exec" where
  "gc_connect cfg A = open_handles (gc_installed A)
     (seq (on_world (gc_credentials A (gcp_service_account_json cfg))) (\<lambda>_.
      seq (set_handle ''_credentials'') (\<lambda>_.
      seq (on_world (gc_client A ''InstancesClient'')) (\<lambda>_.
      seq (set_handle ''_instances_client'') (\<lambda>_.
      seq (on_world (gc_client A ''SnapshotsClient'')) (\<lambda>_. set_handle ''_snapshots_client''))))))"

definition in_zone :: "gcp_settings \<Rightarrow> dict \<Rightarrow> dict" where
  "in_zone cfg args = [(''project'', JStr (gcp_project_id cfg)), (''zone'', JStr (gcp_zone cfg))] @ args"

text \<open>
  \<open>s.rsplit("/", 1)[-1]\<close> where \<open>"/" in s\<close>, else \<open>s\<close>; the fields it is used on are documented as
  texts.
\<close>

definition short_name :: "json \<Rightarrow> json result" where
  "short_name v = (case v of
     JStr s \<Rightarrow> Inr (JStr (last (split_on CHR ''/'' s)))
   | _ \<Rightarrow> Inl (TypeError ''argument is not iterable''))"

text \<open>\<open>s.split("/zones/")[1].split("/")[0]\<close>, the empty text where \<open>"/zones/"\<close> does not occur\<close>

fun after_first :: "string \<Rightarrow> string \<Rightarrow> string" where
  "after_first p [] = []"
| "after_first p (x # xs) = (if startswith (x # xs) p then drop (length p) (x # xs) else after_first p xs)"

definition zone_of :: "json \<Rightarrow> string" where
  "zone_of v = (case v of
     JStr s \<Rightarrow> if contains s ''/zones/'' then takeWhile (\<lambda>c. c \<noteq> CHR ''/'') (after_first ''/zones/'' s) else []
   | _ \<Rightarrow> [])"

definition networks_of :: "json \<Rightarrow> json list result" where
  "networks_of inst = and_then (attr inst ''network_interfaces'') (\<lambda>x.
     and_then (iterate (if truthy x then x else JArr [])) (map_result (\<lambda>ni. attr ni ''network'')))"

definition labels_of :: "json \<Rightarrow> dict result" where
  "labels_of inst = and_then (attr inst ''labels'') (\<lambda>x. if truthy x then Json.as_dict x else Inr [])"

definition parse_gcp_instance :: "string \<Rightarrow> json \<Rightarrow> gcp_instance result" where
  "parse_gcp_instance zone inst =
     and_then (networks_of inst) (\<lambda>nis.
     and_then (attr_text inst ''machine_type'') (\<lambda>mt.
     and_then (short_name mt) (\<lambda>machine_type.
     and_then (attr_str inst ''id'') (\<lambda>ident.
     and_then (attr_text inst ''name'') (\<lambda>name.
     and_then (attr_text inst ''status'') (\<lambda>status.
     and_then (labels_of inst) (\<lambda>labels.
     Inr \<lparr>gi_id = ident, gi_name = name, gi_zone = zone, gi_status = status, gi_machine_type = machine_type,
          gi_network_interfaces = nis, gi_labels = labels\<rparr>)))))))"

definition gc_list_instances :: "gcp_settings \<Rightarrow> 's gcp_api \<Rightarrow> ('s client, gcp_instance list) exec" where
  "gc_list_instances cfg A = attempt_or ''_instances_client'' (\<lambda>_. [])
     (seq (gc_call A ''InstancesClient'' ''list'' (in_zone cfg []))
       (\<lambda>v. lift_result (parse_items (parse_gcp_instance (gcp_zone cfg)) v)))"

definition parse_gcp_snapshot :: "json \<Rightarrow> gcp_snapshot result" where
  "parse_gcp_snapshot snap =
     and_then (attr_text snap ''source_disk'') (\<lambda>source.
     and_then (short_name source) (\<lambda>source_disk.
     and_then (attr_str snap ''id'') (\<lambda>ident.
     and_then (attr_text snap ''name'') (\<lambda>name.
     and_then (attr_text snap ''status'') (\<lambda>status.
     and_then (attr_text snap ''creation_timestamp'') (\<lambda>created.
     and_then (attr_int snap ''disk_size_gb'') (\<lambda>disk_size.
     Inr \<lparr>gs_id = ident, gs_name = name, gs_source_disk = source_disk, gs_zone = zone_of source, gs_status = status,
          gs_creation_timestamp = created, gs_disk_size_gb = disk_size\<rparr>)))))))"

definition gc_list_snapshots :: "gcp_settings \<Rightarrow> 's gcp_api \<Rightarrow> string \<Rightarrow> ('s client, gcp_snapshot list) exec" where
  "gc_list_snapshots cfg A filter_label = attempt_or ''_snapshots_client'' (\<lambda>_. [])
     (seq (gc_call A ''SnapshotsClient'' ''list''
        ([(''project'', JStr (gcp_project_id cfg))] @ (if filter_label \<noteq> [] then [(''filter'', JStr filter_label)] else [])))
       (\<lambda>v. lift_result (parse_items parse_gcp_snapshot v)))"

text \<open>The instance is an argument of \<open>create_snapshot\<close> that it does not use.\<close>

definition gc_create_snapshot :: "gcp_settings \<Rightarrow> 's gcp_api \<Rightarrow> string \<Rightarrow> string \<Rightarrow> string \<Rightarrow> ('s client, json) exec" where
  "gc_create_snapshot cfg A instance_name disk_name snapshot_name = attempt_or ''_instances_client'' (\<lambda>_. JStr [])
     (seq (gc_client A ''DisksClient'') (\<lambda>_.
      seq (gc_call A ''DisksClient'' ''create_snapshot''
        (in_zone cfg [(''disk'', JStr disk_name), (''snapshot_resource'', JObj [(''name'', JStr snapshot_name)])]))
       (\<lambda>operation. lift_result (attr_text operation ''name''))))"

definition gcp_network :: "gcp_settings \<Rightarrow> dict" where
  "gcp_network cfg =
     (if gcp_target_network cfg \<noteq> [] then [(''network'', JStr (gcp_target_network cfg))] else []) @
     (if gcp_target_subnetwork cfg \<noteq> [] then [(''subnetwork'', JStr (gcp_target_subnetwork cfg))] else [])"

definition gcp_instance_request :: "gcp_settings \<Rightarrow> string \<Rightarrow> string \<Rightarrow> string \<Rightarrow> dict" where
  "gcp_instance_request cfg snapshot_name new_instance_name machine_type =
     [(''name'', JStr new_instance_name),
      (''machine_type'', JStr (''zones/'' @ gcp_zone cfg @ ''/machineTypes/'' @ machine_type)),
      (''disks'', JArr [JObj [(''auto_delete'', JBool True), (''boot'', JBool True),
         (''initialize_params'', JObj [(''source_snapshot'',
            JStr (''projects/'' @ gcp_project_id cfg @ ''/global/snapshots/'' @ snapshot_name))])]]),
      (''network_interfaces'', JArr [JObj (gcp_network cfg)])]"

definition started_at :: "json \<Rightarrow> string" where
  "started_at operation = (case attr operation ''insert_time'' of Inr t \<Rightarrow> py_str t | Inl _ \<Rightarrow> [])"

definition gc_restore_instance_from_snapshot ::
  "gcp_settings \<Rightarrow> 's gcp_api \<Rightarrow> string \<Rightarrow> string \<Rightarrow> string \<Rightarrow> ('s client, gcp_restore_job) exec" where
  "gc_restore_instance_from_snapshot cfg A snapshot_name new_instance_name machine_type =
     attempt_or ''_instances_client''
       (\<lambda>_. \<lparr>gj_operation_id = JStr [], gj_status = JStr ''error'', gj_zone = [], gj_target_instance = [], gj_started_at = []\<rparr>)
     (seq (gc_call A ''InstancesClient'' ''insert''
        (in_zone cfg [(''instance_resource'', JObj (gcp_instance_request cfg snapshot_name new_instance_name machine_type))])) (\<lambda>operation.
      lift_result (and_then (attr_text operation ''name'') (\<lambda>ident.
        and_then (attr_text operation ''status'') (\<lambda>status.
        Inr \<lparr>gj_operation_id = ident, gj_status = status, gj_zone = gcp_zone cfg, gj_target_instance = new_instance_name,
             gj_started_at = started_at operation\<rparr>)))))"

definition gc_get_operation_status :: "gcp_settings \<Rightarrow> 's gcp_api \<Rightarrow> string \<Rightarrow> ('s client, json) exec" where
  "gc_get_operation_status cfg A operation_name = attempt_or ''_instances_client'' (\<lambda>_. JStr [])
     (seq (gc_client A ''ZoneOperationsClient'') (\<lambda>_.
      seq (gc_call A ''ZoneOperationsClient'' ''get'' (in_zone cfg [(''operation'', JStr operation_name)]))
       (\<lambda>op. lift_result (attr_text op ''status''))))"

definition gc_check_instance_health :: "gcp_settings \<Rightarrow> 's gcp_api \<Rightarrow> string \<Rightarrow> ('s client, dict) exec" where
  "gc_check_instance_health cfg A instance_name = attempt_or ''_instances_client'' (\<lambda>_. [])
     (seq (gc_call A ''InstancesClient'' ''get'' (in_zone cfg [(''instance'', JStr instance_name)])) (\<lambda>inst.
      lift_result (and_then (attr_text inst ''status'') (\<lambda>status. and_then (attr_text inst ''name'') (\<lambda>name.
        Inr [(''status'', status), (''name'', name), (''zone'', JStr (gcp_zone cfg))])))))"

definition gc_delete_instance :: "gcp_settings \<Rightarrow> 's gcp_api \<Rightarrow> string \<Rightarrow> ('s client, bool) exec" where
  "gc_delete_instance cfg A instance_name = attempt_or ''_instances_client'' (\<lambda>_. False)
     (seq (gc_call A ''InstancesClient'' ''delete'' (in_zone cfg [(''instance'', JStr instance_name)])) (\<lambda>_. ret True))"

end
