(* ===== verification/Compliance.thy ===== *)
theory Compliance
  imports Api PyFloat
begin

text \<open>
  The compliance framework builder: the evaluation of \<open>services/compliance_framework.py\<close> and the
  routes of \<open>routers/compliance_frameworks.py\<close> over the tables of
  \<open>models/compliance_framework.py\<close>. Strings are the bytes of their UTF-8 encoding; a metric is a
  finite float.
\<close>

subsection \<open>Controls and the built-in catalogue\<close>

record control =
  cc_control_id :: string
  cc_title :: string
  cc_category :: "string option"
  cc_evidence_types :: "string list"
  cc_metric :: "string option"
  cc_threshold :: "int option"
  cc_weight :: "int option"

definition builtin_control :: "string \<Rightarrow> string \<Rightarrow> string \<Rightarrow> string \<Rightarrow> int \<Rightarrow> string list \<Rightarrow> control" where
  "builtin_control cid title category metric threshold evidence =
     \<lparr>cc_control_id = cid, cc_title = title, cc_category = Some category, cc_evidence_types = evidence,
      cc_metric = Some metric, cc_threshold = Some threshold, cc_weight = None\<rparr>"

record builtin_framework =
  bf_short_code :: string
  bf_name :: string
  bf_version :: string
  bf_description :: string
  bf_controls :: "control list"

definition BUILTIN_FRAMEWORKS :: "builtin_framework list" where
  "BUILTIN_FRAMEWORKS =
     [\<lparr>bf_short_code = ''SOC2'', bf_name = ''SOC 2 Type II'', bf_version = ''2017'',
       bf_description = ''AICPA Service Organization Control 2 Type II - Trust Services Criteria'',
       bf_controls =
         [builtin_control ''CC7.5'' ''Recovery Testing'' ''Availability'' ''pass_rate'' 95 [''test_run_pass'', ''health_check''],
          builtin_control ''CC9.1'' ''Risk Mitigation - Recovery'' ''Risk Management'' ''coverage_pct'' 100 [''evidence_bundle''],
          builtin_control ''A1.3'' ''Availability Recovery'' ''Availability'' ''rto_compliance'' 90 [''rto_measurement'']]\<rparr>,
      \<lparr>bf_short_code = ''ISO27001'', bf_name = ''ISO/IEC 27001:2022'', bf_version = ''2022'',
       bf_description = ''Information security management systems - Requirements and controls'',
       bf_controls =
         [builtin_control ''A.8.13'' ''Information Backup'' ''Technology Controls'' ''coverage_pct'' 100 [''evidence_bundle''],
          builtin_control ''A.8.14'' ''Redundancy of Information Processing Facilities'' ''Technology Controls'' ''pass_rate'' 90 [''test_run_pass''],
          builtin_control ''A.5.29'' ''Information Security During Disruption'' ''Organizational Controls'' ''rto_compliance'' 85 [''rto_measurement'', ''health_check''],
          builtin_control ''A.5.30'' ''ICT Readiness for Business Continuity'' ''Organizational Controls'' ''pass_rate'' 95 [''test_run_pass'', ''audit_chain'']]\<rparr>,
      \<lparr>bf_short_code = ''NIST-CSF'', bf_name = ''NIST Cybersecurity Framework 2.0'', bf_version = ''2.0'',
       bf_description = ''NIST CSF 2.0 - Recover function controls for recovery planning and improvements'',
       bf_controls =
         [builtin_control ''RC.RP-01'' ''Recovery Plan Execution'' ''Recover'' ''pass_rate'' 90 [''test_run_pass''],
          builtin_control ''RC.RP-02'' ''Recovery Actions Documented'' ''Recover'' ''coverage_pct'' 80 [''evidence_bundle''],
          builtin_control ''RC.RP-05'' ''Backup Integrity Verification'' ''Recover'' ''rto_compliance'' 85 [''rto_measurement'', ''health_check'']]\<rparr>,
      \<lparr>bf_short_code = ''DORA'', bf_name = ''EU Digital Operational Resilience Act'', bf_version = ''2025'',
       bf_description = ''DORA Article 11 - ICT Business Continuity Policy and Testing requirements for EU financial entities'',
       bf_controls =
         [builtin_control ''Art.11(b)'' ''ICT Continuity Plans - Backup Testing'' ''ICT Business Continuity'' ''pass_rate'' 95 [''test_run_pass'', ''evidence_bundle''],
          builtin_control ''Art.11(f)'' ''Recovery Testing - Periodic Execution'' ''ICT Business Continuity'' ''coverage_pct'' 100 [''test_run_pass''],
          builtin_control ''Art.12(1)'' ''ICT-Related Incident Response - RTO'' ''ICT Incident Management'' ''rto_compliance'' 95 [''rto_measurement''],
          builtin_control ''Art.25(1)'' ''TLPT - Advanced Testing Evidence'' ''Digital Operational Resilience Testing'' ''pass_rate'' 100 [''test_run_pass'', ''health_check'', ''audit_chain'']]\<rparr>,
      \<lparr>bf_short_code = ''PCI-DSS'', bf_name = ''PCI DSS 4.0'', bf_version = ''4.0'',
       bf_description = ''Payment Card Industry Data Security Standard v4.0 - Requirements for backup and recovery testing'',
       bf_controls =
         [builtin_control ''Req 12.3.4'' ''Hardware and Software Technologies Reviewed'' ''Security Policy'' ''coverage_pct'' 100 [''evidence_bundle''],
          builtin_control ''Req 12.10.1'' ''Incident Response Plan - Recovery Testing'' ''Incident Response'' ''pass_rate'' 90 [''test_run_pass'']]\<rparr>,
      \<lparr>bf_short_code = ''HIPAA'', bf_name = ''HIPAA Security Rule'', bf_version = ''2024'',
       bf_description = ''HIPAA Security Rule - Administrative safeguards for contingency planning and disaster recovery'',
       bf_controls =
         [builtin_control ([CHR 0xC2, CHR 0xA7] @ ''164.308(a)(7)(i)'') ''Contingency Plan - Data Backup'' ''Administrative Safeguards'' ''coverage_pct'' 100 [''evidence_bundle''],
          builtin_control ([CHR 0xC2, CHR 0xA7] @ ''164.308(a)(7)(ii)(B)'') ''Disaster Recovery Plan - Testing'' ''Administrative Safeguards'' ''pass_rate'' 90 [''test_run_pass'', ''health_check''],
          builtin_control ([CHR 0xC2, CHR 0xA7] @ ''164.308(a)(7)(ii)(D)'') ''Testing and Revision Procedures'' ''Administrative Safeguards'' ''rto_compliance'' 85 [''rto_measurement'']]\<rparr>]"

definition R3VP_METRICS :: "string list" where
  "R3VP_METRICS = [''pass_rate'', ''rto_compliance'', ''coverage_pct'']"

definition R3VP_EVIDENCE_TYPES :: "string list" where
  "R3VP_EVIDENCE_TYPES = [''test_run_pass'', ''rto_measurement'', ''health_check'', ''audit_chain'', ''evidence_bundle'']"

subsection \<open>The evaluation\<close>

record metrics =
  mt_pass_rate :: rat
  mt_rto_compliance :: rat
  mt_coverage_pct :: rat

definition metric_value :: "metrics \<Rightarrow> string option \<Rightarrow> rat" where
  "metric_value m metric_name =
     (let k = str_or metric_name [] in
      if k = ''pass_rate'' then mt_pass_rate m else if k = ''rto_compliance'' then mt_rto_compliance m
      else if k = ''coverage_pct'' then mt_coverage_pct m else 0)"

definition threshold_of :: "control \<Rightarrow> int" where
  "threshold_of c = int_or (cc_threshold c) 0"

definition weight_of :: "control \<Rightarrow> int" where
  "weight_of c = (case cc_weight c of None \<Rightarrow> 1 | Some w \<Rightarrow> if w = 0 then 1 else w)"

definition passing :: "metrics \<Rightarrow> control \<Rightarrow> bool" where
  "passing m c \<longleftrightarrow> of_int (threshold_of c) \<le> metric_value m (cc_metric c)"

record control_result =
  cx_status :: string
  cx_metric :: "string option"
  cx_actual :: rat
  cx_threshold :: int
  cx_weight :: int

definition control_result_of :: "metrics \<Rightarrow> control \<Rightarrow> control_result" where
  "control_result_of m c =
     \<lparr>cx_status = (if passing m c then ''pass'' else ''fail''), cx_metric = cc_metric c,
      cx_actual = round_dec 1 (metric_value m (cc_metric c)), cx_threshold = threshold_of c, cx_weight = weight_of c\<rparr>"

text \<open>\<open>results[key] = value\<close> on a dict: a repeated key keeps its first place.\<close>

fun assoc_set :: "string \<Rightarrow> 'v \<Rightarrow> (string \<times> 'v) list \<Rightarrow> (string \<times> 'v) list" where
  "assoc_set k v [] = [(k, v)]"
| "assoc_set k v ((k', v') # xs) = (if k' = k then (k, v) # xs else (k', v') # assoc_set k v xs)"

record tally =
  ta_results :: "(string \<times> control_result) list"
  ta_total_weight :: int
  ta_weighted_pass :: rat

definition tally_control :: "metrics \<Rightarrow> control \<Rightarrow> tally \<Rightarrow> tally" where
  "tally_control m c t =
     \<lparr>ta_results = assoc_set (cc_control_id c) (control_result_of m c) (ta_results t),
      ta_total_weight = ta_total_weight t + weight_of c,
      ta_weighted_pass = (if passing m c then fadd (ta_weighted_pass t) (fl (of_int (weight_of c))) else ta_weighted_pass t)\<rparr>"

definition tally_controls :: "metrics \<Rightarrow> control list \<Rightarrow> tally" where
  "tally_controls m cs =
     fold (tally_control m) cs \<lparr>ta_results = [], ta_total_weight = 0, ta_weighted_pass = 0\<rparr>"

record evaluation =
  ev_overall_score :: int
  ev_controls_assessed :: nat
  ev_controls_passing :: nat
  ev_control_results :: "(string \<times> control_result) list"

definition evaluate_framework :: "control list \<Rightarrow> metrics \<Rightarrow> evaluation" where
  "evaluate_framework framework_controls m =
     (let t = tally_controls m framework_controls in
      \<lparr>ev_overall_score =
         (if ta_total_weight t \<noteq> 0
          then py_round (fmul (fdiv (ta_weighted_pass t) (fl (of_int (ta_total_weight t)))) 100) else 0),
       ev_controls_assessed = length framework_controls,
       ev_controls_passing = count_if (\<lambda>r. cx_status (snd r) = ''pass'') (ta_results t),
       ev_control_results = ta_results t\<rparr>)"

subsection \<open>The tables and the routes\<close>

record framework_row =
  fw_id :: uuid
  fw_org_id :: uuid
  fw_name :: string
  fw_short_code :: string
  fw_version :: "string option"
  fw_description :: "string option"
  fw_is_builtin :: bool
  fw_enabled :: bool
  fw_created_at :: micros
  fw_created_by :: "uuid option"

record control_row =
  cl_id :: uuid
  cl_framework_id :: uuid
  cl_control :: control
  cl_description :: "string option"
  cl_created_at :: micros

record assessment_row =
  am_id :: uuid
  am_framework_id :: uuid
  am_org_id :: uuid
  am_period_start :: string
  am_period_end :: string
  am_overall_score :: int
  am_controls_assessed :: nat
  am_controls_passing :: nat
  am_control_results :: "(string \<times> control_result) list"

record compliance_tables =
  ct_frameworks :: "framework_row list"
  ct_controls :: "control_row list"
  ct_assessments :: "assessment_row list"

record framework_request =
  fq_name :: string
  fq_short_code :: string
  fq_version :: "string option"
  fq_description :: "string option"

record control_request =
  kq_control_id :: string
  kq_title :: string
  kq_description :: "string option"
  kq_category :: "string option"
  kq_evidence_types :: "string list"
  kq_metric :: "string option"
  kq_threshold :: "int option"
  kq_weight :: int

record assessment_request =
  aq_framework_id :: uuid
  aq_period_start :: string
  aq_period_end :: string
  aq_metrics :: metrics

record catalog_entry =
  ce_short_code :: string
  ce_name :: string
  ce_version :: string
  ce_description :: string
  ce_control_count :: nat

definition list_builtin_frameworks :: "catalog_entry list" where
  "list_builtin_frameworks = map (\<lambda>f. \<lparr>ce_short_code = bf_short_code f, ce_name = bf_name f,
     ce_version = bf_version f, ce_description = bf_description f, ce_control_count = length (bf_controls f)\<rparr>) BUILTIN_FRAMEWORKS"

text \<open>An entry of the framework list; the built-in ones have their short code as id.\<close>

record framework_entry =
  fe_id :: string
  fe_name :: string
  fe_short_code :: string
  fe_version :: "string option"
  fe_is_builtin :: bool
  fe_enabled :: bool

definition list_frameworks :: "(uuid \<Rightarrow> string) \<Rightarrow> current_user \<Rightarrow> (compliance_tables, framework_entry list) exec" where
  "list_frameworks uuid_str user =
     seq (lift_result (require_permission (permissions user) ''reports:read'')) (\<lambda>_.
     gets (\<lambda>s.
       map (\<lambda>f. \<lparr>fe_id = bf_short_code f, fe_name = bf_name f, fe_short_code = bf_short_code f,
                  fe_version = Some (bf_version f), fe_is_builtin = True, fe_enabled = True\<rparr>) BUILTIN_FRAMEWORKS @
       map (\<lambda>f. \<lparr>fe_id = uuid_str (fw_id f), fe_name = fw_name f, fe_short_code = fw_short_code f,
                  fe_version = fw_version f, fe_is_builtin = False, fe_enabled = fw_enabled f\<rparr>)
         (newest_rows fw_created_at (filter (\<lambda>f. fw_org_id f = user_org_id user) (ct_frameworks s)))))"

definition create_framework ::
    "framework_request \<Rightarrow> current_user \<Rightarrow> uuid \<Rightarrow> micros \<Rightarrow> (compliance_tables, uuid) exec" where
  "create_framework body user new_id now =
     seq (lift_result (require_permission (permissions user) ''reports:generate'')) (\<lambda>_.
     seq (update (\<lambda>s. s\<lparr>ct_frameworks := ct_frameworks s @
        [\<lparr>fw_id = new_id, fw_org_id = user_org_id user, fw_name = fq_name body,
          fw_short_code = upper (fq_short_code body), fw_version = fq_version body,
          fw_description = fq_description body, fw_is_builtin = False, fw_enabled = True,
          fw_created_at = now, fw_created_by = user_id_attr user\<rparr>]\<rparr>)) (\<lambda>_.
     ret new_id))"

definition builtin_of :: "string \<Rightarrow> builtin_framework option" where
  "builtin_of code = List.find (\<lambda>f. bf_short_code f = code) BUILTIN_FRAMEWORKS"

definition controls_of :: "uuid \<Rightarrow> compliance_tables \<Rightarrow> control_row list" where
  "controls_of fid s = filter (\<lambda>c. cl_framework_id c = fid) (ct_controls s)"

definition list_controls :: "string \<Rightarrow> current_user \<Rightarrow> (compliance_tables, control list) exec" where
  "list_controls framework_id user =
     seq (lift_result (require_permission (permissions user) ''reports:read'')) (\<lambda>_.
     case builtin_of framework_id of
       Some f \<Rightarrow> ret (bf_controls f)
     | None \<Rightarrow>
         (case uuid_of_str framework_id of
            None \<Rightarrow> raise (HTTPException 404 ''Framework not found'')
          | Some fid \<Rightarrow> gets (\<lambda>s. map cl_control (sort_key cl_created_at (controls_of fid s)))))"

definition check_control :: "control_request \<Rightarrow> unit result" where
  "check_control body =
     (let invalid = filter (\<lambda>e. e \<notin> set R3VP_EVIDENCE_TYPES) (kq_evidence_types body) in
      if invalid \<noteq> []
      then Inl (HTTPException 400 (''Unknown evidence types: '' @ py_repr (JArr (map JStr invalid)) @ ''. Valid: ''
             @ py_repr (JArr (map JStr R3VP_EVIDENCE_TYPES))))
      else if str_or (kq_metric body) [] \<noteq> [] \<and> the (kq_metric body) \<notin> set R3VP_METRICS
      then Inl (HTTPException 400 (''Unknown metric: '' @ the (kq_metric body) @ ''. Valid: ''
             @ py_repr (JArr (map JStr R3VP_METRICS))))
      else Inr ())"

definition control_of_request :: "control_request \<Rightarrow> control" where
  "control_of_request body =
     \<lparr>cc_control_id = kq_control_id body, cc_title = kq_title body, cc_category = kq_category body,
      cc_evidence_types = kq_evidence_types body, cc_metric = kq_metric body, cc_threshold = kq_threshold body,
      cc_weight = Some (kq_weight body)\<rparr>"

text \<open>The foreign key of the control's framework is the database's check.\<close>

definition framework_exists :: "uuid \<Rightarrow> (compliance_tables, unit) exec" where
  "framework_exists fid =
     seq (gets (\<lambda>s. list_ex (\<lambda>f. fw_id f = fid) (ct_frameworks s))) (\<lambda>found.
     if found then ret ()
     else raise (ExternalError ''IntegrityError: FOREIGN KEY constraint failed: framework_id''))"

definition add_control ::
    "uuid \<Rightarrow> control_request \<Rightarrow> current_user \<Rightarrow> uuid \<Rightarrow> micros \<Rightarrow> (compliance_tables, uuid) exec" where
  "add_control framework_id body user new_id now =
     seq (lift_result (require_permission (permissions user) ''reports:generate'')) (\<lambda>_.
     seq (lift_result (check_control body)) (\<lambda>_.
     seq (framework_exists framework_id) (\<lambda>_.
     seq (update (\<lambda>s. s\<lparr>ct_controls := ct_controls s @
        [\<lparr>cl_id = new_id, cl_framework_id = framework_id, cl_control = control_of_request body,
          cl_description = kq_description body, cl_created_at = now\<rparr>]\<rparr>)) (\<lambda>_.
     ret new_id))))"

definition assessment_of :: "assessment_request \<Rightarrow> current_user \<Rightarrow> uuid \<Rightarrow> evaluation \<Rightarrow> assessment_row" where
  "assessment_of body user new_id r =
     \<lparr>am_id = new_id, am_framework_id = aq_framework_id body, am_org_id = user_org_id user,
      am_period_start = aq_period_start body, am_period_end = aq_period_end body,
      am_overall_score = ev_overall_score r, am_controls_assessed = ev_controls_assessed r,
      am_controls_passing = ev_controls_passing r, am_control_results = ev_control_results r\<rparr>"

definition run_assessment ::
    "(uuid \<Rightarrow> string) \<Rightarrow> assessment_request \<Rightarrow> current_user \<Rightarrow> uuid \<Rightarrow> (compliance_tables, evaluation) exec" where
  "run_assessment uuid_str body user new_id =
     seq (lift_result (require_permission (permissions user) ''reports:generate'')) (\<lambda>_.
     seq (case builtin_of (uuid_str (aq_framework_id body)) of
            Some f \<Rightarrow> ret (bf_controls f)
          | None \<Rightarrow> gets (\<lambda>s. map cl_control (controls_of (aq_framework_id body) s))) (\<lambda>controls.
     if controls = [] then raise (HTTPException 400 ''Framework has no controls defined'')
     else
       let r = evaluate_framework controls (aq_metrics body) in
       seq (framework_exists (aq_framework_id body)) (\<lambda>_.
       seq (update (\<lambda>s. s\<lparr>ct_assessments := ct_assessments s @ [assessment_of body user new_id r]\<rparr>)) (\<lambda>_.
       ret r))))"

subsection \<open>What the score is\<close>

definition total_weight :: "control list \<Rightarrow> int" where
  "total_weight cs = sum_list (map weight_of cs)"

definition passed_weight :: "metrics \<Rightarrow> control list \<Rightarrow> int" where
  "passed_weight m cs = sum_list (map weight_of (filter (passing m) cs))"

text \<open>Weights that are not negative and whose sum a float holds exactly.\<close>

definition fair_weights :: "control list \<Rightarrow> bool" where
  "fair_weights cs \<longleftrightarrow> list_all (\<lambda>c. 0 \<le> weight_of c) cs \<and> total_weight cs < 2 ^ 53"

lemma weights_simps [simp]:
  "total_weight [] = 0" "total_weight (c # cs) = weight_of c + total_weight cs"
  "passed_weight m [] = 0" "passed_weight m (c # cs) = (if passing m c then weight_of c else 0) + passed_weight m cs"
  by (simp_all add: total_weight_def passed_weight_def)

lemma passed_weight_bounds: "list_all (\<lambda>c. 0 \<le> weight_of c) cs \<Longrightarrow> 0 \<le> passed_weight m cs \<and> passed_weight m cs \<le> total_weight cs"
  by (induction cs) auto

lemma weight_of_nonzero: "weight_of c \<noteq> 0"
  by (simp add: weight_of_def split: option.splits)

lemma total_weight_pos: "list_all (\<lambda>c. 0 \<le> weight_of c) cs \<Longrightarrow> cs \<noteq> [] \<Longrightarrow> 0 < total_weight cs"
proof (cases cs)
  case (Cons c ds)
  assume "list_all (\<lambda>c. 0 \<le> weight_of c) cs"
  then show ?thesis using passed_weight_bounds [of ds undefined] weight_of_nonzero [of c] Cons by simp
qed simp

lemma tally_total: "ta_total_weight (fold (tally_control m) cs t) = ta_total_weight t + total_weight cs"
  by (induction cs arbitrary: t) (simp_all add: tally_control_def)

lemma tally_passed:
  assumes "list_all (\<lambda>c. 0 \<le> weight_of c) cs" and "ta_weighted_pass t = of_int p" and "0 \<le> p" and "p + total_weight cs < 2 ^ 53"
  shows "ta_weighted_pass (fold (tally_control m) cs t) = of_int (p + passed_weight m cs)"
  using assms
proof (induction cs arbitrary: t p)
  case (Cons c cs)
  have w: "0 \<le> weight_of c" and rest: "list_all (\<lambda>c. 0 \<le> weight_of c) cs" and "0 \<le> total_weight cs"
    using Cons.prems(1) passed_weight_bounds [of cs m] by auto
  then have lt: "p + weight_of c < 2 ^ 53" using Cons.prems(4) by simp
  define q where "q = (if passing m c then p + weight_of c else p)"
  have "fadd (of_int p) (fl (of_int (weight_of c))) = of_int (p + weight_of c)"
    using fl_of_int [of "weight_of c"] fl_of_int [of "p + weight_of c"] lt w Cons.prems(3) by (simp add: fadd_def)
  then have "ta_weighted_pass (tally_control m c t) = of_int q"
    using Cons.prems(2) by (simp add: tally_control_def q_def)
  moreover have "0 \<le> q" "q + total_weight cs < 2 ^ 53" using Cons.prems(3,4) w by (auto simp: q_def)
  ultimately have "ta_weighted_pass (fold (tally_control m) cs (tally_control m c t)) = of_int (q + passed_weight m cs)"
    using Cons.IH [OF rest] by blast
  then show ?case by (simp add: q_def)
qed simp

lemma score_of_tally:
  assumes "\<bar>total_weight cs\<bar> < 2 ^ 53" and "ta_weighted_pass (tally_controls m cs) = of_int p" and "total_weight cs \<noteq> 0"
  shows "ev_overall_score (evaluate_framework cs m) = pct p (total_weight cs)"
  using assms by (simp add: evaluate_framework_def Let_def tally_controls_def tally_total pct_def fl_of_int)

lemma score_is_pct:
  assumes "fair_weights cs"
  shows "ev_overall_score (evaluate_framework cs m) = (if cs = [] then 0 else pct (passed_weight m cs) (total_weight cs))"
proof (cases "total_weight cs = 0")
  case True
  have "cs = []" using True total_weight_pos [of cs] assms by (auto simp: fair_weights_def)
  then show ?thesis by (simp add: evaluate_framework_def tally_controls_def)
next
  case False
  have w: "list_all (\<lambda>c. 0 \<le> weight_of c) cs" and t: "total_weight cs < 2 ^ 53" using assms by (simp_all add: fair_weights_def)
  have "ta_weighted_pass (tally_controls m cs) = of_int (passed_weight m cs)"
    unfolding tally_controls_def using tally_passed [OF w, of _ 0 m] t by simp
  moreover have "0 \<le> total_weight cs" using passed_weight_bounds [OF w, of m] by simp
  ultimately show ?thesis using score_of_tally [of cs m] t False by auto
qed

lemma metric_value_mono:
  "mt_pass_rate m \<le> mt_pass_rate m' \<Longrightarrow> mt_rto_compliance m \<le> mt_rto_compliance m' \<Longrightarrow>
   mt_coverage_pct m \<le> mt_coverage_pct m' \<Longrightarrow> metric_value m k \<le> metric_value m' k"
  by (simp add: metric_value_def Let_def)

lemma passed_weight_mono:
  assumes "\<And>k. metric_value m k \<le> metric_value m' k" and "list_all (\<lambda>c. 0 \<le> weight_of c) cs"
  shows "passed_weight m cs \<le> passed_weight m' cs"
  using assms(2)
proof (induction cs)
  case (Cons c cs)
  have "passing m c \<Longrightarrow> passing m' c" using assms(1) [of "cc_metric c"] by (auto simp: passing_def)
  with Cons show ?case by auto
qed simp

lemma length_assoc_set: "length (assoc_set k v xs) \<le> Suc (length xs)"
  by (induction xs) auto

lemma assoc_set_new: "k \<notin> fst ` set xs \<Longrightarrow> assoc_set k v xs = xs @ [(k, v)]"
  by (induction xs) auto

lemma tally_results_length: "length (ta_results (fold (tally_control m) cs t)) \<le> length (ta_results t) + length cs"
proof (induction cs arbitrary: t)
  case (Cons c cs)
  have "length (ta_results (tally_control m c t)) \<le> Suc (length (ta_results t))"
    by (simp add: tally_control_def length_assoc_set)
  then show ?case using Cons [of "tally_control m c t"] by simp
qed simp

lemma tally_results_distinct:
  assumes "distinct (map cc_control_id cs)" and "fst ` set (ta_results t) \<inter> cc_control_id ` set cs = {}"
  shows "ta_results (fold (tally_control m) cs t) = ta_results t @ map (\<lambda>c. (cc_control_id c, control_result_of m c)) cs"
  using assms
proof (induction cs arbitrary: t)
  case (Cons c cs)
  have r: "ta_results (tally_control m c t) = ta_results t @ [(cc_control_id c, control_result_of m c)]"
    using Cons.prems(2) by (simp add: tally_control_def assoc_set_new)
  then have "fst ` set (ta_results (tally_control m c t)) \<inter> cc_control_id ` set cs = {}"
    using Cons.prems by auto
  then show ?case using Cons.IH [of "tally_control m c t"] Cons.prems(1) r by simp
qed simp

text \<open>C24: the compliance score is the weighted percentage it is meant to be: where no weight is negative
  (and a float holds their sum) it is the rounded share of the passing weight, so it lies between 0 and
  100 and no better metric lowers it; the controls counted as passing are those that meet their
  threshold when the control ids differ, and never more than were assessed.\<close>

theorem compliance_score_sound:
  assumes "fair_weights cs" and "mt_pass_rate m \<le> mt_pass_rate m'" and "mt_rto_compliance m \<le> mt_rto_compliance m'"
    and "mt_coverage_pct m \<le> mt_coverage_pct m'"
  shows "let e = evaluate_framework cs m; e' = evaluate_framework cs m' in
     ev_overall_score e = (if cs = [] then 0 else pct (passed_weight m cs) (total_weight cs)) \<and>
     0 \<le> ev_overall_score e \<and> ev_overall_score e \<le> 100 \<and> ev_overall_score e \<le> ev_overall_score e' \<and>
     ev_controls_passing e \<le> ev_controls_assessed e \<and>
     (distinct (map cc_control_id cs) \<longrightarrow> ev_controls_passing e = count_if (passing m) cs)"
proof -
  have w: "list_all (\<lambda>c. 0 \<le> weight_of c) cs" using assms(1) by (simp add: fair_weights_def)
  note score = score_is_pct [OF assms(1)]
  have p: "0 \<le> passed_weight m cs" "passed_weight m cs \<le> total_weight cs" using passed_weight_bounds [OF w] by auto
  have mono: "passed_weight m cs \<le> passed_weight m' cs"
    by (rule passed_weight_mono [OF metric_value_mono [OF assms(2-4)] w])
  have "cs \<noteq> [] \<Longrightarrow> pct (passed_weight m cs) (total_weight cs) \<le> pct (passed_weight m' cs) (total_weight cs)"
    using mono p passed_weight_bounds [OF w, of m']
    by (cases "total_weight cs = 0") (auto intro: pct_mono)
  moreover have "ev_controls_passing (evaluate_framework cs m) \<le> length cs"
    using order_trans [OF count_if_le_length tally_results_length [of m cs "\<lparr>ta_results = [], ta_total_weight = 0, ta_weighted_pass = 0\<rparr>"]]
    by (simp add: evaluate_framework_def Let_def tally_controls_def)
  moreover have "distinct (map cc_control_id cs) \<Longrightarrow> ev_controls_passing (evaluate_framework cs m) = count_if (passing m) cs"
    by (simp add: evaluate_framework_def Let_def tally_controls_def tally_results_distinct count_if_map control_result_of_def if_distrib
        cong: if_cong)
  moreover have "ev_controls_assessed (evaluate_framework cs m) = length cs" by (simp add: evaluate_framework_def Let_def)
  ultimately show ?thesis
    using pct_bounds [OF p] by (simp add: score Let_def)
qed

lemma compliance_score_sound_witness:
  "let cs = bf_controls (hd BUILTIN_FRAMEWORKS);
       m = \<lparr>mt_pass_rate = 96, mt_rto_compliance = 80, mt_coverage_pct = 100\<rparr> in
     ev_overall_score (evaluate_framework cs m) = 67 \<and> ev_controls_passing (evaluate_framework cs m) = 2"
proof -
  let ?cs = "bf_controls (hd BUILTIN_FRAMEWORKS)"
  let ?m = "\<lparr>mt_pass_rate = 96, mt_rto_compliance = 80, mt_coverage_pct = 100\<rparr> :: metrics"
  have cs: "?cs = [builtin_control ''CC7.5'' ''Recovery Testing'' ''Availability'' ''pass_rate'' 95 [''test_run_pass'', ''health_check''],
      builtin_control ''CC9.1'' ''Risk Mitigation - Recovery'' ''Risk Management'' ''coverage_pct'' 100 [''evidence_bundle''],
      builtin_control ''A1.3'' ''Availability Recovery'' ''Availability'' ''rto_compliance'' 90 [''rto_measurement'']]"
    by (simp add: BUILTIN_FRAMEWORKS_def)
  have fair: "fair_weights ?cs" unfolding cs by (simp add: fair_weights_def builtin_control_def weight_of_def)
  have "passed_weight ?m ?cs = 2" "total_weight ?cs = 3" "count_if (passing ?m) ?cs = 2" "distinct (map cc_control_id ?cs)" "?cs \<noteq> []"
    unfolding cs by (simp_all add: builtin_control_def weight_of_def passing_def threshold_of_def int_or_def metric_value_def str_or_def)
  moreover have "pct 2 3 = 67" by code_simp
  ultimately show ?thesis
    using compliance_score_sound [OF fair, of ?m ?m] by (simp add: Let_def)
qed

subsection \<open>Controls of another organisation\<close>

text \<open>Two controls, one that always passes and one that never does, weighing \<open>k + 1\<close> and \<open>- k\<close>.\<close>

definition heavy_control :: "int \<Rightarrow> control_request" where
  "heavy_control k = \<lparr>kq_control_id = ''a'', kq_title = ''a'', kq_description = None, kq_category = None,
     kq_evidence_types = [], kq_metric = None, kq_threshold = None, kq_weight = k + 1\<rparr>"

definition negative_control :: "int \<Rightarrow> control_request" where
  "negative_control k = \<lparr>kq_control_id = ''b'', kq_title = ''b'', kq_description = None, kq_category = None,
     kq_evidence_types = [], kq_metric = None, kq_threshold = Some 1, kq_weight = - k\<rparr>"

lemma heavy_negative_score:
  assumes "0 < k" "k < 2 ^ 40"
  shows "ev_overall_score (evaluate_framework [control_of_request (heavy_control k), control_of_request (negative_control k)] m)
     = 100 * (k + 1)"
proof -
  let ?cs = "[control_of_request (heavy_control k), control_of_request (negative_control k)]"
  have total: "total_weight ?cs = 1"
    using assms by (simp add: control_of_request_def heavy_control_def negative_control_def weight_of_def)
  have small: "\<bar>k + 1\<bar> < 2 ^ 53" "\<bar>100 * (k + 1)\<bar> < 2 ^ 53" using assms by auto
  have "ta_weighted_pass (tally_controls m ?cs) = of_int (k + 1)"
    using assms fl_of_int [OF small(1)]
    by (simp add: tally_controls_def tally_control_def control_of_request_def heavy_control_def negative_control_def
        passing_def threshold_of_def int_or_def metric_value_def str_or_def weight_of_def fadd_def)
  then have "ev_overall_score (evaluate_framework ?cs m) = pct (k + 1) 1"
    using score_of_tally [of ?cs m "k + 1"] total by simp
  also have "\<dots> = py_round (fl (of_int (100 * (k + 1))))"
    using fl_of_int [OF small(1)] by (simp add: pct_def fdiv_def fmul_def algebra_simps)
  also have "\<dots> = 100 * (k + 1)"
    by (simp only: fl_of_int [OF small(2)] py_round_of_int)
  finally show ?thesis .
qed

text \<open>C25: the controls of a framework are not protected: a user of any other organisation with the permission to
  generate reports can add controls to it, of negative weight too, and so make the next assessment
  of its owner store a score of any multiple of 100 up to 2^24 times, where 0 to 100 is documented.\<close>

theorem foreign_controls_set_any_score:
  assumes "\<exists>f \<in> set (ct_frameworks s). fw_id f = fid \<and> fw_org_id f = user_org_id owner"
    and "controls_of fid s = []" and "builtin_of (uuid_str fid) = None"
    and "''reports:generate'' \<in> set (permissions owner)" and "''reports:generate'' \<in> set (permissions intruder)"
    and "user_org_id intruder \<noteq> user_org_id owner" and "0 < k" "k < 2 ^ 24"
  shows "\<exists>s1 s2 r s3.
     add_control fid (heavy_control k) intruder i1 now s = (Inr i1, s1) \<and>
     add_control fid (negative_control k) intruder i2 now s1 = (Inr i2, s2) \<and>
     run_assessment uuid_str \<lparr>aq_framework_id = fid, aq_period_start = from_day, aq_period_end = to_day, aq_metrics = m\<rparr>
       owner i3 s2 = (Inr r, s3) \<and>
     ct_assessments s3 = ct_assessments s @ [last (ct_assessments s3)] \<and>
     am_org_id (last (ct_assessments s3)) = user_org_id owner \<and>
     am_overall_score (last (ct_assessments s3)) = 100 * (k + 1)"
proof -
  have found: "list_ex (\<lambda>f. fw_id f = fid) (ct_frameworks s)" using assms(1) by (auto simp: list_ex_iff)
  have ok: "check_control (heavy_control k) = Inr ()" "check_control (negative_control k) = Inr ()"
    by (simp_all add: check_control_def heavy_control_def negative_control_def str_or_def)
  define row where "row i b = \<lparr>cl_id = i, cl_framework_id = fid, cl_control = control_of_request b,
      cl_description = kq_description b, cl_created_at = now\<rparr>" for i b
  define s1 where "s1 = s\<lparr>ct_controls := ct_controls s @ [row i1 (heavy_control k)]\<rparr>"
  define s2 where "s2 = s1\<lparr>ct_controls := ct_controls s1 @ [row i2 (negative_control k)]\<rparr>"
  have add1: "add_control fid (heavy_control k) intruder i1 now s = (Inr i1, s1)"
    using assms(5) found ok by (simp add: add_control_def framework_exists_def handler_simps s1_def row_def)
  have add2: "add_control fid (negative_control k) intruder i2 now s1 = (Inr i2, s2)"
    using assms(5) found ok by (simp add: add_control_def framework_exists_def handler_simps s1_def s2_def row_def)
  have rows: "controls_of fid s2 \<noteq> []" and own: "map cl_control (controls_of fid s2) = [control_of_request (heavy_control k), control_of_request (negative_control k)]"
    using assms(2) by (simp_all add: controls_of_def s1_def s2_def row_def)
  define body where "body = \<lparr>aq_framework_id = fid, aq_period_start = from_day, aq_period_end = to_day, aq_metrics = m\<rparr>"
  define r where "r = evaluate_framework [control_of_request (heavy_control k), control_of_request (negative_control k)] m"
  have run: "run_assessment uuid_str body owner i3 s2
      = (Inr r, s2\<lparr>ct_assessments := ct_assessments s2 @ [assessment_of body owner i3 r]\<rparr>)"
    using assms(3,4) own rows found
    by (simp add: run_assessment_def body_def framework_exists_def handler_simps r_def s1_def s2_def)
  have score: "ev_overall_score r = 100 * (k + 1)"
    unfolding r_def by (rule heavy_negative_score) (use assms(7,8) in simp_all)
  show ?thesis
    using add1 add2 run score unfolding body_def
    by (intro exI [of _ s1] exI [of _ s2] exI [of _ r] exI) (auto simp: s1_def s2_def assessment_of_def)
qed

definition demo_auditor :: "uuid \<Rightarrow> current_user" where
  "demo_auditor org = \<lparr>user_sub = [], user_org_id = org, user_email = [], user_role = ''auditor''\<rparr>"

definition demo_frameworks :: compliance_tables where
  "demo_frameworks = \<lparr>ct_frameworks = [\<lparr>fw_id = 9, fw_org_id = 1, fw_name = ''f'', fw_short_code = ''F'', fw_version = None,
     fw_description = None, fw_is_builtin = False, fw_enabled = True, fw_created_at = 0, fw_created_by = None\<rparr>],
     ct_controls = [], ct_assessments = []\<rparr>"

lemma foreign_controls_set_any_score_witness:
  "\<exists>s3 :: compliance_tables. ct_assessments s3 = [last (ct_assessments s3)] \<and> am_org_id (last (ct_assessments s3)) = 1 \<and>
     am_overall_score (last (ct_assessments s3)) = 600"
proof -
  let ?m = "\<lparr>mt_pass_rate = 0, mt_rto_compliance = 0, mt_coverage_pct = 0\<rparr> :: metrics"
  have owned: "\<exists>f \<in> set (ct_frameworks demo_frameworks). fw_id f = 9 \<and> fw_org_id f = user_org_id (demo_auditor 1)"
    "controls_of 9 demo_frameworks = []"
    by (simp_all add: demo_frameworks_def demo_auditor_def controls_of_def)
  have allowed: "builtin_of ''u'' = None" "''reports:generate'' \<in> set (permissions (demo_auditor 1))"
    "''reports:generate'' \<in> set (permissions (demo_auditor 2))" by code_simp+
  have "user_org_id (demo_auditor 2) \<noteq> user_org_id (demo_auditor 1)" "(0::int) < 5" "(5::int) < 2 ^ 24"
    by (simp_all add: demo_auditor_def)
  from foreign_controls_set_any_score [where uuid_str = "\<lambda>_. ''u''" and m = ?m and ?i1.0 = 1 and ?i2.0 = 2 and ?i3.0 = 3
      and now = 0 and from_day = "[]" and to_day = "[]", OF owned allowed this]
  obtain s3 :: compliance_tables where
    "ct_assessments s3 = ct_assessments demo_frameworks @ [last (ct_assessments s3)]"
    "am_org_id (last (ct_assessments s3)) = user_org_id (demo_auditor 1)"
    "am_overall_score (last (ct_assessments s3)) = 100 * (5 + 1)"
    apply -
    apply (erule exE)+
    apply (erule conjE)+
    by (rule that)
  then show ?thesis by (intro exI [of _ s3]) (simp add: demo_frameworks_def demo_auditor_def)
qed

end
