(* ===== verification/ContinuousValidation.thy ===== *)
theory ContinuousValidation
  imports ApplianceService VeeamRest
begin

text \<open>
  Continuous validation: the check engine \<open>services/continuous_validation.py\<close>, the routes
  \<open>routers/continuous_validation.py\<close> and the tables \<open>models/continuous_validation.py\<close>,
  which live beside the appliance channel's tables in one database. A check result is the
  dictionary the code stores. \<open>uuid_str\<close> and \<open>isoformat\<close> print identifiers and
  times.
\<close>

subsection \<open>The check engine\<close>

definition LIVE_ONLY_CHECKS :: "string list" where
  "LIVE_ONLY_CHECKS = [''mount_check'', ''veeam_job_status'', ''vcenter_connectivity'']"

definition MICRO_CHECKS :: dict where
  "MICRO_CHECKS =
    [(''restore_point_freshness'', JObj [
        (''name'', JStr ''Restore Point Freshness''),
        (''description'', JStr ''Verifies the latest restore point is within the configured RPO window''),
        (''category'', JStr ''Data Protection'')]),
     (''mount_check'', JObj [
        (''name'', JStr ''Mount Endpoint Reachability''),
        (''description'', JStr ''Tests that the recovery mount endpoint responds within 5 seconds''),
        (''category'', JStr ''Connectivity'')]),
     (''veeam_job_status'', JObj [
        (''name'', JStr ''Veeam Job Status''),
        (''description'', JStr ''Checks the last Veeam backup job completed with Success or Warning status''),
        (''category'', JStr ''Backup Health'')]),
     (''agent_heartbeat'', JObj [
        (''name'', JStr ''Appliance Heartbeat''),
        (''description'', JStr ''Confirms the R3VP appliance for this workload reported a heartbeat within the last interval''),
        (''category'', JStr ''Appliance Health'')]),
     (''vcenter_connectivity'', JObj [
        (''name'', JStr ''vCenter Connectivity''),
        (''description'', JStr ''Verifies the appliance can reach vCenter and enumerate the protected VM''),
        (''category'', JStr ''Connectivity'')]),
     (''rpo_compliance'', JObj [
        (''name'', JStr ''RPO Compliance Check''),
        (''description'', JStr ''Calculates current RPO exposure from last restore point age vs the workload RPO target''),
        (''category'', JStr ''SLA Compliance'')])]"

definition age_mins :: "timestamp option \<Rightarrow> timestamp \<Rightarrow> rat option" where
  "age_mins ts now = map_option (\<lambda>t. fdiv (total_seconds (now - t)) 60) ts"

text \<open>The three-valued outcome of comparing an age with its two limits.\<close>

definition grade :: "rat \<Rightarrow> rat \<Rightarrow> rat \<Rightarrow> string" where
  "grade age pass_limit warn_limit =
     (if age \<le> pass_limit then ''pass'' else if age \<le> warn_limit then ''warn'' else ''fail'')"

definition check_restore_point_freshness :: "timestamp option \<Rightarrow> int option \<Rightarrow> timestamp \<Rightarrow> dict" where
  "check_restore_point_freshness last_backup_at rpo_target_mins now =
     (let target = int_or rpo_target_mins 1440 in
      case age_mins last_backup_at now of
        None \<Rightarrow> [(''status'', JStr ''fail''), (''detail'', JStr ''No restore point recorded'')]
      | Some age \<Rightarrow>
          let hours = round_dec 1 (fdiv age 60);
              status = grade age (of_int target) (of_int (target * 2))
          in [(''status'', JStr status),
              (''detail'', JStr (''Latest restore point '' @ repr_float hours @ ''h old (RPO '' @ show_int target @ ''m)'')),
              (''value_hours'', JFloat hours)])"

definition check_rpo_compliance :: "timestamp option \<Rightarrow> int option \<Rightarrow> timestamp \<Rightarrow> dict" where
  "check_rpo_compliance last_backup_at rpo_target_mins now =
     (let target = int_or rpo_target_mins 1440 in
      case age_mins last_backup_at now of
        None \<Rightarrow> [(''status'', JStr ''fail''), (''detail'', JStr ''No restore point to measure RPO exposure'')]
      | Some age \<Rightarrow>
          let exposure = py_round age;
              status = grade age (of_int target) (fmul (fl (of_int target)) (3 / 2))
          in [(''status'', JStr status),
              (''detail'', JStr (''RPO exposure '' @ show_int exposure @ ''m vs target '' @ show_int target @ ''m''))])"

definition check_agent_heartbeat :: "timestamp option \<Rightarrow> int \<Rightarrow> timestamp \<Rightarrow> dict" where
  "check_agent_heartbeat last_heartbeat interval_mins now =
     (case age_mins last_heartbeat now of
        None \<Rightarrow> [(''status'', JStr ''fail''), (''detail'', JStr ''No heartbeat recorded for the appliance'')]
      | Some age \<Rightarrow>
          let mins = py_round age;
              status = grade age (of_int (interval_mins * 2)) (of_int (interval_mins * 4))
          in [(''status'', JStr status),
              (''detail'', JStr (''Last heartbeat '' @ show_int mins @ ''m ago (interval '' @ show_int interval_mins @ ''m)''))])"

type_synonym check_results = "(string \<times> dict) list"

definition run_check ::
    "string \<Rightarrow> timestamp option \<Rightarrow> int option \<Rightarrow> timestamp option \<Rightarrow> int \<Rightarrow> timestamp \<Rightarrow> dict" where
  "run_check check last_backup_at rpo_target_mins appliance_last_heartbeat interval_mins now =
     (if check = ''restore_point_freshness'' then check_restore_point_freshness last_backup_at rpo_target_mins now
      else if check = ''rpo_compliance'' then check_rpo_compliance last_backup_at rpo_target_mins now
      else if check = ''agent_heartbeat'' then check_agent_heartbeat appliance_last_heartbeat interval_mins now
      else if check \<in> set LIVE_ONLY_CHECKS
      then [(''status'', JStr ''skipped''), (''detail'', JStr ''Requires appliance telemetry'')]
      else [(''status'', JStr ''skipped''), (''detail'', JStr ''Unknown check'')])"

definition build_check_results ::
    "dict \<Rightarrow> timestamp option \<Rightarrow> int option \<Rightarrow> timestamp option \<Rightarrow> int \<Rightarrow> timestamp \<Rightarrow> check_results" where
  "build_check_results checks_enabled last_backup_at rpo_target_mins appliance_last_heartbeat interval_mins now =
     map (\<lambda>(check, on). (check,
            run_check check last_backup_at rpo_target_mins appliance_last_heartbeat interval_mins now))
       (filter (\<lambda>(check, on). truthy on) checks_enabled)"

definition check_status :: "dict \<Rightarrow> json" where
  "check_status v = dget_or v ''status'' (JStr ''skip'')"

definition evaluate_check_results :: "check_results \<Rightarrow> string" where
  "evaluate_check_results check_results =
     (let statuses = map (\<lambda>(k, v). check_status v) check_results in
      if JStr ''fail'' \<in> set statuses then ''fail''
      else if JStr ''warn'' \<in> set statuses then ''warn''
      else ''pass'')"

definition passed :: "dict \<Rightarrow> bool" where
  "passed r \<longleftrightarrow> dget r ''status'' = JStr ''pass''"

definition health_status :: "int \<Rightarrow> string" where
  "health_status pass_rate =
     (if 90 \<le> pass_rate then ''healthy'' else if 70 \<le> pass_rate then ''degraded'' else ''failing'')"

definition compute_continuous_health :: "dict list \<Rightarrow> dict" where
  "compute_continuous_health recent_runs =
     (if recent_runs = []
      then [(''status'', JStr ''no_data''), (''pass_rate'', JInt 0), (''last_check'', JNull),
            (''consecutive_failures'', JInt 0)]
      else
        let total = int (length recent_runs);
            n_passed = int (count_if passed recent_runs);
            pass_rate = pct n_passed total;
            consecutive_failures = int (length (takeWhile (\<lambda>r. \<not> passed r) (rev recent_runs)))
        in [(''status'', JStr (health_status pass_rate)), (''pass_rate'', JInt pass_rate),
            (''last_check'', dget (last recent_runs) ''ran_at''),
            (''consecutive_failures'', JInt consecutive_failures),
            (''total_runs'', JInt total), (''passed'', JInt n_passed)])"

subsection \<open>Tables\<close>

record policy_row =
  pl_id :: uuid
  pl_org_id :: uuid
  pl_name :: string
  pl_enabled :: bool
  pl_check_interval_mins :: int
  pl_workload_scope :: string
  pl_workload_ids :: "string list"
  pl_checks_enabled :: dict
  pl_alert_on_failure :: bool
  pl_consecutive_failures_before_alert :: int
  pl_created_at :: micros
  pl_created_by :: "uuid option"

record validation_run =
  mv_id :: uuid
  mv_policy_id :: uuid
  mv_org_id :: uuid
  mv_workload_id :: "uuid option"
  mv_workload_name :: "string option"
  mv_status :: string
  mv_checks_run :: nat
  mv_checks_passed :: nat
  mv_check_results :: check_results
  mv_restore_point_age_hours :: "int option"
  mv_alert_sent :: bool
  mv_ran_at :: micros
  mv_duration_ms :: "int option"

record alert_row =
  va_id :: uuid
  va_policy_id :: uuid
  va_org_id :: uuid
  va_workload_id :: "uuid option"
  va_workload_name :: "string option"
  va_alert_type :: string
  va_severity :: string
  va_detail :: string
  va_resolved :: bool
  va_resolved_at :: "micros option"
  va_created_at :: micros

record cv_db = appliance_db +
  c_policies :: "policy_row list"
  c_runs :: "validation_run list"
  c_alerts :: "alert_row list"

subsection \<open>The routes\<close>

definition MOCK_POLICIES :: "dict list" where
  "MOCK_POLICIES =
    [[(''id'', JStr ''p1''),
      (''name'', JStr ''Production Workloads''),
      (''enabled'', JBool True),
      (''check_interval_mins'', JInt 15),
      (''workload_scope'', JStr ''all''),
      (''checks_enabled'', JObj [(''restore_point_freshness'', JBool True), (''mount_check'', JBool True), (''veeam_job_status'', JBool True), (''agent_heartbeat'', JBool True)]),
      (''alert_on_failure'', JBool True),
      (''consecutive_failures_before_alert'', JInt 2)],
     [(''id'', JStr ''p2''),
      (''name'', JStr ''Critical Tier Only''),
      (''enabled'', JBool True),
      (''check_interval_mins'', JInt 5),
      (''workload_scope'', JStr ''tag:critical''),
      (''checks_enabled'', JObj [(''restore_point_freshness'', JBool True), (''mount_check'', JBool True), (''veeam_job_status'', JBool True), (''vcenter_connectivity'', JBool True), (''rpo_compliance'', JBool True)]),
      (''alert_on_failure'', JBool True),
      (''consecutive_failures_before_alert'', JInt 1)]]"

definition MOCK_RECENT_RUNS :: "dict list" where
  "MOCK_RECENT_RUNS =
    [[(''id'', JStr ''r1''),
      (''workload_name'', JStr ''db-prod-01''),
      (''status'', JStr ''pass''),
      (''checks_run'', JInt 4),
      (''checks_passed'', JInt 4),
      (''restore_point_age_hours'', JInt 1),
      (''ran_at'', JStr ''2026-06-26T14:00:00Z''),
      (''duration_ms'', JInt 312)],
     [(''id'', JStr ''r2''),
      (''workload_name'', JStr ''dc-prod-02''),
      (''status'', JStr ''pass''),
      (''checks_run'', JInt 4),
      (''checks_passed'', JInt 4),
      (''restore_point_age_hours'', JInt 2),
      (''ran_at'', JStr ''2026-06-26T14:00:00Z''),
      (''duration_ms'', JInt 289)],
     [(''id'', JStr ''r3''),
      (''workload_name'', JStr ''erp-prod-01''),
      (''status'', JStr ''warn''),
      (''checks_run'', JInt 4),
      (''checks_passed'', JInt 3),
      (''restore_point_age_hours'', JInt 6),
      (''ran_at'', JStr ''2026-06-26T14:00:00Z''),
      (''duration_ms'', JInt 445),
      (''check_results'', JObj [(''restore_point_freshness'', JObj [(''status'', JStr ''warn''), (''detail'', JStr ''Latest RP is 6 hours old, RPO target is 4 hours'')])])],
     [(''id'', JStr ''r4''),
      (''workload_name'', JStr ''files-prod-01''),
      (''status'', JStr ''fail''),
      (''checks_run'', JInt 4),
      (''checks_passed'', JInt 2),
      (''restore_point_age_hours'', JInt 18),
      (''ran_at'', JStr ''2026-06-26T14:00:00Z''),
      (''duration_ms'', JInt 580),
      (''check_results'', JObj [(''restore_point_freshness'', JObj [(''status'', JStr ''fail''), (''detail'', JStr ''Latest RP is 18 hours old'')]), (''veeam_job_status'', JObj [(''status'', JStr ''fail''), (''detail'', JStr ''Last job failed with error E0x8019'')])])]]"

definition MOCK_ALERTS :: "dict list" where
  "MOCK_ALERTS =
    [[(''id'', JStr ''a1''),
      (''workload_name'', JStr ''files-prod-01''),
      (''alert_type'', JStr ''consecutive_failures''),
      (''severity'', JStr ''high''),
      (''detail'', JStr ''3 consecutive micro-validation failures. Last Veeam job failed with E0x8019.''),
      (''resolved'', JBool False),
      (''created_at'', JStr ''2026-06-26T13:45:00Z'')],
     [(''id'', JStr ''a2''),
      (''workload_name'', JStr ''erp-prod-01''),
      (''alert_type'', JStr ''restore_point_stale''),
      (''severity'', JStr ''medium''),
      (''detail'', JStr ''Restore point age 6h exceeds RPO target of 4h.''),
      (''resolved'', JBool False),
      (''created_at'', JStr ''2026-06-26T14:00:00Z'')]]"

record create_policy_request =
  cp_name :: string
  cp_check_interval_mins :: int
  cp_workload_scope :: string
  cp_workload_ids :: "string list"
  cp_checks_enabled :: dict
  cp_alert_on_failure :: bool
  cp_consecutive_failures_before_alert :: int

definition list_available_checks :: "dict list" where
  "list_available_checks =
     map (\<lambda>(k, v). dmerge [(''id'', JStr k)] (case v of JObj d \<Rightarrow> d | _ \<Rightarrow> [])) MICRO_CHECKS"

definition policy_json :: "(uuid \<Rightarrow> string) \<Rightarrow> policy_row \<Rightarrow> dict" where
  "policy_json uuid_str p =
     [(''id'', JStr (uuid_str (pl_id p))), (''name'', JStr (pl_name p)), (''enabled'', JBool (pl_enabled p)),
      (''check_interval_mins'', JInt (pl_check_interval_mins p)),
      (''workload_scope'', JStr (pl_workload_scope p)), (''checks_enabled'', JObj (pl_checks_enabled p))]"

definition list_policies :: "(uuid \<Rightarrow> string) \<Rightarrow> current_user \<Rightarrow> (cv_db, dict list) exec" where
  "list_policies uuid_str user =
     seq (lift_result (require_permission (permissions user) ''workloads:read'')) (\<lambda>_.
     gets (\<lambda>db.
       let policies = newest_rows pl_created_at (filter (\<lambda>p. pl_org_id p = user_org_id user) (c_policies db))
       in if policies \<noteq> [] then map (policy_json uuid_str) policies else MOCK_POLICIES))"

definition create_policy ::
    "create_policy_request \<Rightarrow> current_user \<Rightarrow> uuid \<Rightarrow> micros \<Rightarrow> (cv_db, uuid \<times> string) exec" where
  "create_policy body user new_id now =
     seq (lift_result (require_permission (permissions user) ''workloads:write'')) (\<lambda>_.
     if cp_check_interval_mins body < 1
     then raise (HTTPException 400 ''check_interval_mins must be >= 1'')
     else
       let policy = \<lparr>pl_id = new_id, pl_org_id = user_org_id user, pl_name = cp_name body, pl_enabled = True,
             pl_check_interval_mins = cp_check_interval_mins body,
             pl_workload_scope = cp_workload_scope body, pl_workload_ids = cp_workload_ids body,
             pl_checks_enabled = (if cp_checks_enabled body \<noteq> [] then cp_checks_enabled body
                                  else map (\<lambda>(k, v). (k, JBool True)) MICRO_CHECKS),
             pl_alert_on_failure = cp_alert_on_failure body,
             pl_consecutive_failures_before_alert = cp_consecutive_failures_before_alert body,
             pl_created_at = now, pl_created_by = user_id_attr user\<rparr>
       in seq (update (\<lambda>db. db\<lparr>c_policies := c_policies db @ [policy]\<rparr>)) (\<lambda>_.
          ret (pl_id policy, pl_name policy)))"

definition find_policy :: "uuid \<Rightarrow> current_user \<Rightarrow> cv_db \<Rightarrow> policy_row option" where
  "find_policy policy_id user db =
     List.find (\<lambda>p. pl_id p = policy_id \<and> pl_org_id p = user_org_id user) (c_policies db)"

definition toggle_policy :: "uuid \<Rightarrow> current_user \<Rightarrow> (cv_db, uuid \<times> bool) exec" where
  "toggle_policy policy_id user =
     seq (lift_result (require_permission (permissions user) ''workloads:write'')) (\<lambda>_.
     seq (gets (find_policy policy_id user)) (\<lambda>found.
     case found of
       None \<Rightarrow> raise (HTTPException 404 ''Policy not found'')
     | Some policy \<Rightarrow>
         seq (update (\<lambda>db. db\<lparr>c_policies := update_where (\<lambda>p. p = policy)
                (\<lambda>p. p\<lparr>pl_enabled := \<not> pl_enabled p\<rparr>) (c_policies db)\<rparr>)) (\<lambda>_.
         ret (pl_id policy, \<not> pl_enabled policy))))"

definition run_json :: "(uuid \<Rightarrow> string) \<Rightarrow> (micros \<Rightarrow> string) \<Rightarrow> validation_run \<Rightarrow> dict" where
  "run_json uuid_str isoformat r =
     [(''id'', JStr (uuid_str (mv_id r))),
      (''workload_name'', case mv_workload_name r of None \<Rightarrow> JNull | Some n \<Rightarrow> JStr n),
      (''status'', JStr (mv_status r)), (''checks_run'', JInt (int (mv_checks_run r))),
      (''checks_passed'', JInt (int (mv_checks_passed r))),
      (''restore_point_age_hours'', case mv_restore_point_age_hours r of None \<Rightarrow> JNull | Some h \<Rightarrow> JInt h),
      (''ran_at'', JStr (isoformat (mv_ran_at r))),
      (''duration_ms'', case mv_duration_ms r of None \<Rightarrow> JNull | Some d \<Rightarrow> JInt d)]"

text \<open>\<open>LIMIT n\<close>; PostgreSQL rejects a negative one.\<close>

definition limit_rows :: "int \<Rightarrow> 'r list \<Rightarrow> 'r list result" where
  "limit_rows n rows =
     (if n < 0 then Inl (ExternalError ''LIMIT must not be negative'') else Inr (take (nat n) rows))"

definition org_runs :: "uuid \<Rightarrow> cv_db \<Rightarrow> validation_run list" where
  "org_runs org db = newest_rows mv_ran_at (filter (\<lambda>r. mv_org_id r = org) (c_runs db))"

definition recent_runs ::
    "(uuid \<Rightarrow> string) \<Rightarrow> (micros \<Rightarrow> string) \<Rightarrow> current_user \<Rightarrow> int \<Rightarrow> (cv_db, dict list) exec" where
  "recent_runs uuid_str isoformat user limit =
     seq (lift_result (require_permission (permissions user) ''workloads:read'')) (\<lambda>_.
     seq (gets (org_runs (user_org_id user))) (\<lambda>all.
     seq (lift_result (limit_rows limit all)) (\<lambda>runs.
     ret (if runs \<noteq> [] then map (run_json uuid_str isoformat) runs else MOCK_RECENT_RUNS))))"

definition status_json :: "(micros \<Rightarrow> string) \<Rightarrow> validation_run \<Rightarrow> dict" where
  "status_json isoformat r = [(''status'', JStr (mv_status r)), (''ran_at'', JStr (isoformat (mv_ran_at r)))]"

definition continuous_health :: "(micros \<Rightarrow> string) \<Rightarrow> current_user \<Rightarrow> (cv_db, dict) exec" where
  "continuous_health isoformat user =
     seq (lift_result (require_permission (permissions user) ''workloads:read'')) (\<lambda>_.
     seq (gets (\<lambda>db. map (status_json isoformat) (take 100 (org_runs (user_org_id user) db)))) (\<lambda>runs.
     let runs' = (if runs = []
                  then map (\<lambda>r. [(''status'', dget r ''status''), (''ran_at'', dget r ''ran_at'')]) MOCK_RECENT_RUNS
                  else runs)
     in ret (compute_continuous_health runs')))"

definition alert_json :: "(uuid \<Rightarrow> string) \<Rightarrow> (micros \<Rightarrow> string) \<Rightarrow> alert_row \<Rightarrow> dict" where
  "alert_json uuid_str isoformat a =
     [(''id'', JStr (uuid_str (va_id a))),
      (''workload_name'', case va_workload_name a of None \<Rightarrow> JNull | Some n \<Rightarrow> JStr n),
      (''alert_type'', JStr (va_alert_type a)), (''severity'', JStr (va_severity a)),
      (''detail'', JStr (va_detail a)), (''resolved'', JBool (va_resolved a)),
      (''created_at'', JStr (isoformat (va_created_at a)))]"

definition list_alerts ::
    "(uuid \<Rightarrow> string) \<Rightarrow> (micros \<Rightarrow> string) \<Rightarrow> current_user \<Rightarrow> bool \<Rightarrow> (cv_db, dict list) exec" where
  "list_alerts uuid_str isoformat user resolved =
     seq (lift_result (require_permission (permissions user) ''workloads:read'')) (\<lambda>_.
     gets (\<lambda>db.
       let alerts = take 50 (newest_rows va_created_at
             (filter (\<lambda>a. va_org_id a = user_org_id user \<and> va_resolved a = resolved) (c_alerts db)))
       in if alerts \<noteq> [] then map (alert_json uuid_str isoformat) alerts
          else filter (\<lambda>a. dget a ''resolved'' = JBool resolved) MOCK_ALERTS))"

definition find_alert :: "uuid \<Rightarrow> current_user \<Rightarrow> cv_db \<Rightarrow> alert_row option" where
  "find_alert alert_id user db =
     List.find (\<lambda>a. va_id a = alert_id \<and> va_org_id a = user_org_id user) (c_alerts db)"

definition resolve_alert :: "uuid \<Rightarrow> current_user \<Rightarrow> micros \<Rightarrow> (cv_db, uuid) exec" where
  "resolve_alert alert_id user now =
     seq (lift_result (require_permission (permissions user) ''workloads:write'')) (\<lambda>_.
     seq (gets (find_alert alert_id user)) (\<lambda>found.
     case found of
       None \<Rightarrow> raise (HTTPException 404 ''Alert not found'')
     | Some alert \<Rightarrow>
         seq (update (\<lambda>db. db\<lparr>c_alerts := update_where (\<lambda>a. a = alert)
                (\<lambda>a. a\<lparr>va_resolved := True, va_resolved_at := Some now\<rparr>) (c_alerts db)\<rparr>)) (\<lambda>_.
         ret (va_id alert))))"

subsection \<open>Severity\<close>

definition severity :: "string \<Rightarrow> nat" where
  "severity s = (if s = ''fail'' then 2 else if s = ''warn'' then 1 else 0)"

definition check_severity :: "dict \<Rightarrow> nat" where
  "check_severity v = (case check_status v of JStr s \<Rightarrow> severity s | _ \<Rightarrow> 0)"

lemma severity_le: "severity s \<le> 2"
  by (simp add: severity_def)

lemma check_severity_iff:
  "2 \<le> check_severity v \<longleftrightarrow> check_status v = JStr ''fail''"
  "1 \<le> check_severity v \<longleftrightarrow> check_status v = JStr ''fail'' \<or> check_status v = JStr ''warn''"
  by (cases "check_status v"; simp add: check_severity_def severity_def)+

text \<open>The overall verdict is the worst of the checks.\<close>

lemma severity_evaluate:
  "severity (evaluate_check_results rs) = fold max (map (\<lambda>(k, v). check_severity v) rs) 0"
proof (rule antisym)
  let ?m = "fold max (map (\<lambda>(k, v). check_severity v) rs) 0"
  have fold_max: "fold max xs a = Max (set (a # xs))" for xs :: "nat list" and a
    by (rule Max.set_eq_fold [symmetric])
  have upper: "check_severity v \<le> ?m" if "(k, v) \<in> set rs" for k v
    unfolding fold_max using that by (force intro: Max_ge)
  show "severity (evaluate_check_results rs) \<le> ?m"
  proof (cases "severity (evaluate_check_results rs) = 0")
    case False
    then obtain k v where "(k, v) \<in> set rs" "severity (evaluate_check_results rs) \<le> check_severity v"
      using check_severity_iff by (force simp: evaluate_check_results_def severity_def Let_def split: if_splits)
    then show ?thesis using upper by (metis le_trans)
  qed simp
  have "check_severity v \<le> severity (evaluate_check_results rs)" if v: "(k, v) \<in> set rs" for k v
  proof -
    have "check_severity v \<le> 2" by (cases "check_status v") (simp_all add: check_severity_def severity_le)
    moreover have "2 \<le> check_severity v \<Longrightarrow> severity (evaluate_check_results rs) = 2"
      using v check_severity_iff(1) by (force simp: evaluate_check_results_def severity_def Let_def)
    moreover have "1 \<le> check_severity v \<Longrightarrow> 1 \<le> severity (evaluate_check_results rs)"
      using v check_severity_iff(2) by (force simp: evaluate_check_results_def severity_def Let_def)
    ultimately show ?thesis by linarith
  qed
  then show "?m \<le> severity (evaluate_check_results rs)"
    unfolding fold_max by (auto simp: split_def)
qed

subsection \<open>Time\<close>

lemma age_mins_mono:
  "now \<le> now' \<Longrightarrow> age_mins (Some t) now = Some a \<Longrightarrow> age_mins (Some t) now' = Some a' \<Longrightarrow> a \<le> a'"
  by (auto simp: age_mins_def fdiv_def intro!: fl_mono divide_right_mono total_seconds_mono)

lemma grade_mono: "a \<le> a' \<Longrightarrow> severity (grade a p w) \<le> severity (grade a' p w)"
  by (auto simp: grade_def severity_def)

lemma check_severity_status [simp]: "check_severity ((''status'', JStr s) # d) = severity s"
  by (simp add: check_severity_def check_status_def dget_or_def)

lemma run_check_mono:
  assumes "now \<le> now'"
  shows "check_severity (run_check c b r h i now) \<le> check_severity (run_check c b r h i now')"
proof -
  have "check_severity (check_restore_point_freshness b r now) \<le> check_severity (check_restore_point_freshness b r now')"
    using age_mins_mono [OF assms]
    by (cases b) (auto simp: check_restore_point_freshness_def Let_def age_mins_def intro!: grade_mono)
  moreover have "check_severity (check_rpo_compliance b r now) \<le> check_severity (check_rpo_compliance b r now')"
    using age_mins_mono [OF assms]
    by (cases b) (auto simp: check_rpo_compliance_def Let_def age_mins_def intro!: grade_mono)
  moreover have "check_severity (check_agent_heartbeat h i now) \<le> check_severity (check_agent_heartbeat h i now')"
    using age_mins_mono [OF assms]
    by (cases h) (auto simp: check_agent_heartbeat_def Let_def age_mins_def intro!: grade_mono)
  ultimately show ?thesis by (simp add: run_check_def)
qed

lemma fold_max_mono: "list_all2 (\<le>) xs ys \<Longrightarrow> a \<le> b \<Longrightarrow> fold max xs a \<le> fold max ys (b :: nat)"
proof (induction xs ys arbitrary: a b rule: list_all2_induct)
  case (Cons x xs y ys)
  then have "max x a \<le> max y b" by auto
  then show ?case using Cons.IH by simp
qed simp

subsection \<open>Health\<close>

lemma takeWhile_count: "length (takeWhile (\<lambda>r. \<not> P r) xs) + count_if P xs \<le> length xs"
  by (induction xs) auto

lemma count_if_rev [simp]: "count_if P (rev xs) = count_if P xs"
  by (simp add: count_if_def rev_filter [symmetric])

lemma passed_status_json: "passed (status_json f r) \<longleftrightarrow> mv_status r = ''pass''"
  by (simp add: passed_def status_json_def dget_def)

subsection \<open>Properties\<close>

text \<open>The verdict on a workload never improves by waiting: with the same last backup, the same
  last heartbeat and the same policy, evaluating the checks later gives an equal or worse overall
  status, through the floating-point ages and the three sets of thresholds. \<close>

theorem verdict_worsens_with_time:
  assumes "now \<le> now'"
  shows "severity (evaluate_check_results (build_check_results checks b r h i now))
       \<le> severity (evaluate_check_results (build_check_results checks b r h i now'))"
  unfolding severity_evaluate build_check_results_def
  by (rule fold_max_mono) (simp_all add: list_all2_conv_all_nth case_prod_beta run_check_mono [OF assms])

theorem verdict_worsens_with_time_witness:
  "severity (evaluate_check_results (build_check_results [(''rpo_compliance'', JBool True)] (Some 0) (Some 60) None 15 0))
     \<le> severity (evaluate_check_results (build_check_results [(''rpo_compliance'', JBool True)] (Some 0) (Some 60) None 15 6000000000))"
  by (rule verdict_worsens_with_time) simp

text \<open>A policy stores the workload ids the request names; the route never looks them up.\<close>

lemma create_policy_stores_any_workload:
  assumes "create_policy body user new_id now db = (Inr r, db')"
  shows "\<exists>p. c_policies db' = c_policies db @ [p] \<and> pl_workload_ids p = cp_workload_ids body"
  using assms by (auto simp: create_policy_def lift_permission exec_simps Let_def split: sum.splits if_splits)

text \<open>The health route passes the runs newest first to a function that reads them oldest first:
  when the oldest of the listed runs passed, it reports no consecutive failures, and that run's time
  as the last check, whatever the newer runs are. \<close>

theorem health_counts_oldest_streak:
  assumes "''workloads:read'' \<in> set (permissions user)"
    and "org_runs (user_org_id user) db = newer @ [oldest]" and "length newer < 100" and "mv_status oldest = ''pass''"
  shows "\<exists>h. continuous_health isoformat user db = (Inr h, db) \<and>
     dget h ''consecutive_failures'' = JInt 0 \<and> dget h ''last_check'' = JStr (isoformat (mv_ran_at oldest))"
proof -
  have runs: "map (status_json isoformat) (take 100 (org_runs (user_org_id user) db))
      = map (status_json isoformat) newer @ [status_json isoformat oldest]"
    using assms(2,3) by simp
  have some: "org_runs (user_org_id user) db \<noteq> []" using assms(2) by simp
  have first: "passed (status_json isoformat oldest)" using assms(4) by (simp add: passed_status_json)
  let ?h = "compute_continuous_health (map (status_json isoformat) newer @ [status_json isoformat oldest])"
  have "continuous_health isoformat user db = (Inr ?h, db)"
    unfolding continuous_health_def runs [symmetric] using assms(1) by (simp add: lift_permission exec_simps some Let_def)
  moreover have "dget ?h ''consecutive_failures'' = JInt 0"
    using first by (simp add: compute_continuous_health_def Let_def dget_def)
  moreover have "dget ?h ''last_check'' = JStr (isoformat (mv_ran_at oldest))"
    by (simp add: compute_continuous_health_def Let_def dget_def status_json_def)
  ultimately show ?thesis by blast
qed

definition demo_run :: "string \<Rightarrow> micros \<Rightarrow> validation_run" where
  "demo_run status t = \<lparr>mv_id = 0, mv_policy_id = 1, mv_org_id = 7, mv_workload_id = Some 3, mv_workload_name = None,
     mv_status = status, mv_checks_run = 1, mv_checks_passed = 0, mv_check_results = [],
     mv_restore_point_age_hours = None, mv_alert_sent = False, mv_ran_at = t, mv_duration_ms = None\<rparr>"

definition demo_cv_db :: cv_db where
  "demo_cv_db = \<lparr>a_orgs = [], a_appliances = [], a_workloads = [], a_runs = [], a_steps = [], a_audit = [],
     a_notified = [], c_policies = [],
     c_runs = [demo_run ''pass'' 1, demo_run ''fail'' 2, demo_run ''fail'' 3], c_alerts = []\<rparr>"

definition demo_viewer :: current_user where
  "demo_viewer = \<lparr>user_sub = ''u'', user_org_id = 7, user_email = [], user_role = ''viewer''\<rparr>"

theorem health_counts_oldest_streak_witness:
  "\<exists>h. continuous_health show_int demo_viewer demo_cv_db = (Inr h, demo_cv_db) \<and>
     dget h ''consecutive_failures'' = JInt 0 \<and> dget h ''last_check'' = JStr ''1''"
proof -
  have "org_runs (user_org_id demo_viewer) demo_cv_db
      = [demo_run ''fail'' 3, demo_run ''fail'' 2] @ [demo_run ''pass'' 1]"
    by code_simp
  note runs = this
  have "''workloads:read'' \<in> set (permissions demo_viewer)" by code_simp
  then have "\<exists>h. continuous_health show_int demo_viewer demo_cv_db = (Inr h, demo_cv_db) \<and>
     dget h ''consecutive_failures'' = JInt 0 \<and>
     dget h ''last_check'' = JStr (show_int (mv_ran_at (demo_run ''pass'' 1)))"
    by (rule health_counts_oldest_streak [OF _ runs]) (simp_all add: demo_run_def)
  moreover have "show_int (mv_ran_at (demo_run ''pass'' 1)) = ''1''" by code_simp
  ultimately show ?thesis by simp
qed

end
