(* ===== verification/RunbookEngine.thy ===== *)
theory RunbookEngine
  imports Json "HOL-Library.Multiset"
begin

text \<open>
  \<open>services/runbook_engine.py\<close>: the order in which the steps of a runbook run. A step is the
  dictionary the callers build, with \<open>None\<close> for a key it may lack. The loop of
  \<open>resolve_execution_order\<close> has its own bound, \<open>max_iterations\<close>, which is the recursion's
  fuel; that it is never reached is proved, so the loop's other exit is the only error.
\<close>

subsection \<open>Steps and waves\<close>

record step =
  st_seq :: int
  st_name :: string
  st_step_type :: string
  st_depends_on_seq :: "int list option"
  st_parallel :: "bool option"
  st_timeout_mins :: "int option"
  st_on_failure :: "string option"
  st_config :: "dict option"
  st_workload_id :: "nat option"

definition deps :: "step \<Rightarrow> int list" where
  "deps s = (case st_depends_on_seq s of None \<Rightarrow> [] | Some ds \<Rightarrow> ds)"

definition is_ready :: "int set \<Rightarrow> step \<Rightarrow> bool" where
  "is_ready completed s \<longleftrightarrow> list_all (\<lambda>dep. dep \<in> completed) (deps s)"

fun wave_loop :: "nat \<Rightarrow> int set \<Rightarrow> step list \<Rightarrow> step list list \<Rightarrow> step list list result" where
  "wave_loop iterations_left completed remaining waves =
     (if remaining = [] then Inr waves
      else case iterations_left of
        0 \<Rightarrow> Inl (ValueError ''Circular dependency detected in runbook steps'')
      | Suc n \<Rightarrow>
          let ready = filter (is_ready completed) remaining in
          if ready = [] then Inl (ValueError ''No runbook steps are ready: possible circular dependency'')
          else wave_loop n (completed \<union> set (map st_seq ready)) (fold remove1 ready remaining) (waves @ [ready]))"

declare wave_loop.simps [simp del]

definition resolve_execution_order :: "step list \<Rightarrow> step list list result" where
  "resolve_execution_order steps = wave_loop (length steps + 1) {} steps []"

subsection \<open>The plan\<close>

record plan_step =
  ps_seq :: int
  ps_name :: string
  ps_step_type :: string
  ps_timeout_mins :: int
  ps_on_failure :: string
  ps_config :: dict

record wave_plan =
  wave_no :: nat
  wave_parallel :: bool
  wave_steps :: "plan_step list"

record execution_plan =
  plan_runbook_id :: nat
  plan_runbook_name :: string
  plan_scenario :: string
  plan_target_rto_mins :: "int option"
  plan_waves :: "wave_plan list"
  plan_estimated_duration_mins :: int
  plan_step_count :: nat

record runbook_info =
  ri_id :: nat
  ri_name :: string
  ri_scenario :: string
  ri_rto_target_mins :: "int option"

definition timeout_of :: "step \<Rightarrow> int" where
  "timeout_of s = (case st_timeout_mins s of None \<Rightarrow> 60 | Some t \<Rightarrow> t)"

definition plan_step_of :: "step \<Rightarrow> plan_step" where
  "plan_step_of s =
     \<lparr>ps_seq = st_seq s, ps_name = st_name s, ps_step_type = st_step_type s, ps_timeout_mins = timeout_of s,
      ps_on_failure = (case st_on_failure s of None \<Rightarrow> ''stop'' | Some f \<Rightarrow> f),
      ps_config = (case st_config s of None \<Rightarrow> [] | Some c \<Rightarrow> c)\<rparr>"

definition wave_plan_of :: "nat \<Rightarrow> step list \<Rightarrow> wave_plan" where
  "wave_plan_of i wave =
     \<lparr>wave_no = i + 1,
      wave_parallel = (length wave > 1 \<or> list_ex (\<lambda>s. st_parallel s = Some True) wave),
      wave_steps = map plan_step_of wave\<rparr>"

definition wave_timeout :: "step list \<Rightarrow> int" where
  "wave_timeout wave = Max (set (map timeout_of wave))"

definition build_execution_plan :: "runbook_info \<Rightarrow> step list \<Rightarrow> execution_plan result" where
  "build_execution_plan runbook steps =
     and_then (resolve_execution_order steps) (\<lambda>waves.
     Inr \<lparr>plan_runbook_id = ri_id runbook, plan_runbook_name = ri_name runbook, plan_scenario = ri_scenario runbook,
          plan_target_rto_mins = ri_rto_target_mins runbook,
          plan_waves = map (\<lambda>(i, wave). wave_plan_of i wave) (enumerate 0 waves),
          plan_estimated_duration_mins = sum_list (map wave_timeout waves),
          plan_step_count = length steps\<rparr>)"

subsection \<open>The loop\<close>

lemma fold_remove1_mset: "mset (fold remove1 ys xs) = mset xs - mset ys"
  by (induction ys arbitrary: xs) simp_all

lemma remaining_mset:
  "mset (fold remove1 (filter P xs) xs) = mset (filter (\<lambda>x. \<not> P x) xs)"
proof -
  have "mset xs = mset (filter P xs) + mset (filter (\<lambda>x. \<not> P x) xs)"
    by (simp add: multiset_partition)
  then have "mset xs - mset (filter P xs) = mset (filter (\<lambda>x. \<not> P x) xs)"
    by (metis add_diff_cancel_left')
  then show ?thesis by (simp only: fold_remove1_mset)
qed

lemma remaining_shorter:
  "filter P xs \<noteq> [] \<Longrightarrow> length (fold remove1 (filter P xs) xs) < length xs"
proof -
  assume ne: "filter P xs \<noteq> []"
  have "length (fold remove1 (filter P xs) xs) = length (filter (\<lambda>x. \<not> P x) xs)"
    using remaining_mset [of P xs] by (metis size_mset)
  moreover have "length (filter P xs) + length (filter (\<lambda>x. \<not> P x) xs) = length xs"
    by (rule sum_length_filter_compl)
  ultimately show ?thesis using ne by (cases "filter P xs") auto
qed

text \<open>What the loop has established whenever it tests \<open>remaining\<close>.\<close>

definition waves_ok :: "int set \<Rightarrow> step list list \<Rightarrow> bool" where
  "waves_ok done0 waves \<longleftrightarrow>
     (\<forall>i < length waves. waves ! i \<noteq> [] \<and>
        (\<forall>s \<in> set (waves ! i). set (deps s) \<subseteq> done0 \<union> st_seq ` set (concat (take i waves))))"

definition done_seqs :: "step list list \<Rightarrow> int set" where
  "done_seqs waves = st_seq ` set (concat waves)"

lemma waves_ok_snoc:
  assumes "waves_ok {} waves" and "ready \<noteq> []" and "\<forall>s \<in> set ready. is_ready (done_seqs waves) s"
  shows "waves_ok {} (waves @ [ready])"
  using assms
  by (auto simp: waves_ok_def nth_append done_seqs_def is_ready_def list_all_iff less_Suc_eq subset_iff)

lemma done_seqs_snoc: "done_seqs (waves @ [ready]) = done_seqs waves \<union> set (map st_seq ready)"
  by (auto simp: done_seqs_def)

lemma wave_loop_ok:
  assumes "wave_loop n (done_seqs waves) remaining waves = Inr out" and "waves_ok {} waves"
  shows "waves_ok {} out \<and> mset (concat out) = mset (concat waves) + mset remaining"
  using assms
proof (induction n arbitrary: remaining waves)
  case 0
  then show ?case by (simp add: wave_loop.simps split: if_splits)
next
  case (Suc n)
  let ?ready = "filter (is_ready (done_seqs waves)) remaining"
  show ?case
  proof (cases "remaining = []")
    case True
    with Suc.prems show ?thesis by (simp add: wave_loop.simps)
  next
    case False
    then have ne: "?ready \<noteq> []"
      and rec: "wave_loop n (done_seqs (waves @ [?ready])) (fold remove1 ?ready remaining) (waves @ [?ready]) = Inr out"
      using Suc.prems(1) by (subst (asm) wave_loop.simps; simp add: Let_def done_seqs_snoc split: if_splits)+
    have "waves_ok {} (waves @ [?ready])"
      by (rule waves_ok_snoc [OF Suc.prems(2) ne]) simp
    from Suc.IH [OF rec this] show ?thesis
      by (simp add: remaining_mset add.assoc)
  qed
qed

text \<open>
  The loop's second exit is dead: every iteration removes a step, so \<open>max_iterations\<close> is
  never exceeded. What is left is the stuck case, with no step ready.
\<close>

definition stuck_error :: py_exn where
  "stuck_error = ValueError ''No runbook steps are ready: possible circular dependency''"

lemma wave_loop_outcome:
  assumes "length remaining \<le> n"
  shows "(\<exists>out. wave_loop n (done_seqs waves) remaining waves = Inr out) \<or>
     wave_loop n (done_seqs waves) remaining waves = Inl stuck_error \<and>
       (\<exists>blocked completed. blocked \<noteq> {#} \<and> blocked \<subseteq># mset remaining \<and>
          st_seq ` set_mset (mset remaining - blocked) \<union> done_seqs waves = completed \<and>
          (\<forall>s \<in># blocked. \<not> set (deps s) \<subseteq> completed))"
  using assms
proof (induction n arbitrary: remaining waves)
  case 0
  then show ?case by (simp add: wave_loop.simps)
next
  case (Suc n)
  let ?ready = "filter (is_ready (done_seqs waves)) remaining"
  let ?rest = "fold remove1 ?ready remaining"
  show ?case
  proof (cases "remaining = []")
    case True
    then show ?thesis by (simp add: wave_loop.simps)
  next
    case ne: False
    show ?thesis
    proof (cases "?ready = []")
      case True
      then have "wave_loop (Suc n) (done_seqs waves) remaining waves = Inl stuck_error"
        using ne by (simp add: wave_loop.simps stuck_error_def)
      moreover have "\<forall>s \<in># mset remaining. \<not> set (deps s) \<subseteq> done_seqs waves"
        using True by (auto simp: filter_empty_conv is_ready_def list_all_iff)
      ultimately show ?thesis
        using ne by (intro disjI2 conjI exI [of _ "mset remaining"] exI [of _ "done_seqs waves"]) auto
    next
      case False
      have step: "wave_loop (Suc n) (done_seqs waves) remaining waves
          = wave_loop n (done_seqs (waves @ [?ready])) ?rest (waves @ [?ready])"
        using ne False by (subst wave_loop.simps) (simp add: Let_def done_seqs_snoc)
      have "length ?rest \<le> n" using remaining_shorter [OF False] Suc.prems by simp
      from Suc.IH [OF this, of "waves @ [?ready]"] show ?thesis
      proof (elim disjE exE conjE)
        fix blocked completed
        assume err: "wave_loop n (done_seqs (waves @ [?ready])) ?rest (waves @ [?ready]) = Inl stuck_error"
          and b: "blocked \<noteq> {#}" "blocked \<subseteq># mset ?rest"
          and c: "st_seq ` set_mset (mset ?rest - blocked) \<union> done_seqs (waves @ [?ready]) = completed"
          and d: "\<forall>s \<in># blocked. \<not> set (deps s) \<subseteq> completed"
        have split: "mset remaining = mset ?ready + mset ?rest"
          by (simp add: remaining_mset multiset_partition)
        then have "mset remaining - blocked = mset ?ready + (mset ?rest - blocked)"
          using b(2) by (metis multiset_diff_union_assoc)
        then have "st_seq ` set_mset (mset remaining - blocked) \<union> done_seqs waves = completed"
          using c by (auto simp: done_seqs_snoc)
        moreover have "blocked \<subseteq># mset remaining"
          using b(2) split by (metis mset_subset_eq_add_right subset_mset.order_trans)
        ultimately show ?thesis using err b(1) d step by auto
      qed (use step in auto)
    qed
  qed
qed

subsection \<open>Valid orders\<close>

text \<open>The specification: an order of all the steps in which each comes after what it depends on.\<close>

definition valid_order :: "step list \<Rightarrow> bool" where
  "valid_order order \<longleftrightarrow> (\<forall>i < length order. set (deps (order ! i)) \<subseteq> st_seq ` set (take i order))"

definition orderable :: "step list \<Rightarrow> bool" where
  "orderable steps \<longleftrightarrow> (\<exists>order. mset order = mset steps \<and> valid_order order)"

lemma valid_order_append:
  assumes "valid_order xs" and "\<forall>s \<in> set ys. set (deps s) \<subseteq> st_seq ` set xs"
  shows "valid_order (xs @ ys)"
  unfolding valid_order_def
proof (intro allI impI)
  fix i assume i: "i < length (xs @ ys)"
  show "set (deps ((xs @ ys) ! i)) \<subseteq> st_seq ` set (take i (xs @ ys))"
  proof (cases "i < length xs")
    case True
    then show ?thesis using assms(1) by (simp add: valid_order_def nth_append)
  next
    case False
    then have "(xs @ ys) ! i \<in> set ys" using i by (simp add: nth_append)
    then show ?thesis using assms(2) False by auto
  qed
qed

lemma waves_ok_butlast:
  assumes "waves_ok {} (waves @ [w])"
  shows "waves_ok {} waves" and "\<forall>s \<in> set w. set (deps s) \<subseteq> done_seqs waves"
proof -
  have "waves_ok {} waves \<and> (\<forall>s \<in> set w. set (deps s) \<subseteq> done_seqs waves)"
  proof
    show "waves_ok {} waves"
      unfolding waves_ok_def
    proof (intro allI impI)
      fix i assume "i < length waves"
      then show "waves ! i \<noteq> [] \<and> (\<forall>s \<in> set (waves ! i). set (deps s) \<subseteq> {} \<union> st_seq ` set (concat (take i waves)))"
        using assms [unfolded waves_ok_def, rule_format, of i] by (simp add: nth_append)
    qed
    show "\<forall>s \<in> set w. set (deps s) \<subseteq> done_seqs waves"
      using assms [unfolded waves_ok_def, rule_format, of "length waves"] by (simp add: done_seqs_def)
  qed
  then show "waves_ok {} waves" "\<forall>s \<in> set w. set (deps s) \<subseteq> done_seqs waves" by auto
qed

lemma waves_valid_order: "waves_ok {} waves \<Longrightarrow> valid_order (concat waves)"
proof (induction waves rule: rev_induct)
  case Nil
  then show ?case by (simp add: valid_order_def)
next
  case (snoc w waves)
  then show ?case
    using waves_ok_butlast [OF snoc.prems] valid_order_append [of "concat waves" w] by (simp add: done_seqs_def)
qed

lemma stuck_not_orderable:
  assumes "blocked \<noteq> {#}" and "blocked \<subseteq># mset steps"
    and "st_seq ` set_mset (mset steps - blocked) = completed"
    and "\<forall>s \<in># blocked. \<not> set (deps s) \<subseteq> completed"
  shows "\<not> orderable steps"
proof
  assume "orderable steps"
  then obtain order where o: "mset order = mset steps" "valid_order order" by (auto simp: orderable_def)
  obtain s where "s \<in># blocked" using assms(1) by blast
  then have "s \<in># mset order" using assms(2) o(1) by (metis mset_subset_eqD)
  then have "\<exists>i < length order. order ! i \<in># blocked" using \<open>s \<in># blocked\<close> by (metis in_set_conv_nth set_mset_mset)
  then obtain i where i: "i < length order" "order ! i \<in># blocked"
    and first: "\<forall>j < i. \<not> (j < length order \<and> order ! j \<in># blocked)"
    using exists_least_iff [of "\<lambda>i. i < length order \<and> order ! i \<in># blocked"] by blast
  have "st_seq ` set (take i order) \<subseteq> completed"
  proof
    fix q assume "q \<in> st_seq ` set (take i order)"
    then obtain j where j: "j < i" "q = st_seq (order ! j)" using i(1) by (auto simp: in_set_conv_nth)
    then have "order ! j \<notin># blocked" using first i(1) by auto
    moreover have "order ! j \<in># mset steps" using j i(1) o(1) by (metis less_trans nth_mem set_mset_mset)
    ultimately have "order ! j \<in># mset steps - blocked" by (simp add: in_diff_count not_in_iff)
    then show "q \<in> completed" using assms(3) j by blast
  qed
  then have "set (deps (order ! i)) \<subseteq> completed" using o(2) i(1) unfolding valid_order_def by (meson order_trans)
  with i(2) assms(4) show False by blast
qed

lemma resolve_cases:
  obtains (order) waves where "resolve_execution_order steps = Inr waves" "waves_ok {} waves"
      "mset (concat waves) = mset steps"
  | (stuck) "resolve_execution_order steps = Inl stuck_error" "\<not> orderable steps"
proof -
  have none: "done_seqs [] = {}" by (simp add: done_seqs_def)
  have "length steps \<le> length steps + 1" by simp
  from wave_loop_outcome [OF this, of "[]"] show thesis
  proof (elim disjE exE conjE)
    fix out assume "wave_loop (length steps + 1) (done_seqs []) steps [] = Inr out"
    from wave_loop_ok [OF this] this order [of out] show thesis
      by (simp add: waves_ok_def resolve_execution_order_def none)
  next
    fix blocked completed
    assume "wave_loop (length steps + 1) (done_seqs []) steps [] = Inl stuck_error"
      and "blocked \<noteq> {#}" "blocked \<subseteq># mset steps"
      and "st_seq ` set_mset (mset steps - blocked) \<union> done_seqs [] = completed"
      and "\<forall>s \<in># blocked. \<not> set (deps s) \<subseteq> completed"
    then show thesis
      using stuck stuck_not_orderable [of blocked steps completed]
      by (simp add: resolve_execution_order_def none)
  qed
qed

lemma resolve_orderable: "resolve_execution_order steps = Inr waves \<Longrightarrow> orderable steps"
  by (cases rule: resolve_cases [of steps]) (auto simp: orderable_def dest: waves_valid_order)

subsection \<open>Properties\<close>

text \<open>C6: \<open>resolve_execution_order\<close> decides whether the steps can be ordered: it returns waves
  exactly when some order of all the steps respects every dependency, and otherwise raises the
  error for stuck steps (never the one for exceeding its iteration bound).\<close>

theorem resolve_complete:
  "(if orderable steps then \<exists>waves. resolve_execution_order steps = Inr waves
    else resolve_execution_order steps = Inl stuck_error)"
proof (cases rule: resolve_cases [of steps])
  case (order waves)
  then have "orderable steps" unfolding orderable_def using waves_valid_order by blast
  with order show ?thesis by simp
next
  case stuck
  then show ?thesis by simp
qed

text \<open>C7: the waves hold every step exactly once, none is empty, and a step's dependencies all lie
  in earlier waves, so running the waves in order never starts a step too soon.\<close>

theorem resolve_sound:
  assumes "resolve_execution_order steps = Inr waves"
  shows "mset (concat waves) = mset steps \<and>
     (\<forall>i < length waves. waves ! i \<noteq> [] \<and>
        (\<forall>s \<in> set (waves ! i). set (deps s) \<subseteq> st_seq ` set (concat (take i waves))))"
  using assms
  by (cases rule: resolve_cases [of steps]) (auto simp: waves_ok_def)

definition demo_step :: "int \<Rightarrow> int list \<Rightarrow> step" where
  "demo_step n ds = \<lparr>st_seq = n, st_name = ''s'', st_step_type = ''wait'', st_depends_on_seq = Some ds,
     st_parallel = None, st_timeout_mins = Some (10 * n), st_on_failure = None, st_config = None, st_workload_id = None\<rparr>"

lemma demo_waves:
  "resolve_execution_order [demo_step 1 [3], demo_step 2 [], demo_step 3 [2]]
     = Inr [[demo_step 2 []], [demo_step 3 [2]], [demo_step 1 [3]]]"
  by (simp add: resolve_execution_order_def wave_loop.simps is_ready_def deps_def demo_step_def Let_def)

theorem resolve_sound_witness:
  "mset (concat [[demo_step 2 []], [demo_step 3 [2]], [demo_step 1 [3]]])
     = mset [demo_step 1 [3], demo_step 2 [], demo_step 3 [2]]"
  using resolve_sound [OF demo_waves] by (rule conjunct1)

subsection \<open>The estimate\<close>

lemma wave_timeout_bounds:
  assumes "wave \<noteq> []" and "\<forall>s \<in> set wave. 0 \<le> timeout_of s"
  shows "wave_timeout wave \<le> sum_list (map timeout_of wave)" and "0 \<le> wave_timeout wave"
    and "\<forall>s \<in> set wave. timeout_of s \<le> wave_timeout wave"
proof -
  have "Max (set (map timeout_of wave)) \<in> set (map timeout_of wave)"
    by (rule Max_in) (use assms(1) in auto)
  then obtain s where s: "s \<in> set wave" "wave_timeout wave = timeout_of s"
    by (auto simp: wave_timeout_def)
  show "wave_timeout wave \<le> sum_list (map timeout_of wave)"
    unfolding s(2) by (rule member_le_sum_list) (use s assms in auto)
  show "0 \<le> wave_timeout wave" using s assms by auto
  show "\<forall>s \<in> set wave. timeout_of s \<le> wave_timeout wave" by (auto simp: wave_timeout_def)
qed

lemma estimate_bounds:
  assumes "\<forall>w \<in> set waves. w \<noteq> [] \<and> (\<forall>s \<in> set w. 0 \<le> timeout_of s)"
  shows "sum_list (map wave_timeout waves) \<le> sum_list (map timeout_of (concat waves)) \<and>
     0 \<le> sum_list (map wave_timeout waves) \<and>
     (\<forall>s \<in> set (concat waves). timeout_of s \<le> sum_list (map wave_timeout waves))"
  using assms
proof (induction waves)
  case (Cons w waves)
  have w: "wave_timeout w \<le> sum_list (map timeout_of w)" "0 \<le> wave_timeout w"
    "\<forall>s \<in> set w. timeout_of s \<le> wave_timeout w"
    using wave_timeout_bounds [of w] Cons.prems by auto
  with Cons show ?case by fastforce
qed simp

text \<open>A plan exists for every orderable runbook; it lists each step once, and its estimated
  duration lies between the longest step and the sum of all the steps' timeouts.\<close>

theorem plan_estimate_bounds:
  assumes "orderable steps" and "\<forall>s \<in> set steps. 0 \<le> timeout_of s"
  shows "\<exists>plan. build_execution_plan rb steps = Inr plan \<and>
     mset (concat (map wave_steps (plan_waves plan))) = mset (map plan_step_of steps) \<and>
     plan_step_count plan = length (concat (map wave_steps (plan_waves plan))) \<and>
     (\<forall>s \<in> set steps. timeout_of s \<le> plan_estimated_duration_mins plan) \<and>
     plan_estimated_duration_mins plan \<le> sum_list (map timeout_of steps)"
proof (cases rule: resolve_cases [of steps])
  case (order waves)
  have same: "set (concat waves) = set steps" using order(3) by (metis set_mset_mset)
  have "\<forall>w \<in> set waves. w \<noteq> [] \<and> (\<forall>s \<in> set w. 0 \<le> timeout_of s)"
    using order(2) assms(2) same by (auto simp: waves_ok_def in_set_conv_nth)
  note est = estimate_bounds [OF this]
  have sums: "sum_list (map timeout_of (concat waves)) = sum_list (map timeout_of steps)"
    using order(3) by (metis mset_map sum_mset_sum_list)
  have plan_steps: "concat (map (\<lambda>x. wave_steps (case x of (i, wave) \<Rightarrow> wave_plan_of i wave)) (enumerate n ws))
      = map plan_step_of (concat ws)" for n ws
    by (induction ws arbitrary: n) (simp_all add: wave_plan_of_def)
  have "mset (map plan_step_of (concat waves)) = mset (map plan_step_of steps)"
    using order(3) by (metis mset_map)
  moreover have "length (map plan_step_of (concat waves)) = length steps"
    using order(3) by (metis length_map size_mset)
  ultimately show ?thesis
    using est [unfolded same sums]
    by (simp add: build_execution_plan_def order(1) plan_steps comp_def)
next
  case stuck
  with assms show ?thesis by simp
qed

lemma demo_orderable: "orderable [demo_step 1 [3], demo_step 2 [], demo_step 3 [2]]"
  by (rule resolve_orderable [OF demo_waves])

theorem plan_estimate_bounds_witness:
  "\<exists>plan. build_execution_plan \<lparr>ri_id = 1, ri_name = ''dr'', ri_scenario = ''custom'', ri_rto_target_mins = None\<rparr>
       [demo_step 1 [3], demo_step 2 [], demo_step 3 [2]] = Inr plan \<and>
     plan_estimated_duration_mins plan \<le> 60"
proof -
  have "\<forall>s \<in> set [demo_step 1 [3], demo_step 2 [], demo_step 3 [2]]. 0 \<le> timeout_of s"
    by (simp add: timeout_of_def demo_step_def)
  from plan_estimate_bounds [OF demo_orderable this] show ?thesis
    by (fastforce simp: timeout_of_def demo_step_def)
qed

end
