(* ===== verification/Runbooks.thy ===== *)
theory Runbooks
  imports Api RunbookEngine
begin

text \<open>
  \<open>routers/runbooks.py\<close> over the tables of \<open>models/runbook.py\<close>: creating a runbook,
  reading it with its execution plan, starting an execution and reading executions. Identifiers
  and times the server draws are arguments; handlers return rows before JSON encoding, except
  the execution steps the appliance fetches, which are given as the JSON it receives.
\<close>

subsection \<open>Tables\<close>

record runbook_row =
  rb_id :: uuid
  rb_org_id :: uuid
  rb_name :: string
  rb_description :: string
  rb_scenario :: string
  rb_rto_target_mins :: "int option"
  rb_tags :: "string list"
  rb_enabled :: bool
  rb_last_executed_at :: "int option"
  rb_last_execution_status :: "string option"
  rb_created_at :: int
  rb_created_by :: "uuid option"

record step_row =
  sr_id :: uuid
  sr_runbook_id :: uuid
  sr_seq :: int
  sr_name :: string
  sr_step_type :: string
  sr_workload_id :: "uuid option"
  sr_depends_on_seq :: "int list"
  sr_parallel :: bool
  sr_timeout_mins :: int
  sr_config :: dict
  sr_on_failure :: string

record execution_row =
  ex_id :: uuid
  ex_runbook_id :: uuid
  ex_org_id :: uuid
  ex_triggered_by :: "uuid option"
  ex_trigger_reason :: string
  ex_status :: string
  ex_started_at :: "int option"
  ex_completed_at :: "int option"
  ex_actual_rto_mins :: "int option"
  ex_target_rto_mins :: "int option"
  ex_rto_met :: "bool option"
  ex_created_at :: int

record exec_step_row =
  es_id :: uuid
  es_execution_id :: uuid
  es_step_id :: uuid
  es_seq :: int
  es_name :: string
  es_step_type :: string
  es_status :: string
  es_started_at :: "int option"
  es_completed_at :: "int option"
  es_duration_secs :: "int option"
  es_output :: dict
  es_error :: "string option"

record runbook_db =
  d_runbooks :: "runbook_row list"
  d_steps :: "step_row list"
  d_executions :: "execution_row list"
  d_exec_steps :: "exec_step_row list"

subsection \<open>Requests\<close>

record step_request =
  sq_seq :: int
  sq_name :: string
  sq_step_type :: string
  sq_workload_id :: "uuid option"
  sq_depends_on_seq :: "int list"
  sq_parallel :: bool
  sq_timeout_mins :: int
  sq_config :: dict
  sq_on_failure :: string

record runbook_request =
  rq_name :: string
  rq_description :: string
  rq_scenario :: string
  rq_rto_target_mins :: "int option"
  rq_tags :: "string list"
  rq_steps :: "step_request list"

definition VALID_SCENARIOS :: "string list" where
  "VALID_SCENARIOS = [''ransomware'', ''datacenter_failure'', ''cloud_outage'', ''site_failover'', ''custom'']"

definition VALID_STEP_TYPES :: "string list" where
  "VALID_STEP_TYPES = [''recover_workload'', ''health_check'', ''notify'', ''wait'', ''manual_gate'', ''run_script'']"

text \<open>\<open>step.model_dump()\<close> of a request, and the dictionary of a row in \<open>get_runbook\<close>.\<close>

definition step_of_request :: "step_request \<Rightarrow> step" where
  "step_of_request s =
     \<lparr>st_seq = sq_seq s, st_name = sq_name s, st_step_type = sq_step_type s,
      st_depends_on_seq = Some (sq_depends_on_seq s), st_parallel = Some (sq_parallel s),
      st_timeout_mins = Some (sq_timeout_mins s), st_on_failure = Some (sq_on_failure s),
      st_config = Some (sq_config s), st_workload_id = sq_workload_id s\<rparr>"

definition step_of_row :: "step_row \<Rightarrow> step" where
  "step_of_row s =
     \<lparr>st_seq = sr_seq s, st_name = sr_name s, st_step_type = sr_step_type s,
      st_depends_on_seq = Some (sr_depends_on_seq s), st_parallel = Some (sr_parallel s),
      st_timeout_mins = Some (sr_timeout_mins s), st_on_failure = Some (sr_on_failure s),
      st_config = Some (sr_config s), st_workload_id = None\<rparr>"

subsection \<open>Handlers\<close>

definition list_runbooks :: "current_user \<Rightarrow> (runbook_db, runbook_row list) exec" where
  "list_runbooks user =
     seq (lift_result (require_permission (permissions user) ''workloads:read'')) (\<lambda>_.
     gets (\<lambda>db. sort_key (\<lambda>r. - rb_created_at r)
       (filter (\<lambda>r. rb_org_id r = user_org_id user \<and> rb_enabled r) (d_runbooks db))))"

fun check_steps :: "step_request list \<Rightarrow> unit result" where
  "check_steps [] = Inr ()"
| "check_steps (s # ss) =
     (if sq_step_type s \<notin> set VALID_STEP_TYPES
      then Inl (HTTPException 400 (''step_type must be one of: '' @ join '', '' (sort VALID_STEP_TYPES)))
      else if sq_on_failure s \<notin> {''stop'', ''continue'', ''rollback''}
      then Inl (HTTPException 400 ''on_failure must be stop, continue, or rollback'')
      else check_steps ss)"

definition check_order :: "step_request list \<Rightarrow> unit result" where
  "check_order ss =
     (if ss = [] then Inr ()
      else case resolve_execution_order (map step_of_request ss) of
             Inl (ValueError m) \<Rightarrow> Inl (HTTPException 400 m)
           | Inl e \<Rightarrow> Inl e
           | Inr _ \<Rightarrow> Inr ())"

definition new_step_row :: "uuid \<Rightarrow> uuid \<Rightarrow> step_request \<Rightarrow> step_row" where
  "new_step_row runbook_id i s =
     \<lparr>sr_id = i, sr_runbook_id = runbook_id, sr_seq = sq_seq s, sr_name = sq_name s,
      sr_step_type = sq_step_type s, sr_workload_id = sq_workload_id s,
      sr_depends_on_seq = sq_depends_on_seq s, sr_parallel = sq_parallel s,
      sr_timeout_mins = sq_timeout_mins s, sr_config = sq_config s, sr_on_failure = sq_on_failure s\<rparr>"

definition create_runbook ::
    "runbook_request \<Rightarrow> current_user \<Rightarrow> uuid \<Rightarrow> (nat \<Rightarrow> uuid) \<Rightarrow> int \<Rightarrow> (runbook_db, uuid \<times> string \<times> string) exec" where
  "create_runbook body user new_id step_ids now =
     seq (lift_result (require_permission (permissions user) ''workloads:write'')) (\<lambda>_.
     if rq_scenario body \<notin> set VALID_SCENARIOS
     then raise (HTTPException 400 (''scenario must be one of: '' @ join '', '' (sort VALID_SCENARIOS)))
     else
       seq (lift_result (check_steps (rq_steps body))) (\<lambda>_.
       seq (lift_result (check_order (rq_steps body))) (\<lambda>_.
       let runbook =
         \<lparr>rb_id = new_id, rb_org_id = user_org_id user, rb_name = rq_name body, rb_description = rq_description body,
          rb_scenario = rq_scenario body, rb_rto_target_mins = rq_rto_target_mins body, rb_tags = rq_tags body,
          rb_enabled = True, rb_last_executed_at = None, rb_last_execution_status = None,
          rb_created_at = now, rb_created_by = user_id_attr user\<rparr>;
         rows = map (\<lambda>(n, s). new_step_row new_id (step_ids n) s) (enumerate 0 (rq_steps body))
       in seq (update (\<lambda>db. db\<lparr>d_runbooks := d_runbooks db @ [runbook], d_steps := d_steps db @ rows\<rparr>)) (\<lambda>_.
          ret (new_id, rq_name body, rq_scenario body)))))"

definition find_runbook :: "uuid \<Rightarrow> current_user \<Rightarrow> runbook_db \<Rightarrow> runbook_row option" where
  "find_runbook runbook_id user db =
     List.find (\<lambda>r. rb_id r = runbook_id \<and> rb_org_id r = user_org_id user) (d_runbooks db)"

definition steps_of_runbook :: "uuid \<Rightarrow> runbook_db \<Rightarrow> step_row list" where
  "steps_of_runbook runbook_id db = sort_key sr_seq (filter (\<lambda>s. sr_runbook_id s = runbook_id) (d_steps db))"

definition get_runbook ::
    "uuid \<Rightarrow> current_user \<Rightarrow> (runbook_db, runbook_row \<times> step_row list \<times> execution_plan option) exec" where
  "get_runbook runbook_id user =
     seq (lift_result (require_permission (permissions user) ''workloads:read'')) (\<lambda>_.
     seq (gets (find_runbook runbook_id user)) (\<lambda>found.
     case found of
       None \<Rightarrow> raise (HTTPException 404 ''Runbook not found'')
     | Some runbook \<Rightarrow>
         seq (gets (steps_of_runbook runbook_id)) (\<lambda>steps.
         if steps = [] then ret (runbook, steps, None)
         else
           seq (lift_result (build_execution_plan
                  \<lparr>ri_id = rb_id runbook, ri_name = rb_name runbook, ri_scenario = rb_scenario runbook,
                   ri_rto_target_mins = rb_rto_target_mins runbook\<rparr>
                  (map step_of_row steps))) (\<lambda>plan.
           ret (runbook, steps, Some plan)))))"

text \<open>The \<open>trigger_reason\<close> column is a non-null string.\<close>

definition reason_column :: "json \<Rightarrow> string result" where
  "reason_column v = (case v of JStr s \<Rightarrow> Inr s | _ \<Rightarrow> Inl (ExternalError ''trigger_reason: not a string''))"

definition trigger_execution ::
    "uuid \<Rightarrow> dict \<Rightarrow> current_user \<Rightarrow> uuid \<Rightarrow> (nat \<Rightarrow> uuid) \<Rightarrow> int
       \<Rightarrow> (runbook_db, uuid \<times> uuid \<times> string \<times> nat) exec" where
  "trigger_execution runbook_id body user new_id step_ids now =
     seq (lift_result (require_permission (permissions user) ''test_runs:trigger'')) (\<lambda>_.
     seq (gets (find_runbook runbook_id user)) (\<lambda>found.
     case found of
       None \<Rightarrow> raise (HTTPException 404 ''Runbook not found'')
     | Some runbook \<Rightarrow>
         seq (gets (steps_of_runbook runbook_id)) (\<lambda>steps.
         if steps = [] then raise (HTTPException 400 ''Runbook has no steps configured'')
         else
           seq (lift_result (reason_column (dget_or body ''reason'' (JStr ''manual'')))) (\<lambda>reason.
           let execution =
             \<lparr>ex_id = new_id, ex_runbook_id = runbook_id, ex_org_id = user_org_id user,
              ex_triggered_by = user_id_attr user, ex_trigger_reason = reason, ex_status = ''pending'',
              ex_started_at = None, ex_completed_at = None, ex_actual_rto_mins = None,
              ex_target_rto_mins = rb_rto_target_mins runbook, ex_rto_met = None, ex_created_at = now\<rparr>;
             rows = map (\<lambda>(n, s).
               \<lparr>es_id = step_ids n, es_execution_id = new_id, es_step_id = sr_id s, es_seq = sr_seq s,
                es_name = sr_name s, es_step_type = sr_step_type s, es_status = ''pending'',
                es_started_at = None, es_completed_at = None, es_duration_secs = None, es_output = [],
                es_error = None\<rparr>) (enumerate 0 steps)
           in seq (update (\<lambda>db. db\<lparr>
                d_executions := d_executions db @ [execution],
                d_exec_steps := d_exec_steps db @ rows,
                d_runbooks := map (\<lambda>r. if r = runbook
                    then r\<lparr>rb_last_executed_at := Some now, rb_last_execution_status := Some ''running''\<rparr>
                    else r) (d_runbooks db)\<rparr>)) (\<lambda>_.
              ret (new_id, runbook_id, ex_status execution, length steps))))))"

definition list_executions :: "uuid \<Rightarrow> current_user \<Rightarrow> (runbook_db, execution_row list) exec" where
  "list_executions runbook_id user =
     seq (lift_result (require_permission (permissions user) ''test_runs:read'')) (\<lambda>_.
     gets (\<lambda>db. take 20 (sort_key (\<lambda>e. - ex_created_at e)
       (filter (\<lambda>e. ex_runbook_id e = runbook_id \<and> ex_org_id e = user_org_id user) (d_executions db)))))"

definition opt_json :: "('a \<Rightarrow> json) \<Rightarrow> 'a option \<Rightarrow> json" where
  "opt_json f v = (case v of None \<Rightarrow> JNull | Some x \<Rightarrow> f x)"

definition exec_step_json :: "(uuid \<Rightarrow> string) \<Rightarrow> (int \<Rightarrow> string) \<Rightarrow> exec_step_row \<Rightarrow> dict" where
  "exec_step_json uuid_str isoformat s =
     [(''id'', JStr (uuid_str (es_id s))), (''seq'', JInt (es_seq s)), (''name'', JStr (es_name s)),
      (''step_type'', JStr (es_step_type s)), (''status'', JStr (es_status s)),
      (''started_at'', opt_json (\<lambda>t. JStr (isoformat t)) (es_started_at s)),
      (''completed_at'', opt_json (\<lambda>t. JStr (isoformat t)) (es_completed_at s)),
      (''duration_secs'', opt_json JInt (es_duration_secs s)), (''output'', JObj (es_output s)),
      (''error'', opt_json JStr (es_error s))]"

definition get_execution_steps ::
    "(uuid \<Rightarrow> string) \<Rightarrow> (int \<Rightarrow> string) \<Rightarrow> uuid \<Rightarrow> current_user \<Rightarrow> (runbook_db, dict list) exec" where
  "get_execution_steps uuid_str isoformat execution_id user =
     seq (lift_result (require_permission (permissions user) ''test_runs:read'')) (\<lambda>_.
     gets (\<lambda>db. map (exec_step_json uuid_str isoformat)
       (sort_key es_seq (filter (\<lambda>s. es_execution_id s = execution_id) (d_exec_steps db)))))"

subsection \<open>Stored runbooks can be planned\<close>

definition runbooks_plannable :: "runbook_db \<Rightarrow> bool" where
  "runbooks_plannable db \<longleftrightarrow> (\<forall>i. orderable (map step_of_row (filter (\<lambda>s. sr_runbook_id s = i) (d_steps db))))"

text \<open>An identifier no stored step refers to, as \<open>uuid4\<close> draws it.\<close>

definition fresh_runbook :: "uuid \<Rightarrow> runbook_db \<Rightarrow> bool" where
  "fresh_runbook i db \<longleftrightarrow> i \<notin> sr_runbook_id ` set (d_steps db)"

lemma valid_order_cong:
  "map deps xs = map deps ys \<Longrightarrow> map st_seq xs = map st_seq ys \<Longrightarrow> valid_order xs \<longleftrightarrow> valid_order ys"
proof -
  assume d: "map deps xs = map deps ys" and q: "map st_seq xs = map st_seq ys"
  then have len: "length xs = length ys" by (metis length_map)
  have "deps (xs ! i) = deps (ys ! i)" if "i < length xs" for i
    using d that len by (metis nth_map)
  moreover have "st_seq ` set (take i xs) = st_seq ` set (take i ys)" for i
    using q by (metis set_map take_map)
  ultimately show ?thesis by (simp add: valid_order_def len)
qed

text \<open>Only sequence numbers and dependencies decide whether steps can be ordered.\<close>

lemma mset_map_preimage: "mset order = mset (map f xs) \<Longrightarrow> \<exists>ys. mset ys = mset xs \<and> order = map f ys"
proof (induction order arbitrary: xs)
  case (Cons a order)
  have "a \<in> set (map f xs)" using Cons.prems by (metis list.set_intros(1) set_mset_mset)
  then obtain x where x: "x \<in> set xs" "a = f x" by auto
  have split: "mset xs = add_mset x (mset (remove1 x xs))" using x(1) by simp
  have "mset (map f xs) = add_mset a (mset (map f (remove1 x xs)))"
    unfolding mset_map split image_mset_add_mset x(2) by (rule refl)
  then have "mset order = mset (map f (remove1 x xs))" using Cons.prems by simp
  from Cons.IH [OF this] obtain ys where ys: "mset ys = mset (remove1 x xs)" "order = map f ys" by blast
  have "mset (x # ys) = mset xs" by (simp only: mset.simps ys(1) split [symmetric])
  moreover have "a # order = map f (x # ys)"
    by (simp add: x(2) ys(2))
  ultimately show ?case by (intro exI [of _ "x # ys"] conjI)
qed simp

lemma orderable_map:
  assumes "\<And>x. st_seq (f x) = st_seq (g x)" and "\<And>x. deps (f x) = deps (g x)" and "orderable (map f xs)"
  shows "orderable (map g xs)"
proof -
  obtain order where o: "mset order = mset (map f xs)" "valid_order order"
    using assms(3) by (auto simp: orderable_def)
  obtain ys where ys: "mset ys = mset xs" "order = map f ys" using mset_map_preimage [OF o(1)] by blast
  have "valid_order (map g ys)"
    using o(2) valid_order_cong [of "map f ys" "map g ys"] assms(1,2) by (simp add: ys(2))
  moreover have "mset (map g ys) = mset (map g xs)" using ys(1) by simp
  ultimately show ?thesis unfolding orderable_def by blast
qed

lemma orderable_mset: "mset xs = mset ys \<Longrightarrow> orderable xs \<longleftrightarrow> orderable ys"
  by (simp add: orderable_def)

lemma orderable_Nil [simp]: "orderable []"
  by (simp add: orderable_def valid_order_def)

lemma check_order_orderable: "check_order ss = Inr () \<Longrightarrow> orderable (map step_of_request ss)"
  by (cases "resolve_execution_order (map step_of_request ss)")
    (auto simp: check_order_def split: if_splits py_exn.splits dest: resolve_orderable)

lemma new_rows: "map (step_of_row \<circ> (\<lambda>(n, s). new_step_row i (ids n) s)) (enumerate n ss)
    = map (\<lambda>s. (step_of_request s)\<lparr>st_workload_id := None\<rparr>) ss"
  by (induction ss arbitrary: n) (auto simp: step_of_row_def new_step_row_def step_of_request_def)

lemma new_rows_orderable:
  "check_order ss = Inr () \<Longrightarrow> orderable (map step_of_row (map (\<lambda>(n, s). new_step_row i (ids n) s) (enumerate 0 ss)))"
  using orderable_map [of step_of_request "\<lambda>s. (step_of_request s)\<lparr>st_workload_id := None\<rparr>" ss]
    check_order_orderable [of ss]
  by (simp add: new_rows step_of_request_def deps_def)

lemma new_rows_ids: "sr_runbook_id ` set (map (\<lambda>(n, s). new_step_row i (ids n) s) (enumerate n ss)) \<subseteq> {i}"
  by (auto simp: new_step_row_def)

lemma plannable_insert:
  assumes "runbooks_plannable db" and "fresh_runbook i db" and "check_order ss = Inr ()"
  shows "runbooks_plannable (db\<lparr>d_runbooks := rs,
      d_steps := d_steps db @ map (\<lambda>(n, s). new_step_row i (ids n) s) (enumerate 0 ss)\<rparr>)"
  unfolding runbooks_plannable_def
proof
  fix j
  let ?new = "map (\<lambda>(n, s). new_step_row i (ids n) s) (enumerate 0 ss)"
  have old: "orderable (map step_of_row (filter (\<lambda>s. sr_runbook_id s = j) (d_steps db)))"
    using assms(1) by (simp add: runbooks_plannable_def)
  show "orderable (map step_of_row (filter (\<lambda>s. sr_runbook_id s = j)
      (d_steps (db\<lparr>d_runbooks := rs, d_steps := d_steps db @ ?new\<rparr>))))"
  proof (cases "j = i")
    case True
    then have "filter (\<lambda>s. sr_runbook_id s = j) (d_steps db) = []"
      using assms(2) by (auto simp: fresh_runbook_def filter_empty_conv)
    moreover have "filter (\<lambda>s. sr_runbook_id s = j) ?new = ?new"
      unfolding filter_id_conv using True new_rows_ids [of i ids 0 ss] by blast
    ultimately show ?thesis using new_rows_orderable [OF assms(3)] by simp
  next
    case False
    have "filter (\<lambda>s. sr_runbook_id s = j) ?new = []"
      unfolding filter_empty_conv using False new_rows_ids [of i ids 0 ss] by blast
    with old show ?thesis by simp
  qed
qed

lemma permission_result:
  "lift_result (require_permission ps p) =
     (if p \<in> set ps then ret () else raise (HTTPException 403 (''Permission required: '' @ p)))"
  by (rule ext) (simp add: exec_simps require_permission_cases)

lemma create_runbook_plannable:
  assumes "runbooks_plannable db" and "fresh_runbook new_id db"
  shows "runbooks_plannable (snd (create_runbook body user new_id ids now db))"
  using assms(1)
  by (auto simp: create_runbook_def permission_result exec_simps Let_def split: sum.splits
      intro!: plannable_insert [OF assms])

lemma trigger_execution_steps: "d_steps (snd (trigger_execution i body user new_id ids now db)) = d_steps db"
  by (auto simp: trigger_execution_def permission_result exec_simps Let_def split: sum.splits option.splits)

lemma plan_of_orderable: "orderable steps \<Longrightarrow> \<exists>plan. build_execution_plan rb steps = Inr plan"
  by (cases rule: resolve_cases [of steps]) (auto simp: build_execution_plan_def)

lemma stored_steps_plan:
  assumes "runbooks_plannable db"
  shows "\<exists>plan. build_execution_plan rb (map step_of_row (steps_of_runbook i db)) = Inr plan"
proof -
  have "orderable (map step_of_row (filter (\<lambda>s. sr_runbook_id s = i) (d_steps db)))"
    using assms by (simp add: runbooks_plannable_def)
  moreover have "mset (map step_of_row (steps_of_runbook i db))
      = mset (map step_of_row (filter (\<lambda>s. sr_runbook_id s = i) (d_steps db)))"
    by (simp add: steps_of_runbook_def)
  ultimately show ?thesis using orderable_mset plan_of_orderable by blast
qed

subsection \<open>A database built by the handlers\<close>

inductive reachable :: "runbook_db \<Rightarrow> bool" where
  empty: "reachable \<lparr>d_runbooks = [], d_steps = [], d_executions = [], d_exec_steps = []\<rparr>"
| create: "reachable db \<Longrightarrow> fresh_runbook new_id db \<Longrightarrow> reachable (snd (create_runbook body user new_id ids now db))"
| trigger: "reachable db \<Longrightarrow> reachable (snd (trigger_execution i payload user new_id ids now db))"

lemma reachable_plannable: "reachable db \<Longrightarrow> runbooks_plannable db"
proof (induction rule: reachable.induct)
  case empty
  then show ?case by (simp add: runbooks_plannable_def orderable_def valid_order_def)
next
  case (create db new_id body user ids now)
  then show ?case using create_runbook_plannable by blast
next
  case (trigger db i payload user new_id ids now)
  then show ?case by (simp add: runbooks_plannable_def trigger_execution_steps)
qed

subsection \<open>Properties\<close>

text \<open>In every database the handlers can build, reading a runbook either refuses the user,
  or does not find it, or returns it, with a plan whenever it has steps; the planner's errors
  never reach the reader, because \<open>create_runbook\<close> stores no steps it could not order.\<close>

theorem get_runbook_never_fails_to_plan:
  assumes "reachable db"
  shows "(\<exists>m. get_runbook i user db = (Inl (HTTPException 403 m), db)) \<or>
     get_runbook i user db = (Inl (HTTPException 404 ''Runbook not found''), db) \<or>
     (\<exists>rb plan. get_runbook i user db = (Inr (rb, steps_of_runbook i db, plan), db) \<and>
        rb_id rb = i \<and> rb_org_id rb = user_org_id user \<and>
        (plan = None \<longleftrightarrow> steps_of_runbook i db = []))"
proof (cases "''workloads:read'' \<in> set (permissions user)")
  case False
  then show ?thesis by (simp add: get_runbook_def permission_result exec_simps)
next
  case perm: True
  show ?thesis
  proof (cases "find_runbook i user db")
    case None
    with perm show ?thesis by (simp add: get_runbook_def permission_result exec_simps)
  next
    case (Some rb)
    then have rb: "rb_id rb = i \<and> rb_org_id rb = user_org_id user" by (auto simp: find_runbook_def find_Some_iff)
    obtain plan where "build_execution_plan
        \<lparr>ri_id = rb_id rb, ri_name = rb_name rb, ri_scenario = rb_scenario rb, ri_rto_target_mins = rb_rto_target_mins rb\<rparr>
        (map step_of_row (steps_of_runbook i db)) = Inr plan"
      using stored_steps_plan [OF reachable_plannable [OF assms]] by blast
    with perm Some rb show ?thesis by (simp add: get_runbook_def permission_result exec_simps)
  qed
qed

definition demo_runbook_db :: runbook_db where
  "demo_runbook_db = snd (create_runbook
     \<lparr>rq_name = ''failover'', rq_description = [], rq_scenario = ''custom'', rq_rto_target_mins = None, rq_tags = [],
      rq_steps = [\<lparr>sq_seq = 2, sq_name = ''check'', sq_step_type = ''health_check'', sq_workload_id = None,
                   sq_depends_on_seq = [1], sq_parallel = False, sq_timeout_mins = 5, sq_config = [], sq_on_failure = ''stop''\<rparr>,
                  \<lparr>sq_seq = 1, sq_name = ''pause'', sq_step_type = ''wait'', sq_workload_id = None,
                   sq_depends_on_seq = [], sq_parallel = False, sq_timeout_mins = 5, sq_config = [], sq_on_failure = ''stop''\<rparr>]\<rparr>
     \<lparr>user_sub = ''a'', user_org_id = 1, user_email = [], user_role = ''admin''\<rparr> 7 (\<lambda>n. 100 + n) 0
     \<lparr>d_runbooks = [], d_steps = [], d_executions = [], d_exec_steps = []\<rparr>)"

lemma demo_reachable: "reachable demo_runbook_db"
  unfolding demo_runbook_db_def
  by (rule reachable.create [OF reachable.empty]) (simp add: fresh_runbook_def)

definition demo_viewer :: current_user where
  "demo_viewer = \<lparr>user_sub = ''a'', user_org_id = 1, user_email = [], user_role = ''viewer''\<rparr>"

lemma demo_get: "(case fst (get_runbook 7 demo_viewer demo_runbook_db) of Inl _ \<Rightarrow> False | Inr (_, _, p) \<Rightarrow> p \<noteq> None)"
  by code_simp

theorem get_runbook_never_fails_to_plan_witness:
  "\<exists>rb plan. get_runbook 7 demo_viewer demo_runbook_db
     = (Inr (rb, steps_of_runbook 7 demo_runbook_db, Some plan), demo_runbook_db)"
  using get_runbook_never_fails_to_plan [OF demo_reachable, of 7 demo_viewer] demo_get by auto

text \<open>
  The workload of a step is stored as the request names it: the route never looks the workload up, so
  one of another organisation is accepted like an own one.
\<close>

lemma create_runbook_stores_any_workload:
  assumes "create_runbook body user new_id ids now db = (Inr r, db')"
  shows "\<exists>rows. d_steps db' = d_steps db @ rows \<and> map sr_workload_id rows = map sq_workload_id (rq_steps body)"
proof -
  have "map sr_workload_id (map (\<lambda>(n, s). new_step_row new_id (ids n) s) (enumerate k ss)) = map sq_workload_id ss" for k ss
    by (induction ss arbitrary: k) (simp_all add: new_step_row_def)
  then show ?thesis
    using assms by (auto simp: create_runbook_def permission_result exec_simps Let_def split: sum.splits if_splits)
qed

text \<open>C13: the steps of an execution leak across tenants: a user holding the read permission gets
  every step of an execution of another organisation, an execution which \<open>list_executions\<close>
  never shows to that user.\<close>

theorem execution_steps_leak:
  assumes "ex \<in> set (d_executions db)" and "ex_org_id ex \<noteq> user_org_id user"
    and "es \<in> set (d_exec_steps db)" and "es_execution_id es = ex_id ex"
    and "''test_runs:read'' \<in> set (permissions user)"
  shows "(\<exists>steps. get_execution_steps uuid_str isof (ex_id ex) user db = (Inr steps, db) \<and>
            exec_step_json uuid_str isof es \<in> set steps) \<and>
     (\<exists>executions. list_executions (ex_runbook_id ex) user db = (Inr executions, db) \<and> ex \<notin> set executions)"
  using assms
  by (auto simp: get_execution_steps_def list_executions_def permission_result exec_simps dest: in_set_takeD)

definition demo_execution_db :: runbook_db where
  "demo_execution_db = snd (trigger_execution 7 []
     \<lparr>user_sub = ''a'', user_org_id = 1, user_email = [], user_role = ''admin''\<rparr> 50 (\<lambda>n. 200 + n) 9 demo_runbook_db)"

definition outsider :: current_user where
  "outsider = \<lparr>user_sub = ''z'', user_org_id = 2, user_email = [], user_role = ''viewer''\<rparr>"

theorem execution_steps_leak_witness:
  "\<exists>steps. get_execution_steps (\<lambda>_. []) (\<lambda>_. []) 50 outsider demo_execution_db = (Inr steps, demo_execution_db) \<and> steps \<noteq> []"
proof -
  have "map ex_id (d_executions demo_execution_db) = [50]" "map ex_org_id (d_executions demo_execution_db) = [1]"
    by code_simp+
  then obtain ex where ex: "ex \<in> set (d_executions demo_execution_db)" "ex_id ex = 50" "ex_org_id ex \<noteq> user_org_id outsider"
    by (auto simp: outsider_def)
  have "map es_execution_id (d_exec_steps demo_execution_db) = [50, 50]" by code_simp
  then have "50 \<in> es_execution_id ` set (d_exec_steps demo_execution_db)"
    by (metis list.set_intros(1) set_map)
  then obtain es where 50: "50 = es_execution_id es" and mem: "es \<in> set (d_exec_steps demo_execution_db)"
    by (rule imageE)
  have es: "es \<in> set (d_exec_steps demo_execution_db)" "es_execution_id es = ex_id ex"
    by (rule mem) (simp only: ex(2) 50 [symmetric])
  have "''test_runs:read'' \<in> set (permissions outsider)" by code_simp
  from conjunct1 [OF execution_steps_leak [OF ex(1,3) es this, of "\<lambda>_. []" "\<lambda>_. []"]]
  show ?thesis
  proof (elim exE conjE)
    fix steps
    assume "get_execution_steps (\<lambda>_. []) (\<lambda>_. []) (ex_id ex) outsider demo_execution_db = (Inr steps, demo_execution_db)"
      and mem: "exec_step_json (\<lambda>_. []) (\<lambda>_. []) es \<in> set steps"
    then have "get_execution_steps (\<lambda>_. []) (\<lambda>_. []) 50 outsider demo_execution_db = (Inr steps, demo_execution_db)"
      by (simp only: ex(2))
    moreover have "steps \<noteq> []" using mem by force
    ultimately show ?thesis by (intro exI conjI)
  qed
qed

end
