(* ===== verification/Temporal.thy ===== *)
theory Temporal
  imports Prelude
begin

text \<open>
  How Temporal executes an activity for a workflow: up to \<open>maximum_attempts\<close> times, in the
  state the earlier attempts left, and the last exception is what the workflow gets. Delays
  between attempts do not change what is computed and are not modelled.
\<close>

fun attempts :: "nat \<Rightarrow> ('s, 'a) exec \<Rightarrow> ('s, 'a) exec" where
  "attempts 0 m = m"
| "attempts (Suc 0) m = m"
| "attempts (Suc (Suc n)) m = try_except m (\<lambda>_. attempts (Suc n) m)"

definition returns :: "('s, 'a) exec \<Rightarrow> bool" where
  "returns m \<longleftrightarrow> (\<forall>s. \<exists>x s'. m s = (Inr x, s'))"

lemma attempts_returns: "(\<And>s. \<exists>x s'. m s = (Inr x, s')) \<Longrightarrow> \<exists>x s'. attempts n m s = (Inr x, s')"
proof (induction n m arbitrary: s rule: attempts.induct)
  case (3 n m)
  obtain x s' where "m s = (Inr x, s')" using "3.prems" by blast
  then show ?case by (simp add: try_except_def)
qed auto

lemma attempts_raises: "(\<And>s. \<exists>e s'. m s = (Inl e, s')) \<Longrightarrow> \<exists>e s'. attempts n m s = (Inl e, s')"
proof (induction n m arbitrary: s rule: attempts.induct)
  case (3 n m)
  obtain e s' where "m s = (Inl e, s')" using "3.prems" by blast
  then show ?case using "3.IH" [OF "3.prems", of s'] by (simp add: try_except_def)
qed auto

lemma attempts_first: "m s = (Inr x, s') \<Longrightarrow> attempts n m s = (Inr x, s')"
  by (cases "(n, m)" rule: attempts.cases) (simp_all add: try_except_def)

end
