(* ===== verification/RunbookWorkflow.thy ===== *)
theory RunbookWorkflow
  imports Runbooks Temporal
begin

text \<open>
  \<open>workflows/runbook_workflow.py\<close>, the appliance's side of a runbook: the four activities
  and the workflow that runs them. Steps are the JSON dictionaries the API returns. HTTP, the
  clocks, \<open>asyncio.sleep\<close>, \<open>subprocess.run\<close> and report delivery are the record
  \<open>rb_services\<close>; a GET or POST there includes \<open>raise_for_status\<close> and \<open>json\<close>, a
  PATCH is sent and its status ignored, as in the code.
\<close>

record 's rb_services =
  rb_get :: "string \<Rightarrow> ('s, json) exec"
  rb_post :: "string \<Rightarrow> json \<Rightarrow> ('s, json) exec"
  rb_patch :: "string \<Rightarrow> json \<Rightarrow> ('s, unit) exec"
  rb_sleep :: "rat \<Rightarrow> ('s, unit) exec"
  rb_deliver :: "string \<Rightarrow> json \<Rightarrow> json \<Rightarrow> json \<Rightarrow> ('s, unit) exec"
  rb_subprocess :: "json \<Rightarrow> json \<Rightarrow> ('s, int \<times> string \<times> string) exec"
  rb_monotonic :: "'s \<Rightarrow> rat"
  rb_time :: "'s \<Rightarrow> rat"
  rb_activity_error :: "py_exn \<Rightarrow> string"

subsection \<open>JSON helpers\<close>

text \<open>\<open>v.get(k, d)\<close> on a value that may not be a dictionary.\<close>

definition jget :: "json \<Rightarrow> string \<Rightarrow> json \<Rightarrow> json result" where
  "jget v k d = (case v of
     JObj o1 \<Rightarrow> Inr (dget_or o1 k d)
   | _ \<Rightarrow> Inl (AttributeError (repr_str (type_name v) @ '' object has no attribute '' @ repr_str ''get'')))"

definition step_config :: "dict \<Rightarrow> json" where
  "step_config step = dget_or step ''config'' (JObj [])"

text \<open>\<open>asyncio.sleep(minutes * 60)\<close>: what the multiplication and the sleep accept.\<close>

definition sleep_seconds :: "json \<Rightarrow> rat result" where
  "sleep_seconds v = (case v of
     JInt n \<Rightarrow> Inr (of_int (n * 60))
   | JFloat x \<Rightarrow> Inr (fmul x 60)
   | JBool b \<Rightarrow> Inr (if b then 60 else 0)
   | JStr _ \<Rightarrow> Inl (TypeError (repr_str ''<='' @ '' not supported between instances of '' @ repr_str ''str'' @ '' and '' @ repr_str ''int''))
   | JArr _ \<Rightarrow> Inl (TypeError (repr_str ''<='' @ '' not supported between instances of '' @ repr_str ''list'' @ '' and '' @ repr_str ''int''))
   | _ \<Rightarrow> Inl (TypeError (''unsupported operand type(s) for *: '' @ repr_str (type_name v) @ '' and '' @ repr_str ''int'')))"

subsection \<open>The activities\<close>

definition api_path :: "string \<Rightarrow> string" where
  "api_path execution_id = ''/v1/runbooks/executions/'' @ execution_id"

definition fetch_execution_plan :: "'s rb_services \<Rightarrow> string \<Rightarrow> ('s, dict) exec" where
  "fetch_execution_plan sv execution_id =
     seq (rb_get sv (api_path execution_id @ ''/steps'')) (\<lambda>steps.
     seq (rb_get sv (api_path execution_id)) (\<lambda>ex.
     ret [(''execution'', ex), (''steps'', steps)]))"

definition completed_result :: "'s rb_services \<Rightarrow> rat \<Rightarrow> dict \<Rightarrow> ('s, dict) exec" where
  "completed_result sv start output =
     gets (\<lambda>s. [(''status'', JStr ''completed''), (''output'', JObj output),
                (''duration_secs'', JInt (py_round (fsub (rb_monotonic sv s) start)))])"

definition failed_now :: "string \<Rightarrow> dict" where
  "failed_now msg = [(''status'', JStr ''failed''), (''error'', JStr msg)]"

definition recover_workload_step ::
    "'s rb_services \<Rightarrow> string \<Rightarrow> dict \<Rightarrow> rat \<Rightarrow> ('s, dict) exec" where
  "recover_workload_step sv execution_id step start =
     seq (lift_result (jget (step_config step) ''workload_id'' JNull)) (\<lambda>configured.
     let workload_id = json_or configured (dget step ''workload_id'') in
     if \<not> truthy workload_id then ret (failed_now ''No workload_id configured for recover_workload step'')
     else
       seq (rb_post sv ''/v1/test-runs''
              (JObj [(''workload_id'', workload_id), (''trigger'', JStr ''runbook''),
                     (''execution_id'', JStr execution_id)])) (\<lambda>run.
       seq (lift_result (jget run ''id'' JNull)) (\<lambda>run_id.
       seq (lift_result (jget run ''rto_actual_mins'' JNull)) (\<lambda>rto.
       completed_result sv start [(''test_run_id'', run_id), (''rto_mins'', rto)]))))"

definition notify_step :: "'s rb_services \<Rightarrow> dict \<Rightarrow> rat \<Rightarrow> ('s, dict) exec" where
  "notify_step sv step start =
     seq (lift_result (jget (step_config step) ''channel'' (JStr ''slack''))) (\<lambda>channel.
     seq (lift_result (jget (step_config step) ''destination'' (JStr []))) (\<lambda>destination.
     seq (lift_result (dsub step ''name'')) (\<lambda>name.
     seq (lift_result (jget (step_config step) ''message''
            (JStr (''DR Runbook step completed: '' @ py_str name)))) (\<lambda>message.
     seq (if truthy destination
          then rb_deliver sv (''R3VP Runbook: '' @ py_str name) message channel destination
          else ret ()) (\<lambda>_.
     completed_result sv start [(''notified'', JBool (truthy destination))])))))"

definition wait_step :: "'s rb_services \<Rightarrow> dict \<Rightarrow> rat \<Rightarrow> ('s, dict) exec" where
  "wait_step sv step start =
     seq (lift_result (jget (step_config step) ''duration_mins'' (JInt 1))) (\<lambda>duration_mins.
     seq (lift_result (sleep_seconds duration_mins)) (\<lambda>secs.
     seq (rb_sleep sv secs) (\<lambda>_.
     completed_result sv start [(''waited_mins'', duration_mins)])))"

definition run_script_step :: "'s rb_services \<Rightarrow> dict \<Rightarrow> rat \<Rightarrow> ('s, dict) exec" where
  "run_script_step sv step start =
     seq (lift_result (jget (step_config step) ''script'' (JStr []))) (\<lambda>script.
     seq (lift_result (jget (step_config step) ''interpreter'' (JStr ''bash''))) (\<lambda>interpreter.
     if \<not> truthy script then ret (failed_now ''No script configured'')
     else
       seq (rb_subprocess sv interpreter script) (\<lambda>(returncode, stdout, stderr).
       if returncode \<noteq> 0
       then gets (\<lambda>s. [(''status'', JStr ''failed''), (''error'', JStr (take 500 stderr)),
                        (''duration_secs'', JInt (py_round (fsub (rb_monotonic sv s) start)))])
       else completed_result sv start [(''stdout'', JStr (take 1000 stdout))])))"

definition execute_step :: "'s rb_services \<Rightarrow> string \<Rightarrow> dict \<Rightarrow> ('s, dict) exec" where
  "execute_step sv execution_id step =
     seq (lift_result (dsub step ''step_type'')) (\<lambda>step_type.
     seq (gets (rb_monotonic sv)) (\<lambda>start.
     try_except
       (if step_type = JStr ''recover_workload'' then recover_workload_step sv execution_id step start
        else if step_type = JStr ''health_check'' then
          seq (rb_sleep sv 5) (\<lambda>_. completed_result sv start [(''checks_passed'', JBool True)])
        else if step_type = JStr ''notify'' then notify_step sv step start
        else if step_type = JStr ''wait'' then wait_step sv step start
        else if step_type = JStr ''manual_gate'' then
          seq (lift_result (jget (step_config step) ''instructions'' (JStr ''Manual approval required''))) (\<lambda>instructions.
          ret [(''status'', JStr ''waiting_gate''), (''output'', JObj [(''instructions'', instructions)]),
               (''duration_secs'', JInt 0)])
        else if step_type = JStr ''run_script'' then run_script_step sv step start
        else ret (failed_now (''Unknown step type: '' @ py_str step_type)))
       (\<lambda>exc. gets (\<lambda>s. [(''status'', JStr ''failed''), (''error'', JStr (exn_text exc)),
                        (''duration_secs'', JInt (py_round (fsub (rb_monotonic sv s) start)))]))))"

definition update_step_status :: "'s rb_services \<Rightarrow> string \<Rightarrow> string \<Rightarrow> dict \<Rightarrow> ('s, unit) exec" where
  "update_step_status sv execution_id step_id result =
     rb_patch sv (api_path execution_id @ ''/steps/'' @ step_id) (JObj result)"

definition finalize_execution :: "'s rb_services \<Rightarrow> string \<Rightarrow> string \<Rightarrow> int \<Rightarrow> ('s, unit) exec" where
  "finalize_execution sv execution_id status actual_rto_mins =
     rb_patch sv (api_path execution_id)
       (JObj [(''status'', JStr status), (''actual_rto_mins'', JInt actual_rto_mins)])"

subsection \<open>The workflow\<close>

text \<open>The workflow's state: what it asked Temporal to do to which step, and the world.\<close>

datatype step_call = Executed dict dict | Updated dict dict | Finalized string

record 's rb_state =
  rb_log :: "step_call list"
  rb_world :: 's

definition rb_activity :: "'s rb_services \<Rightarrow> nat \<Rightarrow> ('a \<Rightarrow> step_call list) \<Rightarrow> ('s, 'a) exec \<Rightarrow> ('s rb_state, 'a) exec" where
  "rb_activity sv n entries m w =
     (case attempts n m (rb_world w) of
        (Inr x, s') \<Rightarrow> (Inr x, w\<lparr>rb_log := rb_log w @ entries x, rb_world := s'\<rparr>)
      | (Inl e, s') \<Rightarrow> (Inl (ActivityError (rb_activity_error sv e)), w\<lparr>rb_world := s'\<rparr>))"

definition RETRY_ATTEMPTS :: nat where
  "RETRY_ATTEMPTS = 2"

definition NO_RETRY_ATTEMPTS :: nat where
  "NO_RETRY_ATTEMPTS = 1"

text \<open>\<open>timedelta(minutes=step.get("timeout_mins", 60) + 5)\<close> needs a number.\<close>

definition step_timeout :: "dict \<Rightarrow> unit result" where
  "step_timeout step = (case dget_or step ''timeout_mins'' (JInt 60) of
     JInt _ \<Rightarrow> Inr () | JFloat _ \<Rightarrow> Inr () | JBool _ \<Rightarrow> Inr ()
   | JStr _ \<Rightarrow> Inl (TypeError (''can only concatenate str (not '' @ quote ''int'' @ '') to str''))
   | JArr _ \<Rightarrow> Inl (TypeError (''can only concatenate list (not '' @ quote ''int'' @ '') to list''))
   | v \<Rightarrow> Inl (TypeError (''unsupported operand type(s) for +: '' @ repr_str (type_name v) @ '' and '' @ repr_str ''int'')))"

fun run_steps :: "'s rb_services \<Rightarrow> string \<Rightarrow> dict list \<Rightarrow> ('s rb_state, string) exec" where
  "run_steps sv execution_id [] = ret ''completed''"
| "run_steps sv execution_id (step # steps) =
     seq (lift_result (dsub step ''status'')) (\<lambda>status.
     if status = JStr ''completed'' \<or> status = JStr ''skipped'' then run_steps sv execution_id steps
     else
       seq (lift_result (step_timeout step)) (\<lambda>_.
       seq (rb_activity sv NO_RETRY_ATTEMPTS (\<lambda>result. [Executed step result])
              (execute_step sv execution_id step)) (\<lambda>result.
       seq (lift_result (dsub step ''id'')) (\<lambda>step_id.
       seq (rb_activity sv RETRY_ATTEMPTS (\<lambda>_. [Updated step result])
              (update_step_status sv execution_id (py_str step_id) result)) (\<lambda>_.
       seq (lift_result (dsub result ''status'')) (\<lambda>outcome.
       if outcome = JStr ''failed'' then
         (let on_failure = dget_or step ''on_failure'' (JStr ''stop'') in
          if on_failure = JStr ''stop'' then ret ''failed''
          else if on_failure = JStr ''rollback'' then ret ''rolled_back''
          else run_steps sv execution_id steps)
       else run_steps sv execution_id steps))))))"

text \<open>\<open>sorted(plan["steps"], key=lambda s: s["seq"])\<close>, for the integer column \<open>seq\<close>.\<close>

definition seq_key :: "dict \<Rightarrow> (int \<times> dict) result" where
  "seq_key step = and_then (dsub step ''seq'') (\<lambda>v.
     case v of JInt n \<Rightarrow> Inr (n, step) | _ \<Rightarrow> Inl (TypeError ''seq''))"

definition sorted_steps :: "dict list \<Rightarrow> dict list result" where
  "sorted_steps steps = and_then (map_result seq_key steps) (\<lambda>ks. Inr (map snd (sort_key fst ks)))"

definition dicts_of :: "json \<Rightarrow> dict list result" where
  "dicts_of v = (case v of
     JArr xs \<Rightarrow> map_result (\<lambda>x. case x of JObj d \<Rightarrow> Inr d | _ \<Rightarrow> Inl (TypeError ''step'')) xs
   | _ \<Rightarrow> Inl (TypeError ''steps''))"

definition run_runbook :: "'s rb_services \<Rightarrow> string \<Rightarrow> ('s rb_state, string \<times> int) exec" where
  "run_runbook sv execution_id =
     seq (gets (\<lambda>w. rb_time sv (rb_world w))) (\<lambda>start_time.
     seq (rb_activity sv RETRY_ATTEMPTS (\<lambda>_. []) (fetch_execution_plan sv execution_id)) (\<lambda>plan.
     seq (lift_result (and_then (and_then (dsub plan ''steps'') dicts_of) sorted_steps)) (\<lambda>steps.
     seq (run_steps sv execution_id steps) (\<lambda>overall_status.
     seq (gets (\<lambda>w. rb_time sv (rb_world w))) (\<lambda>t.
     let actual_rto = py_round (fdiv (fsub t start_time) 60) in
     seq (rb_activity sv RETRY_ATTEMPTS (\<lambda>_. [Finalized overall_status])
            (finalize_execution sv execution_id overall_status actual_rto)) (\<lambda>_.
     ret (overall_status, actual_rto)))))))"

subsection \<open>What a run did\<close>

text \<open>The workflow's reading of a step's result, and the steps it has to run.\<close>

definition verdict :: "dict \<Rightarrow> dict \<Rightarrow> string option" where
  "verdict step result =
     (if dget result ''status'' = JStr ''failed'' then
        (let on_failure = dget_or step ''on_failure'' (JStr ''stop'') in
         if on_failure = JStr ''stop'' then Some ''failed''
         else if on_failure = JStr ''rollback'' then Some ''rolled_back'' else None)
      else None)"

definition is_pending :: "dict \<Rightarrow> bool" where
  "is_pending step \<longleftrightarrow> dget step ''status'' \<noteq> JStr ''completed'' \<and> dget step ''status'' \<noteq> JStr ''skipped''"

definition step_entries :: "(dict \<times> dict) list \<Rightarrow> step_call list" where
  "step_entries exs = concat (map (\<lambda>(s, r). [Executed s r, Updated s r]) exs)"

text \<open>
  \<open>run_account steps exs status\<close>: \<open>exs\<close> are the steps run with their results; they are the
  pending steps in order, all of them when none failed for good, otherwise up to and including
  the first that did, which gives the status.
\<close>

inductive run_account :: "dict list \<Rightarrow> (dict \<times> dict) list \<Rightarrow> string \<Rightarrow> bool" where
  Done: "run_account [] [] ''completed''"
| Skip: "\<not> is_pending step \<Longrightarrow> run_account steps exs st \<Longrightarrow> run_account (step # steps) exs st"
| Stop: "is_pending step \<Longrightarrow> verdict step r = Some st \<Longrightarrow> run_account (step # steps) [(step, r)] st"
| Continue: "is_pending step \<Longrightarrow> verdict step r = None \<Longrightarrow> run_account steps exs st
    \<Longrightarrow> run_account (step # steps) ((step, r) # exs) st"

inductive_cases run_account_NilE: "run_account [] exs st"
inductive_cases run_account_ConsE: "run_account (step # steps) exs st"

lemma dsub_dget: "dsub d k = Inr v \<Longrightarrow> dget d k = v"
  by (auto simp: dsub_def dget_def split: option.splits)

lemma rb_activity_Inr:
  "rb_activity sv n entries m w = (Inr x, w') \<Longrightarrow> \<exists>s'. w' = w\<lparr>rb_log := rb_log w @ entries x, rb_world := s'\<rparr>"
  by (auto simp: rb_activity_def split: prod.splits sum.splits)

lemma seq_InrE:
  assumes "seq m f s = (Inr y, s'')"
  obtains x s' where "m s = (Inr x, s')" "f x s' = (Inr y, s'')"
  using assms by (auto simp: seq_def split: prod.splits sum.splits)

lemma lift_seq_Inr: "seq (lift_result r) f s = (Inr y, s'') \<longleftrightarrow> (\<exists>x. r = Inr x \<and> f x s = (Inr y, s''))"
  by (auto simp: exec_simps split: sum.splits)

lemma lift_Inr: "lift_result r s = (Inr x, s') \<longleftrightarrow> r = Inr x \<and> s' = s"
  by (auto simp: lift_result_def)

lemma run_steps_account:
  "run_steps sv eid steps w = (Inr st, w') \<Longrightarrow>
     \<exists>exs. run_account steps exs st \<and> rb_log w' = rb_log w @ step_entries exs"
proof (induction steps arbitrary: w)
  case Nil
  then show ?case by (auto simp: ret_def step_entries_def intro: run_account.Done)
next
  case (Cons step steps)
  obtain status where status: "dsub step ''status'' = Inr status"
    using Cons.prems by (auto simp: lift_seq_Inr)
  show ?case
  proof (cases "is_pending step")
    case False
    then have "run_steps sv eid steps w = (Inr st, w')"
      using Cons.prems dsub_dget [OF status] status by (auto simp: lift_seq_Inr is_pending_def)
    from Cons.IH [OF this] show ?thesis using run_account.Skip [OF False] by blast
  next
    case True
    then have "\<not> (status = JStr ''completed'' \<or> status = JStr ''skipped'')"
      using dsub_dget [OF status] by (simp add: is_pending_def)
    with Cons.prems obtain result w1 step_id w2 outcome where
      ex: "rb_activity sv NO_RETRY_ATTEMPTS (\<lambda>result. [Executed step result]) (execute_step sv eid step) w = (Inr result, w1)"
      and up: "rb_activity sv RETRY_ATTEMPTS (\<lambda>_. [Updated step result])
              (update_step_status sv eid (py_str step_id) result) w1 = (Inr (), w2)"
      and out: "dsub result ''status'' = Inr outcome"
      and rest: "(if outcome = JStr ''failed'' then
         (let on_failure = dget_or step ''on_failure'' (JStr ''stop'') in
          if on_failure = JStr ''stop'' then ret ''failed''
          else if on_failure = JStr ''rollback'' then ret ''rolled_back''
          else run_steps sv eid steps)
       else run_steps sv eid steps) w2 = (Inr st, w')"
      by (auto simp: lift_seq_Inr lift_Inr status elim!: seq_InrE)
    have log: "rb_log w2 = rb_log w @ [Executed step result, Updated step result]"
      using rb_activity_Inr [OF ex] rb_activity_Inr [OF up] by auto
    have outcome: "dget result ''status'' = outcome" using dsub_dget [OF out] .
    show ?thesis
    proof (cases "verdict step result")
      case None
      then have "run_steps sv eid steps w2 = (Inr st, w')"
        using rest outcome by (auto simp: verdict_def Let_def split: if_splits)
      from Cons.IH [OF this] obtain exs where "run_account steps exs st" "rb_log w' = rb_log w2 @ step_entries exs"
        by blast
      then show ?thesis
        using run_account.Continue [OF True None] log by (force simp: step_entries_def)
    next
      case (Some v)
      then have "st = v" "w' = w2"
        using rest outcome by (auto simp: verdict_def Let_def ret_def split: if_splits)
      then show ?thesis using run_account.Stop [OF True Some] log by (force simp: step_entries_def)
    qed
  qed
qed

lemma account_prefix: "run_account steps exs st \<Longrightarrow> \<exists>rest. filter is_pending steps = map fst exs @ rest"
  by (induction rule: run_account.induct) auto

lemma account_completed:
  "run_account steps exs st \<Longrightarrow> st = ''completed'' \<Longrightarrow>
     map fst exs = filter is_pending steps \<and> (\<forall>(s, r) \<in> set exs. verdict s r = None)"
  by (induction rule: run_account.induct) (auto simp: verdict_def Let_def split: if_splits)

lemma account_stopped:
  "run_account steps exs st \<Longrightarrow> st \<noteq> ''completed'' \<Longrightarrow>
     exs \<noteq> [] \<and> (\<forall>(s, r) \<in> set (butlast exs). verdict s r = None) \<and> (case last exs of (s, r) \<Rightarrow> verdict s r = Some st)"
  by (induction rule: run_account.induct) auto

subsection \<open>Steps as the API serves them\<close>

lemma api_row_fields:
  "dsub (exec_step_json us iso row) ''status'' = Inr (JStr (es_status row))"
  "dsub (exec_step_json us iso row) ''step_type'' = Inr (JStr (es_step_type row))"
  "dsub (exec_step_json us iso row) ''id'' = Inr (JStr (us (es_id row)))"
  "step_config (exec_step_json us iso row) = JObj []"
  "dget (exec_step_json us iso row) ''workload_id'' = JNull"
  "dget_or (exec_step_json us iso row) ''on_failure'' (JStr ''stop'') = JStr ''stop''"
  "step_timeout (exec_step_json us iso row) = Inr ()"
  for us :: "uuid \<Rightarrow> string" and iso :: "int \<Rightarrow> string"
  by (simp_all add: exec_step_json_def dsub_def dget_def dget_or_def step_config_def step_timeout_def)

lemma recover_from_api:
  "es_step_type row = ''recover_workload'' \<Longrightarrow>
     execute_step sv eid (exec_step_json us iso row) s
       = (Inr (failed_now ''No workload_id configured for recover_workload step''), s)"
  for us :: "uuid \<Rightarrow> string" and iso :: "int \<Rightarrow> string"
  by (simp add: execute_step_def api_row_fields exec_simps recover_workload_step_def jget_def dget_or_def json_or_def)

definition gate_result :: dict where
  "gate_result = [(''status'', JStr ''waiting_gate''),
     (''output'', JObj [(''instructions'', JStr ''Manual approval required'')]), (''duration_secs'', JInt 0)]"

lemma gate_from_api:
  "es_step_type row = ''manual_gate'' \<Longrightarrow>
     execute_step sv eid (exec_step_json us iso row) s = (Inr gate_result, s)"
  for us :: "uuid \<Rightarrow> string" and iso :: "int \<Rightarrow> string"
  by (simp add: execute_step_def api_row_fields exec_simps jget_def dget_or_def gate_result_def)

definition patch_returns :: "'s rb_services \<Rightarrow> bool" where
  "patch_returns sv \<longleftrightarrow> (\<forall>path body. returns (rb_patch sv path body))"

lemma update_returns:
  assumes "patch_returns sv"
  shows "\<exists>s'. rb_activity sv n entries (update_step_status sv eid sid result) w
      = (Inr (), w\<lparr>rb_log := rb_log w @ entries (), rb_world := s'\<rparr>)"
proof -
  have "\<exists>x s'. update_step_status sv eid sid result s = (Inr x, s')" for s
    using assms by (auto simp: patch_returns_def returns_def update_step_status_def)
  then have "\<exists>x s'. attempts n (update_step_status sv eid sid result) (rb_world w) = (Inr x, s')"
    by (rule attempts_returns)
  then show ?thesis by (auto simp: rb_activity_def)
qed

lemma execute_pure:
  assumes "execute_step sv eid step (rb_world w) = (Inr r, s')"
  shows "rb_activity sv n entries (execute_step sv eid step) w
     = (Inr r, w\<lparr>rb_log := rb_log w @ entries r, rb_world := s'\<rparr>)"
  using attempts_first [of "execute_step sv eid step", OF assms] by (simp add: rb_activity_def)

text \<open>One pending step of the API whose result is known.\<close>

lemma run_api_step:
  fixes us :: "uuid \<Rightarrow> string" and iso :: "int \<Rightarrow> string"
  assumes "patch_returns sv" and "es_status row = ''pending''"
    and "execute_step sv eid (exec_step_json us iso row) (rb_world w) = (Inr r, s1)"
    and "dsub r ''status'' = Inr outcome"
  shows "\<exists>s'. run_steps sv eid (exec_step_json us iso row # steps) w =
     (if outcome = JStr ''failed'' then ret ''failed'' else run_steps sv eid steps)
       (w\<lparr>rb_log := rb_log w @ [Executed (exec_step_json us iso row) r, Updated (exec_step_json us iso row) r],
          rb_world := s'\<rparr>)"
proof -
  let ?d = "exec_step_json us iso row"
  let ?w = "w\<lparr>rb_log := rb_log w @ [Executed ?d r], rb_world := s1\<rparr>"
  obtain s' where up: "rb_activity sv RETRY_ATTEMPTS (\<lambda>_. [Updated ?d r]) (update_step_status sv eid (us (es_id row)) r) ?w
      = (Inr (), ?w\<lparr>rb_log := rb_log ?w @ [Updated ?d r], rb_world := s'\<rparr>)"
    using update_returns [OF assms(1)] by blast
  show ?thesis
    by (rule exI [of _ s'])
      (simp add: seq_def lift_result_def api_row_fields assms(2,4) execute_pure [OF assms(3)] up)
qed

subsection \<open>Properties\<close>

text \<open>C11: what a finished run did. The steps executed and reported, each with its result, are the
  pending steps in order; a run that ends \<open>completed\<close> executed all of them and met no failure
  that stops it; any other status is the one the last executed step's \<open>on_failure\<close> gives, and
  nothing ran after that step.\<close>

theorem runbook_run_account:
  assumes "run_steps sv eid steps w = (Inr st, w')"
  shows "\<exists>exs rest. rb_log w' = rb_log w @ step_entries exs \<and>
     filter is_pending steps = map fst exs @ rest \<and>
     (\<forall>(s, r) \<in> set (butlast exs). verdict s r = None) \<and>
     (if st = ''completed'' then rest = [] \<and> (\<forall>(s, r) \<in> set exs. verdict s r = None)
      else exs \<noteq> [] \<and> (case last exs of (s, r) \<Rightarrow> verdict s r = Some st))"
proof -
  obtain exs where acc: "run_account steps exs st" and log: "rb_log w' = rb_log w @ step_entries exs"
    using run_steps_account [OF assms] by blast
  obtain rest where rest: "filter is_pending steps = map fst exs @ rest" using account_prefix [OF acc] by blast
  show ?thesis
  proof (cases "st = ''completed''")
    case True
    with account_completed [OF acc] rest log show ?thesis
      by (intro exI [of _ exs] exI [of _ rest]) (auto dest: in_set_butlastD)
  next
    case False
    with account_stopped [OF acc] rest log show ?thesis
      by (intro exI [of _ exs] exI [of _ rest]) auto
  qed
qed

definition demo_sv :: "nat rb_services" where
  "demo_sv = \<lparr>rb_get = \<lambda>_. raise (OSError ''404''), rb_post = \<lambda>_ _. ret (JObj []), rb_patch = \<lambda>_ _. update Suc,
     rb_sleep = \<lambda>_. update Suc, rb_deliver = \<lambda>_ _ _ _. ret (), rb_subprocess = \<lambda>_ _. ret (1, [], ''boom''),
     rb_monotonic = \<lambda>s. of_nat s, rb_time = \<lambda>s. of_nat s, rb_activity_error = exn_text\<rparr>"

definition demo_steps :: "dict list" where
  "demo_steps =
     [[(''id'', JStr ''1''), (''seq'', JInt 1), (''status'', JStr ''completed''), (''step_type'', JStr ''wait'')],
      [(''id'', JStr ''2''), (''seq'', JInt 2), (''status'', JStr ''pending''), (''step_type'', JStr ''run_script''),
       (''on_failure'', JStr ''continue'')],
      [(''id'', JStr ''3''), (''seq'', JInt 3), (''status'', JStr ''pending''), (''step_type'', JStr ''bogus''),
       (''on_failure'', JStr ''rollback'')],
      [(''id'', JStr ''4''), (''seq'', JInt 4), (''status'', JStr ''pending''), (''step_type'', JStr ''wait'')]]"

definition demo_rb_state :: "nat rb_state" where
  "demo_rb_state = \<lparr>rb_log = [], rb_world = 0\<rparr>"

lemma demo_run: "fst (run_steps demo_sv ''e'' demo_steps demo_rb_state) = Inr ''rolled_back''"
  by code_simp

theorem runbook_run_account_witness:
  "\<exists>exs. rb_log (snd (run_steps demo_sv ''e'' demo_steps demo_rb_state)) = step_entries exs \<and>
     exs \<noteq> [] \<and> (case last exs of (s, r) \<Rightarrow> verdict s r = Some ''rolled_back'')"
proof -
  have "run_steps demo_sv ''e'' demo_steps demo_rb_state
      = (Inr ''rolled_back'', snd (run_steps demo_sv ''e'' demo_steps demo_rb_state))"
    using demo_run by (metis prod.collapse)
  from runbook_run_account [OF this] show ?thesis by (auto simp: demo_rb_state_def)
qed

text \<open>A manual gate does not hold the run: on a pending gate as the API serves it, the workflow
  reports \<open>waiting_gate\<close> and goes on with the following steps at once, with nobody's approval.\<close>

theorem manual_gate_does_not_wait:
  fixes us :: "uuid \<Rightarrow> string" and iso :: "int \<Rightarrow> string"
  assumes "patch_returns sv" and "es_status row = ''pending''" and "es_step_type row = ''manual_gate''"
  shows "\<exists>s'. run_steps sv eid (exec_step_json us iso row # steps) w =
     run_steps sv eid steps
       (w\<lparr>rb_log := rb_log w @ [Executed (exec_step_json us iso row) gate_result,
                                  Updated (exec_step_json us iso row) gate_result],
          rb_world := s'\<rparr>) \<and>
     dget gate_result ''status'' = JStr ''waiting_gate''"
  using run_api_step [OF assms(1,2) gate_from_api [OF assms(3)],
      where us = us and iso = iso and eid = eid and w = w and outcome = "JStr ''waiting_gate''" and steps = steps]
  by (simp add: dsub_def dget_def gate_result_def del: run_steps.simps)

definition gate_row :: "string \<Rightarrow> exec_step_row" where
  "gate_row ty = \<lparr>es_id = 9, es_execution_id = 5, es_step_id = 3, es_seq = 1, es_name = ''approve'',
     es_step_type = ty, es_status = ''pending'', es_started_at = None, es_completed_at = None,
     es_duration_secs = None, es_output = [], es_error = None\<rparr>"

lemma demo_patch: "patch_returns demo_sv"
  by (simp add: patch_returns_def returns_def demo_sv_def update_def)

theorem manual_gate_does_not_wait_witness:
  "fst (run_steps demo_sv ''e'' [exec_step_json show_nat show_int (gate_row ''manual_gate'')] demo_rb_state)
     = Inr ''completed''"
proof -
  have "es_status (gate_row ''manual_gate'') = ''pending''" "es_step_type (gate_row ''manual_gate'') = ''manual_gate''"
    by (simp_all add: gate_row_def)
  from manual_gate_does_not_wait [OF demo_patch this, of "''e''" show_nat show_int "[]" demo_rb_state]
  show ?thesis by (auto simp: ret_def simp del: run_steps.simps(2))
qed

text \<open>C12: a \<open>recover_workload\<close> step always fails and ends the run: the API serves execution steps
  without their \<open>config\<close>, \<open>workload_id\<close> and \<open>on_failure\<close>, so the appliance finds no workload
  to recover, starts no test run, and stops at once whatever the runbook's \<open>on_failure\<close> says.\<close>

theorem recover_workload_always_fails:
  fixes us :: "uuid \<Rightarrow> string" and iso :: "int \<Rightarrow> string"
  assumes "patch_returns sv" and "es_status row = ''pending''" and "es_step_type row = ''recover_workload''"
  shows "execute_step sv eid (exec_step_json us iso row) s
       = (Inr (failed_now ''No workload_id configured for recover_workload step''), s) \<and>
     fst (run_steps sv eid (exec_step_json us iso row # steps) w) = Inr ''failed''"
  using run_api_step [OF assms(1,2) recover_from_api [OF assms(3)], where us = us and iso = iso and eid = eid and w = w and outcome = "JStr ''failed''" and steps = steps]
    recover_from_api [OF assms(3)]
  by (auto simp: dsub_def failed_now_def ret_def simp del: run_steps.simps)

theorem recover_workload_always_fails_witness:
  "fst (run_steps demo_sv ''e'' (exec_step_json show_nat show_int (gate_row ''recover_workload'') # demo_steps) demo_rb_state)
     = Inr ''failed''"
  by (rule conjunct2 [OF recover_workload_always_fails [OF demo_patch]]) (simp_all add: gate_row_def)

end
