(* ===== verification/Delivery.thy ===== *)
theory Delivery
  imports Notifications RunbookWorkflow
begin

text \<open>
  Delivering a report: \<open>services/delivery.py\<close> of the appliance (e-mail, Slack, Teams and generic
  webhooks) and its namesake of the API, whose webhooks pass the URL guard and whose mail is always
  encrypted; the definitions of the latter carry the prefix \<open>api_\<close>. The SMTP connection and
  the HTTP client are arguments that may raise, the environment is a function, and the state is the
  list of what was done on the network.
\<close>

subsection \<open>The network\<close>

record mail =
  ml_subject :: string
  ml_from :: string
  ml_to :: string
  ml_body :: string
  ml_attachment :: "(string \<times> string) option"

datatype delivery_event =
  WebPost string json | Connected string int | StartedTls | LoggedIn string | SentMail mail

record network =
  nw_getenv :: "string \<Rightarrow> string option"
  nw_connect :: "string \<Rightarrow> int \<Rightarrow> unit result"
  nw_starttls :: "unit result"
  nw_login :: "string \<Rightarrow> string \<Rightarrow> unit result"
  nw_send_message :: "mail \<Rightarrow> unit result"
  nw_post :: "string \<Rightarrow> json \<Rightarrow> nat result"

definition getenv :: "network \<Rightarrow> string \<Rightarrow> string \<Rightarrow> string" where
  "getenv N name d = (case nw_getenv N name of None \<Rightarrow> d | Some v \<Rightarrow> v)"

text \<open>A call of a library: it is attempted, then it may raise.\<close>

definition attempt :: "delivery_event \<Rightarrow> 'a result \<Rightarrow> (delivery_event list, 'a) exec" where
  "attempt e r = seq (update (\<lambda>tr. tr @ [e])) (\<lambda>_. lift_result r)"

definition env_int :: "string \<Rightarrow> int result" where
  "env_int s = (case int_of_str s of None \<Rightarrow> Inl (ValueError ''invalid literal for int()'') | Some n \<Rightarrow> Inr n)"

definition web_post :: "network \<Rightarrow> string \<Rightarrow> json \<Rightarrow> (delivery_event list, unit) exec" where
  "web_post N url payload =
     seq (attempt (WebPost url payload) (nw_post N url payload)) (\<lambda>status.
     if 200 \<le> status \<and> status < 300 then ret () else raise (ExternalError ''HTTPStatusError''))"

subsection \<open>The appliance's delivery\<close>

record delivery_recipient =
  dr_type :: string
  dr_destination :: string

record delivery_result =
  ds_recipient :: delivery_recipient
  ds_success :: bool
  ds_error :: "string option"

definition send_email :: "network \<Rightarrow> string \<Rightarrow> string \<Rightarrow> string \<Rightarrow> string \<Rightarrow> string \<Rightarrow> (delivery_event list, unit) exec" where
  "send_email N to_address subject body pdf_bytes filename =
     (let smtp_host = getenv N ''SMTP_HOST'' ''localhost''; smtp_user = getenv N ''SMTP_USER'' [];
          smtp_pass = getenv N ''SMTP_PASS'' []; from_addr = getenv N ''SMTP_FROM'' ''r3vp@example.com''
      in
      seq (lift_result (env_int (getenv N ''SMTP_PORT'' ''587''))) (\<lambda>smtp_port.
      let msg = \<lparr>ml_subject = subject, ml_from = from_addr, ml_to = to_address, ml_body = body,
            ml_attachment = (if pdf_bytes \<noteq> [] then Some (if filename \<noteq> [] then filename else ''report.pdf'', pdf_bytes) else None)\<rparr>
      in
      seq (attempt (Connected smtp_host smtp_port) (nw_connect N smtp_host smtp_port)) (\<lambda>_.
      seq (if smtp_user \<noteq> [] then
             seq (attempt StartedTls (nw_starttls N)) (\<lambda>_. attempt (LoggedIn smtp_user) (nw_login N smtp_user smtp_pass))
           else ret ()) (\<lambda>_.
      attempt (SentMail msg) (nw_send_message N msg)))))"

definition webhook_payload :: "string \<Rightarrow> string \<Rightarrow> string \<Rightarrow> json" where
  "webhook_payload channel subject body =
     (if channel = ''teams'' then
        JObj [(''@type'', JStr ''MessageCard''), (''@context'', JStr ''http://schema.org/extensions''),
          (''summary'', JStr subject),
          (''sections'', JArr [JObj [(''activityTitle'', JStr subject), (''text'', JStr body), (''markdown'', JBool True)]])]
      else if channel = ''slack'' then JObj [(''text'', JStr (''*'' @ subject @ ''*\<newline>'' @ body))]
      else JObj [(''source'', JStr ''r3vp''), (''event'', JStr ''report_delivered''), (''subject'', JStr subject), (''body'', JStr body)])"

definition post_webhook :: "network \<Rightarrow> string \<Rightarrow> string \<Rightarrow> string \<Rightarrow> string \<Rightarrow> (delivery_event list, unit) exec" where
  "post_webhook N channel url subject body = web_post N url (webhook_payload channel subject body)"

definition deliver_one ::
    "network \<Rightarrow> string \<Rightarrow> string \<Rightarrow> string \<Rightarrow> string \<Rightarrow> delivery_recipient \<Rightarrow> (delivery_event list, unit) exec" where
  "deliver_one N pdf_bytes filename subject body recipient =
     (if dr_type recipient = ''email'' then send_email N (dr_destination recipient) subject body pdf_bytes filename
      else if dr_type recipient \<in> {''slack'', ''teams'', ''webhook''} then post_webhook N (dr_type recipient) (dr_destination recipient) subject body
      else raise (ValueError (''Unknown recipient type: '' @ dr_type recipient)))"

text \<open>\<open>try: ... success except Exception as exc: failure with its text\<close>\<close>

definition outcome_of :: "delivery_recipient \<Rightarrow> (delivery_event list, unit) exec \<Rightarrow> (delivery_event list, delivery_result) exec" where
  "outcome_of recipient m =
     try_except (seq m (\<lambda>_. ret \<lparr>ds_recipient = recipient, ds_success = True, ds_error = None\<rparr>))
       (\<lambda>exc. ret \<lparr>ds_recipient = recipient, ds_success = False, ds_error = Some (exn_text exc)\<rparr>)"

fun deliver_report ::
    "network \<Rightarrow> string \<Rightarrow> string \<Rightarrow> string \<Rightarrow> string \<Rightarrow> delivery_recipient list \<Rightarrow> (delivery_event list, delivery_result list) exec" where
  "deliver_report N pdf_bytes filename subject body [] = ret []"
| "deliver_report N pdf_bytes filename subject body (r # rs) =
     seq (outcome_of r (deliver_one N pdf_bytes filename subject body r)) (\<lambda>res.
     seq (deliver_report N pdf_bytes filename subject body rs) (\<lambda>results. ret (res # results)))"

subsection \<open>The API's delivery\<close>

definition api_send_email :: "network \<Rightarrow> string \<Rightarrow> string \<Rightarrow> string \<Rightarrow> string \<Rightarrow> string \<Rightarrow> (delivery_event list, unit) exec" where
  "api_send_email N pdf_bytes filename subject body address =
     (let smtp_host = getenv N ''SMTP_HOST'' ''localhost''; smtp_user = getenv N ''SMTP_USER'' [];
          smtp_pass = getenv N ''SMTP_PASS'' []; from_addr = getenv N ''SMTP_FROM'' ''r3vp@example.com''
      in
      seq (lift_result (env_int (getenv N ''SMTP_PORT'' ''587''))) (\<lambda>smtp_port.
      let msg = \<lparr>ml_subject = subject, ml_from = from_addr, ml_to = address, ml_body = body, ml_attachment = Some (filename, pdf_bytes)\<rparr>
      in
      seq (attempt (Connected smtp_host smtp_port) (nw_connect N smtp_host smtp_port)) (\<lambda>_.
      seq (attempt StartedTls (nw_starttls N)) (\<lambda>_.
      seq (if smtp_user \<noteq> [] then attempt (LoggedIn smtp_user) (nw_login N smtp_user smtp_pass) else ret ()) (\<lambda>_.
      attempt (SentMail msg) (nw_send_message N msg))))))"

definition api_slack_payload :: "string \<Rightarrow> string \<Rightarrow> string \<Rightarrow> json" where
  "api_slack_payload filename subject body =
     JObj [(''text'', JStr ('':page_facing_up: *'' @ subject @ ''*\<newline>'' @ body @ ''\<newline>_PDF report attached as `'' @ filename @ ''`_''))]"

definition api_teams_payload :: "string \<Rightarrow> string \<Rightarrow> string \<Rightarrow> json" where
  "api_teams_payload filename subject body =
     JObj [(''@type'', JStr ''MessageCard''), (''@context'', JStr ''http://schema.org/extensions''), (''summary'', JStr subject),
       (''themeColor'', JStr ''00B336''),
       (''sections'', JArr [JObj [(''activityTitle'', JStr subject), (''activityText'', JStr body),
          (''facts'', JArr [JObj [(''name'', JStr ''Report''), (''value'', JStr filename)]])]])]"

definition guarded_post :: "outbound \<Rightarrow> network \<Rightarrow> string \<Rightarrow> json \<Rightarrow> (delivery_event list, unit) exec" where
  "guarded_post out N url payload = seq (lift_result (assert_safe_url out url)) (\<lambda>_. web_post N url payload)"

definition api_send_slack ::
    "outbound \<Rightarrow> network \<Rightarrow> string \<Rightarrow> string \<Rightarrow> string \<Rightarrow> string \<Rightarrow> (delivery_event list, unit) exec" where
  "api_send_slack out N filename subject body webhook_url = guarded_post out N webhook_url (api_slack_payload filename subject body)"

definition api_send_teams ::
    "outbound \<Rightarrow> network \<Rightarrow> string \<Rightarrow> string \<Rightarrow> string \<Rightarrow> string \<Rightarrow> (delivery_event list, unit) exec" where
  "api_send_teams out N filename subject body webhook_url = guarded_post out N webhook_url (api_teams_payload filename subject body)"

definition api_deliver_one ::
    "outbound \<Rightarrow> network \<Rightarrow> string \<Rightarrow> string \<Rightarrow> string \<Rightarrow> string \<Rightarrow> delivery_recipient \<Rightarrow> (delivery_event list, delivery_result) exec" where
  "api_deliver_one out N pdf_bytes filename subject body recipient =
     (let sent_ok = (\<lambda>_. ret \<lparr>ds_recipient = recipient, ds_success = True, ds_error = None\<rparr>) in
      try_except
       (if dr_type recipient = ''email'' then seq (api_send_email N pdf_bytes filename subject body (dr_destination recipient)) sent_ok
        else if dr_type recipient = ''slack'' then seq (api_send_slack out N filename subject body (dr_destination recipient)) sent_ok
        else if dr_type recipient = ''teams'' then seq (api_send_teams out N filename subject body (dr_destination recipient)) sent_ok
        else ret \<lparr>ds_recipient = recipient, ds_success = False,
               ds_error = Some (''Unknown channel type: '' @ dr_type recipient)\<rparr>)
       (\<lambda>exc. ret \<lparr>ds_recipient = recipient, ds_success = False, ds_error = Some (exn_text exc)\<rparr>))"

fun api_deliver_report ::
    "outbound \<Rightarrow> network \<Rightarrow> string \<Rightarrow> string \<Rightarrow> string \<Rightarrow> string \<Rightarrow> delivery_recipient list \<Rightarrow>
     (delivery_event list, delivery_result list) exec" where
  "api_deliver_report out N pdf_bytes filename subject body [] = ret []"
| "api_deliver_report out N pdf_bytes filename subject body (r # rs) =
     seq (api_deliver_one out N pdf_bytes filename subject body r) (\<lambda>res.
     seq (api_deliver_report out N pdf_bytes filename subject body rs) (\<lambda>results. ret (res # results)))"

subsection \<open>Code that only adds to the trace\<close>

definition adds :: "(delivery_event list, 'a) exec \<Rightarrow> bool" where
  "adds m \<longleftrightarrow> (\<exists>r es. \<forall>tr. m tr = (r, tr @ es))"

lemma addsI: "(\<And>tr. m tr = (r, tr @ es)) \<Longrightarrow> adds m"
  by (auto simp: adds_def)

lemma adds_basic [intro]: "adds (ret x)" "adds (raise e)" "adds (lift_result r)"
  by (rule addsI [where es = "[]"], simp add: exec_simps)+

lemma adds_attempt [intro]: "adds (attempt e r)"
  by (rule addsI [where es = "[e]" and r = r]) (simp add: attempt_def exec_simps)

lemma adds_seq [intro]:
  assumes "adds m" "\<And>x. adds (f x)"
  shows "adds (seq m f)"
proof -
  obtain r es where m: "\<forall>tr. m tr = (r, tr @ es)" using assms(1) unfolding adds_def by blast
  show ?thesis
  proof (cases r)
    case (Inl e)
    then show ?thesis by (intro addsI [of _ "Inl e" es]) (simp add: seq_def m)
  next
    case (Inr x)
    obtain r' es' where f: "\<forall>tr. f x tr = (r', tr @ es')" using assms(2) [of x] unfolding adds_def by blast
    show ?thesis by (intro addsI [of _ r' "es @ es'"]) (simp add: seq_def m Inr f)
  qed
qed

lemma adds_try [intro]:
  assumes "adds m" "\<And>e. adds (h e)"
  shows "adds (try_except m h)"
proof -
  obtain r es where m: "\<forall>tr. m tr = (r, tr @ es)" using assms(1) unfolding adds_def by blast
  show ?thesis
  proof (cases r)
    case (Inr x)
    then show ?thesis by (intro addsI [of _ "Inr x" es]) (simp add: try_except_def m)
  next
    case (Inl e)
    obtain r' es' where h: "\<forall>tr. h e tr = (r', tr @ es')" using assms(2) [of e] unfolding adds_def by blast
    show ?thesis by (intro addsI [of _ r' "es @ es'"]) (simp add: try_except_def m Inl h)
  qed
qed

lemma adds_if [intro]: "adds m \<Longrightarrow> adds m' \<Longrightarrow> adds (if b then m else m')"
  by simp

lemma adds_web_post [intro]: "adds (web_post N url payload)"
  unfolding web_post_def by (intro adds_seq adds_attempt adds_if adds_basic)

lemma adds_send_email [intro]: "adds (send_email N a s b p f)"
  unfolding send_email_def Let_def by (intro adds_seq adds_attempt adds_if adds_basic)

lemma adds_api_send_email [intro]: "adds (api_send_email N p f s b a)"
  unfolding api_send_email_def Let_def by (intro adds_seq adds_attempt adds_if adds_basic)

lemma adds_guarded_post [intro]: "adds (guarded_post out N url payload)"
  unfolding guarded_post_def by (intro adds_seq adds_web_post adds_basic)

lemma adds_deliver_one: "adds (deliver_one N p f s b r)"
  unfolding deliver_one_def post_webhook_def by (intro adds_if adds_send_email adds_web_post adds_basic)

lemma adds_outcome: "adds m \<Longrightarrow> adds (outcome_of r m)"
  unfolding outcome_of_def by (intro adds_try adds_seq adds_basic)

lemma adds_api_deliver_one: "adds (api_deliver_one out N p f s b r)"
  unfolding api_deliver_one_def Let_def api_send_slack_def api_send_teams_def
  by (intro adds_try adds_seq adds_if adds_guarded_post adds_api_send_email adds_basic)

text \<open>What a call returns and does, from an empty trace.\<close>

definition result_of :: "(delivery_event list, 'a) exec \<Rightarrow> 'a result" where
  "result_of m = fst (m [])"

definition events_of :: "(delivery_event list, 'a) exec \<Rightarrow> delivery_event list" where
  "events_of m = snd (m [])"

lemma adds_run: "adds m \<Longrightarrow> m tr = (result_of m, tr @ events_of m)"
  by (auto simp: adds_def result_of_def events_of_def)

lemma outcome_result:
  assumes "adds m"
  shows "result_of (outcome_of r m) = Inr \<lparr>ds_recipient = r,
      ds_success = (case result_of m of Inr _ \<Rightarrow> True | Inl _ \<Rightarrow> False),
      ds_error = (case result_of m of Inr _ \<Rightarrow> None | Inl e \<Rightarrow> Some (exn_text e))\<rparr>"
    and "events_of (outcome_of r m) = events_of m"
  by (auto simp: outcome_of_def result_of_def [of "try_except _ _"] events_of_def [of "try_except _ _"] exec_simps
      adds_run [OF assms] split: sum.splits)

definition delivered :: "delivery_recipient \<Rightarrow> unit result \<Rightarrow> delivery_result" where
  "delivered r res = \<lparr>ds_recipient = r, ds_success = (case res of Inr _ \<Rightarrow> True | Inl _ \<Rightarrow> False),
     ds_error = (case res of Inr _ \<Rightarrow> None | Inl e \<Rightarrow> Some (exn_text e))\<rparr>"

lemma deliver_run:
  "deliver_report N p f s b rs tr =
     (Inr (map (\<lambda>r. delivered r (result_of (deliver_one N p f s b r))) rs),
      tr @ concat (map (\<lambda>r. events_of (deliver_one N p f s b r)) rs))"
  by (induction rs arbitrary: tr)
    (simp_all add: exec_simps adds_run [OF adds_outcome [OF adds_deliver_one]] outcome_result [OF adds_deliver_one] delivered_def)

text \<open>What the API's delivery does for one recipient: guarded posts and encrypted mail.\<close>

definition api_attempt :: "outbound \<Rightarrow> network \<Rightarrow> string \<Rightarrow> string \<Rightarrow> string \<Rightarrow> string \<Rightarrow> delivery_recipient \<Rightarrow> (delivery_event list, unit) exec" where
  "api_attempt out N p f s b r =
     (if dr_type r = ''email'' then api_send_email N p f s b (dr_destination r)
      else if dr_type r = ''slack'' then api_send_slack out N f s b (dr_destination r)
      else if dr_type r = ''teams'' then api_send_teams out N f s b (dr_destination r)
      else raise (ExternalError (''Unknown channel type: '' @ dr_type r)))"

lemma api_deliver_one_alt: "api_deliver_one out N p f s b r = outcome_of r (api_attempt out N p f s b r)"
  by (rule ext) (simp add: api_deliver_one_def api_attempt_def outcome_of_def exec_simps Let_def)

lemma adds_api_attempt: "adds (api_attempt out N p f s b r)"
  unfolding api_attempt_def api_send_slack_def api_send_teams_def
  by (intro adds_if adds_api_send_email adds_guarded_post adds_basic)

lemma api_deliver_run:
  "api_deliver_report out N p f s b rs tr =
     (Inr (map (\<lambda>r. delivered r (result_of (api_attempt out N p f s b r))) rs),
      tr @ concat (map (\<lambda>r. events_of (api_attempt out N p f s b r)) rs))"
  by (induction rs arbitrary: tr)
    (simp_all add: exec_simps api_deliver_one_alt adds_run [OF adds_outcome [OF adds_api_attempt]]
      outcome_result [OF adds_api_attempt] delivered_def)

subsection \<open>Encrypted connections\<close>

text \<open>Credentials and mail only travel after STARTTLS of the current connection.\<close>

fun encrypted :: "bool \<Rightarrow> delivery_event list \<Rightarrow> bool" where
  "encrypted tls [] = True"
| "encrypted tls (Connected h p # es) = encrypted False es"
| "encrypted tls (StartedTls # es) = encrypted True es"
| "encrypted tls (LoggedIn u # es) = (tls \<and> encrypted tls es)"
| "encrypted tls (SentMail m # es) = (tls \<and> encrypted tls es)"
| "encrypted tls (WebPost u j # es) = encrypted tls es"

definition guarded_event :: "outbound \<Rightarrow> delivery_event \<Rightarrow> bool" where
  "guarded_event out e = (case e of WebPost url _ \<Rightarrow> assert_safe_url out url = Inr () | _ \<Rightarrow> True)"

lemma api_mail_events:
  "\<exists>h port u m. events_of (api_send_email N p f s b a) \<in>
     {[], [Connected h port], [Connected h port, StartedTls], [Connected h port, StartedTls, LoggedIn u],
      [Connected h port, StartedTls, SentMail m], [Connected h port, StartedTls, LoggedIn u, SentMail m]}"
  by (auto simp: events_of_def api_send_email_def attempt_def exec_simps Let_def split: sum.splits)

lemma guarded_post_events:
  "events_of (guarded_post out N url payload) = (if assert_safe_url out url = Inr () then [WebPost url payload] else [])"
  by (auto simp: events_of_def guarded_post_def web_post_def attempt_def exec_simps split: sum.splits)

lemma api_attempt_events:
  "list_all (guarded_event out) (events_of (api_attempt out N p f s b r)) \<and>
   (\<forall>tls es. (\<forall>tls'. encrypted tls' es) \<longrightarrow> encrypted tls (events_of (api_attempt out N p f s b r) @ es))"
proof (cases "dr_type r = ''email''")
  case True
  then have "api_attempt out N p f s b r = api_send_email N p f s b (dr_destination r)" by (simp add: api_attempt_def)
  then show ?thesis using api_mail_events [of N p f s b "dr_destination r"] by (auto simp: guarded_event_def)
next
  case False
  have none: "events_of (raise e) = []" for e :: py_exn by (simp add: events_of_def exec_simps)
  show ?thesis
    using False by (auto simp: api_attempt_def api_send_slack_def api_send_teams_def guarded_post_events guarded_event_def none)
qed

lemma api_events:
  "list_all (guarded_event out) (concat (map (\<lambda>r. events_of (api_attempt out N p f s b r)) rs))"
  "encrypted tls (concat (map (\<lambda>r. events_of (api_attempt out N p f s b r)) rs))"
  by (induction rs arbitrary: tls) (simp_all add: api_attempt_events)

subsection \<open>Properties\<close>

text \<open>Each recipient is delivered to on its own: delivery of a report never raises and answers one result
  per recipient in order, a result is a success exactly when it carries no error, and the results for
  two groups of recipients are those of each group alone, whatever happened on the network before.\<close>

theorem delivery_independent:
  "\<exists>a b. fst (deliver_report N pdf_bytes filename subject body rs tr) = Inr a \<and>
     fst (deliver_report N pdf_bytes filename subject body rs' tr') = Inr b \<and>
     fst (deliver_report N pdf_bytes filename subject body (rs @ rs') tr'') = Inr (a @ b) \<and>
     map ds_recipient a = rs \<and> map ds_recipient b = rs' \<and>
     list_all (\<lambda>x. ds_success x = (ds_error x = None)) (a @ b)"
  by (auto simp: deliver_run delivered_def comp_def list_all_iff split: sum.splits)

text \<open>C36: The API's delivery of a report never raises, answers one result per recipient, posts only to addresses
  the guard accepts, and sends mail and credentials only over a connection that has been encrypted.\<close>

theorem api_delivery_guarded:
  "\<exists>results es. api_deliver_report out N pdf_bytes filename subject body rs tr = (Inr results, tr @ es) \<and>
     map ds_recipient results = rs \<and> list_all (guarded_event out) es \<and> encrypted False es"
  by (simp add: api_deliver_run api_events delivered_def comp_def)

text \<open>The appliance's delivery does neither: it posts to any address a recipient names, refused by the
  API's guard or not, and where no SMTP user is configured it sends the report, PDF included, over a
  connection that was never encrypted.\<close>

theorem appliance_delivery_unguarded:
  assumes "nw_getenv N ''SMTP_USER'' = None" and "env_int (getenv N ''SMTP_PORT'' ''587'') = Inr port"
    and "nw_connect N (getenv N ''SMTP_HOST'' ''localhost'') port = Inr ()" and "pdf_bytes \<noteq> []"
  shows "\<exists>payload mail es.
     snd (deliver_report N pdf_bytes filename subject body
       [\<lparr>dr_type = ''webhook'', dr_destination = url\<rparr>, \<lparr>dr_type = ''email'', dr_destination = address\<rparr>] tr)
       = tr @ WebPost url payload # es \<and>
     es = [Connected (getenv N ''SMTP_HOST'' ''localhost'') port, SentMail mail] \<and>
     ml_to mail = address \<and> ml_attachment mail \<noteq> None \<and> \<not> encrypted tls es"
proof -
  have post: "events_of (post_webhook N channel url subject body) = [WebPost url (webhook_payload channel subject body)]" for channel
    by (auto simp: events_of_def post_webhook_def web_post_def attempt_def exec_simps split: sum.splits)
  have "getenv N ''SMTP_USER'' [] = []" using assms(1) by (simp add: getenv_def)
  then have "\<exists>mail. events_of (send_email N address subject body pdf_bytes filename)
        = [Connected (getenv N ''SMTP_HOST'' ''localhost'') port, SentMail mail] \<and>
      ml_to mail = address \<and> ml_attachment mail \<noteq> None"
    using assms(2-4) by (simp add: events_of_def send_email_def attempt_def exec_simps Let_def)
  then obtain mail where mail: "events_of (send_email N address subject body pdf_bytes filename)
        = [Connected (getenv N ''SMTP_HOST'' ''localhost'') port, SentMail mail]"
      "ml_to mail = address" "ml_attachment mail \<noteq> None" by blast
  have run: "snd (deliver_report N pdf_bytes filename subject body
       [\<lparr>dr_type = ''webhook'', dr_destination = url\<rparr>, \<lparr>dr_type = ''email'', dr_destination = address\<rparr>] tr)
     = tr @ WebPost url (webhook_payload ''webhook'' subject body) #
         [Connected (getenv N ''SMTP_HOST'' ''localhost'') port, SentMail mail]"
    by (subst deliver_run) (simp add: deliver_one_def post mail)
  show ?thesis
    by (intro exI conjI, rule run, rule refl) (simp_all add: mail)
qed

definition open_network :: network where
  "open_network = \<lparr>nw_getenv = (\<lambda>_. None), nw_connect = (\<lambda>_ _. Inr ()), nw_starttls = Inr (), nw_login = (\<lambda>_ _. Inr ()),
     nw_send_message = (\<lambda>_. Inr ()), nw_post = (\<lambda>_ _. Inr 200)\<rparr>"

theorem appliance_delivery_unguarded_witness:
  "\<exists>mail payload. snd (deliver_report open_network ''%PDF'' ''r.pdf'' ''s'' ''b''
     [\<lparr>dr_type = ''webhook'', dr_destination = ''http://169.254.169.254/''\<rparr>, \<lparr>dr_type = ''email'', dr_destination = ''a@b''\<rparr>] [])
     = [WebPost ''http://169.254.169.254/'' payload, Connected ''localhost'' 587, SentMail mail]"
proof -
  have env: "nw_getenv open_network ''SMTP_USER'' = None" "getenv open_network ''SMTP_HOST'' ''localhost'' = ''localhost''"
    "nw_connect open_network (getenv open_network ''SMTP_HOST'' ''localhost'') 587 = Inr ()"
    by (simp_all add: open_network_def getenv_def)
  have port: "env_int (getenv open_network ''SMTP_PORT'' ''587'') = Inr 587" by code_simp
  from appliance_delivery_unguarded [OF env(1) port env(3), of "''%PDF''" "''r.pdf''" "''s''" "''b''" "''http://169.254.169.254/''" "''a@b''" "[]" False]
  show ?thesis unfolding env(2) by auto
qed

end
