(* ===== verification/Fleet.thy ===== *)
theory Fleet
  imports Api Json
begin

text \<open>
  The fleet routes (\<open>routers/fleet.py\<close>, \<open>models/fleet.py\<close>): the overview of a constant demo fleet,
  health snapshots, groups and bulk configuration jobs. Identifiers of appliances in a job are the
  strings of the request.
\<close>

subsection \<open>Tables\<close>

record fleet_appliance =
  fa_id :: string
  fa_name :: string
  fa_site :: string
  fa_status :: string
  fa_workloads :: nat
  fa_cpu :: "nat option"
  fa_memory :: "nat option"
  fa_disk :: "nat option"
  fa_veeam :: bool
  fa_vcenter :: bool
  fa_temporal :: bool
  fa_version :: string
  fa_uptime_hours :: "nat option"
  fa_last_test :: string
  fa_alerts :: "string list option"

record group_row =
  gr_id :: uuid
  gr_org_id :: uuid
  gr_name :: string
  gr_description :: string
  gr_site_name :: "string option"
  gr_region :: "string option"
  gr_tags :: "string list"
  gr_config_template :: dict
  gr_created_at :: micros
  gr_created_by :: "uuid option"

record health_snapshot =
  hs_appliance_id :: uuid
  hs_org_id :: uuid
  hs_status :: string
  hs_cpu_pct :: "int option"
  hs_memory_pct :: "int option"
  hs_disk_pct :: "int option"
  hs_veeam_connected :: bool
  hs_workload_count :: int
  hs_version :: "string option"
  hs_alerts :: json
  hs_recorded_at :: micros

record bulk_job =
  bj_id :: uuid
  bj_org_id :: uuid
  bj_config :: dict
  bj_target_appliance_ids :: "string list"
  bj_status :: string
  bj_results :: json
  bj_created_at :: micros
  bj_completed_at :: "micros option"
  bj_created_by :: "uuid option"

record fleet_db =
  fd_groups :: "group_row list"
  fd_snapshots :: "health_snapshot list"
  fd_jobs :: "bulk_job list"

definition fleet_demo ::
    "string \<Rightarrow> string \<Rightarrow> string \<Rightarrow> string \<Rightarrow> nat \<Rightarrow> (nat \<times> nat \<times> nat) option \<Rightarrow> bool \<times> bool \<times> bool \<Rightarrow> string \<Rightarrow> nat option \<Rightarrow> string \<Rightarrow>
     string list option \<Rightarrow> fleet_appliance" where
  "fleet_demo i name site status workloads load links version uptime last_test alerts =
     \<lparr>fa_id = i, fa_name = name, fa_site = site, fa_status = status, fa_workloads = workloads,
      fa_cpu = map_option fst load, fa_memory = map_option (fst \<circ> snd) load, fa_disk = map_option (snd \<circ> snd) load,
      fa_veeam = fst links, fa_vcenter = fst (snd links), fa_temporal = snd (snd links), fa_version = version,
      fa_uptime_hours = uptime, fa_last_test = last_test, fa_alerts = alerts\<rparr>"

definition MOCK_FLEET :: "fleet_appliance list" where
  "MOCK_FLEET =
    [fleet_demo ''a1'' ''NYC-Primary'' ''NYC DC1'' ''healthy'' 20 (Some (24, 41, 38)) (True, True, True) ''0.13.0'' (Some 720) ''Today 14:22'' None,
     fleet_demo ''a2'' ''NYC-DR'' ''NYC DR Site'' ''healthy'' 8 (Some (12, 28, 22)) (True, True, True) ''0.13.0'' (Some 168) ''Jun 20'' None,
     fleet_demo ''a3'' ''Azure-EastUS'' ''Azure East US'' ''warning'' 10 (Some (18, 65, 71)) (True, False, True) ''0.12.1'' (Some 504) ''Jun 18''
       (Some [''Disk usage above 70%'', ''vCenter connection lost'']),
     fleet_demo ''a4'' ''AWS-USEast1'' ''AWS us-east-1'' ''healthy'' 8 (Some (9, 33, 28)) (True, False, True) ''0.13.0'' (Some 336) ''Jun 21'' None,
     fleet_demo ''a5'' ''London-DC'' ''London DC'' ''offline'' 0 None (False, False, False) ''0.11.2'' None ''Jun 10'' (Some [''No heartbeat in 72 hours''])]"

subsection \<open>Routes\<close>

record overview =
  ov_total_appliances :: nat
  ov_healthy :: nat
  ov_warning :: nat
  ov_offline :: nat
  ov_total_workloads :: nat
  ov_appliances :: "fleet_appliance list"

definition fleet_overview :: "current_user \<Rightarrow> (fleet_db, overview) exec" where
  "fleet_overview user =
     seq (lift_result (require_permission (permissions user) ''appliances:read'')) (\<lambda>_.
     ret \<lparr>ov_total_appliances = length MOCK_FLEET, ov_healthy = count_if (\<lambda>a. fa_status a = ''healthy'') MOCK_FLEET,
          ov_warning = count_if (\<lambda>a. fa_status a = ''warning'') MOCK_FLEET,
          ov_offline = count_if (\<lambda>a. fa_status a = ''offline'') MOCK_FLEET,
          ov_total_workloads = sum_list (map fa_workloads MOCK_FLEET), ov_appliances = MOCK_FLEET\<rparr>)"

datatype fleet_health = Snapshots "health_snapshot list" | MockFleet "fleet_appliance list"

definition get_fleet_health :: "current_user \<Rightarrow> (fleet_db, fleet_health) exec" where
  "get_fleet_health user =
     seq (lift_result (require_permission (permissions user) ''appliances:read'')) (\<lambda>_.
     seq (gets (\<lambda>db. take 50 (newest_rows hs_recorded_at (filter (\<lambda>s. hs_org_id s = user_org_id user) (fd_snapshots db))))) (\<lambda>snapshots.
     ret (if snapshots \<noteq> [] then Snapshots snapshots else MockFleet MOCK_FLEET)))"

definition list_groups :: "current_user \<Rightarrow> (fleet_db, group_row list) exec" where
  "list_groups user =
     seq (lift_result (require_permission (permissions user) ''appliances:read'')) (\<lambda>_.
     gets (\<lambda>db. newest_rows gr_created_at (filter (\<lambda>g. gr_org_id g = user_org_id user) (fd_groups db))))"

record group_request =
  gq_name :: string
  gq_description :: string
  gq_site_name :: "string option"
  gq_region :: "string option"
  gq_tags :: "string list"
  gq_config_template :: dict

definition create_group :: "group_request \<Rightarrow> current_user \<Rightarrow> uuid \<Rightarrow> micros \<Rightarrow> (fleet_db, uuid \<times> string) exec" where
  "create_group body user new_id now =
     seq (lift_result (require_permission (permissions user) ''appliances:manage'')) (\<lambda>_.
     let group = \<lparr>gr_id = new_id, gr_org_id = user_org_id user, gr_name = gq_name body, gr_description = gq_description body,
           gr_site_name = gq_site_name body, gr_region = gq_region body, gr_tags = gq_tags body,
           gr_config_template = gq_config_template body, gr_created_at = now, gr_created_by = user_id_attr user\<rparr>
     in seq (update (\<lambda>db. db\<lparr>fd_groups := fd_groups db @ [group]\<rparr>)) (\<lambda>_. ret (new_id, gq_name body)))"

record bulk_request =
  bq_appliance_ids :: "string list"
  bq_config :: dict

definition push_bulk_config :: "bulk_request \<Rightarrow> current_user \<Rightarrow> uuid \<Rightarrow> micros \<Rightarrow> (fleet_db, uuid \<times> string \<times> nat) exec" where
  "push_bulk_config body user new_id now =
     seq (lift_result (require_permission (permissions user) ''appliances:manage'')) (\<lambda>_.
     if bq_appliance_ids body = [] then raise (HTTPException 400 ''appliance_ids must not be empty'')
     else
       let job = \<lparr>bj_id = new_id, bj_org_id = user_org_id user, bj_config = bq_config body,
             bj_target_appliance_ids = bq_appliance_ids body, bj_status = ''pending'', bj_results = JArr [],
             bj_created_at = now, bj_completed_at = None, bj_created_by = user_id_attr user\<rparr>
       in seq (update (\<lambda>db. db\<lparr>fd_jobs := fd_jobs db @ [job]\<rparr>)) (\<lambda>_.
          ret (new_id, ''pending'', length (bq_appliance_ids body))))"

definition get_bulk_config_status :: "uuid \<Rightarrow> current_user \<Rightarrow> (fleet_db, bulk_job) exec" where
  "get_bulk_config_status job_id user =
     seq (lift_result (require_permission (permissions user) ''appliances:read'')) (\<lambda>_.
     seq (gets (\<lambda>db. List.find (\<lambda>j. bj_id j = job_id \<and> bj_org_id j = user_org_id user) (fd_jobs db))) (\<lambda>found.
     case found of None \<Rightarrow> raise (HTTPException 404 ''Config job not found'') | Some job \<Rightarrow> ret job))"

subsection \<open>What can happen to a job\<close>

text \<open>Every route of the fleet as one step; what it answers is forgotten.\<close>

datatype fleet_op =
    Overview | Health | Groups | CreateGroup group_request uuid | PushConfig bulk_request uuid | ConfigStatus uuid

definition fleet_step :: "current_user \<Rightarrow> micros \<Rightarrow> fleet_op \<Rightarrow> fleet_db \<Rightarrow> fleet_db" where
  "fleet_step user now op db =
     (case op of
        Overview \<Rightarrow> snd (fleet_overview user db)
      | Health \<Rightarrow> snd (get_fleet_health user db)
      | Groups \<Rightarrow> snd (list_groups user db)
      | CreateGroup body i \<Rightarrow> snd (create_group body user i now db)
      | PushConfig body i \<Rightarrow> snd (push_bulk_config body user i now db)
      | ConfigStatus i \<Rightarrow> snd (get_bulk_config_status i user db))"

inductive fleet_reach :: "fleet_db \<Rightarrow> bool" where
  fleet_start: "fleet_reach \<lparr>fd_groups = [], fd_snapshots = snapshots, fd_jobs = []\<rparr>"
| fleet_next: "fleet_reach db \<Longrightarrow> fleet_reach (fleet_step user now op db)"

lemma jobs_step:
  "fd_jobs (fleet_step user now op db) = fd_jobs db \<or>
   (\<exists>job. fd_jobs (fleet_step user now op db) = fd_jobs db @ [job] \<and> bj_status job = ''pending'' \<and> bj_results job = JArr [] \<and>
      bj_completed_at job = None \<and> bj_org_id job = user_org_id user)"
  by (cases op) (auto simp: fleet_step_def fleet_overview_def get_fleet_health_def list_groups_def create_group_def
      push_bulk_config_def get_bulk_config_status_def handler_simps split: option.splits)

subsection \<open>Properties\<close>

text \<open>A bulk configuration is accepted and never carried out: in every state the fleet's routes reach,
  whoever calls them in whatever order, each job is still pending, has no results and has not
  completed, so that its status never changes. \<close>

theorem bulk_jobs_stay_pending:
  assumes "fleet_reach db"
  shows "list_all (\<lambda>job. bj_status job = ''pending'' \<and> bj_results job = JArr [] \<and> bj_completed_at job = None) (fd_jobs db)"
  using assms
proof induction
  case (fleet_next db user now op)
  then show ?case using jobs_step [of user now op db] by auto
qed simp

theorem bulk_jobs_stay_pending_witness:
  "\<exists>db :: fleet_db. fd_jobs db \<noteq> [] \<and> list_all (\<lambda>job. bj_status job = ''pending'') (fd_jobs db)"
proof -
  define user where "user = \<lparr>user_sub = [], user_org_id = 7, user_email = [], user_role = ''admin''\<rparr>"
  define db where "db = fleet_step user 0 (PushConfig \<lparr>bq_appliance_ids = [''a1''], bq_config = []\<rparr> 3)
    \<lparr>fd_groups = [], fd_snapshots = [], fd_jobs = []\<rparr>"
  have "fleet_reach db" unfolding db_def by (intro fleet_next fleet_start)
  from bulk_jobs_stay_pending [OF this] have "list_all (\<lambda>job. bj_status job = ''pending'') (fd_jobs db)"
    by (auto simp: list_all_iff)
  moreover have "''appliances:manage'' \<in> set (permissions user)" by (simp add: user_def, code_simp)
  then have "fd_jobs db \<noteq> []"
    by (simp add: db_def fleet_step_def push_bulk_config_def handler_simps)
  ultimately show ?thesis by blast
qed

end
