(* ===== verification/Integrations.thy ===== *)
theory Integrations
  imports Notifications ThreatAnalysis
begin

text \<open>
  The integrations marketplace: config validation (\<open>services/integrations/validation.py\<close>), the
  connectors (\<open>servicenow.py\<close>, \<open>jira.py\<close>, \<open>pagerduty.py\<close>, \<open>splunk.py\<close>, \<open>sentinel.py\<close>), the
  dispatcher and the routes of \<open>routers/integrations.py\<close>. What leaves the server is a list of
  \<open>outgoing\<close> messages; httpx, the socket, the clock and the HMAC are the record \<open>transport\<close>.
\<close>

subsection \<open>Messages and transport\<close>

datatype outgoing =
    HttpPost string "(string \<times> json) list" "(json \<times> json) option" json
  | HttpText string "(string \<times> json) list" string
  | Datagram json int string

record transport =
  tp_guard :: outbound
  tp_send :: "outgoing \<Rightarrow> nat result"
  tp_sign :: "json \<Rightarrow> string \<Rightarrow> string result"
  tp_rfc1123 :: string
  tp_time :: rat

text \<open>A request and \<open>raise_for_status\<close>; a datagram has no answer.\<close>

definition send_out :: "transport \<Rightarrow> outgoing \<Rightarrow> (outgoing list, unit) exec" where
  "send_out tp msg =
     seq (update (\<lambda>tr. tr @ [msg])) (\<lambda>_.
     seq (lift_result (tp_send tp msg)) (\<lambda>status.
     case msg of
       Datagram _ _ _ \<Rightarrow> ret ()
     | _ \<Rightarrow> if 200 \<le> status \<and> status < 300 then ret () else raise (ExternalError ''HTTPStatusError'')))"

text \<open>\<open>value.rstrip("/")\<close>\<close>

definition url_base :: "json \<Rightarrow> string result" where
  "url_base v = (case v of
     JStr s \<Rightarrow> Inr (rstrip_slash s)
   | _ \<Rightarrow> Inl (AttributeError ''object has no attribute rstrip''))"

text \<open>\<open>MAP.get(payload.get("severity", "medium"), default)\<close>\<close>

definition severity_of :: "(string \<times> string) list \<Rightarrow> dict \<Rightarrow> string \<Rightarrow> string result" where
  "severity_of m payload dflt =
     (let v = dget_or payload ''severity'' (JStr ''medium'') in
      and_then (hashable v) (\<lambda>_.
      Inr (case v of JStr s \<Rightarrow> (case map_of m s of None \<Rightarrow> dflt | Some x \<Rightarrow> x) | _ \<Rightarrow> dflt)))"

subsection \<open>The connectors\<close>

definition SERVICENOW_SEVERITY :: "(string \<times> string) list" where
  "SERVICENOW_SEVERITY = [(''high'', ''1''), (''medium'', ''2''), (''low'', ''3'')]"

definition servicenow_title :: "string \<Rightarrow> dict \<Rightarrow> string" where
  "servicenow_title event_type payload =
     (if event_type = ''sla_breach''
      then ''R3VP: RTO SLA breach - '' @ py_str (dget_or payload ''workload'' (JStr ''unknown''))
      else if event_type = ''test_failed''
      then ''R3VP: Recovery test failed - '' @ py_str (dget_or payload ''workload'' (JStr ''unknown''))
      else if event_type = ''threat_detected''
      then ''R3VP: Threat detected - '' @ py_str (dget_or payload ''threat_name'' (JStr ''unknown''))
      else ''R3VP: '' @ event_type @ '' - '' @ py_str (dget_or payload ''workload'' (JStr [])))"

definition servicenow_description :: "string \<Rightarrow> dict \<Rightarrow> string" where
  "servicenow_description event_type payload =
     join ''\<newline>'' ((''Event: '' @ event_type) # map (\<lambda>(k, v). k @ '': '' @ py_str v) payload)"

definition send_incident :: "transport \<Rightarrow> dict \<Rightarrow> string \<Rightarrow> dict \<Rightarrow> (outgoing list, unit) exec" where
  "send_incident tp config event_type payload =
     seq (lift_result (and_then (dsub config ''instance_url'') url_base)) (\<lambda>instance_url.
     seq (lift_result (dsub config ''api_token'')) (\<lambda>token.
     seq (lift_result (severity_of SERVICENOW_SEVERITY payload ''2'')) (\<lambda>severity.
     let body = JObj
       [(''short_description'', JStr (servicenow_title event_type payload)),
        (''description'', JStr (servicenow_description event_type payload)),
        (''urgency'', JStr severity), (''impact'', JStr severity), (''category'', JStr ''Software''),
        (''subcategory'', JStr ''Backup and Recovery''), (''caller_id'', dget_or config ''caller_id'' (JStr ''r3vp''))]
     in seq (lift_result (assert_safe_url (tp_guard tp) instance_url)) (\<lambda>_.
        send_out tp (HttpPost (instance_url @ ''/api/now/table/incident'')
          [(''Authorization'', JStr (''Bearer '' @ py_str token)), (''Content-Type'', JStr ''application/json'')] None body)))))"

definition jira_summary :: "string \<Rightarrow> dict \<Rightarrow> string" where
  "jira_summary event_type payload =
     (if event_type = ''sla_breach''
      then ''[R3VP] RTO SLA breach: '' @ py_str (dget_or payload ''workload'' (JStr ''unknown''))
      else if event_type = ''test_failed''
      then ''[R3VP] Recovery test failed: '' @ py_str (dget_or payload ''workload'' (JStr ''unknown''))
      else ''[R3VP] '' @ event_type @ '': '' @ py_str (dget_or payload ''workload'' (JStr [])))"

definition jira_description :: "dict \<Rightarrow> string" where
  "jira_description payload = join ''\<newline>'' (map (\<lambda>(k, v). ''*'' @ k @ '':* '' @ py_str v) payload)"

definition jira_body :: "json \<Rightarrow> string \<Rightarrow> dict \<Rightarrow> json" where
  "jira_body project_key event_type payload = JObj [(''fields'', JObj
     [(''project'', JObj [(''key'', project_key)]), (''summary'', JStr (jira_summary event_type payload)),
      (''description'', JObj [(''type'', JStr ''doc''), (''version'', JInt 1),
         (''content'', JArr [JObj [(''type'', JStr ''paragraph''),
            (''content'', JArr [JObj [(''type'', JStr ''text''), (''text'', JStr (jira_description payload))]])]])]),
      (''issuetype'', JObj [(''name'', JStr ''Bug'')]),
      (''priority'', JObj [(''name'', JStr (if dget payload ''severity'' = JStr ''high'' then ''High'' else ''Medium''))]),
      (''labels'', JArr [JStr ''r3vp'', JStr (map (\<lambda>c. if c = CHR ''_'' then CHR ''-'' else c) event_type)])])]"

definition create_issue :: "transport \<Rightarrow> dict \<Rightarrow> string \<Rightarrow> dict \<Rightarrow> (outgoing list, unit) exec" where
  "create_issue tp config event_type payload =
     seq (lift_result (and_then (dsub config ''base_url'') url_base)) (\<lambda>base.
     seq (lift_result (dsub config ''api_token'')) (\<lambda>token.
     seq (lift_result (dsub config ''email'')) (\<lambda>email.
     seq (lift_result (dsub config ''project_key'')) (\<lambda>project_key.
     seq (lift_result (assert_safe_url (tp_guard tp) base)) (\<lambda>_.
     send_out tp (HttpPost (base @ ''/rest/api/3/issue'') [(''Content-Type'', JStr ''application/json'')]
       (Some (email, token)) (jira_body project_key event_type payload)))))))"

definition PAGERDUTY_SEVERITY :: "(string \<times> string) list" where
  "PAGERDUTY_SEVERITY = [(''high'', ''critical''), (''medium'', ''warning''), (''low'', ''info'')]"

definition trigger_alert :: "transport \<Rightarrow> dict \<Rightarrow> string \<Rightarrow> dict \<Rightarrow> (outgoing list, unit) exec" where
  "trigger_alert tp config event_type payload =
     seq (lift_result (dsub config ''routing_key'')) (\<lambda>routing_key.
     seq (lift_result (severity_of PAGERDUTY_SEVERITY payload ''warning'')) (\<lambda>severity.
     send_out tp (HttpPost PAGERDUTY_URL [] None (JObj
       [(''routing_key'', routing_key), (''event_action'', JStr ''trigger''),
        (''payload'', JObj
          [(''summary'', JStr (''R3VP '' @ event_type @ '': ''
              @ py_str (dget_or payload ''workload'' (dget_or payload ''threat_name'' (JStr ''unknown''))))),
           (''source'', JStr ''r3vp-appliance''), (''severity'', JStr severity), (''custom_details'', JObj payload)])]))))"

definition send_hec_event :: "transport \<Rightarrow> dict \<Rightarrow> string \<Rightarrow> dict \<Rightarrow> (outgoing list, unit) exec" where
  "send_hec_event tp config event_type payload =
     seq (lift_result (and_then (dsub config ''hec_url'') url_base)) (\<lambda>hec_url.
     seq (lift_result (dsub config ''hec_token'')) (\<lambda>token.
     let body = JObj
       [(''time'', JFloat (tp_time tp)), (''source'', JStr ''r3vp''), (''sourcetype'', JStr ''r3vp:event''),
        (''index'', dget_or config ''index'' (JStr ''main'')),
        (''event'', JObj (dmerge [(''event_type'', JStr event_type)] payload))]
     in seq (lift_result (assert_safe_url (tp_guard tp) hec_url)) (\<lambda>_.
        send_out tp (HttpPost (hec_url @ ''/services/collector/event'')
          [(''Authorization'', JStr (''Splunk '' @ py_str token))] None body))))"

definition send_syslog_cef :: "transport \<Rightarrow> dict \<Rightarrow> string \<Rightarrow> dict \<Rightarrow> (outgoing list, unit) exec" where
  "send_syslog_cef tp config event_type payload =
     seq (lift_result (dsub config ''syslog_host'')) (\<lambda>host.
     seq (lift_result (to_int (dget_or config ''syslog_port'' (JInt 514)))) (\<lambda>port.
     let severity = (if dget payload ''severity'' = JStr ''high'' then 5 else 3 :: int);
         cef = ''CEF:0|R3VP|RecoveryValidation|1.0|'' @ event_type @ ''|'' @ event_type @ ''|'' @ show_int severity @ ''|''
           @ join '' '' (map (\<lambda>(k, v). k @ ''='' @ map (\<lambda>c. if c = CHR '' '' then CHR ''_'' else c) (py_str v)) payload)
     in send_out tp (Datagram host port cef)))"

definition send_log_analytics :: "transport \<Rightarrow> dict \<Rightarrow> string \<Rightarrow> dict \<Rightarrow> (outgoing list, unit) exec" where
  "send_log_analytics tp config event_type payload =
     seq (lift_result (dsub config ''workspace_id'')) (\<lambda>workspace_id.
     seq (lift_result (dsub config ''shared_key'')) (\<lambda>shared_key.
     let log_type = dget_or config ''log_type'' (JStr ''R3VP'');
         body = dumps (JArr [JObj (dmerge [(''EventType'', JStr event_type)] payload)]);
         string_to_sign = ''POST\<newline>'' @ show_nat (length body) @ ''\<newline>application/json\<newline>x-ms-date:'' @ tp_rfc1123 tp
           @ ''\<newline>/api/logs''
     in seq (lift_result (tp_sign tp shared_key string_to_sign)) (\<lambda>signature.
        send_out tp (HttpText
          (''https://'' @ py_str workspace_id @ ''.ods.opinsights.azure.com/api/logs?api-version=2016-04-01'')
          [(''Content-Type'', JStr ''application/json''), (''Log-Type'', log_type), (''x-ms-date'', JStr (tp_rfc1123 tp)),
           (''Authorization'', JStr (''SharedKey '' @ py_str workspace_id @ '':'' @ signature))] body))))"

subsection \<open>The dispatcher\<close>

text \<open>\<open>str(exc)\<close>: a \<open>KeyError\<close> prints its key quoted.\<close>

definition exc_str :: "py_exn \<Rightarrow> string" where
  "exc_str e = (case e of KeyError k \<Rightarrow> repr_str k | _ \<Rightarrow> exn_text e)"

definition connector_of :: "string \<Rightarrow> (transport \<Rightarrow> dict \<Rightarrow> string \<Rightarrow> dict \<Rightarrow> (outgoing list, unit) exec) option" where
  "connector_of integration_type =
     (if integration_type = ''servicenow'' then Some send_incident
      else if integration_type = ''jira'' then Some create_issue
      else if integration_type = ''pagerduty'' then Some trigger_alert
      else if integration_type = ''splunk'' then Some send_hec_event
      else if integration_type = ''qradar'' then Some send_syslog_cef
      else if integration_type = ''sentinel'' then Some send_log_analytics
      else None)"

text \<open>\<open>ms\<close> is the measured time in milliseconds.\<close>

definition dispatch_event ::
    "transport \<Rightarrow> int \<Rightarrow> string \<Rightarrow> dict \<Rightarrow> string \<Rightarrow> dict \<Rightarrow> (outgoing list, bool \<times> string option \<times> int) exec" where
  "dispatch_event tp ms integration_type config event_type payload =
     (case connector_of integration_type of
        None \<Rightarrow> ret (False, Some (''Unknown integration type: '' @ integration_type), 0)
      | Some send \<Rightarrow>
          try_except (seq (send tp config event_type payload) (\<lambda>_. ret (True, None, ms)))
            (\<lambda>exc. ret (False, Some (exc_str exc), ms)))"

subsection \<open>Config validation\<close>

definition REQUIRED_FIELDS :: "(string \<times> string list) list" where
  "REQUIRED_FIELDS =
     [(''servicenow'', [''instance_url'', ''api_token'']),
      (''jira'', [''base_url'', ''api_token'', ''email'', ''project_key'']),
      (''pagerduty'', [''routing_key'']),
      (''splunk'', [''hec_url'', ''hec_token'']),
      (''qradar'', [''syslog_host'', ''syslog_port'']),
      (''sentinel'', [''workspace_id'', ''shared_key''])]"

text \<open>A frozenset in the code; the order of its members is one of those Python may take.\<close>

definition URL_FIELDS :: "string list" where
  "URL_FIELDS = [''instance_url'', ''base_url'', ''hec_url'']"

definition field_missing :: "dict \<Rightarrow> string \<Rightarrow> bool" where
  "field_missing config field \<longleftrightarrow>
     (case dget config field of JNull \<Rightarrow> True | JStr s \<Rightarrow> strip s = [] | _ \<Rightarrow> False)"

fun check_urls :: "outbound \<Rightarrow> dict \<Rightarrow> string list \<Rightarrow> string list result" where
  "check_urls out config [] = Inr []"
| "check_urls out config (field # others) =
     (let value = dget config field in
      if \<not> truthy value then check_urls out config others
      else case check_scheme_and_literal out (py_str value) of
        Inr _ \<Rightarrow> check_urls out config others
      | Inl (UnsafeUrlError exc) \<Rightarrow>
          and_then (check_urls out config others) (\<lambda>errors. Inr ((field @ '' is not an allowed URL: '' @ exc) # errors))
      | Inl e \<Rightarrow> Inl e)"

definition check_port :: "dict \<Rightarrow> string list" where
  "check_port config =
     (let port = dget config ''syslog_port'' in
      if port = JNull then []
      else case to_int port of
        Inl _ \<Rightarrow> [''syslog_port must be a number'']
      | Inr n \<Rightarrow> if \<not> (1 \<le> n \<and> n \<le> 65535) then [''syslog_port must be between 1 and 65535''] else [])"

definition validate_integration_config :: "outbound \<Rightarrow> string \<Rightarrow> dict \<Rightarrow> string list result" where
  "validate_integration_config out integration_type config =
     (case map_of REQUIRED_FIELDS integration_type of
        None \<Rightarrow> Inr [''Unknown integration type: '' @ integration_type]
      | Some required \<Rightarrow>
          let missing = map (\<lambda>f. ''Missing required config field: '' @ f) (filter (field_missing config) required)
          in and_then (check_urls out config URL_FIELDS) (\<lambda>unsafe.
             Inr (missing @ unsafe @ (if integration_type = ''qradar'' then check_port config else []))))"

subsection \<open>The routes\<close>

record integration_row =
  ig_id :: uuid
  ig_org_id :: uuid
  ig_type :: string
  ig_name :: string
  ig_config :: dict
  ig_trigger_events :: "string list"
  ig_enabled :: bool
  ig_last_triggered_at :: "micros option"
  ig_last_status :: "string option"
  ig_created_at :: micros
  ig_created_by :: "uuid option"

record event_log_row =
  el_id :: uuid
  el_integration_id :: uuid
  el_org_id :: uuid
  el_event_type :: string
  el_status :: string
  el_error_detail :: "string option"
  el_triggered_at :: micros
  el_response_ms :: "int option"

record local_user =
  lu_id :: uuid
  lu_org_id :: uuid
  lu_auth0_sub :: string

record integration_tables =
  it_integrations :: "integration_row list"
  it_logs :: "event_log_row list"
  it_users :: "local_user list"
  it_sent :: "outgoing list"

definition VALID_TYPES :: "string list" where
  "VALID_TYPES = [''jira'', ''pagerduty'', ''qradar'', ''sentinel'', ''servicenow'', ''splunk'']"

definition VALID_EVENTS :: "string list" where
  "VALID_EVENTS = [''sla_breach'', ''test_failed'', ''threat_detected'', ''incident_created'']"

record integration_request =
  iq_type :: string
  iq_name :: string
  iq_config :: dict
  iq_trigger_events :: "string list"

definition resolve_local_user_id :: "current_user \<Rightarrow> integration_tables \<Rightarrow> uuid option" where
  "resolve_local_user_id user s =
     map_option lu_id (List.find (\<lambda>u. lu_org_id u = user_org_id user \<and> lu_auth0_sub u = user_sub user) (it_users s))"

definition list_integrations :: "current_user \<Rightarrow> (integration_tables, integration_row list) exec" where
  "list_integrations user =
     seq (lift_result (require_permission (permissions user) ''settings:read'')) (\<lambda>_.
     gets (\<lambda>s. newest_rows ig_created_at (filter (\<lambda>i. ig_org_id i = user_org_id user) (it_integrations s))))"

definition create_integration ::
    "outbound \<Rightarrow> integration_request \<Rightarrow> current_user \<Rightarrow> uuid \<Rightarrow> micros \<Rightarrow> (integration_tables, integration_row) exec" where
  "create_integration out body user new_id now =
     seq (lift_result (require_permission (permissions user) ''settings:write'')) (\<lambda>_.
     if iq_type body \<notin> set VALID_TYPES
     then raise (HTTPException 400 (''integration_type must be one of: '' @ join '', '' VALID_TYPES))
     else
       let invalid_events = filter (\<lambda>e. e \<notin> set VALID_EVENTS) (iq_trigger_events body) in
       if invalid_events \<noteq> []
       then raise (HTTPException 400 (''Invalid trigger_events: '' @ py_repr (JArr (map JStr invalid_events))))
       else
         seq (lift_result (validate_integration_config out (iq_type body) (iq_config body))) (\<lambda>config_errors.
         if config_errors \<noteq> [] then raise (HTTPException 400 (join ''; '' config_errors))
         else
           seq (gets (resolve_local_user_id user)) (\<lambda>created_by.
           let row = \<lparr>ig_id = new_id, ig_org_id = user_org_id user, ig_type = iq_type body, ig_name = iq_name body,
                 ig_config = iq_config body, ig_trigger_events = iq_trigger_events body, ig_enabled = True,
                 ig_last_triggered_at = None, ig_last_status = None, ig_created_at = now, ig_created_by = created_by\<rparr>
           in seq (update (\<lambda>s. s\<lparr>it_integrations := it_integrations s @ [row]\<rparr>)) (\<lambda>_. ret row))))"

definition find_integration :: "uuid \<Rightarrow> current_user \<Rightarrow> integration_tables \<Rightarrow> integration_row option" where
  "find_integration integration_id user s =
     List.find (\<lambda>i. ig_id i = integration_id \<and> ig_org_id i = user_org_id user) (it_integrations s)"

definition with_integration ::
    "uuid \<Rightarrow> current_user \<Rightarrow> (integration_row \<Rightarrow> (integration_tables, 'a) exec) \<Rightarrow> (integration_tables, 'a) exec" where
  "with_integration integration_id user act =
     seq (lift_result (require_permission (permissions user) ''settings:write'')) (\<lambda>_.
     seq (gets (find_integration integration_id user)) (\<lambda>found.
     case found of None \<Rightarrow> raise (HTTPException 404 ''Integration not found'') | Some i \<Rightarrow> act i))"

definition test_payload :: dict where
  "test_payload = [(''workload'', JStr ''test-workload-01''), (''severity'', JStr ''medium''),
     (''message'', JStr ''R3VP integration test'')]"

definition at_sent :: "(outgoing list, 'a) exec \<Rightarrow> (integration_tables, 'a) exec" where
  "at_sent m s = (case m (it_sent s) of (r, tr) \<Rightarrow> (r, s\<lparr>it_sent := tr\<rparr>))"

definition test_integration ::
    "transport \<Rightarrow> int \<Rightarrow> uuid \<Rightarrow> current_user \<Rightarrow> (integration_tables, bool \<times> string option \<times> int) exec" where
  "test_integration tp ms integration_id user =
     with_integration integration_id user (\<lambda>i.
     at_sent (dispatch_event tp ms (ig_type i) (ig_config i) ''test_event'' test_payload))"

definition save_integration :: "integration_row \<Rightarrow> (integration_row \<Rightarrow> integration_row) \<Rightarrow> (integration_tables, unit) exec" where
  "save_integration i f =
     update (\<lambda>s. s\<lparr>it_integrations := update_where (\<lambda>x. ig_id x = ig_id i \<and> ig_org_id x = ig_org_id i) f (it_integrations s)\<rparr>)"

definition toggle_integration :: "uuid \<Rightarrow> current_user \<Rightarrow> (integration_tables, bool) exec" where
  "toggle_integration integration_id user =
     with_integration integration_id user (\<lambda>i.
     seq (save_integration i (\<lambda>i. i\<lparr>ig_enabled := \<not> ig_enabled i\<rparr>)) (\<lambda>_. ret (\<not> ig_enabled i)))"

definition delete_integration :: "uuid \<Rightarrow> current_user \<Rightarrow> (integration_tables, unit) exec" where
  "delete_integration integration_id user =
     with_integration integration_id user (\<lambda>i.
     update (\<lambda>s. s\<lparr>it_integrations := filter (\<lambda>x. \<not> (ig_id x = ig_id i \<and> ig_org_id x = ig_org_id i)) (it_integrations s)\<rparr>))"

definition get_event_logs :: "uuid \<Rightarrow> current_user \<Rightarrow> (integration_tables, event_log_row list) exec" where
  "get_event_logs integration_id user =
     seq (lift_result (require_permission (permissions user) ''settings:read'')) (\<lambda>_.
     gets (\<lambda>s. take 50 (newest_rows el_triggered_at
       (filter (\<lambda>l. el_integration_id l = integration_id \<and> el_org_id l = user_org_id user) (it_logs s)))))"

subsection \<open>Where a dispatch may go\<close>

text \<open>A post goes to a path of a base the guard accepted, or to PagerDuty; only two types send otherwise.\<close>

definition allowed_out :: "outbound \<Rightarrow> string \<Rightarrow> outgoing \<Rightarrow> bool" where
  "allowed_out out integration_type msg \<longleftrightarrow>
     (case msg of
        HttpPost url _ _ _ \<Rightarrow> url = PAGERDUTY_URL \<or> (\<exists>base path. url = base @ ''/'' @ path \<and> safe_target out base)
      | HttpText _ _ _ \<Rightarrow> integration_type = ''sentinel''
      | Datagram _ _ _ \<Rightarrow> integration_type = ''qradar'')"

definition one_allowed :: "outbound \<Rightarrow> string \<Rightarrow> outgoing list \<Rightarrow> outgoing list \<Rightarrow> bool" where
  "one_allowed out integration_type tr tr' \<longleftrightarrow>
     (\<exists>new. tr' = tr @ new \<and> length new \<le> 1 \<and> list_all (allowed_out out integration_type) new)"

lemma one_allowed_refl: "one_allowed out ty tr tr"
  unfolding one_allowed_def by (rule exI [of _ "[]"]) simp

lemma wp_send_out:
  assumes "allowed_out out ty msg"
  shows "wp (send_out tp msg) (\<lambda>_. one_allowed out ty tr) (\<lambda>_. one_allowed out ty tr) tr"
proof -
  have "one_allowed out ty tr (tr @ [msg])" unfolding one_allowed_def using assms by (intro exI [of _ "[msg]"]) simp
  then show ?thesis
    by (cases "tp_send tp msg"; cases msg) (simp_all add: send_out_def wp_simps)
qed

lemma wp_send_guarded:
  assumes "assert_safe_url (tp_guard tp) base = Inr u"
  shows "wp (send_out tp (HttpPost (base @ CHR ''/'' # path) h a b))
     (\<lambda>_. one_allowed (tp_guard tp) ty tr) (\<lambda>_. one_allowed (tp_guard tp) ty tr) tr"
proof (rule wp_send_out)
  have "safe_target (tp_guard tp) base" using assms assert_safe_url_iff [of "tp_guard tp" base] by simp
  then show "allowed_out (tp_guard tp) ty (HttpPost (base @ CHR ''/'' # path) h a b)" unfolding allowed_out_def by auto
qed

lemma lift_wp: "(\<And>x. r = Inr x \<Longrightarrow> wp (f x) Q E s) \<Longrightarrow> (\<And>e. r = Inl e \<Longrightarrow> E e s) \<Longrightarrow> wp (seq (lift_result r) f) Q E s"
  by (cases r) (simp_all add: wp_simps)

definition stays_allowed :: "transport \<Rightarrow> string \<Rightarrow> (outgoing list, unit) exec \<Rightarrow> bool" where
  "stays_allowed tp ty m \<longleftrightarrow>
     (\<forall>tr. wp m (\<lambda>_. one_allowed (tp_guard tp) ty tr) (\<lambda>_. one_allowed (tp_guard tp) ty tr) tr)"

lemma send_incident_allowed: "stays_allowed tp ty (send_incident tp config ev payload)"
  unfolding stays_allowed_def send_incident_def Let_def
  by (intro allI lift_wp one_allowed_refl) (erule wp_send_guarded)

lemma create_issue_allowed: "stays_allowed tp ty (create_issue tp config ev payload)"
  unfolding stays_allowed_def create_issue_def
  by (intro allI lift_wp one_allowed_refl) (erule wp_send_guarded)

lemma send_hec_event_allowed: "stays_allowed tp ty (send_hec_event tp config ev payload)"
  unfolding stays_allowed_def send_hec_event_def Let_def
  by (intro allI lift_wp one_allowed_refl) (erule wp_send_guarded)

lemma trigger_alert_allowed: "stays_allowed tp ty (trigger_alert tp config ev payload)"
  unfolding stays_allowed_def trigger_alert_def
  by (intro allI lift_wp one_allowed_refl wp_send_out) (simp add: allowed_out_def)

lemma send_syslog_cef_allowed: "stays_allowed tp ''qradar'' (send_syslog_cef tp config ev payload)"
  unfolding stays_allowed_def send_syslog_cef_def Let_def
  by (intro allI lift_wp one_allowed_refl wp_send_out) (simp add: allowed_out_def)

lemma send_log_analytics_allowed: "stays_allowed tp ''sentinel'' (send_log_analytics tp config ev payload)"
  unfolding stays_allowed_def send_log_analytics_def Let_def
  by (intro allI lift_wp one_allowed_refl wp_send_out) (simp add: allowed_out_def)

lemma connector_cases:
  "connector_of ty = Some send \<Longrightarrow>
     (ty = ''servicenow'' \<and> send = send_incident) \<or> (ty = ''jira'' \<and> send = create_issue) \<or>
     (ty = ''pagerduty'' \<and> send = trigger_alert) \<or> (ty = ''splunk'' \<and> send = send_hec_event) \<or>
     (ty = ''qradar'' \<and> send = send_syslog_cef) \<or> (ty = ''sentinel'' \<and> send = send_log_analytics)"
  unfolding connector_of_def by (simp only: option.inject option.distinct split: if_splits) simp_all

lemma connectors_allowed:
  assumes "connector_of ty = Some send"
  shows "stays_allowed tp ty (send tp config ev payload)"
  using connector_cases [OF assms]
  by (elim disjE conjE) (simp_all only: send_incident_allowed create_issue_allowed trigger_alert_allowed send_hec_event_allowed
      send_syslog_cef_allowed send_log_analytics_allowed)

text \<open>C27: where a dispatch may go: dispatching an event never raises and sends at most one message; an HTTP post
  goes to PagerDuty or to a path under a base address the URL guard accepted, and only Sentinel and
  QRadar integrations send anything else.\<close>

theorem dispatch_stays_guarded:
  "\<exists>success err n new. dispatch_event tp ms ty config ev payload tr = (Inr (success, err, n), tr @ new) \<and>
     length new \<le> 1 \<and> list_all (allowed_out (tp_guard tp) ty) new"
proof (cases "connector_of ty")
  case None
  then show ?thesis unfolding dispatch_event_def None option.case ret_def
    by (intro exI [of _ False] exI [of _ "Some (''Unknown integration type: '' @ ty)"] exI [of _ 0] exI [of _ "[]"]) simp
next
  case (Some send)
  obtain r tr' where run: "send tp config ev payload tr = (r, tr')" by fastforce
  have "one_allowed (tp_guard tp) ty tr tr'"
    using connectors_allowed [OF Some, of tp config ev payload] run by (cases r) (auto simp: wp_def stays_allowed_def dest: spec [of _ tr])
  then obtain new where "tr' = tr @ new" "length new \<le> 1" "list_all (allowed_out (tp_guard tp) ty) new"
    unfolding one_allowed_def by blast
  then show ?thesis using Some run
    by (cases r) (auto simp: dispatch_event_def try_except_def seq_def ret_def)
qed

subsection \<open>Validation and dispatch agree\<close>

definition required_texts :: "string \<Rightarrow> dict \<Rightarrow> bool" where
  "required_texts ty config \<longleftrightarrow>
     (case map_of REQUIRED_FIELDS ty of
        None \<Rightarrow> True
      | Some fs \<Rightarrow> list_all (\<lambda>f. f = ''syslog_port'' \<or> (\<exists>s. dget config f = JStr s)) fs)"

lemma dget_text: "dget config f = JStr s \<Longrightarrow> dsub config f = Inr (JStr s)"
  by (simp add: dget_def dsub_def split: option.splits)

lemma required_text:
  assumes "required_texts ty config" and "map_of REQUIRED_FIELDS ty = Some fs" and "f \<in> set fs" and "f \<noteq> ''syslog_port''"
  shows "\<exists>s. dsub config f = Inr (JStr s)"
proof -
  have "\<exists>s. dget config f = JStr s" using assms by (auto simp: required_texts_def list_all_iff)
  then show ?thesis using dget_text by blast
qed

lemma send_ok: "tp_send tp msg = Inr 200 \<Longrightarrow> send_out tp msg tr = (Inr (), tr @ [msg])"
  by (cases msg) (simp_all add: send_out_def exec_simps)

lemma test_severity: "severity_of m test_payload d = Inr (case map_of m ''medium'' of None \<Rightarrow> d | Some x \<Rightarrow> x)"
  by (simp add: severity_of_def test_payload_def dget_or_def hashable_def)

lemma valid_port:
  assumes "validate_integration_config out ''qradar'' config = Inr []"
  shows "\<exists>n. to_int (dget_or config ''syslog_port'' (JInt 514)) = Inr n \<and> 1 \<le> n \<and> n \<le> 65535"
proof -
  have "check_port config = []" and "\<not> field_missing config ''syslog_port''"
    using assms by (auto simp: validate_integration_config_def REQUIRED_FIELDS_def and_then_Inr Let_def split: if_splits)
  then have "dget config ''syslog_port'' \<noteq> JNull" by (auto simp: field_missing_def)
  moreover from this have "dget_or config ''syslog_port'' (JInt 514) = dget config ''syslog_port''"
    by (simp add: dget_or_def dget_def split: option.splits)
  ultimately show ?thesis using \<open>check_port config = []\<close>
    by (auto simp: check_port_def Let_def split: sum.splits if_splits)
qed

text \<open>Validation and connectors agree: where a config passes validation, its required fields are texts and the
  outside world accepts (the guard every address, the receiver every message, the key any text to
  sign), testing the integration succeeds and sends exactly one message; no connector reads a
  field that validation does not require.\<close>

theorem validated_config_dispatches:
  assumes "validate_integration_config (tp_guard tp) ty config = Inr []" and "required_texts ty config"
    and "\<And>url. assert_safe_url (tp_guard tp) url = Inr ()" and "\<And>msg. tp_send tp msg = Inr 200"
    and "\<And>key text. tp_sign tp key text = Inr (sign key text)"
  shows "\<exists>msg. dispatch_event tp ms ty config ''test_event'' test_payload tr = (Inr (True, None, ms), tr @ [msg])"
proof -
  have known: "map_of REQUIRED_FIELDS ty \<noteq> None"
    using assms(1) by (auto simp: validate_integration_config_def split: option.splits)
  then obtain fs where fs: "map_of REQUIRED_FIELDS ty = Some fs" by blast
  note needs = required_text [OF assms(2) fs]
  have run: ?thesis if "connector_of ty = Some send" "\<exists>msg. send tp config ''test_event'' test_payload tr = (Inr (), tr @ [msg])" for send
    using that by (elim exE) (simp add: dispatch_event_def try_except_def seq_def ret_def)
  note steps = seq_def lift_result_def send_ok [OF assms(4)] assms(3,5) test_severity url_base_def Let_def
  consider "ty = ''servicenow''" | "ty = ''jira''" | "ty = ''pagerduty''" | "ty = ''splunk''" | "ty = ''qradar''" | "ty = ''sentinel''"
    using fs by (auto simp: REQUIRED_FIELDS_def split: if_splits)
  then show ?thesis
  proof cases
    case 1
    have fs: "fs = [''instance_url'', ''api_token'']" using fs 1 by (simp add: REQUIRED_FIELDS_def)
    show ?thesis
      by (rule run [of send_incident]) (use needs [of "''instance_url''"] needs [of "''api_token''"] in
        \<open>auto simp: 1 fs connector_of_def send_incident_def steps\<close>)
  next
    case 2
    have fs: "fs = [''base_url'', ''api_token'', ''email'', ''project_key'']" using fs 2 by (simp add: REQUIRED_FIELDS_def)
    show ?thesis
      by (rule run [of create_issue]) (use needs [of "''base_url''"] needs [of "''api_token''"] needs [of "''email''"] needs [of "''project_key''"] in
        \<open>auto simp: 2 fs connector_of_def create_issue_def steps\<close>)
  next
    case 3
    have fs: "fs = [''routing_key'']" using fs 3 by (simp add: REQUIRED_FIELDS_def)
    show ?thesis
      by (rule run [of trigger_alert]) (use needs [of "''routing_key''"] in \<open>auto simp: 3 fs connector_of_def trigger_alert_def steps\<close>)
  next
    case 4
    have fs: "fs = [''hec_url'', ''hec_token'']" using fs 4 by (simp add: REQUIRED_FIELDS_def)
    show ?thesis
      by (rule run [of send_hec_event]) (use needs [of "''hec_url''"] needs [of "''hec_token''"] in
        \<open>auto simp: 4 fs connector_of_def send_hec_event_def steps\<close>)
  next
    case 5
    have fs: "fs = [''syslog_host'', ''syslog_port'']" using fs 5 by (simp add: REQUIRED_FIELDS_def)
    obtain n where "to_int (dget_or config ''syslog_port'' (JInt 514)) = Inr n" using valid_port assms(1) 5 by blast
    then show ?thesis
      by (intro run [of send_syslog_cef]) (use needs [of "''syslog_host''"] in \<open>auto simp: 5 fs connector_of_def send_syslog_cef_def steps\<close>)
  next
    case 6
    have fs: "fs = [''workspace_id'', ''shared_key'']" using fs 6 by (simp add: REQUIRED_FIELDS_def)
    show ?thesis
      by (rule run [of send_log_analytics]) (use needs [of "''workspace_id''"] needs [of "''shared_key''"] in
        \<open>auto simp: 6 fs connector_of_def send_log_analytics_def steps\<close>)
  qed
qed

definition willing :: transport where
  "willing = \<lparr>tp_guard = multicast_world, tp_send = (\<lambda>_. Inr 200), tp_sign = (\<lambda>_ _. Inr ''sig''), tp_rfc1123 = ''now'', tp_time = 0\<rparr>"

lemma willing_guard: "assert_safe_url (tp_guard willing) url = Inr ()"
  unfolding willing_def transport.simps
  by (rule multicast_accepted [where p = "\<lparr>u_scheme = ''http'', u_hostname = Some ''hook'', u_port = Inr None\<rparr>" and h = "''hook''" and port = None and addr = "''239.1.2.3''" and w = "v4 239 1 2 3"])
    (simp_all add: multicast_world_def default_port_def int_or_def lower_def lower_char_def v4_def)

theorem validated_config_dispatches_witness:
  "\<exists>msg. dispatch_event willing 5 ''servicenow'' [(''instance_url'', JStr ''http://hook''), (''api_token'', JStr ''t'')]
     ''test_event'' test_payload [] = (Inr (True, None, 5), [msg])"
proof -
  let ?c = "[(''instance_url'', JStr ''http://hook''), (''api_token'', JStr ''t'')]"
  have "check_scheme_and_literal (tp_guard willing) url = Inr ()" for url
    using willing_guard [of url] by (cases "check_scheme_and_literal (tp_guard willing) url") (auto simp: assert_safe_url_def)
  then have "validate_integration_config (tp_guard willing) ''servicenow'' ?c = Inr []"
    by (simp add: validate_integration_config_def REQUIRED_FIELDS_def URL_FIELDS_def field_missing_def dget_def Let_def
        strip_def is_space_def)
  moreover have "required_texts ''servicenow'' ?c" by (simp add: required_texts_def REQUIRED_FIELDS_def dget_def)
  ultimately show ?thesis
    using validated_config_dispatches [where tp = willing and ty = "''servicenow''" and config = ?c and ms = 5 and tr = "[]"
        and sign = "\<lambda>_ _. ''sig''"] willing_guard
    by (simp add: willing_def)
qed

subsection \<open>Sentinel goes anywhere\<close>

lemma strip_not_blank: "c \<in> set s \<Longrightarrow> \<not> is_space c \<Longrightarrow> strip s \<noteq> []"
proof -
  assume c: "c \<in> set s" "\<not> is_space c"
  have "c \<in> set (dropWhile is_space s)"
    using c by (induction s) auto
  then have "\<exists>x \<in> set (rev (dropWhile is_space s)). \<not> is_space x" using c(2) by auto
  then show ?thesis by (simp add: strip_def dropWhile_eq_Nil_conv)
qed

lemma find_appended: "List.find P xs = None \<Longrightarrow> P x \<Longrightarrow> List.find P (xs @ [x]) = Some x"
  by (induction xs) (auto split: if_splits)

definition sentinel_post :: "string \<Rightarrow> (string \<times> json) list \<Rightarrow> string \<Rightarrow> outgoing" where
  "sentinel_post target headers body =
     HttpText (''https://'' @ target @ ''.ods.opinsights.azure.com/api/logs?api-version=2016-04-01'') headers body"

lemma sentinel_dispatch:
  assumes "dsub config ''workspace_id'' = Inr (JStr target)" and "dsub config ''shared_key'' = Inr (JStr key)"
    and "\<And>text. tp_sign tp (JStr key) text = Inr (sign text)"
  obtains headers body r where
    "dispatch_event tp ms ''sentinel'' config event payload tr = (Inr r, tr @ [sentinel_post target headers body])"
proof -
  have "\<exists>headers body r. send_log_analytics tp config event payload tr = (r, tr @ [sentinel_post target headers body])"
    by (simp add: send_log_analytics_def seq_def lift_result_def assms Let_def send_out_def update_def raise_def ret_def
        sentinel_post_def split: sum.splits)
  then obtain headers body r where
    "send_log_analytics tp config event payload tr = (r, tr @ [sentinel_post target headers body])" by blast
  then show thesis
    by (cases r) (rule that, simp add: dispatch_event_def connector_of_def try_except_def seq_def ret_def)+
qed

text \<open>C28: the guard does not see Sentinel: whatever the URL guard refuses, a user who may write settings can create
  a Sentinel integration whose workspace id holds a host and a slash, and testing it posts to that
  host; the vendor's domain is only a suffix of the path.\<close>

theorem sentinel_reaches_any_host:
  assumes "''settings:write'' \<in> set (permissions user)" and "find_integration new_id user s = None"
    and "strip key \<noteq> []" and "\<And>text. tp_sign tp (JStr key) text = Inr (sign text)"
  shows "\<exists>row s1 r s2 headers body.
     create_integration (tp_guard tp) \<lparr>iq_type = ''sentinel'', iq_name = name,
        iq_config = [(''workspace_id'', JStr (host @ ''/'' @ path)), (''shared_key'', JStr key)], iq_trigger_events = []\<rparr>
       user new_id now s = (Inr row, s1) \<and>
     test_integration tp ms new_id user s1 = (Inr r, s2) \<and>
     it_sent s2 = it_sent s @
       [HttpText (''https://'' @ host @ ''/'' @ path @ ''.ods.opinsights.azure.com/api/logs?api-version=2016-04-01'') headers body]"
proof -
  define config where "config = [(''workspace_id'', JStr (host @ ''/'' @ path)), (''shared_key'', JStr key)]"
  define req where "req = \<lparr>iq_type = ''sentinel'', iq_name = name, iq_config = config, iq_trigger_events = []\<rparr>"
  have "strip (host @ ''/'' @ path) \<noteq> []" by (rule strip_not_blank [of "CHR ''/''"]) (simp_all add: is_space_def)
  then have valid: "validate_integration_config (tp_guard tp) ''sentinel'' config = Inr []"
    using assms(3) by (simp add: validate_integration_config_def REQUIRED_FIELDS_def URL_FIELDS_def field_missing_def dget_def
        config_def Let_def)
  define row where "row = \<lparr>ig_id = new_id, ig_org_id = user_org_id user, ig_type = ''sentinel'', ig_name = name,
     ig_config = config, ig_trigger_events = [], ig_enabled = True, ig_last_triggered_at = None, ig_last_status = None,
     ig_created_at = now, ig_created_by = resolve_local_user_id user s\<rparr>"
  define s1 where "s1 = s\<lparr>it_integrations := it_integrations s @ [row]\<rparr>"
  have created: "create_integration (tp_guard tp) req user new_id now s = (Inr row, s1)"
    using assms(1) valid
    by (simp add: create_integration_def handler_simps req_def row_def s1_def VALID_TYPES_def)
  have found: "find_integration new_id user s1 = Some row"
    using assms(2) unfolding find_integration_def s1_def by (simp add: find_appended row_def)
  obtain headers body r where sent: "dispatch_event tp ms ''sentinel'' config ''test_event'' test_payload (it_sent s)
     = (Inr r, it_sent s @ [sentinel_post (host @ ''/'' @ path) headers body])"
    by (rule sentinel_dispatch [of config "host @ ''/'' @ path" key tp sign]) (simp_all add: dsub_def config_def assms(4))
  have tested: "test_integration tp ms new_id user s1 = (Inr r, s1\<lparr>it_sent := it_sent s @ [sentinel_post (host @ ''/'' @ path) headers body]\<rparr>)"
    using assms(1) found sent
    by (simp add: test_integration_def with_integration_def handler_simps at_sent_def row_def s1_def)
  show ?thesis
    using created tested unfolding req_def config_def
    by (intro exI [of _ row] exI [of _ s1] exI [of _ r] exI [of _ headers] exI [of _ body] exI) (intro conjI, assumption, assumption, simp add: sentinel_post_def)
qed

definition integrator :: current_user where
  "integrator = \<lparr>user_sub = [], user_org_id = 7, user_email = [], user_role = ''owner''\<rparr>"

definition no_integrations :: integration_tables where
  "no_integrations = \<lparr>it_integrations = [], it_logs = [], it_users = [], it_sent = []\<rparr>"

theorem sentinel_reaches_any_host_witness:
  "\<exists>row s1 r s2 headers body.
     create_integration (tp_guard (willing)) \<lparr>iq_type = ''sentinel'', iq_name = ''siem'',
        iq_config = [(''workspace_id'', JStr (''169.254.169.254'' @ ''/'' @ ''x'')), (''shared_key'', JStr ''key'')],
        iq_trigger_events = []\<rparr> integrator 1 0 no_integrations = (Inr row, s1) \<and>
     test_integration (willing) 5 1 integrator s1 = (Inr r, s2) \<and>
     it_sent s2 = it_sent no_integrations @
       [HttpText (''https://'' @ ''169.254.169.254'' @ ''/'' @ ''x'' @
          ''.ods.opinsights.azure.com/api/logs?api-version=2016-04-01'') headers body]"
  by (rule sentinel_reaches_any_host [where sign = "\<lambda>_. ''sig''"])
    (simp_all add: integrator_def no_integrations_def find_integration_def willing_def strip_def is_space_def
      permissions_def role_permissions_def SYSTEM_ROLES_def PERMISSIONS_def)

end
