(* ===== verification/Mssp.thy ===== *)
theory Mssp
  imports Joins
begin

text \<open>
  The console of managed-service partners: the billing of \<open>services/mssp_billing.py\<close>, the partner
  records of \<open>services/mssp_provisioning.py\<close> and the routes of \<open>routers/mssp.py\<close> over the tables
  of \<open>models/mssp.py\<close> and the appliances, workloads and runs of ApplianceService.
\<close>

subsection \<open>Sums of floats\<close>

text \<open>
  \<open>sum\<close> of Python 3.12 on floats keeps the rounding errors in a second float; the empty sum is
  the int 0.
\<close>

definition sum_step :: "rat \<Rightarrow> rat \<times> rat \<Rightarrow> rat \<times> rat" where
  "sum_step x acc =
     (case acc of (hi, lo) \<Rightarrow>
        let t = fadd hi x in
        (t, if \<bar>x\<bar> \<le> \<bar>hi\<bar> then fadd lo (fadd (fsub hi t) x) else fadd lo (fadd (fsub x t) hi)))"

definition py_sum :: "rat list \<Rightarrow> rat" where
  "py_sum xs = (case fold sum_step xs (0, 0) of (hi, lo) \<Rightarrow> if lo = 0 then hi else fadd hi lo)"

subsection \<open>Billing\<close>

record rate =
  rt_base :: rat
  rt_per_workload :: rat
  rt_per_test_run :: rat

definition RATE_CARD :: "(string \<times> rate) list" where
  "RATE_CARD =
     [(''standard'', \<lparr>rt_base = 0, rt_per_workload = 5, rt_per_test_run = 1 / 2\<rparr>),
      (''premium'', \<lparr>rt_base = 200, rt_per_workload = 8, rt_per_test_run = 3 / 4\<rparr>),
      (''enterprise'', \<lparr>rt_base = 500, rt_per_workload = 12, rt_per_test_run = 1\<rparr>)]"

definition DEFAULT_TIER :: string where
  "DEFAULT_TIER = ''standard''"

definition rate_for_tier :: "string \<Rightarrow> rate" where
  "rate_for_tier tier =
     (case map_of RATE_CARD tier of Some r \<Rightarrow> r | None \<Rightarrow> the (map_of RATE_CARD DEFAULT_TIER))"

record line_item =
  li_customer :: string
  li_tier :: string
  li_workloads :: nat
  li_test_runs :: nat
  li_base_fee :: rat
  li_workload_cost :: rat
  li_test_run_cost :: rat
  li_total :: rat

definition compute_line_item :: "string \<Rightarrow> string \<Rightarrow> nat \<Rightarrow> nat \<Rightarrow> line_item" where
  "compute_line_item display_name tier workloads test_runs =
     (let r = rate_for_tier tier;
          workload_cost = round_dec 2 (fmul (fl (of_nat workloads)) (rt_per_workload r));
          test_run_cost = round_dec 2 (fmul (fl (of_nat test_runs)) (rt_per_test_run r));
          whole = round_dec 2 (fadd (fadd (rt_base r) workload_cost) test_run_cost)
      in \<lparr>li_customer = display_name, li_tier = (if tier \<in> fst ` set RATE_CARD then tier else DEFAULT_TIER),
          li_workloads = workloads, li_test_runs = test_runs, li_base_fee = rt_base r,
          li_workload_cost = workload_cost, li_test_run_cost = test_run_cost, li_total = whole\<rparr>)"

record billing_summary =
  bs_customer_count :: nat
  bs_total_workloads :: nat
  bs_total_test_runs :: nat
  bs_total_due :: rat
  bs_currency :: string

definition summarize_billing :: "line_item list \<Rightarrow> billing_summary" where
  "summarize_billing line_items =
     \<lparr>bs_customer_count = length line_items, bs_total_workloads = sum_list (map li_workloads line_items),
      bs_total_test_runs = sum_list (map li_test_runs line_items),
      bs_total_due = round_dec 2 (py_sum (map li_total line_items)), bs_currency = ''USD''\<rparr>"

subsection \<open>The tables\<close>

record partner_row =
  pa_id :: uuid
  pa_org_id :: uuid
  pa_name :: string
  pa_slug :: string

record customer_row =
  cu_id :: uuid
  cu_mssp_id :: uuid
  cu_org_id :: uuid
  cu_display_name :: string
  cu_industry :: "string option"
  cu_tier :: string
  cu_tags :: "string list"
  cu_notes :: "string option"
  cu_onboarded_at :: micros

record rule_row =
  ru_id :: uuid
  ru_mssp_id :: uuid
  ru_name :: string
  ru_condition :: string
  ru_threshold :: "int option"
  ru_applies_to :: string
  ru_notification_channel :: string
  ru_notification_target :: "string option"
  ru_enabled :: bool
  ru_created_at :: micros

record mssp_db = appliance_db +
  m_partners :: "partner_row list"
  m_customers :: "customer_row list"
  m_rules :: "rule_row list"

text \<open>A route that returns without a commit leaves the database as it was.\<close>

definition uncommitted :: "('s, 'a) exec \<Rightarrow> ('s, 'a) exec" where
  "uncommitted m s = (fst (m s), s)"

text \<open>\<open>org_id.hex\<close> is the text of the id without its dashes; \<open>slug\<close> is unique in the table.\<close>

definition partner_slug :: "(uuid \<Rightarrow> string) \<Rightarrow> uuid \<Rightarrow> string" where
  "partner_slug uuid_str org_id = ''org-'' @ take 12 (filter (\<lambda>c. c \<noteq> CHR ''-'') (uuid_str org_id))"

definition find_partner :: "uuid \<Rightarrow> mssp_db \<Rightarrow> partner_row option" where
  "find_partner org_id db = List.find (\<lambda>p. pa_org_id p = org_id) (m_partners db)"

definition get_or_create_partner :: "(uuid \<Rightarrow> string) \<Rightarrow> uuid \<Rightarrow> uuid \<Rightarrow> (mssp_db, partner_row) exec" where
  "get_or_create_partner uuid_str org_id new_id =
     seq (gets (find_partner org_id)) (\<lambda>found.
     case found of
       Some p \<Rightarrow> ret p
     | None \<Rightarrow>
         (let p = \<lparr>pa_id = new_id, pa_org_id = org_id, pa_name = ''Partner '' @ take 8 (uuid_str org_id),
                   pa_slug = partner_slug uuid_str org_id\<rparr>
          in seq (gets (\<lambda>db. list_ex (\<lambda>q. pa_slug q = pa_slug p) (m_partners db))) (\<lambda>taken.
             if taken then raise (ExternalError ''IntegrityError: UNIQUE constraint failed: mssp_partners.slug'')
             else seq (update (\<lambda>db. db\<lparr>m_partners := m_partners db @ [p]\<rparr>)) (\<lambda>_. ret p))))"

subsection \<open>The routes\<close>

record mock_customer =
  mk_id :: string
  mk_org_id :: string
  mk_display_name :: string
  mk_industry :: string
  mk_tier :: string
  mk_readiness_score :: int
  mk_workloads :: int
  mk_workloads_tested :: int
  mk_last_test :: string
  mk_active_threats :: int
  mk_open_incidents :: int
  mk_appliances :: int
  mk_status :: string

definition MOCK_CUSTOMERS :: "mock_customer list" where
  "MOCK_CUSTOMERS =
     [\<lparr>mk_id = ''c1'', mk_org_id = ''o1'', mk_display_name = ''Acme Corporation'', mk_industry = ''Financial Services'',
       mk_tier = ''premium'', mk_readiness_score = 87, mk_workloads = 42, mk_workloads_tested = 40,
       mk_last_test = ''Today 14:22'', mk_active_threats = 0, mk_open_incidents = 0, mk_appliances = 3, mk_status = ''healthy''\<rparr>,
      \<lparr>mk_id = ''c2'', mk_org_id = ''o2'', mk_display_name = ''Globex Industries'', mk_industry = ''Manufacturing'',
       mk_tier = ''standard'', mk_readiness_score = 61, mk_workloads = 28, mk_workloads_tested = 18,
       mk_last_test = ''Jun 20'', mk_active_threats = 1, mk_open_incidents = 1, mk_appliances = 2, mk_status = ''warning''\<rparr>,
      \<lparr>mk_id = ''c3'', mk_org_id = ''o3'', mk_display_name = ''Initech Solutions'', mk_industry = ''Technology'',
       mk_tier = ''enterprise'', mk_readiness_score = 94, mk_workloads = 67, mk_workloads_tested = 66,
       mk_last_test = ''Today 09:15'', mk_active_threats = 0, mk_open_incidents = 0, mk_appliances = 5, mk_status = ''healthy''\<rparr>,
      \<lparr>mk_id = ''c4'', mk_org_id = ''o4'', mk_display_name = ''Umbrella Medical'', mk_industry = ''Healthcare'',
       mk_tier = ''premium'', mk_readiness_score = 72, mk_workloads = 35, mk_workloads_tested = 26,
       mk_last_test = ''Jun 22'', mk_active_threats = 0, mk_open_incidents = 0, mk_appliances = 2, mk_status = ''healthy''\<rparr>,
      \<lparr>mk_id = ''c5'', mk_org_id = ''o5'', mk_display_name = ''Stark Logistics'', mk_industry = ''Retail'',
       mk_tier = ''standard'', mk_readiness_score = 38, mk_workloads = 19, mk_workloads_tested = 8,
       mk_last_test = ''Jun 10'', mk_active_threats = 2, mk_open_incidents = 1, mk_appliances = 1, mk_status = ''critical''\<rparr>]"

record mssp_summary_row =
  ms_total_customers :: nat
  ms_healthy :: nat
  ms_warning :: nat
  ms_critical :: nat
  ms_avg_readiness_score :: int
  ms_total_workloads :: int
  ms_total_active_threats :: int
  ms_total_open_incidents :: int

definition mssp_summary :: "current_user \<Rightarrow> (mssp_db, mssp_summary_row) exec" where
  "mssp_summary user =
     seq (lift_result (require_permission (permissions user) ''mssp:read'')) (\<lambda>_.
     ret \<lparr>ms_total_customers = length MOCK_CUSTOMERS,
          ms_healthy = count_if (\<lambda>c. mk_status c = ''healthy'') MOCK_CUSTOMERS,
          ms_warning = count_if (\<lambda>c. mk_status c = ''warning'') MOCK_CUSTOMERS,
          ms_critical = count_if (\<lambda>c. mk_status c = ''critical'') MOCK_CUSTOMERS,
          ms_avg_readiness_score =
            py_round (fdiv (of_int (sum_list (map mk_readiness_score MOCK_CUSTOMERS))) (of_nat (length MOCK_CUSTOMERS))),
          ms_total_workloads = sum_list (map mk_workloads MOCK_CUSTOMERS),
          ms_total_active_threats = sum_list (map mk_active_threats MOCK_CUSTOMERS),
          ms_total_open_incidents = sum_list (map mk_open_incidents MOCK_CUSTOMERS)\<rparr>)"

text \<open>\<open>ORDER BY display_name\<close>, by code points.\<close>

definition customers_of :: "partner_row \<Rightarrow> mssp_db \<Rightarrow> customer_row list" where
  "customers_of p db = sort_key cu_display_name (filter (\<lambda>c. cu_mssp_id c = pa_id p) (m_customers db))"

datatype customer_list = StoredCustomers "customer_row list" | MockCustomers "mock_customer list"

definition list_customers :: "(uuid \<Rightarrow> string) \<Rightarrow> current_user \<Rightarrow> uuid \<Rightarrow> (mssp_db, customer_list) exec" where
  "list_customers uuid_str user new_id =
     uncommitted (seq (lift_result (require_permission (permissions user) ''mssp:read'')) (\<lambda>_.
     seq (get_or_create_partner uuid_str (user_org_id user) new_id) (\<lambda>partner.
     seq (gets (customers_of partner)) (\<lambda>customers.
     ret (if customers \<noteq> [] then StoredCustomers customers else MockCustomers MOCK_CUSTOMERS)))))"

record customer_request =
  cq_org_id :: uuid
  cq_display_name :: string
  cq_industry :: "string option"
  cq_tier :: string
  cq_tags :: "string list"
  cq_notes :: "string option"

definition add_customer ::
    "(uuid \<Rightarrow> string) \<Rightarrow> customer_request \<Rightarrow> current_user \<Rightarrow> uuid \<Rightarrow> uuid \<Rightarrow> micros \<Rightarrow> (mssp_db, uuid \<times> string) exec" where
  "add_customer uuid_str body user partner_id new_id now =
     txn (seq (lift_result (require_permission (permissions user) ''mssp:manage'')) (\<lambda>_.
     seq (get_or_create_partner uuid_str (user_org_id user) partner_id) (\<lambda>partner.
     let customer = \<lparr>cu_id = new_id, cu_mssp_id = pa_id partner, cu_org_id = cq_org_id body,
           cu_display_name = cq_display_name body, cu_industry = cq_industry body, cu_tier = cq_tier body,
           cu_tags = cq_tags body, cu_notes = cq_notes body, cu_onboarded_at = now\<rparr>
     in seq (update (\<lambda>db. db\<lparr>m_customers := m_customers db @ [customer]\<rparr>)) (\<lambda>_.
        ret (new_id, cq_display_name body)))))"

definition remove_customer :: "(uuid \<Rightarrow> string) \<Rightarrow> uuid \<Rightarrow> current_user \<Rightarrow> uuid \<Rightarrow> (mssp_db, unit) exec" where
  "remove_customer uuid_str customer_id user partner_id =
     txn (seq (lift_result (require_permission (permissions user) ''mssp:manage'')) (\<lambda>_.
     seq (get_or_create_partner uuid_str (user_org_id user) partner_id) (\<lambda>partner.
     seq (gets (\<lambda>db. List.find (\<lambda>c. cu_id c = customer_id \<and> cu_mssp_id c = pa_id partner) (m_customers db))) (\<lambda>found.
     case found of
       None \<Rightarrow> raise (HTTPException 404 ''Customer org not found'')
     | Some c \<Rightarrow> update (\<lambda>db. db\<lparr>m_customers := filter (\<lambda>x. cu_id x \<noteq> cu_id c) (m_customers db)\<rparr>)))))"

record risk_row =
  rk_workload :: string
  rk_rto_target :: int
  rk_last_rto :: int
  rk_risk :: string

record scorecard_view =
  sv_customer :: mock_customer
  sv_trend :: "int list"
  sv_top_risks :: "risk_row list"

definition customer_scorecard :: "string \<Rightarrow> current_user \<Rightarrow> (mssp_db, scorecard_view) exec" where
  "customer_scorecard customer_id user =
     seq (lift_result (require_permission (permissions user) ''mssp:read'')) (\<lambda>_.
     case List.find (\<lambda>c. mk_id c = customer_id) MOCK_CUSTOMERS of
       None \<Rightarrow> raise (HTTPException 404 ''Customer not found'')
     | Some c \<Rightarrow> ret
         \<lparr>sv_customer = c,
          sv_trend = (if mk_status c = ''healthy'' then [82, 84, 85, 83, 86, 87]
                      else [55, 58, 60, 59, 61, mk_readiness_score c]),
          sv_top_risks =
            [\<lparr>rk_workload = ''db-prod-01'', rk_rto_target = 60, rk_last_rto = 74, rk_risk = ''high''\<rparr>,
             \<lparr>rk_workload = ''dc-prod-02'', rk_rto_target = 30, rk_last_rto = 28, rk_risk = ''medium''\<rparr>]\<rparr>)"

record default_rule =
  dr_id :: string
  dr_name :: string
  dr_condition :: string
  dr_threshold :: "int option"
  dr_applies_to :: string
  dr_notification_channel :: string
  dr_enabled :: bool

definition DEFAULT_RULES :: "default_rule list" where
  "DEFAULT_RULES =
     [\<lparr>dr_id = ''r1'', dr_name = ''Critical score alert'', dr_condition = ''readiness_below'', dr_threshold = Some 50,
       dr_applies_to = ''all'', dr_notification_channel = ''email'', dr_enabled = True\<rparr>,
      \<lparr>dr_id = ''r2'', dr_name = ''Active threat alert'', dr_condition = ''threat_detected'', dr_threshold = None,
       dr_applies_to = ''tier:premium'', dr_notification_channel = ''email'', dr_enabled = True\<rparr>,
      \<lparr>dr_id = ''r3'', dr_name = ''Stale test alert'', dr_condition = ''no_test_in_days'', dr_threshold = Some 14,
       dr_applies_to = ''all'', dr_notification_channel = ''email'', dr_enabled = False\<rparr>]"

datatype rule_list = StoredRules "rule_row list" | DefaultRules "default_rule list"

definition list_alert_rules :: "(uuid \<Rightarrow> string) \<Rightarrow> current_user \<Rightarrow> uuid \<Rightarrow> (mssp_db, rule_list) exec" where
  "list_alert_rules uuid_str user new_id =
     uncommitted (seq (lift_result (require_permission (permissions user) ''mssp:read'')) (\<lambda>_.
     seq (get_or_create_partner uuid_str (user_org_id user) new_id) (\<lambda>partner.
     seq (gets (\<lambda>db. newest_rows ru_created_at (filter (\<lambda>r. ru_mssp_id r = pa_id partner) (m_rules db)))) (\<lambda>rules.
     ret (if rules \<noteq> [] then StoredRules rules else DefaultRules DEFAULT_RULES)))))"

record rule_request =
  rq_name :: string
  rq_condition :: string
  rq_threshold :: "int option"
  rq_applies_to :: string
  rq_notification_channel :: string
  rq_notification_target :: "string option"

definition VALID_CONDITIONS :: "string list" where
  "VALID_CONDITIONS = [''no_test_in_days'', ''readiness_below'', ''rto_breach'', ''test_failure'', ''threat_detected'']"

definition create_alert_rule ::
    "(uuid \<Rightarrow> string) \<Rightarrow> rule_request \<Rightarrow> current_user \<Rightarrow> uuid \<Rightarrow> uuid \<Rightarrow> micros \<Rightarrow> (mssp_db, uuid \<times> string) exec" where
  "create_alert_rule uuid_str body user partner_id new_id now =
     txn (seq (lift_result (require_permission (permissions user) ''mssp:manage'')) (\<lambda>_.
     if rq_condition body \<notin> set VALID_CONDITIONS
     then raise (HTTPException 400 (''condition must be one of: '' @ join '', '' VALID_CONDITIONS))
     else
       seq (get_or_create_partner uuid_str (user_org_id user) partner_id) (\<lambda>partner.
       let rule = \<lparr>ru_id = new_id, ru_mssp_id = pa_id partner, ru_name = rq_name body, ru_condition = rq_condition body,
             ru_threshold = rq_threshold body, ru_applies_to = rq_applies_to body,
             ru_notification_channel = rq_notification_channel body, ru_notification_target = rq_notification_target body,
             ru_enabled = True, ru_created_at = now\<rparr>
       in seq (update (\<lambda>db. db\<lparr>m_rules := m_rules db @ [rule]\<rparr>)) (\<lambda>_. ret (new_id, rq_name body)))))"

subsection \<open>The billing route\<close>

text \<open>
  The grouped queries: the rows of the join, one organisation each, counted by organisation. A
  workload has one appliance and a run one workload, the foreign keys of the tables.
\<close>

definition group_counts :: "uuid list \<Rightarrow> (uuid \<times> nat) list" where
  "group_counts orgs = map (\<lambda>oid. (oid, count_list orgs oid)) (remdups orgs)"

definition workload_orgs :: "uuid list \<Rightarrow> mssp_db \<Rightarrow> uuid list" where
  "workload_orgs org_ids db =
     filter (\<lambda>oid. oid \<in> set org_ids)
       (List.map_filter (\<lambda>w. workload_org w db) (a_workloads db))"

definition run_orgs :: "uuid list \<Rightarrow> micros \<Rightarrow> mssp_db \<Rightarrow> uuid list" where
  "run_orgs org_ids since db =
     filter (\<lambda>oid. oid \<in> set org_ids)
       (List.map_filter (\<lambda>r. run_org r db)
         (filter (\<lambda>r. case tr_started_at r of None \<Rightarrow> False | Some t \<Rightarrow> since \<le> t) (a_runs db)))"

definition count_of :: "(uuid \<times> nat) list \<Rightarrow> uuid \<Rightarrow> nat" where
  "count_of counts oid = (case map_of counts oid of None \<Rightarrow> 0 | Some n \<Rightarrow> n)"

record billing =
  bi_period_days :: int
  bi_line_items :: "line_item list"
  bi_summary :: billing_summary

definition mssp_billing ::
    "(uuid \<Rightarrow> string) \<Rightarrow> int \<Rightarrow> current_user \<Rightarrow> uuid \<Rightarrow> micros \<Rightarrow> (mssp_db, billing) exec" where
  "mssp_billing uuid_str period_days user new_id now =
     uncommitted (seq (lift_result (require_permission (permissions user) ''mssp:read'')) (\<lambda>_.
     if \<not> (1 \<le> period_days \<and> period_days \<le> 366)
     then raise (HTTPException 400 ''period_days must be between 1 and 366'')
     else
       let since = now - period_days * 86400000000 in
       seq (get_or_create_partner uuid_str (user_org_id user) new_id) (\<lambda>partner.
       seq (gets (customers_of partner)) (\<lambda>customers.
       seq (gets (\<lambda>db. group_counts (workload_orgs (map cu_org_id customers) db))) (\<lambda>wl_counts.
       seq (gets (\<lambda>db. group_counts (run_orgs (map cu_org_id customers) since db))) (\<lambda>tr_counts.
       let line_items = map (\<lambda>c. compute_line_item (cu_display_name c) (cu_tier c)
             (count_of wl_counts (cu_org_id c)) (count_of tr_counts (cu_org_id c))) customers
       in ret \<lparr>bi_period_days = period_days, bi_line_items = line_items, bi_summary = summarize_billing line_items\<rparr>))))))"

subsection \<open>Quarters of a dollar are exact\<close>

text \<open>Every rate is a multiple of a quarter, so no rounding of the computation changes an amount.\<close>

lemma fl_quarters: "\<bar>m\<bar> < 2 ^ 53 \<Longrightarrow> fl (of_int m / 4) = of_int m / 4"
  using fl_exact [of m "-2"] by (simp add: power_int_minus)

lemma round_quarters: "\<bar>m\<bar> < 2 ^ 53 \<Longrightarrow> round_dec 2 (of_int m / 4) = of_int m / 4"
proof -
  assume m: "\<bar>m\<bar> < 2 ^ 53"
  have "of_int m / 4 * 10 ^ 2 = (of_int (25 * m) :: rat)" by simp
  then have "round_dec 2 (of_int m / 4) = fl (of_int (25 * m) / 100)" unfolding round_dec_def by (simp only: py_round_of_int) simp
  also have "\<dots> = fl (of_int m / 4)" by simp
  finally show ?thesis using fl_quarters [OF m] by simp
qed

definition quarters :: "rat \<Rightarrow> bool" where
  "quarters x \<longleftrightarrow> (\<exists>m. x = of_int m / 4)"

lemma quarters_of_int: "quarters (of_int n)"
  unfolding quarters_def by (rule exI [of _ "4 * n"]) simp

lemma quarters_add: "quarters x \<Longrightarrow> quarters y \<Longrightarrow> quarters (x + y)"
  unfolding quarters_def by (metis add_divide_distrib of_int_add)

lemma quarters_scale: "quarters x \<Longrightarrow> quarters (of_nat n * x)"
proof -
  assume "quarters x"
  then obtain m where "x = of_int m / 4" unfolding quarters_def by blast
  then have "of_nat n * x = of_int (int n * m) / 4" by simp
  then show ?thesis unfolding quarters_def by blast
qed

lemma quarters_exact:
  assumes "quarters x" "\<bar>x\<bar> < 2 ^ 51"
  shows "fl x = x" "round_dec 2 x = x"
proof -
  obtain m where m: "x = of_int m / 4" using assms(1) unfolding quarters_def by blast
  have "\<bar>of_int m :: rat\<bar> < of_int (2 ^ 53)" using assms(2) unfolding m by simp
  then have "\<bar>m\<bar> < 2 ^ 53" by (simp only: of_int_abs [symmetric] of_int_less_iff)
  then show "fl x = x" "round_dec 2 x = x" unfolding m by (rule fl_quarters, rule round_quarters)
qed

lemma sum_step_exact:
  assumes "quarters hi" "quarters x" "0 \<le> hi" "0 \<le> x" "hi + x < 2 ^ 51"
  shows "sum_step x (hi, 0) = (hi + x, 0)"
proof -
  have sum: "fadd hi x = hi + x" using assms by (simp add: fadd_def quarters_exact quarters_add)
  have neg: "fl (- x) = - x" "fl (- hi) = - hi" using assms by (simp_all add: fl_minus quarters_exact)
  show ?thesis using sum neg by (simp add: sum_step_def Let_def fadd_def fsub_def)
qed

lemma fold_sum_exact:
  "quarters hi \<Longrightarrow> 0 \<le> hi \<Longrightarrow> \<forall>x \<in> set xs. quarters x \<and> 0 \<le> x \<Longrightarrow> hi + sum_list xs < 2 ^ 51 \<Longrightarrow>
     fold sum_step xs (hi, 0) = (hi + sum_list xs, 0)"
proof (induction xs arbitrary: hi)
  case (Cons x xs)
  have "0 \<le> sum_list xs" using Cons.prems(3) by (intro sum_list_nonneg) auto
  then have "sum_step x (hi, 0) = (hi + x, 0)" using Cons.prems by (intro sum_step_exact) auto
  then show ?case using Cons.IH [of "hi + x"] Cons.prems by (simp add: quarters_add add.assoc)
qed simp

lemma py_sum_exact:
  assumes "\<forall>x \<in> set xs. quarters x \<and> 0 \<le> x" "sum_list xs < 2 ^ 51"
  shows "py_sum xs = sum_list xs"
  using fold_sum_exact [of 0 xs] assms quarters_of_int [of 0] by (simp add: py_sum_def)

lemma quarters_sum: "\<forall>x \<in> set xs. quarters x \<and> 0 \<le> x \<Longrightarrow> quarters (sum_list xs)"
  using quarters_of_int [of 0] by (induction xs) (auto simp: quarters_add)

subsection \<open>The price of a customer's usage\<close>

definition price :: "rate \<Rightarrow> nat \<Rightarrow> nat \<Rightarrow> rat" where
  "price r w t = rt_base r + of_nat w * rt_per_workload r + of_nat t * rt_per_test_run r"

lemma rate_cases:
  "rate_for_tier tier \<in> {\<lparr>rt_base = 0, rt_per_workload = 5, rt_per_test_run = 1 / 2\<rparr>,
     \<lparr>rt_base = 200, rt_per_workload = 8, rt_per_test_run = 3 / 4\<rparr>,
     \<lparr>rt_base = 500, rt_per_workload = 12, rt_per_test_run = 1\<rparr>}"
  by (simp add: rate_for_tier_def RATE_CARD_def DEFAULT_TIER_def)

lemma rate_quarters:
  "quarters (rt_base (rate_for_tier tier)) \<and> quarters (rt_per_workload (rate_for_tier tier)) \<and>
   quarters (rt_per_test_run (rate_for_tier tier)) \<and> 0 \<le> rt_base (rate_for_tier tier) \<and>
   1 \<le> rt_per_workload (rate_for_tier tier) \<and> 1 / 2 \<le> rt_per_test_run (rate_for_tier tier)"
proof -
  have q: "quarters 5" "quarters (1 / 2)" "quarters 8" "quarters (3 / 4)" "quarters 12" "quarters 1" "quarters 0" "quarters 200" "quarters 500"
    using quarters_of_int [of 5] quarters_of_int [of 8] quarters_of_int [of 12] quarters_of_int [of 1]
      quarters_of_int [of 0] quarters_of_int [of 200] quarters_of_int [of 500]
    by (auto simp: quarters_def intro: exI [of _ 2] exI [of _ 3])
  show ?thesis using rate_cases [of tier] q by auto
qed

lemma line_item_exact:
  assumes "price (rate_for_tier tier) w t < 2 ^ 50"
  shows "li_total (compute_line_item n tier w t) = price (rate_for_tier tier) w t"
    and "quarters (price (rate_for_tier tier) w t)" and "0 \<le> price (rate_for_tier tier) w t"
proof -
  define r where "r = rate_for_tier tier"
  note q = rate_quarters [of tier, folded r_def]
  let ?w = "of_nat w * rt_per_workload r" and ?t = "of_nat t * rt_per_test_run r"
  have less: "rt_base r + ?w + ?t < 2 ^ 50" using assms by (simp add: price_def r_def)
  have "of_nat w * 1 \<le> ?w" "of_nat t * (1 / 2) \<le> ?t" using q by (intro mult_left_mono; simp)+
  then have small: "(of_nat w :: rat) < 2 ^ 51" "(of_nat t :: rat) < 2 ^ 51" "0 \<le> ?w" "0 \<le> ?t"
    "rt_base r < 2 ^ 50" "?w < 2 ^ 50" "?t < 2 ^ 50" "rt_base r + ?w < 2 ^ 50" "0 \<le> rt_base r"
    using less q by simp_all
  have units: "fl (of_nat w) = of_nat w" "fl (of_nat t) = of_nat t"
    using quarters_exact(1) [of "of_nat w"] quarters_exact(1) [of "of_nat t"] quarters_of_int [of "int w"] quarters_of_int [of "int t"] small
    by simp_all
  have wq: "quarters ?w" and tq: "quarters ?t" using q quarters_scale by blast+
  have costs: "round_dec 2 (fmul (fl (of_nat w)) (rt_per_workload r)) = ?w" "round_dec 2 (fmul (fl (of_nat t)) (rt_per_test_run r)) = ?t"
    using small wq tq by (simp_all add: units fmul_def quarters_exact)
  have "fadd (fadd (rt_base r) ?w) ?t = rt_base r + ?w + ?t"
    using small less q wq tq by (simp add: fadd_def quarters_exact quarters_add)
  then show "li_total (compute_line_item n tier w t) = price (rate_for_tier tier) w t"
    using costs less small q wq tq
    by (simp add: compute_line_item_def price_def r_def [symmetric] Let_def quarters_exact quarters_add)
  show "quarters (price (rate_for_tier tier) w t)" "0 \<le> price (rate_for_tier tier) w t"
    using q wq tq small by (simp_all add: price_def r_def [symmetric] quarters_add)
qed

subsection \<open>What a bill says\<close>

text \<open>The usage of an organisation: its workloads, and its runs started since a time.\<close>

definition org_workloads :: "uuid \<Rightarrow> mssp_db \<Rightarrow> nat" where
  "org_workloads oid db = count_if (\<lambda>w. workload_org w db = Some oid) (a_workloads db)"

definition org_runs_since :: "micros \<Rightarrow> uuid \<Rightarrow> mssp_db \<Rightarrow> nat" where
  "org_runs_since since oid db =
     count_if (\<lambda>r. run_org r db = Some oid \<and> (\<exists>t. tr_started_at r = Some t \<and> since \<le> t)) (a_runs db)"

definition usage_price :: "micros \<Rightarrow> mssp_db \<Rightarrow> customer_row \<Rightarrow> rat" where
  "usage_price since db c =
     price (rate_for_tier (cu_tier c)) (org_workloads (cu_org_id c) db) (org_runs_since since (cu_org_id c) db)"

lemma count_of_group: "count_of (group_counts orgs) oid = count_list orgs oid"
proof -
  have "map_of (map (\<lambda>x. (x, count_list orgs x)) xs) oid = (if oid \<in> set xs then Some (count_list orgs oid) else None)" for xs
    by (induction xs) auto
  then show ?thesis by (auto simp: count_of_def group_counts_def count_list_0_iff)
qed

lemma count_list_filter: "P x \<Longrightarrow> count_list (filter P xs) x = count_list xs x"
  by (induction xs) auto

lemma count_list_map_filter: "count_list (List.map_filter f xs) y = count_if (\<lambda>x. f x = Some y) xs"
  by (induction xs) (auto simp: map_filter_simps split: option.splits)

lemma workload_count:
  "oid \<in> set ids \<Longrightarrow> count_of (group_counts (workload_orgs ids db)) oid = org_workloads oid db"
  by (simp add: count_of_group workload_orgs_def count_list_filter count_list_map_filter org_workloads_def)

lemma run_count:
  "oid \<in> set ids \<Longrightarrow> count_of (group_counts (run_orgs ids since db)) oid = org_runs_since since oid db"
  by (auto simp: count_of_group run_orgs_def count_list_filter count_list_map_filter org_runs_since_def count_if_def conj_commute
      intro!: arg_cong [where f = length] filter_cong split: option.splits)

lemma mssp_billing_run:
  assumes "''mssp:read'' \<in> set (permissions user)" and "1 \<le> period_days" "period_days \<le> 366"
    and "find_partner (user_org_id user) db = Some p"
  shows "mssp_billing uuid_str period_days user new_id now db =
     (let since = now - period_days * 86400000000;
          items = map (\<lambda>c. compute_line_item (cu_display_name c) (cu_tier c) (org_workloads (cu_org_id c) db)
            (org_runs_since since (cu_org_id c) db)) (customers_of p db)
      in (Inr \<lparr>bi_period_days = period_days, bi_line_items = items, bi_summary = summarize_billing items\<rparr>, db))"
proof -
  have "\<And>c. c \<in> set (customers_of p db) \<Longrightarrow> cu_org_id c \<in> set (map cu_org_id (customers_of p db))" by simp
  note counts = workload_count [OF this] run_count [OF this]
  show ?thesis
    using assms by (simp add: mssp_billing_def uncommitted_def get_or_create_partner_def handler_simps counts cong: map_cong)
qed

text \<open>
  What the documentation meters: \<open>docs/phases/phase-25.md\<close>, the README and the docstring of
  \<open>mssp_billing.py\<close> say protected workloads, and the query of the route counts all of them.
\<close>

definition protected_workloads :: "uuid \<Rightarrow> mssp_db \<Rightarrow> nat" where
  "protected_workloads oid db = count_if (\<lambda>w. workload_org w db = Some oid \<and> wl_is_protected w) (a_workloads db)"

definition unprotected_workloads :: "uuid \<Rightarrow> mssp_db \<Rightarrow> nat" where
  "unprotected_workloads oid db = count_if (\<lambda>w. workload_org w db = Some oid \<and> \<not> wl_is_protected w) (a_workloads db)"

definition documented_price :: "micros \<Rightarrow> mssp_db \<Rightarrow> customer_row \<Rightarrow> rat" where
  "documented_price since db c =
     price (rate_for_tier (cu_tier c)) (protected_workloads (cu_org_id c) db) (org_runs_since since (cu_org_id c) db)"

definition unprotected_charge :: "mssp_db \<Rightarrow> customer_row \<Rightarrow> rat" where
  "unprotected_charge db c = of_nat (unprotected_workloads (cu_org_id c) db) * rt_per_workload (rate_for_tier (cu_tier c))"

lemma count_if_by: "count_if P xs = count_if (\<lambda>x. P x \<and> Q x) xs + count_if (\<lambda>x. P x \<and> \<not> Q x) xs"
  by (induction xs) (auto simp: count_if_def)

lemma org_workloads_split: "org_workloads oid db = protected_workloads oid db + unprotected_workloads oid db"
  unfolding org_workloads_def protected_workloads_def unprotected_workloads_def by (rule count_if_by)

lemma usage_price_split: "usage_price since db c = documented_price since db c + unprotected_charge db c"
  by (simp add: usage_price_def documented_price_def unprotected_charge_def price_def org_workloads_split distrib_right)

text \<open>C29: bills add up exactly, but over all workloads: as long as the portfolio's usage costs less
  than 2^50 dollars, each line item charges its organisation's workloads and its runs started in the
  period at the rates of its tier, and the amount due is their exact sum, nothing being lost to the
  floats or their roundings. Every workload of the organisation is charged, so each line exceeds what
  the documentation meters, the protected workloads, by the rate for each unprotected one.\<close>

theorem billing_exact:
  assumes "''mssp:read'' \<in> set (permissions user)" and "1 \<le> period_days" "period_days \<le> 366"
    and "find_partner (user_org_id user) db = Some p"
    and "sum_list (map (usage_price (now - period_days * 86400000000) db) (customers_of p db)) < 2 ^ 50"
  shows "\<exists>b. mssp_billing uuid_str period_days user new_id now db = (Inr b, db) \<and>
     map li_total (bi_line_items b) = map (usage_price (now - period_days * 86400000000) db) (customers_of p db) \<and>
     bs_total_due (bi_summary b) = sum_list (map (usage_price (now - period_days * 86400000000) db) (customers_of p db)) \<and>
     map li_total (bi_line_items b)
       = map (\<lambda>c. documented_price (now - period_days * 86400000000) db c + unprotected_charge db c) (customers_of p db)"
proof -
  let ?since = "now - period_days * 86400000000"
  let ?prices = "map (usage_price ?since db) (customers_of p db)"
  have pos: "0 \<le> usage_price ?since db c" for c
    using rate_quarters [of "cu_tier c"] by (simp add: usage_price_def price_def)
  have each: "usage_price ?since db c < 2 ^ 50" if "c \<in> set (customers_of p db)" for c
    using member_le_sum_list [of "usage_price ?since db c" ?prices] that pos assms(5) by fastforce
  have item: "li_total (compute_line_item n (cu_tier c) (org_workloads (cu_org_id c) db) (org_runs_since ?since (cu_org_id c) db))
      = usage_price ?since db c \<and> quarters (usage_price ?since db c)" if "c \<in> set (customers_of p db)" for c n
    using line_item_exact [of "cu_tier c"] each [OF that] by (simp add: usage_price_def)
  have "\<forall>x \<in> set ?prices. quarters x \<and> 0 \<le> x" using item pos by auto
  then have "py_sum ?prices = sum_list ?prices" and "quarters (sum_list ?prices)"
    using assms(5) by (simp_all add: py_sum_exact quarters_sum)
  moreover have "0 \<le> sum_list ?prices" by (rule sum_list_nonneg) (use pos in auto)
  ultimately have "round_dec 2 (py_sum ?prices) = sum_list ?prices" using assms(5) by (simp add: quarters_exact)
  then show ?thesis
    using item unfolding mssp_billing_run [OF assms(1-4)]
    by (simp add: summarize_billing_def Let_def comp_def usage_price_split cong: map_cong)
qed

text \<open>C30: billing reveals any organisation: a partner who may manage customers adds the organisation of its choice, and
  its bill then states how many workloads that organisation has and how many tests it ran.\<close>

theorem billing_reveals_any_organisation:
  assumes "''mssp:read'' \<in> set (permissions user)" "''mssp:manage'' \<in> set (permissions user)"
    and "1 \<le> period_days" "period_days \<le> 366" and "find_partner (user_org_id user) db = Some p"
  shows "\<exists>r db1 b. add_customer uuid_str \<lparr>cq_org_id = victim, cq_display_name = name, cq_industry = None, cq_tier = tier,
        cq_tags = [], cq_notes = None\<rparr> user partner_id new_id now db = (Inr r, db1) \<and>
     mssp_billing uuid_str period_days user partner_id now db1 = (Inr b, db1) \<and>
     (\<exists>li \<in> set (bi_line_items b). li_customer li = name \<and> li_workloads li = org_workloads victim db \<and>
        li_test_runs li = org_runs_since (now - period_days * 86400000000) victim db)"
proof -
  define c where "c = \<lparr>cu_id = new_id, cu_mssp_id = pa_id p, cu_org_id = victim, cu_display_name = name, cu_industry = None,
     cu_tier = tier, cu_tags = [], cu_notes = None, cu_onboarded_at = now\<rparr>"
  define db1 where "db1 = db\<lparr>m_customers := m_customers db @ [c]\<rparr>"
  have added: "add_customer uuid_str \<lparr>cq_org_id = victim, cq_display_name = name, cq_industry = None, cq_tier = tier,
        cq_tags = [], cq_notes = None\<rparr> user partner_id new_id now db = (Inr (new_id, name), db1)"
    using assms(2,5) by (simp add: add_customer_def txn_def get_or_create_partner_def handler_simps db1_def c_def)
  have partner: "find_partner (user_org_id user) db1 = Some p" using assms(5) by (simp add: find_partner_def db1_def)
  have listed: "c \<in> set (customers_of p db1)" by (simp add: customers_of_def db1_def c_def)
  have tables: "a_appliances db1 = a_appliances db" "a_workloads db1 = a_workloads db" "a_runs db1 = a_runs db"
    by (simp_all add: db1_def)
  have same: "org_workloads oid db1 = org_workloads oid db"
    "org_runs_since since oid db1 = org_runs_since since oid db" for oid since
    by (simp_all add: org_workloads_def org_runs_since_def join_cong [OF tables(1,2)] tables)
  show ?thesis
    using added mssp_billing_run [OF assms(1,3,4) partner, of uuid_str partner_id now] listed
    by (auto simp: Let_def same c_def compute_line_item_def intro!: bexI [of _ c])
qed

subsection \<open>A portfolio\<close>

text \<open>One partner with a premium customer that has two workloads, one of them unprotected, and an organisation 9 it has not.\<close>

definition demo_partner :: current_user where
  "demo_partner = \<lparr>user_sub = [], user_org_id = 7, user_email = [], user_role = ''owner''\<rparr>"

definition demo_appliance :: "uuid \<Rightarrow> uuid \<Rightarrow> appliance_row" where
  "demo_appliance i org = \<lparr>ap_id = i, ap_org_id = org, ap_name = [], ap_version = None, ap_last_heartbeat = None,
     ap_mtls_thumbprint = [], ap_status = ''active''\<rparr>"

definition demo_workload :: "uuid \<Rightarrow> uuid \<Rightarrow> workload_row" where
  "demo_workload i appliance = \<lparr>wl_id = i, wl_appliance_id = appliance, wl_name = [], wl_platform = [], wl_os_type = None,
     wl_veeam_object_id = None, wl_vcenter_moref = None, wl_is_protected = True, wl_last_backup_at = None,
     wl_rto_target_mins = None, wl_rpo_target_mins = None, wl_schedule_cron = None\<rparr>"

definition demo_run :: "uuid \<Rightarrow> uuid \<Rightarrow> int \<Rightarrow> run_row" where
  "demo_run i workload t = \<lparr>tr_id = i, tr_workload_id = workload, tr_status = [], tr_started_at = Some t, tr_completed_at = None,
     tr_rto_actual_mins = None, tr_rpo_actual_mins = None, tr_readiness_score = None, tr_failure_reason = None,
     tr_workflow_run_id = None\<rparr>"

definition demo_portfolio :: mssp_db where
  "demo_portfolio = \<lparr>a_orgs = [], a_appliances = [demo_appliance 1 8, demo_appliance 2 9],
     a_workloads = [demo_workload 11 1, demo_workload 12 2, demo_workload 13 2,
       (demo_workload 14 1)\<lparr>wl_is_protected := False\<rparr>], a_runs = [demo_run 21 11 0, demo_run 22 12 0],
     a_steps = [], a_audit = [], a_notified = [],
     m_partners = [\<lparr>pa_id = 3, pa_org_id = 7, pa_name = [], pa_slug = []\<rparr>],
     m_customers = [\<lparr>cu_id = 4, cu_mssp_id = 3, cu_org_id = 8, cu_display_name = ''Eight'', cu_industry = None,
       cu_tier = ''premium'', cu_tags = [], cu_notes = None, cu_onboarded_at = 0\<rparr>],
     m_rules = []\<rparr>"

lemma demo_partner_allowed:
  "''mssp:read'' \<in> set (permissions demo_partner)" "''mssp:manage'' \<in> set (permissions demo_partner)"
  "find_partner (user_org_id demo_partner) demo_portfolio = Some \<lparr>pa_id = 3, pa_org_id = 7, pa_name = [], pa_slug = []\<rparr>"
  by (simp_all add: demo_partner_def demo_portfolio_def find_partner_def permissions_def role_permissions_def SYSTEM_ROLES_def
      PERMISSIONS_def)

lemma demo_prices:
  "map (usage_price (0 - 30 * 86400000000) demo_portfolio)
     (customers_of \<lparr>pa_id = 3, pa_org_id = 7, pa_name = [], pa_slug = []\<rparr> demo_portfolio) = [867 / 4]"
  by (simp add: usage_price_def customers_of_def demo_portfolio_def org_workloads_def org_runs_since_def run_org_def run_workload_def workload_org_def
      appliance_org_def demo_appliance_def demo_workload_def demo_run_def price_def rate_for_tier_def RATE_CARD_def)

theorem billing_exact_witness:
  "\<exists>b. mssp_billing (\<lambda>_. []) 30 demo_partner 5 0 demo_portfolio = (Inr b, demo_portfolio) \<and> bs_total_due (bi_summary b) = 867 / 4 \<and>
     map li_total (bi_line_items b) = [835 / 4 + 8]"
  using billing_exact [OF demo_partner_allowed(1) _ _ demo_partner_allowed(3), of 30 0 "\<lambda>_. []" 5] unfolding demo_prices by auto

theorem billing_reveals_any_organisation_witness:
  "\<exists>db1 b. mssp_billing (\<lambda>_. []) 30 demo_partner 5 0 db1 = (Inr b, db1) \<and>
     (\<exists>li \<in> set (bi_line_items b). li_workloads li = 2 \<and> li_test_runs li = 1)"
proof -
  have usage: "org_workloads 9 demo_portfolio = 2" "org_runs_since (0 - 30 * 86400000000) 9 demo_portfolio = 1"
    by (simp_all add: demo_portfolio_def org_workloads_def org_runs_since_def run_org_def run_workload_def workload_org_def
        appliance_org_def demo_appliance_def demo_workload_def demo_run_def)
  show ?thesis
    using billing_reveals_any_organisation [OF demo_partner_allowed(1,2) _ _ demo_partner_allowed(3), of 30 "\<lambda>_. []" 9 "''v''" "''standard''" 5 6 0]
    unfolding usage by auto
qed

end
