(* ===== verification/Onboarding.thy ===== *)
theory Onboarding
  imports Api
begin

text \<open>
  The onboarding wizard: the step definitions and progress of \<open>services/onboarding.py\<close> and the
  routes of \<open>routers/onboarding.py\<close> over the table of \<open>models/onboarding.py\<close>, with the state
  machine of a session and its isolation.
\<close>

subsection \<open>Steps and progress\<close>

record step_def =
  sd_step :: int
  sd_id :: string
  sd_title :: string
  sd_description :: string
  sd_required_fields :: "string list"
  sd_more :: dict

definition STEPS :: "step_def list" where
  "STEPS =
     [\<lparr>sd_step = 1, sd_id = ''org_profile'', sd_title = ''Organization Profile'',
       sd_description = ''Set your organization name, industry, and recovery objectives'',
       sd_required_fields = [''org_name'', ''industry'', ''default_rto_target_mins'', ''default_rpo_target_mins''],
       sd_more = []\<rparr>,
      \<lparr>sd_step = 2, sd_id = ''deploy_appliance'', sd_title = ''Deploy Appliance'',
       sd_description = ''Download and deploy the R3VP appliance inside your environment'',
       sd_required_fields = [],
       sd_more = [(''instructions'', JObj
         [(''docker'', JStr ''docker run -d --name r3vp-appliance -e R3VP_TOKEN=<token> -e R3VP_API_URL=https://api.r3vp.io r3vp/appliance:latest''),
          (''ova'', JStr ''Download the OVA from the portal, deploy to vSphere, and set the R3VP_TOKEN OVF property''),
          (''token_hint'', JStr ''Your registration token is shown below. It expires in 24 hours.'')])]\<rparr>,
      \<lparr>sd_step = 3, sd_id = ''connect_veeam'', sd_title = ''Connect Veeam B&R'',
       sd_description = ''Enter your Veeam Backup and Replication server details'',
       sd_required_fields = [''veeam_host'', ''veeam_port'', ''veeam_username''],
       sd_more = [(''notes'', JStr ''Credentials are encrypted with SOPS + age and never leave your environment'')]\<rparr>,
      \<lparr>sd_step = 4, sd_id = ''discover_workloads'', sd_title = ''Discover Workloads'',
       sd_description = ''Sync your protected VM inventory from Veeam and vCenter'',
       sd_required_fields = [], sd_more = [(''action'', JStr ''sync_inventory'')]\<rparr>,
      \<lparr>sd_step = 5, sd_id = ''first_test'', sd_title = ''Run First Validation'',
       sd_description = ''Select a workload and run your first automated recovery test'',
       sd_required_fields = [''workload_id''], sd_more = [(''action'', JStr ''trigger_test_run'')]\<rparr>,
      \<lparr>sd_step = 6, sd_id = ''complete'', sd_title = ''Setup Complete'',
       sd_description = ''Your R3VP environment is ready'', sd_required_fields = [], sd_more = []\<rparr>]"

definition get_step_definition :: "int \<Rightarrow> step_def option" where
  "get_step_definition step = List.find (\<lambda>s. sd_step s = step) STEPS"

text \<open>\<open>v > 0\<close> on a JSON value.\<close>

definition positive :: "json \<Rightarrow> bool result" where
  "positive v = (case v of
     JInt n \<Rightarrow> Inr (0 < n) | JFloat x \<Rightarrow> Inr (0 < x) | JBool b \<Rightarrow> Inr b
   | _ \<Rightarrow> Inl (TypeError ''> not supported between these instances''))"

definition is_step_complete :: "string \<Rightarrow> dict \<Rightarrow> bool result" where
  "is_step_complete step_id step_data =
     (if step_id = ''org_profile'' then Inr (truthy (dget step_data ''org_name''))
      else if step_id = ''deploy_appliance'' then Inr (truthy (dget step_data ''appliance_id''))
      else if step_id = ''connect_veeam'' then Inr (truthy (dget step_data ''veeam_connected''))
      else if step_id = ''discover_workloads'' then
        (let count = dget_or step_data ''workload_count'' (JInt 0)
         in positive (if truthy count then count else JInt 0))
      else if step_id = ''first_test'' then Inr (truthy (dget step_data ''first_test_run_id''))
      else Inr (step_id = ''complete''))"

fun completed_steps :: "dict \<Rightarrow> step_def list \<Rightarrow> int list result" where
  "completed_steps d [] = Inr []"
| "completed_steps d (s # ss) =
     and_then (is_step_complete (sd_id s) d) (\<lambda>done.
     and_then (completed_steps d ss) (\<lambda>rest. Inr (if done then sd_step s # rest else rest)))"

record progress =
  pr_completed_steps :: "int list"
  pr_total_steps :: nat
  pr_percent :: int

definition compute_progress :: "dict \<Rightarrow> progress result" where
  "compute_progress session_step_data =
     and_then (completed_steps session_step_data STEPS) (\<lambda>cs.
     Inr \<lparr>pr_completed_steps = cs, pr_total_steps = length STEPS,
          pr_percent = pct (int (length cs)) (int (length STEPS))\<rparr>)"

subsection \<open>The routes\<close>

record onboarding_session =
  ob_org_id :: uuid
  ob_current_step :: int
  ob_completed :: bool
  ob_dismissed :: bool
  ob_step_data :: dict
  ob_started_at :: micros
  ob_completed_at :: "micros option"

type_synonym onboarding_table = "onboarding_session list"

definition new_session :: "uuid \<Rightarrow> micros \<Rightarrow> onboarding_session" where
  "new_session org_id now =
     \<lparr>ob_org_id = org_id, ob_current_step = 1, ob_completed = False, ob_dismissed = False, ob_step_data = [],
      ob_started_at = now, ob_completed_at = None\<rparr>"

definition own_session :: "uuid \<Rightarrow> onboarding_table \<Rightarrow> onboarding_session option" where
  "own_session org_id t = List.find (\<lambda>s. ob_org_id s = org_id) t"

record onboarding_status =
  st_current_step :: int
  st_current_step_def :: "step_def option"
  st_completed :: bool
  st_dismissed :: bool
  st_progress :: progress
  st_step_data :: dict
  st_steps :: "step_def list"

definition status_of :: "onboarding_session \<Rightarrow> onboarding_status result" where
  "status_of s =
     and_then (compute_progress (ob_step_data s)) (\<lambda>p.
     Inr \<lparr>st_current_step = ob_current_step s, st_current_step_def = get_step_definition (ob_current_step s),
          st_completed = ob_completed s, st_dismissed = ob_dismissed s, st_progress = p,
          st_step_data = ob_step_data s, st_steps = STEPS\<rparr>)"

definition get_onboarding_status :: "current_user \<Rightarrow> micros \<Rightarrow> (onboarding_table, onboarding_status) exec" where
  "get_onboarding_status user now =
     seq (gets (own_session (user_org_id user))) (\<lambda>found.
     case found of
       None \<Rightarrow>
         (let s = new_session (user_org_id user) now
          in seq (update (\<lambda>t. t @ [s])) (\<lambda>_. lift_result (status_of s)))
     | Some s \<Rightarrow> lift_result (status_of s))"

text \<open>The row of the organisation is one row: \<open>org_id\<close> is unique in the table.\<close>

definition save_session :: "onboarding_session \<Rightarrow> (onboarding_table, unit) exec" where
  "save_session s = update (update_where (\<lambda>x. ob_org_id x = ob_org_id s) (\<lambda>_. s))"

definition advance :: "step_def \<Rightarrow> dict \<Rightarrow> onboarding_session \<Rightarrow> onboarding_session" where
  "advance d data s =
     (let s = s\<lparr>ob_step_data := dmerge (ob_step_data s) data\<rparr>
      in if ob_current_step s \<le> sd_step d
         then s\<lparr>ob_current_step := min (sd_step d + 1) (int (length STEPS))\<rparr> else s)"

definition finish :: "micros \<Rightarrow> onboarding_session \<Rightarrow> onboarding_session result" where
  "finish now s =
     (if int (length STEPS) \<le> ob_current_step s \<and> \<not> ob_completed s
      then and_then (compute_progress (ob_step_data s)) (\<lambda>p.
        Inr (if 80 \<le> pr_percent p then s\<lparr>ob_completed := True, ob_completed_at := Some now\<rparr> else s))
      else Inr s)"

definition update_step ::
    "string \<Rightarrow> dict \<Rightarrow> current_user \<Rightarrow> micros \<Rightarrow> (onboarding_table, int \<times> bool \<times> dict) exec" where
  "update_step step_id data user now =
     seq (gets (own_session (user_org_id user))) (\<lambda>found.
     case found of
       None \<Rightarrow> raise (HTTPException 404 ''Onboarding session not found'')
     | Some s \<Rightarrow>
         (case List.find (\<lambda>d. sd_id d = step_id) STEPS of
            None \<Rightarrow> raise (HTTPException 400 (''Unknown step_id: '' @ step_id))
          | Some d \<Rightarrow>
              seq (lift_result (finish now (advance d data s))) (\<lambda>s'.
              seq (save_session s') (\<lambda>_.
              ret (ob_current_step s', ob_completed s', ob_step_data s')))))"

definition dismiss_onboarding :: "current_user \<Rightarrow> (onboarding_table, unit) exec" where
  "dismiss_onboarding user =
     seq (gets (own_session (user_org_id user))) (\<lambda>found.
     case found of
       None \<Rightarrow> raise (HTTPException 404 ''Onboarding session not found'')
     | Some s \<Rightarrow> save_session (s\<lparr>ob_dismissed := True\<rparr>))"

definition reset_onboarding :: "current_user \<Rightarrow> (onboarding_table, unit) exec" where
  "reset_onboarding user =
     seq (gets (own_session (user_org_id user))) (\<lambda>found.
     case found of
       None \<Rightarrow> raise (HTTPException 404 ''Onboarding session not found'')
     | Some s \<Rightarrow> save_session (s\<lparr>ob_current_step := 1, ob_completed := False, ob_dismissed := False,
                              ob_completed_at := None, ob_step_data := []\<rparr>))"

subsection \<open>The state machine of a session\<close>

datatype onboarding_op = Status | Step string dict | Dismiss | Reset

datatype onboarding_response = StatusR onboarding_status | StepR "int \<times> bool \<times> dict" | DoneR

fun onboarding_handler ::
    "onboarding_op \<Rightarrow> current_user \<Rightarrow> micros \<Rightarrow> (onboarding_table, onboarding_response) exec" where
  "onboarding_handler Status user now = respond StatusR (get_onboarding_status user now)"
| "onboarding_handler (Step i data) user now = respond StepR (update_step i data user now)"
| "onboarding_handler Dismiss user now = respond (\<lambda>_. DoneR) (dismiss_onboarding user)"
| "onboarding_handler Reset user now = respond (\<lambda>_. DoneR) (reset_onboarding user)"

text \<open>What holds of every stored session. \<open>started\<close> bounds the step from the data of a finished one.\<close>

definition session_ok :: "onboarding_session \<Rightarrow> bool" where
  "session_ok s \<longleftrightarrow> 1 \<le> ob_current_step s \<and> ob_current_step s \<le> 6 \<and>
     (ob_completed s \<longrightarrow> ob_current_step s = 6) \<and> (ob_completed s \<longleftrightarrow> ob_completed_at s \<noteq> None)"

definition table_ok :: "onboarding_table \<Rightarrow> bool" where
  "table_ok t \<longleftrightarrow> list_all session_ok t \<and> distinct (map ob_org_id t)"

lemma steps_bounds: "d \<in> set STEPS \<Longrightarrow> 1 \<le> sd_step d \<and> sd_step d \<le> 6" and steps_length: "length STEPS = 6"
  by (auto simp: STEPS_def)

lemma own_sessionD: "own_session org t = Some s \<Longrightarrow> s \<in> set t \<and> ob_org_id s = org"
  by (auto simp: own_session_def find_Some_iff)

lemma own_session_None: "own_session org t = None \<Longrightarrow> org \<notin> ob_org_id ` set t"
  by (auto simp: own_session_def find_None_iff)

lemma advance_ok:
  assumes "session_ok s" "d \<in> set STEPS"
  shows "session_ok (advance d data s) \<and> ob_org_id (advance d data s) = ob_org_id s \<and>
     ob_completed (advance d data s) = ob_completed s \<and>
     ob_current_step s \<le> ob_current_step (advance d data s)"
  using assms steps_bounds [OF assms(2)] by (auto simp: advance_def Let_def session_ok_def steps_length)

text \<open>Completion asks for five of the six steps.\<close>

lemma pct_five_sixths: "pct 5 6 = 83"
  by code_simp

lemma percent_80: "80 \<le> pct (int k) 6 \<longleftrightarrow> 5 \<le> k"
proof -
  have "pct 4 6 = 67" by code_simp
  then show ?thesis using pct_five_sixths pct_mono [of 6 "int k" 4] pct_mono [of 6 5 "int k"] by fastforce
qed

lemma finish_ok:
  assumes "session_ok s" and "finish now s = Inr s'"
  shows "session_ok s' \<and> ob_org_id s' = ob_org_id s \<and> ob_current_step s' = ob_current_step s \<and>
     ob_step_data s' = ob_step_data s \<and>
     (ob_completed s' \<and> \<not> ob_completed s \<longrightarrow>
        (\<exists>p. compute_progress (ob_step_data s') = Inr p \<and> 5 \<le> length (pr_completed_steps p)))"
proof (cases "6 \<le> ob_current_step s \<and> \<not> ob_completed s")
  case True
  then obtain p where p: "compute_progress (ob_step_data s) = Inr p"
    and s': "s' = (if 80 \<le> pr_percent p then s\<lparr>ob_completed := True, ob_completed_at := Some now\<rparr> else s)"
    using assms(2) by (auto simp: finish_def steps_length and_then_Inr)
  have "pr_percent p = pct (int (length (pr_completed_steps p))) 6"
    using p by (auto simp: compute_progress_def and_then_Inr steps_length)
  then show ?thesis using assms(1) p s' True percent_80 by (simp add: session_ok_def)
next
  case False
  then have "s' = s" using assms(2) by (auto simp: finish_def steps_length split: if_splits)
  then show ?thesis using assms(1) by simp
qed

lemma table_ok_replace:
  assumes "table_ok t" and "session_ok s"
  shows "table_ok (update_where (\<lambda>x. ob_org_id x = ob_org_id s) (\<lambda>_. s) t)"
proof -
  have "map ob_org_id (update_where (\<lambda>x. ob_org_id x = ob_org_id s) (\<lambda>_. s) t) = map ob_org_id t"
    by (induction t) (auto simp: update_where_def)
  moreover have "list_all session_ok (update_where (\<lambda>x. ob_org_id x = ob_org_id s) (\<lambda>_. s) t)"
    using assms by (auto simp: table_ok_def update_where_def list_all_iff)
  ultimately show ?thesis using assms(1) by (simp add: table_ok_def)
qed

lemma own_replace:
  "own_session org t = Some s0 \<Longrightarrow> ob_org_id s = org \<Longrightarrow>
     own_session org (update_where (\<lambda>x. ob_org_id x = org) (\<lambda>_. s) t) = Some s"
  by (induction t) (auto simp: own_session_def update_where_def)

text \<open>What one request may do to the session of its organisation.\<close>

definition moves :: "onboarding_op \<Rightarrow> uuid \<Rightarrow> onboarding_session option \<Rightarrow> onboarding_session option \<Rightarrow> bool" where
  "moves op org before after \<longleftrightarrow>
     (case after of
        None \<Rightarrow> before = None
      | Some s' \<Rightarrow> session_ok s' \<and> ob_org_id s' = org \<and>
          (case before of
             None \<Rightarrow> op = Status \<and> ob_current_step s' = 1 \<and> \<not> ob_completed s'
           | Some s \<Rightarrow>
               (op = Reset \<longrightarrow> s' = s \<or> (ob_current_step s' = 1 \<and> \<not> ob_completed s' \<and> ob_step_data s' = [])) \<and>
               (op \<noteq> Reset \<longrightarrow> ob_current_step s \<le> ob_current_step s' \<and> (ob_completed s \<longrightarrow> ob_completed s') \<and>
                  (ob_completed s' \<and> \<not> ob_completed s \<longrightarrow> (\<exists>p. compute_progress (ob_step_data s') = Inr p \<and>
                     5 \<le> length (pr_completed_steps p))))))"

lemma moves_refl: "table_ok t \<Longrightarrow> moves op org (own_session org t) (own_session org t)"
  by (cases "own_session org t") (auto simp: moves_def table_ok_def list_all_iff dest: own_sessionD)

lemma saved:
  assumes "table_ok t" and "own_session org t = Some s" and "session_ok s'" and "ob_org_id s' = org"
  shows "save_session s' t = (Inr (), update_where (\<lambda>x. ob_org_id x = org) (\<lambda>_. s') t)"
    and "table_ok (update_where (\<lambda>x. ob_org_id x = org) (\<lambda>_. s') t)"
    and "own_session org (update_where (\<lambda>x. ob_org_id x = org) (\<lambda>_. s') t) = Some s'"
  using assms table_ok_replace [of t s'] own_replace [of org t s s'] by (simp_all add: save_session_def update_def)

lemma handler_moves:
  assumes "table_ok t" and "onboarding_handler op user now t = (r, t')"
  shows "table_ok t' \<and> moves op (user_org_id user) (own_session (user_org_id user) t) (own_session (user_org_id user) t')"
proof (cases "own_session (user_org_id user) t")
  case None
  show ?thesis
  proof (cases op)
    case Status
    then have "t' = t @ [new_session (user_org_id user) now]"
      using assms(2) None by (auto simp: get_onboarding_status_def respond_def seq_def gets_def update_def ret_def lift_result_def
          Let_def split: sum.splits prod.splits)
    moreover have "user_org_id user \<notin> ob_org_id ` set t" by (rule own_session_None [OF None])
    moreover have "own_session (user_org_id user) (t @ [new_session (user_org_id user) now]) = Some (new_session (user_org_id user) now)"
      using None by (induction t) (auto simp: own_session_def new_session_def split: if_splits)
    ultimately show ?thesis using assms(1) None Status
      by (simp add: table_ok_def moves_def session_ok_def) (auto simp: new_session_def)
  qed (use assms None in \<open>auto simp: moves_def respond_def update_step_def dismiss_onboarding_def reset_onboarding_def
      seq_def gets_def raise_def\<close>)
next
  case (Some s)
  have s: "session_ok s" "ob_org_id s = user_org_id user"
    using own_sessionD [OF Some] assms(1) by (auto simp: table_ok_def list_all_iff)
  have replaced: ?thesis if "t' = update_where (\<lambda>x. ob_org_id x = user_org_id user) (\<lambda>_. s') t" and "session_ok s'"
    and "ob_org_id s' = user_org_id user" and "moves op (user_org_id user) (Some s) (Some s')" for s'
    using saved [OF assms(1) Some that(2,3)] that(1,4) Some by simp
  show ?thesis
  proof (cases op)
    case Status
    then have "t' = t"
      using assms(2) Some by (auto simp: get_onboarding_status_def respond_def seq_def gets_def ret_def lift_result_def split: sum.splits)
    then show ?thesis using assms(1) moves_refl [OF assms(1)] by simp
  next
    case (Step i data)
    show ?thesis
    proof (cases "List.find (\<lambda>d. sd_id d = i) STEPS")
      case None
      then have "t' = t" using assms(2) Some Step by (simp add: update_step_def respond_def seq_def gets_def raise_def)
      then show ?thesis using assms(1) moves_refl [OF assms(1)] by simp
    next
      case d: (Some d)
      then have "d \<in> set STEPS" by (auto simp: find_Some_iff)
      note adv = advance_ok [OF s(1) this, of data]
      show ?thesis
      proof (cases "finish now (advance d data s)")
        case (Inl e)
        then have "t' = t" using assms(2) Some Step d by (simp add: update_step_def respond_def seq_def gets_def lift_result_def)
        then show ?thesis using assms(1) moves_refl [OF assms(1)] by simp
      next
        case (Inr s')
        have fin: "session_ok s'" "ob_org_id s' = ob_org_id (advance d data s)" "ob_current_step s' = ob_current_step (advance d data s)"
          "ob_completed s' \<and> \<not> ob_completed (advance d data s) \<longrightarrow>
             (\<exists>p. compute_progress (ob_step_data s') = Inr p \<and> 5 \<le> length (pr_completed_steps p))"
          using finish_ok [OF _ Inr] adv by auto
        have keep: "ob_completed (advance d data s) \<longrightarrow> ob_completed s'"
          using Inr by (auto simp: finish_def and_then_Inr split: if_splits)
        have "t' = update_where (\<lambda>x. ob_org_id x = user_org_id user) (\<lambda>_. s') t"
          using assms(2) Some Step d Inr fin(2) adv s(2)
          by (simp add: update_step_def respond_def seq_def gets_def lift_result_def save_session_def update_def ret_def)
        moreover have "moves op (user_org_id user) (Some s) (Some s')"
        proof -
          have "ob_current_step s \<le> ob_current_step s'" "ob_completed s \<longrightarrow> ob_completed s'" "ob_org_id s' = user_org_id user"
            using fin(2,3) keep adv s(2) by auto
          moreover have "ob_completed s' \<and> \<not> ob_completed s \<longrightarrow>
             (\<exists>p. compute_progress (ob_step_data s') = Inr p \<and> 5 \<le> length (pr_completed_steps p))"
            using fin(4) adv by simp
          ultimately show ?thesis using fin(1) Step by (simp add: moves_def)
        qed
        ultimately show ?thesis using fin(1,2) adv s(2) by (intro replaced) simp_all
      qed
    qed
  next
    case Dismiss
    have "t' = update_where (\<lambda>x. ob_org_id x = user_org_id user) (\<lambda>_. s\<lparr>ob_dismissed := True\<rparr>) t"
      using assms(2) Some Dismiss s(2) by (simp add: dismiss_onboarding_def respond_def seq_def gets_def save_session_def update_def ret_def)
    then show ?thesis using s Dismiss by (intro replaced [of "s\<lparr>ob_dismissed := True\<rparr>"]) (auto simp: moves_def session_ok_def)
  next
    case Reset
    let ?s = "s\<lparr>ob_current_step := 1, ob_completed := False, ob_dismissed := False, ob_completed_at := None, ob_step_data := []\<rparr>"
    have "t' = update_where (\<lambda>x. ob_org_id x = user_org_id user) (\<lambda>_. ?s) t"
      using assms(2) Some Reset s(2) by (simp add: reset_onboarding_def respond_def seq_def gets_def save_session_def update_def ret_def)
    then show ?thesis using s Reset by (intro replaced [of ?s]) (simp_all add: moves_def session_ok_def)
  qed
qed

inductive onboarding_reachable :: "onboarding_table \<Rightarrow> bool" where
  empty: "onboarding_reachable []"
| request: "onboarding_reachable t \<Longrightarrow> onboarding_handler op user now t = (r, t') \<Longrightarrow> onboarding_reachable t'"

lemma reachable_ok: "onboarding_reachable t \<Longrightarrow> table_ok t"
proof (induction rule: onboarding_reachable.induct)
  case (request t op user now r t')
  then show ?case using handler_moves by blast
qed (simp add: table_ok_def)

text \<open>C26: the state machine of the wizard: in every reachable table each organisation has at most one session,
  on a step from 1 to 6, completed only on step 6 and exactly when a completion time is set; a
  request other than a reset never moves its session back and never takes a completion away, and
  a session becomes completed only when at least five of the six steps are complete in its data.\<close>

theorem onboarding_state_machine:
  assumes "onboarding_reachable t"
  shows "table_ok t \<and> (case onboarding_handler op user now t of (r, t') \<Rightarrow>
     table_ok t' \<and> moves op (user_org_id user) (own_session (user_org_id user) t) (own_session (user_org_id user) t'))"
proof -
  obtain r t' where run: "onboarding_handler op user now t = (r, t')" by fastforce
  show ?thesis
    unfolding run prod.case using reachable_ok [OF assms] handler_moves [OF reachable_ok [OF assms] run] by simp
qed

text \<open>A session run through the wizard, with the Veeam step left out.\<close>

definition demo_user :: current_user where
  "demo_user = \<lparr>user_sub = [], user_org_id = 7, user_email = [], user_role = ''viewer''\<rparr>"

definition demo_data :: dict where
  "demo_data = [(''org_name'', JStr ''o''), (''appliance_id'', JStr ''a''), (''workload_count'', JInt 3), (''first_test_run_id'', JStr ''r'')]"

definition demo_table :: onboarding_table where
  "demo_table = [\<lparr>ob_org_id = 7, ob_current_step = 6, ob_completed = True, ob_dismissed = False, ob_step_data = demo_data,
     ob_started_at = 0, ob_completed_at = Some 9\<rparr>]"

lemma demo_table_reachable: "onboarding_reachable demo_table"
proof -
  have "snd (onboarding_handler Status demo_user 0 []) = [new_session 7 0]"
    by (simp add: get_onboarding_status_def respond_def seq_def gets_def own_session_def update_def lift_result_def ret_def
        demo_user_def Let_def split: sum.splits)
  then have "onboarding_handler Status demo_user 0 [] = (fst (onboarding_handler Status demo_user 0 []), [new_session 7 0])"
    by (metis prod.collapse)
  then have "onboarding_reachable [new_session 7 0]" by (rule onboarding_reachable.request [OF onboarding_reachable.empty])
  moreover have "onboarding_handler (Step ''complete'' demo_data) demo_user 9 [new_session 7 0]
      = (Inr (StepR (6, True, demo_data)), demo_table)"
  proof -
    have found: "List.find (\<lambda>d. sd_id d = ''complete'') STEPS = Some (STEPS ! 5)" and last: "sd_step (STEPS ! 5) = 6"
      by (simp_all add: STEPS_def)
    have "completed_steps demo_data STEPS = Inr [1, 2, 4, 5, 6]"
      by (simp add: STEPS_def is_step_complete_def demo_data_def dget_def dget_or_def positive_def)
    then have progress: "compute_progress demo_data = Inr \<lparr>pr_completed_steps = [1, 2, 4, 5, 6], pr_total_steps = 6, pr_percent = 83\<rparr>"
      using pct_five_sixths by (simp add: compute_progress_def steps_length)
    have "dmerge [] demo_data = demo_data" by (simp add: dmerge_def demo_data_def)
    then have "finish 9 (advance (STEPS ! 5) demo_data (new_session 7 0)) = Inr (hd demo_table)"
      by (simp add: finish_def advance_def steps_length last new_session_def progress demo_table_def)
    then show ?thesis
      by (simp add: update_step_def respond_def seq_def gets_def own_session_def found lift_result_def save_session_def update_def
          ret_def demo_user_def new_session_def demo_table_def update_where_def)
  qed
  ultimately show ?thesis by (rule onboarding_reachable.request)
qed

theorem onboarding_state_machine_witness:
  "table_ok demo_table \<and> (case onboarding_handler Reset demo_user 10 demo_table of (r, t') \<Rightarrow>
     table_ok t' \<and> own_session 7 t' = Some (new_session 7 0))"
proof -
  have run: "onboarding_handler Reset demo_user 10 demo_table = (Inr DoneR, [new_session 7 0])" by code_simp
  show ?thesis
    using onboarding_state_machine [OF demo_table_reachable, of Reset demo_user 10]
    unfolding run prod.case by (simp add: own_session_def new_session_def)
qed

subsection \<open>Isolation\<close>

definition session_view :: "uuid \<Rightarrow> onboarding_table \<Rightarrow> onboarding_session list" where
  "session_view org t = filter (\<lambda>s. ob_org_id s = org) t"

definition serve_onboarding ::
    "uuid \<Rightarrow> (current_user \<times> onboarding_op \<times> micros) \<Rightarrow> onboarding_table \<Rightarrow> onboarding_response result \<times> onboarding_table" where
  "serve_onboarding org r = onboarding_handler (fst (snd r)) ((fst r)\<lparr>user_org_id := org\<rparr>) (snd (snd r))"

lemma own_session_view: "own_session org t = List.find (\<lambda>_. True) (session_view org t)"
  by (induction t) (auto simp: own_session_def session_view_def)

lemma save_session_local: "ob_org_id s = org \<Longrightarrow> local_to session_view org (save_session s)"
  unfolding save_session_def
proof (rule local_update)
  assume s: "ob_org_id s = org"
  fix t t' assume "session_view org t = session_view org t'"
  then show "session_view org (update_where (\<lambda>x. ob_org_id x = ob_org_id s) (\<lambda>_. s) t)
      = session_view org (update_where (\<lambda>x. ob_org_id x = ob_org_id s) (\<lambda>_. s) t')"
    using s by (simp add: session_view_def filter_update_where_own)
next
  assume s: "ob_org_id s = org"
  fix org' t assume "org' \<noteq> org"
  then show "session_view org' (update_where (\<lambda>x. ob_org_id x = ob_org_id s) (\<lambda>_. s) t) = session_view org' t"
    unfolding session_view_def using s by (intro filter_update_where_other) auto
qed

lemma onboarding_local:
  assumes "user_org_id user = org"
  shows "local_to session_view org (onboarding_handler op user now)"
proof -
  have same: "own_session org t = own_session org t'" if "session_view org t = session_view org t'" for t t'
    using that by (simp only: own_session_view)
  have insert_local: "local_to session_view org (seq (update (\<lambda>t. t @ [new_session org now])) (\<lambda>_. lift_result r))" for r
    by (intro local_seq_any local_lift, rule local_update) (simp_all add: session_view_def new_session_def)
  have row: "own_session org t = Some s \<Longrightarrow> ob_org_id s = org" for t s using own_sessionD by blast
  show ?thesis
  proof (cases op)
    case Status
    show ?thesis unfolding Status onboarding_handler.simps respond_def get_onboarding_status_def assms Let_def
      by (intro local_seq_any [OF _ local_ret] local_find same local_lift insert_local)
  next
    case (Step i data)
    have "local_to session_view org (case List.find (\<lambda>d. sd_id d = i) STEPS of
            None \<Rightarrow> raise (HTTPException 400 (''Unknown step_id: '' @ i))
          | Some d \<Rightarrow> seq (lift_result (finish now (advance d data s))) (\<lambda>s'. seq (save_session s') (\<lambda>_.
              ret (ob_current_step s', ob_completed s', ob_step_data s'))))" if "own_session org t = Some s" for s t
    proof (cases "List.find (\<lambda>d. sd_id d = i) STEPS")
      case (Some d)
      have "ob_org_id s' = org" if "finish now (advance d data s) = Inr s'" for s'
        using that row [OF \<open>own_session org t = Some s\<close>]
        by (auto simp: finish_def advance_def Let_def and_then_Inr split: if_splits)
      then show ?thesis unfolding Some option.case
        by (intro local_seq [OF local_lift]) (auto simp: lift_result_def intro!: local_seq_any local_ret save_session_local)
    qed (simp add: local_raise)
    then show ?thesis unfolding Step onboarding_handler.simps respond_def update_step_def assms
      by (intro local_seq_any [OF _ local_ret] local_find same local_raise)
  next
    case Dismiss
    show ?thesis unfolding Dismiss onboarding_handler.simps respond_def dismiss_onboarding_def assms
      by (intro local_seq_any [OF _ local_ret] local_find same local_raise save_session_local) (assumption, simp, erule row)
  next
    case Reset
    show ?thesis unfolding Reset onboarding_handler.simps respond_def reset_onboarding_def assms
      by (intro local_seq_any [OF _ local_ret] local_find same local_raise save_session_local) (assumption, simp, erule row)
  qed
qed

interpretation wizard: tenant_handlers session_view serve_onboarding
  by (rule local_handlers) (simp add: serve_onboarding_def onboarding_local)

text \<open>In any sequence of requests each organisation gets the responses it would get alone.\<close>

lemma onboarding_isolation:
  "responses_of org (fst (serve_all serve_onboarding reqs t))
     = map snd (fst (serve_all serve_onboarding (filter (\<lambda>(o', _). o' = org) reqs) t))"
  by (rule wizard.noninterference)

text \<open>A workload count that is a text leaves a session whose status cannot be read.\<close>

lemma text_count_breaks_status:
  "status_of ((new_session org now)\<lparr>ob_step_data := [(''workload_count'', JStr ''12'')]\<rparr>)
     = Inl (TypeError ''> not supported between these instances'')"
  by (simp add: status_of_def compute_progress_def STEPS_def is_step_complete_def dget_def dget_or_def positive_def new_session_def)

end
