(* ===== verification/ProviderInventory.thy ===== *)
theory ProviderInventory
  imports CloudConnectors
begin

text \<open>
  The inventory of a provider, \<open>detect_provider_vms\<close> of \<open>workflows/activities.py\<close>, run over the
  connectors of Connectors, HostConnectors and CloudConnectors: one client is made, connected and
  asked for its workloads. The inventory is compared with the answers as the platforms document them,
  read independently of the connectors; where the request fails it is the inventory of an empty
  platform.
\<close>

subsection \<open>The connectors the activity uses\<close>






subsection \<open>What an inventory should be\<close>


definition handle_of :: "string \<Rightarrow> string" where
  "handle_of prov =
     (if prov = ''hyperv'' then ''_wmi'' else if prov = ''azure'' then ''_backup_client''
      else if prov = ''proxmox'' then ''_proxmox'' else if prov = ''rhv'' then ''_conn'' else if prov = ''xenserver'' then ''_session''
      else if prov = ''gcp'' then ''_instances_client'' else ''_client'')"






















subsection \<open>The activity unfolded\<close>

text \<open>The request together with the connector's reading of the answer.\<close>





subsection \<open>A source of workloads\<close>



lemmas handle_defs = set_handle_def holds_def exec_simps on_world_def








lemma wp_on_world [wp_simps]:
  "wp (on_world m) Q E = (\<lambda>c. wp m (\<lambda>x w. Q x (c\<lparr>cl_world := w\<rparr>)) (\<lambda>e w. E e (c\<lparr>cl_world := w\<rparr>)) (cl_world c))"
  by (rule ext) (simp add: wp_def on_world_def split: prod.split sum.split)

lemma wp_set_handle [wp_simps]: "wp (set_handle h) Q E = (\<lambda>c. Q () (c\<lparr>cl_handles := List.insert h (cl_handles c)\<rparr>))"
  by (simp add: set_handle_def wp_simps)

lemma wp_open_handles [wp_simps]:
  "wp (open_handles installed m) Q E = (if installed then wp m (\<lambda>_. Q True) (\<lambda>_. Q False) else Q False)"
  by (simp add: open_handles_def wp_simps)






subsection \<open>The activity implements the specification\<close>



subsection \<open>The connectors read the documented answers\<close>




































subsection \<open>What a refused connection leaves behind\<close>

text \<open>
  Nutanix closes the client it could not use. Sangfor does so for an exception, but not where the
  login answers no token; and AWS keeps the clients whose check failed, so that later operations run.
\<close>

lemma nutanix_refused_closed: "nx_connect A c = (Inr False, c') \<Longrightarrow> \<not> holds ''_client'' c'"
  by (auto simp: nx_connect_def rest_connect_def close_client_def clear_handle_def handle_defs
      split: if_splits prod.splits sum.splits)

lemma sangfor_tokenless_kept:
  assumes "ra_open A w = (Inr (), w1)"
    and "rest_post A ''/auth/login'' (JObj [(''username'', JStr user), (''password'', JStr password)]) w1 = (Inr (JObj []), w2)"
    and "ra_set_token A (JStr []) w2 = (Inr (), w3)"
  shows "\<exists>c'. sf_connect user password A (fresh_client w) = (Inr False, c') \<and> holds ''_client'' c'"
  using assms
  by (simp add: sf_connect_def rest_connect_def fresh_client_def handle_defs get_dict_def text_of_def dget_or_def)

lemma aws_refused_kept:
  assumes "aw_installed A" "\<And>w. aw_session A region w = (Inr (), w)" "\<And>service w. aw_client A service w = (Inr (), w)"
    and "aw_backup A ''list_backup_vaults'' [(''MaxResults'', JInt 1)] w = (Inl e, w')"
  shows "\<exists>c'. aw_connect region A (fresh_client w) = (Inr False, c') \<and> holds ''_backup_client'' c' \<and> holds ''_ec2_client'' c'"
  using assms by (simp add: aw_connect_def open_handles_def open_client_def fresh_client_def handle_defs)

end
