(* ===== verification/RateLimit.thy ===== *)
theory RateLimit
  imports Json
begin

text \<open>
  The fixed-window rate limiter and its middleware, \<open>rate_limit.py\<close>. The in-process store
  \<open>_hits\<close> is a dictionary in insertion order; a clock reading is a rational argument, and
  \<open>now // window\<close> its exact quotient rounded down. The specification counts the earlier
  requests of the same key in the same window; the limiter is proved to answer by it.
\<close>

subsection \<open>The limiter\<close>

definition EXCLUDED_PREFIXES :: "string list" where
  "EXCLUDED_PREFIXES = [''/health'', ''/ready'', ''/live'', ''/metrics'', ''/docs'', ''/redoc'', ''/openapi.json'']"

definition MAX_TRACKED_KEYS :: nat where
  "MAX_TRACKED_KEYS = 10000"

type_synonym hits = "(string \<times> (int \<times> int)) list"

record limiter =
  lim_limit :: int
  lim_window :: int
  lim_hits :: hits

fun put :: "hits \<Rightarrow> string \<Rightarrow> int \<times> int \<Rightarrow> hits" where
  "put [] k v = [(k, v)]"
| "put ((k', w) # d) k v = (if k' = k then (k, v) # d else (k', w) # put d k v)"

definition window_of :: "int \<Rightarrow> rat \<Rightarrow> int" where
  "window_of window now = \<lfloor>now / of_int window\<rfloor> * window"

definition purge :: "int \<Rightarrow> hits \<Rightarrow> hits" where
  "purge current_window_start hs = filter (\<lambda>(k, c, s). current_window_start \<le> s) hs"

record verdict =
  allowed :: bool
  v_limit :: int
  remaining :: int
  reset_epoch :: int

definition hit :: "string \<Rightarrow> rat \<Rightarrow> (limiter, verdict) exec" where
  "hit key now self =
     (if lim_window self = 0 then (Inl (ExternalError ''ZeroDivisionError''), self)
      else
        let window_start = window_of (lim_window self) now;
            (count0, start0) = (case map_of (lim_hits self) key of None \<Rightarrow> (0, window_start) | Some v \<Rightarrow> v);
            (count1, start) = (if start0 \<noteq> window_start then (0, window_start) else (count0, start0));
            count = count1 + 1;
            hs = put (lim_hits self) key (count, start);
            hs' = (if MAX_TRACKED_KEYS < length hs then purge window_start hs else hs)
        in (Inr \<lparr>allowed = (count \<le> lim_limit self), v_limit = lim_limit self,
                 remaining = max 0 (lim_limit self - count), reset_epoch = start + lim_window self\<rparr>,
            self\<lparr>lim_hits := hs'\<rparr>))"

subsection \<open>The middleware\<close>

record http_request =
  rq_path :: string
  rq_api_key :: "string option"
  rq_client_host :: "string option"

definition client_key :: "http_request \<Rightarrow> string" where
  "client_key request =
     (if str_or (rq_api_key request) [] \<noteq> [] then ''key:'' @ take 16 (the (rq_api_key request))
      else ''ip:'' @ (case rq_client_host request of None \<Rightarrow> ''unknown'' | Some h \<Rightarrow> h))"

record http_answer =
  an_status :: nat
  an_body :: string
  an_headers :: "(string \<times> string) list"

fun set_header :: "string \<Rightarrow> string \<Rightarrow> (string \<times> string) list \<Rightarrow> (string \<times> string) list" where
  "set_header k v [] = [(k, v)]"
| "set_header k v ((k', w) # hs) = (if lower k' = lower k then (k', v) # hs else (k', w) # set_header k v hs)"

definition too_many :: "verdict \<Rightarrow> rat \<Rightarrow> http_answer" where
  "too_many v later =
     \<lparr>an_status = 429, an_body = ''Rate limit exceeded. Please retry later.'',
      an_headers = [(''X-RateLimit-Limit'', show_int (v_limit v)), (''X-RateLimit-Remaining'', ''0''),
        (''X-RateLimit-Reset'', show_int (reset_epoch v)),
        (''Retry-After'', show_int (max 1 (reset_epoch v - \<lfloor>later\<rfloor>)))]\<rparr>"

definition dispatch ::
    "http_request \<Rightarrow> (http_request \<Rightarrow> http_answer) \<Rightarrow> rat \<Rightarrow> rat \<Rightarrow> (limiter, http_answer) exec" where
  "dispatch request call_next now later =
     (if list_ex (startswith (rq_path request)) EXCLUDED_PREFIXES then ret (call_next request)
      else
        seq (hit (client_key request) now) (\<lambda>v.
        if \<not> allowed v then ret (too_many v later)
        else
          (let response = call_next request in
           ret (response\<lparr>an_headers :=
             set_header ''X-RateLimit-Reset'' (show_int (reset_epoch v))
             (set_header ''X-RateLimit-Remaining'' (show_int (remaining v))
             (set_header ''X-RateLimit-Limit'' (show_int (v_limit v)) (an_headers response)))\<rparr>))))"

subsection \<open>Specification\<close>

text \<open>The requests a limiter has served, in order: their keys and times.\<close>

type_synonym trace = "(string \<times> rat) list"

definition same_window :: "int \<Rightarrow> string \<Rightarrow> rat \<Rightarrow> trace \<Rightarrow> int" where
  "same_window window key now tr =
     int (count_if (\<lambda>(k, t). k = key \<and> window_of window t = window_of window now) tr)"

fun serve_trace :: "trace \<Rightarrow> limiter \<Rightarrow> verdict result list \<times> limiter" where
  "serve_trace [] l = ([], l)"
| "serve_trace ((k, t) # tr) l =
     (let (v, l') = hit k t l; (vs, l'') = serve_trace tr l' in (v # vs, l''))"

definition new_limiter :: "int \<Rightarrow> int \<Rightarrow> limiter" where
  "new_limiter limit window = \<lparr>lim_limit = limit, lim_window = window, lim_hits = []\<rparr>"

definition spec_verdict :: "int \<Rightarrow> int \<Rightarrow> trace \<Rightarrow> string \<Rightarrow> rat \<Rightarrow> verdict" where
  "spec_verdict limit window before key now =
     (let count = same_window window key now before + 1 in
      \<lparr>allowed = (count \<le> limit), v_limit = limit, remaining = max 0 (limit - count),
       reset_epoch = window_of window now + window\<rparr>)"

subsection \<open>The store against the trace\<close>

lemma map_of_put [simp]: "map_of (put d k v) = (map_of d)(k \<mapsto> v)"
  by (induction d k v rule: put.induct) (auto simp: fun_eq_iff)

lemma distinct_put: "distinct (map fst d) \<Longrightarrow> distinct (map fst (put d k v))"
proof (induction d k v rule: put.induct)
  case (2 k' w d k v)
  have "fst ` set (put d k v) \<subseteq> insert k (fst ` set d)" by (induction d k v rule: put.induct) auto
  with 2 show ?case by (auto simp: subset_iff image_iff)
qed simp

lemma length_put: "length (put d k v) = (if k \<in> fst ` set d then length d else Suc (length d))"
  by (induction d k v rule: put.induct) auto

lemma map_of_purge:
  "distinct (map fst d) \<Longrightarrow> map_of (purge w d) k = (case map_of d k of
     Some (c, s) \<Rightarrow> if w \<le> s then Some (c, s) else None | None \<Rightarrow> None)"
proof (induction d)
  case (Cons a d)
  obtain k' c s where a: "a = (k', c, s)" by (cases a) auto
  have "map_of d k' = None" using Cons.prems by (auto simp: a map_of_eq_None_iff)
  then show ?case using Cons by (auto simp: a purge_def split: option.splits)
qed (simp add: purge_def)

lemma distinct_purge: "distinct (map fst d) \<Longrightarrow> distinct (map fst (purge w d))"
  unfolding purge_def by (induction d) (auto simp: image_iff)

lemma window_of_mono: "0 < window \<Longrightarrow> t \<le> u \<Longrightarrow> window_of window t \<le> window_of window u"
  by (simp add: window_of_def divide_right_mono floor_mono mult_right_mono)

text \<open>
  What the store remembers after serving \<open>tr\<close>, seen from a window no request has gone past:
  for every key, the count of that window, or something older that will be reset.
\<close>

definition entry_ok :: "int \<Rightarrow> int \<Rightarrow> (int \<times> int) option \<Rightarrow> bool" where
  "entry_ok n w e = (if 0 < n then e = Some (n, w) else (case e of None \<Rightarrow> True | Some (c, s) \<Rightarrow> s < w))"

definition in_window :: "int \<Rightarrow> string \<Rightarrow> int \<Rightarrow> trace \<Rightarrow> int" where
  "in_window window k w tr = int (count_if (\<lambda>(k', t). k' = k \<and> window_of window t = w) tr)"

definition store_ok :: "int \<Rightarrow> trace \<Rightarrow> int \<Rightarrow> hits \<Rightarrow> bool" where
  "store_ok window tr w hs \<longleftrightarrow> distinct (map fst hs) \<and>
     (\<forall>k. entry_ok (in_window window k w tr) w (map_of hs k))"

lemma store_ok_entry: "store_ok window tr w hs \<Longrightarrow> entry_ok (in_window window k w tr) w (map_of hs k)"
  by (simp add: store_ok_def)

lemma entry_ok_later: "entry_ok n w e \<Longrightarrow> w < w' \<Longrightarrow> entry_ok 0 w' e"
  by (auto simp: entry_ok_def split: option.splits if_splits)

lemma entry_ok_purge:
  "entry_ok n w e \<Longrightarrow> entry_ok n w (case e of Some (c, s) \<Rightarrow> if w \<le> s then Some (c, s) else None | None \<Rightarrow> None)"
  by (auto simp: entry_ok_def split: option.splits if_splits)

lemma count_if_zero: "(\<And>x. x \<in> set xs \<Longrightarrow> \<not> P x) \<Longrightarrow> count_if P xs = 0"
  by (induction xs) auto

lemma in_window_none:
  assumes "\<forall>x \<in> set tr. window_of window (snd x) < w"
  shows "in_window window k w tr = 0"
  unfolding in_window_def using assms by (subst count_if_zero) auto

lemma in_window_snoc:
  "in_window window k' w (tr @ [(k, t)])
     = in_window window k' w tr + (if k = k' \<and> window_of window t = w then 1 else 0)"
  by (simp add: in_window_def count_if_def)

lemma in_window_nonneg [simp]: "0 \<le> in_window window k w tr"
  by (simp add: in_window_def)

text \<open>Moving to a later window keeps the invariant.\<close>

lemma store_ok_later:
  assumes ok: "store_ok window tr w hs" and le: "w \<le> w'" and past: "\<forall>x \<in> set tr. window_of window (snd x) \<le> w"
  shows "store_ok window tr w' hs"
proof (cases "w = w'")
  case False
  with le have less: "w < w'" by simp
  have zero: "in_window window k w' tr = 0" for k
    by (rule in_window_none) (use past less in fastforce)
  have "entry_ok (in_window window k w' tr) w' (map_of hs k)" for k
    unfolding zero using store_ok_entry [OF ok] less by (rule entry_ok_later)
  then show ?thesis using ok by (simp add: store_ok_def)
qed (use ok in simp)

lemma store_ok_put:
  assumes ok: "store_ok window tr (window_of window t) hs"
  shows "store_ok window (tr @ [(k, t)]) (window_of window t)
     (put hs k (in_window window k (window_of window t) tr + 1, window_of window t))"
proof -
  let ?w = "window_of window t"
  have "0 \<le> in_window window k ?w tr" by simp
  then have "entry_ok (in_window window k' ?w (tr @ [(k, t)])) ?w
      (map_of (put hs k (in_window window k ?w tr + 1, ?w)) k')" for k'
    using store_ok_entry [OF ok, of k'] by (simp add: in_window_snoc entry_ok_def)
  then show ?thesis using ok by (simp add: store_ok_def distinct_put)
qed

lemma store_ok_purge:
  assumes ok: "store_ok window tr w hs"
  shows "store_ok window tr w (purge w hs)"
proof -
  have dist: "distinct (map fst hs)" using ok by (simp add: store_ok_def)
  have "entry_ok (in_window window k w tr) w (map_of (purge w hs) k)" for k
    unfolding map_of_purge [OF dist] by (rule entry_ok_purge) (rule store_ok_entry [OF ok])
  then show ?thesis using dist by (simp add: store_ok_def distinct_purge)
qed

lemma spec_verdict_in_window:
  "same_window window k t tr = in_window window k (window_of window t) tr"
  by (simp add: same_window_def in_window_def)

lemma hit_spec:
  assumes pos: "0 < lim_window l"
    and ok: "store_ok (lim_window l) tr (window_of (lim_window l) t) (lim_hits l)"
  shows "\<exists>hs. hit k t l = (Inr (spec_verdict (lim_limit l) (lim_window l) tr k t), l\<lparr>lim_hits := hs\<rparr>) \<and>
     store_ok (lim_window l) (tr @ [(k, t)]) (window_of (lim_window l) t) hs"
proof -
  let ?w = "window_of (lim_window l) t"
  let ?n = "in_window (lim_window l) k ?w tr"
  define entry where "entry = (case map_of (lim_hits l) k of None \<Rightarrow> (0, ?w) | Some v \<Rightarrow> v)"
  have "0 \<le> ?n" by simp
  then have "?n = 0 \<or> 0 < ?n" by linarith
  then have reset: "(if snd entry \<noteq> ?w then (0, ?w) else entry) = (?n, ?w)"
    using store_ok_entry [OF ok, of k]
    by (elim disjE) (auto simp: entry_ok_def entry_def split: option.splits)
  then have same: "fst entry = ?n" if "snd entry = ?w"
    using that by (metis fst_conv)
  have moved: "?n = 0" if "snd entry \<noteq> ?w"
    using that reset by (simp only: if_True not_False_eq_True prod.inject)
  let ?hs = "put (lim_hits l) k (?n + 1, ?w)"
  let ?hs' = "if MAX_TRACKED_KEYS < length ?hs then purge ?w ?hs else ?hs"
  have "hit k t l = (Inr (spec_verdict (lim_limit l) (lim_window l) tr k t), l\<lparr>lim_hits := ?hs'\<rparr>)"
    by (cases "snd entry = ?w")
      (use pos same moved in \<open>simp_all add: hit_def Let_def spec_verdict_def entry_def [symmetric]
         case_prod_beta spec_verdict_in_window\<close>)
  moreover have "store_ok (lim_window l) (tr @ [(k, t)]) ?w ?hs'"
    using store_ok_put [OF ok, of k] store_ok_purge by simp
  ultimately show ?thesis by blast
qed

text \<open>
  A trace served from any reachable store. Time does not go back: \<open>sorted\<close> on the whole
  trace.
\<close>

definition spec_run :: "int \<Rightarrow> int \<Rightarrow> trace \<Rightarrow> trace \<Rightarrow> verdict result list" where
  "spec_run limit window before tr =
     map (\<lambda>i. Inr (spec_verdict limit window (before @ take i tr) (fst (tr ! i)) (snd (tr ! i)))) [0..<length tr]"

lemma upt_rec0: "[0..<Suc n] = 0 # map Suc [0..<n]"
  by (metis map_Suc_upt upt_conv_Cons zero_less_Suc)

lemma spec_run_simps [simp]:
  "spec_run limit window before [] = []"
  "spec_run limit window before ((k, t) # tr)
     = Inr (spec_verdict limit window before k t) # spec_run limit window (before @ [(k, t)]) tr"
proof -
  show "spec_run limit window before [] = []" by (simp add: spec_run_def)
  have "[0..<length ((k, t) # tr)] = 0 # map Suc [0..<length tr]" by (simp only: list.size upt_rec0 add_Suc_right add_0_right)
  then show "spec_run limit window before ((k, t) # tr)
      = Inr (spec_verdict limit window before k t) # spec_run limit window (before @ [(k, t)]) tr"
    unfolding spec_run_def by (simp del: upt_Suc)
qed

lemma serve_trace_spec:
  assumes "0 < lim_window l" and "store_ok (lim_window l) before w (lim_hits l)"
    and "\<forall>x \<in> set before. window_of (lim_window l) (snd x) \<le> w"
    and "\<forall>x \<in> set tr. w \<le> window_of (lim_window l) (snd x)" and "sorted (map snd tr)"
  shows "fst (serve_trace tr l) = spec_run (lim_limit l) (lim_window l) before tr"
  using assms
proof (induction tr arbitrary: before w l)
  case (Cons x tr)
  obtain k t where x: "x = (k, t)" by (cases x)
  let ?w = "window_of (lim_window l) t"
  have "w \<le> ?w" using Cons.prems(4) x by simp
  have ok: "store_ok (lim_window l) before ?w (lim_hits l)"
    by (rule store_ok_later [OF Cons.prems(2) \<open>w \<le> ?w\<close> Cons.prems(3)])
  from hit_spec [OF Cons.prems(1) ok, of k] obtain hs
    where hit: "hit k t l = (Inr (spec_verdict (lim_limit l) (lim_window l) before k t), l\<lparr>lim_hits := hs\<rparr>)"
      and ok': "store_ok (lim_window l) (before @ [(k, t)]) ?w hs" by blast
  have past: "\<forall>y \<in> set (before @ [(k, t)]). window_of (lim_window l) (snd y) \<le> ?w"
    using Cons.prems(3) \<open>w \<le> ?w\<close> by fastforce
  have later: "\<forall>y \<in> set tr. ?w \<le> window_of (lim_window l) (snd y)"
    using Cons.prems(1,5) x by (auto intro!: window_of_mono)
  have "fst (serve_trace tr (l\<lparr>lim_hits := hs\<rparr>))
      = spec_run (lim_limit l) (lim_window l) (before @ [(k, t)]) tr"
    using Cons.IH [of "l\<lparr>lim_hits := hs\<rparr>" "before @ [(k, t)]" ?w] Cons.prems(1,5) ok' past later x by simp
  then show ?case by (simp add: x hit case_prod_beta)
qed simp

lemma serve_new_limiter:
  assumes "0 < window" and "sorted (map snd tr)"
  shows "fst (serve_trace tr (new_limiter limit window)) = spec_run limit window [] tr"
proof (cases tr)
  case (Cons x tr')
  let ?w = "window_of window (snd x)"
  have "\<forall>y \<in> set tr. ?w \<le> window_of window (snd y)"
    using assms Cons by (auto intro: window_of_mono)
  then have "fst (serve_trace tr (new_limiter limit window))
      = spec_run (lim_limit (new_limiter limit window)) (lim_window (new_limiter limit window)) [] tr"
    using assms
    by (intro serve_trace_spec [where w = ?w])
      (simp_all add: new_limiter_def store_ok_def entry_ok_def in_window_def)
  then show ?thesis by (simp add: new_limiter_def)
qed simp

subsection \<open>The size of the store\<close>

lemma put_new: "k \<notin> fst ` set d \<Longrightarrow> put d k v = d @ [(k, v)]"
  by (induction d k v rule: put.induct) auto

lemma purge_current: "\<forall>e \<in> set d. snd (snd e) = w \<Longrightarrow> purge w d = d"
  unfolding purge_def by (induction d) auto

lemma hit_new_key:
  assumes "0 < lim_window l" and "window_of (lim_window l) t = w"
    and "k \<notin> fst ` set (lim_hits l)" and "\<forall>e \<in> set (lim_hits l). snd (snd e) = w"
  shows "lim_hits (snd (hit k t l)) = lim_hits l @ [(k, 1, w)]" and "lim_window (snd (hit k t l)) = lim_window l"
proof -
  have "map_of (lim_hits l) k = None" using assms(3) by (simp add: map_of_eq_None_iff)
  moreover have "purge w (lim_hits l @ [(k, 1, w)]) = lim_hits l @ [(k, 1, w)]"
    by (rule purge_current) (use assms(4) in auto)
  ultimately show "lim_hits (snd (hit k t l)) = lim_hits l @ [(k, 1, w)]"
      and "lim_window (snd (hit k t l)) = lim_window l"
    using assms(1-3) by (simp_all add: hit_def Let_def put_new)
qed

lemma serve_new_keys:
  assumes "0 < lim_window l" and "distinct (map fst tr)" and "\<forall>x \<in> set tr. window_of (lim_window l) (snd x) = w"
    and "fst ` set tr \<inter> fst ` set (lim_hits l) = {}" and "\<forall>e \<in> set (lim_hits l). snd (snd e) = w"
  shows "length (lim_hits (snd (serve_trace tr l))) = length (lim_hits l) + length tr"
  using assms
proof (induction tr arbitrary: l)
  case (Cons x tr)
  obtain k t where x: "x = (k, t)" by (cases x)
  obtain v l' where hit: "hit k t l = (v, l')" by (cases "hit k t l")
  have fresh: "k \<notin> fst ` set (lim_hits l)" and now: "window_of (lim_window l) t = w"
    using Cons.prems(3,4) x by auto
  from hit_new_key [OF Cons.prems(1) now fresh Cons.prems(5)] hit
  have hits: "lim_hits l' = lim_hits l @ [(k, 1, w)]" and window: "lim_window l' = lim_window l" by simp_all
  have "length (lim_hits (snd (serve_trace tr l'))) = length (lim_hits l') + length tr"
    by (rule Cons.IH) (use Cons.prems x hits window in \<open>auto\<close>)
  then show ?case by (simp add: x hit hits case_prod_beta)
qed simp

subsection \<open>Properties\<close>

text \<open>C14: the limiter answers every request of a trace whose clock does not go back exactly as
  the specification that counts requests does: the i-th answer allows the request when the number
  of earlier requests with its key in its aligned window, plus one, is at most the limit, reports
  what remains and the end of that window. The purge of old windows and the overwriting of
  stale counts never show in an answer. \<close>

theorem limiter_counts_windows:
  assumes "0 < window" and "sorted (map snd tr)"
  shows "length (fst (serve_trace tr (new_limiter limit window))) = length tr \<and>
    (\<forall>i < length tr. fst (serve_trace tr (new_limiter limit window)) ! i
       = Inr (spec_verdict limit window (take i tr) (fst (tr ! i)) (snd (tr ! i))))"
  unfolding serve_new_limiter [OF assms] by (simp add: spec_run_def)

theorem limiter_counts_windows_witness:
  "fst (serve_trace [(''a'', 1), (''a'', 2), (''b'', 3), (''a'', 59), (''a'', 61)] (new_limiter 2 60)) ! 3
     = Inr \<lparr>allowed = False, v_limit = 2, remaining = 0, reset_epoch = 60\<rparr>"
proof -
  let ?tr = "[(''a'', 1), (''a'', 2), (''b'', 3), (''a'', 59), (''a'', 61)] :: trace"
  have "fst (serve_trace ?tr (new_limiter 2 60)) ! 3
      = Inr (spec_verdict 2 60 (take 3 ?tr) (fst (?tr ! 3)) (snd (?tr ! 3)))"
    using limiter_counts_windows [of 60 ?tr 2, THEN conjunct2, THEN spec, of 3]
    by (simp del: serve_trace.simps)
  also have "\<dots> = Inr \<lparr>allowed = False, v_limit = 2, remaining = 0, reset_epoch = 60\<rparr>"
    by code_simp
  finally show ?thesis .
qed

text \<open>The store is not bounded by \<open>_MAX_TRACKED_KEYS\<close>: requests with pairwise distinct keys
  that all fall into one window leave one entry each, whatever their number, since the purge
  drops only entries of earlier windows. \<close>

theorem store_unbounded_within_window:
  assumes "0 < window" and "distinct (map fst tr)" and "\<forall>x \<in> set tr. window_of window (snd x) = w"
  shows "length (lim_hits (snd (serve_trace tr (new_limiter limit window)))) = length tr"
  using serve_new_keys [of "new_limiter limit window" tr w] assms by (simp add: new_limiter_def)

definition flood :: "nat \<Rightarrow> trace" where
  "flood n = map (\<lambda>i. (''ip:'' @ replicate i CHR ''7'', 0)) [0..<n]"

theorem store_unbounded_within_window_witness:
  "MAX_TRACKED_KEYS < length (lim_hits (snd (serve_trace (flood 20000) (new_limiter 100 60))))"
proof -
  have "inj_on (\<lambda>i. ''ip:'' @ replicate i CHR ''7'') (set [0..<20000])"
    by (rule inj_onI) (metis append_same_eq length_replicate same_append_eq)
  then have "distinct (map fst (flood 20000))"
    unfolding flood_def by (simp only: map_map o_def fst_conv distinct_map distinct_upt simp_thms)
  moreover have "\<forall>x \<in> set (flood 20000). window_of 60 (snd x) = 0"
    unfolding flood_def by (auto simp: window_of_def simp del: upt_Suc)
  ultimately have "length (lim_hits (snd (serve_trace (flood 20000) (new_limiter 100 60)))) = length (flood 20000)"
    by (intro store_unbounded_within_window [where w = 0]) simp_all
  then show ?thesis by (simp add: flood_def MAX_TRACKED_KEYS_def)
qed

end
