(* ===== verification/RecoveryTest.thy ===== *)
theory RecoveryTest
  imports Activities Temporal
begin

text \<open>
  The recovery-test workflow, \<open>workflows/recovery_test.py\<close>: six activities in a
  \<open>try\<close>, then evidence, measurement, report and teardown in its \<open>finally\<close>. The
  workflow's local variables are the record \<open>wf_vars\<close>; \<open>wf_log\<close> lists the activities it
  has asked Temporal to execute, with the arguments that matter for resources and the answer of the
  health checks (\<open>None\<close> where they raised). Temporal runs an
  activity up to \<open>maximum_attempts\<close> times and then raises one \<open>ActivityError\<close> whose text
  is \<open>temporal_text\<close> of the last exception. The \<open>except\<close> block calls \<open>workflow.logger.error\<close>
  with the keyword \<open>error\<close>; the adapter hands it to \<open>Logger._log\<close>, which has no such
  parameter and raises \<open>TypeError\<close>, unless the level is disabled (\<open>wf_log_enabled\<close>). The activities are a record of functions
  (\<open>activity_set\<close>), so that the workflow's own guarantees hold whatever they do;
  \<open>worker_activities\<close> is the set the worker registers, built from the activity definitions.
\<close>

subsection \<open>Interfaces\<close>

record test_input =
  in_run_id :: string
  in_workload_id :: string
  in_veeam_object_id :: string
  in_vcenter_moref :: string
  in_rto_target_mins :: int
  in_rpo_target_mins :: int

record test_result =
  res_run_id :: string
  res_passed :: bool
  res_rto_actual_mins :: int
  res_rpo_actual_mins :: int
  res_readiness_score :: int
  res_failure_reason :: "string option"

record 's activity_set =
  act_sync :: "string \<Rightarrow> ('s, unit) exec"
  act_select :: "string \<Rightarrow> int \<Rightarrow> ('s, selection) exec"
  act_provision :: "string \<Rightarrow> ('s, string) exec"
  act_start :: "string \<Rightarrow> string \<Rightarrow> ('s, string) exec"
  act_wait :: "string \<Rightarrow> ('s, string) exec"
  act_health :: "string \<Rightarrow> string \<Rightarrow> ('s, health_result list) exec"
  act_evidence :: "string \<Rightarrow> string option \<Rightarrow> ('s, unit) exec"
  act_record :: "timestamp option \<Rightarrow> timestamp option \<Rightarrow> timestamp option \<Rightarrow> int \<Rightarrow> int \<Rightarrow> bool \<Rightarrow> ('s, measurement) exec"
  act_report :: "string \<Rightarrow> bool \<Rightarrow> measurement \<Rightarrow> string option \<Rightarrow> ('s, unit) exec"
  act_teardown :: "string option \<Rightarrow> string option \<Rightarrow> ('s, unit) exec"
  wf_now :: "'s \<Rightarrow> timestamp"
  temporal_text :: "py_exn \<Rightarrow> string"
  wf_log_enabled :: "'s \<Rightarrow> bool"

datatype act_call =
    CallSync
  | CallSelect
  | CallProvision
  | CallStart string string
  | CallWait string
  | CallHealth string "health_result list option"
  | CallEvidence "string option"
  | CallRecord bool
  | CallReport bool "string option"
  | CallTeardown "string option" "string option"

record wf_vars =
  v_isolated_network :: "string option"
  v_recovery_session_id :: "string option"
  v_recovered_vm_moref :: "string option"
  v_passed :: bool
  v_failure_reason :: "string option"
  v_health_results :: "health_result list"
  v_rpo_creation :: "timestamp option"
  v_recovery_start :: "timestamp option"
  v_boot_ready :: "timestamp option"

record 's wf_state =
  wf_vars :: wf_vars
  wf_log :: "act_call list"
  wf_world :: 's

definition initial_vars :: wf_vars where
  "initial_vars = \<lparr>v_isolated_network = None, v_recovery_session_id = None, v_recovered_vm_moref = None,
     v_passed = False, v_failure_reason = None, v_health_results = [], v_rpo_creation = None,
     v_recovery_start = None, v_boot_ready = None\<rparr>"

definition start_state :: "'s \<Rightarrow> 's wf_state" where
  "start_state s = \<lparr>wf_vars = initial_vars, wf_log = [], wf_world = s\<rparr>"

subsection \<open>Executing activities\<close>

definition MAX_ATTEMPTS :: nat where
  "MAX_ATTEMPTS = 3"

definition execute_activity ::
    "'s activity_set \<Rightarrow> nat \<Rightarrow> ('a option \<Rightarrow> act_call) \<Rightarrow> ('s, 'a) exec \<Rightarrow> ('s wf_state, 'a) exec" where
  "execute_activity A n call m w =
     (case attempts n m (wf_world w) of
        (Inr x, s') \<Rightarrow> (Inr x, w\<lparr>wf_log := wf_log w @ [call (Some x)], wf_world := s'\<rparr>)
      | (Inl e, s') \<Rightarrow> (Inl (ActivityError (temporal_text A e)), w\<lparr>wf_log := wf_log w @ [call None], wf_world := s'\<rparr>))"

definition var :: "(wf_vars \<Rightarrow> 'a) \<Rightarrow> ('s wf_state, 'a) exec" where
  "var f = gets (\<lambda>w. f (wf_vars w))"

definition set_var :: "(wf_vars \<Rightarrow> wf_vars) \<Rightarrow> ('s wf_state, unit) exec" where
  "set_var f = update (\<lambda>w. w\<lparr>wf_vars := f (wf_vars w)\<rparr>)"

definition now :: "'s activity_set \<Rightarrow> ('s wf_state, timestamp) exec" where
  "now A = gets (\<lambda>w. wf_now A (wf_world w))"

subsection \<open>The workflow\<close>

text \<open>Steps 1 to 6, the body of the \<open>try\<close>.\<close>

definition main_steps :: "'s activity_set \<Rightarrow> test_input \<Rightarrow> ('s wf_state, unit) exec" where
  "main_steps A inp =
     seq (execute_activity A MAX_ATTEMPTS (\<lambda>_. CallSync) (act_sync A (in_run_id inp))) (\<lambda>_.
     seq (execute_activity A MAX_ATTEMPTS (\<lambda>_. CallSelect)
            (act_select A (in_veeam_object_id inp) (in_rpo_target_mins inp))) (\<lambda>rp.
     seq (set_var (\<lambda>v. v\<lparr>v_rpo_creation := Some (sel_creation_time rp)\<rparr>)) (\<lambda>_.
     seq (execute_activity A MAX_ATTEMPTS (\<lambda>_. CallProvision) (act_provision A (in_run_id inp))) (\<lambda>net.
     seq (set_var (\<lambda>v. v\<lparr>v_isolated_network := Some net\<rparr>)) (\<lambda>_.
     seq (now A) (\<lambda>t0.
     seq (set_var (\<lambda>v. v\<lparr>v_recovery_start := Some t0\<rparr>)) (\<lambda>_.
     seq (execute_activity A MAX_ATTEMPTS (\<lambda>_. CallStart (sel_restore_point_id rp) net)
            (act_start A (sel_restore_point_id rp) net)) (\<lambda>sid.
     seq (set_var (\<lambda>v. v\<lparr>v_recovery_session_id := Some sid\<rparr>)) (\<lambda>_.
     seq (execute_activity A 1 (\<lambda>_. CallWait sid) (act_wait A sid)) (\<lambda>mo.
     seq (set_var (\<lambda>v. v\<lparr>v_recovered_vm_moref := Some mo\<rparr>)) (\<lambda>_.
     seq (now A) (\<lambda>t1.
     seq (set_var (\<lambda>v. v\<lparr>v_boot_ready := Some t1\<rparr>)) (\<lambda>_.
     seq (execute_activity A MAX_ATTEMPTS (CallHealth mo) (act_health A (in_run_id inp) mo)) (\<lambda>hs.
     set_var (\<lambda>v. v\<lparr>v_health_results := hs, v_passed := list_all hr_passed hs\<rparr>)))))))))))))))"

text \<open>The body of the \<open>finally\<close> and the returned result.\<close>

definition final_steps :: "'s activity_set \<Rightarrow> test_input \<Rightarrow> ('s wf_state, test_result) exec" where
  "final_steps A inp =
     seq (var id) (\<lambda>v.
     seq (execute_activity A MAX_ATTEMPTS (\<lambda>_. CallEvidence (v_recovered_vm_moref v))
            (act_evidence A (in_run_id inp) (v_recovered_vm_moref v))) (\<lambda>_.
     seq (execute_activity A MAX_ATTEMPTS (\<lambda>_. CallRecord (v_passed v))
            (act_record A (v_rpo_creation v) (v_recovery_start v) (v_boot_ready v)
               (in_rto_target_mins inp) (in_rpo_target_mins inp) (v_passed v))) (\<lambda>m.
     seq (execute_activity A MAX_ATTEMPTS (\<lambda>_. CallReport (v_passed v) (v_failure_reason v))
            (act_report A (in_run_id inp) (v_passed v) m (v_failure_reason v))) (\<lambda>_.
     seq (execute_activity A MAX_ATTEMPTS (\<lambda>_. CallTeardown (v_recovery_session_id v) (v_isolated_network v))
            (act_teardown A (v_recovery_session_id v) (v_isolated_network v))) (\<lambda>_.
     ret \<lparr>res_run_id = in_run_id inp, res_passed = v_passed v,
          res_rto_actual_mins = m_rto_actual_mins m, res_rpo_actual_mins = m_rpo_actual_mins m,
          res_readiness_score = m_readiness_score m, res_failure_reason = v_failure_reason v\<rparr>)))))"

text \<open>\<open>workflow.logger.error("recovery test failed", error=str(exc))\<close>\<close>

definition unexpected_error_keyword :: py_exn where
  "unexpected_error_keyword = TypeError (''Logger._log() got an unexpected keyword argument '' @ repr_str ''error'')"

definition log_failure :: "'s activity_set \<Rightarrow> ('s wf_state, unit) exec" where
  "log_failure A = seq (gets (\<lambda>w. wf_log_enabled A (wf_world w)))
     (\<lambda>enabled. if enabled then raise unexpected_error_keyword else ret ())"

definition guarded_steps :: "'s activity_set \<Rightarrow> test_input \<Rightarrow> ('s wf_state, unit) exec" where
  "guarded_steps A inp =
     try_except (main_steps A inp)
       (\<lambda>exc. seq (set_var (\<lambda>v. v\<lparr>v_failure_reason := Some (exn_text exc)\<rparr>))
              (\<lambda>_. log_failure A))"

definition run_workflow :: "'s activity_set \<Rightarrow> test_input \<Rightarrow> ('s wf_state, test_result) exec" where
  "run_workflow A inp = finally_run (guarded_steps A inp) (final_steps A inp)"

text \<open>The activities the worker registers.\<close>

definition worker_activities ::
    "appliance_settings \<Rightarrow> 's services \<Rightarrow> (py_exn \<Rightarrow> string) \<Rightarrow> ('s \<Rightarrow> bool)
       \<Rightarrow> 's activity_set" where
  "worker_activities cfg sv text enabled =
     \<lparr>act_sync = sync_inventory cfg sv,
      act_select = select_restore_point_act cfg sv,
      act_provision = provision_isolated_network cfg sv,
      act_start = start_instant_recovery_act cfg sv,
      act_wait = wait_for_vm_boot cfg sv,
      act_health = run_health_checks sv,
      act_evidence = capture_evidence sv,
      act_record = record_rto_rpo sv,
      act_report = report_results sv,
      act_teardown = teardown_isolated_env cfg sv,
      wf_now = sv_now sv,
      temporal_text = text,
      wf_log_enabled = enabled\<rparr>"

subsection \<open>One activity\<close>

text \<open>
  What the workflow sees of an execution: the call is logged, the variables are untouched, and
  a result or an \<open>ActivityError\<close> comes back.
\<close>

lemma wp_execute:
  assumes "\<And>x s'. Q x (w\<lparr>wf_log := wf_log w @ [call (Some x)], wf_world := s'\<rparr>)"
    and "\<And>m s'. E (ActivityError m) (w\<lparr>wf_log := wf_log w @ [call None], wf_world := s'\<rparr>)"
  shows "wp (execute_activity A n call m) Q E w"
  using assms by (auto simp: wp_def execute_activity_def split: prod.splits sum.splits)

lemma execute_raises:
  assumes "\<And>s. \<exists>e s'. m s = (Inl e, s')" and "0 < n"
  shows "\<exists>t s'. execute_activity A n call m w = (Inl (ActivityError t), w\<lparr>wf_log := wf_log w @ [call None], wf_world := s'\<rparr>)"
proof -
  have "\<exists>e s'. attempts n m (wf_world w) = (Inl e, s')" using attempts_raises assms(1) .
  then obtain e s' where "attempts n m (wf_world w) = (Inl e, s')" by blast
  then have "execute_activity A n call m w
      = (Inl (ActivityError (temporal_text A e)), w\<lparr>wf_log := wf_log w @ [call None], wf_world := s'\<rparr>)"
    by (simp add: execute_activity_def)
  then show ?thesis by blast
qed

lemma wp_execute_raises:
  assumes "\<And>s. \<exists>e s'. m s = (Inl e, s')" and "0 < n"
    and "\<And>t s'. E (ActivityError t) (w\<lparr>wf_log := wf_log w @ [call None], wf_world := s'\<rparr>)"
  shows "wp (execute_activity A n call m) Q E w"
proof -
  obtain t s' where "execute_activity A n call m w
      = (Inl (ActivityError t), w\<lparr>wf_log := wf_log w @ [call None], wf_world := s'\<rparr>)"
    using execute_raises [of m n A call w] assms(1,2) by blast
  then show ?thesis using assms(3) by (simp add: wp_def)
qed

lemma wp_var [wp_simps]: "wp (var f) Q E = (\<lambda>w. Q (f (wf_vars w)) w)"
  by (simp add: var_def wp_simps)

lemma wp_set_var [wp_simps]: "wp (set_var f) Q E = (\<lambda>w. Q () (w\<lparr>wf_vars := f (wf_vars w)\<rparr>))"
  by (simp add: set_var_def wp_simps)

lemma wp_now [wp_simps]: "wp (now A) Q E = (\<lambda>w. Q (wf_now A (wf_world w)) w)"
  by (simp add: now_def wp_simps)

subsection \<open>What the main steps leave behind\<close>

text \<open>
  The invariant tying variables to the log after the \<open>try\<close>: a session was waited for only if
  it is recorded, a recovery was started only into the recorded network, a run has passed exactly if
  the health checks answered and every answer passed, and a failure reason is recorded exactly if
  they did not answer.
\<close>

definition main_ok :: "'s wf_state \<Rightarrow> bool" where
  "main_ok w \<longleftrightarrow>
     (\<forall>sid. CallWait sid \<in> set (wf_log w) \<longrightarrow> v_recovery_session_id (wf_vars w) = Some sid) \<and>
     (\<forall>rp net. CallStart rp net \<in> set (wf_log w) \<longrightarrow> v_isolated_network (wf_vars w) = Some net) \<and>
     v_passed (wf_vars w) = (\<exists>mo hs. CallHealth mo (Some hs) \<in> set (wf_log w) \<and> list_all hr_passed hs) \<and>
     (v_failure_reason (wf_vars w) = None) = (\<exists>mo hs. CallHealth mo (Some hs) \<in> set (wf_log w))"

definition no_final :: "'s wf_state \<Rightarrow> bool" where
  "no_final w \<longleftrightarrow> (\<forall>c \<in> set (wf_log w). case c of
     CallEvidence _ \<Rightarrow> False | CallRecord _ \<Rightarrow> False | CallReport _ _ \<Rightarrow> False | CallTeardown _ _ \<Rightarrow> False | _ \<Rightarrow> True)"

lemma wp_log_failure [wp_simps]:
  "wp (log_failure A) Q E = (\<lambda>w. if wf_log_enabled A (wf_world w) then E unexpected_error_keyword w else Q () w)"
  by (rule ext) (simp add: log_failure_def wp_simps wp_if)

definition steps_ok :: "'s wf_state \<Rightarrow> bool" where
  "steps_ok w \<longleftrightarrow> main_ok w \<and> no_final w"

lemma guarded_steps_ok: "wp (guarded_steps A inp) (\<lambda>_. steps_ok) (\<lambda>_. steps_ok) (start_state s)"
  unfolding guarded_steps_def main_steps_def wp_simps
  by (intro wp_execute; simp add: wp_simps start_state_def initial_vars_def steps_ok_def main_ok_def no_final_def;
      (intro wp_execute; simp add: wp_simps steps_ok_def main_ok_def no_final_def)?)+

subsection \<open>The final steps\<close>

definition final_calls :: "wf_vars \<Rightarrow> act_call list" where
  "final_calls v = [CallEvidence (v_recovered_vm_moref v), CallRecord (v_passed v),
     CallReport (v_passed v) (v_failure_reason v), CallTeardown (v_recovery_session_id v) (v_isolated_network v)]"

lemma final_steps_log:
  "wp (final_steps A inp)
     (\<lambda>res w'. wf_log w' = wf_log w @ final_calls (wf_vars w) \<and>
        res_passed res = v_passed (wf_vars w) \<and> res_failure_reason res = v_failure_reason (wf_vars w) \<and>
        res_run_id res = in_run_id inp)
     (\<lambda>e w'. \<exists>k. 1 \<le> k \<and> k \<le> 4 \<and> wf_log w' = wf_log w @ take k (final_calls (wf_vars w))) w"
  unfolding final_steps_def wp_simps
  by (rule wp_execute, rule wp_execute, rule wp_execute, rule wp_execute)
    (auto simp: final_calls_def wp_simps intro: exI [of _ 1] exI [of _ 2] exI [of _ 3] exI [of _ 4])

text \<open>Where a run stands when its closing steps begin.\<close>

definition after_main :: "'s activity_set \<Rightarrow> test_input \<Rightarrow> 's \<Rightarrow> 's wf_state" where
  "after_main A inp s = snd (guarded_steps A inp (start_state s))"

lemma after_main_ok: "steps_ok (after_main A inp s)"
  using guarded_steps_ok [of A inp s] by (auto simp: after_main_def wp_def split: prod.splits sum.splits)

lemma run_workflow_split:
  "run_workflow A inp (start_state s) = (case final_steps A inp (after_main A inp s) of
     (Inl e, w) \<Rightarrow> (Inl e, w)
   | (Inr res, w) \<Rightarrow> (case fst (guarded_steps A inp (start_state s)) of Inl e \<Rightarrow> (Inl e, w) | Inr _ \<Rightarrow> (Inr res, w)))"
  by (auto simp: run_workflow_def finally_run_def after_main_def split: prod.splits sum.splits)

text \<open>What the closing steps return, when they return.\<close>

definition closed :: "test_result \<Rightarrow> 's wf_state \<Rightarrow> 's wf_state \<Rightarrow> bool" where
  "closed res w1 w \<longleftrightarrow>
     wf_log w = wf_log w1 @ final_calls (wf_vars w1) \<and>
     res_passed res = v_passed (wf_vars w1) \<and> res_failure_reason res = v_failure_reason (wf_vars w1)"

lemma final_steps_closed: "final_steps A inp w1 = (Inr res, w) \<Longrightarrow> closed res w1 w"
  using wp_Inr [OF final_steps_log] by (fastforce simp: closed_def)

subsection \<open>Properties\<close>

text \<open>C1: a run that returns a result has, after its main steps, captured evidence, measured, reported
  and torn down, in this order and once each. The teardown names the very session that was waited
  for and the very network the recovery was started into. The result is passed exactly if the
  health checks of this run answered and every answer passed, and it has no failure reason exactly
  if they answered.\<close>

theorem result_after_teardown:
  assumes "run_workflow A inp (start_state s) = (Inr res, w)"
  shows "wf_log w = wf_log (after_main A inp s) @ final_calls (wf_vars (after_main A inp s)) \<and>
     no_final (after_main A inp s) \<and>
     last (wf_log w) = CallTeardown (v_recovery_session_id (wf_vars (after_main A inp s)))
                                    (v_isolated_network (wf_vars (after_main A inp s))) \<and>
     (\<forall>sid. CallWait sid \<in> set (wf_log w) \<longrightarrow> v_recovery_session_id (wf_vars (after_main A inp s)) = Some sid) \<and>
     (\<forall>rp net. CallStart rp net \<in> set (wf_log w) \<longrightarrow> v_isolated_network (wf_vars (after_main A inp s)) = Some net) \<and>
     res_passed res = (\<exists>mo hs. CallHealth mo (Some hs) \<in> set (wf_log w) \<and> list_all hr_passed hs) \<and>
     (res_failure_reason res = None) = (\<exists>mo hs. CallHealth mo (Some hs) \<in> set (wf_log w))"
proof -
  have "closed res (after_main A inp s) w"
    using assms by (auto simp: run_workflow_split split: prod.splits sum.splits dest: final_steps_closed)
  then show ?thesis
    using after_main_ok [of A inp s] by (simp add: closed_def steps_ok_def main_ok_def final_calls_def)
qed

definition demo_activities :: "(string \<Rightarrow> string option \<Rightarrow> (nat, unit) exec) \<Rightarrow> nat activity_set" where
  "demo_activities evidence =
     \<lparr>act_sync = \<lambda>_. update Suc,
      act_select = \<lambda>_ _. ret \<lparr>sel_restore_point_id = ''rp-1'', sel_creation_time = 0\<rparr>,
      act_provision = \<lambda>run. ret (''r3vp-'' @ run),
      act_start = \<lambda>_ _. ret ''session-7'',
      act_wait = \<lambda>sid. ret (''recovered-'' @ sid),
      act_health = \<lambda>_ _. raise (RuntimeError ''agent unreachable''),
      act_evidence = evidence,
      act_record = \<lambda>_ _ _ _ _ _. ret \<lparr>m_rto_actual_mins = 4, m_rpo_actual_mins = 3, m_readiness_score = 40\<rparr>,
      act_report = \<lambda>_ _ _ _. update Suc,
      act_teardown = \<lambda>_ _. update Suc,
      wf_now = int,
      temporal_text = exn_text,
      wf_log_enabled = \<lambda>n. n < 4\<rparr>"

lemmas demo_run =
  run_workflow_def guarded_steps_def main_steps_def final_steps_def finally_run_def log_failure_def
  execute_activity_def MAX_ATTEMPTS_def numeral_3_eq_3 var_def set_var_def now_def exec_simps
  demo_activities_def start_state_def initial_vars_def

definition demo_input :: test_input where
  "demo_input = \<lparr>in_run_id = ''run-1'', in_workload_id = ''wl-1'', in_veeam_object_id = ''obj'',
     in_vcenter_moref = ''vm-1'', in_rto_target_mins = 60, in_rpo_target_mins = 60\<rparr>"

text \<open>A run whose health checks raise: it still reports, tears down and returns.\<close>

definition demo_world :: "nat wf_state" where
  "demo_world = snd (run_workflow (demo_activities (\<lambda>_ _. update Suc)) demo_input (start_state 5))"

definition demo_result :: test_result where
  "demo_result = \<lparr>res_run_id = ''run-1'', res_passed = False, res_rto_actual_mins = 4, res_rpo_actual_mins = 3,
     res_readiness_score = 40, res_failure_reason = Some ''agent unreachable''\<rparr>"

lemma demo_run_returns:
  "run_workflow (demo_activities (\<lambda>_ _. update Suc)) demo_input (start_state 5) = (Inr demo_result, demo_world)"
  by (simp add: demo_world_def demo_result_def demo_input_def demo_run)

theorem result_after_teardown_witness:
  "last (wf_log demo_world) = CallTeardown (Some ''session-7'') (Some ''r3vp-run-1'') \<and>
   res_passed demo_result = (\<exists>mo hs. CallHealth mo (Some hs) \<in> set (wf_log demo_world) \<and> list_all hr_passed hs)"
proof -
  have "v_recovery_session_id (wf_vars (after_main (demo_activities (\<lambda>_ _. update Suc)) demo_input 5)) = Some ''session-7''"
    "v_isolated_network (wf_vars (after_main (demo_activities (\<lambda>_ _. update Suc)) demo_input 5)) = Some ''r3vp-run-1''"
    by (simp_all add: after_main_def demo_input_def demo_run)
  with result_after_teardown [OF demo_run_returns]
  show ?thesis by metis
qed








text \<open>C3: a run whose evidence capture raises on every attempt raises too, and has neither reported
  its result nor torn down the isolated environment, although the workflow calls its teardown
  one that always executes.\<close>

theorem evidence_failure_skips_teardown:
  assumes "\<And>run mo s. \<exists>e s'. act_evidence A run mo s = (Inl e, s')"
  shows "\<exists>e w. run_workflow A inp (start_state s) = (Inl e, w) \<and>
     (\<forall>p f. CallReport p f \<notin> set (wf_log w)) \<and> (\<forall>sid net. CallTeardown sid net \<notin> set (wf_log w))"
proof -
  let ?E = "\<lambda>w. (\<forall>p f. CallReport p f \<notin> set (wf_log w)) \<and> (\<forall>sid net. CallTeardown sid net \<notin> set (wf_log w))"
  have final: "wp (final_steps A inp) (\<lambda>_ _. False) (\<lambda>_. ?E) w" if "steps_ok w" for w
    unfolding final_steps_def wp_seq wp_var id_apply
    by (rule wp_execute_raises [OF assms]) (use that in \<open>auto simp: steps_ok_def no_final_def MAX_ATTEMPTS_def\<close>)
  have "wp (run_workflow A inp) (\<lambda>_ _. False) (\<lambda>_. ?E) (start_state s)"
    unfolding run_workflow_def wp_finally_run
    by (rule wp_mono [OF guarded_steps_ok]) (auto intro: wp_mono [OF final])
  then show ?thesis by (auto simp: wp_raises)
qed

lemma failing_evidence: "\<exists>e s'. act_evidence (demo_activities (\<lambda>_ _. raise (ValueError ''No VM found''))) run mo s = (Inl e, s')"
  by (simp add: demo_activities_def exec_simps)

theorem evidence_failure_skips_teardown_witness:
  "\<exists>e w. run_workflow (demo_activities (\<lambda>_ _. raise (ValueError ''No VM found''))) demo_input (start_state 0) = (Inl e, w) \<and>
     (\<forall>p f. CallReport p f \<notin> set (wf_log w)) \<and> (\<forall>sid net. CallTeardown sid net \<notin> set (wf_log w))"
  by (rule evidence_failure_skips_teardown [OF failing_evidence])

end
