(* ===== verification/Scheduler.thy ===== *)
theory Scheduler
  imports ContinuousValidation Notifications
begin

text \<open>
  The background jobs of \<open>scheduler.py\<close>: running a validation policy, triggering a scheduled
  recovery test, generating a scheduled report, and registering the jobs. What APScheduler and
  Temporal provide (parsing a cron expression, the next fire time, starting a workflow) are
  arguments, as are the identifiers, durations and clock readings the code draws.
\<close>

subsection \<open>Running a validation policy\<close>

text \<open>The join of workloads with the appliances of the policy's organisation.\<close>

definition policy_workloads :: "policy_row \<Rightarrow> cv_db \<Rightarrow> (workload_row \<times> micros option) list" where
  "policy_workloads policy db =
     concat (map (\<lambda>w. map (\<lambda>a. (w, ap_last_heartbeat a))
         (filter (\<lambda>a. ap_id a = wl_appliance_id w \<and> ap_org_id a = pl_org_id policy) (a_appliances db)))
       (a_workloads db))"

definition uuid_arg :: "string \<Rightarrow> uuid result" where
  "uuid_arg s = (case uuid_of_str s of
     None \<Rightarrow> Inl (ValueError ''badly formed hexadecimal UUID string'') | Some i \<Rightarrow> Inr i)"

definition in_scope :: "policy_row \<Rightarrow> (workload_row \<times> micros option) list \<Rightarrow> (workload_row \<times> micros option) list result" where
  "in_scope policy rows =
     (if pl_workload_scope policy = ''specific'' \<and> pl_workload_ids policy \<noteq> []
      then and_then (map_result uuid_arg (pl_workload_ids policy)) (\<lambda>ids.
           Inr (filter (\<lambda>(w, _). wl_id w \<in> set ids) rows))
      else Inr rows)"

definition age_hours :: "check_results \<Rightarrow> int option" where
  "age_hours results =
     (case map_of results ''restore_point_freshness'' of
        None \<Rightarrow> None
      | Some rp \<Rightarrow> (case dget rp ''value_hours'' of JFloat h \<Rightarrow> Some (int_of_float h) | _ \<Rightarrow> None))"

definition validation_run_of ::
    "policy_row \<Rightarrow> workload_row \<Rightarrow> micros option \<Rightarrow> micros \<Rightarrow> uuid \<Rightarrow> int \<Rightarrow> validation_run" where
  "validation_run_of policy workload last_beat now new_id duration =
     (let results = build_check_results (pl_checks_enabled policy) (wl_last_backup_at workload)
            (wl_rpo_target_mins workload) last_beat (pl_check_interval_mins policy) now
      in \<lparr>mv_id = new_id, mv_policy_id = pl_id policy, mv_org_id = pl_org_id policy,
          mv_workload_id = Some (wl_id workload), mv_workload_name = Some (wl_name workload),
          mv_status = evaluate_check_results results, mv_checks_run = length results,
          mv_checks_passed = count_if (\<lambda>(k, v). passed v) results, mv_check_results = results,
          mv_restore_point_age_hours = age_hours results, mv_alert_sent = False, mv_ran_at = now,
          mv_duration_ms = Some duration\<rparr>)"

definition recent_statuses :: "uuid \<Rightarrow> uuid \<Rightarrow> cv_db \<Rightarrow> string list" where
  "recent_statuses policy_id workload_id db =
     map mv_status (newest_rows mv_ran_at
       (filter (\<lambda>r. mv_policy_id r = policy_id \<and> mv_workload_id r = Some workload_id) (c_runs db)))"

definition leading_failures :: "string list \<Rightarrow> nat" where
  "leading_failures statuses = length (takeWhile (\<lambda>s. s \<noteq> ''pass'') statuses)"

definition open_alert :: "uuid \<Rightarrow> uuid \<Rightarrow> alert_row \<Rightarrow> bool" where
  "open_alert policy_id workload_id a \<longleftrightarrow>
     va_policy_id a = policy_id \<and> va_workload_id a = Some workload_id \<and> \<not> va_resolved a"

definition alert_of :: "policy_row \<Rightarrow> workload_row \<Rightarrow> nat \<Rightarrow> micros \<Rightarrow> uuid \<Rightarrow> alert_row" where
  "alert_of policy workload consecutive now new_id =
     \<lparr>va_id = new_id, va_policy_id = pl_id policy, va_org_id = pl_org_id policy,
      va_workload_id = Some (wl_id workload), va_workload_name = Some (wl_name workload),
      va_alert_type = ''consecutive_failures'', va_severity = ''high'',
      va_detail = show_nat consecutive @ '' consecutive failing micro-validations'',
      va_resolved = False, va_resolved_at = None, va_created_at = now\<rparr>"

definition raise_alert ::
    "policy_row \<Rightarrow> workload_row \<Rightarrow> validation_run \<Rightarrow> micros \<Rightarrow> uuid \<Rightarrow> (cv_db, unit) exec" where
  "raise_alert policy workload run now alert_id =
     seq (gets (recent_statuses (pl_id policy) (wl_id workload))) (\<lambda>all.
     seq (lift_result (limit_rows (pl_consecutive_failures_before_alert policy) all)) (\<lambda>recent.
     let consecutive = leading_failures recent in
     if pl_consecutive_failures_before_alert policy \<le> int consecutive
     then
       seq (gets (\<lambda>db. List.find (open_alert (pl_id policy) (wl_id workload)) (c_alerts db))) (\<lambda>existing.
       case existing of
         Some _ \<Rightarrow> ret ()
       | None \<Rightarrow> update (\<lambda>db. db\<lparr>
           c_alerts := c_alerts db @ [alert_of policy workload consecutive now alert_id],
           c_runs := update_where (\<lambda>r. r = run) (\<lambda>r. r\<lparr>mv_alert_sent := True\<rparr>) (c_runs db)\<rparr>))
     else ret ()))"

definition validate_workload ::
    "policy_row \<Rightarrow> micros \<Rightarrow> uuid \<times> uuid \<times> int \<Rightarrow> workload_row \<times> micros option \<Rightarrow> (cv_db, unit) exec" where
  "validate_workload policy now drawn row =
     (case (drawn, row) of ((run_id, alert_id, duration), (workload, last_beat)) \<Rightarrow>
        let run = validation_run_of policy workload last_beat now run_id duration in
        seq (update (\<lambda>db. db\<lparr>c_runs := c_runs db @ [run]\<rparr>)) (\<lambda>_.
        if pl_alert_on_failure policy \<and> mv_status run = ''fail''
        then raise_alert policy workload run now alert_id
        else ret ()))"

fun validate_workloads ::
    "policy_row \<Rightarrow> micros \<Rightarrow> (nat \<Rightarrow> uuid \<times> uuid \<times> int) \<Rightarrow> nat \<Rightarrow> (workload_row \<times> micros option) list
       \<Rightarrow> (cv_db, unit) exec" where
  "validate_workloads policy now draw n [] = ret ()"
| "validate_workloads policy now draw n (row # rows) =
     seq (validate_workload policy now (draw n) row) (\<lambda>_. validate_workloads policy now draw (n + 1) rows)"

definition run_validation_policy ::
    "string \<Rightarrow> micros \<Rightarrow> (nat \<Rightarrow> uuid \<times> uuid \<times> int) \<Rightarrow> (cv_db, unit) exec" where
  "run_validation_policy policy_id now draw =
     txn (seq (lift_result (uuid_arg policy_id)) (\<lambda>pid.
     seq (gets (\<lambda>db. List.find (\<lambda>p. pl_id p = pid) (c_policies db))) (\<lambda>found.
     case found of
       None \<Rightarrow> ret ()
     | Some policy \<Rightarrow>
         if \<not> pl_enabled policy then ret ()
         else
           seq (gets (policy_workloads policy)) (\<lambda>joined.
           seq (lift_result (in_scope policy joined)) (\<lambda>rows.
           validate_workloads policy now draw 0 rows)))))"

subsection \<open>Triggering a scheduled recovery test\<close>

definition pending_run :: "uuid \<Rightarrow> uuid \<Rightarrow> run_row" where
  "pending_run new_id workload_id =
     \<lparr>tr_id = new_id, tr_workload_id = workload_id, tr_status = ''pending'', tr_started_at = None,
      tr_completed_at = None, tr_rto_actual_mins = None, tr_rpo_actual_mins = None,
      tr_readiness_score = None, tr_failure_reason = None, tr_workflow_run_id = None\<rparr>"

definition set_run :: "uuid \<Rightarrow> (run_row \<Rightarrow> run_row) \<Rightarrow> (cv_db, unit) exec" where
  "set_run run_id f = update (\<lambda>db. db\<lparr>a_runs := update_where (\<lambda>r. tr_id r = run_id) f (a_runs db)\<rparr>)"

definition trigger_scheduled_run ::
    "(uuid \<Rightarrow> string) \<Rightarrow> (string \<Rightarrow> string list \<Rightarrow> string \<Rightarrow> string result) \<Rightarrow> string \<Rightarrow> uuid \<Rightarrow> micros
       \<Rightarrow> (cv_db, unit) exec" where
  "trigger_scheduled_run uuid_str start_workflow workload_id new_id now =
     seq (lift_result (uuid_arg workload_id)) (\<lambda>wid.
     seq (gets (\<lambda>db. List.find (\<lambda>w. wl_id w = wid) (a_workloads db))) (\<lambda>found.
     case found of
       None \<Rightarrow> ret ()
     | Some workload \<Rightarrow>
         seq (update (\<lambda>db. db\<lparr>a_runs := a_runs db @ [pending_run new_id (wl_id workload)]\<rparr>)) (\<lambda>_.
         try_except
           (seq (lift_result (start_workflow ''RecoveryTestWorkflow''
                   [uuid_str new_id, workload_id, uuid_str (wl_appliance_id workload)] (uuid_str new_id)))
              (\<lambda>execution_id. set_run new_id (\<lambda>r. r\<lparr>tr_workflow_run_id := Some execution_id,
                  tr_status := ''running'', tr_started_at := Some now\<rparr>)))
           (\<lambda>exc. set_run new_id (\<lambda>r. r\<lparr>tr_status := ''failed'',
                tr_failure_reason := Some (''Failed to enqueue recovery workflow: '' @ exn_text exc),
                tr_completed_at := Some now\<rparr>)))))"

subsection \<open>Scheduled reports\<close>

record report_schedule =
  rs_id :: uuid
  rs_org_id :: uuid
  rs_name :: string
  rs_report_type :: string
  rs_cron :: string
  rs_period_days :: int
  rs_recipients :: "dict list"
  rs_enabled :: bool
  rs_last_run_at :: "micros option"
  rs_next_run_at :: "micros option"

record report_state =
  rp_schedules :: "report_schedule list"
  rp_sent :: "sent list"

text \<open>Code that only sends, run on the outbox of a larger state.\<close>

definition on_outbox :: "(sent list, 'a) exec \<Rightarrow> (report_state, 'a) exec" where
  "on_outbox m s = (case m (rp_sent s) of (r, tr) \<Rightarrow> (r, s\<lparr>rp_sent := tr\<rparr>))"

definition run_report_schedule ::
    "outbound \<Rightarrow> (string \<Rightarrow> micros \<Rightarrow> micros option result) \<Rightarrow> (int \<Rightarrow> string) \<Rightarrow> string \<Rightarrow> micros
       \<Rightarrow> (report_state, unit) exec" where
  "run_report_schedule out next_fire iso_date schedule_id now =
     seq (lift_result (uuid_arg schedule_id)) (\<lambda>sid.
     seq (gets (\<lambda>s. List.find (\<lambda>r. rs_id r = sid) (rp_schedules s))) (\<lambda>found.
     case found of
       None \<Rightarrow> ret ()
     | Some schedule \<Rightarrow>
         if \<not> rs_enabled schedule then ret ()
         else
           let to_date = now div 86400000000;
               from_date = to_date - rs_period_days schedule;
               period = iso_date from_date @ '' to '' @ iso_date to_date;
               next_run = (case next_fire (rs_cron schedule) now of
                             Inr t \<Rightarrow> t | Inl _ \<Rightarrow> Some (now + 86400000000))
           in seq (best_effort (on_outbox (send_report_delivery out (rs_recipients schedule)
                     (rs_report_type schedule) period))) (\<lambda>_.
              update (\<lambda>s. s\<lparr>rp_schedules := update_where (\<lambda>r. rs_id r = rs_id schedule)
                 (\<lambda>r. r\<lparr>rs_last_run_at := Some now, rs_next_run_at := next_run\<rparr>) (rp_schedules s)\<rparr>))))"

subsection \<open>Registering the jobs\<close>

datatype job_target = ScheduledRun string string | ReportJob string | PolicyJob string

datatype trigger = Cron string | Interval int

type_synonym jobs = "(string \<times> trigger \<times> job_target) list"

text \<open>\<open>add_job(..., id=i, replace_existing=True)\<close>\<close>

fun add_job :: "string \<Rightarrow> trigger \<times> job_target \<Rightarrow> jobs \<Rightarrow> jobs" where
  "add_job i j [] = [(i, j)]"
| "add_job i j ((i', j') # js) = (if i' = i then (i, j) # js else (i', j') # add_job i j js)"

definition load_schedules ::
    "(uuid \<Rightarrow> string) \<Rightarrow> (string \<Rightarrow> bool) \<Rightarrow> cv_db \<Rightarrow> report_schedule list \<Rightarrow> jobs" where
  "load_schedules uuid_str valid_cron db reports =
     fold (\<lambda>p. add_job (''cv-policy-'' @ uuid_str (pl_id p))
             (Interval (max 1 (pl_check_interval_mins p)), PolicyJob (uuid_str (pl_id p))))
       (filter pl_enabled (c_policies db))
     (fold (\<lambda>r. add_job (''report-'' @ uuid_str (rs_id r)) (Cron (rs_cron r), ReportJob (uuid_str (rs_id r))))
       (filter (\<lambda>r. rs_enabled r \<and> valid_cron (rs_cron r)) reports)
     (fold (\<lambda>(w, a). add_job (''workload-'' @ uuid_str (wl_id w))
             (Cron (the (wl_schedule_cron w)), ScheduledRun (uuid_str (wl_id w)) (uuid_str (ap_org_id a))))
       (filter (\<lambda>(w, a). wl_schedule_cron w \<noteq> None \<and> valid_cron (the (wl_schedule_cron w)))
         (concat (map (\<lambda>w. map (\<lambda>a. (w, a)) (filter (\<lambda>a. ap_id a = wl_appliance_id w) (a_appliances db)))
            (a_workloads db))))
       []))"

subsection \<open>At most one open alert\<close>

definition one_open :: "cv_db \<Rightarrow> bool" where
  "one_open db \<longleftrightarrow> (\<forall>p w. count_if (open_alert p w) (c_alerts db) \<le> 1)"

lemma one_openI: "(\<And>p w. count_if (open_alert p w) (c_alerts db) \<le> 1) \<Longrightarrow> one_open db"
  by (simp add: one_open_def)

lemma one_openD: "one_open db \<Longrightarrow> count_if (open_alert p w) (c_alerts db) \<le> 1"
  by (simp add: one_open_def)

lemma one_open_same: "c_alerts db' = c_alerts db \<Longrightarrow> one_open db \<Longrightarrow> one_open db'"
  by (simp add: one_open_def)

lemma count_if_update_le: "(\<And>x. P (f x) \<Longrightarrow> P x) \<Longrightarrow> count_if P (update_where Q f xs) \<le> count_if P xs"
  by (induction xs) (auto simp: update_where_def intro: le_SucI)

lemma count_if_0: "List.find P xs = None \<Longrightarrow> count_if P xs = 0"
  by (auto simp: find_None_iff count_if_def filter_empty_conv)

lemma one_open_new:
  assumes "one_open db" and "List.find (open_alert p w) (c_alerts db) = None"
    and "va_policy_id a = p" and "va_workload_id a = Some w" and "c_alerts db' = c_alerts db @ [a]"
  shows "one_open db'"
proof (rule one_openI)
  fix p' w'
  have "open_alert p' w' a \<Longrightarrow> p' = p \<and> w' = w" using assms(3,4) by (simp add: open_alert_def)
  then show "count_if (open_alert p' w') (c_alerts db') \<le> 1"
    using one_openD [OF assms(1), of p' w'] count_if_0 [OF assms(2)] by (auto simp: assms(5))
qed

lemma wp_validate_workload:
  "one_open db \<Longrightarrow> wp (validate_workload policy now drawn row) (\<lambda>_. one_open) (\<lambda>_ _. True) db"
proof -
  assume ok: "one_open db"
  obtain i j d w h where args: "drawn = (i, j, d)" "row = (w, h)" by (metis prod.exhaust)
  let ?run = "validation_run_of policy w h now i d"
  let ?db = "db\<lparr>c_runs := c_runs db @ [?run]\<rparr>"
  have ok': "one_open ?db" using one_open_same [OF _ ok, of ?db] by simp
  have "wp (raise_alert policy w ?run now j) (\<lambda>_. one_open) (\<lambda>_ _. True) ?db"
  proof (cases "limit_rows (pl_consecutive_failures_before_alert policy) (recent_statuses (pl_id policy) (wl_id w) ?db)")
    case (Inr recent)
    show ?thesis
    proof (cases "List.find (open_alert (pl_id policy) (wl_id w)) (c_alerts db)")
      case None
      then have "one_open (?db\<lparr>c_alerts := c_alerts ?db @ [alert_of policy w n now j],
           c_runs := update_where (\<lambda>r. r = ?run) (\<lambda>r. r\<lparr>mv_alert_sent := True\<rparr>) (c_runs ?db)\<rparr>)" for n
        by (intro one_open_new [OF ok', of "pl_id policy" "wl_id w"]) (simp_all add: alert_of_def)
      then show ?thesis using Inr None ok' by (simp add: raise_alert_def wp_simps Let_def)
    next
      case (Some a)
      then show ?thesis using Inr ok' by (simp add: raise_alert_def wp_simps Let_def)
    qed
  qed (simp add: raise_alert_def wp_simps Let_def)
  then show ?thesis using ok' by (simp add: validate_workload_def args wp_simps Let_def)
qed

lemma wp_validate_workloads:
  "one_open db \<Longrightarrow> wp (validate_workloads policy now draw n rows) (\<lambda>_. one_open) (\<lambda>_ _. True) db"
proof (induction rows arbitrary: n db)
  case (Cons row rows)
  have "wp (validate_workload policy now (draw n) row) (\<lambda>_. one_open) (\<lambda>_ _. True) db"
    by (rule wp_validate_workload) (rule Cons.prems)
  then have "wp (validate_workload policy now (draw n) row)
      (\<lambda>_. wp (validate_workloads policy now draw (n + 1) rows) (\<lambda>_. one_open) (\<lambda>_ _. True)) (\<lambda>_ _. True) db"
    by (rule wp_mono) (use Cons.IH in auto)
  then show ?case by (simp add: wp_simps)
qed (simp add: wp_simps)

lemma wp_snd: "wp m (\<lambda>_. P) (\<lambda>_. P) s \<Longrightarrow> P (snd (m s))"
  by (auto simp: wp_def split: prod.splits sum.splits)

lemma run_policy_one_open: "one_open db \<Longrightarrow> one_open (snd (run_validation_policy pid now draw db))"
  by (rule wp_snd)
    (auto simp: run_validation_policy_def wp_simps wp_validate_workloads split: sum.splits option.splits)

text \<open>The database under requests and jobs.\<close>

inductive cv_step :: "cv_db \<Rightarrow> cv_db \<Rightarrow> bool" where
  policy_job: "cv_step db (snd (run_validation_policy pid now draw db))"
| scheduled_run: "cv_step db (snd (trigger_scheduled_run uuid_str start wid new_id now db))"
| create: "cv_step db (snd (create_policy body user new_id now db))"
| toggle: "cv_step db (snd (toggle_policy policy_id user db))"
| resolve: "cv_step db (snd (resolve_alert alert_id user now db))"

inductive cv_reachable :: "cv_db \<Rightarrow> bool" where
  initial: "c_alerts db = [] \<Longrightarrow> cv_reachable db"
| step: "cv_reachable db \<Longrightarrow> cv_step db db' \<Longrightarrow> cv_reachable db'"

lemma create_policy_alerts: "c_alerts (snd (create_policy body user new_id now db)) = c_alerts db"
  by (simp add: create_policy_def lift_permission exec_simps Let_def)

lemma toggle_policy_alerts: "c_alerts (snd (toggle_policy policy_id user db)) = c_alerts db"
  by (cases "find_policy policy_id user db") (simp_all add: toggle_policy_def lift_permission exec_simps)

lemma trigger_alerts: "c_alerts (snd (trigger_scheduled_run uuid_str start wid new_id now db)) = c_alerts db"
  by (auto simp: trigger_scheduled_run_def set_run_def exec_simps split: sum.splits option.splits prod.splits)

lemma resolve_one_open: "one_open db \<Longrightarrow> one_open (snd (resolve_alert alert_id user now db))"
proof -
  assume ok: "one_open db"
  show ?thesis
  proof (cases "''workloads:write'' \<in> set (permissions user) \<and> find_alert alert_id user db \<noteq> None")
    case True
    then obtain a where "find_alert alert_id user db = Some a" by auto
    then have "c_alerts (snd (resolve_alert alert_id user now db))
        = update_where (\<lambda>x. x = a) (\<lambda>a. a\<lparr>va_resolved := True, va_resolved_at := Some now\<rparr>) (c_alerts db)"
      using True by (simp add: resolve_alert_def lift_permission exec_simps)
    moreover have "count_if (open_alert p w)
        (update_where (\<lambda>x. x = a) (\<lambda>a. a\<lparr>va_resolved := True, va_resolved_at := Some now\<rparr>) (c_alerts db))
        \<le> count_if (open_alert p w) (c_alerts db)" for p w
      by (rule count_if_update_le) (simp add: open_alert_def)
    ultimately show ?thesis using one_openD [OF ok] by (intro one_openI) (metis le_trans)
  next
    case False
    then have "snd (resolve_alert alert_id user now db) = db"
      by (auto simp: resolve_alert_def lift_permission exec_simps)
    then show ?thesis using ok by simp
  qed
qed

lemma step_one_open: "cv_step db db' \<Longrightarrow> one_open db \<Longrightarrow> one_open db'"
proof (induction rule: cv_step.induct)
  case (policy_job db pid now draw)
  then show ?case by (rule run_policy_one_open)
next
  case (resolve db alert_id user now)
  then show ?case by (rule resolve_one_open)
qed (blast intro: one_open_same create_policy_alerts toggle_policy_alerts trigger_alerts)+

lemma leading_failures_iff:
  "length xs \<le> n \<Longrightarrow> n \<le> leading_failures xs \<longleftrightarrow> length xs = n \<and> ''pass'' \<notin> set xs"
proof -
  assume len: "length xs \<le> n"
  have "length (takeWhile (\<lambda>s. s \<noteq> ''pass'') xs) \<le> length xs" by (rule length_takeWhile_le)
  moreover have "length (takeWhile (\<lambda>s. s \<noteq> ''pass'') xs) = length xs \<longleftrightarrow> ''pass'' \<notin> set xs"
    by (induction xs) auto
  ultimately show ?thesis using len unfolding leading_failures_def by linarith
qed

lemma raise_alert_result:
  fixes policy :: policy_row and w :: workload_row and db :: cv_db
  assumes "0 \<le> pl_consecutive_failures_before_alert policy"
  defines "n \<equiv> nat (pl_consecutive_failures_before_alert policy)"
  defines "newest \<equiv> take n (recent_statuses (pl_id policy) (wl_id w) db)"
  shows "raise_alert policy w run now i db =
    (Inr (), if length newest = n \<and> ''pass'' \<notin> set newest \<and>
                \<not> list_ex (open_alert (pl_id policy) (wl_id w)) (c_alerts db)
             then db\<lparr>c_alerts := c_alerts db @ [alert_of policy w n now i],
                c_runs := update_where (\<lambda>r. r = run) (\<lambda>r. r\<lparr>mv_alert_sent := True\<rparr>) (c_runs db)\<rparr>
             else db)"
proof -
  have n: "pl_consecutive_failures_before_alert policy = int n" using assms(1) by (simp add: n_def)
  have limit: "limit_rows (int n) (recent_statuses (pl_id policy) (wl_id w) db) = Inr newest"
    by (simp add: limit_rows_def newest_def)
  have "length newest \<le> n" by (simp add: newest_def)
  from leading_failures_iff [OF this]
  have streak: "n \<le> leading_failures newest \<longleftrightarrow> length newest = n \<and> ''pass'' \<notin> set newest" .
  have all: "length newest = n \<Longrightarrow> ''pass'' \<notin> set newest \<Longrightarrow> leading_failures newest = n"
  proof -
    assume len: "length newest = n" and fails: "''pass'' \<notin> set newest"
    have "takeWhile (\<lambda>s. s \<noteq> ''pass'') newest = newest"
      unfolding takeWhile_eq_all_conv using fails by fast
    then show "leading_failures newest = n" unfolding leading_failures_def using len by (rule ssubst)
  qed
  show ?thesis
  proof (cases "n \<le> leading_failures newest")
    case False
    then show ?thesis using streak
      by (auto simp: raise_alert_def n limit seq_def gets_def lift_result_def ret_def Let_def)
  next
    case True
    then have lead: "leading_failures newest = n" "length newest = n" "''pass'' \<notin> set newest" using streak all by auto
    have none: "\<not> list_ex P xs \<longleftrightarrow> List.find P xs = None" for P and xs :: "alert_row list"
      by (auto simp: find_None_iff list_ex_iff)
    have "raise_alert policy w run now i db
        = (case List.find (open_alert (pl_id policy) (wl_id w)) (c_alerts db) of
             Some _ \<Rightarrow> (Inr (), db)
           | None \<Rightarrow> (Inr (), db\<lparr>c_alerts := c_alerts db @ [alert_of policy w n now i],
                c_runs := update_where (\<lambda>r. r = run) (\<lambda>r. r\<lparr>mv_alert_sent := True\<rparr>) (c_runs db)\<rparr>))"
      unfolding raise_alert_def n seq_def gets_def lift_result_def prod.case sum.case limit Let_def lead(1)
      by (simp add: ret_def update_def split: option.split)
    then show ?thesis unfolding none using lead(2,3) by (simp split: option.split)
  qed
qed

subsection \<open>Properties\<close>

text \<open>C16: in every database reached from one without alerts by any sequence of policy runs, scheduled
  tests, policy creations, toggles and alert resolutions, a policy has at most one unresolved alert for
  a workload. \<close>

theorem one_open_alert:
  assumes "cv_reachable db"
  shows "length (filter (\<lambda>a. va_policy_id a = p \<and> va_workload_id a = Some w \<and> \<not> va_resolved a) (c_alerts db)) \<le> 1"
proof -
  have "one_open db" using assms
  proof (induction rule: cv_reachable.induct)
    case (initial db)
    then show ?case by (simp add: one_open_def)
  next
    case (step db db')
    then show ?case by (blast intro: step_one_open)
  qed
  then show ?thesis using one_openD [of db p w] by (simp add: count_if_def open_alert_def [abs_def])
qed

theorem one_open_alert_witness:
  "length (filter (\<lambda>a. va_policy_id a = 1 \<and> va_workload_id a = Some 3 \<and> \<not> va_resolved a)
     (c_alerts (snd (run_validation_policy ''x'' 0 (\<lambda>_. (0, 0, 0)) demo_cv_db)))) \<le> 1"
proof (rule one_open_alert, rule cv_reachable.step)
  show "cv_reachable demo_cv_db" by (rule cv_reachable.initial) (simp add: demo_cv_db_def)
qed (rule cv_step.policy_job)

text \<open>What validating one workload does: it records the run, and raises an alert exactly when the
  policy alerts, the verdict is fail, the newest N recorded runs (this one included) of the policy on
  the workload exist and none of them passed, and no alert for the pair is open; N is the policy's
  threshold, not negative. \<close>

theorem alert_exactly_on_streak:
  assumes "0 \<le> pl_consecutive_failures_before_alert policy"
  shows "let run = validation_run_of policy w b now run_id duration;
      n = nat (pl_consecutive_failures_before_alert policy);
      newest = take n (recent_statuses (pl_id policy) (wl_id w) (db\<lparr>c_runs := c_runs db @ [run]\<rparr>));
      (r, db') = validate_workload policy now (run_id, alert_id, duration) (w, b) db
    in r = Inr () \<and>
       c_alerts db' = c_alerts db @
         (if pl_alert_on_failure policy \<and> mv_status run = ''fail'' \<and>
             length newest = n \<and> ''pass'' \<notin> set newest \<and>
             \<not> list_ex (open_alert (pl_id policy) (wl_id w)) (c_alerts db)
          then [alert_of policy w n now alert_id] else [])"
proof -
  let ?run = "validation_run_of policy w b now run_id duration"
  let ?db = "db\<lparr>c_runs := c_runs db @ [?run]\<rparr>"
  have validate: "validate_workload policy now (run_id, alert_id, duration) (w, b) db
      = (if pl_alert_on_failure policy \<and> mv_status ?run = ''fail'' then raise_alert policy w ?run now alert_id ?db
         else (Inr (), ?db))"
    by (simp add: validate_workload_def Let_def seq_def update_def ret_def)
  show ?thesis
    unfolding validate Let_def raise_alert_result [OF assms, of w ?run now alert_id ?db]
    by (simp add: case_prod_beta)
qed

definition demo_policy :: policy_row where
  "demo_policy = \<lparr>pl_id = 1, pl_org_id = 7, pl_name = ''p'', pl_enabled = True, pl_check_interval_mins = 15,
     pl_workload_scope = ''all'', pl_workload_ids = [], pl_checks_enabled = [(''agent_heartbeat'', JBool True)],
     pl_alert_on_failure = True, pl_consecutive_failures_before_alert = 3, pl_created_at = 0, pl_created_by = None\<rparr>"

definition demo_workload :: workload_row where
  "demo_workload = \<lparr>wl_id = 3, wl_appliance_id = 9, wl_name = ''db'', wl_platform = ''vmware'', wl_os_type = None,
     wl_veeam_object_id = None, wl_vcenter_moref = None, wl_is_protected = True, wl_last_backup_at = None,
     wl_rto_target_mins = None, wl_rpo_target_mins = None, wl_schedule_cron = None\<rparr>"

theorem alert_exactly_on_streak_witness:
  "c_alerts (snd (validate_workload demo_policy 4 (0, 5, 1) (demo_workload, None) demo_cv_db))
     = [alert_of demo_policy demo_workload 3 4 5]"
proof -
  let ?run = "validation_run_of demo_policy demo_workload None 4 0 1"
  have "mv_status ?run = ''fail''" by code_simp
  moreover have "take 3 (recent_statuses 1 3 (demo_cv_db\<lparr>c_runs := c_runs demo_cv_db @ [?run]\<rparr>)) = [''fail'', ''fail'', ''fail'']"
    by code_simp
  moreover have "pl_id demo_policy = 1" "pl_consecutive_failures_before_alert demo_policy = 3"
      "pl_alert_on_failure demo_policy" "wl_id demo_workload = 3" "c_alerts demo_cv_db = []"
    by (simp_all add: demo_policy_def demo_workload_def demo_cv_db_def)
  ultimately show ?thesis
    using alert_exactly_on_streak [of demo_policy demo_workload None 4 0 1 demo_cv_db 5]
    by (simp add: Let_def case_prod_beta del: One_nat_def length_take)
qed

text \<open>A policy created with a negative failure threshold, which the route accepts, never records a
  failure: when one of its workloads fails, the database rejects the negative LIMIT, the job raises
  and everything it recorded is rolled back. \<close>

theorem negative_threshold_stops_recording:
  assumes "uuid_of_str pid = Some (pl_id policy)"
    and "List.find (\<lambda>p. pl_id p = pl_id policy) (c_policies db) = Some policy"
    and "pl_enabled policy" and "pl_alert_on_failure policy" and "pl_workload_scope policy = ''all''"
    and "pl_consecutive_failures_before_alert policy < 0"
    and "(w, b) \<in> set (policy_workloads policy db)"
    and "mv_status (validation_run_of policy w b now 0 0) = ''fail''"
  shows "\<exists>e. run_validation_policy pid now draw db = (Inl e, db)"
proof -
  have "\<exists>e s'. validate_workloads policy now draw n rows s = (Inl e, s')" if "(w, b) \<in> set rows" for n rows s
    using that
  proof (induction rows arbitrary: n s)
    case (Cons row rows)
    obtain i j d w' b' where args: "draw n = (i, j, d)" "row = (w', b')" by (metis prod.exhaust)
    show ?case
    proof (cases "mv_status (validation_run_of policy w' b' now i d) = ''fail''")
      case True
      then have "\<exists>e s'. validate_workload policy now (draw n) row s = (Inl e, s')"
        using assms(4,6) by (simp add: validate_workload_def raise_alert_def args exec_simps limit_rows_def Let_def)
      then show ?thesis by (auto simp: seq_def)
    next
      case False
      then have "row \<noteq> (w, b)" using assms(8) by (auto simp: args validation_run_of_def Let_def)
      then have "(w, b) \<in> set rows" using Cons.prems by auto
      moreover have "\<exists>s'. validate_workload policy now (draw n) row s = (Inr (), s')"
        using False by (simp add: validate_workload_def args exec_simps Let_def)
      ultimately show ?thesis using Cons.IH by (fastforce simp: seq_def)
    qed
  qed simp
  from this [OF assms(7), of 0 db] obtain e s'
    where "validate_workloads policy now draw 0 (policy_workloads policy db) db = (Inl e, s')" by blast
  then show ?thesis
    using assms(1-3,5)
    by (simp add: run_validation_policy_def uuid_arg_def in_scope_def exec_simps txn_def)
qed

text \<open>A scheduled trigger never leaves its run pending: for an existing workload it adds one run,
  which ends running with the workflow's execution id, or failed with the reason when the workflow
  could not be started; nothing else changes and no exception escapes. \<close>

theorem scheduled_run_never_pending:
  assumes "uuid_of_str workload_id = Some wid"
    and "List.find (\<lambda>w. wl_id w = wid) (a_workloads db) = Some w"
    and "new_id \<notin> tr_id ` set (a_runs db)"
  shows "\<exists>r. trigger_scheduled_run uuid_str start workload_id new_id now db
        = (Inr (), db\<lparr>a_runs := a_runs db @ [r]\<rparr>) \<and>
     tr_id r = new_id \<and> tr_workload_id r = wid \<and>
     (case start ''RecoveryTestWorkflow'' [uuid_str new_id, workload_id, uuid_str (wl_appliance_id w)] (uuid_str new_id) of
        Inr x \<Rightarrow> tr_status r = ''running'' \<and> tr_workflow_run_id r = Some x \<and> tr_started_at r = Some now
      | Inl e \<Rightarrow> tr_status r = ''failed'' \<and> tr_completed_at r = Some now \<and>
          tr_failure_reason r = Some (''Failed to enqueue recovery workflow: '' @ exn_text e))"
proof -
  have wid: "wl_id w = wid" using find_Some_iff' [OF assms(2)] by simp
  have "update_where (\<lambda>r. tr_id r = new_id) f (a_runs db) = a_runs db" for f
    by (rule update_where_other_rows) (use assms(3) in auto)
  then have upd: "update_where (\<lambda>r. tr_id r = new_id) f (a_runs db @ [pending_run new_id wid])
      = a_runs db @ [f (pending_run new_id wid)]" for f
    by (simp add: update_where_def pending_run_def)
  let ?start = "start ''RecoveryTestWorkflow'' [uuid_str new_id, workload_id, uuid_str (wl_appliance_id w)] (uuid_str new_id)"
  let ?f = "case ?start of
      Inr x \<Rightarrow> (\<lambda>r. r\<lparr>tr_workflow_run_id := Some x, tr_status := ''running'', tr_started_at := Some now\<rparr>)
    | Inl e \<Rightarrow> (\<lambda>r. r\<lparr>tr_status := ''failed'',
        tr_failure_reason := Some (''Failed to enqueue recovery workflow: '' @ exn_text e), tr_completed_at := Some now\<rparr>)"
  have "trigger_scheduled_run uuid_str start workload_id new_id now db
      = (Inr (), db\<lparr>a_runs := a_runs db @ [?f (pending_run new_id wid)]\<rparr>)"
    by (cases ?start) (simp_all add: trigger_scheduled_run_def uuid_arg_def set_run_def exec_simps assms(1,2) wid upd)
  then show ?thesis
    by (intro exI [of _ "?f (pending_run new_id wid)"], cases ?start) (simp_all add: pending_run_def)
qed

definition demo_fleet :: cv_db where
  "demo_fleet = demo_cv_db\<lparr>
     a_appliances := [\<lparr>ap_id = 9, ap_org_id = 7, ap_name = ''a'', ap_version = None, ap_last_heartbeat = None,
       ap_mtls_thumbprint = [], ap_status = ''active''\<rparr>],
     a_workloads := [demo_workload],
     c_policies := [demo_policy\<lparr>pl_consecutive_failures_before_alert := - 1\<rparr>]\<rparr>"

theorem negative_threshold_stops_recording_witness:
  "\<exists>e. run_validation_policy ''00000000-0000-0000-0000-000000000001'' 4 (\<lambda>_. (0, 0, 0)) demo_fleet = (Inl e, demo_fleet)"
proof (rule negative_threshold_stops_recording)
  let ?p = "demo_policy\<lparr>pl_consecutive_failures_before_alert := - 1\<rparr>"
  show "uuid_of_str ''00000000-0000-0000-0000-000000000001'' = Some (pl_id ?p)" by code_simp
  show "List.find (\<lambda>p. pl_id p = pl_id ?p) (c_policies demo_fleet) = Some ?p" by (simp add: demo_fleet_def)
  show "(demo_workload, None) \<in> set (policy_workloads ?p demo_fleet)"
    by (simp add: policy_workloads_def demo_fleet_def demo_workload_def demo_policy_def)
  show "mv_status (validation_run_of ?p demo_workload None 4 0 0) = ''fail''" by code_simp
qed (simp_all add: demo_policy_def)

theorem scheduled_run_never_pending_witness:
  "\<exists>r. trigger_scheduled_run show_nat (\<lambda>_ _ _. Inl (RuntimeError ''Temporal client not connected''))
       ''00000000-0000-0000-0000-000000000003'' 12 4 demo_fleet
     = (Inr (), demo_fleet\<lparr>a_runs := a_runs demo_fleet @ [r]\<rparr>) \<and> tr_status r = ''failed''"
proof -
  have "uuid_of_str ''00000000-0000-0000-0000-000000000003'' = Some 3" by code_simp
  from scheduled_run_never_pending [OF this, of demo_fleet demo_workload 12 show_nat
      "\<lambda>_ _ _. Inl (RuntimeError ''Temporal client not connected'')" 4]
  show ?thesis by (auto simp: demo_fleet_def demo_workload_def demo_cv_db_def)
qed

end
