(* ===== verification/ReportSchedules.thy ===== *)
theory ReportSchedules
  imports Reports Scheduler Delivery Temporal VeeamClient
begin

text \<open>
  Schedules of compliance reports: the routes (\<open>routers/report_schedules.py\<close>,
  \<open>models/report_schedule.py\<close>) over the rows the API's scheduler loads, and the appliance's
  workflow that was to deliver them (\<open>workflows/report_schedule_workflow.py\<close>). APScheduler's
  parser of cron expressions, the HTTP client and the workflow's second activity are arguments.
\<close>

subsection \<open>The routes\<close>

record schedule_row = report_schedule +
  rs_created_at :: micros
  rs_created_by :: "uuid option"

record schedule_db = portal_db +
  sd_schedules :: "schedule_row list"

definition VALID_REPORT_TYPES :: "string list" where
  "VALID_REPORT_TYPES = [''soc2'', ''iso27001'', ''nist_csf'', ''monthly_summary'', ''cyber_insurance'']"

definition VALID_CRONS :: "(string \<times> string) list" where
  "VALID_CRONS =
     [(''daily'', ''0 8 * * *''), (''weekly'', ''0 8 * * 1''), (''monthly'', ''0 8 1 * *''), (''quarterly'', ''0 8 1 1,4,7,10 *'')]"

definition expand_cron :: "string \<Rightarrow> string" where
  "expand_cron cron = (case map_of VALID_CRONS cron of None \<Rightarrow> cron | Some c \<Rightarrow> c)"

record schedule_request =
  sq_name :: string
  sq_report_type :: string
  sq_cron :: string
  sq_period_days :: int
  sq_recipients :: "dict list"

definition own_schedules :: "current_user \<Rightarrow> schedule_db \<Rightarrow> schedule_row list" where
  "own_schedules user db = filter (\<lambda>s. rs_org_id s = user_org_id user) (sd_schedules db)"

definition list_schedules :: "current_user \<Rightarrow> (schedule_db, schedule_row list) exec" where
  "list_schedules user = gets (\<lambda>db. newest_rows rs_created_at (own_schedules user db))"

text \<open>\<open>try: CronTrigger.from_crontab(cron) except ValueError\<close>\<close>

definition check_cron :: "(string \<Rightarrow> unit result) \<Rightarrow> string \<Rightarrow> unit result" where
  "check_cron from_crontab cron =
     (case from_crontab cron of
        Inl (ValueError m) \<Rightarrow> Inl (HTTPException 400 (''Invalid cron expression: '' @ m))
      | r \<Rightarrow> r)"

definition create_schedule ::
    "(string \<Rightarrow> unit result) \<Rightarrow> schedule_request \<Rightarrow> current_user \<Rightarrow> uuid \<Rightarrow> micros \<Rightarrow> (schedule_db, schedule_row) exec" where
  "create_schedule from_crontab body user new_id now =
     (if sq_report_type body \<notin> set VALID_REPORT_TYPES
      then raise (HTTPException 400 ''report_type must be one of: cyber_insurance, iso27001, monthly_summary, nist_csf, soc2'')
      else
        let cron = expand_cron (sq_cron body) in
        seq (lift_result (check_cron from_crontab cron)) (\<lambda>_.
        seq (gets (\<lambda>db. local_user_id user (portal_db.truncate db))) (\<lambda>created_by.
        let schedule = \<lparr>rs_id = new_id, rs_org_id = user_org_id user, rs_name = sq_name body,
              rs_report_type = sq_report_type body, rs_cron = cron, rs_period_days = sq_period_days body,
              rs_recipients = sq_recipients body, rs_enabled = True, rs_last_run_at = None,
              rs_next_run_at = Some (now + 86400000000), rs_created_at = now, rs_created_by = created_by\<rparr>
        in
        seq (varchar 200 (sq_name body)) (\<lambda>_.
        seq (varchar 100 cron) (\<lambda>_.
        seq (update (\<lambda>db. db\<lparr>sd_schedules := sd_schedules db @ [schedule]\<rparr>)) (\<lambda>_. ret schedule))))))"

definition owned_schedule :: "uuid \<Rightarrow> current_user \<Rightarrow> (schedule_db, schedule_row) exec" where
  "owned_schedule schedule_id user =
     seq (gets (\<lambda>db. List.find (\<lambda>s. rs_id s = schedule_id \<and> rs_org_id s = user_org_id user) (sd_schedules db))) (\<lambda>found.
     case found of None \<Rightarrow> raise (HTTPException 404 ''Schedule not found'') | Some s \<Rightarrow> ret s)"

definition toggle_schedule :: "uuid \<Rightarrow> current_user \<Rightarrow> (schedule_db, schedule_row) exec" where
  "toggle_schedule schedule_id user =
     seq (owned_schedule schedule_id user) (\<lambda>s.
     seq (update (\<lambda>db. db\<lparr>sd_schedules := update_where (\<lambda>r. rs_id r = rs_id s) (\<lambda>r. r\<lparr>rs_enabled := \<not> rs_enabled s\<rparr>) (sd_schedules db)\<rparr>)) (\<lambda>_.
     ret (s\<lparr>rs_enabled := \<not> rs_enabled s\<rparr>)))"

definition delete_schedule :: "uuid \<Rightarrow> current_user \<Rightarrow> (schedule_db, unit) exec" where
  "delete_schedule schedule_id user =
     seq (owned_schedule schedule_id user) (\<lambda>s.
     update (\<lambda>db. db\<lparr>sd_schedules := filter (\<lambda>r. rs_id r \<noteq> rs_id s) (sd_schedules db)\<rparr>))"

text \<open>\<open>ScheduleResponse\<close> as JSON.\<close>

definition json_of_time :: "(micros \<Rightarrow> string) \<Rightarrow> micros option \<Rightarrow> json" where
  "json_of_time isoformat t = (case t of None \<Rightarrow> JNull | Some x \<Rightarrow> JStr (isoformat x))"

definition schedule_response :: "(micros \<Rightarrow> string) \<Rightarrow> (uuid \<Rightarrow> string) \<Rightarrow> schedule_row \<Rightarrow> dict" where
  "schedule_response isoformat uuid_str s =
     [(''id'', JStr (uuid_str (rs_id s))), (''name'', JStr (rs_name s)), (''report_type'', JStr (rs_report_type s)),
      (''cron'', JStr (rs_cron s)), (''period_days'', JInt (rs_period_days s)), (''recipients'', JArr (map JObj (rs_recipients s))),
      (''enabled'', JBool (rs_enabled s)), (''last_run_at'', json_of_time isoformat (rs_last_run_at s)),
      (''next_run_at'', json_of_time isoformat (rs_next_run_at s)), (''created_at'', JStr (isoformat (rs_created_at s)))]"

subsection \<open>The appliance's workflow\<close>

record schedule_api =
  sa_get :: "string \<Rightarrow> http_response result"
  sa_timedelta :: "rat \<Rightarrow> micros result"
  sa_strftime :: "micros \<Rightarrow> string"

text \<open>\<open>timedelta(days=period_days)\<close>\<close>

definition timedelta_days :: "schedule_api \<Rightarrow> json \<Rightarrow> micros result" where
  "timedelta_days A v = (case v of
     JInt n \<Rightarrow> Inr (n * 86400000000)
   | JBool b \<Rightarrow> Inr (if b then 86400000000 else 0)
   | JFloat x \<Rightarrow> sa_timedelta A x
   | _ \<Rightarrow> Inl (TypeError ''unsupported type for timedelta days component''))"

definition fetch_schedule_config :: "schedule_api \<Rightarrow> string \<Rightarrow> micros \<Rightarrow> dict result" where
  "fetch_schedule_config A schedule_id now =
     and_then (sa_get A (''/v1/report-schedules/'' @ schedule_id)) (\<lambda>resp.
     and_then (raise_for_status resp) (\<lambda>_.
     and_then (r_body resp) (\<lambda>body.
     and_then (as_dict body) (\<lambda>schedule.
     and_then (timedelta_days A (dget_or schedule ''period_days'' (JInt 30))) (\<lambda>period.
     and_then (dsub schedule ''report_type'') (\<lambda>report_type.
     and_then (dsub schedule ''recipients'') (\<lambda>recipients.
     and_then (dsub schedule ''org_id'') (\<lambda>org_id.
     Inr [(''schedule_id'', JStr schedule_id), (''report_type'', report_type),
          (''from_date'', JStr (sa_strftime A (now - period))), (''to_date'', JStr (sa_strftime A now)),
          (''recipients'', recipients), (''org_id'', org_id)]))))))))"

definition report_schedule_workflow ::
    "schedule_api \<Rightarrow> (dict \<Rightarrow> (delivery_event list, dict) exec) \<Rightarrow> string \<Rightarrow> micros \<Rightarrow> (delivery_event list, dict) exec" where
  "report_schedule_workflow A generate_and_deliver schedule_id now =
     seq (attempts 3 (lift_result (fetch_schedule_config A schedule_id now))) (\<lambda>config.
     attempts 3 (generate_and_deliver config))"

subsection \<open>Creation and the scheduler\<close>

lemma create_cases:
  "(\<exists>e. create_schedule from_crontab body user new_id now db = (Inl e, db)) \<or>
   (\<exists>s. create_schedule from_crontab body user new_id now db = (Inr s, db\<lparr>sd_schedules := sd_schedules db @ [s]\<rparr>) \<and>
      rs_id s = new_id \<and> rs_org_id s = user_org_id user \<and> rs_cron s = expand_cron (sq_cron body) \<and>
      rs_report_type s \<in> set VALID_REPORT_TYPES \<and> rs_enabled s \<and> from_crontab (rs_cron s) = Inr () \<and>
      rs_next_run_at s = Some (now + 86400000000))"
proof (cases "sq_report_type body \<in> set VALID_REPORT_TYPES")
  case False
  then show ?thesis by (simp add: create_schedule_def exec_simps)
next
  case True
  show ?thesis
  proof (cases "check_cron from_crontab (expand_cron (sq_cron body))")
    case (Inl e)
    then show ?thesis using True by (simp add: create_schedule_def exec_simps Let_def)
  next
    case (Inr u)
    then have cron: "from_crontab (expand_cron (sq_cron body)) = Inr ()"
      by (auto simp: check_cron_def split: sum.splits py_exn.splits)
    show ?thesis
    proof (cases "length (sq_name body) \<le> 200 \<and> length (expand_cron (sq_cron body)) \<le> 100")
      case False
      then have "create_schedule from_crontab body user new_id now db = (Inl (ExternalError ''DataError: value too long''), db)"
        using True Inr by (auto simp: create_schedule_def exec_simps Let_def varchar_def)
      then show ?thesis by blast
    next
      case short: True
      show ?thesis
        by (rule disjI2, rule exI, rule conjI)
          (use True Inr short in \<open>simp add: create_schedule_def exec_simps Let_def varchar_def\<close>, simp add: cron True)
    qed
  qed
qed

lemma map_of_add_job: "map_of (add_job i j js) = (map_of js)(i \<mapsto> j)"
  by (induction js) (auto simp: fun_eq_iff)

lemma jobs_untouched:
  "(\<And>x. x \<in> set xs \<Longrightarrow> key x \<noteq> i) \<Longrightarrow> map_of (fold (\<lambda>x. add_job (key x) (job x)) xs js) i = map_of js i"
proof (induction xs arbitrary: js)
  case (Cons a xs)
  then have "key a \<noteq> i" by simp
  then have "map_of (add_job (key a) (job a) js) i = map_of js i" by (simp add: map_of_add_job)
  then show ?case using Cons by simp
qed simp

lemma job_registered:
  assumes "x \<in> set xs" "key x = i" and "\<And>y. y \<in> set xs \<Longrightarrow> key y = i \<Longrightarrow> job y = j"
  shows "map_of (fold (\<lambda>x. add_job (key x) (job x)) xs js) i = Some j"
proof -
  obtain ys z zs where split: "xs = ys @ z # zs" "key z = i" "\<forall>y \<in> set zs. key y \<noteq> i"
    using split_list_last_prop [of xs "\<lambda>y. key y = i"] assms(1,2) by blast
  have "job z = j" using assms(3) split by simp
  then show ?thesis using split jobs_untouched [of zs key i job] by (simp add: map_of_add_job)
qed

lemma report_job:
  assumes "inj uuid_str" and "r \<in> set reports" "rs_enabled r" "valid_cron (rs_cron r)"
    and "\<And>r'. r' \<in> set reports \<Longrightarrow> rs_id r' = rs_id r \<Longrightarrow> rs_cron r' = rs_cron r"
  shows "map_of (load_schedules uuid_str valid_cron cv reports) (''report-'' @ uuid_str (rs_id r))
     = Some (Cron (rs_cron r), ReportJob (uuid_str (rs_id r)))"
  unfolding load_schedules_def
proof (subst jobs_untouched, simp, rule job_registered [where x = r])
  show "r \<in> set (filter (\<lambda>r. rs_enabled r \<and> valid_cron (rs_cron r)) reports)" using assms(2-4) by simp
  fix y assume y: "y \<in> set (filter (\<lambda>r. rs_enabled r \<and> valid_cron (rs_cron r)) reports)"
    and "''report-'' @ uuid_str (rs_id y) = ''report-'' @ uuid_str (rs_id r)"
  then have "rs_id y = rs_id r" using assms(1) by (simp add: inj_eq)
  moreover from this have "rs_cron y = rs_cron r" using y by (intro assms(5)) simp_all
  ultimately show "(Cron (rs_cron y), ReportJob (uuid_str (rs_id y))) = (Cron (rs_cron r), ReportJob (uuid_str (rs_id r)))" by simp
qed (rule refl)

lemma no_report_job:
  assumes "inj uuid_str" and "\<And>r. r \<in> set reports \<Longrightarrow> rs_id r = i \<Longrightarrow> \<not> rs_enabled r"
  shows "map_of (load_schedules uuid_str valid_cron cv reports) (''report-'' @ uuid_str i) = None"
proof -
  have "map_of (fold (\<lambda>(w, a). add_job (''workload-'' @ uuid_str (wl_id w)) (job w a)) ws []) (''report-'' @ uuid_str i) = None" for job ws
    using jobs_untouched [of ws "\<lambda>(w, a). ''workload-'' @ uuid_str (wl_id w)" "''report-'' @ uuid_str i" "\<lambda>(w, a). job w a" "[]"]
    by (simp add: case_prod_beta')
  then show ?thesis
    unfolding load_schedules_def
    by (subst jobs_untouched, simp, subst jobs_untouched) (use assms in \<open>auto dest: injD\<close>)
qed

definition stored :: "schedule_db \<Rightarrow> report_schedule list" where
  "stored db = map report_schedule.truncate (sd_schedules db)"

lemma stored_fields: "r \<in> set (stored db) \<longleftrightarrow> (\<exists>s \<in> set (sd_schedules db). r = report_schedule.truncate s)"
  by (auto simp: stored_def)

lemma truncate_fields [simp]:
  "rs_id (report_schedule.truncate s) = rs_id s" "rs_cron (report_schedule.truncate s) = rs_cron s"
  "rs_enabled (report_schedule.truncate s) = rs_enabled s"
  by (simp_all add: report_schedule.truncate_def)

lemma find_snoc: "(\<forall>x \<in> set xs. \<not> P x) \<Longrightarrow> P s \<Longrightarrow> List.find P (xs @ [s]) = Some s"
  by (induction xs) auto

subsection \<open>The running scheduler\<close>

text \<open>
  The API process: the tables, and the jobs its scheduler holds in memory. A request writes the
  tables only; \<open>main.py\<close> calls \<open>load_schedules\<close> once, when the process starts. A job that
  fires runs \<open>run_report_schedule\<close>, which writes the two times of its row.
\<close>

record schedule_service =
  ps_db :: schedule_db
  ps_jobs :: jobs

datatype schedule_op =
    CreateSchedule schedule_request current_user uuid micros
  | ToggleSchedule uuid current_user
  | DeleteSchedule uuid current_user

datatype schedule_event = Requested schedule_op | Fired uuid micros "micros option" | Restarted cv_db

fun serve_schedule :: "(string \<Rightarrow> unit result) \<Rightarrow> schedule_op \<Rightarrow> (schedule_db, unit) exec" where
  "serve_schedule from_crontab (CreateSchedule body user new_id now) = no_answer (create_schedule from_crontab body user new_id now)"
| "serve_schedule from_crontab (ToggleSchedule i user) = no_answer (toggle_schedule i user)"
| "serve_schedule from_crontab (DeleteSchedule i user) = delete_schedule i user"

definition job_ran :: "uuid \<Rightarrow> micros \<Rightarrow> micros option \<Rightarrow> schedule_db \<Rightarrow> schedule_db" where
  "job_ran i now next_run db = db\<lparr>sd_schedules := update_where (\<lambda>r. rs_id r = i \<and> rs_enabled r)
     (\<lambda>r. r\<lparr>rs_last_run_at := Some now, rs_next_run_at := next_run\<rparr>) (sd_schedules db)\<rparr>"

definition report_key :: "(uuid \<Rightarrow> string) \<Rightarrow> uuid \<Rightarrow> string" where
  "report_key uuid_str i = ''report-'' @ uuid_str i"

fun service_step ::
    "(uuid \<Rightarrow> string) \<Rightarrow> (string \<Rightarrow> unit result) \<Rightarrow> schedule_event \<Rightarrow> schedule_service \<Rightarrow> schedule_service" where
  "service_step uuid_str from_crontab (Requested op) v = v\<lparr>ps_db := snd (serve_schedule from_crontab op (ps_db v))\<rparr>"
| "service_step uuid_str from_crontab (Fired i now next_run) v =
     (if map_of (ps_jobs v) (report_key uuid_str i) = None then v else v\<lparr>ps_db := job_ran i now next_run (ps_db v)\<rparr>)"
| "service_step uuid_str from_crontab (Restarted cv) v =
     v\<lparr>ps_jobs := load_schedules uuid_str (\<lambda>c. from_crontab c = Inr ()) cv (stored (ps_db v))\<rparr>"

definition service_run ::
    "(uuid \<Rightarrow> string) \<Rightarrow> (string \<Rightarrow> unit result) \<Rightarrow> schedule_event list \<Rightarrow> schedule_service \<Rightarrow> schedule_service" where
  "service_run uuid_str from_crontab evs v = fold (service_step uuid_str from_crontab) evs v"

definition no_restart :: "schedule_event list \<Rightarrow> bool" where
  "no_restart evs \<longleftrightarrow> list_all (\<lambda>e. case e of Restarted _ \<Rightarrow> False | _ \<Rightarrow> True) evs"

text \<open>The firing of a job is what \<open>run_report_schedule\<close> does to the rows.\<close>

lemma job_ran_is_run:
  assumes "uuid_of_str t = Some i" and "distinct (map rs_id (sd_schedules db))"
    and "List.find (\<lambda>r. rs_id r = i) (stored db) = Some schedule"
    and "next_run = (case next_fire (rs_cron schedule) now of Inr n \<Rightarrow> n | Inl _ \<Rightarrow> Some (now + 86400000000))"
  shows "rp_schedules (snd (run_report_schedule out next_fire iso_date t now \<lparr>rp_schedules = stored db, rp_sent = tr\<rparr>))
     = stored (job_ran i now next_run db)"
proof -
  obtain row where row: "row \<in> set (sd_schedules db)" "schedule = report_schedule.truncate row" "rs_id row = i"
  proof -
    have "schedule \<in> set (stored db)" "rs_id schedule = i" using find_Some_iff' [OF assms(3)] by blast+
    then show ?thesis using that by (fastforce simp: stored_fields)
  qed
  have same: "r = row" if "r \<in> set (sd_schedules db)" "rs_id r = i" for r
  proof (rule inj_onD [of rs_id "set (sd_schedules db)"])
    show "inj_on rs_id (set (sd_schedules db))" using assms(2) by (simp add: distinct_map)
  qed (simp_all add: that row)
  have pass: "\<exists>tr'. best_effort (on_outbox m) \<lparr>rp_schedules = xs, rp_sent = tr\<rparr> = (Inr (), \<lparr>rp_schedules = xs, rp_sent = tr'\<rparr>)" for m :: "(sent list, unit) exec" and xs tr
    by (cases "m tr"; cases "fst (m tr)") (auto simp: best_effort_def on_outbox_def exec_simps)
  show ?thesis
  proof (cases "rs_enabled row")
    case False
    then have "update_where (\<lambda>r. rs_id r = i \<and> rs_enabled r) f (sd_schedules db) = sd_schedules db" for f
      by (rule_tac update_where_other_rows) (use same in blast)
    then show ?thesis
      using False by (simp add: run_report_schedule_def uuid_arg_def exec_simps assms(1,3) row(2) job_ran_def)
  next
    case True
    obtain tr' where "best_effort (on_outbox (send_report_delivery out (rs_recipients schedule) (rs_report_type schedule)
        (iso_date (now div 86400000000 - rs_period_days schedule) @ '' to '' @ iso_date (now div 86400000000))))
        \<lparr>rp_schedules = stored db, rp_sent = tr\<rparr> = (Inr (), \<lparr>rp_schedules = stored db, rp_sent = tr'\<rparr>)"
      using pass by blast
    then have "rp_schedules (snd (run_report_schedule out next_fire iso_date t now \<lparr>rp_schedules = stored db, rp_sent = tr\<rparr>))
       = update_where (\<lambda>r. rs_id r = i) (\<lambda>r. r\<lparr>rs_last_run_at := Some now, rs_next_run_at := next_run\<rparr>) (stored db)"
      using True row by (simp add: run_report_schedule_def uuid_arg_def exec_simps assms(1,3,4) Let_def)
    also have "\<dots> = stored (job_ran i now next_run db)"
      using True same by (auto simp: stored_def job_ran_def update_where_def report_schedule.truncate_def)
    finally show ?thesis .
  qed
qed

text \<open>Between two starts of the process the registered jobs stay what they are.\<close>

lemma jobs_between_starts:
  "no_restart evs \<Longrightarrow> ps_jobs (service_run uuid_str from_crontab evs v) = ps_jobs v"
proof (induction evs arbitrary: v)
  case (Cons e evs)
  then show ?case by (cases e) (simp_all add: no_restart_def service_run_def)
qed (simp add: service_run_def)

lemma registered_at_start:
  assumes "inj uuid_str" and "r \<in> set (sd_schedules db)" "rs_enabled r" "from_crontab (rs_cron r) = Inr ()"
    and "\<And>r'. r' \<in> set (sd_schedules db) \<Longrightarrow> rs_id r' = rs_id r \<Longrightarrow> rs_cron r' = rs_cron r"
  shows "map_of (load_schedules uuid_str (\<lambda>c. from_crontab c = Inr ()) cv (stored db)) (report_key uuid_str (rs_id r))
     = Some (Cron (rs_cron r), ReportJob (uuid_str (rs_id r)))"
proof -
  have "map_of (load_schedules uuid_str (\<lambda>c. from_crontab c = Inr ()) cv (stored db))
        (''report-'' @ uuid_str (rs_id (report_schedule.truncate r)))
      = Some (Cron (rs_cron (report_schedule.truncate r)), ReportJob (uuid_str (rs_id (report_schedule.truncate r))))"
  proof (rule report_job [OF assms(1)])
    show "report_schedule.truncate r \<in> set (stored db)" using assms(2) by (auto simp: stored_fields)
    fix r' assume "r' \<in> set (stored db)" "rs_id r' = rs_id (report_schedule.truncate r)"
    then show "rs_cron r' = rs_cron (report_schedule.truncate r)" using assms(5) by (auto simp: stored_fields)
  qed (simp_all add: assms(3,4))
  then show ?thesis by (simp add: report_key_def)
qed

lemma not_registered_at_start:
  assumes "inj uuid_str" and "\<And>r. r \<in> set (sd_schedules db) \<Longrightarrow> rs_id r = i \<Longrightarrow> \<not> rs_enabled r"
  shows "map_of (load_schedules uuid_str valid_cron cv (stored db)) (report_key uuid_str i) = None"
  unfolding report_key_def by (rule no_report_job [OF assms(1)]) (use assms(2) in \<open>auto simp: stored_fields\<close>)

text \<open>What the routes make of a schedule just created.\<close>

lemma toggle_created:
  assumes "\<forall>r \<in> set rows. rs_id r \<noteq> rs_id s" and "rs_org_id s = user_org_id user" and "sd_schedules db = rows @ [s]"
  shows "sd_schedules (snd (serve_schedule from_crontab (ToggleSchedule (rs_id s) user) db))
     = rows @ [s\<lparr>rs_enabled := \<not> rs_enabled s\<rparr>]"
proof -
  have "List.find (\<lambda>x. rs_id x = rs_id s \<and> rs_org_id x = user_org_id user) (sd_schedules db) = Some s"
    unfolding assms(3) by (rule find_snoc) (use assms(1,2) in auto)
  moreover have "update_where (\<lambda>r. rs_id r = rs_id s) f (rows @ [s]) = rows @ [f s]" for f
    using assms(1) by (simp add: update_where_def map_idI)
  ultimately show ?thesis
    by (simp add: no_answer_def respond_def toggle_schedule_def owned_schedule_def exec_simps assms(3))
qed

lemma delete_created:
  assumes "\<forall>r \<in> set rows. rs_id r \<noteq> rs_id s" and "rs_org_id s = user_org_id user" and "sd_schedules db = rows @ [s]"
  shows "sd_schedules (snd (serve_schedule from_crontab (DeleteSchedule (rs_id s) user) db)) = rows"
proof -
  have "List.find (\<lambda>x. rs_id x = rs_id s \<and> rs_org_id x = user_org_id user) (sd_schedules db) = Some s"
    unfolding assms(3) by (rule find_snoc) (use assms(1,2) in auto)
  moreover have "filter (\<lambda>r. rs_id r \<noteq> rs_id s) rows = rows" using assms(1) by (simp add: filter_id_conv)
  ultimately show ?thesis by (simp add: delete_schedule_def owned_schedule_def exec_simps assms(3))
qed

subsection \<open>Properties\<close>

text \<open>C37: Report schedules take effect only when the API process restarts. A schedule the route
  accepts is not registered by the running scheduler, whatever requests and jobs follow, and the next
  start registers it with the expanded cron expression. Switched off or deleted after that, it stays
  registered whatever follows, and the next start no longer registers it.\<close>

theorem schedules_registered_at_restart:
  assumes "create_schedule from_crontab body user new_id now (ps_db v) = (Inr s, db')"
    and "inj uuid_str" and "\<forall>r \<in> set (sd_schedules (ps_db v)). rs_id r \<noteq> new_id"
    and "map_of (ps_jobs v) (report_key uuid_str new_id) = None"
    and "no_restart evs" and "event \<in> {ToggleSchedule new_id user, DeleteSchedule new_id user}"
  shows "let registered = (\<lambda>v. map_of (ps_jobs v) (report_key uuid_str new_id));
       run = service_run uuid_str from_crontab;
       job = (Cron (expand_cron (sq_cron body)), ReportJob (uuid_str new_id))
     in registered (run (Requested (CreateSchedule body user new_id now) # evs) v) = None \<and>
        registered (run [Requested (CreateSchedule body user new_id now), Restarted cv] v) = Some job \<and>
        registered (run ([Requested (CreateSchedule body user new_id now), Restarted cv, Requested event] @ evs) v) = Some job \<and>
        registered (run [Requested (CreateSchedule body user new_id now), Restarted cv, Requested event, Restarted cv'] v) = None"
proof -
  from create_cases [of from_crontab body user new_id now "ps_db v"] assms(1)
  have db': "db' = (ps_db v)\<lparr>sd_schedules := sd_schedules (ps_db v) @ [s]\<rparr>" and s: "rs_id s = new_id" "rs_org_id s = user_org_id user"
      "rs_cron s = expand_cron (sq_cron body)" "rs_enabled s" "from_crontab (rs_cron s) = Inr ()" by auto
  have created: "snd (no_answer (create_schedule from_crontab body user new_id now) (ps_db v)) = db'"
    using assms(1) by (simp add: no_answer_def respond_def seq_def ret_def)
  have fresh: "\<forall>r \<in> set (sd_schedules (ps_db v)). rs_id r \<noteq> rs_id s" using assms(3) s(1) by simp
  have rows: "sd_schedules db' = sd_schedules (ps_db v) @ [s]" by (simp add: db')
  define db'' where "db'' = snd (serve_schedule from_crontab event db')"
  have "sd_schedules db'' = sd_schedules (ps_db v) @ [s\<lparr>rs_enabled := \<not> rs_enabled s\<rparr>] \<or> sd_schedules db'' = sd_schedules (ps_db v)"
    using assms(6) toggle_created [OF fresh s(2) rows, of from_crontab] delete_created [OF fresh s(2) rows, of from_crontab]
    unfolding db''_def s(1) by blast
  then have off: "\<not> rs_enabled r" if "r \<in> set (sd_schedules db'')" "rs_id r = new_id" for r
    using that assms(3) s(4) by (elim disjE) auto
  have on: "map_of (load_schedules uuid_str (\<lambda>c. from_crontab c = Inr ()) cv (stored db')) (report_key uuid_str new_id)
      = Some (Cron (expand_cron (sq_cron body)), ReportJob (uuid_str new_id))"
    using registered_at_start [OF assms(2), of s db' from_crontab cv] s fresh rows by auto
  have gone: "map_of (load_schedules uuid_str (\<lambda>c. from_crontab c = Inr ()) cv' (stored db'')) (report_key uuid_str new_id) = None"
    by (rule not_registered_at_start [OF assms(2)]) (rule off)
  have step: "service_run uuid_str from_crontab (e # es) w = service_run uuid_str from_crontab es (service_step uuid_str from_crontab e w)" for e es w
    by (simp add: service_run_def)
  have end_of: "service_run uuid_str from_crontab [] w = w" for w by (simp add: service_run_def)
  show ?thesis
    unfolding Let_def append.simps step end_of jobs_between_starts [OF assms(5)]
    using on gone assms(4) by (simp add: created db''_def [symmetric])
qed

text \<open>C38: The scheduled report of the appliance is never delivered: whatever rows the API holds and whatever
  status it answers with, a schedule in the form the API returns has no organisation, so the first
  activity raises on each attempt, the workflow fails, and the delivering activity is never run.\<close>

theorem report_workflow_never_delivers:
  assumes "\<forall>url. case sa_get A url of Inl _ \<Rightarrow> True | Inr resp \<Rightarrow>
      r_status resp < 200 \<or> 300 \<le> r_status resp \<or> (\<exists>s. r_body resp = Inr (JObj (schedule_response isoformat uuid_str s)))"
  shows "\<exists>e. report_schedule_workflow A generate_and_deliver schedule_id now events = (Inl e, events)"
proof -
  have "\<exists>e. fetch_schedule_config A schedule_id now = Inl e"
  proof (cases "sa_get A (''/v1/report-schedules/'' @ schedule_id)")
    case (Inl e)
    then show ?thesis by (simp add: fetch_schedule_config_def)
  next
    case (Inr resp)
    then consider "r_status resp < 200 \<or> 300 \<le> r_status resp" | s where "r_body resp = Inr (JObj (schedule_response isoformat uuid_str s))"
      using spec [OF assms, of "''/v1/report-schedules/'' @ schedule_id"] by auto
    then show ?thesis
      by cases (use Inr in \<open>auto simp: fetch_schedule_config_def raise_for_status_def schedule_response_def dsub_def dget_or_def
        timedelta_days_def as_dict_def\<close>)
  qed
  then obtain e where e: "fetch_schedule_config A schedule_id now = Inl e" by blast
  have "attempts n (lift_result (Inl e) :: (delivery_event list, dict) exec) events = (Inl e, events)" for n and e :: py_exn and events :: "delivery_event list"
    by (induction n "lift_result (Inl e) :: (delivery_event list, dict) exec" rule: attempts.induct) (simp_all add: exec_simps)
  then show ?thesis by (simp add: report_schedule_workflow_def e seq_def)
qed

subsection \<open>Witnesses\<close>

definition demo_schedules :: schedule_db where
  "demo_schedules = portal_db.extend demo_portal (schedule_db.fields [])"

definition demo_schedule_request :: schedule_request where
  "demo_schedule_request = \<lparr>sq_name = ''weekly'', sq_report_type = ''soc2'', sq_cron = ''weekly'', sq_period_days = 7, sq_recipients = []\<rparr>"

definition unary :: "uuid \<Rightarrow> string" where
  "unary n = replicate n (CHR ''i'')"

lemma unary_inj: "inj unary"
  by (rule injI) (metis unary_def length_replicate)

lemma demo_created:
  "\<exists>s db'. create_schedule (\<lambda>_. Inr ()) demo_schedule_request (portal_user 7 ''admin'') 31 0 demo_schedules = (Inr s, db')"
  by (simp add: create_schedule_def demo_schedule_request_def VALID_REPORT_TYPES_def exec_simps check_cron_def varchar_def
      expand_cron_def VALID_CRONS_def Let_def)

definition demo_service :: schedule_service where
  "demo_service = \<lparr>ps_db = demo_schedules, ps_jobs = []\<rparr>"

theorem schedules_registered_at_restart_witness:
  "map_of (ps_jobs (service_run unary (\<lambda>_. Inr ())
       [Requested (CreateSchedule demo_schedule_request (portal_user 7 ''admin'') 31 0),
        Requested (CreateSchedule demo_schedule_request (portal_user 7 ''admin'') 32 0)] demo_service)) (report_key unary 31) = None \<and>
   map_of (ps_jobs (service_run unary (\<lambda>_. Inr ())
       [Requested (CreateSchedule demo_schedule_request (portal_user 7 ''admin'') 31 0), Restarted demo_fleet] demo_service))
     (report_key unary 31) = Some (Cron ''0 8 * * 1'', ReportJob (unary 31))"
proof -
  obtain s db' where run: "create_schedule (\<lambda>_. Inr ()) demo_schedule_request (portal_user 7 ''admin'') 31 0 (ps_db demo_service) = (Inr s, db')"
    using demo_created by (auto simp: demo_service_def)
  have fresh: "\<forall>r \<in> set (sd_schedules (ps_db demo_service)). rs_id r \<noteq> 31"
    by (simp add: demo_service_def demo_schedules_def portal_db.defs schedule_db.defs)
  have none: "map_of (ps_jobs demo_service) (report_key unary 31) = None" by (simp add: demo_service_def)
  have cron: "expand_cron (sq_cron demo_schedule_request) = ''0 8 * * 1''" by code_simp
  show ?thesis
    using schedules_registered_at_restart [OF run unary_inj fresh none,
        of "[Requested (CreateSchedule demo_schedule_request (portal_user 7 ''admin'') 32 0)]"
          "ToggleSchedule 31 (portal_user 7 ''admin'')" demo_fleet demo_fleet]
    unfolding cron Let_def by (simp add: no_restart_def)
qed

definition demo_schedule_api :: schedule_api where
  "demo_schedule_api = \<lparr>sa_get = (\<lambda>_. Inr \<lparr>r_status = 200, r_body = Inr (JObj (schedule_response (\<lambda>_. []) unary
      \<lparr>rs_id = 31, rs_org_id = 7, rs_name = [], rs_report_type = ''soc2'', rs_cron = [], rs_period_days = 7, rs_recipients = [],
       rs_enabled = True, rs_last_run_at = None, rs_next_run_at = None, rs_created_at = 0, rs_created_by = None\<rparr>))\<rparr>),
     sa_timedelta = (\<lambda>_. Inr 0), sa_strftime = (\<lambda>_. [])\<rparr>"

theorem report_workflow_never_delivers_witness:
  "\<exists>e. report_schedule_workflow demo_schedule_api (\<lambda>_. ret []) ''31'' 0 [] = (Inl e, [])"
  by (rule report_workflow_never_delivers [where isoformat = "\<lambda>_. []" and uuid_str = unary]) (auto simp: demo_schedule_api_def)

end
