(* ===== verification/Sso.thy ===== *)
theory Sso
  imports Api Json
begin

text \<open>
  Single sign-on: the OpenID Connect helpers of \<open>services/oidc.py\<close> and the configuration and login
  routes of \<open>routers/sso.py\<close>. Strings are the bytes of their UTF-8 encoding. PyJWT is the record
  \<open>oidc_library\<close>, the identity provider's endpoints the record \<open>idp\<close>; fresh state and nonce
  are arguments.
\<close>

subsection \<open>Query strings\<close>

text \<open>\<open>urllib.parse.quote_plus\<close>, byte by byte, and \<open>urlencode\<close>.\<close>

definition is_unreserved :: "char \<Rightarrow> bool" where
  "is_unreserved c \<longleftrightarrow> (let n = (of_char c :: nat) in
     48 \<le> n \<and> n \<le> 57 \<or> 65 \<le> n \<and> n \<le> 90 \<or> 97 \<le> n \<and> n \<le> 122) \<or> c \<in> {CHR ''_'', CHR ''.'', CHR ''-'', CHR ''~''}"

definition upper_hex :: "nat \<Rightarrow> char" where
  "upper_hex d = (if d < 10 then char_of (48 + d) else char_of (55 + d))"

definition quote_char :: "char \<Rightarrow> string" where
  "quote_char c =
     (if is_unreserved c then [c] else if c = CHR '' '' then [CHR ''+'']
      else let n = (of_char c :: nat) in [CHR ''%'', upper_hex (n div 16), upper_hex (n mod 16)])"

definition quote_plus :: "string \<Rightarrow> string" where
  "quote_plus s = concat (map quote_char s)"

definition urlencode :: "(string \<times> string) list \<Rightarrow> string" where
  "urlencode params = join ''&'' (map (\<lambda>(k, v). quote_plus k @ ''='' @ quote_plus v) params)"

subsection \<open>OIDC helpers\<close>

datatype oidc_failure = OidcError string | Escapes py_exn

definition DEFAULT_SCOPES :: "string list" where
  "DEFAULT_SCOPES = [''openid'', ''email'', ''profile'']"

record authorization_request =
  ar_url :: string
  ar_state :: string
  ar_nonce :: string

text \<open>\<open>"?" in endpoint\<close>, for whatever the discovery document holds there\<close>

definition has_question :: "json \<Rightarrow> bool result" where
  "has_question v = (case v of
     JStr s \<Rightarrow> Inr (CHR ''?'' \<in> set s)
   | JArr xs \<Rightarrow> Inr (JStr ''?'' \<in> set xs)
   | JObj d \<Rightarrow> Inr (''?'' \<in> fst ` set d)
   | _ \<Rightarrow> Inl (TypeError (''argument of type '' @ repr_str (type_name v) @ '' is not iterable'')))"

text \<open>\<open>state\<close> and \<open>nonce\<close> are the fresh values drawn when the caller supplies none, as the routes do.\<close>

definition build_authorization_url ::
    "json \<Rightarrow> string \<Rightarrow> string \<Rightarrow> string list \<Rightarrow> string \<Rightarrow> string \<Rightarrow> oidc_failure + authorization_request" where
  "build_authorization_url authorization_endpoint client_id redirect_uri scopes state nonce =
     (if \<not> truthy authorization_endpoint then Inl (OidcError ''authorization_endpoint is required'')
      else if client_id = [] then Inl (OidcError ''client_id is required'')
      else if redirect_uri = [] then Inl (OidcError ''redirect_uri is required'')
      else
        let scope_list = (if scopes = [] then DEFAULT_SCOPES else scopes);
            scope_list' = (if ''openid'' \<in> set scope_list then scope_list else ''openid'' # scope_list);
            params = [(''response_type'', ''code''), (''client_id'', client_id), (''redirect_uri'', redirect_uri),
                      (''scope'', join '' '' scope_list'), (''state'', state), (''nonce'', nonce)]
        in case has_question authorization_endpoint of
             Inl e \<Rightarrow> Inl (Escapes e)
           | Inr q \<Rightarrow>
               let sep = (if q then ''&'' else ''?'')
               in Inr \<lparr>ar_url = py_str authorization_endpoint @ sep @ urlencode params, ar_state = state, ar_nonce = nonce\<rparr>)"

record 'k jwk =
  jk_id :: json
  jk_key :: 'k

datatype token_error = InvalidToken string | OtherToken py_exn

record 'k oidc_library =
  jwk_set :: "json \<Rightarrow> 'k jwk list result"
  unverified_header :: "json \<Rightarrow> token_error + dict"
  decode_rs256 :: "json \<Rightarrow> 'k \<Rightarrow> string \<Rightarrow> string \<Rightarrow> int \<Rightarrow> token_error + dict"

text \<open>
  \<open>decode_rs256 token key audience issuer leeway\<close> is \<open>jwt.decode\<close> with the algorithm and the
  required claims the code passes.
\<close>

definition validate_id_token ::
    "'k oidc_library \<Rightarrow> json \<Rightarrow> json \<Rightarrow> string \<Rightarrow> string \<Rightarrow> string option \<Rightarrow> int \<Rightarrow> oidc_failure + dict" where
  "validate_id_token lib id_token jwks issuer audience nonce leeway =
     (case jwk_set lib jwks of
        Inl exc \<Rightarrow> Inl (OidcError (''invalid JWKS: '' @ exn_text exc))
      | Inr keys \<Rightarrow>
          (case unverified_header lib id_token of
             Inl (InvalidToken m) \<Rightarrow> Inl (OidcError (''malformed token header: '' @ m))
           | Inl (OtherToken e) \<Rightarrow> Inl (Escapes e)
           | Inr header \<Rightarrow>
               let kid = dget header ''kid'' in
               (case List.find (\<lambda>key. kid = JNull \<or> jk_id key = kid) keys of
                  None \<Rightarrow> Inl (OidcError ''no matching signing key for token kid'')
                | Some key \<Rightarrow>
                    (case decode_rs256 lib id_token (jk_key key) audience issuer leeway of
                       Inl (InvalidToken m) \<Rightarrow> Inl (OidcError (''id_token validation failed: '' @ m))
                     | Inl (OtherToken e) \<Rightarrow> Inl (Escapes e)
                     | Inr claims \<Rightarrow>
                         (case nonce of
                            None \<Rightarrow> Inr claims
                          | Some n \<Rightarrow>
                              if dget claims ''nonce'' \<noteq> JStr n then Inl (OidcError ''nonce mismatch'')
                              else Inr claims)))))"

record oidc_identity =
  oi_subject :: string
  oi_email :: string
  oi_role :: string

text \<open>\<open>claims.get(name, default)\<close> where the name comes from a JSON object.\<close>

definition claim_get :: "dict \<Rightarrow> json \<Rightarrow> json \<Rightarrow> oidc_failure + json" where
  "claim_get claims name dflt =
     (case name of
        JStr k \<Rightarrow> Inr (dget_or claims k dflt)
      | JArr _ \<Rightarrow> Inl (Escapes (TypeError ''unhashable type''))
      | JObj _ \<Rightarrow> Inl (Escapes (TypeError ''unhashable type''))
      | _ \<Rightarrow> Inr dflt)"

definition map_claims_to_identity :: "dict \<Rightarrow> dict \<Rightarrow> string \<Rightarrow> oidc_failure + oidc_identity" where
  "map_claims_to_identity claims attribute_mapping default_role =
     (let email_claim = dget_or attribute_mapping ''email'' (JStr ''email'');
          role_claim = dget_or attribute_mapping ''role'' (JStr ''role'');
          subject = strip (py_str (dget_or claims ''sub'' (JStr [])))
      in if subject = [] then Inl (OidcError ''id_token missing sub claim'')
         else case claim_get claims email_claim (JStr []) of
           Inl e \<Rightarrow> Inl e
         | Inr email_value \<Rightarrow>
             let email = strip (py_str email_value) in
             if email = [] then Inl (OidcError (''id_token missing email claim ('' @ py_repr email_claim @ '')''))
             else case claim_get claims role_claim JNull of
               Inl e \<Rightarrow> Inl e
             | Inr role_value \<Rightarrow>
                 Inr \<lparr>oi_subject = subject, oi_email = email,
                      oi_role = (if truthy role_value then lower (strip (py_str role_value)) else default_role)\<rparr>)"

subsection \<open>The configuration routes\<close>

record sso_config =
  so_org_id :: uuid
  so_protocol :: string
  so_provider :: string
  so_entity_id :: "string option"
  so_sso_url :: "string option"
  so_certificate :: "string option"
  so_oidc_issuer :: "string option"
  so_oidc_client_id :: "string option"
  so_oidc_client_secret :: "string option"
  so_oidc_redirect_uri :: "string option"
  so_oidc_scopes :: "string list"
  so_attribute_mapping :: dict
  so_enabled :: bool

type_synonym sso_table = "sso_config list"

record sso_request =
  sq_protocol :: string
  sq_provider :: string
  sq_attribute_mapping :: dict
  sq_entity_id :: "string option"
  sq_sso_url :: "string option"
  sq_certificate :: "string option"
  sq_oidc_issuer :: "string option"
  sq_oidc_client_id :: "string option"
  sq_oidc_client_secret :: "string option"
  sq_oidc_redirect_uri :: "string option"
  sq_oidc_scopes :: "string list"

definition VALID_PROVIDERS :: "string list" where
  "VALID_PROVIDERS = [''azure_ad'', ''generic_saml'', ''google'', ''oidc'', ''okta'', ''ping'']"

definition VALID_PROTOCOLS :: "string list" where
  "VALID_PROTOCOLS = [''oidc'', ''saml'']"

definition missing_fields :: "(string \<times> string option) list \<Rightarrow> string list" where
  "missing_fields named = map fst (filter (\<lambda>(_, v). str_or v [] = []) named)"

definition validate_request :: "sso_request \<Rightarrow> unit result" where
  "validate_request body =
     (if sq_protocol body \<notin> set VALID_PROTOCOLS
      then Inl (HTTPException 400 (''protocol must be one of: '' @ join '', '' VALID_PROTOCOLS))
      else if sq_provider body \<notin> set VALID_PROVIDERS
      then Inl (HTTPException 400 (''provider must be one of: '' @ join '', '' VALID_PROVIDERS))
      else if sq_protocol body = ''saml''
      then let missing = missing_fields [(''entity_id'', sq_entity_id body), (''sso_url'', sq_sso_url body),
                 (''certificate'', sq_certificate body)]
           in if missing \<noteq> [] then Inl (HTTPException 400 (''SAML config requires: '' @ join '', '' missing)) else Inr ()
      else let missing = missing_fields [(''oidc_issuer'', sq_oidc_issuer body), (''oidc_client_id'', sq_oidc_client_id body),
                 (''oidc_redirect_uri'', sq_oidc_redirect_uri body)]
           in if missing \<noteq> [] then Inl (HTTPException 400 (''OIDC config requires: '' @ join '', '' missing)) else Inr ())"

text \<open>What a read returns: the client secret is not among it, only whether one is set.\<close>

record sso_public =
  sp_protocol :: string
  sp_provider :: string
  sp_enabled :: bool
  sp_attribute_mapping :: dict
  sp_entity_id :: "string option"
  sp_sso_url :: "string option"
  sp_oidc_issuer :: "string option"
  sp_oidc_client_id :: "string option"
  sp_oidc_redirect_uri :: "string option"
  sp_oidc_scopes :: "string list"
  sp_oidc_client_secret_set :: bool

definition serialize :: "sso_config \<Rightarrow> sso_public" where
  "serialize c =
     \<lparr>sp_protocol = so_protocol c, sp_provider = so_provider c, sp_enabled = so_enabled c,
      sp_attribute_mapping = so_attribute_mapping c, sp_entity_id = so_entity_id c, sp_sso_url = so_sso_url c,
      sp_oidc_issuer = so_oidc_issuer c, sp_oidc_client_id = so_oidc_client_id c,
      sp_oidc_redirect_uri = so_oidc_redirect_uri c, sp_oidc_scopes = so_oidc_scopes c,
      sp_oidc_client_secret_set = (str_or (so_oidc_client_secret c) [] \<noteq> [])\<rparr>"

definition own_config :: "uuid \<Rightarrow> sso_table \<Rightarrow> sso_config option" where
  "own_config org_id t = List.find (\<lambda>c. so_org_id c = org_id) t"

definition get_sso_config :: "current_user \<Rightarrow> (sso_table, sso_public option) exec" where
  "get_sso_config user =
     seq (lift_result (require_permission (permissions user) ''sso:manage'')) (\<lambda>_.
     gets (\<lambda>t. map_option serialize (own_config (user_org_id user) t)))"

definition set_config :: "sso_request \<Rightarrow> sso_config \<Rightarrow> sso_config" where
  "set_config body c =
     c\<lparr>so_protocol := sq_protocol body, so_provider := sq_provider body,
       so_attribute_mapping := sq_attribute_mapping body, so_entity_id := sq_entity_id body,
       so_sso_url := sq_sso_url body, so_certificate := sq_certificate body,
       so_oidc_issuer := sq_oidc_issuer body, so_oidc_client_id := sq_oidc_client_id body,
       so_oidc_client_secret :=
         (if str_or (sq_oidc_client_secret body) [] \<noteq> [] then sq_oidc_client_secret body else so_oidc_client_secret c),
       so_oidc_redirect_uri := sq_oidc_redirect_uri body,
       so_oidc_scopes := (if sq_oidc_scopes body \<noteq> [] then sq_oidc_scopes body else DEFAULT_SCOPES)\<rparr>"

definition new_config :: "uuid \<Rightarrow> sso_config" where
  "new_config org_id =
     \<lparr>so_org_id = org_id, so_protocol = ''saml'', so_provider = [], so_entity_id = None, so_sso_url = None,
      so_certificate = None, so_oidc_issuer = None, so_oidc_client_id = None, so_oidc_client_secret = None,
      so_oidc_redirect_uri = None, so_oidc_scopes = [], so_attribute_mapping = [], so_enabled = True\<rparr>"

text \<open>The row is the organisation's own: \<open>org_id\<close> is unique in the table.\<close>

definition put_config :: "sso_config \<Rightarrow> (sso_config \<Rightarrow> sso_config) \<Rightarrow> (sso_table, sso_public) exec" where
  "put_config c f =
     seq (update (update_where (\<lambda>x. so_org_id x = so_org_id c) f)) (\<lambda>_. ret (serialize (f c)))"

definition upsert_sso_config :: "sso_request \<Rightarrow> current_user \<Rightarrow> (sso_table, sso_public) exec" where
  "upsert_sso_config body user =
     seq (lift_result (require_permission (permissions user) ''sso:manage'')) (\<lambda>_.
     seq (lift_result (validate_request body)) (\<lambda>_.
     seq (gets (own_config (user_org_id user))) (\<lambda>found.
     case found of
       None \<Rightarrow>
         (let c = set_config body (new_config (user_org_id user))
          in seq (update (\<lambda>t. t @ [c])) (\<lambda>_. ret (serialize c)))
     | Some c \<Rightarrow> put_config c (set_config body))))"

definition toggle_sso :: "current_user \<Rightarrow> (sso_table, bool) exec" where
  "toggle_sso user =
     seq (lift_result (require_permission (permissions user) ''sso:manage'')) (\<lambda>_.
     seq (gets (own_config (user_org_id user))) (\<lambda>found.
     case found of
       None \<Rightarrow> raise (HTTPException 404 ''SSO not configured'')
     | Some c \<Rightarrow> seq (put_config c (\<lambda>c. c\<lparr>so_enabled := \<not> so_enabled c\<rparr>)) (\<lambda>p. ret (sp_enabled p))))"

subsection \<open>The login routes\<close>

text \<open>The answers of the identity provider: discovery document, token endpoint, key set.\<close>

record idp =
  fetch_json :: "string \<Rightarrow> dict result"
  post_form :: "json \<Rightarrow> (string \<times> string) list \<Rightarrow> json result"
  get_json :: "json \<Rightarrow> json result"

definition fetch_discovery :: "idp \<Rightarrow> string \<Rightarrow> dict result" where
  "fetch_discovery net issuer = fetch_json net (rstrip_slash issuer @ ''/.well-known/openid-configuration'')"

definition oidc_config :: "uuid \<Rightarrow> sso_table \<Rightarrow> sso_config result" where
  "oidc_config org_id t =
     (case own_config org_id t of
        Some c \<Rightarrow>
          if so_protocol c \<noteq> ''oidc'' \<or> \<not> so_enabled c
          then Inl (HTTPException 404 ''OIDC SSO not configured for this org'') else Inr c
      | None \<Rightarrow> Inl (HTTPException 404 ''OIDC SSO not configured for this org''))"

definition oidc_login :: "idp \<Rightarrow> string \<Rightarrow> string \<Rightarrow> uuid \<Rightarrow> sso_table \<Rightarrow> authorization_request result" where
  "oidc_login net state nonce org_id t =
     and_then (oidc_config org_id t) (\<lambda>config.
     and_then (fetch_discovery net (str_or (so_oidc_issuer config) [])) (\<lambda>discovery.
     and_then (dsub discovery ''authorization_endpoint'') (\<lambda>endpoint.
     case build_authorization_url endpoint (str_or (so_oidc_client_id config) [])
            (str_or (so_oidc_redirect_uri config) []) (so_oidc_scopes config) state nonce of
       Inl (OidcError m) \<Rightarrow> Inl (ExternalError (''OidcError: '' @ m))
     | Inl (Escapes e) \<Rightarrow> Inl e
     | Inr r \<Rightarrow> Inr r)))"

definition unauthorized_on_oidc :: "(oidc_failure + 'a) \<Rightarrow> 'a result" where
  "unauthorized_on_oidc r =
     (case r of
        Inl (OidcError m) \<Rightarrow> Inl (HTTPException 401 m) | Inl (Escapes e) \<Rightarrow> Inl e | Inr x \<Rightarrow> Inr x)"

definition oidc_callback ::
    "'k oidc_library \<Rightarrow> idp \<Rightarrow> uuid \<Rightarrow> string \<Rightarrow> string \<Rightarrow> sso_table \<Rightarrow> oidc_identity result" where
  "oidc_callback lib net org_id code nonce t =
     and_then (oidc_config org_id t) (\<lambda>config.
     let issuer = str_or (so_oidc_issuer config) [] in
     and_then (fetch_discovery net issuer) (\<lambda>discovery.
     and_then (dsub discovery ''token_endpoint'') (\<lambda>token_endpoint.
     and_then (post_form net token_endpoint
        [(''grant_type'', ''authorization_code''), (''code'', code),
         (''redirect_uri'', str_or (so_oidc_redirect_uri config) []),
         (''client_id'', str_or (so_oidc_client_id config) []),
         (''client_secret'', str_or (so_oidc_client_secret config) [])]) (\<lambda>token_body.
     and_then (dsub discovery ''jwks_uri'') (\<lambda>jwks_uri.
     and_then (get_json net jwks_uri) (\<lambda>jwks.
     and_then (as_dict token_body) (\<lambda>tokens.
     let id_token = dget tokens ''id_token'' in
     if \<not> truthy id_token then Inl (HTTPException 400 ''token response missing id_token'')
     else
       and_then (unauthorized_on_oidc (validate_id_token lib id_token jwks issuer
                   (str_or (so_oidc_client_id config) []) (Some nonce) 0)) (\<lambda>claims.
       unauthorized_on_oidc (map_claims_to_identity claims (so_attribute_mapping config) ''viewer'')))))))))"


subsection \<open>Decoding a query string\<close>

text \<open>
  How the other side reads the query: \<open>urllib.parse.parse_qsl\<close>, keeping blank values. Pieces are
  cut at \<open>&\<close>, a name ends at the first \<open>=\<close>.
\<close>

definition hex_value :: "char \<Rightarrow> nat option" where
  "hex_value c = (let n = (of_char c :: nat) in
     if 48 \<le> n \<and> n \<le> 57 then Some (n - 48) else if 65 \<le> n \<and> n \<le> 70 then Some (n - 55)
     else if 97 \<le> n \<and> n \<le> 102 then Some (n - 87) else None)"

fun unquote_plus :: "string \<Rightarrow> string" where
  "unquote_plus (c # a # b # s) =
     (if c = CHR ''+'' then CHR '' '' # unquote_plus (a # b # s)
      else if c = CHR ''%'' then
        (case hex_value a of
           None \<Rightarrow> c # unquote_plus (a # b # s)
         | Some x \<Rightarrow>
             (case hex_value b of
                None \<Rightarrow> c # unquote_plus (a # b # s)
              | Some y \<Rightarrow> char_of (16 * x + y) # unquote_plus s))
      else c # unquote_plus (a # b # s))"
| "unquote_plus (c # s) = (if c = CHR ''+'' then CHR '' '' else c) # unquote_plus s"
| "unquote_plus [] = []"

definition parse_query :: "string \<Rightarrow> (string \<times> string) list" where
  "parse_query q = map (\<lambda>p. (unquote_plus (takeWhile (\<lambda>c. c \<noteq> CHR ''='') p),
       unquote_plus (drop 1 (dropWhile (\<lambda>c. c \<noteq> CHR ''='') p)))) (filter (\<lambda>p. p \<noteq> []) (split_on (CHR ''&'') q))"

text \<open>The query of a URL: from the first \<open>?\<close> on, without the fragment.\<close>

definition query_of :: "string \<Rightarrow> string" where
  "query_of url = drop 1 (dropWhile (\<lambda>c. c \<noteq> CHR ''?'') (takeWhile (\<lambda>c. c \<noteq> CHR ''#'') url))"

lemma upper_hex_digit:
  assumes "d < 16"
  shows "is_unreserved (upper_hex d)" and "hex_value (upper_hex d) = Some d"
  using assms by (simp_all add: upper_hex_def is_unreserved_def hex_value_def Let_def)

lemma unreserved_plain: "is_unreserved c \<Longrightarrow> c \<noteq> CHR ''&'' \<and> c \<noteq> CHR ''='' \<and> c \<noteq> CHR ''?'' \<and> c \<noteq> CHR ''+'' \<and> c \<noteq> CHR ''%'' \<and> c \<noteq> CHR ''#''"
  by (rule ccontr) (auto simp: is_unreserved_def)

lemma char_of_div_mod: "of_char c div 16 < (16 :: nat)" "of_char c mod 16 < (16 :: nat)"
  "char_of (16 * (of_char c div 16) + of_char c mod 16 :: nat) = (c :: char)"
proof -
  show "of_char c div 16 < (16 :: nat)" using nat_of_char_less_256 [of c] by linarith
  show "of_char c mod 16 < (16 :: nat)" by simp
  show "char_of (16 * (of_char c div 16) + of_char c mod 16 :: nat) = c" by (simp add: mult_div_mod_eq)
qed

lemma quote_char_set: "x \<in> set (quote_char c) \<Longrightarrow> x \<noteq> CHR ''&'' \<and> x \<noteq> CHR ''='' \<and> x \<noteq> CHR ''?'' \<and> x \<noteq> CHR ''#''"
  using unreserved_plain [of x] unreserved_plain [OF upper_hex_digit(1) [OF char_of_div_mod(1) [of c]]]
    unreserved_plain [OF upper_hex_digit(1) [OF char_of_div_mod(2) [of c]]]
  by (simp add: quote_char_def Let_def split: if_splits) (elim disjE; simp)

lemma quote_plus_set: "x \<in> set (quote_plus s) \<Longrightarrow> x \<noteq> CHR ''&'' \<and> x \<noteq> CHR ''='' \<and> x \<noteq> CHR ''?'' \<and> x \<noteq> CHR ''#''"
  by (auto simp: quote_plus_def dest: quote_char_set)

lemma unquote_plain: "c \<noteq> CHR ''%'' \<Longrightarrow> unquote_plus (c # s) = (if c = CHR ''+'' then CHR '' '' else c) # unquote_plus s"
proof (cases s)
  case (Cons a t)
  assume "c \<noteq> CHR ''%''"
  then show ?thesis using Cons by (cases t) simp_all
qed simp

lemma unquote_quote_char: "unquote_plus (quote_char c @ s) = c # unquote_plus s"
  using unreserved_plain [of c] char_of_div_mod [of c]
  by (simp add: quote_char_def Let_def unquote_plain upper_hex_digit)

lemma unquote_quote_plus [simp]: "unquote_plus (quote_plus s) = s"
  by (induction s) (simp_all add: quote_plus_def unquote_quote_char)

lemma split_on_append: "split_on c (a @ c # b) = split_on c a @ split_on c b"
  by (induction a) (auto split: list.splits)

lemma split_on_absent: "c \<notin> set s \<Longrightarrow> split_on c s = [s]"
  by (induction s) (auto split: list.splits)

lemma split_on_join: "xs \<noteq> [] \<Longrightarrow> split_on c (join [c] xs) = concat (map (split_on c) xs)"
  by (induction "[c]" xs rule: join.induct) (simp_all add: split_on_append)

definition encode_param :: "string \<times> string \<Rightarrow> string" where
  "encode_param p = quote_plus (fst p) @ ''='' @ quote_plus (snd p)"

lemma encode_param_plain: "CHR ''&'' \<notin> set (encode_param p)" "CHR ''?'' \<notin> set (encode_param p)" "encode_param p \<noteq> []"
  by (auto simp: encode_param_def dest: quote_plus_set)

lemma urlencode_eq: "urlencode ps = join ''&'' (map encode_param ps)"
  by (simp add: urlencode_def encode_param_def [abs_def] case_prod_beta')

lemma decode_param:
  "unquote_plus (takeWhile (\<lambda>c. c \<noteq> CHR ''='') (encode_param p)) = fst p"
  "unquote_plus (drop 1 (dropWhile (\<lambda>c. c \<noteq> CHR ''='') (encode_param p))) = snd p"
proof -
  have "\<forall>x \<in> set (quote_plus (fst p)). x \<noteq> CHR ''=''" using quote_plus_set by blast
  then show "unquote_plus (takeWhile (\<lambda>c. c \<noteq> CHR ''='') (encode_param p)) = fst p"
    "unquote_plus (drop 1 (dropWhile (\<lambda>c. c \<noteq> CHR ''='') (encode_param p))) = snd p"
    by (simp_all add: encode_param_def)
qed

lemma parse_urlencode: "ps \<noteq> [] \<Longrightarrow> parse_query (urlencode ps) = ps"
proof -
  assume "ps \<noteq> []"
  then have "split_on (CHR ''&'') (urlencode ps) = concat (map (split_on (CHR ''&'')) (map encode_param ps))"
    unfolding urlencode_eq by (intro split_on_join) simp
  also have "\<dots> = map encode_param ps"
    by (induction ps) (simp_all add: split_on_absent encode_param_plain)
  finally have "filter (\<lambda>p. p \<noteq> []) (split_on (CHR ''&'') (urlencode ps)) = map encode_param ps"
    by (simp add: encode_param_plain(3))
  then show ?thesis by (simp add: parse_query_def decode_param [unfolded One_nat_def] o_def)
qed

lemma urlencode_plain: "CHR ''#'' \<notin> set (urlencode ps)"
proof -
  have "CHR ''#'' \<notin> set (encode_param p)" for p by (auto simp: encode_param_def dest: quote_plus_set)
  then show ?thesis
    unfolding urlencode_eq by (induction ps rule: induct_list012) auto
qed

lemma parse_query_append: "parse_query (a @ ''&'' @ b) = parse_query a @ parse_query b"
  by (simp add: parse_query_def split_on_append)

lemma query_of_plain: "CHR ''#'' \<notin> set url \<Longrightarrow> query_of url = drop 1 (dropWhile (\<lambda>c. c \<noteq> CHR ''?'') url)"
proof -
  assume "CHR ''#'' \<notin> set url"
  then have "takeWhile (\<lambda>c. c \<noteq> CHR ''#'') url = url" by (auto simp: takeWhile_eq_all_conv)
  then show ?thesis by (simp only: query_of_def)
qed

lemma dropWhile_split: "P x \<Longrightarrow> x \<in> set xs \<Longrightarrow> dropWhile (\<lambda>c. \<not> P c) (xs @ ys) = dropWhile (\<lambda>c. \<not> P c) xs @ ys"
  by (induction xs) auto

lemma query_of_append:
  assumes "CHR ''?'' \<in> set a" "CHR ''#'' \<notin> set a" "CHR ''#'' \<notin> set b"
  shows "query_of (a @ b) = query_of a @ b"
proof -
  have "dropWhile (\<lambda>c. c \<noteq> CHR ''?'') a \<noteq> []" using assms(1) by auto
  then obtain x xs where "dropWhile (\<lambda>c. c \<noteq> CHR ''?'') a = x # xs" by (cases "dropWhile (\<lambda>c. c \<noteq> CHR ''?'') a") auto
  then show ?thesis
    using assms dropWhile_split [of "\<lambda>c. c = CHR ''?''" "CHR ''?''" a b] by (simp add: query_of_plain)
qed

lemma query_of_new:
  assumes "CHR ''?'' \<notin> set a" "CHR ''#'' \<notin> set a" "CHR ''#'' \<notin> set b"
  shows "query_of (a @ CHR ''?'' # b) = b"
proof -
  have "dropWhile (\<lambda>c. c \<noteq> CHR ''?'') (a @ CHR ''?'' # b) = CHR ''?'' # b"
    using assms(1) by (induction a) auto
  then show ?thesis using assms by (simp add: query_of_plain)
qed

lemma query_of_absent: "CHR ''?'' \<notin> set a \<Longrightarrow> query_of a = []"
proof -
  assume "CHR ''?'' \<notin> set a"
  then have "dropWhile (\<lambda>c. c \<noteq> CHR ''?'') (takeWhile (\<lambda>c. c \<noteq> CHR ''#'') a) = []" by (auto dest: set_takeWhileD)
  then show ?thesis by (simp only: query_of_def) simp
qed

lemma query_of_fragment: "CHR ''#'' \<in> set a \<Longrightarrow> query_of (a @ b) = query_of a"
  by (simp add: query_of_def takeWhile_append1)

lemma parse_query_Nil [simp]: "parse_query [] = []"
  by (simp add: parse_query_def)

text \<open>The scopes a configuration asks for: its own, or the default ones, and \<open>openid\<close> in any case.\<close>

definition requested_scopes :: "string list \<Rightarrow> string list" where
  "requested_scopes scopes =
     (let configured = (case scopes of [] \<Rightarrow> DEFAULT_SCOPES | _ # _ \<Rightarrow> scopes)
      in replicate (if count_list configured ''openid'' = 0 then 1 else 0) ''openid'' @ configured)"

lemma scopes_readable:
  assumes "xs \<noteq> []" "list_all (\<lambda>x. CHR '' '' \<notin> set x) xs"
  shows "split_on (CHR '' '') (join '' '' xs) = xs"
proof -
  have "concat (map (split_on (CHR '' '')) xs) = xs"
    using assms(2) by (induction xs) (simp_all add: split_on_absent)
  then show ?thesis using split_on_join [OF assms(1)] by metis
qed

text \<open>C23: the authorization URL carries exactly the six parameters of the code flow, after those the
  endpoint's own query had: reading the query back gives the configured client and redirect URI, the
  state, the nonce and the scopes, whatever characters they hold. The scopes are those configured, or
  the default ones where none are, in their order, with \<open>openid\<close> put first where it is not among
  them, and reading the parameter at its blanks gives them back when none contains a blank. An
  endpoint with a fragment, which OAuth forbids, loses all six.\<close>

theorem authorization_url_roundtrip:
  "case build_authorization_url (JStr endpoint) client_id redirect_uri scopes state nonce of
     Inl e \<Rightarrow> endpoint = [] \<or> client_id = [] \<or> redirect_uri = []
   | Inr r \<Rightarrow> parse_query (query_of (ar_url r)) = parse_query (query_of endpoint) @
         (if CHR ''#'' \<in> set endpoint then []
          else [(''response_type'', ''code''), (''client_id'', client_id), (''redirect_uri'', redirect_uri),
                (''scope'', join '' '' (requested_scopes scopes)), (''state'', state), (''nonce'', nonce)]) \<and>
       (if list_all (\<lambda>x. CHR '' '' \<notin> set x) scopes
        then split_on (CHR '' '') (join '' '' (requested_scopes scopes)) = requested_scopes scopes else True) \<and>
       ar_state r = state \<and> ar_nonce r = nonce"
proof (cases "build_authorization_url (JStr endpoint) client_id redirect_uri scopes state nonce")
  case (Inl e)
  then show ?thesis by (auto simp: build_authorization_url_def has_question_def Let_def split: if_splits)
next
  case (Inr r)
  have asked: "(if ''openid'' \<in> set (if scopes = [] then DEFAULT_SCOPES else scopes) then (if scopes = [] then DEFAULT_SCOPES else scopes)
       else ''openid'' # (if scopes = [] then DEFAULT_SCOPES else scopes)) = requested_scopes scopes"
    by (cases scopes) (simp_all add: requested_scopes_def count_list_0_iff Let_def)
  define ps where "ps = [(''response_type'', ''code''), (''client_id'', client_id), (''redirect_uri'', redirect_uri),
          (''scope'', join '' '' (requested_scopes scopes)), (''state'', state), (''nonce'', nonce)]"
  have r: "r = \<lparr>ar_url = endpoint @ (if CHR ''?'' \<in> set endpoint then ''&'' else ''?'') @ urlencode ps,
      ar_state = state, ar_nonce = nonce\<rparr>"
    using Inr unfolding build_authorization_url_def Let_def asked
    by (simp add: has_question_def py_str_def ps_def split: if_splits)
  have ps: "ps \<noteq> []" by (simp add: ps_def)
  have "parse_query (query_of (ar_url r)) = parse_query (query_of endpoint) @ (if CHR ''#'' \<in> set endpoint then [] else ps)"
    using urlencode_plain [of ps]
    by (simp add: r query_of_fragment query_of_append query_of_new query_of_absent parse_query_append [simplified]
        parse_urlencode [OF ps])
  moreover have "requested_scopes scopes \<noteq> []"
    by (simp add: requested_scopes_def Let_def DEFAULT_SCOPES_def split: list.split)
  moreover have "list_all (\<lambda>x. CHR '' '' \<notin> set x) scopes \<Longrightarrow> list_all (\<lambda>x. CHR '' '' \<notin> set x) (requested_scopes scopes)"
    by (cases scopes) (auto simp: requested_scopes_def Let_def DEFAULT_SCOPES_def)
  ultimately show ?thesis unfolding Inr sum.case
    by (simp add: ps_def r scopes_readable)
qed

subsection \<open>The login\<close>

lemma validate_id_token_accepts:
  assumes "validate_id_token lib id_token jwks issuer audience (Some n) leeway = Inr claims"
  shows "\<exists>keys key. jwk_set lib jwks = Inr keys \<and> key \<in> set keys \<and>
     decode_rs256 lib id_token (jk_key key) audience issuer leeway = Inr claims \<and> dget claims ''nonce'' = JStr n"
proof (cases "jwk_set lib jwks")
  case (Inl e)
  then show ?thesis using assms by (simp add: validate_id_token_def)
next
  case (Inr keys)
  obtain header where h: "unverified_header lib id_token = Inr header"
    using assms Inr by (simp add: validate_id_token_def split: sum.splits token_error.splits)
  let ?kid = "dget header ''kid''"
  obtain key where k: "List.find (\<lambda>key. ?kid = JNull \<or> jk_id key = ?kid) keys = Some key"
    using assms Inr h by (simp add: validate_id_token_def Let_def split: option.splits)
  then have "key \<in> set keys" by (auto simp: find_Some_iff)
  moreover have "decode_rs256 lib id_token (jk_key key) audience issuer leeway = Inr claims \<and> dget claims ''nonce'' = JStr n"
    using assms Inr h k by (simp add: validate_id_token_def Let_def split: sum.splits token_error.splits if_splits)
  ultimately show ?thesis using Inr by blast
qed

lemma map_claims_accepts:
  assumes "map_claims_to_identity claims mapping default_role = Inr ident"
  shows "oi_subject ident = strip (py_str (dget_or claims ''sub'' (JStr []))) \<and> oi_subject ident \<noteq> [] \<and> oi_email ident \<noteq> []"
  using assms by (auto simp: map_claims_to_identity_def Let_def split: sum.splits if_splits)

lemma unauthorized_Inr: "unauthorized_on_oidc r = Inr x \<longleftrightarrow> r = Inr x"
  by (cases r) (auto simp: unauthorized_on_oidc_def split: oidc_failure.splits)

lemma callback_accepts:
  assumes "oidc_callback lib net org_id code nonce t = Inr ident"
  shows "\<exists>config discovery uri jwks keys key token claims.
     oidc_config org_id t = Inr config \<and>
     fetch_discovery net (str_or (so_oidc_issuer config) []) = Inr discovery \<and>
     dsub discovery ''jwks_uri'' = Inr uri \<and> get_json net uri = Inr jwks \<and>
     jwk_set lib jwks = Inr keys \<and> key \<in> set keys \<and>
     decode_rs256 lib token (jk_key key) (str_or (so_oidc_client_id config) []) (str_or (so_oidc_issuer config) []) 0
       = Inr claims \<and>
     dget claims ''nonce'' = JStr nonce \<and>
     map_claims_to_identity claims (so_attribute_mapping config) ''viewer'' = Inr ident"
proof -
  obtain config where c: "oidc_config org_id t = Inr config"
    using assms by (auto simp: oidc_callback_def and_then_Inr)
  let ?issuer = "str_or (so_oidc_issuer config) []" and ?client = "str_or (so_oidc_client_id config) []"
  obtain discovery where d: "fetch_discovery net ?issuer = Inr discovery"
    using assms c by (auto simp: oidc_callback_def and_then_Inr Let_def)
  obtain uri jwks tokens where u: "dsub discovery ''jwks_uri'' = Inr uri" "get_json net uri = Inr jwks"
    and rest: "and_then (unauthorized_on_oidc (validate_id_token lib (dget tokens ''id_token'') jwks ?issuer ?client (Some nonce) 0))
        (\<lambda>claims. unauthorized_on_oidc (map_claims_to_identity claims (so_attribute_mapping config) ''viewer'')) = Inr ident"
    using assms c d by (simp add: oidc_callback_def and_then_Inr Let_def split: if_splits) blast
  obtain claims where v: "validate_id_token lib (dget tokens ''id_token'') jwks ?issuer ?client (Some nonce) 0 = Inr claims"
    and m: "map_claims_to_identity claims (so_attribute_mapping config) ''viewer'' = Inr ident"
    using rest by (auto simp: and_then_Inr unauthorized_Inr)
  show ?thesis using validate_id_token_accepts [OF v] c d u m by blast
qed

lemma oidc_config_enabled: "oidc_config org_id t = Inr config \<Longrightarrow>
    own_config org_id t = Some config \<and> so_protocol config = ''oidc'' \<and> so_enabled config"
  by (simp add: oidc_config_def split: option.splits if_splits)

text \<open>C22: no identity without a signature. Where the token library accepts only claims signed with the
  key it is given, naming the issuer and the audience it is given, a login of an organisation ends in an
  identity only if that organisation has an enabled OIDC configuration and its identity provider
  publishes a key that signed claims for this issuer, this client and this login's nonce; the identity
  has the signed subject, and its subject and e-mail are not blank. Without such a configuration the
  answer is 404 before anything is fetched.\<close>

theorem login_only_with_signed_claims:
  assumes sound: "\<forall>token key audience issuer leeway claims.
      decode_rs256 lib token key audience issuer leeway = Inr claims \<longrightarrow>
      signed key claims \<and> dget claims ''iss'' = JStr issuer \<and> for_audience claims audience"
  shows "case oidc_callback lib net org_id code nonce t of
     Inl e \<Rightarrow> (case oidc_config org_id t of
         Inl e' \<Rightarrow> e = HTTPException 404 ''OIDC SSO not configured for this org'' | Inr _ \<Rightarrow> True)
   | Inr ident \<Rightarrow> \<exists>config discovery uri jwks keys key claims.
       own_config org_id t = Some config \<and> so_protocol config = ''oidc'' \<and> so_enabled config \<and>
       fetch_discovery net (str_or (so_oidc_issuer config) []) = Inr discovery \<and>
       dsub discovery ''jwks_uri'' = Inr uri \<and> get_json net uri = Inr jwks \<and>
       jwk_set lib jwks = Inr keys \<and> key \<in> set keys \<and> signed (jk_key key) claims \<and>
       dget claims ''iss'' = JStr (str_or (so_oidc_issuer config) []) \<and>
       for_audience claims (str_or (so_oidc_client_id config) []) \<and> dget claims ''nonce'' = JStr nonce \<and>
       oi_subject ident = strip (py_str (dget_or claims ''sub'' (JStr []))) \<and>
       oi_subject ident \<noteq> [] \<and> oi_email ident \<noteq> []"
proof (cases "oidc_callback lib net org_id code nonce t")
  case (Inl e)
  then show ?thesis
    by (auto simp: oidc_callback_def oidc_config_def split: sum.splits option.splits if_splits)
next
  case (Inr ident)
  from callback_accepts [OF Inr] obtain config discovery uri jwks keys key token claims where
    c: "oidc_config org_id t = Inr config" and "fetch_discovery net (str_or (so_oidc_issuer config) []) = Inr discovery"
    "dsub discovery ''jwks_uri'' = Inr uri" "get_json net uri = Inr jwks" "jwk_set lib jwks = Inr keys" "key \<in> set keys"
    and d: "decode_rs256 lib token (jk_key key) (str_or (so_oidc_client_id config) []) (str_or (so_oidc_issuer config) []) 0
       = Inr claims"
    and "dget claims ''nonce'' = JStr nonce"
    and m: "map_claims_to_identity claims (so_attribute_mapping config) ''viewer'' = Inr ident"
    by blast
  then show ?thesis
    using sound [rule_format, OF d] map_claims_accepts [OF m] oidc_config_enabled [OF c] unfolding Inr sum.case
    apply -
    by (rule exI [of _ config], rule exI [of _ discovery], rule exI [of _ uri], rule exI [of _ jwks], rule exI [of _ keys],
        rule exI [of _ key], rule exI [of _ claims], elim conjE, intro conjI; assumption)
qed

text \<open>A provider and a library with one key, and an organisation that uses them.\<close>

definition sample_claims :: dict where
  "sample_claims = [(''iss'', JStr ''https://idp''), (''aud'', JStr ''r3vp''), (''nonce'', JStr ''n1''),
     (''sub'', JStr ''u-7''), (''email'', JStr ''ana@corp''), (''role'', JStr ''Admin'')]"

definition sample_library :: "string oidc_library" where
  "sample_library = \<lparr>jwk_set = (\<lambda>_. Inr [\<lparr>jk_id = JStr ''k1'', jk_key = ''key''\<rparr>]),
     unverified_header = (\<lambda>_. Inr [(''kid'', JStr ''k1'')]),
     decode_rs256 = (\<lambda>token key audience issuer _.
        if token = JStr ''token'' \<and> key = ''key'' \<and> audience = ''r3vp'' \<and> issuer = ''https://idp''
        then Inr sample_claims else Inl (InvalidToken ''bad signature''))\<rparr>"

definition sample_idp :: idp where
  "sample_idp = \<lparr>fetch_json = (\<lambda>_. Inr [(''token_endpoint'', JStr ''t''), (''jwks_uri'', JStr ''j'')]),
     post_form = (\<lambda>_ _. Inr (JObj [(''id_token'', JStr ''token'')])), get_json = (\<lambda>_. Inr JNull)\<rparr>"

definition sample_config :: sso_config where
  "sample_config = (new_config 7)\<lparr>so_protocol := ''oidc'', so_provider := ''okta'', so_oidc_issuer := Some ''https://idp'',
     so_oidc_client_id := Some ''r3vp'', so_oidc_redirect_uri := Some ''https://app''\<rparr>"

lemma login_only_with_signed_claims_witness:
  "oidc_callback sample_library sample_idp 7 ''code'' ''n1'' [sample_config]
     = Inr \<lparr>oi_subject = ''u-7'', oi_email = ''ana@corp'', oi_role = ''admin''\<rparr> \<and>
   (\<exists>claims. claims = sample_claims \<and> dget claims ''nonce'' = JStr ''n1'')"
proof -
  have run: "oidc_callback sample_library sample_idp 7 ''code'' ''n1'' [sample_config]
     = Inr \<lparr>oi_subject = ''u-7'', oi_email = ''ana@corp'', oi_role = ''admin''\<rparr>"
  proof -
    have config: "oidc_config 7 [sample_config] = Inr sample_config"
      and discovery: "fetch_discovery sample_idp ''https://idp'' = Inr [(''token_endpoint'', JStr ''t''), (''jwks_uri'', JStr ''j'')]"
      and validated: "validate_id_token sample_library (JStr ''token'') JNull ''https://idp'' ''r3vp'' (Some ''n1'') 0 = Inr sample_claims"
      and mapped: "map_claims_to_identity sample_claims [] ''viewer''
        = Inr \<lparr>oi_subject = ''u-7'', oi_email = ''ana@corp'', oi_role = ''admin''\<rparr>"
      by code_simp+
    have row: "str_or (so_oidc_issuer sample_config) [] = ''https://idp''" "str_or (so_oidc_client_id sample_config) [] = ''r3vp''"
      "so_attribute_mapping sample_config = []"
      by (simp_all add: sample_config_def new_config_def str_or_def)
    show ?thesis
      by (simp add: oidc_callback_def config row discovery Let_def dsub_def)
        (simp add: sample_idp_def as_dict_def dget_def row validated mapped unauthorized_on_oidc_def)
  qed
  have sound: "\<forall>token key audience issuer leeway claims.
      decode_rs256 sample_library token key audience issuer leeway = Inr claims \<longrightarrow>
      (key = ''key'' \<and> claims = sample_claims) \<and> dget claims ''iss'' = JStr issuer \<and> dget claims ''aud'' = JStr audience"
    by (auto simp: sample_library_def dget_def sample_claims_def split: if_splits)
  have "\<exists>claims. claims = sample_claims \<and> dget claims ''nonce'' = JStr ''n1''"
    using login_only_with_signed_claims [where lib = sample_library and net = sample_idp and org_id = 7 and code = "''code''"
        and nonce = "''n1''" and t = "[sample_config]" and signed = "\<lambda>key claims. key = ''key'' \<and> claims = sample_claims"
        and for_audience = "\<lambda>claims audience. dget claims ''aud'' = JStr audience", OF sound]
    unfolding run sum.case by (elim exE conjE) (rule exI, rule conjI)
  then show ?thesis using run by (rule conjI [rotated])
qed

subsection \<open>The configuration routes keep to their organisation, and keep the secret\<close>

datatype sso_op =
    ReadConfig
  | WriteConfig sso_request
  | ToggleConfig
  | StartLogin idp string string

datatype sso_response = ConfigR "sso_public option" | ToggleR bool | LoginR authorization_request

definition serve_sso :: "uuid \<Rightarrow> (current_user \<times> sso_op) \<Rightarrow> sso_table \<Rightarrow> sso_response result \<times> sso_table" where
  "serve_sso org r =
     (let user = (fst r)\<lparr>user_org_id := org\<rparr>
      in case snd r of
           ReadConfig \<Rightarrow> respond ConfigR (get_sso_config user)
         | WriteConfig body \<Rightarrow> respond (\<lambda>c. ConfigR (Some c)) (upsert_sso_config body user)
         | ToggleConfig \<Rightarrow> respond ToggleR (toggle_sso user)
         | StartLogin net state nonce \<Rightarrow> respond LoginR (seq (gets (oidc_login net state nonce org)) lift_result))"

text \<open>A configuration with its secret replaced by a mark that one is set.\<close>

definition mask_secret :: "sso_config \<Rightarrow> sso_config" where
  "mask_secret c = c\<lparr>so_oidc_client_secret := (if str_or (so_oidc_client_secret c) [] = [] then None else Some ''set'')\<rparr>"

definition sso_view :: "uuid \<Rightarrow> sso_table \<Rightarrow> sso_config list" where
  "sso_view org t = map mask_secret (filter (\<lambda>c. so_org_id c = org) t)"

lemma mask_mask [simp]: "mask_secret (mask_secret c) = mask_secret c"
  by (simp add: mask_secret_def str_or_def)

lemma mask_secret_same:
  assumes "mask_secret c = mask_secret d"
  shows "serialize c = serialize d" "mask_secret (set_config body c) = mask_secret (set_config body d)"
    "mask_secret (c\<lparr>so_enabled := \<not> so_enabled c\<rparr>) = mask_secret (d\<lparr>so_enabled := \<not> so_enabled d\<rparr>)"
  using assms by (cases c; cases d; auto simp: mask_secret_def serialize_def set_config_def split: if_splits)+

lemma same_serialize_updated:
  assumes "mask_secret c = mask_secret d"
  shows "serialize (set_config body c) = serialize (set_config body d)"
    "serialize (c\<lparr>so_enabled := \<not> so_enabled c\<rparr>) = serialize (d\<lparr>so_enabled := \<not> so_enabled d\<rparr>)"
  by (rule mask_secret_same(1), rule mask_secret_same(2,3), rule assms)+

lemma own_config_view: "map_option mask_secret (own_config org t) = (case sso_view org t of [] \<Rightarrow> None | c # _ \<Rightarrow> Some c)"
  by (induction t) (auto simp: own_config_def sso_view_def)

lemma same_view_own:
  assumes "sso_view org s = sso_view org s'"
  shows "rel_option (\<lambda>c d. mask_secret c = mask_secret d) (own_config org s) (own_config org s')"
proof -
  have "map_option mask_secret (own_config org s) = map_option mask_secret (own_config org s')"
    by (simp only: own_config_view assms)
  then show ?thesis by (cases "own_config org s"; cases "own_config org s'") simp_all
qed

lemma own_config_org: "own_config org t = Some c \<Longrightarrow> so_org_id c = org"
  by (auto simp: own_config_def find_Some_iff)

text \<open>An update that does not look at the secret, of the row of an organisation.\<close>

lemma sso_view_update:
  assumes "\<And>c. so_org_id (f c) = so_org_id c" and "\<And>c d. mask_secret c = mask_secret d \<Longrightarrow> mask_secret (f c) = mask_secret (f d)"
  shows "sso_view org (update_where (\<lambda>x. so_org_id x = org) f t) = map (\<lambda>c. mask_secret (f c)) (sso_view org t)"
    and "org' \<noteq> org \<Longrightarrow> sso_view org' (update_where (\<lambda>x. so_org_id x = org) f t) = sso_view org' t"
proof -
  have "mask_secret (f (mask_secret c)) = mask_secret (f c)" for c by (rule assms(2)) simp
  then show "sso_view org (update_where (\<lambda>x. so_org_id x = org) f t) = map (\<lambda>c. mask_secret (f c)) (sso_view org t)"
    by (induction t) (simp_all add: sso_view_def update_where_def assms(1))
  show "sso_view org' (update_where (\<lambda>x. so_org_id x = org) f t) = sso_view org' t" if o: "org' \<noteq> org"
  proof -
    have "filter (\<lambda>c. so_org_id c = org') (update_where (\<lambda>x. so_org_id x = org) f t) = filter (\<lambda>c. so_org_id c = org') t"
      by (rule filter_update_where_other) (use o assms(1) in auto)
    then show ?thesis by (simp add: sso_view_def)
  qed
qed

text \<open>What a route does with the organisation's configuration, up to its secret.\<close>

lemma local_config:
  assumes same: "\<And>c d. mask_secret c = mask_secret d \<Longrightarrow> g c = g d"
    and f: "\<And>c. so_org_id (f c) = so_org_id c" "\<And>c d. mask_secret c = mask_secret d \<Longrightarrow> mask_secret (f c) = mask_secret (f d)"
    and new: "\<And>s. snd (absent s) = s @ extra" "\<And>s. fst (absent s) = response" "\<And>c. c \<in> set extra \<Longrightarrow> so_org_id c = org"
  shows "local_to sso_view org (seq (gets (own_config org)) (\<lambda>found.
    case found of None \<Rightarrow> absent
    | Some c \<Rightarrow> seq (update (update_where (\<lambda>x. so_org_id x = so_org_id c) f)) (\<lambda>_. ret (g c))))"
    (is "local_to _ _ ?m")
proof (rule local_toI)
  fix s s' assume v: "sso_view org s = sso_view org s'"
  show "fst (?m s) = fst (?m s') \<and> sso_view org (snd (?m s)) = sso_view org (snd (?m s'))"
  proof (cases "own_config org s")
    case None
    then have "own_config org s' = None" using same_view_own [OF v] by (cases "own_config org s'") auto
    then show ?thesis using None v by (simp add: seq_def gets_def new sso_view_def)
  next
    case (Some c)
    then obtain d where d: "own_config org s' = Some d" "mask_secret c = mask_secret d"
      using same_view_own [OF v] by (cases "own_config org s'") auto
    then show ?thesis
      using Some v sso_view_update(1) [of f org, OF f] same [OF d(2)] own_config_org
      by (simp add: seq_def gets_def update_def ret_def)
  qed
next
  fix org' s assume o: "org' \<noteq> org"
  then have "filter (\<lambda>c. so_org_id c = org') extra = []" using new(3) by (auto simp: filter_empty_conv)
  then show "sso_view org' (snd (?m s)) = sso_view org' s"
    using o sso_view_update(2) [of f org' org, OF f] own_config_org
    by (cases "own_config org s") (simp_all add: seq_def gets_def update_def ret_def new sso_view_def)
qed

lemma get_sso_config_local: "user_org_id user = org \<Longrightarrow> local_to sso_view org (get_sso_config user)"
proof -
  assume org: "user_org_id user = org"
  have "map_option serialize (own_config org s) = map_option serialize (own_config org s')"
    if "sso_view org s = sso_view org s'" for s s'
    using same_view_own [OF that] by (cases rule: option.rel_cases) (simp, simp only: option.map, rule arg_cong [of _ _ Some], erule mask_secret_same(1))
  then show ?thesis unfolding get_sso_config_def org
    by (intro local_seq_any local_lift local_gets)
qed

lemma upsert_sso_config_local: "user_org_id user = org \<Longrightarrow> local_to sso_view org (upsert_sso_config body user)"
proof -
  assume org: "user_org_id user = org"
  let ?new = "set_config body (new_config org)"
  have "local_to sso_view org (seq (gets (own_config org)) (\<lambda>found.
      case found of None \<Rightarrow> seq (update (\<lambda>t. t @ [?new])) (\<lambda>_. ret (serialize ?new))
     | Some c \<Rightarrow> seq (update (update_where (\<lambda>x. so_org_id x = so_org_id c) (set_config body))) (\<lambda>_. ret (serialize (set_config body c)))))"
  proof (rule local_config [where extra = "[?new]" and response = "Inr (serialize ?new)"])
    show "serialize (set_config body c) = serialize (set_config body d)" if "mask_secret c = mask_secret d" for c d
      using same_serialize_updated(1) [OF that] .
    show "mask_secret (set_config body c) = mask_secret (set_config body d)" if "mask_secret c = mask_secret d" for c d
      using mask_secret_same(2) [OF that] .
  qed (simp_all add: seq_def update_def ret_def set_config_def new_config_def)
  then show ?thesis unfolding upsert_sso_config_def put_config_def Let_def org
    by (intro local_seq_any [OF local_lift])
qed

lemma toggle_sso_local: "user_org_id user = org \<Longrightarrow> local_to sso_view org (toggle_sso user)"
proof -
  assume org: "user_org_id user = org"
  let ?f = "\<lambda>c. c\<lparr>so_enabled := \<not> so_enabled c\<rparr>"
  have eq: "seq (put_config c ?f) (\<lambda>p. ret (sp_enabled p))
      = seq (update (update_where (\<lambda>x. so_org_id x = so_org_id c) ?f)) (\<lambda>_. ret (sp_enabled (serialize (?f c))))" for c
    by (simp add: put_config_def seq_assoc)
  have "local_to sso_view org (seq (gets (own_config org)) (\<lambda>found.
      case found of None \<Rightarrow> raise (HTTPException 404 ''SSO not configured'')
     | Some c \<Rightarrow> seq (put_config c ?f) (\<lambda>p. ret (sp_enabled p))))"
    unfolding eq
  proof (rule local_config [where extra = "[]" and response = "Inl (HTTPException 404 ''SSO not configured'')"])
    show "sp_enabled (serialize (?f c)) = sp_enabled (serialize (?f d))" if "mask_secret c = mask_secret d" for c d
      using same_serialize_updated(2) [OF that] by (simp only:)
    show "mask_secret (?f c) = mask_secret (?f d)" if "mask_secret c = mask_secret d" for c d
      using mask_secret_same(3) [OF that] .
  qed (simp_all add: raise_def)
  then show ?thesis unfolding toggle_sso_def org
    by (intro local_seq_any [OF local_lift])
qed

lemma oidc_login_same:
  assumes "sso_view org s = sso_view org s'"
  shows "oidc_login net state nonce org s = oidc_login net state nonce org s'"
proof (cases "own_config org s")
  case None
  then have "own_config org s' = None" using same_view_own [OF assms] by (cases "own_config org s'") auto
  then show ?thesis using None by (simp add: oidc_login_def oidc_config_def)
next
  case (Some c)
  then obtain d where d: "own_config org s' = Some d" "mask_secret c = mask_secret d"
    using same_view_own [OF assms] by (cases "own_config org s'") auto
  have "so_protocol c = so_protocol d" "so_enabled c = so_enabled d" "so_oidc_issuer c = so_oidc_issuer d"
    "so_oidc_client_id c = so_oidc_client_id d" "so_oidc_redirect_uri c = so_oidc_redirect_uri d" "so_oidc_scopes c = so_oidc_scopes d"
    using d(2) by (cases c; cases d; simp add: mask_secret_def)+
  then show ?thesis using Some d(1) by (simp add: oidc_login_def oidc_config_def)
qed

interpretation sso: tenant_handlers sso_view serve_sso
proof (rule local_handlers)
  fix org and r :: "current_user \<times> sso_op"
  show "local_to sso_view org (serve_sso org r)"
  proof (cases "snd r")
    case (StartLogin net state nonce)
    have "local_to sso_view org (gets (oidc_login net state nonce org))"
      by (rule local_gets) (rule oidc_login_same)
    then show ?thesis unfolding serve_sso_def Let_def StartLogin sso_op.case respond_def
      by (intro local_seq_any local_ret local_lift)
  qed (simp_all add: serve_sso_def respond_def local_seq_any local_ret get_sso_config_local upsert_sso_config_local toggle_sso_local)
qed

lemma sso_view_masked [simp]: "sso_view org (map mask_secret t) = sso_view org t"
  by (induction t) (simp_all add: sso_view_def mask_secret_def str_or_def)

text \<open>The client secret is write-only and configurations are isolated: in any sequence of requests to
  read, write, toggle or start a login, by any organisations, each organisation gets exactly the responses it
  would get alone from a table whose stored secrets are all replaced by a fixed mark; no response
  depends on a stored secret beyond whether one is set.\<close>

theorem client_secret_write_only:
  "responses_of org (fst (serve_all serve_sso reqs t))
     = map snd (fst (serve_all serve_sso (filter (\<lambda>(o', _). o' = org) reqs) (map mask_secret t)))"
  using sso.serve_view [where s = t and s' = "map mask_secret t" and rs = reqs and org = org] by simp

end
