(* ===== verification/Team.thy ===== *)
theory Team
  imports Api
begin

text \<open>
  Team and API-key management: \<open>routers/team.py\<close> and \<open>routers/api_keys.py\<close> over the
  tables of \<open>models/rbac.py\<close>. A handler is a function of the request, the authenticated user
  and the database; what the code draws (\<open>uuid4\<close>, \<open>secrets.token_urlsafe\<close>, the clock)
  is an argument, SHA-256 a parameter. Inserting a row whose \<open>nullable=False\<close> column is
  \<open>None\<close> raises at commit and rolls back. Handlers return the selected fields before JSON
  encoding.
\<close>

subsection \<open>Tables\<close>

record role_row =
  r_id :: uuid
  r_org_id :: "uuid option"
  r_name :: string
  r_is_system :: bool

record member_row =
  mb_id :: uuid
  mb_org_id :: uuid
  mb_user_id :: uuid
  mb_role_id :: uuid
  mb_joined_at :: micros
  mb_is_active :: bool

record invite_row =
  iv_id :: uuid
  iv_org_id :: uuid
  iv_email :: string
  iv_role_id :: uuid
  iv_token :: string
  iv_invited_by :: "uuid option"
  iv_expires_at :: micros
  iv_accepted_at :: "micros option"
  iv_created_at :: micros

record key_row =
  k_id :: uuid
  k_org_id :: uuid
  k_name :: string
  k_key_prefix :: string
  k_key_hash :: string
  k_scopes :: "string list"
  k_last_used_at :: "micros option"
  k_expires_at :: "micros option"
  k_created_by :: "uuid option"
  k_created_at :: micros
  k_revoked :: bool

record team_db =
  t_roles :: "role_row list"
  t_members :: "member_row list"
  t_invites :: "invite_row list"
  t_keys :: "key_row list"

definition day_micros :: int where
  "day_micros = 86400000000"

subsection \<open>Members and invites\<close>

definition list_members :: "current_user \<Rightarrow> (team_db, (member_row \<times> string) list) exec" where
  "list_members user =
     seq (lift_result (require_permission (permissions user) ''team:read'')) (\<lambda>_.
     gets (\<lambda>db. sort_key (\<lambda>(m, _). mb_joined_at m)
       (concat (map (\<lambda>m. map (\<lambda>r. (m, r_name r)) (filter (\<lambda>r. mb_role_id m = r_id r) (t_roles db)))
          (filter (\<lambda>m. mb_org_id m = user_org_id user \<and> mb_is_active m) (t_members db))))))"

definition system_role :: "string \<Rightarrow> team_db \<Rightarrow> role_row option" where
  "system_role name db = List.find (\<lambda>r. r_name r = name \<and> r_is_system r) (t_roles db)"

record invite_request =
  req_email :: string
  req_role_name :: string

definition invite_member ::
    "invite_request \<Rightarrow> current_user \<Rightarrow> uuid \<Rightarrow> string \<Rightarrow> micros \<Rightarrow> (team_db, invite_row) exec" where
  "invite_member body user new_id token now =
     seq (lift_result (require_permission (permissions user) ''team:invite'')) (\<lambda>_.
     if req_role_name body \<notin> fst ` set SYSTEM_ROLES
     then raise (HTTPException 400 (''role_name must be one of: '' @ join '', '' (map fst SYSTEM_ROLES)))
     else if req_role_name body = ''owner'' then raise (HTTPException 400 ''Cannot invite as owner'')
     else
       seq (gets (system_role (req_role_name body))) (\<lambda>found.
       case found of
         None \<Rightarrow> raise (HTTPException 400 (''Role not found: '' @ req_role_name body))
       | Some role \<Rightarrow>
           let invite = \<lparr>iv_id = new_id, iv_org_id = user_org_id user, iv_email = req_email body, iv_role_id = r_id role,
                 iv_token = token, iv_invited_by = user_id_attr user, iv_expires_at = now + 7 * day_micros,
                 iv_accepted_at = None, iv_created_at = now\<rparr>
           in seq (not_null ''org_invites.invited_by'' (iv_invited_by invite)) (\<lambda>_.
              seq (update (\<lambda>db. db\<lparr>t_invites := t_invites db @ [invite]\<rparr>)) (\<lambda>_.
              ret invite))))"

definition list_invites :: "current_user \<Rightarrow> (team_db, invite_row list) exec" where
  "list_invites user =
     seq (lift_result (require_permission (permissions user) ''team:read'')) (\<lambda>_.
     gets (\<lambda>db. sort_key (\<lambda>i. - iv_created_at i)
       (filter (\<lambda>i. iv_org_id i = user_org_id user \<and> iv_accepted_at i = None) (t_invites db))))"

definition find_member :: "uuid \<Rightarrow> current_user \<Rightarrow> team_db \<Rightarrow> member_row option" where
  "find_member member_id user db =
     List.find (\<lambda>m. mb_id m = member_id \<and> mb_org_id m = user_org_id user) (t_members db)"

text \<open>Assigning a field of the loaded row and committing.\<close>

definition save_member :: "member_row \<Rightarrow> (member_row \<Rightarrow> member_row) \<Rightarrow> (team_db, unit) exec" where
  "save_member member f = update (\<lambda>db. db\<lparr>t_members := update_where (\<lambda>m. m = member) f (t_members db)\<rparr>)"

definition update_member_role :: "uuid \<Rightarrow> dict \<Rightarrow> current_user \<Rightarrow> (team_db, uuid \<times> string) exec" where
  "update_member_role member_id body user =
     seq (lift_result (require_permission (permissions user) ''team:manage'')) (\<lambda>_.
     case dget body ''role_name'' of
       JStr role_name \<Rightarrow>
         if role_name \<notin> fst ` set SYSTEM_ROLES \<or> role_name = ''owner''
         then raise (HTTPException 400 ''Invalid role_name'')
         else
           seq (gets (find_member member_id user)) (\<lambda>found.
           case found of
             None \<Rightarrow> raise (HTTPException 404 ''Member not found'')
           | Some member \<Rightarrow>
               seq (gets (system_role role_name)) (\<lambda>r.
               case r of
                 None \<Rightarrow> raise (HTTPException 400 ''Role not found'')
               | Some role \<Rightarrow>
                   seq (save_member member (\<lambda>m. m\<lparr>mb_role_id := r_id role\<rparr>)) (\<lambda>_.
                   ret (mb_id member, role_name))))
     | JArr _ \<Rightarrow> raise (TypeError (''unhashable type: '' @ repr_str ''list''))
     | JObj _ \<Rightarrow> raise (TypeError (''unhashable type: '' @ repr_str ''dict''))
     | _ \<Rightarrow> raise (HTTPException 400 ''Invalid role_name''))"

definition remove_member :: "uuid \<Rightarrow> current_user \<Rightarrow> (team_db, unit) exec" where
  "remove_member member_id user =
     seq (lift_result (require_permission (permissions user) ''team:manage'')) (\<lambda>_.
     seq (gets (find_member member_id user)) (\<lambda>found.
     case found of
       None \<Rightarrow> raise (HTTPException 404 ''Member not found'')
     | Some member \<Rightarrow> save_member member (\<lambda>m. m\<lparr>mb_is_active := False\<rparr>)))"

subsection \<open>API keys\<close>

definition generate_key :: "(string \<Rightarrow> string) \<Rightarrow> string \<Rightarrow> string \<times> string \<times> string" where
  "generate_key sha256 token = (let raw = ''r3vp_'' @ token in (raw, take 12 raw, sha256 raw))"

definition list_keys :: "current_user \<Rightarrow> (team_db, key_row list) exec" where
  "list_keys user =
     seq (lift_result (require_permission (permissions user) ''api_keys:read'')) (\<lambda>_.
     gets (\<lambda>db. sort_key (\<lambda>k. - k_created_at k)
       (filter (\<lambda>k. k_org_id k = user_org_id user \<and> \<not> k_revoked k) (t_keys db))))"

record create_key_request =
  ck_name :: string
  ck_scopes :: "string list"
  ck_expires_days :: "int option"

definition create_key ::
    "(string \<Rightarrow> string) \<Rightarrow> create_key_request \<Rightarrow> current_user \<Rightarrow> uuid \<Rightarrow> string \<Rightarrow> micros
       \<Rightarrow> (team_db, key_row \<times> string) exec" where
  "create_key sha256 body user new_id token now =
     seq (lift_result (require_permission (permissions user) ''api_keys:write'')) (\<lambda>_.
     let invalid = filter (\<lambda>s. s \<notin> set PERMISSIONS) (ck_scopes body) in
     if invalid \<noteq> []
     then raise (HTTPException 400 (''Invalid scopes: '' @ py_repr (JArr (map JStr invalid))))
     else
       let (raw, prefix, digest) = generate_key sha256 token;
           expires_at = (case ck_expires_days body of
                           None \<Rightarrow> None
                         | Some d \<Rightarrow> if d = 0 then None else Some (now + d * day_micros));
           key = \<lparr>k_id = new_id, k_org_id = user_org_id user, k_name = ck_name body, k_key_prefix = prefix,
                  k_key_hash = digest, k_scopes = ck_scopes body, k_last_used_at = None,
                  k_expires_at = expires_at, k_created_by = user_id_attr user, k_created_at = now,
                  k_revoked = False\<rparr>
       in seq (not_null ''api_keys.created_by'' (k_created_by key)) (\<lambda>_.
          seq (update (\<lambda>db. db\<lparr>t_keys := t_keys db @ [key]\<rparr>)) (\<lambda>_.
          ret (key, raw))))"

definition find_key :: "uuid \<Rightarrow> current_user \<Rightarrow> team_db \<Rightarrow> key_row option" where
  "find_key key_id user db = List.find (\<lambda>k. k_id k = key_id \<and> k_org_id k = user_org_id user) (t_keys db)"

definition revoke_key :: "uuid \<Rightarrow> current_user \<Rightarrow> (team_db, unit) exec" where
  "revoke_key key_id user =
     seq (lift_result (require_permission (permissions user) ''api_keys:write'')) (\<lambda>_.
     seq (gets (find_key key_id user)) (\<lambda>found.
     case found of
       None \<Rightarrow> raise (HTTPException 404 ''API key not found'')
     | Some key \<Rightarrow>
         update (\<lambda>db. db\<lparr>t_keys := update_where (\<lambda>k. k = key) (\<lambda>k. k\<lparr>k_revoked := True\<rparr>) (t_keys db)\<rparr>)))"

subsection \<open>Requests\<close>

text \<open>A request of an authenticated user with what the server draws for it.\<close>

datatype team_op =
    ListMembers
  | InviteMember invite_request uuid string micros
  | ListInvites
  | UpdateMemberRole uuid dict
  | RemoveMember uuid
  | ListKeys
  | CreateKey create_key_request uuid string micros
  | RevokeKey uuid

datatype team_response =
    Members "(member_row \<times> string) list"
  | Invite invite_row
  | Invites "invite_row list"
  | RoleUpdated "uuid \<times> string"
  | NoContent
  | Keys "key_row list"
  | KeyCreated "key_row \<times> string"

fun team_handler :: "(string \<Rightarrow> string) \<Rightarrow> current_user \<Rightarrow> team_op \<Rightarrow> (team_db, team_response) exec" where
  "team_handler sha user ListMembers = respond Members (list_members user)"
| "team_handler sha user (InviteMember body i tok now) = respond Invite (invite_member body user i tok now)"
| "team_handler sha user ListInvites = respond Invites (list_invites user)"
| "team_handler sha user (UpdateMemberRole i body) = respond RoleUpdated (update_member_role i body user)"
| "team_handler sha user (RemoveMember i) = respond (\<lambda>_. NoContent) (remove_member i user)"
| "team_handler sha user ListKeys = respond Keys (list_keys user)"
| "team_handler sha user (CreateKey body i tok now) = respond KeyCreated (create_key sha body user i tok now)"
| "team_handler sha user (RevokeKey i) = respond (\<lambda>_. NoContent) (revoke_key i user)"

definition serve_team :: "(string \<Rightarrow> string) \<Rightarrow> uuid \<Rightarrow> current_user \<times> team_op \<Rightarrow> team_db
    \<Rightarrow> team_response result \<times> team_db" where
  "serve_team sha org req = team_handler sha ((fst req)\<lparr>user_org_id := org\<rparr>) (snd req)"

subsection \<open>Tenant isolation\<close>

definition team_view :: "uuid \<Rightarrow> team_db \<Rightarrow> role_row list \<times> member_row list \<times> invite_row list \<times> key_row list" where
  "team_view org db =
     (t_roles db, filter (\<lambda>m. mb_org_id m = org) (t_members db),
      filter (\<lambda>i. iv_org_id i = org) (t_invites db), filter (\<lambda>k. k_org_id k = org) (t_keys db))"

lemmas team_handlers =
  list_members_def invite_member_def list_invites_def update_member_role_def remove_member_def
  list_keys_def create_key_def revoke_key_def

lemma find_member_own: "find_member i user db =
    List.find (\<lambda>m. mb_id m = i) (filter (\<lambda>m. mb_org_id m = user_org_id user) (t_members db))"
  by (simp add: find_member_def find_own)

lemma find_member_org: "find_member i user db = Some m \<Longrightarrow> mb_org_id m = user_org_id user"
  by (auto simp: find_member_def dest: find_Some_iff')

lemma team_view_iff: "team_view org db = team_view org db' \<longleftrightarrow>
    t_roles db = t_roles db' \<and>
    filter (\<lambda>m. mb_org_id m = org) (t_members db) = filter (\<lambda>m. mb_org_id m = org) (t_members db') \<and>
    filter (\<lambda>m. iv_org_id m = org) (t_invites db) = filter (\<lambda>m. iv_org_id m = org) (t_invites db') \<and>
    filter (\<lambda>m. k_org_id m = org) (t_keys db) = filter (\<lambda>m. k_org_id m = org) (t_keys db')"
  by (simp add: team_view_def)

lemma local_save_member:
  assumes "mb_org_id m = org" and "\<And>m. mb_org_id (g m) = mb_org_id m"
  shows "local_to team_view org (save_member m g)"
  unfolding save_member_def
proof (rule local_update)
  fix db db' assume "team_view org db = team_view org db'"
  then show "team_view org (db\<lparr>t_members := update_where (\<lambda>x. x = m) g (t_members db)\<rparr>)
      = team_view org (db'\<lparr>t_members := update_where (\<lambda>x. x = m) g (t_members db')\<rparr>)"
    using assms by (simp add: team_view_def filter_update_row [of mb_org_id])
next
  fix org' and db :: team_db assume "org' \<noteq> org"
  then show "team_view org' (db\<lparr>t_members := update_where (\<lambda>x. x = m) g (t_members db)\<rparr>) = team_view org' db"
    using assms by (simp add: team_view_def filter_update_row_other [of mb_org_id])
qed

lemma members_view: "team_view org db = team_view org db' \<Longrightarrow>
    filter (\<lambda>m. mb_org_id m = org \<and> P m) (t_members db) = filter (\<lambda>m. mb_org_id m = org \<and> P m) (t_members db')"
  by (simp only: team_view_iff filter_own)

lemma find_member_view:
  "team_view org s = team_view org s' \<Longrightarrow> user_org_id user = org \<Longrightarrow> find_member i user s = find_member i user s'"
  by (simp add: find_member_own team_view_iff)

lemma local_find_member:
  assumes user: "user_org_id user = org"
    and g: "\<And>m. mb_org_id m = org \<Longrightarrow> local_to team_view org (g m)" and h: "local_to team_view org h"
  shows "local_to team_view org (seq (gets (find_member i user)) (\<lambda>found. case found of None \<Rightarrow> h | Some m \<Rightarrow> g m))"
proof (rule local_find)
  show "find_member i user s = find_member i user s'" if "team_view org s = team_view org s'" for s s'
    using find_member_view that user .
  show "local_to team_view org (g x)" if "find_member i user s = Some x" for s x
    using g find_member_org [OF that] user by simp
qed (rule h)

lemma local_system_role:
  assumes "\<And>r. local_to team_view org (g r)" and "local_to team_view org h"
  shows "local_to team_view org (seq (gets (system_role name)) (\<lambda>found. case found of None \<Rightarrow> h | Some r \<Rightarrow> g r))"
proof (rule local_find)
  show "system_role name s = system_role name s'" if "team_view org s = team_view org s'" for s s'
    using that by (simp add: system_role_def team_view_iff)
qed (rule assms)+

lemma find_key_org: "find_key i user db = Some k \<Longrightarrow> k_org_id k = user_org_id user"
  by (auto simp: find_key_def dest: find_Some_iff')

lemma list_members_local:
  assumes "user_org_id user = org"
  shows "local_to team_view org (list_members user)"
  unfolding list_members_def
proof (intro local_intros local_gets)
  fix s s' assume "team_view org s = team_view org s'"
  then have "t_roles s = t_roles s'"
    and "filter (\<lambda>m. mb_org_id m = org \<and> mb_is_active m) (t_members s)
       = filter (\<lambda>m. mb_org_id m = org \<and> mb_is_active m) (t_members s')"
    by (simp_all only: team_view_iff filter_own)
  then show "sort_key (\<lambda>(m, _). mb_joined_at m)
       (concat (map (\<lambda>m. map (\<lambda>r. (m, r_name r)) (filter (\<lambda>r. mb_role_id m = r_id r) (t_roles s)))
          (filter (\<lambda>m. mb_org_id m = user_org_id user \<and> mb_is_active m) (t_members s))))
     = sort_key (\<lambda>(m, _). mb_joined_at m)
       (concat (map (\<lambda>m. map (\<lambda>r. (m, r_name r)) (filter (\<lambda>r. mb_role_id m = r_id r) (t_roles s')))
          (filter (\<lambda>m. mb_org_id m = user_org_id user \<and> mb_is_active m) (t_members s'))))"
    by (simp add: assms)
qed

lemma local_reads:
  assumes "user_org_id user = org"
  shows "local_to team_view org (list_invites user)" "local_to team_view org (list_keys user)"
  unfolding list_invites_def list_keys_def
  by (intro local_intros local_gets; simp only: assms team_view_iff filter_own)+

lemma update_member_role_local:
  assumes "user_org_id user = org"
  shows "local_to team_view org (update_member_role i body user)"
proof -
  have save: "local_to team_view org (save_member m (\<lambda>m. m\<lparr>mb_role_id := r\<rparr>))" if "mb_org_id m = org" for m r
    by (rule local_save_member [OF that]) simp
  show ?thesis
    unfolding update_member_role_def
    by (cases "dget body ''role_name''"; simp only: json.case;
        intro local_intros local_find_member local_system_role save assms)
qed

lemma remove_member_local:
  assumes "user_org_id user = org"
  shows "local_to team_view org (remove_member i user)"
proof -
  have save: "local_to team_view org (save_member m (\<lambda>m. m\<lparr>mb_is_active := False\<rparr>))" if "mb_org_id m = org" for m
    by (rule local_save_member [OF that]) simp
  show ?thesis
    unfolding remove_member_def by (intro local_intros local_find_member save assms)
qed

lemma insertions_local:
  "local_to team_view org (invite_member req user j tok now)"
  "local_to team_view org (create_key sha ck user j tok now)"
  unfolding invite_member_def create_key_def Let_def generate_key_def prod.case not_null_user
    invite_row.simps key_row.simps seq_raise
  by (intro local_intros local_system_role)+

lemma revoke_key_local:
  assumes user: "user_org_id user = org"
  shows "local_to team_view org (revoke_key i user)"
  unfolding revoke_key_def
proof (rule local_seq_any [OF local_lift], rule local_find, goal_cases)
  case (1 x s s')
  then show ?case by (simp add: find_key_def find_own team_view_iff user)
next
  case (2 x s k)
  note org = find_key_org [OF 2] user
  show ?case
  proof (rule local_update, goal_cases)
    case (1 t t')
    then show ?case using org by (simp add: team_view_def filter_update_row [of k_org_id])
  next
    case (2 org' t)
    then show ?case using org by (simp add: team_view_def filter_update_row_other [of k_org_id])
  qed
next
  case 3
  show ?case by (rule local_raise)
qed

lemmas team_local = list_members_local local_reads update_member_role_local remove_member_local
  insertions_local revoke_key_local

interpretation team: tenant_handlers team_view "serve_team sha"
proof (rule local_handlers)
  fix org and r :: "current_user \<times> team_op"
  show "local_to team_view org (serve_team sha org r)"
    unfolding serve_team_def
    by (cases "snd r") (simp_all add: respond_def local_seq_any local_ret team_local)
qed

subsection \<open>Properties\<close>

text \<open>C5: tenant isolation of team and API-key management: in any sequence of requests, each
  organisation gets exactly the responses it would get if only its own requests were served.\<close>

theorem team_isolation:
  "responses_of org (fst (serve_all (serve_team sha) reqs db))
     = map snd (fst (serve_all (serve_team sha) (filter (\<lambda>(o', _). o' = org) reqs) db))"
  by (rule team.noninterference)

subsection \<open>Ownership\<close>

definition owner_ids :: "team_db \<Rightarrow> uuid set" where
  "owner_ids db = r_id ` {r \<in> set (t_roles db). r_name r = ''owner''}"

definition owners :: "team_db \<Rightarrow> uuid set" where
  "owners db = mb_id ` {m \<in> set (t_members db). mb_role_id m \<in> owner_ids db}"

definition unique_roles :: "team_db \<Rightarrow> bool" where
  "unique_roles db \<longleftrightarrow> distinct (map r_id (t_roles db))"

text \<open>What a request may do to the owners: roles stay, owners only leave.\<close>

definition no_new_owner :: "team_db \<Rightarrow> team_db \<Rightarrow> bool" where
  "no_new_owner db db' \<longleftrightarrow> t_roles db' = t_roles db \<and> owners db' \<subseteq> owners db"

lemma no_new_owner_refl [simp]: "no_new_owner db db"
  by (simp add: no_new_owner_def)

lemma no_new_owner_trans: "no_new_owner a b \<Longrightarrow> no_new_owner b c \<Longrightarrow> no_new_owner a c"
  by (auto simp: no_new_owner_def)

lemma owners_update:
  assumes "\<And>m. mb_id (f m) = mb_id m" and "\<And>m. mb_role_id (f m) \<in> owner_ids db \<Longrightarrow> mb_role_id m \<in> owner_ids db"
  shows "no_new_owner db (db\<lparr>t_members := update_where P f (t_members db)\<rparr>)"
proof -
  have "owner_ids (db\<lparr>t_members := update_where P f (t_members db)\<rparr>) = owner_ids db" by (simp add: owner_ids_def)
  then show ?thesis
    using assms by (auto simp: no_new_owner_def owners_def update_where_def image_iff split: if_splits)
qed

lemma system_role_not_owner:
  assumes "unique_roles db" and "system_role name db = Some r" and "name \<noteq> ''owner''"
  shows "r_id r \<notin> owner_ids db"
proof
  assume "r_id r \<in> owner_ids db"
  then obtain r' where r': "r' \<in> set (t_roles db)" "r_name r' = ''owner''" "r_id r = r_id r'"
    by (auto simp: owner_ids_def)
  have r: "r \<in> set (t_roles db)" "r_name r = name"
    using find_Some_iff' [OF assms(2) [unfolded system_role_def]] by auto
  have "r = r'" using assms(1) r r' by (auto simp: unique_roles_def distinct_map inj_on_def)
  with r r' assms(3) show False by simp
qed

lemma update_member_role_owners:
  assumes "unique_roles db"
  shows "no_new_owner db (snd (update_member_role i body user db))"
proof -
  have "no_new_owner db (db\<lparr>t_members := update_where P (\<lambda>m. m\<lparr>mb_role_id := r_id r\<rparr>) (t_members db)\<rparr>)"
    if "system_role name db = Some r" "name \<noteq> ''owner''" for P r name
    by (rule owners_update) (use system_role_not_owner [OF assms that] in auto)
  then show ?thesis
    by (auto simp: update_member_role_def lift_permission exec_simps save_member_def
        split: json.splits option.splits)
qed

lemma team_handler_owners:
  assumes "unique_roles db"
  shows "no_new_owner db (snd (team_handler sha user op db))"
proof (cases op)
  case (UpdateMemberRole i body)
  then show ?thesis
    using update_member_role_owners [OF assms, of i body user]
    by (auto simp: respond_def seq_def ret_def split: prod.splits sum.splits)
next
  case (RemoveMember i)
  have "no_new_owner db (db\<lparr>t_members := update_where P (\<lambda>m. m\<lparr>mb_is_active := False\<rparr>) (t_members db)\<rparr>)" for P
    by (rule owners_update) auto
  then show ?thesis
    using RemoveMember by (auto simp: handler_simps remove_member_def save_member_def split: option.splits)
qed (auto simp: handler_simps team_handlers generate_key_def no_new_owner_def owners_def owner_ids_def
      split: option.splits)

lemma serve_team_owners:
  "unique_roles db \<Longrightarrow> no_new_owner db (snd (serve_all (serve_team sha) reqs db))"
proof (induction reqs arbitrary: db)
  case (Cons a reqs)
  obtain org req where a: "a = (org, req)" by (cases a)
  let ?db = "snd (serve_team sha org req db)"
  have step: "no_new_owner db ?db"
    using team_handler_owners [OF Cons.prems] by (simp add: serve_team_def)
  then have "unique_roles ?db" using Cons.prems by (simp add: no_new_owner_def unique_roles_def)
  from no_new_owner_trans [OF step Cons.IH [OF this]] show ?case by (simp add: a split_def Let_def)
qed simp

text \<open>No sequence of requests, whatever the roles of the users who send them, gives the owner
  role to a member who did not have it.\<close>

theorem owner_never_granted:
  assumes "unique_roles db"
  shows "owners (snd (serve_all (serve_team sha) reqs db)) \<subseteq> owners db"
  using serve_team_owners [OF assms] by (simp add: no_new_owner_def)

definition demo_team_db :: team_db where
  "demo_team_db = \<lparr>t_roles = [\<lparr>r_id = 10, r_org_id = None, r_name = ''owner'', r_is_system = True\<rparr>,
                \<lparr>r_id = 11, r_org_id = None, r_name = ''admin'', r_is_system = True\<rparr>],
      t_members = [\<lparr>mb_id = 20, mb_org_id = 1, mb_user_id = 5, mb_role_id = 11, mb_joined_at = 0, mb_is_active = True\<rparr>],
      t_invites = [], t_keys = []\<rparr>"

definition demo_admin :: current_user where
  "demo_admin = \<lparr>user_sub = ''a'', user_org_id = 1, user_email = [], user_role = ''admin''\<rparr>"

lemma demo_unique_roles: "unique_roles demo_team_db"
  by (simp add: unique_roles_def demo_team_db_def)

theorem owner_never_granted_witness:
  "owners (snd (serve_all (serve_team id)
     [(1, demo_admin, UpdateMemberRole 20 [(''role_name'', JStr ''admin'')]), (1, demo_admin, RemoveMember 20)]
     demo_team_db)) \<subseteq> owners demo_team_db"
  by (rule owner_never_granted [OF demo_unique_roles])

text \<open>No API key and no invitation is ever created: \<open>CurrentUser\<close> has no \<open>user_id\<close>, so
  the row's author is \<open>None\<close> and the not-null column refuses it; both handlers raise for every
  request and leave the database as it was.\<close>

theorem keys_and_invites_never_created:
  "(\<exists>e. create_key sha body user new_id token now db = (Inl e, db)) \<and>
   (\<exists>e. invite_member req user new_id token now db = (Inl e, db))"
  by (auto simp: create_key_def invite_member_def generate_key_def handler_simps split: option.splits)

end
