(* ===== verification/ThreatIntel.thy ===== *)
theory ThreatIntel
  imports Json Tables
begin

text \<open>
  The appliance's threat-signature database, \<open>threat_intel/database.py\<close> over the types of
  \<open>threat_intel/models.py\<close>. The SQLite file is a record of its three tables. A column the code
  fills with \<open>json.dumps\<close> holds the value itself, as \<open>json.loads\<close> reads back what
  \<open>dumps\<close> wrote. Fetching the feed and SQLite's conversion of a value bound to a REAL
  column are arguments; so are the clock readings.
\<close>

subsection \<open>Types\<close>

datatype threat_severity = CRITICAL | HIGH | MEDIUM | LOW | INFO

datatype threat_type = RANSOMWARE | MALWARE | APT | CVE | YARA

definition threat_severity_of :: "string \<Rightarrow> threat_severity result" where
  "threat_severity_of s =
     (case map_of [(''critical'', CRITICAL), (''high'', HIGH), (''medium'', MEDIUM), (''low'', LOW), (''info'', INFO)] s of
        Some v \<Rightarrow> Inr v | None \<Rightarrow> Inl (ValueError (repr_str s @ '' is not a valid ThreatSeverity'')))"

definition threat_type_of :: "string \<Rightarrow> threat_type result" where
  "threat_type_of s =
     (case map_of [(''ransomware'', RANSOMWARE), (''malware'', MALWARE), (''apt'', APT), (''cve'', CVE), (''yara'', YARA)] s of
        Some v \<Rightarrow> Inr v | None \<Rightarrow> Inl (ValueError (repr_str s @ '' is not a valid ThreatType'')))"

record threat_signature =
  sg_id :: "string option"
  sg_name :: string
  sg_family :: string
  sg_threat_type :: threat_type
  sg_severity :: threat_severity
  sg_process_names :: json
  sg_file_hashes :: json
  sg_file_paths :: json
  sg_registry_keys :: json
  sg_network_iocs :: json
  sg_mitre_technique :: "string option"
  sg_cve_id :: "string option"
  sg_cvss_score :: json
  sg_description :: string
  sg_remediation :: string

definition bslash :: string where
  "bslash = [CHR 0x5C]"

definition SEED_SIGNATURES :: "dict list" where
  "SEED_SIGNATURES =
    [[(''id'', JStr ''ransomware-lockbit3''),
      (''name'', JStr ''LockBit 3.0''),
      (''family'', JStr ''LockBit''),
      (''threat_type'', JStr ''ransomware''),
      (''severity'', JStr ''critical''),
      (''process_names'', JArr [JStr ''svchost32.exe'', JStr ''lockbit.exe'', JStr ''lb3.exe'']),
      (''file_hashes'', JArr []),
      (''file_paths'', JArr [JStr (''*'' @ bslash @ ''AppData'' @ bslash @ ''Roaming'' @ bslash @ ''*.exe''), JStr (''*'' @ bslash @ ''Temp'' @ bslash @ ''LB3*'')]),
      (''registry_keys'', JArr [JStr (''HKCU'' @ bslash @ ''Software'' @ bslash @ ''BlockInput''), JStr (''HKLM'' @ bslash @ ''SOFTWARE'' @ bslash @ ''Microsoft'' @ bslash @ ''Windows NT'' @ bslash @ ''CurrentVersion'' @ bslash @ ''Image File Execution Options'' @ bslash)]),
      (''network_iocs'', JArr [JStr ''185.220.101.47'', JStr ''lockbit3ouyhpne.onion'']),
      (''mitre_technique'', JStr ''T1486''),
      (''description'', JStr ''LockBit 3.0 ransomware - encrypts files and demands ransom.''),
      (''remediation'', JStr ''Isolate host immediately. Restore from pre-incident backup.'')],
     [(''id'', JStr ''ransomware-blackcat''),
      (''name'', JStr ''BlackCat/ALPHV''),
      (''family'', JStr ''BlackCat''),
      (''threat_type'', JStr ''ransomware''),
      (''severity'', JStr ''critical''),
      (''process_names'', JArr [JStr ''alphv.exe'', JStr ''blackcat.exe'']),
      (''file_hashes'', JArr []),
      (''file_paths'', JArr [JStr (''*'' @ bslash @ ''Temp'' @ bslash @ ''alphv*'')]),
      (''registry_keys'', JArr []),
      (''network_iocs'', JArr [JStr ''185.220.101.48'', JStr ''alphvmmm27oispztk.onion'']),
      (''mitre_technique'', JStr ''T1486''),
      (''description'', JStr ''BlackCat (ALPHV) ransomware written in Rust.''),
      (''remediation'', JStr ''Isolate host immediately. Restore from pre-incident backup.'')],
     [(''id'', JStr ''ransomware-clop''),
      (''name'', JStr ''Cl0p Ransomware''),
      (''family'', JStr ''Cl0p''),
      (''threat_type'', JStr ''ransomware''),
      (''severity'', JStr ''critical''),
      (''process_names'', JArr [JStr ''clop.exe'', JStr ''clopReadMe.exe'']),
      (''file_hashes'', JArr []),
      (''file_paths'', JArr [JStr ''*.clop'', JStr ''*.Clop'']),
      (''registry_keys'', JArr []),
      (''network_iocs'', JArr []),
      (''mitre_technique'', JStr ''T1486''),
      (''description'', JStr ''Cl0p ransomware, frequently used in MOVEit and GoAnywhere attacks.''),
      (''remediation'', JStr ''Isolate host. Check for exfiltration. Restore from backup.'')],
     [(''id'', JStr ''apt-apt29-persistence''),
      (''name'', JStr ''APT29 Registry Persistence''),
      (''family'', JStr ''APT29 (Cozy Bear)''),
      (''threat_type'', JStr ''apt''),
      (''severity'', JStr ''high''),
      (''process_names'', JArr []),
      (''file_hashes'', JArr []),
      (''file_paths'', JArr []),
      (''registry_keys'', JArr [JStr (''HKLM'' @ bslash @ ''SOFTWARE'' @ bslash @ ''Microsoft'' @ bslash @ ''Windows'' @ bslash @ ''CurrentVersion'' @ bslash @ ''Run'' @ bslash), JStr (''HKCU'' @ bslash @ ''SOFTWARE'' @ bslash @ ''Microsoft'' @ bslash @ ''Windows'' @ bslash @ ''CurrentVersion'' @ bslash @ ''Run'' @ bslash)]),
      (''network_iocs'', JArr []),
      (''mitre_technique'', JStr ''T1547.001''),
      (''description'', JStr ''APT29 persistence technique via registry run keys.''),
      (''remediation'', JStr ''Review and remove unauthorised run keys. Investigate lateral movement.'')],
     [(''id'', JStr ''cve-2024-40711''),
      (''name'', JStr ''CVE-2024-40711 - Veeam B&R RCE''),
      (''family'', JStr ''Veeam Vulnerability''),
      (''threat_type'', JStr ''cve''),
      (''severity'', JStr ''critical''),
      (''process_names'', JArr [JStr ''Veeam.Backup.Service.exe'']),
      (''file_hashes'', JArr []),
      (''file_paths'', JArr []),
      (''registry_keys'', JArr []),
      (''network_iocs'', JArr []),
      (''mitre_technique'', JStr ''T1190''),
      (''cve_id'', JStr ''CVE-2024-40711''),
      (''cvss_score'', JFloat (fl (49 / 5))),
      (''description'', JStr ''Critical RCE vulnerability in Veeam Backup & Replication 12.1 and earlier.''),
      (''remediation'', JStr ''Upgrade to Veeam B&R 12.1.2.172 or later immediately.'')],
     [(''id'', JStr ''malware-mimikatz''),
      (''name'', JStr ''Mimikatz Credential Dumper''),
      (''family'', JStr ''Mimikatz''),
      (''threat_type'', JStr ''malware''),
      (''severity'', JStr ''high''),
      (''process_names'', JArr [JStr ''mimikatz.exe'', JStr ''mimilib.dll'']),
      (''file_hashes'', JArr [JStr ''fc525c9683e8fe067095ba2ddc971889dc76cec2'']),
      (''file_paths'', JArr [JStr (''*'' @ bslash @ ''mimikatz*''), JStr (''*'' @ bslash @ ''sekurlsa*'')]),
      (''registry_keys'', JArr []),
      (''network_iocs'', JArr []),
      (''mitre_technique'', JStr ''T1003''),
      (''description'', JStr ''Credential dumping tool used by many threat actors.''),
      (''remediation'', JStr ''Remove file. Rotate all credentials. Investigate how it arrived.'')]]"

subsection \<open>Tables\<close>

text \<open>\<open>id TEXT PRIMARY KEY\<close> admits NULL in SQLite, and NULLs do not conflict.\<close>

record signature_row =
  td_id :: "string option"
  td_name :: string
  td_family :: string
  td_threat_type :: string
  td_severity :: string
  td_process_names :: json
  td_file_hashes :: json
  td_file_paths :: json
  td_registry_keys :: json
  td_network_iocs :: json
  td_mitre_technique :: "string option"
  td_cve_id :: "string option"
  td_cvss_score :: json
  td_description :: string
  td_remediation :: string
  td_updated_at :: string

record yara_row =
  yr_id :: string
  yr_name :: string
  yr_source :: string
  yr_rule_text :: string
  yr_enabled :: bool
  yr_updated_at :: string

record sync_row =
  sy_synced_at :: string
  sy_signatures_added :: nat
  sy_signatures_updated :: nat
  sy_error :: "string option"

record threat_db =
  th_signatures :: "signature_row list"
  th_yara_rules :: "yara_row list"
  th_sync_log :: "sync_row list"

definition empty_threat_db :: threat_db where
  "empty_threat_db = \<lparr>th_signatures = [], th_yara_rules = [], th_sync_log = []\<rparr>"

subsection \<open>Binding values\<close>

text \<open>A Python value bound to a TEXT column; numbers take the column's affinity.\<close>

definition bind_text :: "json \<Rightarrow> string option result" where
  "bind_text v = (case v of
     JNull \<Rightarrow> Inr None
   | JStr s \<Rightarrow> Inr (Some s)
   | JBool b \<Rightarrow> Inr (Some (if b then ''1'' else ''0''))
   | JInt n \<Rightarrow> if - (2 ^ 63) \<le> n \<and> n < 2 ^ 63 then Inr (Some (show_int n))
               else Inl (ExternalError ''Python int too large to convert to SQLite INTEGER'')
   | JFloat x \<Rightarrow> Inr (Some (repr_float x))
   | _ \<Rightarrow> Inl (ExternalError ''Error binding parameter: type is not supported''))"

definition not_null_text :: "string option \<Rightarrow> string result" where
  "not_null_text v = (case v of
     None \<Rightarrow> Inl (ExternalError ''IntegrityError: NOT NULL constraint failed'') | Some s \<Rightarrow> Inr s)"

text \<open>
  The row of an INSERT: all sixteen parameters are bound, then the NOT NULL columns checked.
\<close>

definition bind_row ::
    "(json \<Rightarrow> json result) \<Rightarrow> json \<Rightarrow> json \<Rightarrow> json \<Rightarrow> json \<Rightarrow> json \<Rightarrow> dict \<Rightarrow> string \<Rightarrow> signature_row result" where
  "bind_row bind_real sid name family threat_type severity sig now =
     and_then (bind_text sid) (\<lambda>i.
     and_then (bind_text name) (\<lambda>n.
     and_then (bind_text family) (\<lambda>f.
     and_then (bind_text threat_type) (\<lambda>t.
     and_then (bind_text severity) (\<lambda>s.
     and_then (bind_text (dget sig ''mitre_technique'')) (\<lambda>m.
     and_then (bind_text (dget sig ''cve_id'')) (\<lambda>c.
     and_then (bind_real (dget sig ''cvss_score'')) (\<lambda>cvss.
     and_then (bind_text (dget_or sig ''description'' (JStr []))) (\<lambda>d.
     and_then (bind_text (dget_or sig ''remediation'' (JStr []))) (\<lambda>r.
     and_then (not_null_text n) (\<lambda>n'.
     and_then (not_null_text f) (\<lambda>f'.
     and_then (not_null_text t) (\<lambda>t'.
     and_then (not_null_text s) (\<lambda>s'.
     and_then (not_null_text d) (\<lambda>d'.
     and_then (not_null_text r) (\<lambda>r'.
     Inr \<lparr>td_id = i, td_name = n', td_family = f', td_threat_type = t', td_severity = s',
          td_process_names = dget_or sig ''process_names'' (JArr []),
          td_file_hashes = dget_or sig ''file_hashes'' (JArr []),
          td_file_paths = dget_or sig ''file_paths'' (JArr []),
          td_registry_keys = dget_or sig ''registry_keys'' (JArr []),
          td_network_iocs = dget_or sig ''network_iocs'' (JArr []),
          td_mitre_technique = m, td_cve_id = c, td_cvss_score = cvss,
          td_description = d', td_remediation = r', td_updated_at = now\<rparr>))))))))))))))))"

definition same_id :: "signature_row \<Rightarrow> signature_row \<Rightarrow> bool" where
  "same_id new row \<longleftrightarrow> td_id new \<noteq> None \<and> td_id row = td_id new"

subsection \<open>Seeding\<close>

text \<open>\<open>INSERT OR IGNORE\<close>\<close>

definition insert_or_ignore :: "signature_row \<Rightarrow> signature_row list \<Rightarrow> signature_row list" where
  "insert_or_ignore new rows = (if list_ex (same_id new) rows then rows else rows @ [new])"

definition seed_row :: "(json \<Rightarrow> json result) \<Rightarrow> string \<Rightarrow> dict \<Rightarrow> signature_row result" where
  "seed_row bind_real now sig =
     and_then (dsub sig ''id'') (\<lambda>i.
     and_then (dsub sig ''name'') (\<lambda>n.
     and_then (dsub sig ''family'') (\<lambda>f.
     and_then (dsub sig ''threat_type'') (\<lambda>t.
     and_then (dsub sig ''severity'') (\<lambda>s.
     bind_row bind_real i n f t s sig now)))))"

definition seed_signatures :: "(json \<Rightarrow> json result) \<Rightarrow> string \<Rightarrow> (threat_db, unit) exec" where
  "seed_signatures bind_real now =
     for_each (\<lambda>sig.
       seq (lift_result (seed_row bind_real now sig)) (\<lambda>row.
       update (\<lambda>db. db\<lparr>th_signatures := insert_or_ignore row (th_signatures db)\<rparr>))) SEED_SIGNATURES"

subsection \<open>Reading\<close>

definition row_to_signature :: "signature_row \<Rightarrow> threat_signature result" where
  "row_to_signature row =
     and_then (threat_type_of (td_threat_type row)) (\<lambda>t.
     and_then (threat_severity_of (td_severity row)) (\<lambda>s.
     Inr \<lparr>sg_id = td_id row, sg_name = td_name row, sg_family = td_family row,
          sg_threat_type = t, sg_severity = s,
          sg_process_names = td_process_names row, sg_file_hashes = td_file_hashes row,
          sg_file_paths = td_file_paths row, sg_registry_keys = td_registry_keys row,
          sg_network_iocs = td_network_iocs row, sg_mitre_technique = td_mitre_technique row,
          sg_cve_id = td_cve_id row, sg_cvss_score = td_cvss_score row,
          sg_description = td_description row, sg_remediation = td_remediation row\<rparr>))"

text \<open>\<open>column != '[]'\<close>: the only value dumped as \<open>[]\<close> is the empty list.\<close>

definition get_all_signatures :: "threat_db \<Rightarrow> threat_signature list result" where
  "get_all_signatures db = map_result row_to_signature (th_signatures db)"

definition get_process_signatures :: "threat_db \<Rightarrow> threat_signature list result" where
  "get_process_signatures db =
     map_result row_to_signature (filter (\<lambda>r. td_process_names r \<noteq> JArr []) (th_signatures db))"

definition get_hash_signatures :: "threat_db \<Rightarrow> threat_signature list result" where
  "get_hash_signatures db =
     map_result row_to_signature (filter (\<lambda>r. td_file_hashes r \<noteq> JArr []) (th_signatures db))"

definition get_network_signatures :: "threat_db \<Rightarrow> threat_signature list result" where
  "get_network_signatures db =
     map_result row_to_signature (filter (\<lambda>r. td_network_iocs r \<noteq> JArr []) (th_signatures db))"

definition signature_count :: "threat_db \<Rightarrow> nat" where
  "signature_count db = length (th_signatures db)"

definition get_yara_rules :: "threat_db \<Rightarrow> dict list" where
  "get_yara_rules db =
     map (\<lambda>r. [(''id'', JStr (yr_id r)), (''name'', JStr (yr_name r)), (''rule_text'', JStr (yr_rule_text r))])
       (filter yr_enabled (th_yara_rules db))"

definition upsert_yara_rule :: "string \<Rightarrow> string \<Rightarrow> string \<Rightarrow> string \<Rightarrow> string \<Rightarrow> (threat_db, unit) exec" where
  "upsert_yara_rule rule_id name source rule_text now =
     update (\<lambda>db. db\<lparr>th_yara_rules :=
       (if list_ex (\<lambda>r. yr_id r = rule_id) (th_yara_rules db)
        then map (\<lambda>r. if yr_id r = rule_id
                      then r\<lparr>yr_name := name, yr_rule_text := rule_text, yr_updated_at := now\<rparr> else r) (th_yara_rules db)
        else th_yara_rules db @ [\<lparr>yr_id = rule_id, yr_name = name, yr_source = source, yr_rule_text = rule_text,
               yr_enabled = True, yr_updated_at = now\<rparr>])\<rparr>)"

subsection \<open>Syncing from the cloud feed\<close>

text \<open>The state of a sync: the database and the two counters.\<close>

record sync_state =
  ss_db :: threat_db
  ss_added :: nat
  ss_updated :: nat

text \<open>\<open>ON CONFLICT(id) DO UPDATE SET\<close>\<close>

definition upsert_signature :: "signature_row \<Rightarrow> signature_row list \<Rightarrow> signature_row list" where
  "upsert_signature new rows =
     (if list_ex (same_id new) rows
      then map (\<lambda>r. if same_id new r
                    then r\<lparr>td_name := td_name new, td_severity := td_severity new,
                           td_process_names := td_process_names new, td_file_hashes := td_file_hashes new,
                           td_network_iocs := td_network_iocs new, td_updated_at := td_updated_at new\<rparr>
                    else r) rows
      else rows @ [new])"

definition feed_row :: "(json \<Rightarrow> json result) \<Rightarrow> string \<Rightarrow> json \<Rightarrow> signature_row result" where
  "feed_row bind_real now v =
     and_then (as_dict v) (\<lambda>sig.
     and_then (dsub sig ''id'') (\<lambda>i.
     and_then (bind_text i) (\<lambda>_.
     and_then (dsub sig ''name'') (\<lambda>n.
     bind_row bind_real i n (dget_or sig ''family'' (JStr [])) (dget_or sig ''threat_type'' (JStr ''malware''))
       (dget_or sig ''severity'' (JStr ''medium'')) sig now))))"

definition store_signature :: "signature_row \<Rightarrow> sync_state \<Rightarrow> sync_state" where
  "store_signature row s =
     (let rows = th_signatures (ss_db s);
          existing = list_ex (same_id row) rows;
          s' = s\<lparr>ss_db := (ss_db s)\<lparr>th_signatures := upsert_signature row rows\<rparr>\<rparr>
      in if existing then s'\<lparr>ss_updated := ss_updated s + 1\<rparr> else s'\<lparr>ss_added := ss_added s + 1\<rparr>)"

definition sync_feed :: "(json \<Rightarrow> json result) \<Rightarrow> string \<Rightarrow> json list \<Rightarrow> (sync_state, unit) exec" where
  "sync_feed bind_real now signatures =
     for_each (\<lambda>v. seq (lift_result (feed_row bind_real now v)) (\<lambda>row. update (store_signature row))) signatures"

record sync_outcome =
  so_added :: nat
  so_updated :: nat
  so_error :: "string option"

text \<open>
  \<open>try ... except ... finally\<close>: the log entry's commit also commits what the loop wrote before
  an exception.
\<close>

definition sync_from_cloud ::
    "(json \<Rightarrow> json result) \<Rightarrow> (string \<Rightarrow> string \<Rightarrow> json result) \<Rightarrow> string \<Rightarrow> string \<Rightarrow> string \<Rightarrow> string
       \<Rightarrow> (threat_db, sync_outcome) exec" where
  "sync_from_cloud bind_real fetch feed_url api_key now logged_at db =
     (let body = seq (lift_result (fetch feed_url api_key)) (\<lambda>data.
            seq (lift_result (case data of JObj d \<Rightarrow> Inr d | _ \<Rightarrow> Inl (AttributeError ''object has no attribute get''))) (\<lambda>d.
            seq (lift_result (iterate (dget_or d ''signatures'' (JArr [])))) (\<lambda>signatures.
            sync_feed bind_real now signatures)));
          (r, s) = body \<lparr>ss_db = db, ss_added = 0, ss_updated = 0\<rparr>;
          error = (case r of Inl exc \<Rightarrow> Some (exn_text exc) | Inr _ \<Rightarrow> None)
      in (Inr \<lparr>so_added = ss_added s, so_updated = ss_updated s, so_error = error\<rparr>,
          (ss_db s)\<lparr>th_sync_log := th_sync_log (ss_db s) @
            [\<lparr>sy_synced_at = logged_at, sy_signatures_added = ss_added s,
              sy_signatures_updated = ss_updated s, sy_error = error\<rparr>]\<rparr>))"

subsection \<open>Lemmas\<close>

definition well_typed :: "signature_row \<Rightarrow> bool" where
  "well_typed r \<longleftrightarrow>
     td_threat_type r \<in> {''ransomware'', ''malware'', ''apt'', ''cve'', ''yara''} \<and>
     td_severity r \<in> {''critical'', ''high'', ''medium'', ''low'', ''info''}"

lemma threat_type_of_iff:
  "(\<exists>t. threat_type_of s = Inr t) \<longleftrightarrow> s \<in> {''ransomware'', ''malware'', ''apt'', ''cve'', ''yara''}"
  by (auto simp: threat_type_of_def)

lemma threat_severity_of_iff:
  "(\<exists>t. threat_severity_of s = Inr t) \<longleftrightarrow> s \<in> {''critical'', ''high'', ''medium'', ''low'', ''info''}"
  by (auto simp: threat_severity_of_def)

lemma row_to_signature_iff: "(\<exists>g. row_to_signature r = Inr g) \<longleftrightarrow> well_typed r"
  unfolding well_typed_def threat_type_of_iff [symmetric] threat_severity_of_iff [symmetric]
  by (cases "threat_type_of (td_threat_type r)"; cases "threat_severity_of (td_severity r)")
    (simp_all add: row_to_signature_def)

lemma map_result_iff: "(\<exists>ys. map_result f xs = Inr ys) \<longleftrightarrow> list_all (\<lambda>x. \<exists>y. f x = Inr y) xs"
  by (induction xs) (auto simp: and_then_Inr)

lemma read_iff: "(\<exists>gs. map_result row_to_signature rows = Inr gs) \<longleftrightarrow> list_all well_typed rows"
  by (simp add: map_result_iff row_to_signature_iff)

lemma map_result_set: "map_result f xs = Inr ys \<Longrightarrow> y \<in> set ys \<longleftrightarrow> (\<exists>x \<in> set xs. f x = Inr y)"
  by (induction xs arbitrary: ys) (auto simp: and_then_Inr)

text \<open>Storing one signature.\<close>

lemma length_upsert: "length (upsert_signature new rows)
    = (if list_ex (same_id new) rows then length rows else Suc (length rows))"
  by (simp add: upsert_signature_def)

text \<open>The signature table obeys the laws of \<open>upsert_table\<close>; the columns set by the statement.\<close>

definition assign_signature :: "signature_row \<Rightarrow> signature_row \<Rightarrow> signature_row" where
  "assign_signature new r = r\<lparr>td_name := td_name new, td_severity := td_severity new,
     td_process_names := td_process_names new, td_file_hashes := td_file_hashes new,
     td_network_iocs := td_network_iocs new, td_updated_at := td_updated_at new\<rparr>"

definition has_id :: "signature_row \<Rightarrow> bool" where
  "has_id r \<longleftrightarrow> td_id r \<noteq> None"

interpretation signatures: upsert_table same_id assign_signature upsert_signature has_id
  by unfold_locales
    (simp_all add: upsert_signature_def update_where_def same_id_def [abs_def] assign_signature_def [abs_def] has_id_def)

lemma ids_upsert: "\<exists>more. map td_id (upsert_signature new rows) = map td_id rows @ more"
  using signatures.batch_appends [of td_id "[new]" rows] by (simp add: assign_signature_def)

definition accounted :: "threat_db \<Rightarrow> sync_state \<Rightarrow> bool" where
  "accounted db s \<longleftrightarrow>
     length (th_signatures (ss_db s)) = length (th_signatures db) + ss_added s \<and>
     (\<exists>more. map td_id (th_signatures (ss_db s)) = map td_id (th_signatures db) @ more) \<and>
     th_yara_rules (ss_db s) = th_yara_rules db \<and> th_sync_log (ss_db s) = th_sync_log db"

lemma accounted_store: "accounted db s \<Longrightarrow> accounted db (store_signature row s)"
  using ids_upsert [of row "th_signatures (ss_db s)"]
  by (auto simp: accounted_def store_signature_def Let_def length_upsert)

lemma accounted_feed: "accounted db s \<Longrightarrow> accounted db (snd (sync_feed bind_real now vs s))"
  unfolding sync_feed_def
proof (rule for_each_invariant)
  fix v s assume s: "accounted db s"
  show "accounted db (snd (seq (lift_result (feed_row bind_real now v)) (\<lambda>row. update (store_signature row)) s))"
    using accounted_store [OF s] s
    by (cases "feed_row bind_real now v") (simp_all add: exec_simps)
qed

text \<open>SQLite's REAL columns store NULL and floats as they are.\<close>

definition keeps_floats :: "(json \<Rightarrow> json result) \<Rightarrow> bool" where
  "keeps_floats bind_real \<longleftrightarrow> bind_real JNull = Inr JNull \<and> (\<forall>x. bind_real (JFloat x) = Inr (JFloat x))"

definition SEED_HASH :: string where
  "SEED_HASH = ''fc525c9683e8fe067095ba2ddc971889dc76cec2''"

definition seed_hashes :: "signature_row \<Rightarrow> bool" where
  "seed_hashes r \<longleftrightarrow> td_file_hashes r = JArr [] \<or> td_file_hashes r = JArr [JStr SEED_HASH]"

lemma seed_rows:
  assumes "keeps_floats bind_real" and "sig \<in> set SEED_SIGNATURES"
  shows "\<exists>r. seed_row bind_real now sig = Inr r \<and> well_typed r \<and> seed_hashes r"
  using assms
  by (auto simp: SEED_SIGNATURES_def seed_row_def dsub_def bind_row_def bind_text_def not_null_text_def
      dget_def dget_or_def well_typed_def keeps_floats_def seed_hashes_def SEED_HASH_def)

lemma for_each_all:
  assumes "\<And>x s. x \<in> set xs \<Longrightarrow> P s \<Longrightarrow> \<exists>s'. f x s = (Inr (), s') \<and> P s'" and "P s"
  shows "\<exists>s'. for_each f xs s = (Inr (), s') \<and> P s'"
  using assms
proof (induction xs arbitrary: s)
  case (Cons x xs)
  from Cons.prems obtain s' where "f x s = (Inr (), s')" "P s'" by (meson list.set_intros(1))
  moreover obtain s'' where "for_each f xs s' = (Inr (), s'')" "P s''"
    using Cons.IH [of s'] Cons.prems(1) \<open>P s'\<close> by auto
  ultimately show ?case by (auto simp: seq_def)
qed (simp add: ret_def)

lemma seeding:
  assumes bind: "keeps_floats bind_real" and ok: "list_all well_typed (th_signatures db)"
  shows "\<exists>db'. seed_signatures bind_real now db = (Inr (), db') \<and> list_all well_typed (th_signatures db') \<and>
     (list_all seed_hashes (th_signatures db) \<longrightarrow> list_all seed_hashes (th_signatures db'))"
proof -
  let ?f = "\<lambda>sig. seq (lift_result (seed_row bind_real now sig)) (\<lambda>row.
       update (\<lambda>db. db\<lparr>th_signatures := insert_or_ignore row (th_signatures db)\<rparr>))"
  let ?P = "\<lambda>d. list_all well_typed (th_signatures d) \<and>
     (list_all seed_hashes (th_signatures db) \<longrightarrow> list_all seed_hashes (th_signatures d))"
  have "\<exists>s'. ?f sig s = (Inr (), s') \<and> ?P s'" if sig: "sig \<in> set SEED_SIGNATURES" and P: "?P s" for sig s
  proof -
    from seed_rows [OF bind sig, of now] obtain r where r: "seed_row bind_real now sig = Inr r"
      and "well_typed r" "seed_hashes r" by blast
    with P show ?thesis by (simp add: r exec_simps insert_or_ignore_def)
  qed
  from for_each_all [of SEED_SIGNATURES ?P ?f db, OF this] ok
  show ?thesis unfolding seed_signatures_def by simp
qed

lemma sync_shape:
  "\<exists>(r :: unit result) s. sync_from_cloud bind_real fetch url key now logged db
     = (Inr \<lparr>so_added = ss_added s, so_updated = ss_updated s,
            so_error = (case r of Inl exc \<Rightarrow> Some (exn_text exc) | Inr _ \<Rightarrow> None)\<rparr>,
        (ss_db s)\<lparr>th_sync_log := th_sync_log (ss_db s) @
            [\<lparr>sy_synced_at = logged, sy_signatures_added = ss_added s, sy_signatures_updated = ss_updated s,
              sy_error = (case r of Inl exc \<Rightarrow> Some (exn_text exc) | Inr _ \<Rightarrow> None)\<rparr>]\<rparr>) \<and> accounted db s"
proof -
  let ?s0 = "\<lparr>ss_db = db, ss_added = 0, ss_updated = 0\<rparr>"
  have start: "accounted db ?s0" by (simp add: accounted_def)
  let ?body = "seq (lift_result (fetch url key)) (\<lambda>data.
            seq (lift_result (case data of JObj d \<Rightarrow> Inr d | _ \<Rightarrow> Inl (AttributeError ''object has no attribute get''))) (\<lambda>d.
            seq (lift_result (iterate (dget_or d ''signatures'' (JArr [])))) (\<lambda>signatures.
            sync_feed bind_real now signatures)))"
  have lift: "accounted db (snd (seq (lift_result r) f ?s0))"
    if "\<And>x. accounted db (snd (f x ?s0))" for r :: "'x result" and f :: "'x \<Rightarrow> (sync_state, unit) exec"
    using that start by (cases r) (simp_all add: seq_def lift_result_def)
  have acc: "accounted db (snd (?body ?s0))" by (intro lift accounted_feed start)
  show ?thesis unfolding sync_from_cloud_def Let_def case_prod_beta
    by (intro exI [of _ "fst (?body ?s0)"] exI [of _ "snd (?body ?s0)"] conjI refl acc)
qed

subsection \<open>Properties\<close>

text \<open>A sync never raises and never loses a signature, whatever the feed answers: it appends one log
  entry carrying the counters and the error it returns, keeps the YARA rules, and leaves the stored
  identifiers in place with exactly as many rows after them as it reports added. What was stored
  before a malformed entry stays. \<close>

theorem sync_account:
  "\<exists>o' db' more. sync_from_cloud bind_real fetch url key now logged db = (Inr o', db') \<and>
     th_sync_log db' = th_sync_log db @ [\<lparr>sy_synced_at = logged, sy_signatures_added = so_added o',
        sy_signatures_updated = so_updated o', sy_error = so_error o'\<rparr>] \<and>
     th_yara_rules db' = th_yara_rules db \<and>
     map td_id (th_signatures db') = map td_id (th_signatures db) @ more \<and> length more = so_added o'"
proof -
  from sync_shape [of bind_real fetch url key now logged db] obtain r :: "unit result" and s where
    eq: "sync_from_cloud bind_real fetch url key now logged db
     = (Inr \<lparr>so_added = ss_added s, so_updated = ss_updated s,
            so_error = (case r of Inl exc \<Rightarrow> Some (exn_text exc) | Inr _ \<Rightarrow> None)\<rparr>,
        (ss_db s)\<lparr>th_sync_log := th_sync_log (ss_db s) @
            [\<lparr>sy_synced_at = logged, sy_signatures_added = ss_added s, sy_signatures_updated = ss_updated s,
              sy_error = (case r of Inl exc \<Rightarrow> Some (exn_text exc) | Inr _ \<Rightarrow> None)\<rparr>]\<rparr>)"
    and acc: "accounted db s" by blast
  from acc obtain more where more: "map td_id (th_signatures (ss_db s)) = map td_id (th_signatures db) @ more"
    by (auto simp: accounted_def)
  have "length (map td_id (th_signatures (ss_db s))) = length (th_signatures db) + length more"
    by (simp only: more length_append length_map)
  then have "length more = ss_added s" using acc by (simp add: accounted_def)
  then show ?thesis unfolding eq using acc more by (auto simp: accounted_def)
qed

text \<open>C17: the stored signatures can be read exactly when every row's type and severity belong to the two
  enumerations, and seeding keeps that so; the sync does not: one feed entry with another severity is
  stored and counted without an error, and from then on reading the signatures raises. \<close>

theorem signatures_well_typed:
  assumes "keeps_floats bind_real"
    and "fetch url key = Inr (JObj [(''signatures'', JArr [v])])"
    and "feed_row bind_real now v = Inr row" and "\<not> well_typed row" and "td_id row = None \<or> td_id row \<notin> td_id ` set (th_signatures db)"
  shows "((\<exists>gs. get_all_signatures db = Inr gs) \<longleftrightarrow> list_all well_typed (th_signatures db)) \<and>
     (list_all well_typed (th_signatures db) \<longrightarrow>
        list_all well_typed (th_signatures (snd (seed_signatures bind_real now db)))) \<and>
     fst (sync_from_cloud bind_real fetch url key now logged db)
       = Inr \<lparr>so_added = 1, so_updated = 0, so_error = None\<rparr> \<and>
     (\<exists>e. get_all_signatures (snd (sync_from_cloud bind_real fetch url key now logged db)) = Inl e)"
proof -
  have read: "(\<exists>gs. get_all_signatures d = Inr gs) \<longleftrightarrow> list_all well_typed (th_signatures d)" for d
    by (simp add: get_all_signatures_def read_iff)
  have new: "\<not> list_ex (same_id row) (th_signatures db)"
    using assms(5) by (auto simp: list_ex_iff same_id_def image_iff)
  have "sync_from_cloud bind_real fetch url key now logged db
      = (Inr \<lparr>so_added = 1, so_updated = 0, so_error = None\<rparr>,
         db\<lparr>th_signatures := th_signatures db @ [row],
            th_sync_log := th_sync_log db @ [\<lparr>sy_synced_at = logged, sy_signatures_added = 1,
              sy_signatures_updated = 0, sy_error = None\<rparr>]\<rparr>)"
    by (simp add: sync_from_cloud_def assms(2,3) exec_simps sync_feed_def iterate_def dget_or_def
        store_signature_def upsert_signature_def new Let_def)
  moreover have "\<exists>e. get_all_signatures (db\<lparr>th_signatures := th_signatures db @ [row], th_sync_log := l\<rparr>) = Inl e" for l
    using read [of "db\<lparr>th_signatures := th_signatures db @ [row], th_sync_log := l\<rparr>"] assms(4)
    by (cases "get_all_signatures (db\<lparr>th_signatures := th_signatures db @ [row], th_sync_log := l\<rparr>)") auto
  ultimately show ?thesis
    using read [of db] seeding [OF assms(1), of db now] by auto
qed

definition demo_entry :: json where
  "demo_entry = JObj [(''id'', JStr ''x''), (''name'', JStr ''X''), (''severity'', JStr ''urgent'')]"

theorem signatures_well_typed_witness:
  "fst (sync_from_cloud Inr (\<lambda>_ _. Inr (JObj [(''signatures'', JArr [demo_entry])])) [] [] [] [] empty_threat_db)
     = Inr \<lparr>so_added = 1, so_updated = 0, so_error = None\<rparr>"
proof -
  let ?row = "\<lparr>td_id = Some ''x'', td_name = ''X'', td_family = [], td_threat_type = ''malware'',
      td_severity = ''urgent'', td_process_names = JArr [], td_file_hashes = JArr [], td_file_paths = JArr [],
      td_registry_keys = JArr [], td_network_iocs = JArr [], td_mitre_technique = None, td_cve_id = None,
      td_cvss_score = JNull, td_description = [], td_remediation = [], td_updated_at = []\<rparr>"
  have row: "feed_row Inr [] demo_entry = Inr ?row" by code_simp
  show ?thesis
    by (rule signatures_well_typed [THEN conjunct2, THEN conjunct2, THEN conjunct1, OF _ _ row])
      (simp_all add: keeps_floats_def well_typed_def empty_threat_db_def)
qed

end
