(* ===== verification/ThreatRoutes.thy ===== *)
theory ThreatRoutes
  imports IncidentResponse ApplianceService
begin

text \<open>
  The threat-intelligence routes of the API, \<open>routers/threat_intel.py\<close>, with the loading of an
  organisation's integrations, \<open>services/notification_config.py\<close>: an appliance submits a scan,
  the API stores it with its findings and starts incident response for the severe ones; users read
  and resolve. Fresh identifiers and what the world answers while an incident is handled are the
  fields of \<open>scan_env\<close>; a time is a number of microseconds.
\<close>

subsection \<open>State\<close>

record scan_row =
  sn_id :: uuid
  sn_org_id :: uuid
  sn_appliance_id :: uuid
  sn_scan_id :: string
  sn_started_at :: int
  sn_completed_at :: int
  sn_hosts_scanned :: int
  sn_signatures_checked :: int
  sn_yara_rules_checked :: int
  sn_critical_count :: nat
  sn_high_count :: nat
  sn_medium_count :: nat
  sn_low_count :: nat
  sn_error :: "string option"

record threat_tables =
  tt_appliances :: appliance_db
  tt_channels :: "channel_row list"
  tt_scans :: "scan_row list"
  tt_findings :: "finding_row list"
  tt_incidents :: "incident_row list"
  tt_sent :: "sent list"

definition at_appliances :: "(appliance_db, 'a) exec \<Rightarrow> (threat_tables, 'a) exec" where
  "at_appliances m s = (case m (tt_appliances s) of (r, a) \<Rightarrow> (r, s\<lparr>tt_appliances := a\<rparr>))"

definition at_incidents :: "(ir_db, 'a) exec \<Rightarrow> (threat_tables, 'a) exec" where
  "at_incidents m s =
     (case m \<lparr>id_incidents = tt_incidents s, id_sent = tt_sent s\<rparr> of
        (r, d) \<Rightarrow> (r, s\<lparr>tt_incidents := id_incidents d, tt_sent := id_sent d\<rparr>))"

subsection \<open>The integrations of an organisation\<close>

definition channel_dict :: "channel_row \<Rightarrow> dict" where
  "channel_dict row = [(''name'', JStr (ch_name row)), (''channel_type'', JStr (ch_channel_type row)),
     (''destination'', JStr (ch_destination row)), (''events'', JArr (map JStr (ch_events row))),
     (''enabled'', JBool (ch_enabled row))]"

definition siem_dict :: "string \<Rightarrow> dict result" where
  "siem_dict destination =
     (let parts = split_on (CHR '':'') destination in
      and_then (if CHR '':'' \<in> set destination
                then (case int_of_str (parts ! 1) of
                        None \<Rightarrow> Inl (ValueError ''invalid literal for int()'') | Some p \<Rightarrow> Inr p)
                else Inr 514) (\<lambda>port.
      Inr [(''host'', JStr (hd parts)), (''port'', JInt port), (''protocol'', JStr ''udp''), (''format'', JStr ''cef'')]))"

definition veeamone_dict :: "string \<Rightarrow> dict" where
  "veeamone_dict destination =
     (let parts = split_on (CHR ''|'') destination in
      [(''url'', JStr (hd parts)), (''username'', JStr (if 1 < length parts then parts ! 1 else [])),
       (''password'', JStr (if 2 < length parts then parts ! 2 else []))])"

definition add_integration :: "channel_row \<Rightarrow> ir_config \<Rightarrow> ir_config result" where
  "add_integration row cfg =
     (if ch_channel_type row = ''soar''
      then Inr (cfg\<lparr>cf_soar := [(''platform'', JStr (ch_name row)), (''url'', JStr (ch_destination row)), (''api_key'', JStr [])]\<rparr>)
      else if ch_channel_type row = ''siem''
      then and_then (siem_dict (ch_destination row)) (\<lambda>d. Inr (cfg\<lparr>cf_siem := d\<rparr>))
      else if ch_channel_type row = ''veeamone''
      then Inr (cfg\<lparr>cf_veeamone := veeamone_dict (ch_destination row)\<rparr>)
      else Inr (cfg\<lparr>cf_channels := cf_channels cfg @ [channel_dict row]\<rparr>))"

fun add_integrations :: "channel_row list \<Rightarrow> ir_config \<Rightarrow> ir_config result" where
  "add_integrations [] cfg = Inr cfg"
| "add_integrations (row # rows) cfg = and_then (add_integration row cfg) (add_integrations rows)"

definition get_org_integration_configs :: "channel_row list \<Rightarrow> uuid \<Rightarrow> ir_config result" where
  "get_org_integration_configs table org_id =
     add_integrations (filter (\<lambda>c. ch_org_id c = org_id \<and> ch_enabled c) table) no_config"

subsection \<open>Submitting a scan\<close>

record scan_finding_in =
  fi_signature_id :: string
  fi_threat_name :: string
  fi_threat_type :: string
  fi_severity :: string
  fi_host :: string
  fi_indicator_type :: string
  fi_indicator_value :: string
  fi_context :: dict
  fi_mitre_technique :: "string option"
  fi_detected_at :: int

record scan_result_in =
  si_scan_id :: string
  si_appliance_id :: string
  si_started_at :: int
  si_completed_at :: int
  si_hosts_scanned :: int
  si_signatures_checked :: int
  si_yara_rules_checked :: int
  si_findings :: "scan_finding_in list"
  si_error :: "string option"

record scan_env =
  te_scan_id :: uuid
  te_finding_id :: "nat \<Rightarrow> uuid"
  te_incident_id :: "nat \<Rightarrow> uuid"
  te_hex8 :: "nat \<Rightarrow> string"
  te_world :: "nat \<Rightarrow> ir_world"

record scan_response =
  sp_scan_id :: string
  sp_findings :: nat
  sp_critical :: nat
  sp_incidents_created :: nat

definition check_body_appliance :: "scan_result_in \<Rightarrow> appliance_row \<Rightarrow> unit result" where
  "check_body_appliance payload appliance =
     (if si_appliance_id payload = [] then Inr ()
      else case uuid_of_str (si_appliance_id payload) of
             None \<Rightarrow> Inl (HTTPException 400 ''Invalid appliance_id'')
           | Some i \<Rightarrow>
               if i \<noteq> ap_id appliance
               then Inl (HTTPException 403 ''appliance_id does not match authenticated appliance'')
               else Inr ())"

definition severity_count :: "string \<Rightarrow> scan_result_in \<Rightarrow> nat" where
  "severity_count sev payload = count_if (\<lambda>f. lower (fi_severity f) = sev) (si_findings payload)"

definition scan_row_of :: "scan_env \<Rightarrow> scan_result_in \<Rightarrow> appliance_row \<Rightarrow> scan_row" where
  "scan_row_of env payload appliance =
     \<lparr>sn_id = te_scan_id env, sn_org_id = ap_org_id appliance, sn_appliance_id = ap_id appliance,
      sn_scan_id = si_scan_id payload, sn_started_at = si_started_at payload,
      sn_completed_at = si_completed_at payload, sn_hosts_scanned = si_hosts_scanned payload,
      sn_signatures_checked = si_signatures_checked payload,
      sn_yara_rules_checked = si_yara_rules_checked payload,
      sn_critical_count = severity_count ''critical'' payload, sn_high_count = severity_count ''high'' payload,
      sn_medium_count = severity_count ''medium'' payload, sn_low_count = severity_count ''low'' payload,
      sn_error = si_error payload\<rparr>"

definition finding_of :: "uuid \<Rightarrow> uuid \<Rightarrow> uuid \<Rightarrow> scan_finding_in \<Rightarrow> finding_row" where
  "finding_of new_id scan_id org_id f =
     \<lparr>fn_id = new_id, fn_scan_id = scan_id, fn_org_id = org_id, fn_signature_id = fi_signature_id f,
      fn_threat_name = fi_threat_name f, fn_threat_type = fi_threat_type f, fn_severity = fi_severity f,
      fn_host = fi_host f, fn_indicator_type = fi_indicator_type f,
      fn_indicator_value = fi_indicator_value f, fn_context = JObj (fi_context f),
      fn_mitre_technique = fi_mitre_technique f, fn_status = ''active'', fn_detected_at = fi_detected_at f\<rparr>"

definition finding_rows :: "scan_env \<Rightarrow> scan_result_in \<Rightarrow> uuid \<Rightarrow> finding_row list" where
  "finding_rows env payload org_id =
     map (\<lambda>(i, f). finding_of (te_finding_id env i) (te_scan_id env) org_id f) (enumerate 0 (si_findings payload))"

definition is_severe :: "finding_row \<Rightarrow> bool" where
  "is_severe f \<longleftrightarrow> lower (fn_severity f) \<in> {''critical'', ''high''}"

text \<open>\<open>scan_id\<close> is unique over all organisations; a second one fails at the flush.\<close>

definition store_scan :: "scan_env \<Rightarrow> scan_result_in \<Rightarrow> appliance_row \<Rightarrow> (threat_tables, finding_row list) exec" where
  "store_scan env payload appliance =
     seq (gets (\<lambda>s. list_ex (\<lambda>r. sn_scan_id r = si_scan_id payload) (tt_scans s))) (\<lambda>duplicate.
     if duplicate then raise (ExternalError ''IntegrityError: threat_scans.scan_id'')
     else
       let rows = finding_rows env payload (ap_org_id appliance)
       in seq (update (\<lambda>s. s\<lparr>tt_scans := tt_scans s @ [scan_row_of env payload appliance],
                              tt_findings := tt_findings s @ rows\<rparr>)) (\<lambda>_.
          ret (filter is_severe rows)))"

definition trigger_incident ::
    "(uuid \<Rightarrow> string) \<Rightarrow> scan_env \<Rightarrow> uuid \<Rightarrow> nat \<times> finding_row \<Rightarrow> (threat_tables, unit) exec" where
  "trigger_incident uuid_str env org_id x =
     (case x of (i, finding) \<Rightarrow>
        try_except
          (seq (gets (\<lambda>s. get_org_integration_configs (tt_channels s) org_id)) (\<lambda>configs.
           seq (lift_result configs) (\<lambda>cfg.
           seq (at_incidents (handle_threat_finding (te_world env i) uuid_str finding org_id
                  (te_incident_id env i) (te_hex8 env i) cfg)) (\<lambda>_.
           ret ()))))
          (\<lambda>_. ret ()))"

definition submit_scan_result ::
    "(uuid \<Rightarrow> string) \<Rightarrow> scan_env \<Rightarrow> scan_result_in \<Rightarrow> headers \<Rightarrow> (threat_tables, scan_response) exec" where
  "submit_scan_result uuid_str env payload request =
     seq (at_appliances (verified_appliance request)) (\<lambda>appliance.
     seq (lift_result (check_body_appliance payload appliance)) (\<lambda>_.
     seq (store_scan env payload appliance) (\<lambda>severe.
     seq (for_each (trigger_incident uuid_str env (ap_org_id appliance)) (enumerate 0 severe)) (\<lambda>_.
     ret \<lparr>sp_scan_id = si_scan_id payload, sp_findings = length (si_findings payload),
          sp_critical = severity_count ''critical'' payload, sp_incidents_created = length severe\<rparr>))))"

subsection \<open>Reading and resolving\<close>

text \<open>\<open>Query(ge=1, le=200)\<close>: FastAPI refuses other limits before the handler runs.\<close>

definition query_limit :: "int \<Rightarrow> nat result" where
  "query_limit n = (if n < 1 \<or> 200 < n then Inl (HTTPException 422 ''limit'') else Inr (nat n))"

text \<open>An optional filter of a query: absent or empty, it keeps every row.\<close>

definition matches :: "string option \<Rightarrow> string \<Rightarrow> bool" where
  "matches want v \<longleftrightarrow> str_or want [] = [] \<or> want = Some v"

definition list_findings ::
    "string option \<Rightarrow> string option \<Rightarrow> int \<Rightarrow> current_user \<Rightarrow> (threat_tables, finding_row list) exec" where
  "list_findings status severity limit user =
     seq (lift_result (query_limit limit)) (\<lambda>n.
     gets (\<lambda>s. take n (newest_rows fn_detected_at
       (filter (\<lambda>f. matches severity (fn_severity f))
         (filter (\<lambda>f. matches status (fn_status f))
           (filter (\<lambda>f. fn_org_id f = user_org_id user) (tt_findings s)))))))"

definition list_incidents ::
    "string option \<Rightarrow> int \<Rightarrow> current_user \<Rightarrow> (threat_tables, incident_row list) exec" where
  "list_incidents status limit user =
     seq (lift_result (query_limit limit)) (\<lambda>n.
     gets (\<lambda>s. take n (newest_rows ii_created_at
       (filter (\<lambda>i. matches status (ii_status i))
         (filter (\<lambda>i. ii_org_id i = user_org_id user) (tt_incidents s))))))"

definition find_incident :: "uuid \<Rightarrow> current_user \<Rightarrow> threat_tables \<Rightarrow> incident_row option" where
  "find_incident incident_id user s =
     List.find (\<lambda>i. ii_id i = incident_id \<and> ii_org_id i = user_org_id user) (tt_incidents s)"

definition get_incident :: "uuid \<Rightarrow> current_user \<Rightarrow> (threat_tables, incident_row) exec" where
  "get_incident incident_id user =
     seq (gets (find_incident incident_id user)) (\<lambda>found.
     case found of None \<Rightarrow> raise (HTTPException 404 ''Incident not found'') | Some i \<Rightarrow> ret i)"

definition resolve_incident :: "uuid \<Rightarrow> current_user \<Rightarrow> int \<Rightarrow> (threat_tables, unit) exec" where
  "resolve_incident incident_id user now =
     seq (lift_result (require_admin user)) (\<lambda>user.
     seq (gets (find_incident incident_id user)) (\<lambda>found.
     case found of
       None \<Rightarrow> raise (HTTPException 404 ''Incident not found'')
     | Some _ \<Rightarrow>
         update (\<lambda>s. s\<lparr>tt_incidents := update_where
           (\<lambda>i. ii_id i = incident_id \<and> ii_org_id i = user_org_id user)
           (\<lambda>i. i\<lparr>ii_status := ''resolved'', ii_resolved_at := Some now\<rparr>) (tt_incidents s)\<rparr>)))"

definition list_scans :: "int \<Rightarrow> current_user \<Rightarrow> (threat_tables, scan_row list) exec" where
  "list_scans limit user =
     seq (lift_result (query_limit limit)) (\<lambda>n.
     gets (\<lambda>s. take n (newest_rows sn_completed_at
       (filter (\<lambda>r. sn_org_id r = user_org_id user) (tt_scans s)))))"

text \<open>What the handlers print of a row.\<close>

definition finding_json :: "(uuid \<Rightarrow> string) \<Rightarrow> (int \<Rightarrow> string) \<Rightarrow> finding_row \<Rightarrow> dict" where
  "finding_json uuid_str isoformat f =
     [(''id'', JStr (uuid_str (fn_id f))), (''threat_name'', JStr (fn_threat_name f)),
      (''threat_type'', JStr (fn_threat_type f)), (''severity'', JStr (fn_severity f)), (''host'', JStr (fn_host f)),
      (''indicator_type'', JStr (fn_indicator_type f)), (''indicator_value'', JStr (fn_indicator_value f)),
      (''mitre_technique'', mitre_json f), (''status'', JStr (fn_status f)),
      (''detected_at'', JStr (isoformat (fn_detected_at f)))]"

definition log_json :: "log_entry \<Rightarrow> json" where
  "log_json e = JObj [(''step'', JStr (le_step e)), (''detail'', JStr (le_detail e)),
     (''success'', JBool (le_success e)), (''ts'', JStr (le_ts e))]"

definition incident_json :: "(uuid \<Rightarrow> string) \<Rightarrow> (int \<Rightarrow> string) \<Rightarrow> incident_row \<Rightarrow> dict" where
  "incident_json uuid_str isoformat i =
     [(''id'', JStr (uuid_str (ii_id i))), (''incident_number'', JStr (ii_incident_number i)),
      (''title'', JStr (ii_title i)), (''severity'', JStr (ii_severity i)), (''status'', JStr (ii_status i)),
      (''affected_host'', JStr (ii_affected_host i)), (''threat_name'', JStr (ii_threat_name i)),
      (''backup_triggered'', JBool (ii_backup_triggered i)), (''soar_dispatched'', JBool (ii_soar_dispatched i)),
      (''siem_dispatched'', JBool (ii_siem_dispatched i)), (''veeamone_reported'', JBool (ii_veeamone_reported i)),
      (''ir_log'', JArr (map log_json (ii_ir_log i))), (''created_at'', JStr (isoformat (ii_created_at i)))]"

definition scan_json :: "(uuid \<Rightarrow> string) \<Rightarrow> (int \<Rightarrow> string) \<Rightarrow> scan_row \<Rightarrow> dict" where
  "scan_json uuid_str isoformat r =
     [(''id'', JStr (uuid_str (sn_id r))), (''scan_id'', JStr (sn_scan_id r)),
      (''started_at'', JStr (isoformat (sn_started_at r))), (''completed_at'', JStr (isoformat (sn_completed_at r))),
      (''hosts_scanned'', JInt (sn_hosts_scanned r)), (''signatures_checked'', JInt (sn_signatures_checked r)),
      (''critical_count'', JInt (int (sn_critical_count r))), (''high_count'', JInt (int (sn_high_count r))),
      (''medium_count'', JInt (int (sn_medium_count r))), (''low_count'', JInt (int (sn_low_count r)))]"

subsection \<open>Restore-point analysis\<close>

record restore_point_meta =
  rm_id :: string
  rm_created_at :: "string option"
  rm_avg_entropy :: rat
  rm_total_files :: int
  rm_renamed_files :: int
  rm_new_extensions :: "string list"

definition meta_dict :: "restore_point_meta \<Rightarrow> dict" where
  "meta_dict rp = [(''id'', JStr (rm_id rp)),
     (''created_at'', case rm_created_at rp of None \<Rightarrow> JNull | Some t \<Rightarrow> JStr t),
     (''avg_entropy'', JFloat (rm_avg_entropy rp)), (''total_files'', JInt (rm_total_files rp)),
     (''renamed_files'', JInt (rm_renamed_files rp)), (''new_extensions'', JArr (map JStr (rm_new_extensions rp)))]"

record analysis_response =
  ax_analysis :: "analysis list"
  ax_threats_found :: nat
  ax_flagged :: nat
  ax_recommended :: json

definition analyze_restore_points_endpoint ::
    "(string \<Rightarrow> rat option) \<Rightarrow> restore_point_meta list \<Rightarrow> current_user \<Rightarrow> analysis_response result" where
  "analyze_restore_points_endpoint float_of body user =
     and_then (require_permission (permissions user) ''threats:read'') (\<lambda>_.
     if 500 < length body then Inl (HTTPException 400 ''At most 500 restore points per request'')
     else
       let restore_points = map meta_dict body in
       and_then (analyze_restore_points float_of restore_points) (\<lambda>as.
       and_then (select_clean_restore_point float_of restore_points) (\<lambda>clean.
       Inr \<lparr>ax_analysis = as, ax_threats_found = sum_list (map (\<lambda>a. length (an_indicators a)) as),
            ax_flagged = count_if (\<lambda>a. \<not> an_is_clean a) as,
            ax_recommended = (case clean of None \<Rightarrow> JNull | Some c \<Rightarrow> an_restore_point_id c)\<rparr>)))"

subsection \<open>Isolation of the portal routes\<close>

definition threat_view :: "uuid \<Rightarrow> threat_tables \<Rightarrow> scan_row list \<times> finding_row list \<times> incident_row list" where
  "threat_view org s =
     (filter (\<lambda>r. sn_org_id r = org) (tt_scans s), filter (\<lambda>f. fn_org_id f = org) (tt_findings s),
      filter (\<lambda>i. ii_org_id i = org) (tt_incidents s))"

lemma threat_view_iff: "threat_view org s = threat_view org s' \<longleftrightarrow>
    filter (\<lambda>r. sn_org_id r = org) (tt_scans s) = filter (\<lambda>r. sn_org_id r = org) (tt_scans s') \<and>
    filter (\<lambda>f. fn_org_id f = org) (tt_findings s) = filter (\<lambda>f. fn_org_id f = org) (tt_findings s') \<and>
    filter (\<lambda>i. ii_org_id i = org) (tt_incidents s) = filter (\<lambda>i. ii_org_id i = org) (tt_incidents s')"
  by (simp add: threat_view_def)

lemma find_incident_own: "find_incident i user s =
    List.find (\<lambda>x. ii_id x = i) (filter (\<lambda>x. ii_org_id x = user_org_id user) (tt_incidents s))"
  by (simp add: find_incident_def find_own)

lemma threat_reads_local:
  assumes "user_org_id user = org"
  shows "local_to threat_view org (list_findings st sev n user)" "local_to threat_view org (list_incidents st n user)"
    "local_to threat_view org (list_scans n user)" "local_to threat_view org (get_incident i user)"
proof -
  show "local_to threat_view org (list_findings st sev n user)"
    unfolding list_findings_def by (intro local_intros local_gets; simp only: assms threat_view_iff)
  show "local_to threat_view org (list_incidents st n user)"
    unfolding list_incidents_def by (intro local_intros local_gets; simp only: assms threat_view_iff)
  show "local_to threat_view org (list_scans n user)"
    unfolding list_scans_def by (intro local_intros local_gets; simp only: assms threat_view_iff)
  show "local_to threat_view org (get_incident i user)"
    unfolding get_incident_def
    by (rule local_find) (simp_all only: find_incident_own assms threat_view_iff local_ret local_raise)
qed

lemma resolve_update_local:
  "local_to threat_view org (update (\<lambda>s. s\<lparr>tt_incidents := update_where (\<lambda>x. ii_id x = i \<and> ii_org_id x = org)
     (\<lambda>x. x\<lparr>ii_status := ''resolved'', ii_resolved_at := Some now\<rparr>) (tt_incidents s)\<rparr>))"
proof (rule local_update)
  fix s s' :: threat_tables assume "threat_view org s = threat_view org s'"
  then show "threat_view org (s\<lparr>tt_incidents := update_where (\<lambda>x. ii_id x = i \<and> ii_org_id x = org)
       (\<lambda>x. x\<lparr>ii_status := ''resolved'', ii_resolved_at := Some now\<rparr>) (tt_incidents s)\<rparr>)
     = threat_view org (s'\<lparr>tt_incidents := update_where (\<lambda>x. ii_id x = i \<and> ii_org_id x = org)
       (\<lambda>x. x\<lparr>ii_status := ''resolved'', ii_resolved_at := Some now\<rparr>) (tt_incidents s')\<rparr>)"
    by (simp add: threat_view_def filter_update_where_own)
next
  fix org' and s :: threat_tables assume "org' \<noteq> org"
  then have "filter (\<lambda>x. ii_org_id x = org') (update_where (\<lambda>x. ii_id x = i \<and> ii_org_id x = org)
       (\<lambda>x. x\<lparr>ii_status := ''resolved'', ii_resolved_at := Some now\<rparr>) (tt_incidents s))
     = filter (\<lambda>x. ii_org_id x = org') (tt_incidents s)"
    by (intro filter_update_where_other) auto
  then show "threat_view org' (s\<lparr>tt_incidents := update_where (\<lambda>x. ii_id x = i \<and> ii_org_id x = org)
       (\<lambda>x. x\<lparr>ii_status := ''resolved'', ii_resolved_at := Some now\<rparr>) (tt_incidents s)\<rparr>) = threat_view org' s"
    by (simp add: threat_view_def)
qed

lemma resolve_incident_local:
  assumes "user_org_id user = org"
  shows "local_to threat_view org (resolve_incident i user now)"
proof (cases "require_admin user")
  case (Inl e)
  then show ?thesis by (simp add: resolve_incident_def local_toI seq_def lift_result_def)
next
  case (Inr u)
  then have u: "u = user" by (simp add: require_admin_def split: if_splits)
  have eq: "resolve_incident i user now = seq (gets (find_incident i user)) (\<lambda>found.
     case found of
       None \<Rightarrow> raise (HTTPException 404 ''Incident not found'')
     | Some _ \<Rightarrow> update (\<lambda>s. s\<lparr>tt_incidents := update_where (\<lambda>x. ii_id x = i \<and> ii_org_id x = user_org_id user)
         (\<lambda>x. x\<lparr>ii_status := ''resolved'', ii_resolved_at := Some now\<rparr>) (tt_incidents s)\<rparr>))"
    by (rule ext) (simp add: resolve_incident_def Inr u seq_def lift_result_def)
  show ?thesis
    unfolding eq assms
    by (rule local_find) (simp_all only: find_incident_own assms threat_view_iff local_raise resolve_update_local)
qed

subsection \<open>What a submission changes\<close>

lemma verified_appliance_reads: "snd (verified_appliance request a) = a"
  by (simp add: verified_appliance_def exec_simps Let_def split: sum.splits option.splits)

lemma at_appliances_verified:
  "at_appliances (verified_appliance request) s = (fst (verified_appliance request (tt_appliances s)), s)"
proof -
  obtain r where "verified_appliance request (tt_appliances s) = (r, tt_appliances s)"
    using verified_appliance_reads [of request "tt_appliances s"] by (metis prod.collapse)
  then show ?thesis by (simp add: at_appliances_def)
qed

text \<open>An incident of a configuration without integrations has none of their flags.\<close>

lemma no_integrations_no_flags:
  assumes "cf_soar cfg = []" "cf_siem cfg = []" "cf_veeamone cfg = []"
    and "handle_threat_finding w uuid_str f org i h cfg db = (Inr inc, db')"
  shows "\<not> ii_soar_dispatched inc \<and> \<not> ii_siem_dispatched inc \<and> \<not> ii_veeamone_reported inc"
proof -
  define n where "n = ''INC-'' @ pad4 (count_if (\<lambda>x. ii_org_id x = org) (id_incidents db) + 1)"
  define s where "s = \<lparr>is_incident = (new_incident (iw_now w) f org i n)
       \<lparr>ii_backup_triggered := True, ii_backup_job_id := Some (''veeam-backup-'' @ h)\<rparr>,
     is_log = first_entries w f h, is_sent = id_sent db\<rparr>"
  have run: "response_steps w uuid_str f org n h cfg
      \<lparr>is_incident = new_incident (iw_now w) f org i n, is_log = [], is_sent = id_sent db\<rparr>
     = notifications_step w f n (cf_channels cfg) s"
    unfolding response_steps_def s_def
    by (simp add: assms(1-3) soar_step_def siem_step_def veeamone_step_def backup_step_def trigger_backup_def
        log_step_def set_incident_def update_def seq_def ret_def try_except_def or_log_def lift_result_def first_entries_def)
  obtain r s' where step: "notifications_step w f n (cf_channels cfg) s = (r, s')" by fastforce
  have "r = Inr ()" and change: "own_change ''notifications_sent'' s s'"
    using own_notifications [of w f n "cf_channels cfg"] step unfolding own_entry_def by (metis fst_conv snd_conv)+
  then have "inc = (is_incident s')\<lparr>ii_ir_log := is_log s'\<rparr>"
    using assms(4) unfolding handle_threat_finding_def Let_def n_def [symmetric] run step by simp
  moreover have "\<not> ii_soar_dispatched (is_incident s) \<and> \<not> ii_siem_dispatched (is_incident s) \<and> \<not> ii_veeamone_reported (is_incident s)"
    by (simp add: s_def new_incident_def)
  ultimately show ?thesis
    using change by (elim disjE exE conjE) (auto simp: own_change_def flag_names_def flag_of_def)
qed

text \<open>Handling one severe finding.\<close>

definition configs_of :: "uuid \<Rightarrow> threat_tables \<Rightarrow> ir_config result" where
  "configs_of org_id s = get_org_integration_configs (tt_channels s) org_id"

definition quiet_config :: "ir_config \<Rightarrow> bool" where
  "quiet_config cfg \<longleftrightarrow> cf_soar cfg = [] \<and> cf_siem cfg = [] \<and> cf_veeamone cfg = []"

definition quiet_incident :: "incident_row \<Rightarrow> bool" where
  "quiet_incident i \<longleftrightarrow> \<not> ii_soar_dispatched i \<and> \<not> ii_siem_dispatched i \<and> \<not> ii_veeamone_reported i"

lemma trigger_incident_fails: "configs_of org s = Inl e \<Longrightarrow> trigger_incident uuid_str env org (k, f) s = (Inr (), s)"
  by (simp add: trigger_incident_def configs_of_def exec_simps)

lemma trigger_incident_stores:
  assumes "configs_of org s = Inr cfg"
  shows "\<exists>inc sent. trigger_incident uuid_str env org (k, f) s
       = (Inr (), s\<lparr>tt_incidents := tt_incidents s @ [inc], tt_sent := sent\<rparr>) \<and>
     ii_org_id inc = org \<and> ii_finding_id inc = Some (fn_id f) \<and> (quiet_config cfg \<longrightarrow> quiet_incident inc)"
proof -
  let ?d = "\<lparr>id_incidents = tt_incidents s, id_sent = tt_sent s\<rparr>"
  obtain inc d where run: "handle_threat_finding (te_world env k) uuid_str f org (te_incident_id env k) (te_hex8 env k) cfg ?d = (Inr inc, d)"
    and d: "id_incidents d = tt_incidents s @ [inc]"
    and b: "bare inc = new_incident (iw_now (te_world env k)) f org (te_incident_id env k)
              (''INC-'' @ pad4 (count_if (\<lambda>x. ii_org_id x = org) (id_incidents ?d) + 1))"
    using handling_records_incident [OF refl, where w = "te_world env k" and uuid_str = uuid_str and finding = f
        and org_id = org and new_id = "te_incident_id env k" and hex_id = "te_hex8 env k" and cfg = cfg and db = ?d]
    by auto
  have "trigger_incident uuid_str env org (k, f) s = (Inr (), s\<lparr>tt_incidents := tt_incidents s @ [inc], tt_sent := id_sent d\<rparr>)"
    using assms by (simp add: trigger_incident_def configs_of_def exec_simps at_incidents_def run d)
  moreover have "ii_org_id inc = org" "ii_finding_id inc = Some (fn_id f)"
    using arg_cong [OF b, of ii_org_id] arg_cong [OF b, of ii_finding_id] by (simp_all add: bare_def new_incident_def)
  moreover have "quiet_config cfg \<longrightarrow> quiet_incident inc"
    using no_integrations_no_flags [OF _ _ _ run] by (simp add: quiet_config_def quiet_incident_def)
  ultimately show ?thesis by blast
qed

lemma triggers_store:
  assumes "configs_of org s = Inr cfg"
  shows "\<exists>more sent. for_each (trigger_incident uuid_str env org) (enumerate k fs) s
       = (Inr (), s\<lparr>tt_incidents := tt_incidents s @ more, tt_sent := sent\<rparr>) \<and>
     map ii_finding_id more = map (\<lambda>f. Some (fn_id f)) fs \<and>
     list_all (\<lambda>i. ii_org_id i = org) more \<and> (quiet_config cfg \<longrightarrow> list_all quiet_incident more)"
  using assms
proof (induction fs arbitrary: k s)
  case Nil
  show ?case by (intro exI [of _ "[]"] exI [of _ "tt_sent s"]) (simp add: ret_def)
next
  case (Cons f fs)
  obtain inc sent where one: "trigger_incident uuid_str env org (k, f) s
       = (Inr (), s\<lparr>tt_incidents := tt_incidents s @ [inc], tt_sent := sent\<rparr>)"
     "ii_org_id inc = org" "ii_finding_id inc = Some (fn_id f)" "quiet_config cfg \<longrightarrow> quiet_incident inc"
    using trigger_incident_stores [OF Cons.prems] by blast
  have "configs_of org (s\<lparr>tt_incidents := tt_incidents s @ [inc], tt_sent := sent\<rparr>) = Inr cfg"
    using Cons.prems by (simp add: configs_of_def)
  from Cons.IH [OF this, of "Suc k"] obtain more sent' where rest:
    "for_each (trigger_incident uuid_str env org) (enumerate (Suc k) fs) (s\<lparr>tt_incidents := tt_incidents s @ [inc], tt_sent := sent\<rparr>)
       = (Inr (), s\<lparr>tt_incidents := tt_incidents s @ inc # more, tt_sent := sent'\<rparr>)"
    "map ii_finding_id more = map (\<lambda>f. Some (fn_id f)) fs"
    "list_all (\<lambda>i. ii_org_id i = org) more" "quiet_config cfg \<longrightarrow> list_all quiet_incident more"
    by auto
  then show ?case
    using one by (intro exI [of _ "inc # more"] exI [of _ sent']) (simp add: seq_def)
qed

lemma triggers_fail:
  "configs_of org s = Inl e \<Longrightarrow> for_each (trigger_incident uuid_str env org) (enumerate k fs) s = (Inr (), s)"
  by (induction fs arbitrary: k) (simp_all add: ret_def seq_def trigger_incident_fails)

lemma finding_rows_org: "f \<in> set (finding_rows env payload org) \<Longrightarrow> fn_org_id f = org"
  by (auto simp: finding_rows_def finding_of_def)

lemma length_severe:
  "length (filter is_severe (finding_rows env payload org)) = severity_count ''critical'' payload + severity_count ''high'' payload"
proof -
  have "length (filter is_severe (map (\<lambda>(i, f). finding_of (te_finding_id env i) (te_scan_id env) org f) (enumerate k fs)))
      = count_if (\<lambda>f. lower (fi_severity f) = ''critical'') fs + count_if (\<lambda>f. lower (fi_severity f) = ''high'') fs" for k fs
    by (induction fs arbitrary: k) (auto simp: is_severe_def finding_of_def)
  then show ?thesis by (simp add: finding_rows_def severity_count_def)
qed

definition stored_scan :: "scan_env \<Rightarrow> scan_result_in \<Rightarrow> appliance_row \<Rightarrow> threat_tables \<Rightarrow> threat_tables" where
  "stored_scan env payload appliance s = s\<lparr>tt_scans := tt_scans s @ [scan_row_of env payload appliance],
     tt_findings := tt_findings s @ finding_rows env payload (ap_org_id appliance)\<rparr>"

lemma submit_cases:
  "(\<exists>e. submit_scan_result uuid_str env payload request s = (Inl e, s)) \<or>
   (\<exists>appliance. fst (verified_appliance request (tt_appliances s)) = Inr appliance \<and>
      check_body_appliance payload appliance = Inr () \<and>
      submit_scan_result uuid_str env payload request s =
        seq (for_each (trigger_incident uuid_str env (ap_org_id appliance))
              (enumerate 0 (filter is_severe (finding_rows env payload (ap_org_id appliance))))) (\<lambda>_.
        ret \<lparr>sp_scan_id = si_scan_id payload, sp_findings = length (si_findings payload),
             sp_critical = severity_count ''critical'' payload,
             sp_incidents_created = severity_count ''critical'' payload + severity_count ''high'' payload\<rparr>)
          (stored_scan env payload appliance s))"
proof (cases "fst (verified_appliance request (tt_appliances s))")
  case (Inl e)
  then show ?thesis by (simp add: submit_scan_result_def seq_def at_appliances_verified)
next
  case (Inr appliance)
  show ?thesis
  proof (cases "check_body_appliance payload appliance")
    case (Inl e)
    then show ?thesis using Inr by (simp add: submit_scan_result_def seq_def at_appliances_verified lift_result_def)
  next
    case ok: (Inr u)
    show ?thesis
    proof (cases "list_ex (\<lambda>r. sn_scan_id r = si_scan_id payload) (tt_scans s)")
      case True
      then show ?thesis using Inr ok
        by (simp add: submit_scan_result_def seq_def at_appliances_verified lift_result_def store_scan_def gets_def raise_def)
    next
      case False
      then show ?thesis using Inr ok
        by (simp add: submit_scan_result_def seq_def at_appliances_verified lift_result_def store_scan_def gets_def
            Let_def update_def ret_def length_severe stored_scan_def)
    qed
  qed
qed

lemma submit_outcome:
  "case submit_scan_result uuid_str env payload request s of
     (Inl e, s') \<Rightarrow> s' = s
   | (Inr resp, s') \<Rightarrow> \<exists>appliance more sent.
       fst (verified_appliance request (tt_appliances s)) = Inr appliance \<and>
       check_body_appliance payload appliance = Inr () \<and>
       s' = (stored_scan env payload appliance s)\<lparr>tt_incidents := tt_incidents s @ more, tt_sent := sent\<rparr> \<and>
       sp_findings resp = length (si_findings payload) \<and>
       sp_incidents_created resp = severity_count ''critical'' payload + severity_count ''high'' payload \<and>
       list_all (\<lambda>i. ii_org_id i = ap_org_id appliance) more \<and>
       map ii_finding_id more =
         (case configs_of (ap_org_id appliance) s of
            Inl e \<Rightarrow> []
          | Inr cfg \<Rightarrow> map (\<lambda>f. Some (fn_id f)) (filter is_severe (finding_rows env payload (ap_org_id appliance)))) \<and>
       (case configs_of (ap_org_id appliance) s of
          Inl e \<Rightarrow> True | Inr cfg \<Rightarrow> quiet_config cfg \<longrightarrow> list_all quiet_incident more)"
  using submit_cases [where uuid_str = uuid_str and env = env and payload = payload and request = request and s = s]
proof (elim disjE exE conjE)
  fix e assume "submit_scan_result uuid_str env payload request s = (Inl e, s)"
  then show ?thesis by simp
next
  fix appliance
  let ?t = "stored_scan env payload appliance s"
  let ?severe = "filter is_severe (finding_rows env payload (ap_org_id appliance))"
  assume ap: "fst (verified_appliance request (tt_appliances s)) = Inr appliance" "check_body_appliance payload appliance = Inr ()"
    and run: "submit_scan_result uuid_str env payload request s =
        seq (for_each (trigger_incident uuid_str env (ap_org_id appliance)) (enumerate 0 ?severe)) (\<lambda>_.
        ret \<lparr>sp_scan_id = si_scan_id payload, sp_findings = length (si_findings payload),
             sp_critical = severity_count ''critical'' payload,
             sp_incidents_created = severity_count ''critical'' payload + severity_count ''high'' payload\<rparr>) ?t"
  have cfgs: "configs_of (ap_org_id appliance) ?t = configs_of (ap_org_id appliance) s"
    by (simp add: configs_of_def stored_scan_def)
  have same: "tt_incidents ?t = tt_incidents s" by (simp add: stored_scan_def)
  show ?thesis
  proof (cases "configs_of (ap_org_id appliance) s")
    case (Inl e)
    then have "for_each (trigger_incident uuid_str env (ap_org_id appliance)) (enumerate 0 ?severe) ?t = (Inr (), ?t)"
      using triggers_fail cfgs by simp
    then have eq: "\<And>r. seq (for_each (trigger_incident uuid_str env (ap_org_id appliance)) (enumerate 0 ?severe)) (\<lambda>_. ret r) ?t
        = (Inr r, ?t)"
      by (simp add: seq_def ret_def)
    have "?t = ?t\<lparr>tt_incidents := tt_incidents s @ [], tt_sent := tt_sent ?t\<rparr>" by (simp add: same [symmetric])
    then show ?thesis unfolding run eq prod.case sum.case
      by (intro exI [of _ appliance] exI [of _ "[]"] exI [of _ "tt_sent ?t"]) (simp add: ap Inl)
  next
    case (Inr cfg)
    then obtain more sent where "for_each (trigger_incident uuid_str env (ap_org_id appliance)) (enumerate 0 ?severe) ?t
       = (Inr (), ?t\<lparr>tt_incidents := tt_incidents s @ more, tt_sent := sent\<rparr>)"
      "map ii_finding_id more = map (\<lambda>f. Some (fn_id f)) ?severe"
      "list_all (\<lambda>i. ii_org_id i = ap_org_id appliance) more" "quiet_config cfg \<longrightarrow> list_all quiet_incident more"
      using triggers_store [of "ap_org_id appliance" ?t cfg uuid_str env 0 ?severe] cfgs same by auto
    note loop = this
    have eq: "\<And>r. seq (for_each (trigger_incident uuid_str env (ap_org_id appliance)) (enumerate 0 ?severe)) (\<lambda>_. ret r) ?t
        = (Inr r, ?t\<lparr>tt_incidents := tt_incidents s @ more, tt_sent := sent\<rparr>)"
      by (simp add: seq_def ret_def loop(1))
    show ?thesis unfolding run eq prod.case sum.case
      by (intro exI [of _ appliance] exI [of _ more] exI [of _ sent]) (simp add: ap Inr loop(2-4))
  qed
qed

subsection \<open>Properties\<close>

text \<open>C20: a scan is all or nothing and stays in the organisation of the authenticated appliance: a refused
  submission changes nothing; an accepted one appends one scan, one row per finding, and incidents of
  that organisation only, one per severe finding in order when its integrations can be read and none
  when they cannot, while the response counts every severe finding as an incident created. What
  other organisations see is unchanged.\<close>

theorem scan_submission_account:
  "case submit_scan_result uuid_str env payload request s of
     (Inl e, s') \<Rightarrow> s' = s
   | (Inr resp, s') \<Rightarrow> \<exists>appliance more.
       fst (verified_appliance request (tt_appliances s)) = Inr appliance \<and>
       tt_scans s' = tt_scans s @ [scan_row_of env payload appliance] \<and>
       tt_findings s' = tt_findings s @ finding_rows env payload (ap_org_id appliance) \<and>
       tt_incidents s' = tt_incidents s @ more \<and> list_all (\<lambda>i. ii_org_id i = ap_org_id appliance) more \<and>
       map ii_finding_id more =
         (case configs_of (ap_org_id appliance) s of
            Inl e \<Rightarrow> []
          | Inr cfg \<Rightarrow> map (\<lambda>f. Some (fn_id f)) (filter is_severe (finding_rows env payload (ap_org_id appliance)))) \<and>
       sp_incidents_created resp
         = sn_critical_count (scan_row_of env payload appliance) + sn_high_count (scan_row_of env payload appliance) \<and>
       (if other = ap_org_id appliance then True else threat_view other s' = threat_view other s)"
proof (cases "fst (submit_scan_result uuid_str env payload request s)")
  case (Inl e)
  then show ?thesis using submit_outcome [where uuid_str = uuid_str and env = env and payload = payload and request = request and s = s] by (auto split: prod.splits)
next
  case (Inr resp)
  then obtain s' where run: "submit_scan_result uuid_str env payload request s = (Inr resp, s')" by (metis prod.collapse)
  obtain appliance more sent where a: "fst (verified_appliance request (tt_appliances s)) = Inr appliance"
    and s': "s' = (stored_scan env payload appliance s)\<lparr>tt_incidents := tt_incidents s @ more, tt_sent := sent\<rparr>"
    and n: "sp_incidents_created resp = severity_count ''critical'' payload + severity_count ''high'' payload"
    and org: "list_all (\<lambda>i. ii_org_id i = ap_org_id appliance) more"
    and ids: "map ii_finding_id more =
         (case configs_of (ap_org_id appliance) s of
            Inl e \<Rightarrow> []
          | Inr cfg \<Rightarrow> map (\<lambda>f. Some (fn_id f)) (filter is_severe (finding_rows env payload (ap_org_id appliance))))"
    using submit_outcome [where uuid_str = uuid_str and env = env and payload = payload and request = request and s = s]
    unfolding run prod.case sum.case by blast
  have "threat_view other s' = threat_view other s" if "other \<noteq> ap_org_id appliance"
  proof -
    have "filter (\<lambda>f. fn_org_id f = other) (finding_rows env payload (ap_org_id appliance)) = []"
      using that by (auto simp: filter_empty_conv dest: finding_rows_org)
    moreover have "filter (\<lambda>i. ii_org_id i = other) more = []"
      using that org by (auto simp: filter_empty_conv list_all_iff)
    ultimately show ?thesis using that by (simp add: threat_view_def s' stored_scan_def scan_row_of_def)
  qed
  then show ?thesis
    unfolding run prod.case sum.case
    by (intro exI [of _ appliance] exI [of _ more]) (simp add: a org ids n s' stored_scan_def scan_row_of_def)
qed

text \<open>The channels an organisation can have, created and deleted through the API.\<close>

inductive channels_reachable :: "channel_row list \<Rightarrow> bool" where
  none: "channels_reachable []"
| created: "channels_reachable cs \<Longrightarrow> create_channel req user i cs = (Inr ch, cs') \<Longrightarrow> channels_reachable cs'"
| deleted: "channels_reachable cs \<Longrightarrow> delete_channel i user cs = (r, cs') \<Longrightarrow> channels_reachable cs'"

lemma create_channel_type:
  "create_channel req user i cs = (Inr ch, cs') \<Longrightarrow>
     cs' = cs @ [ch] \<and> ch_channel_type ch \<in> {''email'', ''slack'', ''teams''}"
  by (auto simp: create_channel_def exec_simps Let_def split: sum.splits if_splits)

lemma delete_channel_subset: "delete_channel i user cs = (r, cs') \<Longrightarrow> set cs' \<subseteq> set cs"
  by (auto simp: delete_channel_def exec_simps split: sum.splits if_splits)

lemma reachable_types: "channels_reachable cs \<Longrightarrow> \<forall>c \<in> set cs. ch_channel_type c \<in> {''email'', ''slack'', ''teams''}"
proof (induction rule: channels_reachable.induct)
  case (created cs req user i ch cs')
  from create_channel_type [OF created.hyps(2)] created.IH show ?case by (elim conjE) simp
next
  case (deleted cs i user r cs')
  from delete_channel_subset [OF deleted.hyps(2)] deleted.IH show ?case by (meson subsetD)
qed simp

lemma plain_channels_quiet:
  "\<forall>c \<in> set cs. ch_channel_type c \<in> {''email'', ''slack'', ''teams''} \<Longrightarrow> quiet_config cfg \<Longrightarrow>
     \<exists>cfg'. add_integrations cs cfg = Inr cfg' \<and> quiet_config cfg'"
proof (induction cs arbitrary: cfg)
  case (Cons c cs)
  have "add_integration c cfg = Inr (cfg\<lparr>cf_channels := cf_channels cfg @ [channel_dict c]\<rparr>)"
    using Cons.prems(1) by (auto simp: add_integration_def)
  moreover have "quiet_config (cfg\<lparr>cf_channels := cf_channels cfg @ [channel_dict c]\<rparr>)"
    using Cons.prems(2) by (simp add: quiet_config_def)
  ultimately show ?case using Cons by simp
qed simp

text \<open>C21: the SOAR, SIEM and VeeamONE integrations are unreachable: with channels created and deleted
  through the API, in whatever order and by whomever, the severe findings of every scan become
  incidents, and none of them is ever dispatched to any of the three.\<close>

theorem integrations_unreachable:
  assumes "channels_reachable (tt_channels s)"
  shows "case submit_scan_result uuid_str env payload request s of
     (Inl e, s') \<Rightarrow> s' = s
   | (Inr resp, s') \<Rightarrow> \<exists>more. tt_incidents s' = tt_incidents s @ more \<and> length more = sp_incidents_created resp \<and>
       list_all quiet_incident more"
proof -
  have "\<exists>cfg. configs_of org s = Inr cfg \<and> quiet_config cfg" for org
    unfolding configs_of_def get_org_integration_configs_def
    using plain_channels_quiet [of "filter (\<lambda>c. ch_org_id c = org \<and> ch_enabled c) (tt_channels s)" no_config] reachable_types [OF assms]
    by (simp add: quiet_config_def no_config_def)
  then obtain cfg where cfg: "\<And>org. configs_of org s = Inr (cfg org)" "\<And>org. quiet_config (cfg org)" by metis
  have count: "length more = severity_count ''critical'' payload + severity_count ''high'' payload"
    if "map ii_finding_id more = map (\<lambda>f. Some (fn_id f)) (filter is_severe (finding_rows env payload org))" for more org
    using arg_cong [OF that, of length] by (simp add: length_severe)
  show ?thesis
  proof (cases "fst (submit_scan_result uuid_str env payload request s)")
    case (Inl e)
    then show ?thesis
      using submit_outcome [where uuid_str = uuid_str and env = env and payload = payload and request = request and s = s]
      by (auto split: prod.splits)
  next
    case (Inr resp)
    then obtain s' where run: "submit_scan_result uuid_str env payload request s = (Inr resp, s')" by (metis prod.collapse)
    obtain appliance more sent where
      s': "s' = (stored_scan env payload appliance s)\<lparr>tt_incidents := tt_incidents s @ more, tt_sent := sent\<rparr>"
      and n: "sp_incidents_created resp = severity_count ''critical'' payload + severity_count ''high'' payload"
      and ids: "map ii_finding_id more = map (\<lambda>f. Some (fn_id f)) (filter is_severe (finding_rows env payload (ap_org_id appliance)))"
      and quiet: "list_all quiet_incident more"
      using submit_outcome [where uuid_str = uuid_str and env = env and payload = payload and request = request and s = s]
      unfolding run prod.case sum.case cfg(1) using cfg(2) by blast
    have "tt_incidents s' = tt_incidents s @ more" by (simp add: s')
    moreover have "length more = sp_incidents_created resp" unfolding n by (rule count [OF ids])
    ultimately show ?thesis unfolding run prod.case sum.case using quiet by blast
  qed
qed

definition demo_threat_tables :: threat_tables where
  "demo_threat_tables = \<lparr>tt_appliances = registered_db,
     tt_channels = [\<lparr>ch_id = 5, ch_org_id = 1, ch_name = ''ops'', ch_channel_type = ''slack'',
        ch_destination = ''https://hook'', ch_events = [''threat_detected''], ch_enabled = True\<rparr>],
     tt_scans = [], tt_findings = [], tt_incidents = [], tt_sent = []\<rparr>"

definition demo_scan :: scan_result_in where
  "demo_scan = \<lparr>si_scan_id = ''s1'', si_appliance_id = [], si_started_at = 0, si_completed_at = 1, si_hosts_scanned = 1,
     si_signatures_checked = 3, si_yara_rules_checked = 0,
     si_findings = [\<lparr>fi_signature_id = ''SIG'', fi_threat_name = ''Mimikatz'', fi_threat_type = ''malware'',
        fi_severity = ''Critical'', fi_host = ''dc01'', fi_indicator_type = ''process'', fi_indicator_value = ''m.exe'',
        fi_context = [], fi_mitre_technique = None, fi_detected_at = 1\<rparr>], si_error = None\<rparr>"

definition demo_scan_env :: scan_env where
  "demo_scan_env = \<lparr>te_scan_id = 7, te_finding_id = (\<lambda>i. 8 + i), te_incident_id = (\<lambda>i. 20 + i), te_hex8 = (\<lambda>_. ''beef4567''),
     te_world = (\<lambda>_. silent_world)\<rparr>"

theorem integrations_unreachable_witness:
  "\<exists>more. tt_incidents (snd (submit_scan_result (\<lambda>_. ''u'') demo_scan_env demo_scan id_only demo_threat_tables)) = more \<and>
     length more = 1 \<and> list_all quiet_incident more"
proof -
  have "create_channel \<lparr>cr_name = ''ops'', cr_channel_type = ''slack'', cr_destination = ''https://hook'',
       cr_events = [''threat_detected'']\<rparr> \<lparr>user_sub = [], user_org_id = 1, user_email = [], user_role = ''admin''\<rparr> 5 []
     = (Inr (hd (tt_channels demo_threat_tables)), tt_channels demo_threat_tables)"
    by (simp add: create_channel_def exec_simps require_admin_def demo_threat_tables_def Let_def)
  then have "channels_reachable (tt_channels demo_threat_tables)"
    by (rule channels_reachable.created [OF channels_reachable.none])
  note integrations_unreachable [OF this, where uuid_str = "\<lambda>_. ''u''" and env = demo_scan_env and payload = demo_scan and request = id_only]
  moreover have "fst (submit_scan_result (\<lambda>_. ''u'') demo_scan_env demo_scan id_only demo_threat_tables)
      = Inr \<lparr>sp_scan_id = ''s1'', sp_findings = 1, sp_critical = 1, sp_incidents_created = 1\<rparr>"
    by code_simp
  ultimately show ?thesis by (auto simp: demo_threat_tables_def split: prod.splits)
qed

subsection \<open>The analysis never fails on a well-typed request\<close>

lemma match_strings: "\<exists>hits. match_ransomware_extensions (map JStr exts) = Inr hits"
proof -
  have "\<exists>ys. map_result extension_hit (map JStr exts) = Inr ys"
    by (induction exts) (auto simp: extension_hit_def as_str_def Let_def)
  then show ?thesis by (auto simp: match_ransomware_extensions_def)
qed

lemma meta_entropy: "\<exists>e. to_float float_of (get_or_zero (meta_dict rp) ''avg_entropy'') = Inr e"
  by (simp add: get_or_zero_def meta_dict_def dget_or_def to_float_def Let_def)

lemma meta_indicators: "\<exists>inds. indicators_for float_of (meta_dict rp) b = Inr inds"
proof -
  obtain e where "to_float float_of (get_or_zero (meta_dict rp) ''avg_entropy'') = Inr e" using meta_entropy by blast
  moreover have "\<exists>n. to_int (get_or_zero (meta_dict rp) ''total_files'') = Inr n"
    by (cases "rm_total_files rp = 0") (simp_all add: get_or_zero_def meta_dict_def dget_or_def to_int_def Let_def)
  then obtain n where "to_int (get_or_zero (meta_dict rp) ''total_files'') = Inr n" by blast
  moreover have "\<exists>n. to_int (get_or_zero (meta_dict rp) ''renamed_files'') = Inr n"
    by (cases "rm_renamed_files rp = 0") (simp_all add: get_or_zero_def meta_dict_def dget_or_def to_int_def Let_def)
  then obtain m where "to_int (get_or_zero (meta_dict rp) ''renamed_files'') = Inr m" by blast
  moreover obtain hits where "match_ransomware_extensions (map JStr (rm_new_extensions rp)) = Inr hits"
    using match_strings by blast
  moreover have "iterate (let v = dget_or (meta_dict rp) ''new_extensions'' (JArr []) in if truthy v then v else JArr [])
      = Inr (map JStr (rm_new_extensions rp))"
    by (simp add: meta_dict_def dget_or_def Let_def iterate_def)
  ultimately show ?thesis unfolding indicators_for_def by simp
qed

definition created_text :: "json \<Rightarrow> bool" where
  "created_text v \<longleftrightarrow> v = JNull \<or> (\<exists>t. v = JStr t)"

lemma analyze_meta:
  "\<exists>as. analyze_from float_of seen (map meta_dict rps) = Inr as \<and>
     map an_restore_point_id as = map (\<lambda>r. JStr (rm_id r)) rps \<and> list_all (\<lambda>a. created_text (an_created_at a)) as"
proof (induction rps arbitrary: seen)
  case (Cons rp rps)
  obtain inds where i: "indicators_for float_of (meta_dict rp) (baseline_of seen) = Inr inds" using meta_indicators by blast
  obtain e where e: "to_float float_of (get_or_zero (meta_dict rp) ''avg_entropy'') = Inr e" using meta_entropy by blast
  obtain as where "analyze_from float_of (seen @ [e]) (map meta_dict rps) = Inr as"
     "map an_restore_point_id as = map (\<lambda>r. JStr (rm_id r)) rps" "list_all (\<lambda>a. created_text (an_created_at a)) as"
    using Cons.IH by blast
  moreover have "dget (meta_dict rp) ''id'' = JStr (rm_id rp)" "created_text (dget (meta_dict rp) ''created_at'')"
    by (auto simp: meta_dict_def dget_def created_text_def split: option.splits)
  ultimately show ?case by (simp add: i e)
qed simp

text \<open>The later of two points: one with a time is later than one without.\<close>

definition not_after :: "analysis \<Rightarrow> analysis \<Rightarrow> bool" where
  "not_after c r \<longleftrightarrow> (case (an_created_at c, an_created_at r) of
     (JStr s, JStr t) \<Rightarrow> s \<le> t | (JStr s, _) \<Rightarrow> False | _ \<Rightarrow> True)"

lemma key_gt_created:
  assumes "created_text (an_created_at a)" and "created_text (an_created_at b)"
  shows "key_gt (recency_key b) (recency_key a) = Inr (\<not> not_after b a)"
proof -
  have same: "(if truthy (JStr t) then JStr t else JStr []) = JStr t" for t by simp
  have nil_less: "[] < t \<longleftrightarrow> t \<noteq> []" for t :: string by (cases t) simp_all
  show ?thesis
    using assms by (auto simp: created_text_def key_gt_def recency_key_def not_after_def py_gt_def same nil_less not_le)
qed

lemma not_after_trans:
  "created_text (an_created_at b) \<Longrightarrow> not_after a b \<Longrightarrow> not_after b c \<Longrightarrow> not_after a c"
  by (auto simp: not_after_def created_text_def split: json.splits)

lemma not_after_total:
  "created_text (an_created_at a) \<Longrightarrow> created_text (an_created_at b) \<Longrightarrow> \<not> not_after a b \<Longrightarrow> not_after b a"
  by (auto simp: not_after_def created_text_def)

lemma max_from_created:
  "list_all (\<lambda>c. created_text (an_created_at c)) (a # as) \<Longrightarrow>
     \<exists>r. max_from a as = Inr r \<and> r \<in> set (a # as) \<and> list_all (\<lambda>c. not_after c r) (a # as)"
proof (induction as arbitrary: a)
  case Nil
  then show ?case by (auto simp: not_after_def created_text_def)
next
  case (Cons b as)
  let ?c = "if \<not> not_after b a then b else a"
  have texts: "created_text (an_created_at a)" "created_text (an_created_at b)" "created_text (an_created_at ?c)"
    using Cons.prems by simp_all
  obtain r where r: "max_from ?c as = Inr r" "r \<in> set (?c # as)" "list_all (\<lambda>c. not_after c r) (?c # as)"
    using Cons.IH [of ?c] Cons.prems texts(3) by (simp only: list.pred_inject) blast
  have ac: "not_after a ?c" and bc: "not_after b ?c"
    using not_after_total [OF texts(2,1)] texts by (auto simp: not_after_def created_text_def)
  have cr: "not_after ?c r" using r(3) by (simp only: list.pred_inject)
  have "not_after a r" by (rule not_after_trans [OF texts(3) ac cr])
  moreover have "not_after b r" by (rule not_after_trans [OF texts(3) bc cr])
  moreover have "max_from a (b # as) = max_from ?c as" by (simp add: key_gt_created [OF texts(1,2)])
  moreover have "r \<in> set (a # b # as)" using r(2) by (cases "not_after b a") auto
  moreover have "list_all (\<lambda>c. not_after c r) as" using r(3) by (simp only: list.pred_inject)
  ultimately show ?case using r(1) by (intro exI [of _ r] conjI) (simp only: list.pred_inject)+
qed

lemma selection_meta:
  assumes "analyze_restore_points float_of rps = Inr as" and "list_all (\<lambda>a. created_text (an_created_at a)) as"
  shows "case filter an_is_clean as of
     [] \<Rightarrow> select_clean_restore_point float_of rps = Inr None
   | _ \<Rightarrow> \<exists>r. select_clean_restore_point float_of rps = Inr (Some r) \<and> r \<in> set as \<and> an_is_clean r \<and>
       list_all (\<lambda>c. not_after c r) (filter an_is_clean as)"
proof (cases "filter an_is_clean as")
  case Nil
  then show ?thesis by (simp add: select_clean_restore_point_def assms(1))
next
  case (Cons a rest)
  have "list_all (\<lambda>c. created_text (an_created_at c)) (a # rest)"
    using assms(2) Cons by (metis filter_is_subset list_all_iff subsetD)
  from max_from_created [OF this] obtain r where r: "max_from a rest = Inr r" "r \<in> set (a # rest)"
    "list_all (\<lambda>c. not_after c r) (a # rest)" by blast
  then have "r \<in> set (filter an_is_clean as)" using Cons by simp
  then have "r \<in> set as" "an_is_clean r" by simp_all
  then show ?thesis using r Cons by (simp add: select_clean_restore_point_def assms(1))
qed

text \<open>The analysis route never fails on a request it accepts: with the permission and at most 500
  points it reports one result per point in order, counts the flagged ones, and recommends a clean
  point no clean point is newer than, or none exactly when every point is flagged.\<close>

theorem analysis_always_answers:
  assumes "''threats:read'' \<in> set (permissions user)" and "length body \<le> 500"
  shows "\<exists>r. analyze_restore_points_endpoint float_of body user = Inr r \<and>
     map an_restore_point_id (ax_analysis r) = map (\<lambda>m. JStr (rm_id m)) body \<and>
     ax_flagged r + length (filter an_is_clean (ax_analysis r)) = length body \<and>
     (case filter an_is_clean (ax_analysis r) of
        [] \<Rightarrow> ax_recommended r = JNull
      | _ \<Rightarrow> \<exists>c \<in> set (ax_analysis r). ax_recommended r = an_restore_point_id c \<and> an_is_clean c \<and>
          list_all (\<lambda>c'. not_after c' c) (filter an_is_clean (ax_analysis r)))"
proof -
  obtain as where as: "analyze_restore_points float_of (map meta_dict body) = Inr as"
    "map an_restore_point_id as = map (\<lambda>m. JStr (rm_id m)) body" "list_all (\<lambda>a. created_text (an_created_at a)) as"
    unfolding analyze_restore_points_def using analyze_meta by blast
  have perm: "require_permission (permissions user) ''threats:read'' = Inr ()"
    using assms(1) by (simp add: require_permission_cases)
  have len: "length as = length body" using arg_cong [OF as(2), of length] by simp
  have flagged: "count_if (\<lambda>a. \<not> an_is_clean a) as + length (filter an_is_clean as) = length as"
    unfolding count_if_def by (induction as) auto
  show ?thesis
  proof (cases "filter an_is_clean as")
    case Nil
    then show ?thesis
      using selection_meta [OF as(1,3)] assms(2) as flagged len
      by (simp add: analyze_restore_points_endpoint_def perm Let_def)
  next
    case (Cons a rest)
    then obtain c where c: "select_clean_restore_point float_of (map meta_dict body) = Inr (Some c)" "c \<in> set as"
        "an_is_clean c" "list_all (\<lambda>c'. not_after c' c) (filter an_is_clean as)"
      using selection_meta [OF as(1,3)] by auto
    then show ?thesis
      using Cons assms(2) as flagged len
      by (auto simp: analyze_restore_points_endpoint_def perm Let_def)
  qed
qed

definition demo_points :: "restore_point_meta list" where
  "demo_points =
     [\<lparr>rm_id = ''rp1'', rm_created_at = Some ''2026-01-01'', rm_avg_entropy = 5, rm_total_files = 10,
        rm_renamed_files = 0, rm_new_extensions = []\<rparr>,
      \<lparr>rm_id = ''rp2'', rm_created_at = None, rm_avg_entropy = 8, rm_total_files = 10,
        rm_renamed_files = 9, rm_new_extensions = [''.locky'']\<rparr>]"

definition demo_viewer :: current_user where
  "demo_viewer = \<lparr>user_sub = [], user_org_id = 1, user_email = [], user_role = ''viewer''\<rparr>"

theorem analysis_always_answers_witness:
  "\<exists>r. analyze_restore_points_endpoint (\<lambda>_. None) demo_points demo_viewer = Inr r \<and>
     map an_restore_point_id (ax_analysis r) = [JStr ''rp1'', JStr ''rp2'']"
proof -
  have "''threats:read'' \<in> set (permissions demo_viewer)" "length demo_points \<le> 500" by code_simp+
  from analysis_always_answers [OF this, of "\<lambda>_. None"] obtain r where
    "analyze_restore_points_endpoint (\<lambda>_. None) demo_points demo_viewer = Inr r"
    "map an_restore_point_id (ax_analysis r) = map (\<lambda>m. JStr (rm_id m)) demo_points" by blast
  then show ?thesis by (auto simp: demo_points_def)
qed

end
