(* ===== verification/ThreatIsolation.thy ===== *)
theory ThreatIsolation
  imports ThreatRoutes
begin

text \<open>
  Tenant isolation of \<open>routers/threat_intel.py\<close>, all seven routes of it: the submissions of
  the appliances and the requests of the users in one sequence, each tagged with the organisation it
  acts for. A submission acts for the organisation of the appliance its headers authenticate. The
  one thing organisations share in these routes is the name space of \<open>scan_id\<close>, unique over
  the whole table: isolation is proved for sequences in which no two organisations use the same
  \<open>scan_id\<close>, and shown to fail otherwise.
\<close>

subsection \<open>The routes\<close>

datatype threat_op =
    Submit scan_env scan_result_in headers
  | ListFindings current_user "string option" "string option" int
  | ListIncidents current_user "string option" int
  | GetIncident current_user uuid
  | ResolveIncident current_user uuid int
  | ListScans current_user int
  | AnalyzeRestorePoints current_user "restore_point_meta list"

datatype threat_response =
    Submitted scan_response
  | FindingsOf "finding_row list"
  | IncidentsOf "incident_row list"
  | IncidentOf incident_row
  | Resolved
  | ScansOf "scan_row list"
  | Analyzed analysis_response

definition in_org :: "uuid \<Rightarrow> current_user \<Rightarrow> current_user" where
  "in_org org u = u\<lparr>user_org_id := org\<rparr>"

lemma in_org_simp [simp]: "user_org_id (in_org org u) = org"
  by (simp add: in_org_def)

text \<open>A user's request runs with the organisation of its token; a submission finds its own.\<close>

fun serve_threat ::
    "(uuid \<Rightarrow> string) \<Rightarrow> (string \<Rightarrow> rat option) \<Rightarrow> uuid \<Rightarrow> threat_op \<Rightarrow> (threat_tables, threat_response) exec" where
  "serve_threat uuid_str float_of org (Submit env p h) = respond Submitted (submit_scan_result uuid_str env p h)"
| "serve_threat uuid_str float_of org (ListFindings u st sev n) = respond FindingsOf (list_findings st sev n (in_org org u))"
| "serve_threat uuid_str float_of org (ListIncidents u st n) = respond IncidentsOf (list_incidents st n (in_org org u))"
| "serve_threat uuid_str float_of org (GetIncident u i) = respond IncidentOf (get_incident i (in_org org u))"
| "serve_threat uuid_str float_of org (ResolveIncident u i now) = respond (\<lambda>_. Resolved) (resolve_incident i (in_org org u) now)"
| "serve_threat uuid_str float_of org (ListScans u n) = respond ScansOf (list_scans n (in_org org u))"
| "serve_threat uuid_str float_of org (AnalyzeRestorePoints u body) =
     respond Analyzed (lift_result (analyze_restore_points_endpoint float_of body (in_org org u)))"

text \<open>The part of the tables an organisation's requests depend on: its rows, and the registered appliances.\<close>

definition threat_part where
  "threat_part org s =
     (tt_appliances s, filter (\<lambda>c. ch_org_id c = org) (tt_channels s), threat_view org s)"

subsection \<open>The response does not depend on what was sent before\<close>

definition blind :: "(ir_state, 'a) exec \<Rightarrow> bool" where
  "blind m \<longleftrightarrow> (\<forall>s tr. \<exists>tr'. m (s\<lparr>is_sent := tr\<rparr>) = (fst (m s), (snd (m s))\<lparr>is_sent := tr'\<rparr>))"

named_theorems blind_intros \<open>closure of \<open>blind\<close> under the combinators\<close>

lemma blindI: "(\<And>s tr. \<exists>tr'. m (s\<lparr>is_sent := tr\<rparr>) = (fst (m s), (snd (m s))\<lparr>is_sent := tr'\<rparr>)) \<Longrightarrow> blind m"
  by (simp add: blind_def)

lemma blindD: "blind m \<Longrightarrow> \<exists>tr'. m (s\<lparr>is_sent := tr\<rparr>) = (fst (m s), (snd (m s))\<lparr>is_sent := tr'\<rparr>)"
  by (simp add: blind_def)

lemma blind_basic [blind_intros]: "blind (ret x)" "blind (lift_result r)" "blind (log_step w t d ok)" "blind (set_incident f)"
proof -
  have swap: "(s :: ir_state)\<lparr>is_sent := tr, is_log := l\<rparr> = s\<lparr>is_log := l, is_sent := tr\<rparr>"
    "s\<lparr>is_sent := tr, is_incident := i\<rparr> = s\<lparr>is_incident := i, is_sent := tr\<rparr>" for s tr l i
    by (cases s, simp)+
  show "blind (ret x)" "blind (lift_result r)"
    unfolding blind_def by (auto simp: ret_def lift_result_def)
  show "blind (log_step w t d ok)" "blind (set_incident f)"
    by (rule blindI, rule exI, simp add: log_step_def set_incident_def update_def swap)+
qed

lemma blind_seq [blind_intros]:
  assumes m: "blind m" and f: "\<And>x. blind (f x)"
  shows "blind (seq m f)"
proof (rule blindI)
  fix s :: ir_state and tr
  obtain r t where run: "m s = (r, t)" by fastforce
  obtain tr' where same: "m (s\<lparr>is_sent := tr\<rparr>) = (r, t\<lparr>is_sent := tr'\<rparr>)" using blindD [OF m, where s = s and tr = tr] run by auto
  show "\<exists>tr'. seq m f (s\<lparr>is_sent := tr\<rparr>) = (fst (seq m f s), (snd (seq m f s))\<lparr>is_sent := tr'\<rparr>)"
  proof (cases r)
    case (Inl e)
    then show ?thesis by (auto simp: seq_def run same)
  next
    case (Inr x)
    then show ?thesis using blindD [OF f, where x1 = x and s = t and tr = tr'] by (simp add: seq_def run same)
  qed
qed

lemma blind_try [blind_intros]:
  assumes m: "blind m" and h: "\<And>e. blind (h e)"
  shows "blind (try_except m h)"
proof (rule blindI)
  fix s :: ir_state and tr
  obtain r t where run: "m s = (r, t)" by fastforce
  obtain tr' where same: "m (s\<lparr>is_sent := tr\<rparr>) = (r, t\<lparr>is_sent := tr'\<rparr>)" using blindD [OF m, where s = s and tr = tr] run by auto
  show "\<exists>tr'. try_except m h (s\<lparr>is_sent := tr\<rparr>) = (fst (try_except m h s), (snd (try_except m h s))\<lparr>is_sent := tr'\<rparr>)"
  proof (cases r)
    case (Inl e)
    then show ?thesis using blindD [OF h, where e1 = e and s = t and tr = tr'] by (simp add: try_except_def run same)
  next
    case (Inr x)
    then show ?thesis by (auto simp: try_except_def run same)
  qed
qed

lemma blind_if [blind_intros]: "blind m \<Longrightarrow> blind m' \<Longrightarrow> blind (if b then m else m')"
  by simp

lemma blind_sending [blind_intros]: "appends m \<Longrightarrow> blind (sending m)"
proof (rule blindI)
  fix s :: ir_state and tr
  assume m: "appends m"
  show "\<exists>tr'. sending m (s\<lparr>is_sent := tr\<rparr>) = (fst (sending m s), (snd (sending m s))\<lparr>is_sent := tr'\<rparr>)"
    using appendsD [OF m, of tr] appendsD [OF m, of "is_sent s"] by (auto simp: sending_def split: prod.splits)
qed

lemma blind_or_log [blind_intros]: "blind m \<Longrightarrow> blind (or_log w t l m)"
  unfolding or_log_def by (intro blind_intros)

lemma post_call_appends: "post_call w url p hs tr = (fst (post_call w url p hs []), tr @ snd (post_call w url p hs []))"
  by (simp add: post_call_def)

lemma appends_soar_post: "appends (soar_post w b path p hs)"
  unfolding appends_def soar_post_def
  by (auto simp: post_call_def split: json.splits sum.splits prod.splits)

lemma appends_generic_webhook: "appends (dispatch_generic_webhook w uuid_str url n f)"
  unfolding appends_def dispatch_generic_webhook_def
  by (auto simp: post_call_def split: json.splits sum.splits prod.splits)

lemma appends_soar: "appends (dispatch_soar w uuid_str f n cfg)"
  unfolding dispatch_soar_def dispatch_to_splunk_soar_def dispatch_to_xsoar_def Let_def
  by (intro appends_intros appends_soar_post appends_generic_webhook)

lemma authenticate_appends: "authenticate w c tr = (fst (authenticate w c []), tr @ snd (authenticate w c []))"
  unfolding authenticate_def post_call_def by (auto split: sum.splits prod.splits)

lemma with_token_appends: "with_token w c tr = (fst (with_token w c []), tr @ snd (with_token w c []))"
  unfolding with_token_def using authenticate_appends [of w c tr] by simp

lemma post_alarm_appends: "post_alarm w c p tr = (fst (post_alarm w c p []), tr @ snd (post_alarm w c p []))"
proof -
  obtain r ys where "with_token w c [] = (r, ys)" by fastforce
  moreover from this have "with_token w c tr = (r, tr @ ys)" using with_token_appends [of w c tr] by simp
  ultimately show ?thesis unfolding post_alarm_def by (simp add: post_call_def split: sum.splits prod.splits)
qed

lemma post_event_appends: "post_event w c p tr = (fst (post_event w c p []), tr @ snd (post_event w c p []))"
proof -
  obtain r ys where a: "post_alarm w c p [] = (r, ys)" by fastforce
  then have b: "post_alarm w c p tr = (r, tr @ ys)" using post_alarm_appends [of w c p tr] by simp
  obtain r' zs where "post_alarm w (c\<lparr>vo_token := JNull\<rparr>) p [] = (r', zs)" by fastforce
  then have "post_alarm w (c\<lparr>vo_token := JNull\<rparr>) p t = (r', t @ zs)" for t
    using post_alarm_appends [of w "c\<lparr>vo_token := JNull\<rparr>" p t] by simp
  then show ?thesis unfolding post_event_def a b by (simp split: sum.splits http_error.splits)
qed

lemma appends_veeamone: "appends (report_veeamone w uuid_str f org cfg)"
proof -
  have "appends (\<lambda>tr. case post_event w c p tr of (ok, tr') \<Rightarrow> (Inr ok, tr'))" for c p
    unfolding appends_def by (subst post_event_appends) (simp add: case_prod_beta)
  then show ?thesis unfolding report_veeamone_def by (intro appends_intros)
qed

lemma response_steps_blind: "blind (response_steps w uuid_str f org n h cfg)"
  unfolding response_steps_def backup_step_def soar_step_def siem_step_def veeamone_step_def notifications_step_def
    send_incident_notifications_def
  by (intro blind_intros appends_soar appends_veeamone incident.all_appends)

lemma handling_blind:
  assumes "count_if (\<lambda>i. ii_org_id i = org) (id_incidents db) = count_if (\<lambda>i. ii_org_id i = org) (id_incidents db')"
  shows "fst (handle_threat_finding w uuid_str f org i h cfg db) = fst (handle_threat_finding w uuid_str f org i h cfg db')"
proof -
  define n where "n = ''INC-'' @ pad4 (count_if (\<lambda>i. ii_org_id i = org) (id_incidents db) + 1)"
  let ?s = "\<lparr>is_incident = new_incident (iw_now w) f org i n, is_log = [], is_sent = id_sent db\<rparr>"
  obtain r s where run: "response_steps w uuid_str f org n h cfg ?s = (r, s)" by fastforce
  obtain tr where "response_steps w uuid_str f org n h cfg (?s\<lparr>is_sent := id_sent db'\<rparr>) = (r, s\<lparr>is_sent := tr\<rparr>)"
    using blindD [OF response_steps_blind [of w uuid_str f org n h cfg], where s = ?s and tr = "id_sent db'"] run by auto
  then have run': "response_steps w uuid_str f org n h cfg
      \<lparr>is_incident = new_incident (iw_now w) f org i n, is_log = [], is_sent = id_sent db'\<rparr> = (r, s\<lparr>is_sent := tr\<rparr>)"
    by simp
  have n': "''INC-'' @ pad4 (count_if (\<lambda>i. ii_org_id i = org) (id_incidents db') + 1) = n" by (simp add: n_def assms)
  show ?thesis
    unfolding handle_threat_finding_def Let_def n' n_def [symmetric] run run' by (simp split: sum.splits)
qed

subsection \<open>The requests of the users\<close>

lemma threat_part_iff: "threat_part org s = threat_part org s' \<longleftrightarrow> tt_appliances s = tt_appliances s' \<and>
    filter (\<lambda>c. ch_org_id c = org) (tt_channels s) = filter (\<lambda>c. ch_org_id c = org) (tt_channels s') \<and>
    threat_view org s = threat_view org s'"
  by (simp add: threat_part_def)

text \<open>The users' requests leave the appliances and the channels alone.\<close>

definition rows_only :: "(threat_tables, 'a) exec \<Rightarrow> bool" where
  "rows_only m \<longleftrightarrow> (\<forall>s. tt_appliances (snd (m s)) = tt_appliances s \<and> tt_channels (snd (m s)) = tt_channels s)"

lemma local_threat_part:
  assumes m: "local_to threat_view org m" and rows: "rows_only m"
  shows "local_to threat_part org m"
proof (rule local_toI)
  fix s s' assume eq: "threat_part org s = threat_part org s'"
  then have v: "threat_view org s = threat_view org s'" by (simp add: threat_part_iff)
  show "fst (m s) = fst (m s') \<and> threat_part org (snd (m s)) = threat_part org (snd (m s'))"
    using local_toD(1,2) [OF m v] eq rows by (simp add: threat_part_iff rows_only_def)
next
  fix org' s assume "org' \<noteq> org"
  from local_toD(3) [OF m this, of s] show "threat_part org' (snd (m s)) = threat_part org' s"
    using rows by (simp add: threat_part_iff rows_only_def)
qed

lemma users_rows_only:
  "rows_only (list_findings st sev n u)" "rows_only (list_incidents st n u)" "rows_only (get_incident i u)"
  "rows_only (resolve_incident i u now)" "rows_only (list_scans n u)"
  unfolding rows_only_def list_findings_def list_incidents_def get_incident_def resolve_incident_def list_scans_def
  by (auto simp: exec_simps split: sum.splits option.splits)

lemmas users_local = threat_reads_local [THEN local_threat_part] resolve_incident_local [THEN local_threat_part]

lemma respond_local: "local_to view org m \<Longrightarrow> local_to view org (respond f m)"
  unfolding respond_def by (rule local_seq_any) (simp_all add: local_ret)

subsection \<open>A submission\<close>

text \<open>Handling one finding reads the organisation's channels and counts its incidents, nothing else.\<close>

lemma get_configs_own:
  "get_org_integration_configs cs org = get_org_integration_configs (filter (\<lambda>c. ch_org_id c = org) cs) org"
proof -
  have "(\<lambda>c. ch_org_id c = org \<and> ch_enabled c \<and> ch_org_id c = org) = (\<lambda>c. ch_org_id c = org \<and> ch_enabled c)" by auto
  then show ?thesis by (simp add: get_org_integration_configs_def)
qed

lemma count_if_filter: "count_if P xs = length (filter P xs)"
  by (simp add: count_if_def)

lemma trigger_incident_local: "local_to threat_part org (trigger_incident uuid_str env org x)"
proof (rule local_toI)
  obtain k f where x: "x = (k, f)" by fastforce
  fix s s' assume eq: "threat_part org s = threat_part org s'"
  have cfgs: "configs_of org s = configs_of org s'"
    using eq by (metis configs_of_def get_configs_own threat_part_iff)
  have count: "count_if (\<lambda>i. ii_org_id i = org) (tt_incidents s) = count_if (\<lambda>i. ii_org_id i = org) (tt_incidents s')"
    using eq by (simp add: threat_part_iff threat_view_iff count_if_filter)
  let ?h = "\<lambda>t cfg. handle_threat_finding (te_world env k) uuid_str f org (te_incident_id env k) (te_hex8 env k) cfg
      \<lparr>id_incidents = tt_incidents t, id_sent = tt_sent t\<rparr>"
  show "fst (trigger_incident uuid_str env org x s) = fst (trigger_incident uuid_str env org x s') \<and>
      threat_part org (snd (trigger_incident uuid_str env org x s))
        = threat_part org (snd (trigger_incident uuid_str env org x s'))"
  proof (cases "configs_of org s")
    case (Inl e)
    then show ?thesis using cfgs eq by (simp add: x trigger_incident_fails)
  next
    case (Inr cfg)
    have same: "fst (?h s cfg) = fst (?h s' cfg)"
      by (rule handling_blind) (simp add: count)
    have step: "\<exists>inc sent. fst (?h t cfg) = Inr inc \<and> trigger_incident uuid_str env org x t
        = (Inr (), t\<lparr>tt_incidents := tt_incidents t @ [inc], tt_sent := sent\<rparr>)" if t: "configs_of org t = Inr cfg" for t
    proof -
      obtain inc d where run: "?h t cfg = (Inr inc, d)" and d: "id_incidents d = tt_incidents t @ [inc]"
        using handling_records_incident [OF refl, where w = "te_world env k" and uuid_str = uuid_str and finding = f
            and org_id = org and new_id = "te_incident_id env k" and hex_id = "te_hex8 env k" and cfg = cfg
            and db = "\<lparr>id_incidents = tt_incidents t, id_sent = tt_sent t\<rparr>"] by auto
      then have "trigger_incident uuid_str env org x t
          = (Inr (), t\<lparr>tt_incidents := tt_incidents t @ [inc], tt_sent := id_sent d\<rparr>)"
        using t by (simp add: x trigger_incident_def configs_of_def exec_simps at_incidents_def)
      then show ?thesis using run by (intro exI [of _ inc] exI [of _ "id_sent d"]) simp
    qed
    from step [OF Inr] step [of s'] show ?thesis
      using same cfgs Inr eq by (auto simp: threat_part_iff threat_view_iff)
  qed
next
  obtain k f where x: "x = (k, f)" by fastforce
  fix org' s assume ne: "org' \<noteq> org"
  show "threat_part org' (snd (trigger_incident uuid_str env org x s)) = threat_part org' s"
  proof (cases "configs_of org s")
    case (Inl e)
    then show ?thesis by (simp add: x trigger_incident_fails)
  next
    case (Inr cfg)
    from trigger_incident_stores [OF this] obtain inc sent where
      "trigger_incident uuid_str env org x s = (Inr (), s\<lparr>tt_incidents := tt_incidents s @ [inc], tt_sent := sent\<rparr>)"
      "ii_org_id inc = org" unfolding x by blast
    then show ?thesis using ne by (simp add: threat_part_iff threat_view_iff)
  qed
qed

lemma local_for_each: "(\<And>x. local_to view org (f x)) \<Longrightarrow> local_to view org (for_each f xs)"
proof (induction xs)
  case Nil
  then show ?case by (simp add: local_ret)
next
  case (Cons x xs)
  then show ?case by (simp add: local_seq_any)
qed

lemma verified_appliance_local: "local_to threat_part org (at_appliances (verified_appliance h))"
  by (rule local_toI) (simp_all add: at_appliances_verified threat_part_iff)

text \<open>
  The submission as it would be if the uniqueness of \<open>scan_id\<close> were checked within the
  organisation, and an appliance of another organisation were turned away.
\<close>

definition store_scan_own :: "uuid \<Rightarrow> scan_env \<Rightarrow> scan_result_in \<Rightarrow> appliance_row \<Rightarrow> (threat_tables, finding_row list) exec" where
  "store_scan_own org env p ap =
     seq (gets (\<lambda>s. list_ex (\<lambda>r. sn_scan_id r = si_scan_id p) (filter (\<lambda>r. sn_org_id r = org) (tt_scans s)))) (\<lambda>duplicate.
     if duplicate then raise (ExternalError ''IntegrityError: threat_scans.scan_id'')
     else seq (update (stored_scan env p ap)) (\<lambda>_. ret (filter is_severe (finding_rows env p (ap_org_id ap)))))"

definition submit_own :: "(uuid \<Rightarrow> string) \<Rightarrow> uuid \<Rightarrow> scan_env \<Rightarrow> scan_result_in \<Rightarrow> headers \<Rightarrow> (threat_tables, scan_response) exec" where
  "submit_own uuid_str org env p h =
     seq (at_appliances (verified_appliance h)) (\<lambda>ap.
     if ap_org_id ap \<noteq> org then raise (ExternalError ''another organisation'')
     else seq (lift_result (check_body_appliance p ap)) (\<lambda>_.
     seq (store_scan_own org env p ap) (\<lambda>severe.
     seq (for_each (trigger_incident uuid_str env org) (enumerate 0 severe)) (\<lambda>_.
     ret \<lparr>sp_scan_id = si_scan_id p, sp_findings = length (si_findings p),
          sp_critical = severity_count ''critical'' p, sp_incidents_created = length severe\<rparr>))))"

lemma store_scan_own_local:
  assumes "ap_org_id ap = org"
  shows "local_to threat_part org (store_scan_own org env p ap)"
proof -
  have "filter (\<lambda>f. fn_org_id f = org') (finding_rows env p org) = []" if "org' \<noteq> org" for org'
    using that by (auto simp: filter_empty_conv dest: finding_rows_org)
  then have "local_to threat_part org (update (stored_scan env p ap))"
    using assms by (intro local_update) (auto simp: threat_part_iff threat_view_iff stored_scan_def scan_row_of_def)
  then show ?thesis
    unfolding store_scan_own_def
    by (intro local_intros local_gets) (auto simp: threat_part_iff threat_view_iff)
qed

lemma submit_own_local: "local_to threat_part org (submit_own uuid_str org env p h)"
  unfolding submit_own_def
  by (intro local_intros local_for_each verified_appliance_local store_scan_own_local trigger_incident_local) simp

subsection \<open>Isolation\<close>

fun serve_own ::
    "(uuid \<Rightarrow> string) \<Rightarrow> (string \<Rightarrow> rat option) \<Rightarrow> uuid \<Rightarrow> threat_op \<Rightarrow> (threat_tables, threat_response) exec" where
  "serve_own uuid_str float_of org (Submit env p h) = respond Submitted (submit_own uuid_str org env p h)"
| "serve_own uuid_str float_of org op = serve_threat uuid_str float_of org op"

interpretation threats: tenant_handlers threat_part "serve_own uuid_str float_of" for uuid_str float_of
proof (rule local_handlers)
  fix org and r :: threat_op
  show "local_to threat_part org (serve_own uuid_str float_of org r)"
    by (cases r) (simp_all add: respond_local submit_own_local users_local users_rows_only local_lift)
qed

text \<open>The organisation of the appliance that the headers of a submission authenticate.\<close>

definition acts_for :: "appliance_db \<Rightarrow> uuid \<times> threat_op \<Rightarrow> bool" where
  "acts_for appliances x = (case x of
     (org, Submit env p h) \<Rightarrow>
       (case fst (verified_appliance h appliances) of Inl e \<Rightarrow> True | Inr ap \<Rightarrow> ap_org_id ap = org)
   | _ \<Rightarrow> True)"

text \<open>No \<open>scan_id\<close> is used by two organisations: \<open>owner\<close> says whose each one is.\<close>

definition own_scan_id :: "(string \<Rightarrow> uuid) \<Rightarrow> uuid \<times> threat_op \<Rightarrow> bool" where
  "own_scan_id owner x = (case x of (org, Submit env p h) \<Rightarrow> owner (si_scan_id p) = org | _ \<Rightarrow> True)"

definition scans_owned :: "(string \<Rightarrow> uuid) \<Rightarrow> threat_tables \<Rightarrow> bool" where
  "scans_owned owner s = list_all (\<lambda>r. owner (sn_scan_id r) = sn_org_id r) (tt_scans s)"

lemma duplicate_own:
  assumes "scans_owned owner s" and "owner i = org"
  shows "list_ex (\<lambda>r. sn_scan_id r = i) (filter (\<lambda>r. sn_org_id r = org) (tt_scans s)) = list_ex (\<lambda>r. sn_scan_id r = i) (tt_scans s)"
  using assms by (auto simp: scans_owned_def list_all_iff list_ex_iff)

lemma store_scan_same:
  assumes "scans_owned owner s" and "owner (si_scan_id p) = org"
  shows "store_scan_own org env p ap s = store_scan env p ap s"
  using duplicate_own [OF assms] by (simp add: store_scan_own_def store_scan_def exec_simps Let_def stored_scan_def)

lemma serve_same:
  assumes "acts_for (tt_appliances s) (org, op)" and "own_scan_id owner (org, op)" and "scans_owned owner s"
  shows "serve_threat uuid_str float_of org op s = serve_own uuid_str float_of org op s"
proof (cases op)
  case (Submit env p h)
  have "submit_scan_result uuid_str env p h s = submit_own uuid_str org env p h s"
  proof (cases "fst (verified_appliance h (tt_appliances s))")
    case (Inl e)
    then show ?thesis by (simp add: submit_scan_result_def submit_own_def seq_def at_appliances_verified)
  next
    case (Inr ap)
    then have "ap_org_id ap = org" using assms(1) by (simp add: acts_for_def Submit)
    moreover have "store_scan_own org env p ap s = store_scan env p ap s"
      by (rule store_scan_same [OF assms(3)]) (use assms(2) in \<open>simp add: own_scan_id_def Submit\<close>)
    ultimately show ?thesis
      using Inr by (auto simp: submit_scan_result_def submit_own_def seq_def at_appliances_verified lift_result_def
          split: sum.splits prod.splits)
  qed
  then show ?thesis by (simp add: Submit respond_def seq_def)
qed simp_all

lemma serve_threat_keeps:
  assumes "own_scan_id owner (org, op)" and "acts_for (tt_appliances s) (org, op)" and "scans_owned owner s"
  shows "tt_appliances (snd (serve_threat uuid_str float_of org op s)) = tt_appliances s \<and>
     scans_owned owner (snd (serve_threat uuid_str float_of org op s))"
proof (cases op)
  case (Submit env p h)
  have snd_respond: "snd (respond f m s) = snd (m s)" for f :: "'x \<Rightarrow> 'y" and m :: "('z, 'x) exec" and s
    by (auto simp: respond_def seq_def ret_def split: sum.splits prod.splits)
  show ?thesis
  proof (cases "fst (submit_scan_result uuid_str env p h s)")
    case (Inl e)
    then show ?thesis
      using submit_outcome [where uuid_str = uuid_str and env = env and payload = p and request = h and s = s] assms(3)
      by (auto simp: Submit snd_respond split: prod.splits)
  next
    case (Inr resp)
    then obtain s' where run: "submit_scan_result uuid_str env p h s = (Inr resp, s')" by (metis prod.collapse)
    obtain ap more sent where ap: "fst (verified_appliance h (tt_appliances s)) = Inr ap"
      and s': "s' = (stored_scan env p ap s)\<lparr>tt_incidents := tt_incidents s @ more, tt_sent := sent\<rparr>"
      using submit_outcome [where uuid_str = uuid_str and env = env and payload = p and request = h and s = s]
      unfolding run prod.case sum.case by blast
    then have "ap_org_id ap = owner (si_scan_id p)"
      using assms(1,2) by (simp add: acts_for_def own_scan_id_def Submit)
    then show ?thesis
      using assms(3) by (simp add: Submit snd_respond run s' stored_scan_def scans_owned_def scan_row_of_def)
  qed
next
  case (ResolveIncident u i now)
  then show ?thesis using assms(3)
    by (auto simp: respond_def resolve_incident_def exec_simps scans_owned_def split: sum.splits option.splits)
qed (use assms(3) in \<open>auto simp: respond_def list_findings_def list_incidents_def get_incident_def list_scans_def exec_simps
    split: sum.splits option.splits\<close>)

lemma serve_all_same:
  assumes "list_all (acts_for (tt_appliances s)) reqs" and "list_all (own_scan_id owner) reqs" and "scans_owned owner s"
  shows "serve_all (serve_threat uuid_str float_of) reqs s = serve_all (serve_own uuid_str float_of) reqs s"
  using assms
proof (induction reqs arbitrary: s)
  case (Cons x reqs)
  obtain org op where x: "x = (org, op)" by fastforce
  have here: "acts_for (tt_appliances s) (org, op)" "own_scan_id owner (org, op)" using Cons.prems by (simp_all add: x)
  have same: "serve_own uuid_str float_of org op s = serve_threat uuid_str float_of org op s"
    using serve_same [OF here Cons.prems(3), of uuid_str float_of] by simp
  have kept: "tt_appliances (snd (serve_threat uuid_str float_of org op s)) = tt_appliances s"
    "scans_owned owner (snd (serve_threat uuid_str float_of org op s))"
    using serve_threat_keeps [OF here(2,1) Cons.prems(3)] by blast+
  have "serve_all (serve_threat uuid_str float_of) reqs (snd (serve_threat uuid_str float_of org op s))
      = serve_all (serve_own uuid_str float_of) reqs (snd (serve_threat uuid_str float_of org op s))"
    by (rule Cons.IH) (use Cons.prems kept in simp_all)
  then show ?case by (simp add: x same case_prod_beta Let_def)
qed simp

text \<open>A \<open>scan_id\<close> of any organisation is refused to every other one, which so learns that it exists.\<close>

lemma foreign_scan_id_refused:
  assumes "fst (verified_appliance h (tt_appliances s)) = Inr ap" and "check_body_appliance p ap = Inr ()"
    and "r \<in> set (tt_scans s)" and "sn_scan_id r = si_scan_id p"
  shows "submit_scan_result uuid_str env p h s = (Inl (ExternalError ''IntegrityError: threat_scans.scan_id''), s)"
proof -
  have "list_ex (\<lambda>r. sn_scan_id r = si_scan_id p) (tt_scans s)" using assms(3,4) by (auto simp: list_ex_iff)
  then show ?thesis
    using assms(1,2) by (simp add: submit_scan_result_def store_scan_def exec_simps at_appliances_verified)
qed

text \<open>C19: tenant isolation of all seven threat routes, the appliances' submissions among them: in any
  sequence of requests, each organisation gets exactly the responses it would get alone, provided
  every submission comes from an appliance of the organisation it is counted for and no
  \<open>scan_id\<close> is used by two organisations, in the table or in the sequence. Without the second
  condition it fails (\<open>foreign_scan_id_refused\<close>).\<close>

theorem threat_isolation:
  assumes "list_all (acts_for (tt_appliances s)) reqs"
    and "list_all (own_scan_id owner) reqs" and "scans_owned owner s"
  shows "responses_of org (fst (serve_all (serve_threat uuid_str float_of) reqs s))
     = map snd (fst (serve_all (serve_threat uuid_str float_of) (filter (\<lambda>(o', _). o' = org) reqs) s))"
proof -
  let ?own = "filter (\<lambda>(o', _). o' = org) reqs"
  have "list_all (acts_for (tt_appliances s)) ?own" "list_all (own_scan_id owner) ?own"
    using assms(1,2) by (simp_all add: list_all_iff)
  from serve_all_same [OF assms] serve_all_same [OF this assms(3)] show ?thesis
    using threats.noninterference by metis
qed

text \<open>Organisation 1 submits a scan and lists its incidents while organisation 2 lists its scans.\<close>

definition demo_requests :: "(uuid \<times> threat_op) list" where
  "demo_requests = [(1, Submit demo_scan_env demo_scan id_only), (2, ListScans demo_viewer 10),
     (1, ListIncidents demo_viewer None 10)]"

theorem threat_isolation_witness:
  "responses_of 1 (fst (serve_all (serve_threat (\<lambda>_. ''u'') (\<lambda>_. None)) demo_requests demo_threat_tables))
     = map snd (fst (serve_all (serve_threat (\<lambda>_. ''u'') (\<lambda>_. None))
         [(1, Submit demo_scan_env demo_scan id_only), (1, ListIncidents demo_viewer None 10)] demo_threat_tables))"
proof -
  have "list_all (acts_for (tt_appliances demo_threat_tables)) demo_requests" by code_simp
  moreover have "list_all (own_scan_id (\<lambda>_. 1)) demo_requests" "scans_owned (\<lambda>_. 1) demo_threat_tables"
    by (simp_all add: own_scan_id_def scans_owned_def demo_requests_def demo_threat_tables_def)
  ultimately show ?thesis
    using threat_isolation [where s = demo_threat_tables and reqs = demo_requests and owner = "\<lambda>_. 1" and org = 1
        and uuid_str = "\<lambda>_. ''u''" and float_of = "\<lambda>_. None"]
    by (simp add: demo_requests_def)
qed

end
