(* ===== verification/ThreatScanner.thy ===== *)
theory ThreatScanner
  imports ThreatIntel
begin

text \<open>
  The appliance's threat scanner: \<open>threat_intel/scanner.py\<close>, the YARA engine
  \<open>threat_intel/yara_engine.py\<close> and \<open>threat_intel/dependency_scanner.py\<close>. What the
  code asks the host (psutil, the file system, yara-python, the XML parser) is the record
  \<open>host\<close> and the parsed feed entries. \<open>h_files\<close> are the files a recursive listing of
  a path yields before it ends or fails, since a failing listing ends the path and is logged;
  \<open>h_sha256\<close> is what \<open>_sha256\<close> returns for a file.
\<close>

subsection \<open>The host\<close>

record process_info =
  pi_name :: string
  pi_pid :: int
  pi_exe :: "string option"

record yara_match =
  ym_rule :: string
  ym_meta :: dict
  ym_strings :: "string list"

record host =
  h_name :: string
  h_processes :: "process_info list result"
  h_connections :: "string option list result"
  h_files :: "string \<Rightarrow> string list"
  h_sha256 :: "string \<Rightarrow> string result"
  h_yara :: "string \<Rightarrow> string \<Rightarrow> yara_match list result"

record scan_finding =
  sf_signature_id :: "string option"
  sf_threat_name :: string
  sf_threat_type :: threat_type
  sf_severity :: threat_severity
  sf_host :: string
  sf_indicator_type :: string
  sf_indicator_value :: string
  sf_context :: dict
  sf_mitre_technique :: json

definition text_or_null :: "string option \<Rightarrow> json" where
  "text_or_null v = (case v of None \<Rightarrow> JNull | Some s \<Rightarrow> JStr s)"

definition finding_of :: "threat_signature \<Rightarrow> string \<Rightarrow> string \<Rightarrow> string \<Rightarrow> dict \<Rightarrow> scan_finding" where
  "finding_of sig hostname kind value context =
     \<lparr>sf_signature_id = sg_id sig, sf_threat_name = sg_name sig, sf_threat_type = sg_threat_type sig,
      sf_severity = sg_severity sig, sf_host = hostname, sf_indicator_type = kind, sf_indicator_value = value,
      sf_context = context, sf_mitre_technique = text_or_null (sg_mitre_technique sig)\<rparr>"

text \<open>\<open>for ...: findings.append(...)\<close> with bodies that may raise.\<close>

definition collect :: "('a \<Rightarrow> 'b list result) \<Rightarrow> 'a list \<Rightarrow> 'b list result" where
  "collect f xs = and_then (map_result f xs) (\<lambda>yss. Inr (concat yss))"

subsection \<open>Processes\<close>

text \<open>The dictionary of running processes: a later process of the same name wins.\<close>

definition running :: "process_info list \<Rightarrow> string \<Rightarrow> process_info option" where
  "running ps n = map_of (rev (map (\<lambda>p. (lower (pi_name p), p)) ps)) n"

definition process_context :: "process_info \<Rightarrow> dict" where
  "process_context p =
     (case pi_exe p of
        Some exe \<Rightarrow> [(''pid'', JInt (pi_pid p)), (''exe'', JStr exe)]
      | None \<Rightarrow> [(''pid'', JInt 0), (''exe'', JStr [])])"

definition scan_processes :: "host \<Rightarrow> threat_signature list \<Rightarrow> string \<Rightarrow> scan_finding list result" where
  "scan_processes h sigs hostname =
     (case h_processes h of
        Inl _ \<Rightarrow> Inr []
      | Inr ps \<Rightarrow>
          collect (\<lambda>sig. and_then (iterate (sg_process_names sig)) (collect (\<lambda>v.
            and_then (as_str v) (\<lambda>proc_name. Inr (case running ps (lower proc_name) of
               None \<Rightarrow> []
             | Some p \<Rightarrow> [finding_of sig hostname ''process'' proc_name (process_context p)]))))) sigs)"

subsection \<open>Network connections\<close>

definition remote_ips :: "string option list \<Rightarrow> json list" where
  "remote_ips connections =
     concat (map (\<lambda>c. case c of None \<Rightarrow> [] | Some i \<Rightarrow> [JStr i]) connections)"

definition scan_network_connections :: "host \<Rightarrow> threat_signature list \<Rightarrow> string \<Rightarrow> scan_finding list result" where
  "scan_network_connections h sigs hostname =
     (case h_connections h of
        Inl _ \<Rightarrow> Inr []
      | Inr connections \<Rightarrow>
          collect (\<lambda>sig. and_then (iterate (sg_network_iocs sig)) (collect (\<lambda>ioc.
            and_then (hashable ioc) (\<lambda>_. Inr (if ioc \<in> set (remote_ips connections)
              then [finding_of sig hostname ''network'' (py_str ioc) [(''remote_ip'', ioc)]] else []))))) sigs)"

subsection \<open>Files\<close>

text \<open>The lookup table of bad hashes: the last signature listing a hash wins.\<close>

definition hash_to_sig :: "threat_signature list \<Rightarrow> (string \<times> threat_signature) list result" where
  "hash_to_sig sigs =
     and_then (collect (\<lambda>sig. and_then (iterate (sg_file_hashes sig)) (collect (\<lambda>v.
        and_then (as_str v) (\<lambda>s. Inr [(lower s, sig)])))) sigs) (\<lambda>kvs. Inr (rev kvs))"

text \<open>One file: reading errors of the operating system are skipped, others end the path.\<close>

definition scan_file :: "host \<Rightarrow> (string \<times> threat_signature) list \<Rightarrow> string \<Rightarrow> string \<Rightarrow> scan_finding list result" where
  "scan_file h table hostname filepath =
     (case h_sha256 h filepath of
        Inr file_hash \<Rightarrow> Inr (case map_of table file_hash of
            None \<Rightarrow> []
          | Some sig \<Rightarrow> [finding_of sig hostname ''file_hash'' file_hash [(''path'', JStr filepath)]])
      | Inl (PermissionError _) \<Rightarrow> Inr []
      | Inl (OSError _) \<Rightarrow> Inr []
      | Inl e \<Rightarrow> Inl e)"

text \<open>What was found before an exception stays found.\<close>

fun until_error :: "('a \<Rightarrow> 'b list result) \<Rightarrow> 'a list \<Rightarrow> 'b list" where
  "until_error f [] = []"
| "until_error f (x # xs) = (case f x of Inl _ \<Rightarrow> [] | Inr ys \<Rightarrow> ys @ until_error f xs)"

definition scan_path :: "host \<Rightarrow> (string \<times> threat_signature) list \<Rightarrow> string \<Rightarrow> string \<Rightarrow> scan_finding list" where
  "scan_path h table hostname path =
     until_error (scan_file h table hostname) (h_files h path)"

definition scan_files :: "host \<Rightarrow> string list \<Rightarrow> threat_signature list \<Rightarrow> string \<Rightarrow> scan_finding list result" where
  "scan_files h paths sigs hostname =
     and_then (hash_to_sig sigs) (\<lambda>table.
     Inr (if table = [] then [] else concat (map (scan_path h table hostname) paths)))"

subsection \<open>YARA\<close>

text \<open>
  The engine: whether the package is installed, whether rules are compiled, and their count.
  \<open>compiles\<close> says whether \<open>yara.compile\<close> accepts the combined text.
\<close>

record yara_engine =
  ye_available :: bool
  ye_rules :: "string option"
  ye_rule_count :: nat

definition new_engine :: "bool \<Rightarrow> yara_engine" where
  "new_engine available = \<lparr>ye_available = available, ye_rules = None, ye_rule_count = 0\<rparr>"

definition combined_rules :: "string \<Rightarrow> dict list \<Rightarrow> string result" where
  "combined_rules builtin db_rules =
     and_then (map_result (\<lambda>rule. dsub rule ''rule_text'') db_rules) (\<lambda>texts.
     Inr (builtin @ ''\<newline>'' @ concat (map (\<lambda>t. ''\<newline>'' @ py_str t @ ''\<newline>'') texts)))"

definition load_rules :: "string \<Rightarrow> (string \<Rightarrow> bool) \<Rightarrow> dict list \<Rightarrow> (yara_engine, unit) exec" where
  "load_rules builtin compiles db_rules =
     seq (gets ye_available) (\<lambda>available.
     if \<not> available then ret ()
     else
       seq (lift_result (combined_rules builtin db_rules)) (\<lambda>combined.
       if compiles combined
       then update (\<lambda>e. e\<lparr>ye_rules := Some combined, ye_rule_count := length db_rules + 3\<rparr>)
       else update (\<lambda>e. e\<lparr>ye_rules := None\<rparr>)))"

definition yara_finding :: "string \<Rightarrow> string \<Rightarrow> yara_match \<Rightarrow> scan_finding list result" where
  "yara_finding hostname filepath m =
     and_then (case dget_or (ym_meta m) ''severity'' (JStr ''medium'') of
                 JStr s \<Rightarrow> threat_severity_of s | _ \<Rightarrow> Inl (ValueError ''not a valid ThreatSeverity'')) (\<lambda>severity.
     Inr [\<lparr>sf_signature_id = Some (''yara-'' @ ym_rule m), sf_threat_name = ym_rule m, sf_threat_type = YARA,
           sf_severity = severity, sf_host = hostname, sf_indicator_type = ''yara'', sf_indicator_value = ym_rule m,
           sf_context = [(''file'', JStr filepath), (''strings'', JArr (map JStr (take 5 (ym_strings m))))],
           sf_mitre_technique = dget (ym_meta m) ''mitre_technique''\<rparr>])"

definition yara_scan_file :: "host \<Rightarrow> string \<Rightarrow> string \<Rightarrow> string \<Rightarrow> scan_finding list" where
  "yara_scan_file h rules hostname filepath =
     (case h_yara h rules filepath of
        Inl _ \<Rightarrow> []
      | Inr matches \<Rightarrow> until_error (yara_finding hostname filepath) matches)"

definition yara_scan_paths :: "host \<Rightarrow> yara_engine \<Rightarrow> string list \<Rightarrow> string \<Rightarrow> scan_finding list \<times> nat" where
  "yara_scan_paths h engine paths hostname =
     (case ye_rules engine of
        Some rules \<Rightarrow>
          if ye_available engine
          then (concat (map (\<lambda>path. concat (map (yara_scan_file h rules hostname) (h_files h path))) paths),
                ye_rule_count engine)
          else ([], 0)
      | None \<Rightarrow> ([], 0))"

subsection \<open>The full scan\<close>

record scan_result =
  sr_scan_id :: string
  sr_appliance_id :: string
  sr_org_id :: string
  sr_started_at :: string
  sr_completed_at :: string
  sr_hosts_scanned :: nat
  sr_findings :: "scan_finding list"
  sr_signatures_checked :: nat
  sr_yara_rules_checked :: nat

definition critical_count :: "scan_result \<Rightarrow> nat" where
  "critical_count r = count_if (\<lambda>f. sf_severity f = CRITICAL) (sr_findings r)"

definition high_count :: "scan_result \<Rightarrow> nat" where
  "high_count r = count_if (\<lambda>f. sf_severity f = HIGH) (sr_findings r)"

definition has_critical_threat :: "scan_result \<Rightarrow> bool" where
  "has_critical_threat r \<longleftrightarrow> 0 < critical_count r"

definition run_full_scan ::
    "host \<Rightarrow> yara_engine \<Rightarrow> string list \<Rightarrow> threat_db \<Rightarrow> string \<Rightarrow> string \<Rightarrow> string \<Rightarrow> string \<Rightarrow> string
       \<Rightarrow> scan_result result" where
  "run_full_scan h engine paths db appliance_id org_id scan_id started completed =
     (let hostname = h_name h in
      and_then (get_process_signatures db) (\<lambda>proc_sigs.
      and_then (get_hash_signatures db) (\<lambda>hash_sigs.
      and_then (get_network_signatures db) (\<lambda>net_sigs.
      and_then (scan_processes h proc_sigs hostname) (\<lambda>proc_findings.
      and_then (scan_network_connections h net_sigs hostname) (\<lambda>net_findings.
      and_then (if paths = [] then Inr ([], 0)
                else and_then (scan_files h paths hash_sigs hostname) (\<lambda>file_findings.
                     let (yara_findings, yara_count) = yara_scan_paths h engine paths hostname
                     in Inr (file_findings @ yara_findings, yara_count))) (\<lambda>(path_findings, yara_count).
      Inr \<lparr>sr_scan_id = scan_id, sr_appliance_id = appliance_id, sr_org_id = org_id,
           sr_started_at = started, sr_completed_at = completed, sr_hosts_scanned = 1,
           sr_findings = proc_findings @ net_findings @ path_findings,
           sr_signatures_checked = signature_count db, sr_yara_rules_checked = yara_count\<rparr>)))))))"

subsection \<open>Dependencies\<close>

text \<open>An element of the parsed NVD feed: attribute, and the text of its two optional children.\<close>

record nvd_entry =
  ne_id :: "string option"
  ne_summary :: "string option option"
  ne_score :: "string option option"

record vulnerability =
  vu_cve_id :: string
  vu_summary :: "string option"
  vu_cvss_score :: rat

text \<open>\<open>float(text)\<close> is the argument \<open>float_of\<close>; \<open>None\<close> is its \<open>ValueError\<close>.\<close>

definition parse_nvd :: "(string \<Rightarrow> rat option) \<Rightarrow> nvd_entry list \<Rightarrow> vulnerability list" where
  "parse_nvd float_of entries =
     map (\<lambda>e. \<lparr>vu_cve_id = (case ne_id e of None \<Rightarrow> [] | Some i \<Rightarrow> i),
        vu_summary = (case ne_summary e of None \<Rightarrow> Some [] | Some t \<Rightarrow> t),
        vu_cvss_score = (case float_of (str_or (case ne_score e of None \<Rightarrow> Some ''0.0'' | Some t \<Rightarrow> t) ''0.0'') of
           None \<Rightarrow> 0 | Some x \<Rightarrow> x)\<rparr>) entries"

text \<open>The text of a child's element, absent or empty.\<close>

record sbom_component =
  sc_name :: "string option"
  sc_version :: "string option"
  sc_purl :: "string option"

definition element_text :: "string option option \<Rightarrow> string option" where
  "element_text el = (case el of None \<Rightarrow> Some [] | Some t \<Rightarrow> t)"

definition parse_sbom ::
    "(string option option \<times> string option option \<times> string option option) list \<Rightarrow> sbom_component list" where
  "parse_sbom comps =
     map (\<lambda>(n, v, p). \<lparr>sc_name = element_text n, sc_version = element_text v, sc_purl = element_text p\<rparr>) comps"

definition lower_text :: "string option \<Rightarrow> string result" where
  "lower_text v = (case v of
     None \<Rightarrow> Inl (AttributeError ''NoneType object has no attribute lower'') | Some s \<Rightarrow> Inr (lower s))"

text \<open>
  The names are a set; its order, which decides the component a vulnerability is reported with
  when several match, is that of the list \<open>remdups\<close> keeps here.
\<close>

definition match_vulnerability :: "string list \<Rightarrow> vulnerability \<Rightarrow> (vulnerability \<times> string) list result" where
  "match_vulnerability names vuln =
     and_then (lower_text (vu_summary vuln)) (\<lambda>summary.
     Inr (case List.find (\<lambda>n. n \<noteq> [] \<and> contains summary n) names of
            None \<Rightarrow> [] | Some n \<Rightarrow> [(vuln, n)]))"

definition scan_dependencies ::
    "sbom_component list \<Rightarrow> vulnerability list \<Rightarrow> (vulnerability \<times> string) list result" where
  "scan_dependencies comps vulnerabilities =
     and_then (map_result (\<lambda>c. lower_text (sc_name c)) comps) (\<lambda>names.
     collect (match_vulnerability (remdups names)) vulnerabilities)"

subsection \<open>Lemmas\<close>

lemma collect_iff: "collect f xs = Inr ys \<Longrightarrow> y \<in> set ys \<longleftrightarrow> (\<exists>x \<in> set xs. \<exists>zs. f x = Inr zs \<and> y \<in> set zs)"
proof (induction xs arbitrary: ys)
  case (Cons x xs)
  then obtain zs zss where "f x = Inr zs" "map_result f xs = Inr zss" "ys = zs @ concat zss"
    by (auto simp: collect_def and_then_Inr)
  moreover from this have "y \<in> set (concat zss) \<longleftrightarrow> (\<exists>x \<in> set xs. \<exists>zs. f x = Inr zs \<and> y \<in> set zs)"
    using Cons.IH [of "concat zss"] by (simp add: collect_def)
  ultimately show ?case by auto
qed (simp add: collect_def)

lemma collect_total: "(\<And>x. x \<in> set xs \<Longrightarrow> f x = Inr (g x)) \<Longrightarrow> collect f xs = Inr (concat (map g xs))"
  by (simp add: collect_def map_result_total)

lemma running_iff: "(\<exists>p. running ps n = Some p) \<longleftrightarrow> n \<in> lower ` pi_name ` set ps"
proof -
  have "running ps n \<noteq> None \<longleftrightarrow> n \<in> fst ` set (rev (map (\<lambda>p. (lower (pi_name p), p)) ps))"
    unfolding running_def by (simp only: map_of_eq_None_iff not_not)
  then show ?thesis by (auto simp: image_image)
qed

lemma running_Some: "running ps n = Some p \<Longrightarrow> p \<in> set ps \<and> lower (pi_name p) = n"
  unfolding running_def by (auto dest!: map_of_SomeD)

lemma lower_length [simp]: "length (lower s) = length s"
  by (simp add: lower_def)

definition seed_hash_signature :: "threat_signature \<Rightarrow> bool" where
  "seed_hash_signature g \<longleftrightarrow> sg_file_hashes g = JArr [] \<or> sg_file_hashes g = JArr [JStr SEED_HASH]"

lemma row_to_signature_hashes: "row_to_signature r = Inr g \<Longrightarrow> sg_file_hashes g = td_file_hashes r"
  by (auto simp: row_to_signature_def and_then_Inr)

lemma hash_table_seeds:
  assumes "list_all seed_hash_signature sigs"
  shows "\<exists>table. hash_to_sig sigs = Inr table \<and> fst ` set table \<subseteq> {lower SEED_HASH}"
proof -
  let ?f = "\<lambda>sig. and_then (iterate (sg_file_hashes sig)) (collect (\<lambda>v. and_then (as_str v) (\<lambda>s. Inr [(lower s, sig)])))"
  let ?g = "\<lambda>sig. if sg_file_hashes sig = JArr [] then [] else [(lower SEED_HASH, sig)]"
  have "?f sig = Inr (?g sig)" if "sig \<in> set sigs" for sig
    using assms that by (auto simp: list_all_iff seed_hash_signature_def iterate_def collect_def as_str_def)
  then have "hash_to_sig sigs = Inr (rev (concat (map ?g sigs)))"
    unfolding hash_to_sig_def by (subst collect_total [of sigs ?f ?g]) simp_all
  then show ?thesis by auto
qed

lemma until_error_Nil: "(\<And>x ys. f x = Inr ys \<Longrightarrow> ys = []) \<Longrightarrow> until_error f xs = []"
  by (induction xs) (auto split: sum.splits)

lemma scan_path_long_digests:
  assumes "\<And>f d. h_sha256 h f = Inr d \<Longrightarrow> length d = 64" and "fst ` set table \<subseteq> {lower SEED_HASH}"
  shows "scan_path h table hostname path = []"
  unfolding scan_path_def
proof (rule until_error_Nil)
  fix f ys assume scan: "scan_file h table hostname f = Inr ys"
  show "ys = []"
  proof (cases "h_sha256 h f")
    case (Inl e)
    then show ?thesis using scan by (cases e) (simp_all add: scan_file_def)
  next
    case (Inr d)
    have "d \<noteq> lower SEED_HASH" using assms(1) [OF Inr] by (auto simp: SEED_HASH_def)
    then have "map_of table d = None" using assms(2) by (auto simp: map_of_eq_None_iff)
    then show ?thesis using scan Inr by (simp add: scan_file_def)
  qed
qed

subsection \<open>Properties\<close>

text \<open>The built-in file-hash signature never matches: on a database that holds seeded hashes only
  (an empty one, once seeded), scanning any files finds nothing by hash, because the scanner compares
  SHA-256 digests of 64 characters and the seed stores a digest of 40. \<close>

theorem seed_hashes_never_match:
  assumes "keeps_floats bind_real" and "\<And>f d. h_sha256 h f = Inr d \<Longrightarrow> length d = 64"
    and "list_all well_typed (th_signatures db)" and "list_all seed_hashes (th_signatures db)"
  shows "\<exists>gs. get_hash_signatures (snd (seed_signatures bind_real now db)) = Inr gs \<and>
     scan_files h paths gs hostname = Inr []"
proof -
  from seeding [OF assms(1,3), of now] assms(4) obtain db' where
    seeded: "seed_signatures bind_real now db = (Inr (), db')" "list_all well_typed (th_signatures db')"
      "list_all seed_hashes (th_signatures db')" by blast
  then have "list_all well_typed (filter (\<lambda>r. td_file_hashes r \<noteq> JArr []) (th_signatures db'))"
    by (auto simp: list_all_iff)
  then obtain gs where gs: "get_hash_signatures db' = Inr gs"
    unfolding get_hash_signatures_def using read_iff by blast
  have "seed_hash_signature g" if "g \<in> set gs" for g
  proof -
    from that gs obtain r where "r \<in> set (th_signatures db')" "row_to_signature r = Inr g"
      unfolding get_hash_signatures_def by (auto simp: map_result_set)
    then show ?thesis
      using seeded(3) row_to_signature_hashes [of r g]
      by (auto simp: list_all_iff seed_hash_signature_def seed_hashes_def)
  qed
  then have "list_all seed_hash_signature gs" by (simp add: list_all_iff)
  from hash_table_seeds [OF this] obtain table
    where "hash_to_sig gs = Inr table" "fst ` set table \<subseteq> {lower SEED_HASH}" by blast
  moreover from this have "scan_path h table hostname path = []" for path
    using scan_path_long_digests [of h table] assms(2) by blast
  ultimately have "scan_files h paths gs hostname = Inr []" by (simp add: scan_files_def)
  then show ?thesis using gs seeded(1) by simp
qed

definition demo_host :: host where
  "demo_host = \<lparr>h_name = ''h'', h_processes = Inr [], h_connections = Inr [], h_files = \<lambda>p. [p @ ''/mimikatz.exe''],
     h_sha256 = \<lambda>_. Inr (replicate 64 CHR ''a''), h_yara = \<lambda>_ _. Inr []\<rparr>"

lemma demo_seeded:
  "map_result (\<lambda>g. Inr (sg_id g)) (case get_hash_signatures (snd (seed_signatures Inr ''t'' empty_threat_db)) of
     Inr gs \<Rightarrow> gs | Inl _ \<Rightarrow> []) = Inr [Some ''malware-mimikatz'']"
  by code_simp

theorem seed_hashes_never_match_witness:
  "\<exists>g. get_hash_signatures (snd (seed_signatures Inr ''t'' empty_threat_db)) = Inr [g] \<and>
     sg_id g = Some ''malware-mimikatz'' \<and> scan_files demo_host [''/srv''] [g] ''h'' = Inr []"
proof -
  have "\<exists>gs. get_hash_signatures (snd (seed_signatures Inr ''t'' empty_threat_db)) = Inr gs \<and>
     scan_files demo_host [''/srv''] gs ''h'' = Inr []"
    by (rule seed_hashes_never_match) (auto simp: keeps_floats_def demo_host_def empty_threat_db_def)
  then obtain gs where gs: "get_hash_signatures (snd (seed_signatures Inr ''t'' empty_threat_db)) = Inr gs"
      "scan_files demo_host [''/srv''] gs ''h'' = Inr []" by blast
  have "map_result (\<lambda>g. Inr (sg_id g)) gs = Inr [Some ''malware-mimikatz'']"
    using demo_seeded by (simp only: gs(1) sum.case)
  then obtain g where "gs = [g]" "sg_id g = Some ''malware-mimikatz''"
    by (cases gs; cases "tl gs") (auto simp: and_then_Inr)
  with gs show ?thesis by blast
qed

end
