(* ===== verification/Spec2Isabelle.thy ===== *)
theory Spec2Isabelle
  imports Activities Api ApplianceService AuditChain AuditExport CloudConnectors Compliance Connectors ContinuousValidation Dashboard Delivery EvidenceFiles Fleet HostConnectors IncidentResponse Integrations Joins Json Mssp Notifications Onboarding Portal Prelude ProviderInventory PyFloat RateLimit Rbac RecoveryTest Relay ReportSchedules Reports RunbookEngine RunbookWorkflow Runbooks Scheduler Sso Tables Team Temporal Tenancy ThreatAnalysis ThreatIntel ThreatIsolation ThreatRoutes ThreatScanner VCenter VeeamClient VeeamRest
begin

text \<open>
  Verification of r3vp, which proves that backups can be recovered: an appliance inside the
  customer's network runs recovery tests against Veeam and vCenter, scans for threats and keeps a
  hash-chained audit log; an API in the cloud keeps the fleet's workloads, runs, runbooks, policies
  and incidents, and decides who may see what. Every definition is translated from the Python
  sources under src/apps/appliance/src and src/apps/api/src; PROJECT.json maps each of them
  to its lines.

  How the parts interact. The API schedules a run (Scheduler), the appliance polls for it over
  the relay channel (Relay on its side, ApplianceService on the API's), runs the Temporal workflow
  of RecoveryTest whose activities (Activities) drive Veeam (VeeamClient over VeeamRest) and
  vCenter (VCenter), and reports progress and a result, which may notify the organisation
  (Notifications). A runbook is planned by the API (Runbooks over RunbookEngine) and executed by
  the appliance (RunbookWorkflow). Scans (ThreatScanner over ThreatIntel) yield findings, which
  the API turns into incidents (IncidentResponse). Users reach the API through the rate limiter
  (RateLimit) and the permission checks (Rbac).

  How the code is modelled. A function that may raise gives \<open>'a result\<close>, a sum of an
  exception and a value; code that also changes state is \<open>('s, 'a) exec\<close>, a function from
  the state to the result and the state left behind, so an exception keeps the changes made before
  it. A handler's state is the record of the tables it uses, rows in insertion order; a database
  session that commits or rolls back is \<open>txn\<close> of Api. Libraries, services and clocks are fields
  of records (\<open>http\<close>, \<open>outbound\<close>, \<open>services\<close>, \<open>ir_world\<close>) or arguments.
  Python's ints are \<open>int\<close>, floats the rationals they denote rounded as IEEE 754 doubles round
  (PyFloat), JSON values the datatype of Json, characters code points below 256 or, where a theory says so, UTF-8 bytes, addresses \<open>32 word\<close>, times microseconds.

  Shared vocabulary: Prelude (exceptions, results, stateful code, string operations), PyFloat
  (rounding and \<open>round\<close>; locale \<open>rounding\<close>, interpreted for floats and for \<open>round\<close>), Json
  (values, access, \<open>json.dumps\<close>, \<open>repr\<close> of floats), Tenancy (the locale \<open>tenant_handlers\<close>:
  handlers that see one organisation only; noninterference of any interleaving), Tables (the locale
  \<open>upsert_table\<close>: INSERT ... ON CONFLICT DO UPDATE; a batch can be repeated without effect), Api
  (transactions, permission checks, rows of an organisation) and Temporal (activity retries).

  The appliance:
  VeeamRest - connectors/veeam/rest.py and session_states.py: version negotiation, request bodies,
  response parsing, restore-point selection, ages, the readiness score. Selection is shown correct
  against its specification, the score bounded and monotone, the float age exact.
  VeeamClient - connectors/veeam/client.py: tokens, headers, retries; a state invariant.
  VCenter - connectors/vcenter: managed-object lookup, port groups, tasks, tools, screenshots. The
  polling loops take fuel; \<open>wait_for_task_returns\<close> and \<open>wait_for_tools_returns\<close> show 61 and
  31 polls enough when the clock advances as the sleeps say.
  Activities, Temporal, RecoveryTest - workflows/activities.py and recovery_test.py: what a result
  implies, which runs return one and which end in the TypeError of the failing log call, and that
  failing evidence capture skips teardown.
  RunbookWorkflow - workflows/runbook_workflow.py: which steps run and with which status.
  AuditChain - audit/chain.py: tamper evidence up to a hash collision between texts of the two logs,
  the round trip of sorted payloads, and why unsorted ones fail.
  Relay - relay/client.py.
  ThreatIntel - threat_intel/database.py: seeding, reading and syncing signatures; its table
  interprets \<open>upsert_table\<close>.
  ThreatScanner - threat_intel/scanner.py, yara_engine.py, dependency_scanner.py.

  The API:
  RunbookEngine, Runbooks - services/runbook_engine.py and routers/runbooks.py. The wave loop is
  written with the code's own bound of one iteration more than there are steps; it is shown never
  to be the reason for the error, and the waves sound and complete.
  ApplianceService - services/appliance.py and routers/appliances.py: the life cycle of runs,
  inventory sync (an interpretation of \<open>upsert_table\<close> gives idempotence), registration.
  Rbac, Team - services/rbac.py, auth.py, routers/team.py, routers/api_keys.py: no privilege without
  a role claim, ownership never granted; Team interprets \<open>tenant_handlers\<close>.
  RateLimit - rate_limit.py: a refinement of counting requests per key and window.
  Notifications - services/url_guard.py, services/notifications.py, services/notification_config.py's
  routes: the locales \<open>sender\<close> and \<open>quiet_sender\<close>, interpreted for breach notifications,
  report delivery and (in IncidentResponse) incident channels, give that only guarded addresses
  are reached and that channels do not disturb each other.
  ContinuousValidation, Scheduler - services/continuous_validation.py, its router, scheduler.py: the
  check verdicts, at most one open alert per policy and workload, alerts exactly on a full streak.
  ThreatAnalysis - services/threat_analysis.py, executive_report.py, readiness_scoring.py: the
  recommended restore point, the bounds of the scorecard, the weekly trend.
  IncidentResponse - services/incident_response.py and integrations/soar.py, siem.py, veeamone.py:
  every finding leaves one numbered incident whose flags its log accounts for.
  ThreatRoutes - routers/threat_intel.py and services/notification_config.py: what a submitted scan
  stores and triggers, the restore-point analysis, and that no channel the API can create switches
  an integration on. ThreatIsolation - isolation of organisations over all seven routes, up to the
  name space of scan_id they share (an interpretation of \<open>tenant_handlers\<close>).
  Sso - services/oidc.py and routers/sso.py: the authorization URL read back, no identity without
  claims the provider signed, the client secret write-only. PyJWT is the record \<open>oidc_library\<close>,
  its soundness a named hypothesis.
  Compliance - services/compliance_framework.py and its router: the score as a weighted percentage,
  and how a stranger's negative weights take it out of its range.
  Onboarding - services/onboarding.py and its router: the state machine of the wizard's session and
  its isolation (an interpretation of \<open>tenant_handlers\<close>).
  Integrations - services/integrations and routers/integrations.py: what validation accepts the
  connectors can send, where a dispatch may go, and the connector that the guard does not cover.

  Joins - the joins of appliances, workloads and runs the portal's routes share.
  Portal - routers/workloads.py, test_runs.py, portal_appliances.py, users.py: these routes refuse
  identifiers of other organisations, every request leaves their rows as they were, and what the roles and
  the response models get wrong.
  Dashboard - routers/readiness.py, executive.py, multicloud.py and services/executive_snapshot.py: the
  bounds of the numbers, the agreement of the two dashboards and of the provider breakdown, and
  what neither threats nor failing runs change.
  EvidenceFiles - services/report.py, false_positives.py, evidence_vault.py: where report paths lead,
  redaction, the round trip of suppression lists, what a bundle's manifest vouches for.
  Reports - routers/reports.py over Dashboard and EvidenceFiles: what a generated report records, how
  untimed failures are counted, which run an evidence bundle shows.
  Delivery - both services/delivery.py: independence of the recipients, the guard and the encryption
  of the API's copy and their absence from the appliance's.
  ReportSchedules - routers/report_schedules.py, the jobs of the running scheduler, which follow the
  rows only at a start of the process, and the appliance's workflows/report_schedule_workflow.py,
  whose fetching activity cannot succeed.
  AuditExport - routers/audit.py: the CSV export read back by a parser.
  Fleet - routers/fleet.py: what becomes of a bulk configuration.
  Mssp - services/mssp_billing.py, mssp_provisioning.py, routers/mssp.py: bills exact in spite of floats
  but over all workloads where the documentation says protected ones, and what they reveal.
  Connectors, HostConnectors, CloudConnectors - the appliance's connectors/*/client.py for Proxmox,
  XenServer, Sangfor, Nutanix, RHV, Hyper-V, AWS, Azure and Google Cloud: every operation, written over
  the contract of the locale connector_op, by which no operation raises and none reaches the platform
  without its handle. ProviderInventory runs detect_provider_vms over them and reads the platforms' documented
  answers independently: the inventory has one item per entry, and an outage reads as a platform
  without workloads.

  Bounds. \<open>repr\<close> of a float searches 400 decimal exponents and 17 digits, more than any double
  needs; \<open>show_digits\<close> and all other recursions terminate by a measure. Fuel occurs in VCenter
  only, where running out is a value of its own.

  Not modelled: the column widths of the database (a text longer than its column raises there)
  except where a report's dates and a schedule's name can exceed them, concurrency inside one
  handler (each request is atomic up to its commits), logging, and Unicode case mapping beyond
  ASCII. The components of PROJECT.json with status not_modelled say what else is left out:
  start-up and configuration, migrations and demo data, the prompts of the language-model insights,
  PDF rendering and the web portal.
\<close>

end
